(* ===== verification/Prelude.thy ===== *)
theory Prelude
  imports Main "HOL-Library.Word" "HOL-Library.Monad_Syntax"
begin

unbundle bit_operations_syntax

text \<open>
  Shared vocabulary of the development.
  \<^item> the fixed-width integer types of src/src/inc/std_types.h (the default 32-bit bus) and the
    return codes of src/src/inc/std_errno.h;
  \<^item> the reading of C's undefined behaviour: an operation that may access memory out of bounds
    returns an \<open>option\<close>, and \<open>None\<close> means that the C program has no defined
    behaviour there; an \<open>ASSERT\<close> that fails is \<open>None\<close> as well where the text
    of the operation says so;
  \<^item> little-endian views of byte buffers, the buffer read and write used for every
    \<open>memcpy\<close> and pointer cast, and the index-returning search that models the
    \<open>for\<close> loops that stop at the first hit.
  The collection \<open>buf_simps\<close> gathers the laws of buffer reads and writes, and
  \<open>search_simps\<close> the characterisations of searches.
\<close>

named_theorems buf_simps \<open>laws of buffer reads and writes\<close>
named_theorems search_simps \<open>characterisations of first-match searches\<close>

section \<open>Machine types\<close>

type_synonym uint8 = "8 word"
type_synonym uint16 = "16 word"
type_synonym uint32 = "32 word"
type_synonym uint64 = "64 word"
type_synonym AthrillAddrType = "32 word"
type_synonym CoreIdType = "32 word"

datatype Std_ReturnType =
    STD_E_OK | STD_E_DECODE | STD_E_EXEC | STD_E_SEGV
  | STD_E_INVALID | STD_E_NOENT | STD_E_LIMIT | STD_E_PERM

lemma unat_add_nowrap:
  "unat a + unat b < 2 ^ LENGTH('a) \<Longrightarrow> unat (a + b :: 'a::len word) = unat a + unat b"
  by (simp add: unat_word_ariths)

lemma unat_plus_one:
  fixes a b :: "'a::len word"
  assumes "unat a < unat b"
  shows "unat (a + 1) = Suc (unat a)"
proof -
  have "Suc (unat a) < 2 ^ LENGTH('a)"
    using assms unsigned_less [of b, where ?'a = nat] by linarith
  then show ?thesis by (subst unat_add_nowrap) simp_all
qed

lemma unat_ucast_up:
  assumes "LENGTH('a) \<le> LENGTH('b)"
  shows "unat (ucast (a :: 'a::len word) :: 'b::len word) = unat a"
proof -
  have "unat a < 2 ^ LENGTH('b)"
    using unsigned_less [of a, where ?'a = nat] power_increasing [OF assms, of "2 :: nat"]
    by (meson less_le_trans one_le_numeral)
  then show ?thesis by (simp add: unsigned_ucast_eq take_bit_nat_eq_self)
qed
section \<open>First-match searches\<close>

fun find_first :: "('a \<Rightarrow> bool) \<Rightarrow> 'a list \<Rightarrow> nat option" where
  "find_first P [] = None"
| "find_first P (x # xs) = (if P x then Some 0 else map_option Suc (find_first P xs))"

lemma find_first_Some_iff [search_simps]:
  "find_first P xs = Some i \<longleftrightarrow> i < length xs \<and> P (xs ! i) \<and> (\<forall>j<i. \<not> P (xs ! j))"
proof (induction xs arbitrary: i)
  case Nil
  then show ?case by simp
next
  case (Cons x xs)
  then show ?case
    by (cases i) (auto simp: less_Suc_eq_0_disj)
qed

lemma find_first_None_iff [search_simps]:
  "find_first P xs = None \<longleftrightarrow> (\<forall>x\<in>set xs. \<not> P x)"
  by (induction xs) auto

lemma find_first_Some_bound: "find_first P xs = Some i \<Longrightarrow> i < length xs"
  by (simp add: find_first_Some_iff)

lemma find_first_Some_prop: "find_first P xs = Some i \<Longrightarrow> P (xs ! i)"
  by (simp add: find_first_Some_iff)

lemma find_first_ex:
  "x \<in> set xs \<Longrightarrow> P x \<Longrightarrow> \<exists>i. find_first P xs = Some i"
  using find_first_None_iff [of P xs] by (cases "find_first P xs") auto

lemma find_first_unique:
  assumes "i < length xs" "P (xs ! i)" "\<And>j. j < length xs \<Longrightarrow> P (xs ! j) \<Longrightarrow> j = i"
  shows "find_first P xs = Some i"
proof -
  have "\<not> P (xs ! j)" if "j < i" for j
    using assms(3) [of j] assms(1) that by auto
  with assms(1,2) show ?thesis by (simp add: find_first_Some_iff)
qed

lemma find_first_append:
  "find_first P (xs @ ys) =
    (case find_first P xs of Some i \<Rightarrow> Some i
     | None \<Rightarrow> map_option (\<lambda>i. length xs + i) (find_first P ys))"
proof (induction xs)
  case Nil
  then show ?case by (cases "find_first P ys") auto
next
  case (Cons x xs)
  then show ?case
    by (cases "find_first P ys") (auto split: option.splits)
qed

section \<open>Buffers\<close>

text \<open>
  \<open>buf_read\<close> is the read of \<open>n\<close> bytes at an offset, \<open>buf_write\<close> the
  write of a byte string; both are undefined outside the buffer.
\<close>

definition buf_read :: "nat \<Rightarrow> nat \<Rightarrow> 'a list \<Rightarrow> 'a list option" where
  "buf_read off n xs = (if off + n \<le> length xs then Some (take n (drop off xs)) else None)"

definition buf_write :: "nat \<Rightarrow> 'a list \<Rightarrow> 'a list \<Rightarrow> 'a list option" where
  "buf_write off bs xs =
    (if off + length bs \<le> length xs
     then Some (take off xs @ bs @ drop (off + length bs) xs) else None)"

lemma buf_write_length [buf_simps]:
  "buf_write off bs xs = Some ys \<Longrightarrow> length ys = length xs"
  by (auto simp: buf_write_def split: if_splits)

lemma buf_read_length [buf_simps]:
  "buf_read off n xs = Some ys \<Longrightarrow> length ys = n"
  by (auto simp: buf_read_def split: if_splits)

lemma buf_read_Some_iff [buf_simps]:
  "buf_read off n xs = Some ys \<longleftrightarrow> off + n \<le> length xs \<and> ys = take n (drop off xs)"
  by (auto simp: buf_read_def)

lemma buf_read_one [buf_simps]:
  "off < length xs \<Longrightarrow> buf_read off (Suc 0) xs = Some [xs ! off]"
  by (simp add: buf_read_def take_Suc hd_drop_conv_nth)

lemma buf_read_write_same:
  "buf_write off bs xs = Some ys \<Longrightarrow> buf_read off (length bs) ys = Some bs"
  by (auto simp: buf_write_def buf_read_def split: if_splits)

lemma buf_write_nth:
  assumes "buf_write off bs xs = Some ys" "i < length xs"
  shows "ys ! i = (if off \<le> i \<and> i < off + length bs then bs ! (i - off) else xs ! i)"
proof -
  have le: "off + length bs \<le> length xs" and ys: "ys = take off xs @ bs @ drop (off + length bs) xs"
    using assms(1) by (simp_all add: buf_write_def split: if_splits)
  consider "i < off" | "off \<le> i" "i < off + length bs" | "off + length bs \<le> i" by linarith
  then show ?thesis
  proof cases
    case 1
    then show ?thesis using le by (simp add: ys nth_append)
  next
    case 2
    then have "i - off < length bs" by linarith
    with 2 show ?thesis using le by (simp add: ys nth_append)
  next
    case 3
    then have "\<not> i - off < length bs" by linarith
    with 3 show ?thesis using le assms(2) by (simp add: ys nth_append)
  qed
qed

lemma buf_read_write_other:
  assumes w: "buf_write off bs xs = Some ys"
    and d: "off' + n \<le> off \<or> off + length bs \<le> off'"
  shows "buf_read off' n ys = buf_read off' n xs"
proof -
  have len: "length ys = length xs" using w by (rule buf_write_length)
  have "take n (drop off' ys) = take n (drop off' xs)" if "off' + n \<le> length xs"
    using that d len by (intro nth_equalityI) (auto simp: buf_write_nth [OF w])
  then show ?thesis by (simp add: buf_read_def len)
qed

section \<open>Arrays\<close>

text \<open>Reading and writing one element of an array; undefined outside it.\<close>

definition index_at :: "'a list \<Rightarrow> nat \<Rightarrow> 'a option" where
  "index_at xs i = (if i < length xs then Some (xs ! i) else None)"

definition update_at :: "'a list \<Rightarrow> nat \<Rightarrow> 'a \<Rightarrow> 'a list option" where
  "update_at xs i x = (if i < length xs then Some (xs[i := x]) else None)"

lemma index_at_Some [simp]: "i < length xs \<Longrightarrow> index_at xs i = Some (xs ! i)"
  by (simp add: index_at_def)

lemma update_at_Some [simp]: "i < length xs \<Longrightarrow> update_at xs i x = Some (xs[i := x])"
  by (simp add: update_at_def)

lemma index_at_eq_Some_iff: "index_at xs i = Some x \<longleftrightarrow> i < length xs \<and> x = xs ! i"
  by (auto simp: index_at_def)

lemma update_at_eq_Some_iff: "update_at xs i x = Some ys \<longleftrightarrow> i < length xs \<and> ys = xs[i := x]"
  by (auto simp: update_at_def)

section \<open>Little-endian encoding\<close>

fun le_encode :: "nat \<Rightarrow> 'a::len word \<Rightarrow> uint8 list" where
  "le_encode 0 w = []"
| "le_encode (Suc n) w = ucast w # le_encode n (drop_bit 8 w)"

fun le_decode :: "uint8 list \<Rightarrow> 'a::len word" where
  "le_decode [] = 0"
| "le_decode (b # bs) = ucast b OR push_bit 8 (le_decode bs)"

lemma length_le_encode [simp]: "length (le_encode n w) = n"
  by (induction n arbitrary: w) auto

lemma le_decode_encode:
  "le_decode (le_encode n w) = take_bit (8 * n) (w :: 'a::len word)"
proof (induction n arbitrary: w)
  case 0
  then show ?case by simp
next
  case (Suc n)
  have "bit (ucast (ucast w :: uint8) OR push_bit 8 (take_bit (8 * n) (drop_bit 8 w))) k
      \<longleftrightarrow> bit (take_bit (8 * Suc n) w) k" if "k < LENGTH('a)" for k
  proof (cases "k < 8")
    case True
    with that show ?thesis by (simp add: bit_simps)
  next
    case False
    with that show ?thesis by (cases "bit w k") (simp_all add: bit_simps, arith)
  qed
  then show ?case by (intro bit_word_eqI) (simp add: Suc)
qed

lemma le_decode_encode_full:
  "LENGTH('a) \<le> 8 * n \<Longrightarrow> le_decode (le_encode n w) = (w :: 'a::len word)"
  by (simp add: le_decode_encode take_bit_word_eq_self)

end
