(* ===== verification/CommBuffer.thy ===== *)
theory CommBuffer
  imports Prelude
begin

text \<open>
  The byte FIFO of src/src/lib/comm_buffer.c: a ring buffer with a read and a write offset
  and a count. The state is the C struct; \<open>cf_data\<close> is \<open>None\<close> for the NULL
  pointer and otherwise the allocated bytes. Every operation returns \<open>None\<close> where
  the C code would access memory outside the allocation.

  The locale \<open>bounded_fifo\<close> is the interface other components use: a bounded queue
  of bytes with an abstraction to a list. Its multi-byte laws are proved once in the locale
  and hold for the ring buffer through the interpretation \<open>comm_fifo\<close>.
\<close>

section \<open>Model\<close>

record CommFifoBufferType =
  cf_max_size :: uint32
  cf_count :: uint32
  cf_rx_off :: uint32
  cf_tx_off :: uint32
  cf_data :: "uint8 list option"

text \<open>
  \<open>malloc\<close> is the host allocator: \<open>alloc\<close> is what it returned, \<open>None\<close>
  for NULL and otherwise a block of the requested size with unspecified contents.
\<close>

definition comm_fifo_buffer_create ::
  "uint32 \<Rightarrow> uint8 list option \<Rightarrow> CommFifoBufferType option
    \<Rightarrow> Std_ReturnType \<times> CommFifoBufferType option" where
  "comm_fifo_buffer_create sz alloc fifop =
    (case fifop of
       None \<Rightarrow> (STD_E_INVALID, None)
     | Some f \<Rightarrow>
        (case alloc of
           None \<Rightarrow> (STD_E_LIMIT, Some (f\<lparr>cf_data := None\<rparr>))
         | Some blk \<Rightarrow>
            (STD_E_OK, Some (f\<lparr>cf_data := Some blk, cf_max_size := sz, cf_count := 0,
                              cf_rx_off := 0, cf_tx_off := 0\<rparr>))))"

definition fifo_buffer_add ::
  "CommFifoBufferType \<Rightarrow> uint8 \<Rightarrow> (Std_ReturnType \<times> CommFifoBufferType) option" where
  "fifo_buffer_add f d =
    (if cf_count f \<ge> cf_max_size f then Some (STD_E_LIMIT, f)
     else do {
       xs \<leftarrow> cf_data f;
       xs' \<leftarrow> buf_write (unat (cf_tx_off f)) [d] xs;
       let tx = cf_tx_off f + 1;
       Some (STD_E_OK, f\<lparr>cf_data := Some xs',
                         cf_tx_off := (if tx \<ge> cf_max_size f then 0 else tx),
                         cf_count := cf_count f + 1\<rparr>)
     })"

text \<open>The result is the return code, the counter \<open>*res\<close> and the buffer.\<close>

fun comm_fifo_add_loop ::
  "CommFifoBufferType \<Rightarrow> uint8 list \<Rightarrow> uint32
    \<Rightarrow> (Std_ReturnType \<times> uint32 \<times> CommFifoBufferType) option" where
  "comm_fifo_add_loop f [] res = Some (STD_E_OK, res, f)"
| "comm_fifo_add_loop f (d # ds) res =
    (case fifo_buffer_add f d of
       None \<Rightarrow> None
     | Some (err, f') \<Rightarrow>
        (if err \<noteq> STD_E_OK then Some (err, res, f')
         else comm_fifo_add_loop f' ds (res + 1)))"

definition comm_fifo_buffer_add ::
  "CommFifoBufferType \<Rightarrow> uint8 list \<Rightarrow> (Std_ReturnType \<times> uint32 \<times> CommFifoBufferType) option" where
  "comm_fifo_buffer_add f ds =
    (if cf_count f \<ge> cf_max_size f then Some (STD_E_LIMIT, 0, f)
     else comm_fifo_add_loop f ds 0)"

definition fifo_buffer_get ::
  "CommFifoBufferType \<Rightarrow> (Std_ReturnType \<times> uint8 option \<times> CommFifoBufferType) option" where
  "fifo_buffer_get f =
    (if cf_count f = 0 then Some (STD_E_NOENT, None, f)
     else do {
       xs \<leftarrow> cf_data f;
       bs \<leftarrow> buf_read (unat (cf_rx_off f)) 1 xs;
       let rx = cf_rx_off f + 1;
       Some (STD_E_OK, Some (hd bs),
             f\<lparr>cf_rx_off := (if rx \<ge> cf_max_size f then 0 else rx),
               cf_count := cf_count f - 1\<rparr>)
     })"

text \<open>
  \<open>n\<close> counts the remaining iterations of the loop over \<open>datalen\<close>; \<open>out\<close>
  is the part of the caller's buffer written so far.
\<close>

fun comm_fifo_get_loop ::
  "CommFifoBufferType \<Rightarrow> nat \<Rightarrow> uint8 list \<Rightarrow> uint32
    \<Rightarrow> (Std_ReturnType \<times> uint8 list \<times> uint32 \<times> CommFifoBufferType) option" where
  "comm_fifo_get_loop f 0 out res = Some (STD_E_OK, out, res, f)"
| "comm_fifo_get_loop f (Suc n) out res =
    (case fifo_buffer_get f of
       None \<Rightarrow> None
     | Some (err, d, f') \<Rightarrow>
        (if err \<noteq> STD_E_OK then Some (err, out, res, f')
         else comm_fifo_get_loop f' n (out @ (case d of None \<Rightarrow> [] | Some b \<Rightarrow> [b])) (res + 1)))"

definition comm_fifo_buffer_get ::
  "CommFifoBufferType \<Rightarrow> uint32
    \<Rightarrow> (Std_ReturnType \<times> uint8 list \<times> uint32 \<times> CommFifoBufferType) option" where
  "comm_fifo_buffer_get f datalen =
    (if cf_count f = 0 then Some (STD_E_NOENT, [], 0, f)
     else comm_fifo_get_loop f (unat datalen) [] 0)"

definition comm_fifo_buffer_close :: "CommFifoBufferType \<Rightarrow> CommFifoBufferType" where
  "comm_fifo_buffer_close f = f\<lparr>cf_count := 0, cf_rx_off := 0, cf_tx_off := 0\<rparr>"

definition comm_fifo_buffer_destroy :: "CommFifoBufferType \<Rightarrow> CommFifoBufferType" where
  "comm_fifo_buffer_destroy f =
    f\<lparr>cf_data := None, cf_max_size := 0, cf_count := 0, cf_rx_off := 0, cf_tx_off := 0\<rparr>"

definition COMM_FIFO_IS_EMPTY :: "CommFifoBufferType \<Rightarrow> bool" where
  "COMM_FIFO_IS_EMPTY f \<longleftrightarrow> cf_count f = 0"

definition COMM_FIFO_IS_FULL :: "CommFifoBufferType \<Rightarrow> bool" where
  "COMM_FIFO_IS_FULL f \<longleftrightarrow> cf_count f \<ge> cf_max_size f"

text \<open>The plain buffer of the same file: an allocation with its size.\<close>

record CommBufferType =
  cb_max_size :: uint32
  cb_data :: "uint8 list option"

definition comm_buffer_create ::
  "uint32 \<Rightarrow> uint8 list option \<Rightarrow> CommBufferType option \<Rightarrow> Std_ReturnType \<times> CommBufferType option" where
  "comm_buffer_create sz alloc bufferp =
    (case bufferp of
       None \<Rightarrow> (STD_E_INVALID, None)
     | Some b \<Rightarrow>
        (case alloc of
           None \<Rightarrow> (STD_E_LIMIT, Some (b\<lparr>cb_data := None\<rparr>))
         | Some blk \<Rightarrow> (STD_E_OK, Some \<lparr>cb_max_size = sz, cb_data = Some blk\<rparr>)))"

definition comm_buffer_destroy :: "CommBufferType option \<Rightarrow> CommBufferType option" where
  "comm_buffer_destroy = map_option (\<lambda>b. b\<lparr>cb_data := None, cb_max_size := 0\<rparr>)"

section \<open>Invariant and abstraction\<close>

definition fifo_inv :: "CommFifoBufferType \<Rightarrow> bool" where
  "fifo_inv f \<longleftrightarrow>
    (\<exists>xs. cf_data f = Some xs \<and> length xs = unat (cf_max_size f)) \<and>
    unat (cf_count f) \<le> unat (cf_max_size f) \<and>
    (0 < unat (cf_max_size f) \<longrightarrow> unat (cf_rx_off f) < unat (cf_max_size f)) \<and>
    (0 < unat (cf_max_size f) \<longrightarrow>
      unat (cf_tx_off f) = (unat (cf_rx_off f) + unat (cf_count f)) mod unat (cf_max_size f))"

definition fifo_list :: "CommFifoBufferType \<Rightarrow> uint8 list" where
  "fifo_list f =
    map (\<lambda>i. the (cf_data f) ! ((unat (cf_rx_off f) + i) mod unat (cf_max_size f)))
      [0..<unat (cf_count f)]"

lemma length_fifo_list [simp]: "length (fifo_list f) = unat (cf_count f)"
  by (simp add: fifo_list_def)

lemma fifo_list_nth:
  "i < unat (cf_count f) \<Longrightarrow>
    fifo_list f ! i = the (cf_data f) ! ((unat (cf_rx_off f) + i) mod unat (cf_max_size f))"
  by (simp add: fifo_list_def)

lemma fifo_inv_dataE:
  assumes "fifo_inv f"
  obtains xs where "cf_data f = Some xs" "length xs = unat (cf_max_size f)"
  using assms by (auto simp: fifo_inv_def)

lemma mod_step: "(m::nat) = n mod k \<Longrightarrow> 0 < k \<Longrightarrow> Suc n mod k = (if Suc m \<ge> k then 0 else Suc m)"
  by (metis mod_Suc mod_le_divisor order_class.order_eq_iff)

lemma add_mod_inj:
  assumes "(r + i) mod m = (r + j) mod m" "i < m" "j < m"
  shows "i = (j::nat)"
proof -
  have le: "a = b" if "a \<le> b" "b < m" "(r + a) mod m = (r + b) mod m" for a b
  proof -
    have "m dvd (r + b) - (r + a)" using that by (metis add_le_cancel_left mod_eq_dvd_iff_nat)
    then have "m dvd b - a" by simp
    then show ?thesis using that by (auto dest: dvd_imp_le)
  qed
  show ?thesis using assms le [of i j] le [of j i] by (cases "i \<le> j") auto
qed

lemma fifo_buffer_add_ok:
  assumes inv: "fifo_inv f" and room: "unat (cf_count f) < unat (cf_max_size f)"
  shows "\<exists>f'. fifo_buffer_add f d = Some (STD_E_OK, f') \<and> fifo_inv f' \<and>
    fifo_list f' = fifo_list f @ [d] \<and> cf_max_size f' = cf_max_size f"
proof -
  obtain xs where xs: "cf_data f = Some xs" "length xs = unat (cf_max_size f)"
    using inv by (rule fifo_inv_dataE)
  let ?m = "unat (cf_max_size f)" and ?t = "unat (cf_tx_off f)"
    and ?r = "unat (cf_rx_off f)" and ?c = "unat (cf_count f)"
  have tx: "?t = (?r + ?c) mod ?m" and rx: "?r < ?m" using inv room by (auto simp: fifo_inv_def)
  have t: "?t < ?m" using tx room by simp
  let ?xs = "take ?t xs @ [d] @ drop (Suc ?t) xs"
  let ?tx = "if cf_max_size f \<le> cf_tx_off f + 1 then 0 else cf_tx_off f + 1"
  let ?f = "f\<lparr>cf_data := Some ?xs, cf_tx_off := ?tx, cf_count := cf_count f + 1\<rparr>"
  have wr: "buf_write ?t [d] xs = Some ?xs" using t xs(2) by (simp add: buf_write_def)
  have eq: "fifo_buffer_add f d = Some (STD_E_OK, ?f)"
    using room xs(1) wr by (simp add: fifo_buffer_add_def word_le_nat_alt)
  have c': "unat (cf_count f + 1) = Suc ?c" using room by (rule unat_plus_one)
  have t': "unat ?tx = Suc (?r + ?c) mod ?m"
    using mod_step [OF tx] room unat_plus_one [OF t] by (auto simp: word_le_nat_alt)
  have inv': "fifo_inv ?f"
    using xs(2) t rx room c' t' by (auto simp: fifo_inv_def)
  have nth: "?xs ! j = (if j = ?t then d else xs ! j)" if "j < ?m" for j
    using buf_write_nth [OF wr, of j] that xs(2) by auto
  have "fifo_list ?f ! i = (fifo_list f @ [d]) ! i" if "i < Suc ?c" for i
  proof (cases "i = ?c")
    case True
    then show ?thesis using that c' nth [of ?t] t tx by (simp add: fifo_list_nth nth_append)
  next
    case False
    then have i: "i < ?c" using that by simp
    then have "(?r + i) mod ?m \<noteq> ?t" using add_mod_inj [of ?r i ?m ?c] tx room by auto
    then show ?thesis using i c' nth [of "(?r + i) mod ?m"] t xs(1)
      by (simp add: fifo_list_nth nth_append)
  qed
  then have "fifo_list ?f = fifo_list f @ [d]" by (intro nth_equalityI) (simp_all add: c')
  with eq inv' show ?thesis by (intro exI [of _ ?f]) simp
qed

lemma fifo_buffer_get_ok:
  assumes inv: "fifo_inv f" and ne: "cf_count f \<noteq> 0"
  shows "\<exists>f'. fifo_buffer_get f = Some (STD_E_OK, Some (hd (fifo_list f)), f') \<and> fifo_inv f' \<and>
    fifo_list f' = tl (fifo_list f) \<and> cf_max_size f' = cf_max_size f"
proof -
  obtain xs where xs: "cf_data f = Some xs" "length xs = unat (cf_max_size f)"
    using inv by (rule fifo_inv_dataE)
  let ?m = "unat (cf_max_size f)" and ?r = "unat (cf_rx_off f)" and ?c = "unat (cf_count f)"
  have c: "0 < ?c" using ne by (simp add: unat_gt_0)
  then have cm: "?c \<le> ?m" and m: "0 < ?m" and r: "?r < ?m" using inv by (auto simp: fifo_inv_def)
  let ?rx = "if cf_max_size f \<le> cf_rx_off f + 1 then 0 else cf_rx_off f + 1"
  let ?f = "f\<lparr>cf_rx_off := ?rx, cf_count := cf_count f - 1\<rparr>"
  have rd: "buf_read ?r 1 xs = Some [xs ! ?r]"
    using r xs(2) by (simp add: buf_read_def Cons_nth_drop_Suc [symmetric])
  have hd: "hd (fifo_list f) = xs ! ?r"
    using c r xs(1) fifo_list_nth [of 0 f] by (simp add: hd_conv_nth flip: length_greater_0_conv)
  have eq: "fifo_buffer_get f = Some (STD_E_OK, Some (hd (fifo_list f)), ?f)"
    using ne xs(1) rd by (simp add: fifo_buffer_get_def hd)
  have c': "unat (cf_count f - 1) = ?c - 1" using ne by (rule unat_minus_one)
  have r': "unat ?rx = Suc ?r mod ?m"
    using mod_step [of ?r ?r ?m] r m unat_plus_one [OF r] by (auto simp: word_le_nat_alt)
  have "(Suc ?r mod ?m + (?c - 1)) mod ?m = (Suc ?r + (?c - 1)) mod ?m"
    by (rule mod_add_left_eq)
  then have tx: "(Suc ?r mod ?m + (?c - 1)) mod ?m = (?r + ?c) mod ?m"
    using c by simp
  have inv': "fifo_inv ?f"
    using inv cm xs c' r' m tx by (auto simp: fifo_inv_def)
  have "fifo_list ?f = tl (fifo_list f)"
    by (intro nth_equalityI) (use c in \<open>simp_all add: c' r' fifo_list_nth nth_tl mod_add_left_eq\<close>)
  with eq inv' show ?thesis by (intro exI [of _ ?f]) simp
qed

section \<open>The interface: a bounded queue\<close>

text \<open>
  \<open>add_iter\<close> and \<open>get_iter\<close> repeat a one-element operation until it fails,
  counting what was moved; the C loops are instances of them.
\<close>

fun add_iter ::
  "('q \<Rightarrow> 'a \<Rightarrow> (Std_ReturnType \<times> 'q) option) \<Rightarrow> 'q \<Rightarrow> 'a list
    \<Rightarrow> (Std_ReturnType \<times> nat \<times> 'q) option" where
  "add_iter add q [] = Some (STD_E_OK, 0, q)"
| "add_iter add q (x # xs) =
    (case add q x of
       None \<Rightarrow> None
     | Some (err, q') \<Rightarrow>
        (if err \<noteq> STD_E_OK then Some (err, 0, q')
         else map_option (\<lambda>(e, n, q''). (e, Suc n, q'')) (add_iter add q' xs)))"

fun get_iter ::
  "('q \<Rightarrow> (Std_ReturnType \<times> 'a option \<times> 'q) option) \<Rightarrow> 'q \<Rightarrow> nat
    \<Rightarrow> (Std_ReturnType \<times> 'a list \<times> 'q) option" where
  "get_iter get q 0 = Some (STD_E_OK, [], q)"
| "get_iter get q (Suc n) =
    (case get q of
       None \<Rightarrow> None
     | Some (err, d, q') \<Rightarrow>
        (if err \<noteq> STD_E_OK then Some (err, [], q')
         else map_option (\<lambda>(e, xs, q''). (e, (case d of None \<Rightarrow> xs | Some x \<Rightarrow> x # xs), q''))
                (get_iter get q' n)))"

locale bounded_fifo =
  fixes inv :: "'q \<Rightarrow> bool"
    and contents :: "'q \<Rightarrow> 'a list"
    and capacity :: "'q \<Rightarrow> nat"
    and add :: "'q \<Rightarrow> 'a \<Rightarrow> (Std_ReturnType \<times> 'q) option"
    and get :: "'q \<Rightarrow> (Std_ReturnType \<times> 'a option \<times> 'q) option"
  assumes bounded: "inv q \<Longrightarrow> length (contents q) \<le> capacity q"
    and add_room: "inv q \<Longrightarrow> length (contents q) < capacity q \<Longrightarrow>
      \<exists>q'. add q x = Some (STD_E_OK, q') \<and> inv q' \<and> contents q' = contents q @ [x] \<and>
        capacity q' = capacity q"
    and add_full: "inv q \<Longrightarrow> length (contents q) = capacity q \<Longrightarrow> add q x = Some (STD_E_LIMIT, q)"
    and get_some: "inv q \<Longrightarrow> contents q \<noteq> [] \<Longrightarrow>
      \<exists>q'. get q = Some (STD_E_OK, Some (hd (contents q)), q') \<and> inv q' \<and>
        contents q' = tl (contents q) \<and> capacity q' = capacity q"
    and get_empty: "inv q \<Longrightarrow> contents q = [] \<Longrightarrow> get q = Some (STD_E_NOENT, None, q)"
begin

lemma add_iter_spec:
  assumes "inv q"
  defines "k \<equiv> \<lambda>q xs. min (length xs) (capacity q - length (contents q))"
  shows "\<exists>q'. add_iter add q xs =
      Some (if k q xs < length xs then STD_E_LIMIT else STD_E_OK, k q xs, q') \<and>
    inv q' \<and> contents q' = contents q @ take (k q xs) xs \<and> capacity q' = capacity q"
  using assms(1)
proof (induction xs arbitrary: q)
  case Nil
  then show ?case by (simp add: k_def)
next
  case (Cons x xs)
  show ?case
  proof (cases "length (contents q) < capacity q")
    case True
    then obtain q1 where q1: "add q x = Some (STD_E_OK, q1)" "inv q1"
        "contents q1 = contents q @ [x]" "capacity q1 = capacity q"
      using add_room [OF Cons.prems] by blast
    have k: "k q (x # xs) = Suc (k q1 xs)" using True q1 by (simp add: k_def)
    from Cons.IH [OF q1(2)] q1 k show ?thesis by auto
  next
    case False
    then have "length (contents q) = capacity q" using bounded [OF Cons.prems] by simp
    then show ?thesis using add_full [OF Cons.prems] Cons.prems by (simp add: k_def)
  qed
qed

lemma get_iter_spec:
  assumes "inv q"
  shows "\<exists>q'. get_iter get q n =
      Some (if length (contents q) < n then STD_E_NOENT else STD_E_OK, take n (contents q), q') \<and>
    inv q' \<and> contents q' = drop n (contents q) \<and> capacity q' = capacity q"
  using assms
proof (induction n arbitrary: q)
  case 0
  then show ?case by simp
next
  case (Suc n)
  show ?case
  proof (cases "contents q")
    case Nil
    then show ?thesis using get_empty [OF Suc.prems] Suc.prems by simp
  next
    case (Cons x xs)
    then obtain q1 where q1: "get q = Some (STD_E_OK, Some x, q1)" "inv q1"
        "contents q1 = xs" "capacity q1 = capacity q"
      using get_some [OF Suc.prems] by auto
    from Suc.IH [OF q1(2)] q1 Cons show ?thesis by auto
  qed
qed

text \<open>What is put into an empty queue with enough room comes out in the same order.\<close>

lemma fifo_order:
  assumes "inv q" "contents q = []" "length xs \<le> capacity q"
  shows "\<exists>q1 q2. add_iter add q xs = Some (STD_E_OK, length xs, q1) \<and>
    get_iter get q1 (length xs) = Some (STD_E_OK, xs, q2) \<and> contents q2 = []"
proof -
  from add_iter_spec [OF assms(1), of xs] assms(2,3) obtain q1 where
    q1: "add_iter add q xs = Some (STD_E_OK, length xs, q1)" "inv q1" "contents q1 = xs" by auto
  from get_iter_spec [OF q1(2), of "length xs"] q1(3) obtain q2 where
    "get_iter get q1 (length xs) = Some (STD_E_OK, xs, q2)" "contents q2 = []" by auto
  with q1(1) show ?thesis by blast
qed

end

interpretation comm_fifo: bounded_fifo fifo_inv fifo_list "\<lambda>f. unat (cf_max_size f)"
    fifo_buffer_add fifo_buffer_get
proof unfold_locales
  fix q :: CommFifoBufferType and x :: uint8
  assume inv: "fifo_inv q"
  show "length (fifo_list q) \<le> unat (cf_max_size q)" using inv by (simp add: fifo_inv_def)
  show "\<exists>q'. fifo_buffer_add q x = Some (STD_E_OK, q') \<and> fifo_inv q' \<and>
      fifo_list q' = fifo_list q @ [x] \<and> unat (cf_max_size q') = unat (cf_max_size q)"
    if "length (fifo_list q) < unat (cf_max_size q)"
    using fifo_buffer_add_ok [OF inv, of x] that by auto
  show "fifo_buffer_add q x = Some (STD_E_LIMIT, q)"
    if "length (fifo_list q) = unat (cf_max_size q)"
    using that by (simp add: fifo_buffer_add_def word_le_nat_alt)
  show "\<exists>q'. fifo_buffer_get q = Some (STD_E_OK, Some (hd (fifo_list q)), q') \<and> fifo_inv q' \<and>
      fifo_list q' = tl (fifo_list q) \<and> unat (cf_max_size q') = unat (cf_max_size q)"
    if "fifo_list q \<noteq> []"
    using fifo_buffer_get_ok [OF inv] that by (auto simp: fifo_list_def unat_gt_0)
  show "fifo_buffer_get q = Some (STD_E_NOENT, None, q)" if "fifo_list q = []"
    using that by (auto simp: fifo_list_def fifo_buffer_get_def unat_eq_zero)
qed

section \<open>The multi-byte operations\<close>

lemma comm_fifo_add_loop_iter:
  "comm_fifo_add_loop f ds res =
    map_option (\<lambda>(e, n, q). (e, res + of_nat n, q)) (add_iter fifo_buffer_add f ds)"
proof (induction ds arbitrary: f res)
  case Nil
  then show ?case by simp
next
  case (Cons d ds)
  show ?case
  proof (cases "fifo_buffer_add f d")
    case None
    then show ?thesis by simp
  next
    case (Some p)
    then show ?thesis
      by (cases p) (simp add: Cons.IH option.map_comp comp_def case_prod_beta add.assoc)
  qed
qed

lemma fifo_buffer_get_OK_data:
  "fifo_buffer_get f = Some (STD_E_OK, d, f') \<Longrightarrow> \<exists>b. d = Some b"
  by (auto simp: fifo_buffer_get_def Let_def split: if_splits bind_splits)

lemma comm_fifo_get_loop_iter:
  "comm_fifo_get_loop f n out res =
    map_option (\<lambda>(e, xs, q). (e, out @ xs, res + of_nat (length xs), q)) (get_iter fifo_buffer_get f n)"
proof (induction n arbitrary: f out res)
  case 0
  then show ?case by simp
next
  case (Suc n)
  show ?case
  proof (cases "fifo_buffer_get f")
    case None
    then show ?thesis by simp
  next
    case (Some p)
    obtain err d f' where p: "p = (err, d, f')" by (cases p)
    show ?thesis
    proof (cases "err = STD_E_OK")
      case True
      then obtain b where "d = Some b" using fifo_buffer_get_OK_data Some p by blast
      with True Some p show ?thesis
        by (simp add: Suc.IH option.map_comp comp_def case_prod_beta add.assoc)
    next
      case False
      with Some p show ?thesis by simp
    qed
  qed
qed

lemma fifo_create_inv:
  assumes "length blk = unat sz"
  shows "\<exists>f'. comm_fifo_buffer_create sz (Some blk) (Some f) = (STD_E_OK, Some f') \<and>
    fifo_inv f' \<and> fifo_list f' = [] \<and> cf_max_size f' = sz"
  using assms by (simp add: comm_fifo_buffer_create_def fifo_inv_def fifo_list_def)

text \<open>
  C1: \<open>comm_fifo_buffer_add\<close> on a well-formed FIFO never touches memory outside its
  buffer and appends exactly as many bytes as fit: the count \<open>*res\<close> is the number of
  bytes that were stored, the stored bytes are a prefix of the input in order behind what was
  queued before, and the code is STD_E_LIMIT precisely when the FIFO was full or became full
  before all bytes were stored.
\<close>

theorem comm_fifo_buffer_add_refines:
  assumes "fifo_inv f"
  shows "let room = unat (cf_max_size f) - unat (cf_count f); k = min (length ds) room in
    \<exists>f'. comm_fifo_buffer_add f ds =
      Some (if room = 0 \<or> k < length ds then STD_E_LIMIT else STD_E_OK, of_nat k, f') \<and>
    fifo_inv f' \<and> fifo_list f' = fifo_list f @ take k ds \<and> cf_max_size f' = cf_max_size f"
proof (cases "unat (cf_max_size f) \<le> unat (cf_count f)")
  case True
  then show ?thesis using assms by (simp add: comm_fifo_buffer_add_def word_le_nat_alt)
next
  case False
  from comm_fifo.add_iter_spec [OF assms, of ds] obtain f' where f':
    "add_iter fifo_buffer_add f ds =
      Some (if min (length ds) (unat (cf_max_size f) - unat (cf_count f)) < length ds
            then STD_E_LIMIT else STD_E_OK,
            min (length ds) (unat (cf_max_size f) - unat (cf_count f)), f')"
    "fifo_inv f'"
    "fifo_list f' = fifo_list f @ take (min (length ds) (unat (cf_max_size f) - unat (cf_count f))) ds"
    "unat (cf_max_size f') = unat (cf_max_size f)"
    by auto
  have "cf_max_size f' = cf_max_size f" using f'(4) by (simp only: word_unat_eq_iff)
  moreover have "comm_fifo_buffer_add f ds = comm_fifo_add_loop f ds 0"
    using False by (simp add: comm_fifo_buffer_add_def word_le_nat_alt)
  ultimately show ?thesis using False f'(1-3) by (simp add: Let_def comm_fifo_add_loop_iter)
qed

theorem comm_fifo_buffer_add_refines_witness:
  "\<exists>f'. comm_fifo_buffer_add \<lparr>cf_max_size = 2, cf_count = 1, cf_rx_off = 1, cf_tx_off = 0,
      cf_data = Some [0, 7]\<rparr> [8, 9] = Some (STD_E_LIMIT, 1, f') \<and> fifo_list f' = [7, 8]"
proof -
  let ?f = "\<lparr>cf_max_size = 2, cf_count = 1, cf_rx_off = 1, cf_tx_off = 0, cf_data = Some [0, 7]\<rparr>"
  have "fifo_inv ?f" and "fifo_list ?f = [7]" by (simp_all add: fifo_inv_def fifo_list_def)
  with comm_fifo_buffer_add_refines [of ?f "[8, 9]"] show ?thesis by (simp add: Let_def) blast
qed

text \<open>
  C2: \<open>comm_fifo_buffer_get\<close> on a well-formed FIFO removes exactly the first
  \<open>datalen\<close> queued bytes, or all of them if there are fewer, and hands them over in
  order; the code is STD_E_NOENT precisely when the FIFO was empty or ran out before
  \<open>datalen\<close> bytes, in which case the bytes that were there have been delivered.
\<close>

theorem comm_fifo_buffer_get_refines:
  assumes "fifo_inv f"
  shows "\<exists>f'. comm_fifo_buffer_get f n =
      Some (if cf_count f = 0 \<or> unat (cf_count f) < unat n then STD_E_NOENT else STD_E_OK,
            take (unat n) (fifo_list f), of_nat (min (unat n) (unat (cf_count f))), f') \<and>
    fifo_inv f' \<and> fifo_list f' = drop (unat n) (fifo_list f) \<and> cf_max_size f' = cf_max_size f"
proof (cases "cf_count f = 0")
  case True
  then show ?thesis using assms by (simp add: comm_fifo_buffer_get_def fifo_list_def)
next
  case False
  from comm_fifo.get_iter_spec [OF assms, of "unat n"] obtain f' where f':
    "get_iter fifo_buffer_get f (unat n) =
      Some (if unat (cf_count f) < unat n then STD_E_NOENT else STD_E_OK, take (unat n) (fifo_list f), f')"
    "fifo_inv f'" "fifo_list f' = drop (unat n) (fifo_list f)"
    "unat (cf_max_size f') = unat (cf_max_size f)"
    by auto
  have "cf_max_size f' = cf_max_size f" using f'(4) by (simp only: word_unat_eq_iff)
  then show ?thesis using False f'(1-3)
    by (simp add: comm_fifo_buffer_get_def comm_fifo_get_loop_iter min.commute)
qed

theorem comm_fifo_buffer_get_refines_witness:
  "\<exists>f'. comm_fifo_buffer_get \<lparr>cf_max_size = 2, cf_count = 2, cf_rx_off = 1, cf_tx_off = 1,
      cf_data = Some [9, 7]\<rparr> 1 = Some (STD_E_OK, [7], 1, f') \<and> fifo_list f' = [9]"
proof -
  let ?f = "\<lparr>cf_max_size = 2, cf_count = 2, cf_rx_off = 1, cf_tx_off = 1, cf_data = Some [9, 7]\<rparr>"
  have "fifo_inv ?f" and "fifo_list ?f = [7, 9]"
    by (simp_all add: fifo_inv_def fifo_list_def upt_rec)
  with comm_fifo_buffer_get_refines [of ?f 1] show ?thesis by simp blast
qed

lemma comm_fifo_close_empties:
  "fifo_inv f \<Longrightarrow> fifo_inv (comm_fifo_buffer_close f) \<and> fifo_list (comm_fifo_buffer_close f) = []"
  by (auto simp: fifo_inv_def comm_fifo_buffer_close_def fifo_list_def)

text \<open>After \<open>destroy\<close> the freed memory is never touched: adds and gets fail at once.\<close>

lemma comm_fifo_destroyed_is_safe:
  "comm_fifo_buffer_add (comm_fifo_buffer_destroy f) ds = Some (STD_E_LIMIT, 0, comm_fifo_buffer_destroy f) \<and>
   comm_fifo_buffer_get (comm_fifo_buffer_destroy f) n = Some (STD_E_NOENT, [], 0, comm_fifo_buffer_destroy f)"
  by (simp add: comm_fifo_buffer_add_def comm_fifo_buffer_get_def comm_fifo_buffer_destroy_def)

end
