(* ===== verification/Mpu.thy ===== *)
theory Mpu
  imports Prelude
begin

text \<open>
  The address map and the bus access operations of src/src/device/mpu/mpu.c.

  \<^item> A region is the C struct; its \<open>data\<close> pointer is \<open>None\<close> for NULL or a
    pointer (block, offset) into the host heap, a list of allocated blocks. Two regions may
    point into one block, as an MMAP line or an external device may make them.
  \<^item> A region's \<open>ops\<close> is the default memory table or the table of a device. Device
    tables are code of targets and of external-device libraries, which is not part of this
    repository: \<open>env_dev\<close> is the parameter that stands for them, \<open>env_perm\<close>
    the parameter for the target's \<open>cpu_has_permission\<close>.
  \<^item> The functions with a static \<open>previous_index\<close> keep it in the state
    (\<open>mpu_prev_w\<close> of \<open>search_region\<close>, \<open>mpu_prev_r\<close> of
    \<open>search_region_r\<close>). \<open>mpu_exdevs\<close> is the list of
    src/src/device/peripheral/athrill_device.c, as pairs of a device and the index of its region.
  \<^item> An access outside a host block is \<open>None\<close>. Messages on the standard output
    are not modelled. Hosts are little-endian and allow unaligned 16- and 32-bit accesses,
    as every platform of the README does.
\<close>

section \<open>Data\<close>

datatype MpuAddressRegionEnumType =
    READONLY_MEMORY | GLOBAL_MEMORY | LOCAL_MEMORY | PRIVATE_MEMORY | DEVICE | REGION_UNKNOWN

datatype MpuAddressGetType =
    MpuAddressGetType_ROM | MpuAddressGetType_RAM | MpuAddressGetType_MMAP
  | MpuAddressGetType_MALLOC

datatype CpuMemoryAccessType = CpuMemoryAccess_READ | CpuMemoryAccess_WRITE

type_synonym hptr = "nat \<times> nat"
type_synonym host = "uint8 list list"

datatype MpuOps = default_memory_operation | device_operation nat

record MpuAddressRegionType =
  rg_type :: MpuAddressRegionEnumType
  rg_is_malloc :: bool
  rg_permission :: uint32
  rg_start :: AthrillAddrType
  rg_size :: AthrillAddrType
  rg_mask :: AthrillAddrType
  rg_data :: "hptr option"
  rg_ops :: MpuOps

abbreviation (input) MPU_ADDRESS_REGION_MASK_ALL :: AthrillAddrType where
  "MPU_ADDRESS_REGION_MASK_ALL \<equiv> 0xFFFFFFFF"

abbreviation (input) MPU_ADDRESS_REGION_PERM_ALL :: uint32 where
  "MPU_ADDRESS_REGION_PERM_ALL \<equiv> 0xFFFFFFFF"

text \<open>
  The table of function pointers of a device; an entry may be NULL. A getter receives the old
  value of \<open>*data\<close>, since it may leave it unset.
\<close>

type_synonym ('d, 'v) dev_get =
  "MpuAddressRegionType \<Rightarrow> CoreIdType \<Rightarrow> AthrillAddrType \<Rightarrow> 'v \<Rightarrow> 'd \<times> host
    \<Rightarrow> Std_ReturnType \<times> 'v \<times> 'd \<times> host"
type_synonym ('d, 'v) dev_put =
  "MpuAddressRegionType \<Rightarrow> CoreIdType \<Rightarrow> AthrillAddrType \<Rightarrow> 'v \<Rightarrow> 'd \<times> host
    \<Rightarrow> Std_ReturnType \<times> 'd \<times> host"

record 'd MpuAddressRegionOperationType =
  op_get_data8 :: "('d, uint8) dev_get option"
  op_get_data16 :: "('d, uint16) dev_get option"
  op_get_data32 :: "('d, uint32) dev_get option"
  op_put_data8 :: "('d, uint8) dev_put option"
  op_put_data16 :: "('d, uint16) dev_put option"
  op_put_data32 :: "('d, uint32) dev_put option"
  op_get_pointer :: "(MpuAddressRegionType \<Rightarrow> CoreIdType \<Rightarrow> AthrillAddrType
    \<Rightarrow> Std_ReturnType \<times> hptr option) option"

record 'd mpu_env =
  env_perm :: "CoreIdType \<Rightarrow> MpuAddressRegionEnumType \<Rightarrow> CpuMemoryAccessType
    \<Rightarrow> AthrillAddrType \<Rightarrow> AthrillAddrType \<Rightarrow> bool"
  env_dev :: "nat \<Rightarrow> 'd MpuAddressRegionOperationType"

record 'd mpu_state =
  mpu_map :: "MpuAddressRegionType list"
  mpu_dynamic_map :: "MpuAddressRegionType list"
  mpu_prev_w :: int
  mpu_prev_r :: int
  mpu_host :: host
  mpu_dev :: 'd
  mpu_exdevs :: "(nat \<times> nat) list"

datatype region_ref = Dynamic nat | Static nat

fun region_at :: "'d mpu_state \<Rightarrow> region_ref \<Rightarrow> MpuAddressRegionType" where
  "region_at s (Dynamic i) = mpu_dynamic_map s ! i"
| "region_at s (Static i) = mpu_map s ! i"

section \<open>The host heap\<close>

definition host_read :: "host \<Rightarrow> hptr \<Rightarrow> nat \<Rightarrow> uint8 list option" where
  "host_read h p n = (case p of (b, off) \<Rightarrow> if b < length h then buf_read off n (h ! b) else None)"

definition host_write :: "host \<Rightarrow> hptr \<Rightarrow> uint8 list \<Rightarrow> host option" where
  "host_write h p bs =
    (case p of (b, off) \<Rightarrow>
      if b < length h then map_option (\<lambda>blk. h[b := blk]) (buf_write off bs (h ! b)) else None)"

definition ptr_add :: "hptr \<Rightarrow> nat \<Rightarrow> hptr" where
  "ptr_add p n = (fst p, snd p + n)"

section \<open>Region search\<close>

definition region_covers :: "MpuAddressRegionType \<Rightarrow> AthrillAddrType \<Rightarrow> AthrillAddrType \<Rightarrow> bool" where
  "region_covers r addr search_size =
    (let start = rg_start r; end' = start + rg_size r;
         paddr_str = addr AND rg_mask r; paddr_end = paddr_str + search_size
     in (start \<le> paddr_str \<and> paddr_str < end') \<and> (start < paddr_end \<and> paddr_end \<le> end'))"

definition previous_region_covers ::
  "'d mpu_state \<Rightarrow> int \<Rightarrow> AthrillAddrType \<Rightarrow> AthrillAddrType \<Rightarrow> nat option" where
  "previous_region_covers s previous addr search_size =
    (if previous < 0 \<or> nat previous \<ge> length (mpu_dynamic_map s) then None
     else let region = mpu_dynamic_map s ! nat previous
          in if rg_data region = None \<or> \<not> region_covers region addr search_size then None
             else Some (nat previous))"

text \<open>
  The two loops of \<open>search_region\<close>, which are the whole function when
  SEARCH_REGION_OPTIMIZE is not defined. A dynamic region that covers the access but has no
  memory yet ends the search without a result.
\<close>

definition search_region_loops ::
  "'d mpu_state \<Rightarrow> AthrillAddrType \<Rightarrow> AthrillAddrType \<Rightarrow> region_ref option" where
  "search_region_loops s addr search_size =
    (case find_first (\<lambda>r. region_covers r addr search_size) (mpu_dynamic_map s) of
       Some i \<Rightarrow> (if rg_data (mpu_dynamic_map s ! i) = None then None else Some (Dynamic i))
     | None \<Rightarrow> map_option Static (find_first (\<lambda>r. region_covers r addr search_size) (mpu_map s)))"

definition search_region_from ::
  "'d mpu_state \<Rightarrow> int \<Rightarrow> AthrillAddrType \<Rightarrow> AthrillAddrType \<Rightarrow> region_ref option \<times> int" where
  "search_region_from s previous addr search_size =
    (case previous_region_covers s previous addr search_size of
       Some i \<Rightarrow> (Some (Dynamic i), previous)
     | None \<Rightarrow>
        (case search_region_loops s addr search_size of
           Some (Dynamic i) \<Rightarrow> (Some (Dynamic i), int i)
         | res \<Rightarrow> (res, previous)))"

definition search_region ::
  "'d mpu_state \<Rightarrow> AthrillAddrType \<Rightarrow> AthrillAddrType \<Rightarrow> region_ref option \<times> 'd mpu_state" where
  "search_region s addr search_size =
    (let (res, p) = search_region_from s (mpu_prev_w s) addr search_size
     in (res, s\<lparr>mpu_prev_w := p\<rparr>))"

definition search_region_r ::
  "'d mpu_state \<Rightarrow> AthrillAddrType \<Rightarrow> AthrillAddrType \<Rightarrow> region_ref option \<times> 'd mpu_state" where
  "search_region_r s addr search_size =
    (let (res, p) = search_region_from s (mpu_prev_r s) addr search_size
     in (res, s\<lparr>mpu_prev_r := p\<rparr>))"

definition mpu_address_search_region ::
  "'d mpu_state \<Rightarrow> AthrillAddrType \<Rightarrow> AthrillAddrType \<Rightarrow> nat option" where
  "mpu_address_search_region s addr sz =
    find_first (\<lambda>r. region_covers r addr sz) (mpu_dynamic_map s)"

section \<open>The default memory operations\<close>

definition memory_get :: "nat \<Rightarrow> MpuAddressRegionType \<Rightarrow> AthrillAddrType \<Rightarrow> host \<Rightarrow> 'v::len word option" where
  "memory_get n region addr h = do {
     p \<leftarrow> rg_data region;
     let off = addr - rg_start region;
     bs \<leftarrow> host_read h (ptr_add p (unat off)) n;
     Some (le_decode bs)
   }"

definition memory_put ::
  "nat \<Rightarrow> MpuAddressRegionType \<Rightarrow> AthrillAddrType \<Rightarrow> 'v::len word \<Rightarrow> host \<Rightarrow> host option" where
  "memory_put n region addr v h = do {
     p \<leftarrow> rg_data region;
     let off = addr - rg_start region;
     host_write h (ptr_add p (unat off)) (le_encode n v)
   }"

definition memory_get_data8 :: "MpuAddressRegionType \<Rightarrow> AthrillAddrType \<Rightarrow> host \<Rightarrow> uint8 option" where
  "memory_get_data8 = memory_get 1"

definition memory_get_data16 :: "MpuAddressRegionType \<Rightarrow> AthrillAddrType \<Rightarrow> host \<Rightarrow> uint16 option" where
  "memory_get_data16 = memory_get 2"

definition memory_get_data32 :: "MpuAddressRegionType \<Rightarrow> AthrillAddrType \<Rightarrow> host \<Rightarrow> uint32 option" where
  "memory_get_data32 = memory_get 4"

definition memory_put_data8 :: "MpuAddressRegionType \<Rightarrow> AthrillAddrType \<Rightarrow> uint8 \<Rightarrow> host \<Rightarrow> host option" where
  "memory_put_data8 = memory_put 1"

definition memory_put_data16 :: "MpuAddressRegionType \<Rightarrow> AthrillAddrType \<Rightarrow> uint16 \<Rightarrow> host \<Rightarrow> host option" where
  "memory_put_data16 = memory_put 2"

definition memory_put_data32 :: "MpuAddressRegionType \<Rightarrow> AthrillAddrType \<Rightarrow> uint32 \<Rightarrow> host \<Rightarrow> host option" where
  "memory_put_data32 = memory_put 4"

definition memory_get_pointer :: "MpuAddressRegionType \<Rightarrow> AthrillAddrType \<Rightarrow> hptr option" where
  "memory_get_pointer region addr =
    map_option (\<lambda>p. ptr_add p (unat (addr - rg_start region))) (rg_data region)"

section \<open>Bus accesses\<close>

text \<open>
  The common bodies of \<open>mpu_get_data8/16/32\<close> and \<open>mpu_put_data8/16/32\<close>: the
  three functions of each kind differ in the width, the entry of the operation table and the
  default operation only.
\<close>

definition mpu_get_with ::
  "('d MpuAddressRegionOperationType \<Rightarrow> ('d, 'v) dev_get option)
    \<Rightarrow> (MpuAddressRegionType \<Rightarrow> AthrillAddrType \<Rightarrow> host \<Rightarrow> 'v option) \<Rightarrow> AthrillAddrType
    \<Rightarrow> 'd mpu_env \<Rightarrow> CoreIdType \<Rightarrow> AthrillAddrType \<Rightarrow> 'v \<Rightarrow> 'd mpu_state
    \<Rightarrow> (Std_ReturnType \<times> 'v \<times> 'd mpu_state) option" where
  "mpu_get_with op def_op width env core_id addr data s =
    (case search_region_r s addr width of
       (None, s1) \<Rightarrow> Some (STD_E_SEGV, data, s1)
     | (Some ref, s1) \<Rightarrow>
        (let region = region_at s ref; paddr = addr AND rg_mask region;
             ok = env_perm env core_id (rg_type region) CpuMemoryAccess_READ addr width
         in case rg_ops region of
              default_memory_operation \<Rightarrow>
                (if \<not> ok then Some (STD_E_SEGV, data, s1)
                 else map_option (\<lambda>v. (STD_E_OK, v, s1)) (def_op region paddr (mpu_host s1)))
            | device_operation d \<Rightarrow>
                (case op (env_dev env d) of
                   None \<Rightarrow> Some (STD_E_SEGV, data, s1)
                 | Some g \<Rightarrow>
                    (if \<not> ok then Some (STD_E_SEGV, data, s1)
                     else let (err, v, ds, h) = g region core_id paddr data (mpu_dev s1, mpu_host s1)
                          in Some (err, v, s1\<lparr>mpu_dev := ds, mpu_host := h\<rparr>)))))"

definition mpu_put_with ::
  "('d MpuAddressRegionOperationType \<Rightarrow> ('d, 'v) dev_put option)
    \<Rightarrow> (MpuAddressRegionType \<Rightarrow> AthrillAddrType \<Rightarrow> 'v \<Rightarrow> host \<Rightarrow> host option) \<Rightarrow> AthrillAddrType
    \<Rightarrow> 'd mpu_env \<Rightarrow> CoreIdType \<Rightarrow> AthrillAddrType \<Rightarrow> 'v \<Rightarrow> 'd mpu_state
    \<Rightarrow> (Std_ReturnType \<times> 'd mpu_state) option" where
  "mpu_put_with op def_op width env core_id addr data s =
    (case search_region s addr width of
       (None, s1) \<Rightarrow> Some (STD_E_SEGV, s1)
     | (Some ref, s1) \<Rightarrow>
        (let region = region_at s ref; paddr = addr AND rg_mask region;
             ok = env_perm env core_id (rg_type region) CpuMemoryAccess_WRITE addr width
         in case rg_ops region of
              default_memory_operation \<Rightarrow>
                (if rg_type region = READONLY_MEMORY then Some (STD_E_SEGV, s1)
                 else if \<not> ok then Some (STD_E_SEGV, s1)
                 else map_option (\<lambda>h. (STD_E_OK, s1\<lparr>mpu_host := h\<rparr>))
                        (def_op region paddr data (mpu_host s1)))
            | device_operation d \<Rightarrow>
                (case op (env_dev env d) of
                   None \<Rightarrow> Some (STD_E_SEGV, s1)
                 | Some p \<Rightarrow>
                    (if rg_type region = READONLY_MEMORY then Some (STD_E_SEGV, s1)
                     else if \<not> ok then Some (STD_E_SEGV, s1)
                     else let (err, ds, h) = p region core_id paddr data (mpu_dev s1, mpu_host s1)
                          in Some (err, s1\<lparr>mpu_dev := ds, mpu_host := h\<rparr>)))))"

definition mpu_get_data8 ::
  "'d mpu_env \<Rightarrow> CoreIdType \<Rightarrow> AthrillAddrType \<Rightarrow> uint8 \<Rightarrow> 'd mpu_state
    \<Rightarrow> (Std_ReturnType \<times> uint8 \<times> 'd mpu_state) option" where
  "mpu_get_data8 = mpu_get_with op_get_data8 memory_get_data8 1"

definition mpu_get_data16 ::
  "'d mpu_env \<Rightarrow> CoreIdType \<Rightarrow> AthrillAddrType \<Rightarrow> uint16 \<Rightarrow> 'd mpu_state
    \<Rightarrow> (Std_ReturnType \<times> uint16 \<times> 'd mpu_state) option" where
  "mpu_get_data16 = mpu_get_with op_get_data16 memory_get_data16 2"

definition mpu_get_data32 ::
  "'d mpu_env \<Rightarrow> CoreIdType \<Rightarrow> AthrillAddrType \<Rightarrow> uint32 \<Rightarrow> 'd mpu_state
    \<Rightarrow> (Std_ReturnType \<times> uint32 \<times> 'd mpu_state) option" where
  "mpu_get_data32 = mpu_get_with op_get_data32 memory_get_data32 4"

definition mpu_put_data8 ::
  "'d mpu_env \<Rightarrow> CoreIdType \<Rightarrow> AthrillAddrType \<Rightarrow> uint8 \<Rightarrow> 'd mpu_state
    \<Rightarrow> (Std_ReturnType \<times> 'd mpu_state) option" where
  "mpu_put_data8 = mpu_put_with op_put_data8 memory_put_data8 1"

definition mpu_put_data16 ::
  "'d mpu_env \<Rightarrow> CoreIdType \<Rightarrow> AthrillAddrType \<Rightarrow> uint16 \<Rightarrow> 'd mpu_state
    \<Rightarrow> (Std_ReturnType \<times> 'd mpu_state) option" where
  "mpu_put_data16 = mpu_put_with op_put_data16 memory_put_data16 2"

definition mpu_put_data32 ::
  "'d mpu_env \<Rightarrow> CoreIdType \<Rightarrow> AthrillAddrType \<Rightarrow> uint32 \<Rightarrow> 'd mpu_state
    \<Rightarrow> (Std_ReturnType \<times> 'd mpu_state) option" where
  "mpu_put_data32 = mpu_put_with op_put_data32 memory_put_data32 4"

definition mpu_get_pointer ::
  "'d mpu_env \<Rightarrow> CoreIdType \<Rightarrow> AthrillAddrType \<Rightarrow> 'd mpu_state
    \<Rightarrow> (Std_ReturnType \<times> hptr option \<times> 'd mpu_state) option" where
  "mpu_get_pointer env core_id addr s =
    (case search_region s addr 1 of
       (None, s1) \<Rightarrow> Some (STD_E_SEGV, None, s1)
     | (Some ref, s1) \<Rightarrow>
        (let region = region_at s ref; paddr = addr AND rg_mask region
         in case rg_ops region of
              default_memory_operation \<Rightarrow>
                map_option (\<lambda>p. (STD_E_OK, Some p, s1)) (memory_get_pointer region paddr)
            | device_operation d \<Rightarrow>
                (case op_get_pointer (env_dev env d) of
                   None \<Rightarrow> Some (STD_E_INVALID, None, s1)
                 | Some g \<Rightarrow> let (err, p) = g region core_id paddr in Some (err, p, s1))))"

section \<open>Direct host access\<close>

definition is_memory_window :: "MpuAddressRegionType \<Rightarrow> bool" where
  "is_memory_window region \<longleftrightarrow>
    rg_data region \<noteq> None \<and> rg_ops region = default_memory_operation \<and>
    rg_mask region = MPU_ADDRESS_REGION_MASK_ALL \<and>
    (rg_type region = GLOBAL_MEMORY \<or> rg_type region = READONLY_MEMORY)"

text \<open>The results of \<open>mpu_get_memory_window\<close>: start, size, pointer and writability.\<close>

definition mpu_get_memory_window ::
  "AthrillAddrType \<Rightarrow> 'd mpu_state
    \<Rightarrow> (Std_ReturnType \<times> (AthrillAddrType \<times> AthrillAddrType \<times> hptr \<times> bool) option) \<times> 'd mpu_state" where
  "mpu_get_memory_window addr s =
    (case search_region s addr 1 of
       (None, s1) \<Rightarrow> ((STD_E_NOENT, None), s1)
     | (Some ref, s1) \<Rightarrow>
        (let region = region_at s ref
         in case rg_data region of
              Some p \<Rightarrow>
                (if \<not> is_memory_window region then ((STD_E_NOENT, None), s1)
                 else ((STD_E_OK, Some (rg_start region, rg_size region, p,
                                        rg_type region = GLOBAL_MEMORY)), s1))
            | None \<Rightarrow> ((STD_E_NOENT, None), s1)))"

definition mpu_get_host_memory ::
  "'d mpu_env \<Rightarrow> CoreIdType \<Rightarrow> AthrillAddrType \<Rightarrow> AthrillAddrType \<Rightarrow> bool \<Rightarrow> 'd mpu_state
    \<Rightarrow> (Std_ReturnType \<times> hptr option) \<times> 'd mpu_state" where
  "mpu_get_host_memory env core_id addr sz write s =
    (let access = if write then CpuMemoryAccess_WRITE else CpuMemoryAccess_READ
     in if sz = 0 then ((STD_E_OK, None), s)
        else if addr + sz < addr then ((STD_E_SEGV, None), s)
        else case search_region s addr sz of
          (None, s1) \<Rightarrow> ((STD_E_SEGV, None), s1)
        | (Some ref, s1) \<Rightarrow>
           (let region = region_at s ref
            in case rg_data region of
                 Some p \<Rightarrow>
                   (if \<not> is_memory_window region \<or> (write \<and> rg_type region \<noteq> GLOBAL_MEMORY) \<or>
                       \<not> env_perm env core_id (rg_type region) access addr sz
                    then ((STD_E_SEGV, None), s1)
                    else ((STD_E_OK, Some (ptr_add p (unat (addr - rg_start region)))), s1))
               | None \<Rightarrow> ((STD_E_SEGV, None), s1)))"

section \<open>Building the map\<close>

definition mpu_address_get_rom :: "'d mpu_state \<Rightarrow> AthrillAddrType \<Rightarrow> AthrillAddrType \<Rightarrow> hptr option" where
  "mpu_address_get_rom s addr sz =
    (case mpu_address_search_region s addr sz of
       Some i \<Rightarrow> (if rg_type (mpu_dynamic_map s ! i) = READONLY_MEMORY
                  then rg_data (mpu_dynamic_map s ! i) else None)
     | None \<Rightarrow> None)"

definition mpu_address_get_ram :: "'d mpu_state \<Rightarrow> AthrillAddrType \<Rightarrow> AthrillAddrType \<Rightarrow> hptr option" where
  "mpu_address_get_ram s addr sz =
    (case mpu_address_search_region s addr sz of
       Some i \<Rightarrow> (if rg_type (mpu_dynamic_map s ! i) = GLOBAL_MEMORY
                  then rg_data (mpu_dynamic_map s ! i) else None)
     | None \<Rightarrow> None)"

text \<open>
  \<open>alloc\<close> is what the host allocator returned when it is called: \<open>None\<close> for
  NULL, otherwise the contents of a block of the requested size; \<open>calloc\<close> clears it.
  \<open>None\<close> as the result of \<open>mpu_address_set_rom_ram\<close> is the failed ASSERT,
  which ends the process.
\<close>

definition new_region ::
  "AthrillAddrType \<Rightarrow> AthrillAddrType \<Rightarrow> MpuAddressRegionEnumType \<Rightarrow> bool \<Rightarrow> hptr option \<Rightarrow> MpuOps
    \<Rightarrow> MpuAddressRegionType" where
  "new_region addr sz ty is_malloc data ops =
    \<lparr>rg_type = ty, rg_is_malloc = is_malloc, rg_permission = MPU_ADDRESS_REGION_PERM_ALL,
     rg_start = addr, rg_size = sz, rg_mask = MPU_ADDRESS_REGION_MASK_ALL, rg_data = data, rg_ops = ops\<rparr>"

definition add_region :: "MpuAddressRegionType \<Rightarrow> 'd mpu_state \<Rightarrow> 'd mpu_state" where
  "add_region r s = s\<lparr>mpu_dynamic_map := mpu_dynamic_map s @ [r]\<rparr>"

definition add_block :: "uint8 list \<Rightarrow> 'd mpu_state \<Rightarrow> hptr \<times> 'd mpu_state" where
  "add_block blk s = ((length (mpu_host s), 0), s\<lparr>mpu_host := mpu_host s @ [blk]\<rparr>)"

definition mpu_address_set_rom_ram ::
  "MpuAddressGetType \<Rightarrow> AthrillAddrType \<Rightarrow> AthrillAddrType \<Rightarrow> hptr option \<Rightarrow> uint8 list option
    \<Rightarrow> 'd mpu_state \<Rightarrow> (hptr option \<times> 'd mpu_state) option" where
  "mpu_address_set_rom_ram getType addr sz mmap_addr alloc s =
    (case mpu_address_search_region s addr sz of
       Some i \<Rightarrow> Some (rg_data (mpu_dynamic_map s ! i), s)
     | None \<Rightarrow>
        (case getType of
           MpuAddressGetType_ROM \<Rightarrow>
             (case alloc of
                None \<Rightarrow> None
              | Some blk \<Rightarrow>
                 (let (p, s1) = add_block blk s
                  in Some (Some p, add_region
                       (new_region addr sz READONLY_MEMORY False (Some p) default_memory_operation) s1)))
         | MpuAddressGetType_RAM \<Rightarrow>
             (case alloc of
                None \<Rightarrow> None
              | Some _ \<Rightarrow>
                 (let (p, s1) = add_block (replicate (unat sz) 0) s
                  in Some (Some p, add_region
                       (new_region addr sz GLOBAL_MEMORY False (Some p) default_memory_operation) s1)))
         | MpuAddressGetType_MMAP \<Rightarrow>
             (case mmap_addr of
                None \<Rightarrow> None
              | Some p \<Rightarrow> Some (Some p, add_region
                   (new_region addr sz GLOBAL_MEMORY False (Some p) default_memory_operation) s))
         | MpuAddressGetType_MALLOC \<Rightarrow>
             Some (None, add_region
                   (new_region addr sz GLOBAL_MEMORY True None default_memory_operation) s)))"

text \<open>
  An external device as \<open>mpu_address_set_dev\<close> sees it: which of its entry points are
  set, its operation table and its memory, NULL or not.
\<close>

record AthrillExDeviceType =
  ex_id :: nat
  ex_devinit :: bool
  ex_supply_clock :: bool
  ex_ops :: "MpuOps option"
  ex_datap :: "hptr option"

definition mpu_address_set_dev ::
  "AthrillAddrType \<Rightarrow> AthrillAddrType \<Rightarrow> AthrillExDeviceType option \<Rightarrow> bool \<Rightarrow> 'd mpu_state
    \<Rightarrow> (hptr option \<times> 'd mpu_state) option" where
  "mpu_address_set_dev addr sz exdev alloc_ok s =
    (case mpu_address_search_region s addr sz of
       Some _ \<Rightarrow> Some (None, s)
     | None \<Rightarrow>
        (case exdev of
           None \<Rightarrow> Some (None, s)
         | Some ex \<Rightarrow>
            (if \<not> ex_devinit ex then Some (None, s)
             else if \<not> ex_supply_clock ex then Some (None, s)
             else
               let ops = (case ex_ops ex of None \<Rightarrow> default_memory_operation | Some o' \<Rightarrow> o')
               in case ex_datap ex of
                    Some p \<Rightarrow>
                      Some (Some p, (add_region (new_region addr sz DEVICE False (Some p) ops) s)
                        \<lparr>mpu_exdevs := mpu_exdevs s @ [(ex_id ex, length (mpu_dynamic_map s))]\<rparr>)
                  | None \<Rightarrow>
                      (if \<not> alloc_ok then None
                       else let (p, s1) = add_block (replicate (unat sz) 0) s
                            in Some (Some p, (add_region (new_region addr sz DEVICE False (Some p) ops) s1)
                                 \<lparr>mpu_exdevs := mpu_exdevs s @ [(ex_id ex, length (mpu_dynamic_map s))]\<rparr>)))))"

definition region_contains_addr :: "AthrillAddrType \<Rightarrow> MpuAddressRegionType \<Rightarrow> bool" where
  "region_contains_addr addr r =
    (let start = rg_start r; end' = start + rg_size r; paddr_str = addr AND rg_mask r
     in start \<le> paddr_str \<and> paddr_str < end')"

text \<open>The second component is \<open>*is_malloc\<close>, left unset when nothing is found.\<close>

definition mpu_address_region_type_get ::
  "'d mpu_state \<Rightarrow> AthrillAddrType \<Rightarrow> MpuAddressRegionEnumType \<times> bool option" where
  "mpu_address_region_type_get s addr =
    (case find_first (region_contains_addr addr) (mpu_dynamic_map s) of
       Some i \<Rightarrow> (rg_type (mpu_dynamic_map s ! i), Some (rg_is_malloc (mpu_dynamic_map s ! i)))
     | None \<Rightarrow>
        (case find_first (region_contains_addr addr) (mpu_map s) of
           Some i \<Rightarrow> (rg_type (mpu_map s ! i), Some False)
         | None \<Rightarrow> (REGION_UNKNOWN, None)))"

end
