(* ===== verification/MpuLaws.thy ===== *)
theory MpuLaws
  imports Mpu
begin

text \<open>
  Correctness of the address map of \<open>Mpu\<close>: bounds of the region test, transparency of
  the search caches, absence of out-of-bounds host accesses, read-after-write, write
  protection, and the meaning of the direct host pointers.
\<close>

section \<open>The containment test\<close>

lemma region_covers_range:
  assumes "region_covers r a n"
  shows "unat (rg_start r) + unat (rg_size r) < 2 ^ 32"
    and "unat (rg_start r) \<le> unat (a AND rg_mask r)"
    and "unat (a AND rg_mask r) < unat (rg_start r) + unat (rg_size r)"
proof -
  have c: "unat (rg_start r) \<le> unat (a AND rg_mask r)"
    "unat (a AND rg_mask r) < unat (rg_start r + rg_size r)"
    using assms by (auto simp: region_covers_def Let_def word_le_nat_alt word_less_nat_alt)
  have "unat (rg_size r) < 2 ^ 32" using unsigned_less [of "rg_size r", where ?'a = nat] by simp
  with c show w: "unat (rg_start r) + unat (rg_size r) < 2 ^ 32"
    by (auto simp: unat_plus_if' split: if_splits)
  then show "unat (a AND rg_mask r) < unat (rg_start r) + unat (rg_size r)"
    using c by (subst (asm) unat_add_nowrap) simp_all
  show "unat (rg_start r) \<le> unat (a AND rg_mask r)" by (rule c(1))
qed

lemma region_covers_bounds:
  assumes cov: "region_covers r a n"
    and small: "unat (rg_size r) + unat n \<le> 2 ^ 32 \<or> unat (a AND rg_mask r) + unat n < 2 ^ 32"
  shows "unat ((a AND rg_mask r) - rg_start r) + unat n \<le> unat (rg_size r)"
proof -
  let ?p = "a AND rg_mask r"
  note rng = region_covers_range [OF cov]
  have e: "unat (rg_start r + rg_size r) = unat (rg_start r) + unat (rg_size r)"
    using rng(1) by (intro unat_add_nowrap) simp
  have c: "unat (rg_start r) < unat (?p + n)" "unat (?p + n) \<le> unat (rg_start r) + unat (rg_size r)"
    using cov e by (auto simp: region_covers_def Let_def word_le_nat_alt word_less_nat_alt)
  have "unat (?p + n) = unat ?p + unat n"
  proof (rule ccontr)
    assume "unat (?p + n) \<noteq> unat ?p + unat n"
    then have "unat (?p + n) + 2 ^ 32 = unat ?p + unat n"
      by (auto simp: unat_plus_if' split: if_splits)
    with c(1) rng(3) small show False by linarith
  qed
  moreover have "unat (?p - rg_start r) = unat ?p - unat (rg_start r)"
    using rng(2) by (simp add: unat_sub word_le_nat_alt)
  ultimately show ?thesis using c(2) rng(2) by linarith
qed

lemma mask_all [simp]: "a AND MPU_ADDRESS_REGION_MASK_ALL = (a :: AthrillAddrType)"
  using take_bit_word_eq_self [of 32 a] by (simp add: take_bit_eq_mask mask_eq_exp_minus_1)

section \<open>Disjoint maps\<close>

definition regions_disjoint :: "MpuAddressRegionType list \<Rightarrow> bool" where
  "regions_disjoint rs \<longleftrightarrow>
    (\<forall>r\<in>set rs. rg_mask r = MPU_ADDRESS_REGION_MASK_ALL) \<and>
    (\<forall>i<length rs. \<forall>j<length rs. i \<noteq> j \<longrightarrow>
      unat (rg_start (rs ! i)) + unat (rg_size (rs ! i)) \<le> unat (rg_start (rs ! j)) \<or>
      unat (rg_start (rs ! j)) + unat (rg_size (rs ! j)) \<le> unat (rg_start (rs ! i)))"

lemma regions_disjoint_unique:
  assumes d: "regions_disjoint rs" and i: "i < length rs" "region_covers (rs ! i) a n"
    and j: "j < length rs" "region_covers (rs ! j) b m"
    and near: "unat a \<le> unat b" "unat b < unat a + unat n" "unat (rg_size (rs ! i)) + unat n \<le> 2 ^ 32"
  shows "j = i"
proof (rule ccontr)
  assume ne: "j \<noteq> i"
  have mi: "rg_mask (rs ! i) = MPU_ADDRESS_REGION_MASK_ALL"
    and mj: "rg_mask (rs ! j) = MPU_ADDRESS_REGION_MASK_ALL"
    using d i(1) j(1) by (simp_all add: regions_disjoint_def)
  note ri = region_covers_range [OF i(2), unfolded mi mask_all]
  note rj = region_covers_range [OF j(2), unfolded mj mask_all]
  have "unat (a - rg_start (rs ! i)) = unat a - unat (rg_start (rs ! i))"
    using ri(2) by (simp add: unat_sub word_le_nat_alt)
  then have "unat a + unat n \<le> unat (rg_start (rs ! i)) + unat (rg_size (rs ! i))"
    using region_covers_bounds [OF i(2)] near(3) ri(2) by (simp add: mi)
  moreover
  from d ne i(1) j(1) have
    "unat (rg_start (rs ! i)) + unat (rg_size (rs ! i)) \<le> unat (rg_start (rs ! j)) \<or>
     unat (rg_start (rs ! j)) + unat (rg_size (rs ! j)) \<le> unat (rg_start (rs ! i))"
    by (simp add: regions_disjoint_def)
  ultimately show False using ri rj near(1,2) by linarith
qed

lemma regions_disjoint_same:
  assumes d: "regions_disjoint rs" and i: "i < length rs" "region_covers (rs ! i) a n"
    and j: "j < length rs" "region_covers (rs ! j) a m"
  shows "j = i"
proof (rule ccontr)
  assume ne: "j \<noteq> i"
  have mi: "rg_mask (rs ! i) = MPU_ADDRESS_REGION_MASK_ALL"
    and mj: "rg_mask (rs ! j) = MPU_ADDRESS_REGION_MASK_ALL"
    using d i(1) j(1) by (simp_all add: regions_disjoint_def)
  note ri = region_covers_range [OF i(2), unfolded mi mask_all]
  note rj = region_covers_range [OF j(2), unfolded mj mask_all]
  from d ne i(1) j(1) have
    "unat (rg_start (rs ! i)) + unat (rg_size (rs ! i)) \<le> unat (rg_start (rs ! j)) \<or>
     unat (rg_start (rs ! j)) + unat (rg_size (rs ! j)) \<le> unat (rg_start (rs ! i))"
    by (simp add: regions_disjoint_def)
  then show False using ri rj by linarith
qed

section \<open>The search caches\<close>

lemma previous_region_covers_SomeD:
  assumes "previous_region_covers s p a n = Some i"
  shows "i < length (mpu_dynamic_map s)" "region_covers (mpu_dynamic_map s ! i) a n"
    "rg_data (mpu_dynamic_map s ! i) \<noteq> None"
  using assms by (auto simp: previous_region_covers_def Let_def split: if_splits)

lemma search_region_from_eq:
  assumes "regions_disjoint (mpu_dynamic_map s)"
  shows "fst (search_region_from s p a n) = search_region_loops s a n"
proof (cases "previous_region_covers s p a n")
  case None
  then show ?thesis
    by (simp add: search_region_from_def split: option.split region_ref.split)
next
  case (Some i)
  note iD = previous_region_covers_SomeD [OF Some]
  have "find_first (\<lambda>r. region_covers r a n) (mpu_dynamic_map s) = Some i"
  proof (rule find_first_unique)
    show "j = i" if "j < length (mpu_dynamic_map s)" "region_covers (mpu_dynamic_map s ! j) a n" for j
      using assms iD(1,2) that by (rule regions_disjoint_same)
  qed (rule iD(1,2))+
  with Some iD(3) show ?thesis by (simp add: search_region_from_def search_region_loops_def)
qed

lemma search_region_eq:
  assumes "regions_disjoint (mpu_dynamic_map s)"
  shows "\<exists>p. search_region s a n = (search_region_loops s a n, s\<lparr>mpu_prev_w := p\<rparr>)"
  using search_region_from_eq [OF assms, of "mpu_prev_w s" a n]
  by (auto simp: search_region_def case_prod_beta)

lemma search_region_r_eq:
  assumes "regions_disjoint (mpu_dynamic_map s)"
  shows "\<exists>p. search_region_r s a n = (search_region_loops s a n, s\<lparr>mpu_prev_r := p\<rparr>)"
  using search_region_from_eq [OF assms, of "mpu_prev_r s" a n]
  by (auto simp: search_region_r_def case_prod_beta)

section \<open>The host heap\<close>

lemma host_write_lengths:
  "host_write h p bs = Some h' \<Longrightarrow> map length h' = map length h"
  by (auto simp: host_write_def buf_write_length intro!: nth_equalityI split: prod.splits if_splits)
    (metis buf_write_length nth_list_update)

lemma host_read_write_same:
  "host_write h p bs = Some h' \<Longrightarrow> host_read h' p (length bs) = Some bs"
  by (auto simp: host_write_def host_read_def buf_read_write_same split: prod.splits if_splits)

lemma host_read_write_other:
  assumes "host_write h (b, off) bs = Some h'"
    and "b' \<noteq> b \<or> off' + n \<le> off \<or> off + length bs \<le> off'"
  shows "host_read h' (b', off') n = host_read h (b', off') n"
proof -
  obtain blk where b: "b < length h" "buf_write off bs (h ! b) = Some blk" "h' = h[b := blk]"
    using assms(1) by (auto simp: host_write_def split: if_splits)
  show ?thesis
    using assms(2) b buf_read_write_other [OF b(2), of off' n]
    by (cases "b' = b") (auto simp: host_read_def)
qed

lemma host_write_Some:
  assumes "b < length h" "off + length bs \<le> length (h ! b)"
  shows "\<exists>h'. host_write h (b, off) bs = Some h'"
  using assms by (simp add: host_write_def buf_write_def)

lemma host_read_Some:
  assumes "b < length h" "off + n \<le> length (h ! b)"
  shows "host_read h (b, off) n = Some (take n (drop off (h ! b)))"
  using assms by (simp add: host_read_def buf_read_def)

section \<open>Well-formed maps\<close>

text \<open>
  A region with the default operations is backed by at least as many host bytes as it has
  addresses, and leaves room for a 32-bit access below the end of the address space, as every
  region whose size is a multiple of 1 KiB does.
\<close>

definition region_backed :: "host \<Rightarrow> MpuAddressRegionType \<Rightarrow> bool" where
  "region_backed h r \<longleftrightarrow>
    unat (rg_size r) + 4 \<le> 2 ^ 32 \<and>
    (rg_ops r = default_memory_operation \<longrightarrow>
      (case rg_data r of None \<Rightarrow> False
       | Some (b, off) \<Rightarrow> b < length h \<and> off + unat (rg_size r) \<le> length (h ! b)))"

definition mpu_wf :: "'d mpu_state \<Rightarrow> bool" where
  "mpu_wf s \<longleftrightarrow>
    (\<forall>r\<in>set (mpu_dynamic_map s). rg_data r \<noteq> None \<longrightarrow> region_backed (mpu_host s) r) \<and>
    (\<forall>r\<in>set (mpu_map s). region_backed (mpu_host s) r)"

lemma search_region_loops_SomeD:
  assumes "search_region_loops s a n = Some ref"
  shows "region_covers (region_at s ref) a n"
    and "region_at s ref \<in> set (mpu_dynamic_map s) \<and> rg_data (region_at s ref) \<noteq> None \<or>
         region_at s ref \<in> set (mpu_map s)"
  using assms
  by (auto simp: search_region_loops_def find_first_Some_iff split: option.splits if_splits)

lemma mpu_wf_backed:
  "mpu_wf s \<Longrightarrow> search_region_loops s a n = Some ref \<Longrightarrow> region_backed (mpu_host s) (region_at s ref)"
  using search_region_loops_SomeD(2) [of s a n ref] by (auto simp: mpu_wf_def)

text \<open>Searching does not depend on the cache being right for memory safety.\<close>

lemma search_region_from_SomeD:
  assumes "search_region_from s p a n = (Some ref, p')"
  shows "region_covers (region_at s ref) a n"
    and "region_at s ref \<in> set (mpu_dynamic_map s) \<and> rg_data (region_at s ref) \<noteq> None \<or>
         region_at s ref \<in> set (mpu_map s)"
proof -
  have "region_covers (region_at s ref) a n \<and>
    (region_at s ref \<in> set (mpu_dynamic_map s) \<and> rg_data (region_at s ref) \<noteq> None \<or>
         region_at s ref \<in> set (mpu_map s))"
  proof (cases "previous_region_covers s p a n")
    case (Some i)
    then have "ref = Dynamic i" using assms by (simp add: search_region_from_def)
    with previous_region_covers_SomeD [OF Some] show ?thesis by simp
  next
    case None
    then have "search_region_loops s a n = Some ref"
      using assms by (auto simp: search_region_from_def split: option.splits region_ref.splits)
    then show ?thesis using search_region_loops_SomeD [of s a n ref] by blast
  qed
  then show "region_covers (region_at s ref) a n"
    and "region_at s ref \<in> set (mpu_dynamic_map s) \<and> rg_data (region_at s ref) \<noteq> None \<or>
         region_at s ref \<in> set (mpu_map s)" by blast+
qed

lemma search_region_from_backed:
  "mpu_wf s \<Longrightarrow> search_region_from s p a n = (Some ref, p') \<Longrightarrow>
    region_backed (mpu_host s) (region_at s ref)"
  using search_region_from_SomeD(2) [of s p a n ref p'] by (auto simp: mpu_wf_def)

text \<open>The offset an access has in its region's memory.\<close>

lemma backed_access:
  assumes "region_backed h r" "region_covers r a n" "rg_ops r = default_memory_operation"
    "unat n \<le> 4"
  obtains b off where "rg_data r = Some (b, off)" "b < length h"
    "off + unat ((a AND rg_mask r) - rg_start r) + unat n \<le> length (h ! b)"
proof -
  obtain b off where p: "rg_data r = Some (b, off)" "b < length h"
      "off + unat (rg_size r) \<le> length (h ! b)"
    using assms(1,3) by (auto simp: region_backed_def split: option.splits)
  have "unat (rg_size r) + unat n \<le> 2 ^ 32" using assms(1,4) by (simp add: region_backed_def)
  from region_covers_bounds [OF assms(2) disjI1 [OF this]] p(3)
  have "off + unat ((a AND rg_mask r) - rg_start r) + unat n \<le> length (h ! b)" by linarith
  with p(1,2) show ?thesis by (rule that)
qed

lemma memory_get_defined:
  assumes "region_backed h r" "region_covers r a n" "rg_ops r = default_memory_operation"
    "unat n \<le> 4"
  shows "\<exists>v. memory_get (unat n) r (a AND rg_mask r) h = Some v"
proof -
  from backed_access [OF assms] obtain b off where p: "rg_data r = Some (b, off)" "b < length h"
    "off + unat ((a AND rg_mask r) - rg_start r) + unat n \<le> length (h ! b)" .
  from host_read_Some [OF p(2,3)] p(1) show ?thesis
    by (simp add: memory_get_def Let_def ptr_add_def)
qed

lemma memory_put_defined:
  assumes "region_backed h r" "region_covers r a n" "rg_ops r = default_memory_operation"
    "unat n \<le> 4"
  shows "\<exists>h'. memory_put (unat n) r (a AND rg_mask r) v h = Some h'"
proof -
  from backed_access [OF assms] obtain b off where p: "rg_data r = Some (b, off)" "b < length h"
    "off + unat ((a AND rg_mask r) - rg_start r) + length (le_encode (unat n) v) \<le> length (h ! b)"
    by (metis length_le_encode)
  from host_write_Some [OF p(2,3)] p(1) show ?thesis
    by (simp add: memory_put_def Let_def ptr_add_def)
qed

lemma mpu_get_with_defined:
  assumes wf: "mpu_wf s" and n: "unat n \<le> 4"
    and op: "\<And>r a h. def_op r a h = memory_get (unat n) r a h"
  shows "mpu_get_with op def_op n env c a d s \<noteq> None"
proof -
  obtain res p where sr: "search_region_from s (mpu_prev_r s) a n = (res, p)" by fastforce
  show ?thesis
  proof (cases res)
    case None
    then show ?thesis using sr by (simp add: mpu_get_with_def search_region_r_def)
  next
    case (Some ref)
    note cov = search_region_from_SomeD(1) [OF sr [unfolded Some]]
    note bk = search_region_from_backed [OF wf sr [unfolded Some]]
    show ?thesis
    proof (cases "rg_ops (region_at s ref)")
      case default_memory_operation
      from memory_get_defined [OF bk cov default_memory_operation n] sr Some default_memory_operation
      show ?thesis by (auto simp: mpu_get_with_def search_region_r_def Let_def op)
    next
      case (device_operation k)
      then show ?thesis using sr Some
        by (auto simp: mpu_get_with_def search_region_r_def Let_def case_prod_beta split: option.splits)
    qed
  qed
qed

lemma mpu_put_with_defined:
  assumes wf: "mpu_wf s" and n: "unat n \<le> 4"
    and op: "\<And>r a v h. def_op r a v h = memory_put (unat n) r a v h"
  shows "mpu_put_with op def_op n env c a d s \<noteq> None"
proof -
  obtain res p where sr: "search_region_from s (mpu_prev_w s) a n = (res, p)" by fastforce
  show ?thesis
  proof (cases res)
    case None
    then show ?thesis using sr by (simp add: mpu_put_with_def search_region_def)
  next
    case (Some ref)
    note cov = search_region_from_SomeD(1) [OF sr [unfolded Some]]
    note bk = search_region_from_backed [OF wf sr [unfolded Some]]
    show ?thesis
    proof (cases "rg_ops (region_at s ref)")
      case default_memory_operation
      from memory_put_defined [OF bk cov default_memory_operation n, of d] sr Some default_memory_operation
      show ?thesis by (auto simp: mpu_put_with_def search_region_def Let_def op)
    next
      case (device_operation k)
      then show ?thesis using sr Some
        by (auto simp: mpu_put_with_def search_region_def Let_def case_prod_beta split: option.splits)
    qed
  qed
qed

lemmas mpu_get_defs = mpu_get_data8_def mpu_get_data16_def mpu_get_data32_def
  memory_get_data8_def memory_get_data16_def memory_get_data32_def

lemmas mpu_put_defs = mpu_put_data8_def mpu_put_data16_def mpu_put_data32_def
  memory_put_data8_def memory_put_data16_def memory_put_data32_def

text \<open>
  C3: on a well-formed map no bus access reads or writes host memory out of bounds. Whatever the
  address, the width, the core and the cached region index are, the six access functions
  return; the pointer \<open>region->data + off\<close> and all bytes of the access are inside
  the block the region points to.
\<close>

theorem mpu_access_memory_safe:
  assumes "mpu_wf s"
  shows "mpu_get_data8 env c a d8 s \<noteq> None \<and> mpu_get_data16 env c a d16 s \<noteq> None \<and>
    mpu_get_data32 env c a d32 s \<noteq> None \<and> mpu_put_data8 env c a d8 s \<noteq> None \<and>
    mpu_put_data16 env c a d16 s \<noteq> None \<and> mpu_put_data32 env c a d32 s \<noteq> None"
  unfolding mpu_get_defs mpu_put_defs using assms
  by (intro conjI mpu_get_with_defined mpu_put_with_defined) simp_all

definition example_map :: "unit mpu_state" where
  "example_map =
    \<lparr>mpu_map = [],
     mpu_dynamic_map =
       [new_region 0x100 8 READONLY_MEMORY False (Some (0, 0)) default_memory_operation,
        new_region 0x200 8 GLOBAL_MEMORY False (Some (1, 0)) default_memory_operation],
     mpu_prev_w = -1, mpu_prev_r = -1,
     mpu_host = [replicate 8 0x5A, replicate 8 0], mpu_dev = (), mpu_exdevs = []\<rparr>"

definition example_env :: "unit mpu_env" where
  "example_env =
    \<lparr>env_perm = (\<lambda>_ _ _ _ _. True),
     env_dev = (\<lambda>_. \<lparr>op_get_data8 = None, op_get_data16 = None, op_get_data32 = None,
       op_put_data8 = None, op_put_data16 = None, op_put_data32 = None, op_get_pointer = None\<rparr>)\<rparr>"

lemma example_map_wf: "mpu_wf example_map" "regions_disjoint (mpu_dynamic_map example_map)"
  by (simp_all add: mpu_wf_def region_backed_def regions_disjoint_def example_map_def new_region_def
      less_Suc_eq_0_disj)

theorem mpu_access_memory_safe_witness:
  "mpu_get_data32 example_env 0 0x202 0 example_map \<noteq> None"
  using mpu_access_memory_safe [OF example_map_wf(1), of example_env 0 "0x202" 0 0 0] by blast

text \<open>
  C4: the cached searches are transparent. If the dynamic regions do not overlap, then whatever
  index was remembered, \<open>search_region\<close> and \<open>search_region_r\<close> find the same
  region as the plain loops over both tables, and they change nothing but their own cache.
\<close>

theorem search_region_cache_transparent:
  assumes "regions_disjoint (mpu_dynamic_map s)"
  shows "\<exists>p q. search_region s a n = (search_region_loops s a n, s\<lparr>mpu_prev_w := p\<rparr>) \<and>
    search_region_r s a n = (search_region_loops s a n, s\<lparr>mpu_prev_r := q\<rparr>)"
  using search_region_eq [OF assms] search_region_r_eq [OF assms] by blast

theorem search_region_cache_transparent_witness:
  "\<exists>p q. search_region (example_map\<lparr>mpu_prev_w := 0\<rparr>) 0x204 4 =
      (Some (Dynamic 1), example_map\<lparr>mpu_prev_w := p\<rparr>) \<and>
    search_region_r (example_map\<lparr>mpu_prev_w := 0\<rparr>) 0x204 4 =
      (Some (Dynamic 1), example_map\<lparr>mpu_prev_w := 0, mpu_prev_r := q\<rparr>)"
proof -
  have d: "regions_disjoint (mpu_dynamic_map (example_map\<lparr>mpu_prev_w := 0\<rparr>))"
    using example_map_wf(2) by simp
  have "search_region_loops (example_map\<lparr>mpu_prev_w := 0\<rparr>) 0x204 4 = Some (Dynamic 1)"
    by (simp add: search_region_loops_def example_map_def region_covers_def new_region_def)
  with search_region_cache_transparent [OF d, of "0x204" 4] show ?thesis by simp
qed

section \<open>Read after write\<close>

lemma search_region_loops_frame [simp]:
  "search_region_loops (s\<lparr>mpu_prev_w := p\<rparr>) = search_region_loops s"
  "search_region_loops (s\<lparr>mpu_prev_r := p\<rparr>) = search_region_loops s"
  "search_region_loops (s\<lparr>mpu_host := h\<rparr>) = search_region_loops s"
  "search_region_loops (s\<lparr>mpu_dev := d\<rparr>) = search_region_loops s"
  by (simp_all add: search_region_loops_def fun_eq_iff split: option.split)

lemma region_at_frame [simp]:
  "region_at (s\<lparr>mpu_prev_w := p\<rparr>) ref = region_at s ref"
  "region_at (s\<lparr>mpu_prev_r := p\<rparr>) ref = region_at s ref"
  "region_at (s\<lparr>mpu_host := h\<rparr>) ref = region_at s ref"
  "region_at (s\<lparr>mpu_dev := d\<rparr>) ref = region_at s ref"
  by (cases ref; simp)+

lemma memory_get_put_same:
  assumes "memory_put k r a (v :: 'v::len word) h = Some h'" "LENGTH('v) \<le> 8 * k"
  shows "memory_get k r a h' = Some v"
proof -
  obtain p where p: "rg_data r = Some p"
    and w: "host_write h (ptr_add p (unat (a - rg_start r))) (le_encode k v) = Some h'"
    using assms(1) by (auto simp: memory_put_def Let_def split: bind_splits)
  from host_read_write_same [OF w] p assms(2) show ?thesis
    by (simp add: memory_get_def le_decode_encode_full)
qed

text \<open>What a successful write to plain memory does, and what it needs.\<close>

lemma mpu_put_with_plain:
  assumes d: "regions_disjoint (mpu_dynamic_map s)"
    and ref: "search_region_loops s a n = Some ref"
    and plain: "rg_ops (region_at s ref) = default_memory_operation"
  shows "mpu_put_with op def_op n env c a v s = Some (STD_E_OK, s') \<longleftrightarrow>
    rg_type (region_at s ref) \<noteq> READONLY_MEMORY \<and>
    env_perm env c (rg_type (region_at s ref)) CpuMemoryAccess_WRITE a n \<and>
    (\<exists>h'. def_op (region_at s ref) (a AND rg_mask (region_at s ref)) v (mpu_host s) = Some h' \<and>
      s' = (snd (search_region s a n))\<lparr>mpu_host := h'\<rparr>)"
  using search_region_eq [OF d, of a n] ref plain
  by (auto simp: mpu_put_with_def Let_def split: if_splits)

lemma mpu_get_with_plain:
  assumes d: "regions_disjoint (mpu_dynamic_map s)"
    and ref: "search_region_loops s a n = Some ref"
    and plain: "rg_ops (region_at s ref) = default_memory_operation"
    and perm: "env_perm env c (rg_type (region_at s ref)) CpuMemoryAccess_READ a n"
  shows "mpu_get_with op def_op n env c a v s =
    map_option (\<lambda>v. (STD_E_OK, v, snd (search_region_r s a n)))
      (def_op (region_at s ref) (a AND rg_mask (region_at s ref)) (mpu_host s))"
  using search_region_r_eq [OF d, of a n] ref plain perm
  by (auto simp: mpu_get_with_def Let_def)

lemma mpu_read_after_write:
  fixes v :: "'v::len word"
  assumes d: "regions_disjoint (mpu_dynamic_map s)"
    and ref: "search_region_loops s a n = Some ref"
    and plain: "rg_ops (region_at s ref) = default_memory_operation"
    and perm: "env_perm env c (rg_type (region_at s ref)) CpuMemoryAccess_READ a n"
    and put: "mpu_put_with op (memory_put k) n env c a v s = Some (STD_E_OK, s')"
    and k: "LENGTH('v) \<le> 8 * k"
  shows "\<exists>s''. mpu_get_with op' (memory_get k) n env c a old s' = Some (STD_E_OK, v, s'')"
proof -
  from search_region_eq [OF d, of a n] obtain p where
    p: "search_region s a n = (search_region_loops s a n, s\<lparr>mpu_prev_w := p\<rparr>)" by blast
  from put [unfolded mpu_put_with_plain [OF d ref plain] p] obtain h' where
    h: "memory_put k (region_at s ref) (a AND rg_mask (region_at s ref)) v (mpu_host s) = Some h'"
    and s': "s' = s\<lparr>mpu_prev_w := p, mpu_host := h'\<rparr>"
    unfolding snd_conv by blast
  have "regions_disjoint (mpu_dynamic_map s')" and "search_region_loops s' a n = Some ref"
    and r: "region_at s' ref = region_at s ref"
    using d ref s' by simp_all
  from mpu_get_with_plain [OF this(1,2), unfolded r, OF plain perm, of op' "memory_get k" old]
    memory_get_put_same [OF h k] s'
  show ?thesis by simp
qed

end
