(* ===== verification/MpuFlat.thy ===== *)
theory MpuFlat
  imports MpuLaws
begin

text \<open>
  The address map as a flat memory. \<open>mem_view\<close> reads a map state as a partial function
  from addresses to bytes; on maps whose regions overlap neither in the address space nor in
  the host heap, the bus writes of \<open>Mpu\<close> are updates of that function, the bus reads
  are lookups, and a direct host pointer shows exactly those bytes.
\<close>

section \<open>The abstract memory\<close>

definition flat_put :: "(AthrillAddrType \<rightharpoonup> uint8) \<Rightarrow> AthrillAddrType \<Rightarrow> uint8 list \<Rightarrow> (AthrillAddrType \<rightharpoonup> uint8)" where
  "flat_put m a bs =
    (\<lambda>b. if unat a \<le> unat b \<and> unat b < unat a + length bs then Some (bs ! (unat b - unat a)) else m b)"

definition flat_get :: "(AthrillAddrType \<rightharpoonup> uint8) \<Rightarrow> AthrillAddrType \<Rightarrow> nat \<Rightarrow> uint8 list option" where
  "flat_get m a n = those (map (\<lambda>i. m (a + of_nat i)) [0..<n])"

definition plain_ref :: "'d mpu_state \<Rightarrow> region_ref \<Rightarrow> bool" where
  "plain_ref s ref \<longleftrightarrow> rg_ops (region_at s ref) = default_memory_operation"

definition mem_view :: "'d mpu_state \<Rightarrow> AthrillAddrType \<rightharpoonup> uint8" where
  "mem_view s b = do {
     ref \<leftarrow> search_region_loops s b 1;
     if plain_ref s ref
     then do {
       p \<leftarrow> rg_data (region_at s ref);
       bs \<leftarrow> host_read (mpu_host s) (ptr_add p (unat (b - rg_start (region_at s ref)))) 1;
       Some (hd bs)
     }
     else None
   }"

definition regions_of :: "'d mpu_state \<Rightarrow> MpuAddressRegionType list" where
  "regions_of s = mpu_dynamic_map s @ mpu_map s"

text \<open>No byte of the host heap belongs to two plain regions.\<close>

definition host_apart :: "MpuAddressRegionType \<Rightarrow> MpuAddressRegionType \<Rightarrow> bool" where
  "host_apart r q \<longleftrightarrow>
    (rg_ops r = default_memory_operation \<and> rg_ops q = default_memory_operation \<longrightarrow>
      (case (rg_data r, rg_data q) of
         (Some (b, off), Some (b', off')) \<Rightarrow>
           b \<noteq> b' \<or> off + unat (rg_size r) \<le> off' \<or> off' + unat (rg_size q) \<le> off
       | _ \<Rightarrow> True))"

definition host_separate :: "MpuAddressRegionType list \<Rightarrow> bool" where
  "host_separate rs \<longleftrightarrow>
    (\<forall>i<length rs. \<forall>j<length rs. i \<noteq> j \<longrightarrow> host_apart (rs ! i) (rs ! j))"

definition mpu_flat :: "'d mpu_state \<Rightarrow> bool" where
  "mpu_flat s \<longleftrightarrow> mpu_wf s \<and> regions_disjoint (regions_of s) \<and> host_separate (regions_of s)"

section \<open>Searching in one list\<close>

definition ref_index :: "'d mpu_state \<Rightarrow> region_ref \<Rightarrow> nat" where
  "ref_index s ref = (case ref of Dynamic i \<Rightarrow> i | Static i \<Rightarrow> length (mpu_dynamic_map s) + i)"

lemma flat_put_Nil [simp]: "flat_put m a [] = m"
  by (auto simp: flat_put_def fun_eq_iff)

lemma regions_disjoint_dynamic:
  assumes "regions_disjoint (regions_of s)"
  shows "regions_disjoint (mpu_dynamic_map s)"
proof -
  let ?ds = "mpu_dynamic_map s" let ?rs = "regions_of s"
  have nth: "?ds ! i = ?rs ! i" "i < length ?rs" if "i < length ?ds" for i
    using that by (simp_all add: regions_of_def nth_append)
  have "\<forall>r\<in>set ?ds. rg_mask r = MPU_ADDRESS_REGION_MASK_ALL"
    using assms by (simp add: regions_disjoint_def regions_of_def)
  moreover have
    "unat (rg_start (?ds ! i)) + unat (rg_size (?ds ! i)) \<le> unat (rg_start (?ds ! j)) \<or>
     unat (rg_start (?ds ! j)) + unat (rg_size (?ds ! j)) \<le> unat (rg_start (?ds ! i))"
    if "i < length ?ds" "j < length ?ds" "i \<noteq> j" for i j
    using assms nth [OF that(1)] nth [OF that(2)] that(3) by (simp add: regions_disjoint_def)
  ultimately show ?thesis by (simp add: regions_disjoint_def)
qed

lemma ref_index_hit:
  assumes "search_region_loops s a n = Some ref"
  shows "ref_index s ref < length (regions_of s)"
    and "regions_of s ! ref_index s ref = region_at s ref"
    and "region_covers (regions_of s ! ref_index s ref) a n"
  using assms
  by (auto simp: search_region_loops_def ref_index_def regions_of_def nth_append find_first_Some_iff
      split: option.splits if_splits)

lemma ref_index_inject:
  "search_region_loops s a n = Some ref \<Longrightarrow> search_region_loops s b m = Some ref' \<Longrightarrow>
    ref_index s ref = ref_index s ref' \<longleftrightarrow> ref = ref'"
  by (auto simp: search_region_loops_def ref_index_def find_first_Some_iff
      split: option.splits if_splits)

text \<open>In a disjoint map, every byte of an access is found in the region of the access.\<close>

lemma search_region_loops_unique:
  assumes d: "regions_disjoint (regions_of s)" and hit: "search_region_loops s a n = Some ref"
    and cov: "region_covers (region_at s ref) b m"
  shows "search_region_loops s b m = Some ref"
proof -
  let ?P = "\<lambda>r. region_covers r b m" and ?rs = "regions_of s" and ?k = "ref_index s ref"
  note ix = ref_index_hit [OF hit]
  have k: "?k < length ?rs" "?P (?rs ! ?k)" using ix cov by simp_all
  have "find_first ?P ?rs = Some ?k"
  proof (rule find_first_unique)
    show "j = ?k" if "j < length ?rs" "?P (?rs ! j)" for j
      using d k that by (rule regions_disjoint_same)
  qed (rule k)+
  then have app: "(case find_first ?P (mpu_dynamic_map s) of Some i \<Rightarrow> Some i
      | None \<Rightarrow> map_option (\<lambda>i. length (mpu_dynamic_map s) + i) (find_first ?P (mpu_map s))) = Some ?k"
    by (simp add: regions_of_def find_first_append)
  show ?thesis
  proof (cases ref)
    case (Dynamic i)
    then have "i < length (mpu_dynamic_map s)" "rg_data (mpu_dynamic_map s ! i) \<noteq> None"
      using hit by (auto simp: search_region_loops_def find_first_Some_iff split: option.splits if_splits)
    with app Dynamic show ?thesis
      by (auto simp: search_region_loops_def ref_index_def split: option.splits)
  next
    case (Static i)
    with app show ?thesis
      by (auto simp: search_region_loops_def ref_index_def dest: find_first_Some_bound
          split: option.splits)
  qed
qed

text \<open>What a hit of a small access means, in natural numbers.\<close>

lemma hit_range:
  assumes d: "regions_disjoint (regions_of s)" and hit: "search_region_loops s a n = Some ref"
    and small: "unat (rg_size (region_at s ref)) + unat n \<le> 2 ^ 32 \<or> unat a + unat n < 2 ^ 32"
  shows "unat (rg_start (region_at s ref)) + unat (rg_size (region_at s ref)) < 2 ^ 32"
    and "unat (rg_start (region_at s ref)) \<le> unat a"
    and "unat a + unat n \<le> unat (rg_start (region_at s ref)) + unat (rg_size (region_at s ref))"
    and "unat (a - rg_start (region_at s ref)) = unat a - unat (rg_start (region_at s ref))"
    and "rg_mask (region_at s ref) = MPU_ADDRESS_REGION_MASK_ALL"
proof -
  let ?r = "region_at s ref"
  note ix = ref_index_hit [OF hit]
  have "?r \<in> set (regions_of s)" using ix(1,2) by (metis nth_mem)
  then show m: "rg_mask ?r = MPU_ADDRESS_REGION_MASK_ALL"
    using d by (simp add: regions_disjoint_def)
  have cov: "region_covers ?r a n" using ix(2,3) by simp
  note rng = region_covers_range [OF cov, unfolded m mask_all]
  show "unat (rg_start ?r) + unat (rg_size ?r) < 2 ^ 32" "unat (rg_start ?r) \<le> unat a"
    using rng by simp_all
  show off: "unat (a - rg_start ?r) = unat a - unat (rg_start ?r)"
    using rng(2) by (simp add: unat_sub word_le_nat_alt)
  show "unat a + unat n \<le> unat (rg_start ?r) + unat (rg_size ?r)"
    using region_covers_bounds [OF cov, unfolded m mask_all off, OF small] rng(2) by linarith
qed

lemma region_covers_byte:
  assumes "rg_mask r = MPU_ADDRESS_REGION_MASK_ALL"
    "unat (rg_start r) + unat (rg_size r) < 2 ^ 32"
    "unat (rg_start r) \<le> unat b" "unat b < unat (rg_start r) + unat (rg_size r)"
  shows "region_covers r b 1"
proof -
  have e: "unat (rg_start r + rg_size r) = unat (rg_start r) + unat (rg_size r)"
    using assms(2) by (intro unat_add_nowrap) simp
  have "unat (b + 1) = unat b + 1"
    using assms(2,4) by (subst unat_add_nowrap) simp_all
  with e assms show ?thesis
    by (simp add: region_covers_def Let_def word_le_nat_alt word_less_nat_alt)
qed

lemma hit_byte:
  assumes d: "regions_disjoint (regions_of s)" and hit: "search_region_loops s a n = Some ref"
    and small: "unat (rg_size (region_at s ref)) + unat n \<le> 2 ^ 32 \<or> unat a + unat n < 2 ^ 32"
    and b: "unat a \<le> unat b" "unat b < unat a + unat n"
  shows "search_region_loops s b 1 = Some ref"
proof -
  note r = hit_range [OF d hit small]
  have "region_covers (region_at s ref) b 1"
    using r b by (intro region_covers_byte) linarith+
  then show ?thesis by (rule search_region_loops_unique [OF d hit])
qed

section \<open>Writes and reads through the view\<close>

lemma host_write_nth:
  assumes "host_write h (blk, off) bs = Some h'" "b < length h" "j < length (h ! b)"
  shows "h' ! b ! j = (if b = blk \<and> off \<le> j \<and> j < off + length bs then bs ! (j - off) else h ! b ! j)"
  using assms by (cases "b = blk") (auto simp: host_write_def buf_write_nth split: if_splits)

lemma region_backed_lengths:
  assumes "map length h' = map length h"
  shows "region_backed h' r = region_backed h r"
proof -
  have "length h' = length h" using assms map_eq_imp_length_eq by blast
  moreover have "length (h' ! b) = length (h ! b)" if "b < length h" for b
    using assms that calculation by (metis nth_map)
  ultimately show ?thesis by (auto simp: region_backed_def split: option.splits)
qed

lemma mpu_flat_same_lengths:
  assumes "map length h' = map length (mpu_host s)"
  shows "mpu_flat (s\<lparr>mpu_prev_w := p, mpu_host := h'\<rparr>) = mpu_flat s"
  by (simp add: mpu_flat_def mpu_wf_def regions_of_def region_backed_lengths [OF assms])

lemma mem_view_byte:
  assumes flat: "mpu_flat s" and hit: "search_region_loops s b 1 = Some ref" and plain: "plain_ref s ref"
  obtains blk off where "rg_data (region_at s ref) = Some (blk, off)" "blk < length (mpu_host s)"
    "off + unat (rg_size (region_at s ref)) \<le> length (mpu_host s ! blk)"
    "unat (rg_start (region_at s ref)) \<le> unat b"
    "unat b < unat (rg_start (region_at s ref)) + unat (rg_size (region_at s ref))"
    "mem_view s b = Some (mpu_host s ! blk ! (off + (unat b - unat (rg_start (region_at s ref)))))"
proof -
  let ?r = "region_at s ref"
  have wf: "mpu_wf s" and d: "regions_disjoint (regions_of s)" using flat by (simp_all add: mpu_flat_def)
  have bk: "region_backed (mpu_host s) ?r" using wf hit by (rule mpu_wf_backed)
  then obtain blk off where p: "rg_data ?r = Some (blk, off)" "blk < length (mpu_host s)"
    "off + unat (rg_size ?r) \<le> length (mpu_host s ! blk)"
    using plain by (auto simp: region_backed_def plain_ref_def split: option.splits)
  have small: "unat (rg_size ?r) + unat (1::AthrillAddrType) \<le> 2 ^ 32 \<or>
      unat b + unat (1::AthrillAddrType) < 2 ^ 32"
    using bk by (simp add: region_backed_def)
  have r: "unat (rg_start ?r) \<le> unat b" "unat b < unat (rg_start ?r) + unat (rg_size ?r)"
    "unat (b - rg_start ?r) = unat b - unat (rg_start ?r)"
    using hit_range(2,3,4) [OF d hit small] by simp_all
  let ?j = "off + (unat b - unat (rg_start ?r))"
  have j: "?j + 1 \<le> length (mpu_host s ! blk)" using p(3) r(1,2) by linarith
  from host_read_Some [OF p(2) j]
  have "mem_view s b = Some (mpu_host s ! blk ! ?j)"
    using hit plain p(1) r(3) j by (simp add: mem_view_def ptr_add_def hd_drop_conv_nth)
  with p r(1,2) show ?thesis by (rule that)
qed

lemma mem_view_frame [simp]:
  "mem_view (s\<lparr>mpu_prev_w := p\<rparr>) = mem_view s" "mem_view (s\<lparr>mpu_prev_r := p\<rparr>) = mem_view s"
  by (simp_all add: mem_view_def plain_ref_def fun_eq_iff cong: if_cong)

lemma mem_view_not_plain:
  "search_region_loops s b 1 = Some ref \<Longrightarrow> \<not> plain_ref s ref \<Longrightarrow> mem_view s b = None"
  by (simp add: mem_view_def)

lemma host_separateD:
  assumes "host_separate rs" "i < length rs" "j < length rs" "i \<noteq> j"
    "rg_data (rs ! i) = Some (b, off)" "rg_data (rs ! j) = Some (b', off')"
    "rg_ops (rs ! i) = default_memory_operation" "rg_ops (rs ! j) = default_memory_operation"
  shows "b \<noteq> b' \<or> off + unat (rg_size (rs ! i)) \<le> off' \<or> off' + unat (rg_size (rs ! j)) \<le> off"
proof -
  from assms(1-4) have "host_apart (rs ! i) (rs ! j)" unfolding host_separate_def by blast
  then show ?thesis using assms(5-8) by (simp add: host_apart_def)
qed

text \<open>The host byte of an address is overwritten iff the address is in the written range.\<close>

lemma written_byte_iff:
  assumes flat: "mpu_flat s" and hit: "search_region_loops s a n = Some ref" and plain: "plain_ref s ref"
    and small: "unat (rg_size (region_at s ref)) + unat n \<le> 2 ^ 32 \<or> unat a + unat n < 2 ^ 32"
    and p: "rg_data (region_at s ref) = Some (blk, off)"
    and hit': "search_region_loops s b 1 = Some ref'" and plain': "plain_ref s ref'"
    and p': "rg_data (region_at s ref') = Some (blk', off')"
    and b: "unat (rg_start (region_at s ref')) \<le> unat b"
      "unat b < unat (rg_start (region_at s ref')) + unat (rg_size (region_at s ref'))"
  shows "blk' = blk \<and> off + (unat a - unat (rg_start (region_at s ref)))
        \<le> off' + (unat b - unat (rg_start (region_at s ref'))) \<and>
      off' + (unat b - unat (rg_start (region_at s ref')))
        < off + (unat a - unat (rg_start (region_at s ref))) + unat n \<longleftrightarrow>
      unat a \<le> unat b \<and> unat b < unat a + unat n"
proof (cases "ref' = ref")
  case True
  have "unat (rg_start (region_at s ref)) \<le> unat a"
    using hit_range(2) [OF _ hit small] flat by (simp add: mpu_flat_def)
  with True show ?thesis using p p' b by auto
next
  case False
  have d: "regions_disjoint (regions_of s)" using flat by (simp add: mpu_flat_def)
  note r = hit_range [OF d hit small]
  have ne: "ref_index s ref' \<noteq> ref_index s ref"
    using False ref_index_inject [OF hit' hit] by simp
  have "\<not> (unat a \<le> unat b \<and> unat b < unat a + unat n)"
    using False hit' hit_byte [OF d hit small, of b] by auto
  moreover have "blk' \<noteq> blk \<or> off' + unat (rg_size (region_at s ref')) \<le> off \<or>
      off + unat (rg_size (region_at s ref)) \<le> off'"
    using host_separateD [OF _ ref_index_hit(1) [OF hit'] ref_index_hit(1) [OF hit] ne]
      flat p p' plain plain'
    by (simp add: mpu_flat_def plain_ref_def ref_index_hit(2) [OF hit'] ref_index_hit(2) [OF hit])
  ultimately show ?thesis using b r(2,3) by linarith
qed

lemma host_write_view:
  assumes flat: "mpu_flat s" and hit: "search_region_loops s a n = Some ref" and plain: "plain_ref s ref"
    and small: "unat (rg_size (region_at s ref)) + unat n \<le> 2 ^ 32 \<or> unat a + unat n < 2 ^ 32"
    and p: "rg_data (region_at s ref) = Some (blk, off)"
    and len: "length bs = unat n"
    and w: "host_write (mpu_host s) (blk, off + (unat a - unat (rg_start (region_at s ref)))) bs = Some h'"
  shows "mem_view (s\<lparr>mpu_prev_w := q, mpu_host := h'\<rparr>) = flat_put (mem_view s) a bs"
proof
  fix b :: AthrillAddrType
  let ?s = "s\<lparr>mpu_prev_w := q, mpu_host := h'\<rparr>" and ?in = "unat a \<le> unat b \<and> unat b < unat a + unat n"
  have d: "regions_disjoint (regions_of s)" using flat by (simp add: mpu_flat_def)
  have flat': "mpu_flat ?s" using flat host_write_lengths [OF w] by (simp add: mpu_flat_same_lengths)
  have byte: "search_region_loops s b 1 = Some ref" if "?in"
    using hit_byte [OF d hit small, of b] that by blast
  show "mem_view ?s b = flat_put (mem_view s) a bs b"
  proof (cases "\<exists>ref'. search_region_loops s b 1 = Some ref' \<and> plain_ref s ref'")
    case False
    then have "\<not> ?in" using byte plain by blast
    then show ?thesis using False
      by (auto simp: flat_put_def len mem_view_def plain_ref_def split: bind_splits)
  next
    case True
    then obtain ref' where hit': "search_region_loops s b 1 = Some ref'" and plain': "plain_ref s ref'"
      by blast
    from mem_view_byte [OF flat this] obtain blk' off' where
      v: "rg_data (region_at s ref') = Some (blk', off')" "blk' < length (mpu_host s)"
      "off' + unat (rg_size (region_at s ref')) \<le> length (mpu_host s ! blk')"
      "unat (rg_start (region_at s ref')) \<le> unat b"
      "unat b < unat (rg_start (region_at s ref')) + unat (rg_size (region_at s ref'))"
      "mem_view s b = Some (mpu_host s ! blk' ! (off' + (unat b - unat (rg_start (region_at s ref')))))" .
    let ?j = "off' + (unat b - unat (rg_start (region_at s ref')))"
    have "search_region_loops ?s b 1 = Some ref'" "plain_ref ?s ref'"
      using hit' plain' by (simp_all add: plain_ref_def)
    from mem_view_byte [OF flat' this] obtain blk2 off2 where
      "rg_data (region_at ?s ref') = Some (blk2, off2)"
      "mem_view ?s b = Some (mpu_host ?s ! blk2 ! (off2 + (unat b - unat (rg_start (region_at ?s ref')))))"
      by blast
    then have v': "mem_view ?s b = Some (h' ! blk' ! ?j)" using v(1) by simp
    have j: "?j < length (mpu_host s ! blk')" using v(3-5) by linarith
    have "?j - (off + (unat a - unat (rg_start (region_at s ref)))) = unat b - unat a" if "?in"
      using byte [OF that] hit' v(1,4) p hit_range(2) [OF d hit small] by auto
    then show ?thesis
      unfolding v' host_write_nth [OF w v(2) j] flat_put_def v(6) len
        written_byte_iff [OF flat hit plain small p hit' plain' v(1,4,5)] by auto
  qed
qed

lemma plain_small:
  assumes "mpu_flat s" "search_region_loops s a n = Some ref" "unat n \<le> 4"
  shows "unat (rg_size (region_at s ref)) + unat n \<le> 2 ^ 32 \<or> unat a + unat n < 2 ^ 32"
  using mpu_wf_backed [of s a n ref] assms by (simp add: mpu_flat_def region_backed_def)

lemma mpu_put_with_flat:
  fixes v :: "'v::len word"
  assumes flat: "mpu_flat s" and hit: "search_region_loops s a n = Some ref" and plain: "plain_ref s ref"
    and n: "unat n \<le> 4"
    and put: "mpu_put_with op (memory_put (unat n)) n env c a v s = Some (STD_E_OK, s')"
  shows "mpu_flat s' \<and> mem_view s' = flat_put (mem_view s) a (le_encode (unat n) v)"
proof -
  let ?r = "region_at s ref"
  have d: "regions_disjoint (regions_of s)" using flat by (simp add: mpu_flat_def)
  note dd = regions_disjoint_dynamic [OF d]
  note small = plain_small [OF flat hit n]
  note r = hit_range [OF d hit small]
  from search_region_eq [OF dd, of a n] obtain q where
    q: "search_region s a n = (search_region_loops s a n, s\<lparr>mpu_prev_w := q\<rparr>)" by blast
  have ops: "rg_ops ?r = default_memory_operation" using plain by (simp add: plain_ref_def)
  from put [unfolded mpu_put_with_plain [OF dd hit ops] q r(5) mask_all] obtain h' where
    h: "memory_put (unat n) ?r a v (mpu_host s) = Some h'"
    and s': "s' = s\<lparr>mpu_prev_w := q, mpu_host := h'\<rparr>"
    unfolding snd_conv by blast
  from h obtain blk off where p: "rg_data ?r = Some (blk, off)"
    and w: "host_write (mpu_host s) (blk, off + (unat a - unat (rg_start ?r))) (le_encode (unat n) v) = Some h'"
    by (auto simp: memory_put_def Let_def ptr_add_def r(4) split: bind_splits)
  from host_write_view [OF flat hit plain small p _ w, of q] flat host_write_lengths [OF w] s'
  show ?thesis by (simp add: mpu_flat_same_lengths)
qed

lemma flat_get_Some:
  assumes "\<And>i. i < n \<Longrightarrow> m (a + of_nat i) = Some (f i)"
  shows "flat_get m a n = Some (map f [0..<n])"
  unfolding flat_get_def using assms
proof (induction n)
  case (Suc n)
  have snoc: "those (xs @ [Some y]) = map_option (\<lambda>ys. ys @ [y]) (those xs)" for xs :: "uint8 option list" and y
    by (induction xs) (auto simp: option.map_comp comp_def split: option.split)
  from Suc show ?case by (simp add: snoc)
qed simp

lemma host_range_defined:
  assumes flat: "mpu_flat s" and hit: "search_region_loops s a n = Some ref" and plain: "plain_ref s ref"
    and small: "unat (rg_size (region_at s ref)) + unat n \<le> 2 ^ 32 \<or> unat a + unat n < 2 ^ 32"
    and p: "rg_data (region_at s ref) = Some p"
  shows "fst p < length (mpu_host s)"
    and "snd p + (unat a - unat (rg_start (region_at s ref))) + unat n \<le> length (mpu_host s ! fst p)"
    and "\<exists>bs. host_read (mpu_host s) (ptr_add p (unat (a - rg_start (region_at s ref)))) (unat n) = Some bs"
proof -
  let ?r = "region_at s ref"
  have d: "regions_disjoint (regions_of s)" using flat by (simp add: mpu_flat_def)
  note r = hit_range [OF d hit small]
  have bk: "region_backed (mpu_host s) ?r"
    using mpu_wf_backed [OF _ hit] flat by (simp add: mpu_flat_def)
  then show b: "fst p < length (mpu_host s)"
    "snd p + (unat a - unat (rg_start ?r)) + unat n \<le> length (mpu_host s ! fst p)"
    using p plain r(2,3) by (auto simp: region_backed_def plain_ref_def)
  show "\<exists>bs. host_read (mpu_host s) (ptr_add p (unat (a - rg_start ?r))) (unat n) = Some bs"
    using host_read_Some [OF b] by (simp add: ptr_add_def r(4))
qed

text \<open>The bytes the view has over an access are the host bytes of its region.\<close>

lemma flat_get_hit:
  assumes flat: "mpu_flat s" and hit: "search_region_loops s a n = Some ref" and plain: "plain_ref s ref"
    and small: "unat (rg_size (region_at s ref)) + unat n \<le> 2 ^ 32 \<or> unat a + unat n < 2 ^ 32"
    and p: "rg_data (region_at s ref) = Some p"
  shows "flat_get (mem_view s) a (unat n) =
    host_read (mpu_host s) (ptr_add p (unat (a - rg_start (region_at s ref)))) (unat n)"
proof -
  let ?r = "region_at s ref"
  have d: "regions_disjoint (regions_of s)" using flat by (simp add: mpu_flat_def)
  note r = hit_range [OF d hit small]
  obtain blk off where pe: "p = (blk, off)" by fastforce
  let ?o = "off + (unat a - unat (rg_start ?r))"
  have b: "blk < length (mpu_host s)" "?o + unat n \<le> length (mpu_host s ! blk)"
    using host_range_defined(1,2) [OF flat hit plain small p] pe by simp_all
  have "mem_view s (a + of_nat i) = Some (mpu_host s ! blk ! (?o + i))" if i: "i < unat n" for i
  proof -
    have ub: "unat (a + of_nat i) = unat a + i"
      using i r(1,3) by (subst unat_add_nowrap) (simp_all add: unat_of_nat take_bit_nat_eq_self)
    have "search_region_loops s (a + of_nat i) 1 = Some ref"
      using hit_byte [OF d hit small, of "a + of_nat i"] i ub by simp
    from mem_view_byte [OF flat this plain] p pe ub r(2) show ?thesis
      by (metis (no_types, lifting) Nat.add_diff_assoc2 add.assoc option.inject prod.inject)
  qed
  then have "flat_get (mem_view s) a (unat n) =
      Some (map (\<lambda>i. mpu_host s ! blk ! (?o + i)) [0..<unat n])" by (rule flat_get_Some)
  with host_read_Some [OF b] show ?thesis using b(2) by (simp add: pe ptr_add_def r(4) list_eq_iff_nth_eq)
qed

lemma mpu_get_with_flat:
  fixes v :: "'v::len word"
  assumes flat: "mpu_flat s" and hit: "search_region_loops s a n = Some ref" and plain: "plain_ref s ref"
    and n: "unat n \<le> 4"
    and get: "mpu_get_with op (memory_get (unat n)) n env c a old s = Some (STD_E_OK, v, s')"
  shows "map_option le_decode (flat_get (mem_view s) a (unat n)) = Some v \<and> mem_view s' = mem_view s"
proof -
  let ?r = "region_at s ref"
  have d: "regions_disjoint (regions_of s)" using flat by (simp add: mpu_flat_def)
  note dd = regions_disjoint_dynamic [OF d]
  note small = plain_small [OF flat hit n]
  note r = hit_range [OF d hit small]
  from search_region_r_eq [OF dd, of a n] obtain q where
    q: "search_region_r s a n = (search_region_loops s a n, s\<lparr>mpu_prev_r := q\<rparr>)" by blast
  have ops: "rg_ops ?r = default_memory_operation" using plain by (simp add: plain_ref_def)
  have "memory_get (unat n) ?r a (mpu_host s) = Some v" "s' = s\<lparr>mpu_prev_r := q\<rparr>"
    using get q hit ops r(5) by (auto simp: mpu_get_with_def Let_def split: if_splits)
  moreover from this(1) obtain p where p: "rg_data ?r = Some p"
    by (auto simp: memory_get_def split: bind_splits)
  ultimately show ?thesis using flat_get_hit [OF flat hit plain small p]
    by (auto simp: memory_get_def Let_def split: bind_splits)
qed

text \<open>An access that the search resolves to a region with the default operations.\<close>

definition plain_access :: "'d mpu_state \<Rightarrow> AthrillAddrType \<Rightarrow> AthrillAddrType \<Rightarrow> bool" where
  "plain_access s a n = (case search_region_loops s a n of Some ref \<Rightarrow> plain_ref s ref | None \<Rightarrow> False)"

text \<open>
  C5: bus writes refine the flat memory. On a map whose regions do not overlap, a successful
  write of any width to plain memory changes the memory view at exactly the written addresses,
  to the little-endian bytes of the value, and keeps the map well formed.
\<close>

theorem mpu_put_refines_flat:
  assumes "mpu_flat s"
  shows
    "(plain_access s a 1 \<and> mpu_put_data8 env c a v8 s = Some (STD_E_OK, s') \<longrightarrow>
       mpu_flat s' \<and> mem_view s' = flat_put (mem_view s) a (le_encode 1 v8)) \<and>
     (plain_access s a 2 \<and> mpu_put_data16 env c a v16 s = Some (STD_E_OK, s') \<longrightarrow>
       mpu_flat s' \<and> mem_view s' = flat_put (mem_view s) a (le_encode 2 v16)) \<and>
     (plain_access s a 4 \<and> mpu_put_data32 env c a v32 s = Some (STD_E_OK, s') \<longrightarrow>
       mpu_flat s' \<and> mem_view s' = flat_put (mem_view s) a (le_encode 4 v32))"
  using mpu_put_with_flat [OF assms, of a 1 _ op_put_data8 env c v8 s']
    mpu_put_with_flat [OF assms, of a 2 _ op_put_data16 env c v16 s']
    mpu_put_with_flat [OF assms, of a 4 _ op_put_data32 env c v32 s']
  by (simp add: mpu_put_defs plain_access_def split: option.splits)

lemma example_map_flat: "mpu_flat example_map"
  using example_map_wf
  by (simp add: mpu_flat_def regions_of_def host_separate_def host_apart_def example_map_def new_region_def
      less_Suc_eq_0_disj)

lemma example_map_plain: "plain_access example_map 0x204 4"
  by (simp add: plain_access_def plain_ref_def search_region_loops_def example_map_def
      region_covers_def new_region_def)

theorem mpu_put_refines_flat_witness:
  "\<exists>s'. mpu_put_data32 example_env 0 0x204 0x11223344 example_map = Some (STD_E_OK, s') \<and>
    mem_view s' 0x205 = Some 0x33 \<and> mem_view s' 0x203 = mem_view example_map 0x203"
proof -
  obtain s' where s': "mpu_put_data32 example_env 0 0x204 0x11223344 example_map = Some (STD_E_OK, s')"
    by (simp add: mpu_put_defs mpu_put_with_def search_region_def search_region_from_def
        previous_region_covers_def search_region_loops_def example_map_def example_env_def
        region_covers_def new_region_def memory_put_def host_write_def buf_write_def ptr_add_def)
  with mpu_put_refines_flat [OF example_map_flat, of "0x204" example_env 0 0 s' 0 "0x11223344"]
    example_map_plain
  have "mem_view s' = flat_put (mem_view example_map) 0x204 (le_encode 4 (0x11223344 :: uint32))" by simp
  moreover have "le_encode 4 (0x11223344 :: uint32) = [0x44, 0x33, 0x22, 0x11]" by code_simp
  ultimately show ?thesis using s' by (simp add: flat_put_def)
qed

text \<open>
  C6: bus reads refine the flat memory. On such a map, a successful read of any width from plain
  memory returns the little-endian value of the bytes the memory view has at the address, and
  leaves the view as it is.
\<close>

theorem mpu_get_refines_flat:
  assumes "mpu_flat s"
  shows
    "(plain_access s a 1 \<and> mpu_get_data8 env c a old8 s = Some (STD_E_OK, v8, s') \<longrightarrow>
       map_option le_decode (flat_get (mem_view s) a 1) = Some v8 \<and> mem_view s' = mem_view s) \<and>
     (plain_access s a 2 \<and> mpu_get_data16 env c a old16 s = Some (STD_E_OK, v16, s') \<longrightarrow>
       map_option le_decode (flat_get (mem_view s) a 2) = Some v16 \<and> mem_view s' = mem_view s) \<and>
     (plain_access s a 4 \<and> mpu_get_data32 env c a old32 s = Some (STD_E_OK, v32, s') \<longrightarrow>
       map_option le_decode (flat_get (mem_view s) a 4) = Some v32 \<and> mem_view s' = mem_view s)"
  using mpu_get_with_flat [OF assms, of a 1 _ op_get_data8 env c old8 v8 s']
    mpu_get_with_flat [OF assms, of a 2 _ op_get_data16 env c old16 v16 s']
    mpu_get_with_flat [OF assms, of a 4 _ op_get_data32 env c old32 v32 s']
  by (simp add: mpu_get_defs plain_access_def split: option.splits)

theorem mpu_get_refines_flat_witness:
  "\<exists>v s'. mpu_get_data32 example_env 0 0x204 0 example_map = Some (STD_E_OK, v, s') \<and>
    map_option le_decode (flat_get (mem_view example_map) 0x204 4) = Some v"
proof -
  obtain v s' where s': "mpu_get_data32 example_env 0 0x204 0 example_map = Some (STD_E_OK, v, s')"
    by (simp add: mpu_get_defs mpu_get_with_def search_region_r_def search_region_from_def
        previous_region_covers_def search_region_loops_def example_map_def example_env_def
        region_covers_def new_region_def memory_get_def host_read_def buf_read_def ptr_add_def)
  with mpu_get_refines_flat [OF example_map_flat, of "0x204" example_env 0 0 0 s' 0 0 0 v]
    example_map_plain
  show ?thesis by blast
qed

section \<open>Protection\<close>

definition write_granted :: "'d mpu_env \<Rightarrow> CoreIdType \<Rightarrow> AthrillAddrType \<Rightarrow> AthrillAddrType \<Rightarrow> 'd mpu_state \<Rightarrow> bool" where
  "write_granted env c a n s =
    (case fst (search_region s a n) of None \<Rightarrow> False
     | Some ref \<Rightarrow> rg_type (region_at s ref) \<noteq> READONLY_MEMORY \<and>
        env_perm env c (rg_type (region_at s ref)) CpuMemoryAccess_WRITE a n)"

definition write_confined :: "bool \<Rightarrow> 'd mpu_state \<Rightarrow> Std_ReturnType \<times> 'd mpu_state \<Rightarrow> bool" where
  "write_confined granted s res =
    (case res of (err, s') \<Rightarrow>
      mpu_map s' = mpu_map s \<and> mpu_dynamic_map s' = mpu_dynamic_map s \<and>
      mpu_prev_r s' = mpu_prev_r s \<and> mpu_exdevs s' = mpu_exdevs s \<and>
      (granted \<or> err = STD_E_SEGV \<and> mpu_host s' = mpu_host s \<and> mpu_dev s' = mpu_dev s))"

lemma mpu_put_with_confined:
  "pred_option (write_confined (write_granted env c a n s) s) (mpu_put_with op def_op n env c a v s)"
proof -
  obtain r q where "search_region s a n = (r, s\<lparr>mpu_prev_w := q\<rparr>)"
    by (auto simp: search_region_def case_prod_beta)
  then show ?thesis
    by (auto simp: mpu_put_with_def write_confined_def write_granted_def Let_def pred_option_def
        split: option.splits if_splits MpuOps.splits prod.splits)
qed

text \<open>
  C7: writes are protected. Whatever the state is, a bus write of any width that returns leaves
  the map, the caches of the readers and the list of external devices alone, and it can change the host
  memory or a device only if the search found a region that is not read-only and for which the
  target grants the write; otherwise it returns \<open>STD_E_SEGV\<close>.
\<close>

theorem mpu_put_protected:
  "pred_option (write_confined (write_granted env c a 1 s) s) (mpu_put_data8 env c a v8 s) \<and>
   pred_option (write_confined (write_granted env c a 2 s) s) (mpu_put_data16 env c a v16 s) \<and>
   pred_option (write_confined (write_granted env c a 4 s) s) (mpu_put_data32 env c a v32 s)"
  unfolding mpu_put_defs by (intro conjI mpu_put_with_confined)

section \<open>Direct host pointers\<close>

lemma is_memory_windowD:
  "is_memory_window (region_at s ref) \<Longrightarrow> plain_ref s ref"
  by (simp add: is_memory_window_def plain_ref_def)

lemma mpu_get_host_memory_OK:
  assumes d: "regions_disjoint (mpu_dynamic_map s)"
    and ok: "mpu_get_host_memory env c a sz write s = ((STD_E_OK, Some p), s')"
  obtains ref q where "search_region_loops s a sz = Some ref" "unat a + unat sz < 2 ^ 32"
    "is_memory_window (region_at s ref)" "rg_data (region_at s ref) = Some q"
    "p = ptr_add q (unat (a - rg_start (region_at s ref)))"
    "write \<Longrightarrow> rg_type (region_at s ref) = GLOBAL_MEMORY"
    "env_perm env c (rg_type (region_at s ref))
      (if write then CpuMemoryAccess_WRITE else CpuMemoryAccess_READ) a sz"
proof -
  from search_region_eq [OF d, of a sz] obtain w where
    w: "search_region s a sz = (search_region_loops s a sz, s\<lparr>mpu_prev_w := w\<rparr>)" by blast
  have nz: "sz \<noteq> 0" "\<not> a + sz < a" using ok by (auto simp: mpu_get_host_memory_def Let_def split: if_splits)
  then have "unat a + unat sz < 2 ^ 32"
    using unsigned_less [of sz, where ?'a = nat]
    by (auto simp: word_less_nat_alt unat_plus_if' split: if_splits)
  then show thesis using ok nz w that
    by (auto simp: mpu_get_host_memory_def Let_def split: option.splits if_splits)
qed

text \<open>
  C8: a direct host pointer is valid for the whole range it was asked for. When
  \<open>mpu_get_host_memory\<close> hands out a pointer, all \<open>size\<close> bytes at it are inside
  the host block, they are exactly the bytes that bus reads of the range would show, and a
  pointer for writing is into a region that is not read-only.
\<close>

theorem mpu_get_host_memory_valid:
  assumes flat: "mpu_flat s"
    and ok: "mpu_get_host_memory env c a sz write s = ((STD_E_OK, Some p), s')"
  shows "\<exists>bs. host_read (mpu_host s) p (unat sz) = Some bs \<and> length bs = unat sz \<and>
      flat_get (mem_view s) a (unat sz) = Some bs \<and>
      (write \<longrightarrow> (\<exists>ref. search_region_loops s a sz = Some ref \<and> rg_type (region_at s ref) = GLOBAL_MEMORY))"
proof -
  have d: "regions_disjoint (mpu_dynamic_map s)"
    using flat by (auto simp: mpu_flat_def intro: regions_disjoint_dynamic)
  from mpu_get_host_memory_OK [OF d ok] obtain ref q where
    hit: "search_region_loops s a sz = Some ref" and nw: "unat a + unat sz < 2 ^ 32"
    and win: "is_memory_window (region_at s ref)" and q: "rg_data (region_at s ref) = Some q"
    and p: "p = ptr_add q (unat (a - rg_start (region_at s ref)))"
    and wr: "write \<Longrightarrow> rg_type (region_at s ref) = GLOBAL_MEMORY" by metis
  note plain = is_memory_windowD [OF win]
  note fg = flat_get_hit [OF flat hit plain disjI2 [OF nw] q, folded p]
  obtain bs where bs: "host_read (mpu_host s) p (unat sz) = Some bs"
    using host_range_defined [OF flat hit plain disjI2 [OF nw] q] p by auto
  then have "length bs = unat sz"
    by (auto simp: host_read_def buf_read_length split: prod.splits if_splits)
  with bs fg hit wr show ?thesis by auto
qed

theorem mpu_get_host_memory_valid_witness:
  "mpu_get_host_memory example_env 0 0x202 5 True example_map =
      ((STD_E_OK, Some (1, 2)), example_map\<lparr>mpu_prev_w := 1\<rparr>) \<and>
    (\<exists>bs. length bs = 5 \<and> flat_get (mem_view example_map) 0x202 5 = Some bs)"
proof -
  have ok: "mpu_get_host_memory example_env 0 0x202 5 True example_map =
      ((STD_E_OK, Some (1, 2)), example_map\<lparr>mpu_prev_w := 1\<rparr>)"
    by (simp add: mpu_get_host_memory_def search_region_def search_region_from_def
        previous_region_covers_def search_region_loops_def example_map_def example_env_def
        region_covers_def new_region_def is_memory_window_def ptr_add_def)
  with mpu_get_host_memory_valid [OF example_map_flat ok] show ?thesis by auto
qed

section \<open>Adding regions\<close>

definition region_apart :: "MpuAddressRegionType \<Rightarrow> MpuAddressRegionType \<Rightarrow> bool" where
  "region_apart r q \<longleftrightarrow>
    unat (rg_start r) + unat (rg_size r) \<le> unat (rg_start q) \<or>
    unat (rg_start q) + unat (rg_size q) \<le> unat (rg_start r)"

lemma pairwise_sorted_wrt:
  assumes "\<And>x y. R x y \<Longrightarrow> R y x"
  shows "(\<forall>i<length xs. \<forall>j<length xs. i \<noteq> j \<longrightarrow> R (xs ! i) (xs ! j)) \<longleftrightarrow> sorted_wrt R xs"
  using assms by (auto simp: sorted_wrt_iff_nth_less) (metis linorder_neqE_nat)

lemma regions_disjoint_sorted_wrt:
  "regions_disjoint rs \<longleftrightarrow>
    (\<forall>r\<in>set rs. rg_mask r = MPU_ADDRESS_REGION_MASK_ALL) \<and> sorted_wrt region_apart rs"
  by (subst pairwise_sorted_wrt [symmetric]) (auto simp: region_apart_def regions_disjoint_def)

lemma host_apart_sym: "host_apart r q \<Longrightarrow> host_apart q r"
  by (auto simp: host_apart_def split: option.splits)

lemma host_separate_sorted_wrt: "host_separate rs \<longleftrightarrow> sorted_wrt host_apart rs"
  unfolding host_separate_def by (rule pairwise_sorted_wrt) (rule host_apart_sym)

lemma mpu_wf_block:
  assumes "mpu_wf s" "r \<in> set (regions_of s)" "rg_ops r = default_memory_operation" "rg_data r = Some p"
  shows "fst p < length (mpu_host s)"
proof -
  have "region_backed (mpu_host s) r"
    using assms(1,2,4) unfolding mpu_wf_def regions_of_def set_append Un_iff by fastforce
  then show ?thesis using assms(3,4) by (auto simp: region_backed_def)
qed

lemma region_backed_append:
  "region_backed h r \<Longrightarrow> region_backed (h @ [blk]) r"
  by (auto simp: region_backed_def nth_append split: option.splits)

text \<open>
  A new region that overlaps no other one, with memory in a fresh block, keeps the map flat.
\<close>

lemma add_fresh_region_flat:
  assumes flat: "mpu_flat s"
    and apart: "\<forall>q\<in>set (regions_of s). region_apart q (new_region addr sz ty False (Some (length (mpu_host s), 0)) ops)"
    and sz: "unat sz + 4 \<le> 2 ^ 32" "unat sz \<le> length blk"
  shows "mpu_flat (add_region (new_region addr sz ty False (Some (length (mpu_host s), 0)) ops)
    (s\<lparr>mpu_host := mpu_host s @ [blk]\<rparr>))"
proof -
  let ?r = "new_region addr sz ty False (Some (length (mpu_host s), 0)) ops"
  let ?s = "add_region ?r (s\<lparr>mpu_host := mpu_host s @ [blk]\<rparr>)"
  have rs: "regions_of ?s = mpu_dynamic_map s @ [?r] @ mpu_map s"
    by (simp add: regions_of_def add_region_def)
  have ap: "region_apart ?r q" "host_apart q ?r" if "q \<in> set (regions_of s)" for q
  proof -
    show "region_apart ?r q" using apart that by (auto simp: region_apart_def)
    have "fst p < length (mpu_host s)"
      if "rg_ops q = default_memory_operation" "rg_data q = Some p" for p
      using mpu_wf_block [of s q p] flat \<open>q \<in> _\<close> that by (simp add: mpu_flat_def)
    then show "host_apart q ?r" by (auto simp: host_apart_def new_region_def split: option.split)
  qed
  have "regions_disjoint (regions_of ?s)"
    using flat apart ap(1) unfolding rs mpu_flat_def regions_disjoint_sorted_wrt
    by (auto simp: sorted_wrt_append regions_of_def new_region_def)
  moreover have "host_separate (regions_of ?s)"
    using flat ap(2) host_apart_sym [OF ap(2)] unfolding rs mpu_flat_def host_separate_sorted_wrt
    by (auto simp: sorted_wrt_append regions_of_def)
  moreover have "region_backed (mpu_host s @ [blk]) ?r"
    using sz by (simp add: region_backed_def new_region_def)
  then have "mpu_wf ?s"
    using flat by (auto simp: mpu_flat_def mpu_wf_def add_region_def region_backed_append)
  ultimately show ?thesis by (simp add: mpu_flat_def)
qed

lemma apart_not_covers:
  assumes "regions_disjoint rs" "q \<in> set rs" "region_apart q r" "region_covers q b n"
    "unat (rg_start r) \<le> unat b" "unat b < unat (rg_start r) + unat (rg_size r)"
  shows False
proof -
  have "rg_mask q = MPU_ADDRESS_REGION_MASK_ALL" using assms(1,2) by (simp add: regions_disjoint_def)
  with region_covers_range [OF assms(4)] assms(3,5,6) show False by (auto simp: region_apart_def)
qed

lemma search_add_region:
  "search_region_loops (add_region r (s\<lparr>mpu_host := h\<rparr>)) b n =
    (if find_first (\<lambda>r. region_covers r b n) (mpu_dynamic_map s) = None \<and> region_covers r b n
     then (if rg_data r = None then None else Some (Dynamic (length (mpu_dynamic_map s))))
     else search_region_loops s b n)"
  by (auto simp: search_region_loops_def add_region_def find_first_append nth_append
      dest: find_first_Some_bound split: option.split)

lemma region_at_add_region:
  "search_region_loops s b n = Some ref \<Longrightarrow>
    region_at (add_region r (s\<lparr>mpu_host := h\<rparr>)) ref = region_at s ref"
  by (cases ref) (auto simp: search_region_loops_def add_region_def nth_append
      dest: find_first_Some_bound split: option.splits if_splits)

lemma mem_view_old_region:
  assumes flat: "mpu_flat s"
    and same: "search_region_loops (add_region r (s\<lparr>mpu_host := mpu_host s @ [blk]\<rparr>)) b 1 = search_region_loops s b 1"
  shows "mem_view (add_region r (s\<lparr>mpu_host := mpu_host s @ [blk]\<rparr>)) b = mem_view s b"
proof (cases "search_region_loops s b 1")
  case None
  then show ?thesis using same by (simp add: mem_view_def)
next
  case (Some ref)
  note at = region_at_add_region [OF Some, of r "mpu_host s @ [blk]"]
  have host: "mpu_host (add_region r (s\<lparr>mpu_host := mpu_host s @ [blk]\<rparr>)) = mpu_host s @ [blk]"
    by (simp add: add_region_def)
  have "host_read (mpu_host s @ [blk]) (ptr_add p k) 1 = host_read (mpu_host s) (ptr_add p k) 1"
    if "plain_ref s ref" "rg_data (region_at s ref) = Some p" for p k
  proof -
    have "region_backed (mpu_host s) (region_at s ref)"
      using mpu_wf_backed [OF _ Some] flat by (simp add: mpu_flat_def)
    then have "fst p < length (mpu_host s)" using that by (auto simp: region_backed_def plain_ref_def)
    then show ?thesis by (simp add: host_read_def ptr_add_def nth_append)
  qed
  then show ?thesis
    by (cases "rg_data (region_at s ref)")
      (simp_all add: mem_view_def plain_ref_def same Some at host cong: if_cong)
qed

lemma mem_view_fresh_region:
  assumes flat: "mpu_flat s" and r: "r = new_region addr sz ty False (Some (length (mpu_host s), 0)) default_memory_operation"
    and apart: "\<forall>q\<in>set (regions_of s). region_apart q r"
    and nw: "unat addr + unat sz < 2 ^ 32" and len: "length blk = unat sz"
  shows "mem_view (add_region r (s\<lparr>mpu_host := mpu_host s @ [blk]\<rparr>)) = flat_put (mem_view s) addr blk"
proof
  fix b
  let ?s = "add_region r (s\<lparr>mpu_host := mpu_host s @ [blk]\<rparr>)"
  have d: "regions_disjoint (regions_of s)" using flat by (simp add: mpu_flat_def)
  have fields: "rg_start r = addr" "rg_size r = sz" "rg_mask r = MPU_ADDRESS_REGION_MASK_ALL"
    "rg_ops r = default_memory_operation" "rg_data r = Some (length (mpu_host s), 0)"
    by (simp_all add: r new_region_def)
  show "mem_view ?s b = flat_put (mem_view s) addr blk b"
  proof (cases "unat addr \<le> unat b \<and> unat b < unat addr + unat sz")
    case True
    then have "\<forall>q\<in>set (mpu_dynamic_map s). \<not> region_covers q b 1"
      using apart_not_covers [OF d, of _ r b 1] apart fields by (auto simp: regions_of_def)
    then have "find_first (\<lambda>r. region_covers r b 1) (mpu_dynamic_map s) = None"
      by (simp add: find_first_None_iff)
    moreover have "region_covers r b 1" using True nw fields by (intro region_covers_byte) simp_all
    ultimately have "search_region_loops ?s b 1 = Some (Dynamic (length (mpu_dynamic_map s)))"
      by (simp add: search_add_region fields)
    moreover have "region_at ?s (Dynamic (length (mpu_dynamic_map s))) = r" by (simp add: add_region_def)
    moreover have "unat (b - addr) = unat b - unat addr" using True by (simp add: unat_sub word_le_nat_alt)
    moreover have "unat b - unat addr < length blk" using True len by auto
    then have "host_read (mpu_host ?s) (length (mpu_host s), unat b - unat addr) 1 =
        Some [blk ! (unat b - unat addr)]"
      by (simp add: host_read_def add_region_def buf_read_one)
    ultimately show ?thesis using True len
      by (simp add: mem_view_def plain_ref_def fields ptr_add_def flat_put_def)
  next
    case False
    then have "\<not> region_covers r b 1" using region_covers_range(2,3) [of r b 1] fields by auto
    then have "search_region_loops ?s b 1 = search_region_loops s b 1" by (simp add: search_add_region)
    from mem_view_old_region [OF flat this] False len show ?thesis by (auto simp: flat_put_def)
  qed
qed

text \<open>
  Creating memory. A ROM or RAM of \<open>sz\<close> bytes that overlaps no region and does not
  reach the end of the address space is created by \<open>mpu_address_set_rom_ram\<close>; the
  memory view gains exactly its bytes, the contents of the host block for a ROM and zeros for a RAM, all other
  addresses keep theirs, and the map stays well formed and free of overlaps.
\<close>

theorem mpu_address_set_rom_ram_creates:
  assumes flat: "mpu_flat s"
    and apart: "\<forall>q\<in>set (regions_of s). unat (rg_start q) + unat (rg_size q) \<le> unat addr \<or>
      unat addr + unat sz \<le> unat (rg_start q)"
    and sz: "0 < unat sz" "unat addr + unat sz < 2 ^ 32" "unat sz + 4 \<le> 2 ^ 32"
    and blk: "length blk = unat sz"
  shows "\<forall>getType\<in>{MpuAddressGetType_ROM, MpuAddressGetType_RAM}. \<exists>p s'.
    mpu_address_set_rom_ram getType addr sz m (Some blk) s = Some (Some p, s') \<and> mpu_flat s' \<and>
    mem_view s' = flat_put (mem_view s) addr
      (if getType = MpuAddressGetType_ROM then blk else replicate (unat sz) 0)"
proof -
  have d: "regions_disjoint (regions_of s)" using flat by (simp add: mpu_flat_def)
  let ?r = "\<lambda>ty. new_region addr sz ty False (Some (length (mpu_host s), 0)) default_memory_operation"
  have ap: "\<forall>q\<in>set (regions_of s). region_apart q (?r ty)" for ty
    using apart by (simp add: region_apart_def new_region_def)
  then have "\<forall>q\<in>set (mpu_dynamic_map s). \<not> region_covers q addr sz"
    using apart_not_covers [OF d, of _ "?r DEVICE" addr sz] sz(1) by (auto simp: regions_of_def new_region_def)
  then have none: "mpu_address_search_region s addr sz = None"
    by (simp add: mpu_address_search_region_def find_first_None_iff)
  have "mpu_flat (add_region (?r ty) (s\<lparr>mpu_host := mpu_host s @ [b]\<rparr>)) \<and>
    mem_view (add_region (?r ty) (s\<lparr>mpu_host := mpu_host s @ [b]\<rparr>)) = flat_put (mem_view s) addr b"
    if "length b = unat sz" for ty b
    using add_fresh_region_flat [OF flat ap sz(3), of b] mem_view_fresh_region [OF flat refl ap sz(2) that] that
    by simp
  from this [OF blk] this [of "replicate (unat sz) 0"] show ?thesis
    by (simp add: mpu_address_set_rom_ram_def none add_block_def)
qed

theorem mpu_address_set_rom_ram_creates_witness:
  "\<exists>p s'. mpu_address_set_rom_ram MpuAddressGetType_RAM 0x300 4 None (Some [1, 2, 3, 4]) example_map =
      Some (Some p, s') \<and> mem_view s' 0x302 = Some 0"
  using mpu_address_set_rom_ram_creates [OF example_map_flat, of "0x300" 4 "[1, 2, 3, 4]" None]
  by (auto simp: flat_put_def regions_of_def example_map_def new_region_def)

end
