(* ===== verification/MpuMalloc.thy ===== *)
theory MpuMalloc
  imports MpuLaws
begin

text \<open>
  The heap of the guest program, src/src/device/mpu/mpu_malloc.c: ten size classes from 32 to
  16384 bytes, each group of ten 1 MiB regions serving one class per region, with a bitmap of
  used blocks per region.

  \<^item> A pointer to a region is the index of its entry in \<open>mpu_dynamic_map\<close>, NULL is
    \<open>None\<close>. The \<open>groups\<close> array is a list of groups.
  \<^item> A bitmap is a list of bytes, read as the C code does: eight bytes at a time as a
    little-endian 64-bit word to find a word with a free bit, then byte by byte and bit by bit.
  \<^item> \<open>None\<close> as the result of an operation means that the C code dereferences NULL or
    leaves an array, or that an ASSERT failed. The results of the host's \<open>malloc\<close> are
    parameters of the operations.
\<close>

section \<open>Size classes\<close>

definition MPU_MALLOC_REGION_UNIT_SIZE :: nat where
  "MPU_MALLOC_REGION_UNIT_SIZE = 1024"

abbreviation MallocSize_Num :: nat where
  "MallocSize_Num \<equiv> 10"

record MallocDataInfoType =
  mi_memsize :: nat
  mi_bitmaxnum :: nat
  mi_bitmapsize :: nat

definition SIZE_TO_BITMAXNUM :: "nat \<Rightarrow> nat" where
  "SIZE_TO_BITMAXNUM sz = (MPU_MALLOC_REGION_UNIT_SIZE * 1024) div sz"

definition SIZE_TO_BITMAPSIZE :: "nat \<Rightarrow> nat" where
  "SIZE_TO_BITMAPSIZE sz = ((SIZE_TO_BITMAXNUM sz + 63) div 64) * 8"

definition malloc_data_info_table :: "MallocDataInfoType list" where
  "malloc_data_info_table =
    map (\<lambda>sz. \<lparr>mi_memsize = sz, mi_bitmaxnum = SIZE_TO_BITMAXNUM sz, mi_bitmapsize = SIZE_TO_BITMAPSIZE sz\<rparr>)
      [32, 64, 128, 256, 512, 1024, 2048, 4096, 8192, 16384]"

abbreviation memsize :: "nat \<Rightarrow> nat" where
  "memsize i \<equiv> mi_memsize (malloc_data_info_table ! i)"

abbreviation bitmaxnum :: "nat \<Rightarrow> nat" where
  "bitmaxnum i \<equiv> mi_bitmaxnum (malloc_data_info_table ! i)"

abbreviation bitmapsize :: "nat \<Rightarrow> nat" where
  "bitmapsize i \<equiv> mi_bitmapsize (malloc_data_info_table ! i)"

section \<open>Bitmaps\<close>

definition BIT_IS_FREE8 :: "uint8 \<Rightarrow> nat \<Rightarrow> bool" where
  "BIT_IS_FREE8 bits8 index \<longleftrightarrow> push_bit index 1 AND bits8 = 0"

definition BIT_SET :: "uint8 \<Rightarrow> nat \<Rightarrow> uint8" where
  "BIT_SET bits8 index = push_bit index 1 OR bits8"

definition BIT_CLR :: "uint8 \<Rightarrow> nat \<Rightarrow> uint8" where
  "BIT_CLR bits8 index = NOT (push_bit index 1) AND bits8"

definition bitmap64 :: "uint8 list \<Rightarrow> nat \<Rightarrow> uint64" where
  "bitmap64 bitmap k = le_decode (take 8 (drop (8 * k) bitmap))"

text \<open>
  The loops over the eight bytes of a word. The test \<open>(~(bitmap8[bit8_off])) == 0U\<close>
  is made on the byte promoted to \<open>int\<close>, so its complement is taken at 32 bits.
\<close>

fun set_bit_bytes :: "uint8 list \<Rightarrow> nat \<Rightarrow> nat \<times> nat" where
  "set_bit_bytes [] bit8_off = (bit8_off, 8)"
| "set_bit_bytes (b # bs) bit8_off =
    (if NOT (ucast b :: 32 word) = 0 then set_bit_bytes bs (Suc bit8_off)
     else case find_first (BIT_IS_FREE8 b) [0..<8] of
            Some bit8_mod \<Rightarrow> (bit8_off, bit8_mod)
          | None \<Rightarrow> set_bit_bytes bs (Suc bit8_off))"

definition set_bit_map :: "uint8 list \<Rightarrow> nat \<Rightarrow> nat \<Rightarrow> (int \<times> uint8 list) option" where
  "set_bit_map bitmap maxnum mapsize =
    (let bit64_num = mapsize div 8
     in if length bitmap < 8 * bit64_num then None
        else case find_first (\<lambda>k. NOT (bitmap64 bitmap k) \<noteq> 0) [0..<bit64_num] of
               None \<Rightarrow> Some (-1, bitmap)
             | Some bit64_off \<Rightarrow>
                 (let (bit8_off, bit8_mod) = set_bit_bytes (take 8 (drop (8 * bit64_off) bitmap)) 0;
                      ret = bit64_off * 64 + bit8_off * 8 + bit8_mod;
                      pos = bit64_off * 8 + bit8_off
                  in if ret \<ge> maxnum then Some (-1, bitmap)
                     else Some (int ret, bitmap[pos := BIT_SET (bitmap ! pos) bit8_mod])))"

section \<open>Units and groups\<close>

record MallocRegionUnitType =
  mu_region :: "nat option"
  mu_bitmap :: "uint8 list option"
  mu_bitfreenum :: uint32

record MallocRegionGroupType =
  mg_unit_num :: nat
  mg_unit :: "MallocRegionUnitType list"

record 'd malloc_state =
  ml_groups :: "MallocRegionGroupType list"
  ml_mpu :: "'d mpu_state"

abbreviation unit_of :: "MallocRegionGroupType list \<Rightarrow> nat \<Rightarrow> nat \<Rightarrow> MallocRegionUnitType" where
  "unit_of gs i j \<equiv> mg_unit (gs ! j) ! i"

definition set_unit :: "MallocRegionGroupType list \<Rightarrow> nat \<Rightarrow> nat \<Rightarrow> MallocRegionUnitType \<Rightarrow> MallocRegionGroupType list" where
  "set_unit gs i j u = gs[j := (gs ! j)\<lparr>mg_unit := (mg_unit (gs ! j))[i := u]\<rparr>]"

text \<open>The order in which the nested loops visit the units: classes outside, groups inside.\<close>

definition unit_order :: "nat \<Rightarrow> nat \<Rightarrow> (nat \<times> nat) list" where
  "unit_order candidate_index group_num =
    concat (map (\<lambda>i. map (\<lambda>j. (i, j)) [0..<group_num]) [candidate_index..<MallocSize_Num])"

definition set_region_data :: "nat \<Rightarrow> hptr \<Rightarrow> 'd mpu_state \<Rightarrow> 'd mpu_state" where
  "set_region_data k p s = s\<lparr>mpu_dynamic_map := (mpu_dynamic_map s)[k := (mpu_dynamic_map s ! k)\<lparr>rg_data := Some p\<rparr>]\<rparr>"

text \<open>
  \<open>if (unit->region->data == NULL) unit->region->data = malloc(...)\<close>: a region gets
  its memory with the first block allocated in it.
\<close>

definition back_region :: "nat \<Rightarrow> uint8 list option \<Rightarrow> 'd mpu_state \<Rightarrow> 'd mpu_state option" where
  "back_region k alloc s =
    (if rg_data (mpu_dynamic_map s ! k) = None
     then case alloc of
            None \<Rightarrow> None
          | Some blk \<Rightarrow> (let (p, s1) = add_block blk s in Some (set_region_data k p s1))
     else Some s)"

definition mpu_malloc_get_memory ::
  "uint32 \<Rightarrow> uint8 list option \<Rightarrow> 'd malloc_state \<Rightarrow> (uint32 \<times> 'd malloc_state) option" where
  "mpu_malloc_get_memory sz alloc st =
    (case find_first (\<lambda>info. mi_memsize info \<ge> unat sz) malloc_data_info_table of
       None \<Rightarrow> Some (0, st)
     | Some candidate_index \<Rightarrow>
        (let order = unit_order candidate_index (length (ml_groups st))
         in case find_first (\<lambda>(i, j). mu_bitfreenum (unit_of (ml_groups st) i j) > 0) order of
              None \<Rightarrow> Some (0, st)
            | Some n \<Rightarrow>
               (let (i, j) = order ! n; unit = unit_of (ml_groups st) i j
                in do {
                  bitmap \<leftarrow> mu_bitmap unit;
                  (index, bitmap') \<leftarrow> set_bit_map bitmap (bitmaxnum i) (bitmapsize i);
                  if index < 0 then Some (0, st)
                  else do {
                    k \<leftarrow> mu_region unit;
                    s1 \<leftarrow> back_region k alloc (ml_mpu st);
                    Some (rg_start (mpu_dynamic_map s1 ! k) + of_int index * of_nat (memsize i),
                      \<lparr>ml_groups = set_unit (ml_groups st) i j
                         (unit\<lparr>mu_bitmap := Some bitmap', mu_bitfreenum := mu_bitfreenum unit - 1\<rparr>),
                       ml_mpu = s1\<rparr>)
                  }
                })))"

fun search_unit_loop :: "'d malloc_state \<Rightarrow> uint32 \<Rightarrow> (nat \<times> nat) list \<Rightarrow> (nat \<times> nat) option option" where
  "search_unit_loop st addr [] = Some None"
| "search_unit_loop st addr ((i, j) # ps) =
    (case mu_region (unit_of (ml_groups st) i j) of
       None \<Rightarrow> None
     | Some k \<Rightarrow>
        (let region = mpu_dynamic_map (ml_mpu st) ! k
         in if rg_start region \<le> addr \<and> addr < rg_start region + rg_size region
            then Some (Some (i, j)) else search_unit_loop st addr ps))"

definition search_unit :: "'d malloc_state \<Rightarrow> uint32 \<Rightarrow> (nat \<times> nat) option option" where
  "search_unit st addr = search_unit_loop st addr (unit_order 0 (length (ml_groups st)))"

definition mpu_malloc_rel_memory :: "uint32 \<Rightarrow> 'd malloc_state \<Rightarrow> 'd malloc_state option" where
  "mpu_malloc_rel_memory addr st =
    (case search_unit st addr of
       None \<Rightarrow> None
     | Some None \<Rightarrow> Some st
     | Some (Some (i, j)) \<Rightarrow>
        (let unit = unit_of (ml_groups st) i j
         in do {
           k \<leftarrow> mu_region unit;
           bitmap \<leftarrow> mu_bitmap unit;
           let bits = unat (addr - rg_start (mpu_dynamic_map (ml_mpu st) ! k)) div memsize i;
           let bit64_off = bits div 64; let bit64_mod = bits mod 64;
           let bit8_off = bit64_mod div 8; let bit8_mod = bit64_mod mod 8;
           let pos = bit64_off * 8 + bit8_off;
           if pos \<ge> length bitmap then None
           else Some (st\<lparr>ml_groups := set_unit (ml_groups st) i j
                  (unit\<lparr>mu_bitmap := Some (bitmap[pos := BIT_CLR (bitmap ! pos) bit8_mod]),
                        mu_bitfreenum := mu_bitfreenum unit + 1\<rparr>)\<rparr>)
         }))"

definition mpu_malloc_ref_size :: "uint32 \<Rightarrow> 'd malloc_state \<Rightarrow> nat option" where
  "mpu_malloc_ref_size addr st =
    (case search_unit st addr of
       Some (Some (i, j)) \<Rightarrow> Some (memsize i)
     | _ \<Rightarrow> None)"

section \<open>Adding regions\<close>

definition group_init :: "MallocRegionGroupType" where
  "group_init = \<lparr>mg_unit_num = 0,
     mg_unit = map (\<lambda>info. \<lparr>mu_region = None, mu_bitmap = None, mu_bitfreenum = of_nat (mi_bitmaxnum info)\<rparr>)
       malloc_data_info_table\<rparr>"

text \<open>A NULL bitmap is passed to \<open>memset\<close> before it is asserted not to be NULL.\<close>

definition group_add_region :: "bool \<Rightarrow> nat option \<Rightarrow> MallocRegionGroupType \<Rightarrow> MallocRegionGroupType option" where
  "group_add_region alloc_ok region grp =
    (let index = mg_unit_num grp
     in if index \<ge> MallocSize_Num \<or> \<not> alloc_ok then None
        else Some (grp\<lparr>mg_unit := (mg_unit grp)[index := (mg_unit grp ! index)
                     \<lparr>mu_region := region, mu_bitmap := Some (replicate (bitmapsize index) 0)\<rparr>],
                   mg_unit_num := index + 1\<rparr>))"

definition group_has_free_unit :: "MallocRegionGroupType \<Rightarrow> bool" where
  "group_has_free_unit grp \<longleftrightarrow>
    mg_unit_num grp < MallocSize_Num \<or>
    (\<exists>u\<in>set (take (mg_unit_num grp) (mg_unit grp)). mu_region u = None)"

definition group_alloc :: "bool \<Rightarrow> MallocRegionGroupType list \<Rightarrow> MallocRegionGroupType list option" where
  "group_alloc alloc_ok groups = (if alloc_ok then Some (groups @ [group_init]) else None)"

text \<open>The group to use is always the last one of the resulting array.\<close>

definition group_get :: "bool \<Rightarrow> MallocRegionGroupType list \<Rightarrow> MallocRegionGroupType list option" where
  "group_get alloc_ok groups =
    (if groups = [] then group_alloc alloc_ok groups
     else if group_has_free_unit (last groups) then Some groups
     else group_alloc alloc_ok groups)"

definition mpu_malloc_add_region :: "bool \<Rightarrow> nat option \<Rightarrow> 'd malloc_state \<Rightarrow> 'd malloc_state option" where
  "mpu_malloc_add_region alloc_ok region st = do {
     groups \<leftarrow> group_get alloc_ok (ml_groups st);
     grp \<leftarrow> group_add_region alloc_ok region (last groups);
     Some (st\<lparr>ml_groups := butlast groups @ [grp]\<rparr>)
   }"

definition mpu_address_set_malloc_region ::
  "bool \<Rightarrow> AthrillAddrType \<Rightarrow> AthrillAddrType \<Rightarrow> 'd malloc_state \<Rightarrow> 'd malloc_state option" where
  "mpu_address_set_malloc_region alloc_ok addr sz st =
    mpu_malloc_add_region alloc_ok (mpu_address_search_region (ml_mpu st) addr sz) st"

end
