(* ===== verification/MpuMallocLaws.thy ===== *)
theory MpuMallocLaws
  imports MpuMalloc
begin

text \<open>
  Correctness of the guest heap of \<open>MpuMalloc\<close>: the bitmap search returns the lowest
  free block, an allocation returns a block of sufficient size that overlaps no live block and
  fails only when every such block is in use, and a release gives exactly that block back.
\<close>

section \<open>Bits of a bitmap\<close>

definition bm_bit :: "uint8 list \<Rightarrow> nat \<Rightarrow> bool" where
  "bm_bit bm i = bit (bm ! (i div 8)) (i mod 8)"

lemma word_eq_bits: "v = w \<longleftrightarrow> (\<forall>i<LENGTH('a). bit (v :: 'a::len word) i = bit w i)"
  by (auto intro: bit_word_eqI)

lemma BIT_IS_FREE8_iff: "m < 8 \<Longrightarrow> BIT_IS_FREE8 b m \<longleftrightarrow> \<not> bit b m"
  by (auto simp: BIT_IS_FREE8_def word_eq_bits bit_simps)

lemma bit_BIT_SET: "k < 8 \<Longrightarrow> bit (BIT_SET b m) k \<longleftrightarrow> k = m \<or> bit b k"
  by (auto simp: BIT_SET_def bit_simps)

lemma bit_BIT_CLR: "k < 8 \<Longrightarrow> bit (BIT_CLR b m) k \<longleftrightarrow> k \<noteq> m \<and> bit b k"
  by (auto simp: BIT_CLR_def bit_simps)

lemma bit_le_decode:
  "bit (le_decode bs :: 'a::len word) i \<longleftrightarrow> i < LENGTH('a) \<and> i div 8 < length bs \<and> bm_bit bs i"
proof (induction bs arbitrary: i)
  case Nil
  then show ?case by simp
next
  case (Cons b bs)
  show ?case
  proof (cases "i < 8")
    case True
    then show ?thesis by (auto simp: bit_simps bm_bit_def)
  next
    case False
    then have "i div 8 = Suc ((i - 8) div 8)" "i mod 8 = (i - 8) mod 8"
      by (simp_all add: le_div_geq le_mod_geq)
    moreover have "\<not> bit b i" using False by (auto dest: bit_imp_le_length)
    ultimately show ?thesis using False Cons [of "i - 8"]
      by (auto simp: bit_simps bm_bit_def)
  qed
qed

lemma not_word_eq_0_iff: "NOT w = 0 \<longleftrightarrow> (\<forall>i<LENGTH('a). bit (w :: 'a::len word) i)"
  by (auto simp: word_eq_bits bit_simps)

lemma promoted_complement_nonzero: "NOT (ucast (b :: uint8) :: 32 word) \<noteq> 0"
  by (auto simp: not_word_eq_0_iff bit_simps intro!: exI [of _ 31] dest: bit_imp_le_length)

lemma set_bit_bytes_least:
  assumes "m < 8 * length bs" "\<not> bm_bit bs m" "\<forall>k<m. bm_bit bs k"
  shows "set_bit_bytes bs off = (off + m div 8, m mod 8)"
  using assms
proof (induction bs arbitrary: m off)
  case Nil
  then show ?case by simp
next
  case (Cons b bs)
  have bits: "bm_bit (b # bs) k = bit b k" if "k < 8" for k
    using that by (simp add: bm_bit_def)
  show ?case
  proof (cases "m < 8")
    case True
    have "find_first (BIT_IS_FREE8 b) [0..<8] = Some m"
      using True Cons.prems(2,3) by (auto simp: find_first_Some_iff BIT_IS_FREE8_iff bits)
    then show ?thesis using True by (simp add: promoted_complement_nonzero)
  next
    case False
    have "find_first (BIT_IS_FREE8 b) [0..<8] = None"
      using False Cons.prems(3) by (auto simp: find_first_None_iff BIT_IS_FREE8_iff bits [symmetric])
    moreover have shift: "bm_bit bs k = bm_bit (b # bs) (k + 8)" for k
      using div_add_self2 [of 8 k] by (simp add: bm_bit_def)
    have "set_bit_bytes bs (Suc off) = (Suc off + (m - 8) div 8, (m - 8) mod 8)"
      using False Cons.prems by (intro Cons.IH) (auto simp: shift)
    ultimately show ?thesis using False
      by (simp add: promoted_complement_nonzero le_div_geq le_mod_geq)
  qed
qed

definition free_bits :: "nat \<Rightarrow> uint8 list \<Rightarrow> nat set" where
  "free_bits maxnum bm = {m. m < maxnum \<and> \<not> bm_bit bm m}"

lemma bm_bit_take_drop:
  assumes "8 * k + 8 \<le> length bm" "i < 64"
  shows "bm_bit (take 8 (drop (8 * k) bm)) i = bm_bit bm (64 * k + i)"
proof -
  have "i div 8 < 8" using assms(2) by (simp add: less_mult_imp_div_less)
  moreover have "(64 * k + i) div 8 = 8 * k + i div 8" "(64 * k + i) mod 8 = i mod 8"
    by (simp_all add: div_add1_eq [of "64 * k" i] mod_add_eq [of "64 * k" 8 i, symmetric])
  ultimately show ?thesis using assms(1) by (simp add: bm_bit_def)
qed

lemma bitmap64_full_iff:
  assumes "8 * k + 8 \<le> length bm"
  shows "NOT (bitmap64 bm k) = 0 \<longleftrightarrow> (\<forall>i<64. bm_bit bm (64 * k + i))"
  using assms
  by (simp add: bitmap64_def not_word_eq_0_iff bit_le_decode bm_bit_take_drop less_mult_imp_div_less)

lemma first_word:
  assumes len: "length bm = 8 * num" and m: "m < 64 * num" "\<not> bm_bit bm m" "\<forall>k<m. bm_bit bm k"
  shows "find_first (\<lambda>k. NOT (bitmap64 bm k) \<noteq> 0) [0..<num] = Some (m div 64)"
proof -
  have num: "m div 64 < num" using m(1) by (simp add: less_mult_imp_div_less mult.commute)
  have full: "NOT (bitmap64 bm k) = 0 \<longleftrightarrow> (\<forall>i<64. bm_bit bm (64 * k + i))" if "k < num" for k
    using that len by (intro bitmap64_full_iff) simp
  have "NOT (bitmap64 bm (m div 64)) \<noteq> 0"
    using full [OF num] m(2) by (metis mod_less_divisor mult_div_mod_eq zero_less_numeral)
  moreover have "NOT (bitmap64 bm k) = 0" if "k < m div 64" for k
    using that num m(3) by (subst full) auto
  ultimately show ?thesis using num by (simp add: find_first_Some_iff)
qed

text \<open>The position of a bit: its byte within the whole bitmap.\<close>

lemma bit_position:
  fixes m :: nat
  shows "m div 64 * 8 + m mod 64 div 8 = m div 8" and "m mod 64 mod 8 = m mod 8"
    and "m div 64 * 64 + m mod 64 div 8 * 8 + m mod 8 = m"
    and "int (m div 64) * 64 + int (m mod 64 div 8) * 8 + int (m mod 8) = int m"
proof -
  have "m mod 64 div 8 = m div 8 mod 8" using mod_mult2_eq [of m 8 8] by simp
  moreover have "m div 64 = m div 8 div 8" using div_mult2_eq [of m 8 8] by simp
  ultimately show "m div 64 * 8 + m mod 64 div 8 = m div 8" by simp
  show mm: "m mod 64 mod 8 = m mod 8" by (simp add: mod_mod_cancel)
  show eq: "m div 64 * 64 + m mod 64 div 8 * 8 + m mod 8 = m"
    using mm by (metis add.assoc div_mult_mod_eq)
  show "int (m div 64) * 64 + int (m mod 64 div 8) * 8 + int (m mod 8) = int m"
    using arg_cong [OF eq, of int] by simp
qed

lemma first_word_none:
  assumes "length bm = 8 * num" "\<forall>k<64 * num. bm_bit bm k"
  shows "find_first (\<lambda>k. NOT (bitmap64 bm k) \<noteq> 0) [0..<num] = None"
  using assms by (auto simp: find_first_None_iff bitmap64_full_iff)

lemma set_bit_map_least:
  assumes len: "length bm = 8 * num" "maxnum \<le> 64 * num"
    and m: "m < maxnum" "\<not> bm_bit bm m" "\<forall>k<m. bm_bit bm k"
  shows "set_bit_map bm maxnum (8 * num) = Some (int m, bm[m div 8 := BIT_SET (bm ! (m div 8)) (m mod 8)])"
proof -
  have mn: "m < 64 * num" using len(2) m(1) by linarith
  note fw = first_word [OF len(1) mn m(2,3)]
  have k: "8 * (m div 64) + 8 \<le> length bm"
    using less_mult_imp_div_less [of m num 64] mn len(1) by linarith
  let ?bs = "take 8 (drop (8 * (m div 64)) bm)"
  have "set_bit_bytes ?bs 0 = (0 + m mod 64 div 8, m mod 64 mod 8)"
  proof (rule set_bit_bytes_least)
    show "m mod 64 < 8 * length ?bs" using k by simp
    show "\<not> bm_bit ?bs (m mod 64)" using m(2) k by (simp add: bm_bit_take_drop)
    have "64 * (m div 64) + i < m" if "i < m mod 64" for i
      using that by (metis mult_div_mod_eq nat_add_left_cancel_less)
    moreover have "i < 64" if "i < m mod 64" for i
      using that mod_less_divisor [of 64 m] by linarith
    ultimately show "\<forall>i<m mod 64. bm_bit ?bs i" using m(3) k by (auto simp: bm_bit_take_drop)
  qed
  then show ?thesis
    using fw m(1) len(1) by (simp add: set_bit_map_def Let_def bit_position)
qed

lemma set_bit_map_full:
  assumes len: "length bm = 8 * num" "maxnum \<le> 64 * num" and full: "free_bits maxnum bm = {}"
  shows "set_bit_map bm maxnum (8 * num) = Some (-1, bm)"
proof (cases "\<forall>k<64 * num. bm_bit bm k")
  case True
  then show ?thesis using first_word_none [OF len(1)] len by (simp add: set_bit_map_def)
next
  case False
  define m where "m = (LEAST k. \<not> bm_bit bm k)"
  obtain k where k: "k < 64 * num" "\<not> bm_bit bm k" using False by blast
  have m: "\<not> bm_bit bm m" "\<forall>k<m. bm_bit bm k" "m \<le> k"
    unfolding m_def using LeastI [of "\<lambda>k. \<not> bm_bit bm k", OF k(2)] Least_le [of "\<lambda>k. \<not> bm_bit bm k", OF k(2)]
      not_less_Least [of _ "\<lambda>k. \<not> bm_bit bm k"] by blast+
  have ge: "maxnum \<le> m" using full m(1) by (auto simp: free_bits_def not_less [symmetric])
  have "set_bit_map bm (64 * num) (8 * num) = Some (int m, bm[m div 8 := BIT_SET (bm ! (m div 8)) (m mod 8)])"
    using m k(1) by (intro set_bit_map_least [OF len(1)]) auto
  with ge show ?thesis
    by (auto simp: set_bit_map_def Let_def len(1) split: option.splits prod.splits if_splits)
qed

lemma bm_bit_update:
  assumes "m div 8 < length bm"
  shows "bm_bit (bm[m div 8 := BIT_SET (bm ! (m div 8)) (m mod 8)]) k \<longleftrightarrow> k = m \<or> bm_bit bm k" (is "?set")
    and "bm_bit (bm[m div 8 := BIT_CLR (bm ! (m div 8)) (m mod 8)]) k \<longleftrightarrow> k \<noteq> m \<and> bm_bit bm k" (is "?clr")
proof -
  have "?set \<and> ?clr"
  proof (cases "k div 8 = m div 8")
    case True
    then have "k = m \<longleftrightarrow> k mod 8 = m mod 8" by (metis mult_div_mod_eq)
    with True show ?thesis using assms by (simp add: bm_bit_def bit_BIT_SET bit_BIT_CLR)
  next
    case False
    then show ?thesis by (auto simp: bm_bit_def)
  qed
  then show ?set ?clr by blast+
qed

section \<open>The size classes\<close>

lemma length_table [simp]: "length malloc_data_info_table = MallocSize_Num"
  by (simp add: malloc_data_info_table_def)

lemma table_eq:
  "malloc_data_info_table =
    [\<lparr>mi_memsize = 32, mi_bitmaxnum = 32768, mi_bitmapsize = 4096\<rparr>,
     \<lparr>mi_memsize = 64, mi_bitmaxnum = 16384, mi_bitmapsize = 2048\<rparr>,
     \<lparr>mi_memsize = 128, mi_bitmaxnum = 8192, mi_bitmapsize = 1024\<rparr>,
     \<lparr>mi_memsize = 256, mi_bitmaxnum = 4096, mi_bitmapsize = 512\<rparr>,
     \<lparr>mi_memsize = 512, mi_bitmaxnum = 2048, mi_bitmapsize = 256\<rparr>,
     \<lparr>mi_memsize = 1024, mi_bitmaxnum = 1024, mi_bitmapsize = 128\<rparr>,
     \<lparr>mi_memsize = 2048, mi_bitmaxnum = 512, mi_bitmapsize = 64\<rparr>,
     \<lparr>mi_memsize = 4096, mi_bitmaxnum = 256, mi_bitmapsize = 32\<rparr>,
     \<lparr>mi_memsize = 8192, mi_bitmaxnum = 128, mi_bitmapsize = 16\<rparr>,
     \<lparr>mi_memsize = 16384, mi_bitmaxnum = 64, mi_bitmapsize = 8\<rparr>]"
  by (simp add: malloc_data_info_table_def SIZE_TO_BITMAPSIZE_def SIZE_TO_BITMAXNUM_def
      MPU_MALLOC_REGION_UNIT_SIZE_def)

lemma table_facts:
  assumes "i < MallocSize_Num"
  shows "memsize i * bitmaxnum i = 2 ^ 20" "bitmaxnum i = 8 * bitmapsize i"
    "bitmapsize i = 8 * (bitmapsize i div 8)" "memsize i = 32 * 2 ^ i" "0 < bitmaxnum i"
    "bitmaxnum i \<le> 2 ^ 15"
proof -
  have "i \<in> {0, 1, 2, 3, 4, 5, 6, 7, 8, 9}" using assms by auto
  then show "memsize i * bitmaxnum i = 2 ^ 20" "bitmaxnum i = 8 * bitmapsize i"
    "bitmapsize i = 8 * (bitmapsize i div 8)" "memsize i = 32 * 2 ^ i" "0 < bitmaxnum i"
    "bitmaxnum i \<le> 2 ^ 15"
    by (auto simp: table_eq)
qed

lemma memsize_le_iff:
  assumes "find_first (\<lambda>info. mi_memsize info \<ge> n) malloc_data_info_table = Some c" "i < MallocSize_Num"
  shows "n \<le> memsize i \<longleftrightarrow> c \<le> i"
proof -
  have c: "c < MallocSize_Num" "n \<le> memsize c" "\<forall>k<c. \<not> n \<le> memsize k"
    using assms(1) by (simp_all add: find_first_Some_iff)
  have "memsize c \<le> memsize i" if "c \<le> i"
    using that assms(2) c(1) by (simp add: table_facts(4))
  with c(2,3) show ?thesis by (meson le_trans not_less)
qed

lemma set_unit_order: "set (unit_order c n) = {(i, j). c \<le> i \<and> i < MallocSize_Num \<and> j < n}"
  by (auto simp: unit_order_def)

section \<open>The invariant and the blocks\<close>

definition unit_ok :: "'d mpu_state \<Rightarrow> nat \<Rightarrow> MallocRegionUnitType \<Rightarrow> bool" where
  "unit_ok s i u \<longleftrightarrow>
    (\<exists>k bm. mu_region u = Some k \<and> mu_bitmap u = Some bm \<and> k < length (mpu_dynamic_map s) \<and>
      rg_size (mpu_dynamic_map s ! k) = 0x100000 \<and> 0 < unat (rg_start (mpu_dynamic_map s ! k)) \<and>
      unat (rg_start (mpu_dynamic_map s ! k)) + 2 ^ 20 < 2 ^ 32 \<and> length bm = bitmapsize i \<and>
      unat (mu_bitfreenum u) = card (free_bits (bitmaxnum i) bm))"

definition unit_start :: "'d mpu_state \<Rightarrow> MallocRegionUnitType \<Rightarrow> nat" where
  "unit_start s u = (case mu_region u of Some k \<Rightarrow> unat (rg_start (mpu_dynamic_map s ! k)) | None \<Rightarrow> 0)"

definition malloc_inv :: "'d malloc_state \<Rightarrow> bool" where
  "malloc_inv st \<longleftrightarrow>
    (\<forall>j<length (ml_groups st). length (mg_unit (ml_groups st ! j)) = MallocSize_Num \<and>
      (\<forall>i<MallocSize_Num. unit_ok (ml_mpu st) i (unit_of (ml_groups st) i j))) \<and>
    (\<forall>i<MallocSize_Num. \<forall>i'<MallocSize_Num. \<forall>j<length (ml_groups st). \<forall>j'<length (ml_groups st).
      (i, j) \<noteq> (i', j') \<longrightarrow>
      unit_start (ml_mpu st) (unit_of (ml_groups st) i j) + 2 ^ 20
        \<le> unit_start (ml_mpu st) (unit_of (ml_groups st) i' j') \<or>
      unit_start (ml_mpu st) (unit_of (ml_groups st) i' j') + 2 ^ 20
        \<le> unit_start (ml_mpu st) (unit_of (ml_groups st) i j))"

text \<open>A block is named by its class, its group and its index in the region.\<close>

type_synonym block = "nat \<times> nat \<times> nat"

definition blocks :: "'d malloc_state \<Rightarrow> block set" where
  "blocks st = {(i, j, b). i < MallocSize_Num \<and> j < length (ml_groups st) \<and> b < bitmaxnum i}"

definition live :: "'d malloc_state \<Rightarrow> block set" where
  "live st = {(i, j, b) \<in> blocks st. \<exists>bm. mu_bitmap (unit_of (ml_groups st) i j) = Some bm \<and> bm_bit bm b}"

definition block_size :: "block \<Rightarrow> nat" where
  "block_size x = memsize (fst x)"

lemma block_size_eq [simp]: "block_size (i, j, b) = memsize i"
  by (simp add: block_size_def)

definition block_addr :: "'d malloc_state \<Rightarrow> block \<Rightarrow> nat" where
  "block_addr st x = (case x of (i, j, b) \<Rightarrow>
    unit_start (ml_mpu st) (unit_of (ml_groups st) i j) + b * memsize i)"

definition block_range :: "'d malloc_state \<Rightarrow> block \<Rightarrow> nat set" where
  "block_range st x = {block_addr st x ..< block_addr st x + block_size x}"

lemma block_inside:
  assumes "i < MallocSize_Num" "b < bitmaxnum i"
  shows "b * memsize i + memsize i \<le> 2 ^ 20"
proof -
  have "Suc b * memsize i \<le> bitmaxnum i * memsize i" using assms(2) by (intro mult_le_mono1) simp
  then show ?thesis using table_facts(1) [OF assms(1)] by (simp add: mult.commute)
qed

lemma block_ranges_disjoint:
  assumes inv: "malloc_inv st" and x: "x \<in> blocks st" and y: "y \<in> blocks st" and ne: "x \<noteq> y"
  shows "block_range st x \<inter> block_range st y = {}"
proof -
  obtain i j b i' j' b' where e: "x = (i, j, b)" "y = (i', j', b')" by (cases x, cases y) auto
  have ix: "i < MallocSize_Num" "j < length (ml_groups st)" "b < bitmaxnum i"
    and iy: "i' < MallocSize_Num" "j' < length (ml_groups st)" "b' < bitmaxnum i'"
    using x y e by (auto simp: blocks_def)
  show ?thesis
  proof (cases "(i, j) = (i', j')")
    case True
    then have "Suc b \<le> b' \<or> Suc b' \<le> b" using ne e by auto
    then have "Suc b * memsize i \<le> b' * memsize i \<or> Suc b' * memsize i \<le> b * memsize i"
      by (auto intro: mult_le_mono1 simp del: mult_Suc)
    then show ?thesis using True e by (auto simp: block_range_def block_addr_def block_size_def)
  next
    case False
    then have "unit_start (ml_mpu st) (unit_of (ml_groups st) i j) + 2 ^ 20
        \<le> unit_start (ml_mpu st) (unit_of (ml_groups st) i' j') \<or>
      unit_start (ml_mpu st) (unit_of (ml_groups st) i' j') + 2 ^ 20
        \<le> unit_start (ml_mpu st) (unit_of (ml_groups st) i j)"
      using inv ix(1,2) iy(1,2) unfolding malloc_inv_def by blast
    then show ?thesis using block_inside [OF ix(1,3)] block_inside [OF iy(1,3)] e
      by (auto simp: block_range_def block_addr_def block_size_def)
  qed
qed

section \<open>State changes\<close>

lemma unit_of_set_unit:
  assumes "j < length gs" "i < length (mg_unit (gs ! j))"
  shows "unit_of (set_unit gs i j u) i' j' = (if i' = i \<and> j' = j then u else unit_of gs i' j')"
  using assms by (auto simp: set_unit_def nth_list_update)

lemma length_set_unit [simp]: "length (set_unit gs i j u) = length gs"
  by (simp add: set_unit_def)

lemma length_units_set_unit [simp]:
  "length (mg_unit (set_unit gs i j u ! j')) = length (mg_unit (gs ! j'))"
  by (cases "j = j'"; cases "j < length gs") (simp_all add: set_unit_def list_update_beyond)

definition same_regions :: "'d mpu_state \<Rightarrow> 'd mpu_state \<Rightarrow> bool" where
  "same_regions s s' \<longleftrightarrow> length (mpu_dynamic_map s') = length (mpu_dynamic_map s) \<and>
    (\<forall>k. rg_start (mpu_dynamic_map s' ! k) = rg_start (mpu_dynamic_map s ! k) \<and>
         rg_size (mpu_dynamic_map s' ! k) = rg_size (mpu_dynamic_map s ! k))"

lemma same_regions_refl [simp]: "same_regions s s"
  by (simp add: same_regions_def)

lemma back_region_Some:
  assumes "k < length (mpu_dynamic_map s)"
  shows "\<exists>s'. back_region k (Some blk) s = Some s' \<and> same_regions s s' \<and> rg_data (mpu_dynamic_map s' ! k) \<noteq> None"
  using assms
  by (auto simp: back_region_def add_block_def set_region_data_def same_regions_def nth_list_update)

lemma unit_frame:
  assumes "same_regions s s'"
  shows "unit_ok s' i u = unit_ok s i u" "unit_start s' u = unit_start s u"
  using assms by (auto simp: unit_ok_def unit_start_def same_regions_def split: option.split)

text \<open>Replacing the bitmap and the count of one unit keeps the invariant and the block addresses.\<close>

lemma update_unit_inv:
  assumes inv: "malloc_inv st" and ij: "i < MallocSize_Num" "j < length (ml_groups st)"
    and u: "u = unit_of (ml_groups st) i j" "u' = u\<lparr>mu_bitmap := Some bm, mu_bitfreenum := n\<rparr>"
    and bm: "length bm = bitmapsize i" "unat n = card (free_bits (bitmaxnum i) bm)"
    and s': "same_regions (ml_mpu st) s'"
  shows "malloc_inv \<lparr>ml_groups = set_unit (ml_groups st) i j u', ml_mpu = s'\<rparr>"
    and "block_addr \<lparr>ml_groups = set_unit (ml_groups st) i j u', ml_mpu = s'\<rparr> x = block_addr st x"
proof -
  let ?gs = "set_unit (ml_groups st) i j u'"
  have len: "i < length (mg_unit (ml_groups st ! j))" using inv ij by (simp add: malloc_inv_def)
  note uo = unit_of_set_unit [OF ij(2) len]
  have "unit_ok (ml_mpu st) i u" using inv ij u(1) by (simp add: malloc_inv_def)
  then have ok: "unit_ok (ml_mpu st) i u'" using bm u(2) by (auto simp: unit_ok_def)
  have us: "unit_start s u' = unit_start s u" for s using u(2) by (simp add: unit_start_def)
  have start: "unit_start s' (unit_of ?gs i' j') = unit_start (ml_mpu st) (unit_of (ml_groups st) i' j')" for i' j'
    using u(1) by (simp add: uo unit_frame [OF s'] us)
  show "block_addr \<lparr>ml_groups = ?gs, ml_mpu = s'\<rparr> x = block_addr st x"
    by (cases x) (simp add: block_addr_def start)
  have "unit_ok s' i' (unit_of ?gs i' j')" if "i' < MallocSize_Num" "j' < length (ml_groups st)" for i' j'
    using that inv ok by (simp add: uo unit_frame [OF s'] malloc_inv_def)
  then show "malloc_inv \<lparr>ml_groups = ?gs, ml_mpu = s'\<rparr>"
    using inv by (simp add: malloc_inv_def start)
qed

lemma live_iff:
  "(i, j, b) \<in> live st \<longleftrightarrow> i < MallocSize_Num \<and> j < length (ml_groups st) \<and> b < bitmaxnum i \<and>
    (\<exists>bm. mu_bitmap (unit_of (ml_groups st) i j) = Some bm \<and> bm_bit bm b)"
  by (simp add: live_def blocks_def)

lemma live_update_unit:
  assumes ij: "i < MallocSize_Num" "j < length (ml_groups st)" "i < length (mg_unit (ml_groups st ! j))"
    and bm: "mu_bitmap (unit_of (ml_groups st) i j) = Some bm" "mu_bitmap u' = Some bm'"
    and bits: "\<And>k. bm_bit bm' k \<longleftrightarrow> P k \<and> (k = b \<or> bm_bit bm k)"
    and P: "\<And>k. k \<noteq> b \<Longrightarrow> P k" and b: "b < bitmaxnum i"
  shows "live \<lparr>ml_groups = set_unit (ml_groups st) i j u', ml_mpu = s'\<rparr> =
    (if P b then insert (i, j, b) (live st) else live st - {(i, j, b)})"
proof -
  let ?st = "\<lparr>ml_groups = set_unit (ml_groups st) i j u', ml_mpu = s'\<rparr>"
  have "(i', j', b') \<in> live ?st \<longleftrightarrow>
      (if (i', j', b') = (i, j, b) then P b else (i', j', b') \<in> live st)" for i' j' b'
  proof (cases "i' = i \<and> j' = j")
    case True
    then show ?thesis using ij bm b P by (simp add: live_iff unit_of_set_unit bits)
  next
    case False
    then show ?thesis using ij by (auto simp: live_iff unit_of_set_unit)
  qed
  then show ?thesis by (intro set_eqI) (auto split: if_splits)
qed

lemma free_bits_finite [simp]: "finite (free_bits maxnum bm)"
  by (simp add: free_bits_def)

lemma free_bits_set:
  assumes "b < maxnum" "\<not> bm_bit bm b" "\<And>k. bm_bit bm' k \<longleftrightarrow> k = b \<or> bm_bit bm k"
  shows "card (free_bits maxnum bm') = card (free_bits maxnum bm) - 1"
proof -
  have "free_bits maxnum bm' = free_bits maxnum bm - {b}" using assms(3) by (auto simp: free_bits_def)
  moreover have "b \<in> free_bits maxnum bm" using assms(1,2) by (simp add: free_bits_def)
  ultimately show ?thesis by simp
qed

lemma free_bits_clear:
  assumes "b < maxnum" "bm_bit bm b" "\<And>k. bm_bit bm' k \<longleftrightarrow> k \<noteq> b \<and> bm_bit bm k"
  shows "card (free_bits maxnum bm') = card (free_bits maxnum bm) + 1"
proof -
  have "free_bits maxnum bm' = insert b (free_bits maxnum bm)" using assms(1,3) by (auto simp: free_bits_def)
  moreover have "b \<notin> free_bits maxnum bm" using assms(1,2) by (simp add: free_bits_def)
  ultimately show ?thesis by simp
qed

lemma unit_okE:
  assumes "malloc_inv st" "i < MallocSize_Num" "j < length (ml_groups st)"
  obtains k bm where "mu_region (unit_of (ml_groups st) i j) = Some k"
    "mu_bitmap (unit_of (ml_groups st) i j) = Some bm" "k < length (mpu_dynamic_map (ml_mpu st))"
    "rg_size (mpu_dynamic_map (ml_mpu st) ! k) = 0x100000"
    "0 < unat (rg_start (mpu_dynamic_map (ml_mpu st) ! k))"
    "unat (rg_start (mpu_dynamic_map (ml_mpu st) ! k)) + 2 ^ 20 < 2 ^ 32"
    "length bm = bitmapsize i"
    "unat (mu_bitfreenum (unit_of (ml_groups st) i j)) = card (free_bits (bitmaxnum i) bm)"
  using assms unfolding malloc_inv_def unit_ok_def by blast

lemma free_block_iff:
  assumes inv: "malloc_inv st" and ij: "i < MallocSize_Num" "j < length (ml_groups st)"
  shows "mu_bitfreenum (unit_of (ml_groups st) i j) > 0 \<longleftrightarrow> (\<exists>b. (i, j, b) \<in> blocks st - live st)"
proof -
  from inv ij obtain k bm where u: "mu_bitmap (unit_of (ml_groups st) i j) = Some bm"
    "unat (mu_bitfreenum (unit_of (ml_groups st) i j)) = card (free_bits (bitmaxnum i) bm)"
    by (rule unit_okE)
  have "mu_bitfreenum (unit_of (ml_groups st) i j) > 0 \<longleftrightarrow> free_bits (bitmaxnum i) bm \<noteq> {}"
    using u(2) by (metis card_gt_0_iff free_bits_finite unat_gt_0 word_gt_0)
  then show ?thesis using ij u(1) by (auto simp: free_bits_def live_def blocks_def)
qed

text \<open>The arithmetic of a block address at 32 bits.\<close>

lemma block_addr_word:
  assumes "unat start + 2 ^ 20 < 2 ^ 32" "i < MallocSize_Num" "b < bitmaxnum i"
  shows "unat ((start :: uint32) + of_nat b * of_nat (memsize i)) = unat start + b * memsize i"
proof -
  have "0 < memsize i" by (simp add: table_facts(4) [OF assms(2)])
  then have le: "b * memsize i < 2 ^ 20" using block_inside [OF assms(2,3)] by linarith
  have "unat (of_nat n :: uint32) = n" if "n < 2 ^ 20" for n
    using that by (simp add: unat_of_nat take_bit_nat_eq_self)
  note w = this [OF le]
  show ?thesis unfolding of_nat_mult [symmetric]
    using assms(1) le w by (subst unat_add_nowrap) (simp_all del: of_nat_mult)
qed

section \<open>Allocation\<close>

text \<open>Taking the lowest free block of one unit.\<close>

lemma take_block:
  assumes inv: "malloc_inv st" and ij: "i < MallocSize_Num" "j < length (ml_groups st)"
    and u: "u = unit_of (ml_groups st) i j" and free: "mu_bitfreenum u > 0"
  obtains k bm b bm' s' where "mu_region u = Some k" "mu_bitmap u = Some bm" "(i, j, b) \<in> blocks st - live st"
    "set_bit_map bm (bitmaxnum i) (bitmapsize i) = Some (int b, bm')"
    "back_region k (Some blk) (ml_mpu st) = Some s'" "rg_data (mpu_dynamic_map s' ! k) \<noteq> None"
    "unat (rg_start (mpu_dynamic_map s' ! k) + of_int (int b) * of_nat (memsize i)) = block_addr st (i, j, b)"
    "0 < block_addr st (i, j, b)"
    "\<And>st'. st' = \<lparr>ml_groups = set_unit (ml_groups st) i j (u\<lparr>mu_bitmap := Some bm', mu_bitfreenum := mu_bitfreenum u - 1\<rparr>), ml_mpu = s'\<rparr> \<Longrightarrow>
      malloc_inv st' \<and> live st' = insert (i, j, b) (live st) \<and> (\<forall>x. block_addr st' x = block_addr st x)"
proof -
  from inv ij obtain k bm where k: "mu_region u = Some k" "mu_bitmap u = Some bm"
    "k < length (mpu_dynamic_map (ml_mpu st))"
    "0 < unat (rg_start (mpu_dynamic_map (ml_mpu st) ! k))"
    "unat (rg_start (mpu_dynamic_map (ml_mpu st) ! k)) + 2 ^ 20 < 2 ^ 32"
    "length bm = bitmapsize i" "unat (mu_bitfreenum u) = card (free_bits (bitmaxnum i) bm)"
    unfolding u by (rule unit_okE)
  note tf = table_facts [OF ij(1)]
  have "free_bits (bitmaxnum i) bm \<noteq> {}" using free k(7) by (auto simp: word_less_nat_alt)
  then obtain b0 where b0: "b0 < bitmaxnum i" "\<not> bm_bit bm b0" by (auto simp: free_bits_def)
  define b where "b = (LEAST b. \<not> bm_bit bm b)"
  have b: "\<not> bm_bit bm b" "\<forall>k<b. bm_bit bm k" "b < bitmaxnum i"
    using LeastI [of "\<lambda>b. \<not> bm_bit bm b", OF b0(2)] Least_le [of "\<lambda>b. \<not> bm_bit bm b", OF b0(2)] b0(1)
      not_less_Least [of _ "\<lambda>b. \<not> bm_bit bm b"] unfolding b_def by (blast, blast, linarith)
  let ?bm' = "bm[b div 8 := BIT_SET (bm ! (b div 8)) (b mod 8)]"
  have sb: "set_bit_map bm (bitmaxnum i) (bitmapsize i) = Some (int b, ?bm')"
    using set_bit_map_least [of bm "bitmapsize i div 8" "bitmaxnum i" b] b k(6) tf(2,3) by simp
  have pos: "b div 8 < length bm" using b(3) k(6) tf(2) by (simp add: less_mult_imp_div_less)
  note bits = bm_bit_update(1) [OF pos]
  from back_region_Some [OF k(3), of blk] obtain s' where s': "back_region k (Some blk) (ml_mpu st) = Some s'"
    "same_regions (ml_mpu st) s'" "rg_data (mpu_dynamic_map s' ! k) \<noteq> None" by blast
  have start: "rg_start (mpu_dynamic_map s' ! k) = rg_start (mpu_dynamic_map (ml_mpu st) ! k)"
    using s'(2) by (simp add: same_regions_def)
  have addr: "block_addr st (i, j, b) = unat (rg_start (mpu_dynamic_map (ml_mpu st) ! k)) + b * memsize i"
    using k(1) u by (simp add: block_addr_def unit_start_def)
  let ?u = "u\<lparr>mu_bitmap := Some ?bm', mu_bitfreenum := mu_bitfreenum u - 1\<rparr>"
  have n: "unat (mu_bitfreenum u - 1) = card (free_bits (bitmaxnum i) ?bm')"
    using free_bits_set [OF b(3,1) bits] k(7) free unat_minus_one [of "mu_bitfreenum u"] by auto
  have len: "i < length (mg_unit (ml_groups st ! j))" using inv ij by (simp add: malloc_inv_def)
  have "malloc_inv \<lparr>ml_groups = set_unit (ml_groups st) i j ?u, ml_mpu = s'\<rparr>"
    "block_addr \<lparr>ml_groups = set_unit (ml_groups st) i j ?u, ml_mpu = s'\<rparr> x = block_addr st x" for x
    using update_unit_inv [OF inv ij u refl _ n s'(2)] k(6) by simp_all
  moreover have "live \<lparr>ml_groups = set_unit (ml_groups st) i j ?u, ml_mpu = s'\<rparr> = insert (i, j, b) (live st)"
    using live_update_unit [OF ij len k(2) [unfolded u], of ?u ?bm' "\<lambda>_. True" b s'] bits b(3) by simp
  moreover have "(i, j, b) \<in> blocks st - live st" using ij b k(2) u by (simp add: live_iff blocks_def)
  ultimately show thesis
    using that [OF k(1,2) _ sb s'(1,3)] addr block_addr_word [OF k(5) ij(1) b(3)] k(4) start by simp
qed

lemma get_memory_full:
  assumes inv: "malloc_inv st" and full: "\<forall>x\<in>blocks st - live st. block_size x < unat sz"
  shows "mpu_malloc_get_memory sz alloc st = Some (0, st)"
proof (cases "find_first (\<lambda>info. mi_memsize info \<ge> unat sz) malloc_data_info_table")
  case None
  then show ?thesis by (simp add: mpu_malloc_get_memory_def)
next
  case (Some c)
  have "\<not> mu_bitfreenum (unit_of (ml_groups st) i j) > 0" if "(i, j) \<in> set (unit_order c (length (ml_groups st)))" for i j
  proof -
    have ij: "i < MallocSize_Num" "j < length (ml_groups st)" "c \<le> i" using that by (auto simp: set_unit_order)
    have "unat sz \<le> memsize i" using memsize_le_iff [OF Some ij(1)] ij(3) by simp
    then have "(i, j, b) \<notin> blocks st - live st" for b
      using full block_size_eq [of i j b] by (metis leD)
    then show ?thesis using free_block_iff [OF inv ij(1,2)] by blast
  qed
  then have "find_first (\<lambda>(i, j). mu_bitfreenum (unit_of (ml_groups st) i j) > 0)
      (unit_order c (length (ml_groups st))) = None"
    by (auto simp: find_first_None_iff)
  with Some show ?thesis by (simp add: mpu_malloc_get_memory_def)
qed

text \<open>The loops find a unit that has a free block of a sufficient class.\<close>

lemma get_memory_unit:
  assumes inv: "malloc_inv st" and x0: "x0 \<in> blocks st - live st" "unat sz \<le> block_size x0"
  obtains c n i j where
    "find_first (\<lambda>info. mi_memsize info \<ge> unat sz) malloc_data_info_table = Some c"
    "find_first (\<lambda>(i, j). mu_bitfreenum (unit_of (ml_groups st) i j) > 0)
      (unit_order c (length (ml_groups st))) = Some n"
    "unit_order c (length (ml_groups st)) ! n = (i, j)"
    "i < MallocSize_Num" "j < length (ml_groups st)" "unat sz \<le> memsize i"
    "mu_bitfreenum (unit_of (ml_groups st) i j) > 0"
proof -
  obtain i0 j0 b0 where e: "x0 = (i0, j0, b0)" by (cases x0)
  have ij0: "i0 < MallocSize_Num" "j0 < length (ml_groups st)" "unat sz \<le> memsize i0"
    using x0 e by (auto simp: blocks_def)
  let ?P = "\<lambda>(i, j). mu_bitfreenum (unit_of (ml_groups st) i j) > 0"
  obtain c where c: "find_first (\<lambda>info. mi_memsize info \<ge> unat sz) malloc_data_info_table = Some c"
    using find_first_ex [of "malloc_data_info_table ! i0" malloc_data_info_table
        "\<lambda>info. mi_memsize info \<ge> unat sz"] ij0 by auto
  have "(i0, j0) \<in> set (unit_order c (length (ml_groups st)))" "?P (i0, j0)"
    using memsize_le_iff [OF c ij0(1)] x0(1) e ij0 free_block_iff [OF inv ij0(1,2)] by (auto simp: set_unit_order)
  then obtain n where n: "find_first ?P (unit_order c (length (ml_groups st))) = Some n"
    using find_first_ex [of "(i0, j0)" _ ?P] by blast
  obtain i j where o: "unit_order c (length (ml_groups st)) ! n = (i, j)" by fastforce
  have "(i, j) \<in> set (unit_order c (length (ml_groups st)))"
    using find_first_Some_bound [OF n] o by (metis nth_mem)
  then have ij: "i < MallocSize_Num" "j < length (ml_groups st)" "c \<le> i" by (auto simp: set_unit_order)
  show thesis
    using that [OF c n o ij(1,2)] memsize_le_iff [OF c ij(1)] ij(3) find_first_Some_prop [OF n] o by simp
qed


section \<open>Release\<close>

lemma search_unit_loop_hit:
  assumes inv: "malloc_inv st" and sub: "set ps \<subseteq> set (unit_order 0 (length (ml_groups st)))"
    and ij: "(i, j) \<in> set ps" "i < MallocSize_Num" "j < length (ml_groups st)"
    and addr: "unit_start (ml_mpu st) (unit_of (ml_groups st) i j) \<le> unat addr"
      "unat addr < unit_start (ml_mpu st) (unit_of (ml_groups st) i j) + 2 ^ 20"
  shows "search_unit_loop st addr ps = Some (Some (i, j))"
  using sub ij(1)
proof (induction ps)
  case Nil
  then show ?case by simp
next
  case (Cons p ps)
  obtain i' j' where p: "p = (i', j')" by fastforce
  have ij': "i' < MallocSize_Num" "j' < length (ml_groups st)" using Cons.prems(1) p by (auto simp: set_unit_order)
  from inv ij' obtain k bm where k: "mu_region (unit_of (ml_groups st) i' j') = Some k"
    "rg_size (mpu_dynamic_map (ml_mpu st) ! k) = 0x100000"
    "unat (rg_start (mpu_dynamic_map (ml_mpu st) ! k)) + 2 ^ 20 < 2 ^ 32" by (rule unit_okE)
  let ?r = "mpu_dynamic_map (ml_mpu st) ! k"
  have "unat (rg_start ?r + rg_size ?r) = unat (rg_start ?r) + 2 ^ 20"
    using k(2,3) by (subst unat_add_nowrap) simp_all
  then have hit: "rg_start ?r \<le> addr \<and> addr < rg_start ?r + rg_size ?r \<longleftrightarrow>
      unit_start (ml_mpu st) (unit_of (ml_groups st) i' j') \<le> unat addr \<and>
      unat addr < unit_start (ml_mpu st) (unit_of (ml_groups st) i' j') + 2 ^ 20"
    using k(1) by (simp add: unit_start_def word_le_nat_alt word_less_nat_alt)
  show ?case
  proof (cases "(i', j') = (i, j)")
    case True
    then show ?thesis using hit addr k(1) p by simp
  next
    case False
    then have "unit_start (ml_mpu st) (unit_of (ml_groups st) i j) + 2 ^ 20
        \<le> unit_start (ml_mpu st) (unit_of (ml_groups st) i' j') \<or>
      unit_start (ml_mpu st) (unit_of (ml_groups st) i' j') + 2 ^ 20
        \<le> unit_start (ml_mpu st) (unit_of (ml_groups st) i j)"
      using inv ij(2,3) ij' unfolding malloc_inv_def by (metis prod.inject)
    then have "\<not> (rg_start ?r \<le> addr \<and> addr < rg_start ?r + rg_size ?r)" using hit addr by linarith
    moreover have "search_unit_loop st addr ps = Some (Some (i, j))"
      using Cons False p by auto
    ultimately show ?thesis using k(1) p by (auto simp: Let_def)
  qed
qed

lemma search_unit_hit:
  assumes inv: "malloc_inv st" and x: "(i, j, b) \<in> blocks st" and addr: "unat addr \<in> block_range st (i, j, b)"
  shows "search_unit st addr = Some (Some (i, j))"
proof -
  have ij: "i < MallocSize_Num" "j < length (ml_groups st)" "b < bitmaxnum i" using x by (auto simp: blocks_def)
  then have "(i, j) \<in> set (unit_order 0 (length (ml_groups st)))" by (simp add: set_unit_order)
  with addr block_inside [OF ij(1,3)] show ?thesis unfolding search_unit_def
    by (intro search_unit_loop_hit [OF inv subset_refl _ ij(1,2)])
      (auto simp: block_range_def block_addr_def)
qed

text \<open>
  C10: release. For any address inside a live block, \<open>mpu_malloc_rel_memory\<close> makes
  exactly that block free, moves no block and keeps the heap in order, and
  \<open>mpu_malloc_ref_size\<close> gives the size of the block.
\<close>

theorem mpu_malloc_rel_memory_correct:
  assumes inv: "malloc_inv st" and x: "x \<in> live st" and addr: "unat addr \<in> block_range st x"
  shows "mpu_malloc_ref_size addr st = Some (block_size x) \<and>
    (\<exists>st'. mpu_malloc_rel_memory addr st = Some st' \<and> malloc_inv st' \<and> live st' = live st - {x} \<and>
      (\<forall>y. block_addr st' y = block_addr st y))"
proof -
  obtain i j b where e: "x = (i, j, b)" by (cases x)
  have ij: "i < MallocSize_Num" "j < length (ml_groups st)" "b < bitmaxnum i"
    and blk: "(i, j, b) \<in> blocks st" using x e by (auto simp: live_iff blocks_def)
  let ?u = "unit_of (ml_groups st) i j"
  from inv ij(1,2) obtain k bm where k: "mu_region ?u = Some k" "mu_bitmap ?u = Some bm"
    "length bm = bitmapsize i" "unat (mu_bitfreenum ?u) = card (free_bits (bitmaxnum i) bm)" by (rule unit_okE)
  have hit: "search_unit st addr = Some (Some (i, j))" using search_unit_hit [OF inv blk] addr e by simp
  note tf = table_facts [OF ij(1)]
  let ?start = "rg_start (mpu_dynamic_map (ml_mpu st) ! k)"
  have rng: "unat ?start + b * memsize i \<le> unat addr" "unat addr < unat ?start + b * memsize i + memsize i"
    using addr e k(1) by (auto simp: block_range_def block_addr_def unit_start_def)
  then have "unat (addr - ?start) = unat addr - unat ?start" by (simp add: unat_sub word_le_nat_alt)
  then have bits: "unat (addr - ?start) div memsize i = b"
    using rng by (intro div_nat_eqI) (simp_all add: algebra_simps)
  let ?bm' = "bm[b div 8 := BIT_CLR (bm ! (b div 8)) (b mod 8)]"
  let ?u' = "?u\<lparr>mu_bitmap := Some ?bm', mu_bitfreenum := mu_bitfreenum ?u + 1\<rparr>"
  have pos: "b div 8 < length bm" using ij(3) k(3) tf(2) by (simp add: less_mult_imp_div_less)
  note upd = bm_bit_update(2) [OF pos]
  have set: "bm_bit bm b" using x e k(2) by (auto simp: live_iff)
  have rel: "mpu_malloc_rel_memory addr st =
      Some \<lparr>ml_groups = set_unit (ml_groups st) i j ?u', ml_mpu = ml_mpu st\<rparr>"
    using hit k(1,2) bits pos by (simp add: mpu_malloc_rel_memory_def Let_def bit_position)
  have "card (free_bits (bitmaxnum i) ?bm') \<le> bitmaxnum i"
    using card_mono [of "{..<bitmaxnum i}" "free_bits (bitmaxnum i) ?bm'"] by (auto simp: free_bits_def)
  then have n: "unat (mu_bitfreenum ?u + 1) = card (free_bits (bitmaxnum i) ?bm')"
    using free_bits_clear [OF ij(3) set upd] k(4) tf(6) by (subst unat_add_nowrap) simp_all
  have len: "i < length (mg_unit (ml_groups st ! j))" using inv ij(1,2) by (simp add: malloc_inv_def)
  have "live \<lparr>ml_groups = set_unit (ml_groups st) i j ?u', ml_mpu = ml_mpu st\<rparr> = live st - {(i, j, b)}"
    using live_update_unit [OF ij(1,2) len k(2), of ?u' ?bm' "\<lambda>k. k \<noteq> b" b "ml_mpu st"] upd ij(3) by auto
  then show ?thesis
    using update_unit_inv [OF inv ij(1,2) refl refl _ n same_regions_refl] k(3) rel hit e
    by (simp add: mpu_malloc_ref_size_def)
qed

section \<open>Registration\<close>

definition fresh_unit :: "nat \<Rightarrow> nat \<Rightarrow> MallocRegionUnitType" where
  "fresh_unit i k = \<lparr>mu_region = Some k, mu_bitmap = Some (replicate (bitmapsize i) 0),
    mu_bitfreenum = of_nat (bitmaxnum i)\<rparr>"

definition partial_group :: "nat list \<Rightarrow> MallocRegionGroupType" where
  "partial_group ks = \<lparr>mg_unit_num = length ks,
    mg_unit = map (\<lambda>i. if i < length ks then fresh_unit i (ks ! i) else mg_unit group_init ! i) [0..<MallocSize_Num]\<rparr>"

lemma partial_group_Nil: "partial_group [] = group_init"
  by (simp add: partial_group_def group_init_def list_eq_iff_nth_eq)

lemma group_add_region_partial:
  assumes "length ks < MallocSize_Num"
  shows "group_add_region True (Some k) (partial_group ks) = Some (partial_group (ks @ [k]))"
proof -
  have "(mg_unit (partial_group ks))[length ks := (mg_unit (partial_group ks) ! length ks)
      \<lparr>mu_region := Some k, mu_bitmap := Some (replicate (bitmapsize (length ks)) 0)\<rparr>] =
    mg_unit (partial_group (ks @ [k]))"
    using assms by (intro nth_equalityI)
      (auto simp: partial_group_def nth_list_update nth_append fresh_unit_def group_init_def)
  then show ?thesis using assms by (simp add: group_add_region_def partial_group_def Let_def)
qed

lemma group_full:
  assumes "length ks = MallocSize_Num"
  shows "\<not> group_has_free_unit (partial_group ks)"
  using assms by (auto simp: group_has_free_unit_def partial_group_def fresh_unit_def)

fun add_regions :: "nat list \<Rightarrow> 'd malloc_state \<Rightarrow> 'd malloc_state option" where
  "add_regions [] st = Some st"
| "add_regions (k # ks) st = do { st' \<leftarrow> mpu_malloc_add_region True (Some k) st; add_regions ks st' }"

lemma add_regions_partial:
  assumes "ml_groups st = gs @ [partial_group ks]" "length ks + length ks' \<le> MallocSize_Num"
  shows "add_regions ks' st = Some (st\<lparr>ml_groups := gs @ [partial_group (ks @ ks')]\<rparr>)"
  using assms
proof (induction ks' arbitrary: ks st)
  case Nil
  then show ?case by simp
next
  case (Cons k ks')
  have "group_has_free_unit (partial_group ks)"
    using Cons.prems(2) by (simp add: group_has_free_unit_def partial_group_def)
  then have "mpu_malloc_add_region True (Some k) st = Some (st\<lparr>ml_groups := gs @ [partial_group (ks @ [k])]\<rparr>)"
    using Cons.prems
    by (simp add: mpu_malloc_add_region_def group_get_def group_add_region_partial butlast_append)
  with Cons.IH [of "st\<lparr>ml_groups := gs @ [partial_group (ks @ [k])]\<rparr>" "ks @ [k]"] Cons.prems(2)
  show ?case by simp
qed

text \<open>Ten regions added after full groups form one more full group.\<close>

lemma add_regions_group:
  assumes "ml_groups st = map partial_group kss" "\<forall>ks\<in>set kss. length ks = MallocSize_Num"
    "length ks = MallocSize_Num"
  shows "add_regions ks st = Some (st\<lparr>ml_groups := map partial_group (kss @ [ks])\<rparr>)"
proof (cases ks)
  case (Cons k ks')
  have "kss \<noteq> [] \<Longrightarrow> \<not> group_has_free_unit (last (ml_groups st))"
    using assms(1,2) group_full by (simp add: last_map)
  then have "mpu_malloc_add_region True (Some k) st = Some (st\<lparr>ml_groups := map partial_group kss @ [partial_group [k]]\<rparr>)"
    using assms(1) group_add_region_partial [of "[]" k]
    by (auto simp: mpu_malloc_add_region_def group_get_def group_alloc_def partial_group_Nil)
  then show ?thesis using assms(3) Cons
    add_regions_partial [of "st\<lparr>ml_groups := map partial_group kss @ [partial_group [k]]\<rparr>" "map partial_group kss" "[k]" ks']
    by simp
qed (use assms(3) in simp)

lemma add_regions_append:
  "add_regions (ks @ ks') st = do { st' \<leftarrow> add_regions ks st; add_regions ks' st' }"
  by (induction ks arbitrary: st) (auto split: bind_splits)

lemma add_regions_groups:
  assumes "ml_groups st = map partial_group kss" "\<forall>ks\<in>set (kss @ kss'). length ks = MallocSize_Num"
  shows "add_regions (concat kss') st = Some (st\<lparr>ml_groups := map partial_group (kss @ kss')\<rparr>)"
  using assms
proof (induction kss' arbitrary: kss st)
  case Nil
  then show ?case by simp
next
  case (Cons ks kss')
  then show ?case
    using add_regions_group [of st kss ks]
      Cons.IH [of "st\<lparr>ml_groups := map partial_group (kss @ [ks])\<rparr>" "kss @ [ks]"]
    by (simp add: add_regions_append)
qed

lemma free_bits_zero:
  "maxnum \<le> 8 * n \<Longrightarrow> free_bits maxnum (replicate n 0) = {..<maxnum}"
  by (auto simp: free_bits_def bm_bit_def)

lemma concat_index_inject:
  assumes d: "distinct (concat kss)" and len: "\<forall>ks\<in>set kss. length ks = MallocSize_Num"
    and ij: "i < MallocSize_Num" "i' < MallocSize_Num" "j < length kss" "j' < length kss"
    and eq: "kss ! j ! i = kss ! j' ! i'"
  shows "i = i' \<and> j = j'"
proof -
  have nn: "[] \<notin> set kss" using len by fastforce
  then have dk: "distinct kss" using d by (simp add: distinct_concat_iff removeAll_id)
  have l: "length (kss ! j) = MallocSize_Num" "length (kss ! j') = MallocSize_Num" using len ij by simp_all
  have "kss ! j = kss ! j'"
  proof (rule ccontr)
    assume "kss ! j \<noteq> kss ! j'"
    then have "set (kss ! j) \<inter> set (kss ! j') = {}"
      using d ij(3,4) by (simp add: distinct_concat_iff)
    then show False using eq l ij(1,2) by (metis disjoint_iff nth_mem)
  qed
  moreover from this dk ij(3,4) have "j = j'" by (simp add: nth_eq_iff_index_eq)
  moreover have "distinct (kss ! j)" using d ij(3) by (simp add: distinct_concat_iff)
  ultimately show ?thesis using eq l ij(1,2) by (simp add: nth_eq_iff_index_eq)
qed

definition malloc_area :: "'d mpu_state \<Rightarrow> nat list \<Rightarrow> bool" where
  "malloc_area s ks \<longleftrightarrow> distinct ks \<and>
    (\<forall>k\<in>set ks. k < length (mpu_dynamic_map s) \<and> rg_size (mpu_dynamic_map s ! k) = 0x100000 \<and>
      0 < unat (rg_start (mpu_dynamic_map s ! k)) \<and>
      unat (rg_start (mpu_dynamic_map s ! k)) + 2 ^ 20 < 2 ^ 32) \<and>
    (\<forall>k\<in>set ks. \<forall>k'\<in>set ks. k \<noteq> k' \<longrightarrow>
      unat (rg_start (mpu_dynamic_map s ! k)) + 2 ^ 20 \<le> unat (rg_start (mpu_dynamic_map s ! k')) \<or>
      unat (rg_start (mpu_dynamic_map s ! k')) + 2 ^ 20 \<le> unat (rg_start (mpu_dynamic_map s ! k)))"

lemma fresh_groups_inv:
  assumes area: "malloc_area s (concat kss)" and len: "\<forall>ks\<in>set kss. length ks = MallocSize_Num"
  shows "malloc_inv \<lparr>ml_groups = map partial_group kss, ml_mpu = s\<rparr>"
proof -
  let ?st = "\<lparr>ml_groups = map partial_group kss, ml_mpu = s\<rparr>"
  have u: "mg_unit (partial_group (kss ! j)) ! i = fresh_unit i (kss ! j ! i)"
    if "i < MallocSize_Num" "j < length kss" for i j
    using that len by (simp add: partial_group_def)
  have mem: "kss ! j ! i \<in> set (concat kss)" if "i < MallocSize_Num" "j < length kss" for i j
    using that len by (auto intro!: bexI [of _ "kss ! j"] nth_mem)
  have ok: "unit_ok s i (fresh_unit i k)" if "i < MallocSize_Num" "k \<in> set (concat kss)" for i k
  proof -
    note tf = table_facts [OF that(1)]
    have "unat (of_nat (bitmaxnum i) :: uint32) = bitmaxnum i"
      using tf(6) by (simp add: unat_of_nat take_bit_nat_eq_self)
    moreover have "k < length (mpu_dynamic_map s) \<and> rg_size (mpu_dynamic_map s ! k) = 0x100000 \<and>
      0 < unat (rg_start (mpu_dynamic_map s ! k)) \<and> unat (rg_start (mpu_dynamic_map s ! k)) + 2 ^ 20 < 2 ^ 32"
      using area that(2) unfolding malloc_area_def by blast
    ultimately show ?thesis using tf(2) by (simp add: unit_ok_def fresh_unit_def free_bits_zero)
  qed
  have start: "unit_start s (fresh_unit i k) = unat (rg_start (mpu_dynamic_map s ! k))" for i k
    by (simp add: unit_start_def fresh_unit_def)
  have d: "distinct (concat kss)" using area by (simp add: malloc_area_def)
  have apart: "unat (rg_start (mpu_dynamic_map s ! k)) + 2 ^ 20 \<le> unat (rg_start (mpu_dynamic_map s ! k')) \<or>
      unat (rg_start (mpu_dynamic_map s ! k')) + 2 ^ 20 \<le> unat (rg_start (mpu_dynamic_map s ! k))"
    if "k \<in> set (concat kss)" "k' \<in> set (concat kss)" "k \<noteq> k'" for k k'
    using area that unfolding malloc_area_def by blast
  show ?thesis unfolding malloc_inv_def
  proof (intro conjI allI impI, goal_cases)
    case (1 j)
    then show ?case by (simp add: partial_group_def)
  next
    case (2 j i)
    then show ?case using ok mem by (simp add: u)
  next
    case (3 i i' j j')
    then have "kss ! j ! i \<noteq> kss ! j' ! i'" using concat_index_inject [OF d len, of i i' j j'] by auto
    then show ?case using 3 apart [OF mem mem, of i j i' j'] by (simp add: u start)
  qed
qed

lemma fresh_groups_not_live:
  assumes len: "\<forall>ks\<in>set kss. length ks = MallocSize_Num" and gs: "ml_groups st = map partial_group kss"
  shows "live st = {}"
proof -
  have "(i, j, b) \<notin> live st" for i j b
  proof
    assume "(i, j, b) \<in> live st"
    then have ij: "i < MallocSize_Num" "j < length kss" "b < bitmaxnum i"
      and "\<exists>bm. mu_bitmap (unit_of (ml_groups st) i j) = Some bm \<and> bm_bit bm b"
      using gs by (auto simp: live_iff)
    then have "bm_bit (replicate (bitmapsize i) 0) b"
      using len gs by (simp add: partial_group_def fresh_unit_def)
    moreover have "b div 8 < bitmapsize i"
      using ij(3) table_facts(2) [OF ij(1)] by (simp add: less_mult_imp_div_less)
    ultimately show False by (simp add: bm_bit_def)
  qed
  then show ?thesis by (metis equals0I prod_cases3)
qed

text \<open>
  Registration. Adding the 1 MiB regions of a MALLOC area, ten per group, to an empty heap
  succeeds and gives a heap in order in which no block is live.
\<close>

theorem mpu_malloc_add_region_registers:
  assumes area: "malloc_area (ml_mpu st) (concat kss)" and len: "\<forall>ks\<in>set kss. length ks = MallocSize_Num"
    and empty: "ml_groups st = []"
  shows "\<exists>st'. add_regions (concat kss) st = Some st' \<and> malloc_inv st' \<and> live st' = {} \<and>
    length (ml_groups st') = length kss"
proof -
  let ?st = "st\<lparr>ml_groups := map partial_group kss\<rparr>"
  have "add_regions (concat kss) st = Some ?st" using add_regions_groups [of st "[]" kss] len empty by simp
  moreover have "malloc_inv ?st" using fresh_groups_inv [OF area len] by (simp add: malloc_inv_def)
  moreover have "live ?st = {}"
    using len by (intro fresh_groups_not_live [of kss]) simp_all
  ultimately show ?thesis by simp
qed

definition example_heap_map :: "unit mpu_state" where
  "example_heap_map = example_map\<lparr>mpu_dynamic_map :=
    map (\<lambda>i. new_region (0x1000000 + of_nat i * 0x100000) 0x100000 GLOBAL_MEMORY True None default_memory_operation)
      [0..<10]\<rparr>"

lemma example_heap_start:
  "k < 10 \<Longrightarrow> unat (rg_start (mpu_dynamic_map example_heap_map ! k)) = 0x1000000 + k * 0x100000"
proof -
  assume k: "k < 10"
  have w: "unat (of_nat n :: uint32) = n" if "n < 2 ^ 31" for n
    using that by (simp add: unat_of_nat take_bit_nat_eq_self)
  have "(0x1000000 + of_nat k * 0x100000 :: uint32) = of_nat (0x1000000 + k * 0x100000)" by simp
  also have "unat \<dots> = 0x1000000 + k * 0x100000" using k by (intro w) simp
  finally show ?thesis using k by (simp add: example_heap_map_def new_region_def)
qed

lemma example_heap_area: "malloc_area example_heap_map (concat [[0..<10]])"
proof -
  have "rg_size (mpu_dynamic_map example_heap_map ! k) = 0x100000" if "k < 10" for k
    using that by (simp add: example_heap_map_def new_region_def)
  moreover have "length (mpu_dynamic_map example_heap_map) = 10" by (simp add: example_heap_map_def)
  ultimately show ?thesis by (auto simp: malloc_area_def example_heap_start)
qed

definition example_heap :: "unit malloc_state" where
  "example_heap = \<lparr>ml_groups = map partial_group [[0..<10]], ml_mpu = example_heap_map\<rparr>"

lemma example_heap_inv: "malloc_inv example_heap"
  unfolding example_heap_def by (rule fresh_groups_inv [OF example_heap_area]) simp

lemma example_heap_not_live: "live example_heap = {}"
  unfolding example_heap_def by (rule fresh_groups_not_live [of "[[0..<10]]"]) simp_all

theorem mpu_malloc_add_region_registers_witness:
  "\<exists>st'. add_regions [0..<10] \<lparr>ml_groups = [], ml_mpu = example_heap_map\<rparr> = Some st' \<and>
    malloc_inv st' \<and> length (ml_groups st') = 1"
  using mpu_malloc_add_region_registers [of "\<lparr>ml_groups = [], ml_mpu = example_heap_map\<rparr>" "[[0..<10]]"]
    example_heap_area by auto


definition example_used_unit :: MallocRegionUnitType where
  "example_used_unit = (unit_of (ml_groups example_heap) 9 0)
    \<lparr>mu_bitmap := Some ((replicate 8 0)[0 div 8 := BIT_SET (replicate 8 0 ! (0 div 8)) (0 mod 8)]), mu_bitfreenum := 63\<rparr>"

definition example_used_heap :: "unit malloc_state" where
  "example_used_heap = \<lparr>ml_groups = set_unit (ml_groups example_heap) 9 0 example_used_unit, ml_mpu = example_heap_map\<rparr>"

lemma example_used_heap_facts:
  "malloc_inv example_used_heap" "live example_used_heap = {(9, 0, 0)}"
  "block_addr example_used_heap (9, 0, 0) = 0x1900000"
proof -
  let ?bm = "(replicate 8 0)[0 div 8 := BIT_SET (replicate 8 0 ! (0 div 8)) (0 mod 8)] :: uint8 list"
  have bits: "bm_bit ?bm k \<longleftrightarrow> k = 0 \<or> bm_bit (replicate 8 0) k" for k
    using bm_bit_update(1) [of 0 "replicate 8 0" k] by simp
  have t: "bitmaxnum 9 = 64" "bitmapsize 9 = 8" by (simp_all add: table_eq)
  have "card (free_bits 64 ?bm) = card (free_bits 64 (replicate 8 0)) - 1"
    using bits by (intro free_bits_set [of 0]) (simp_all add: bm_bit_def)
  then have n: "unat (63 :: uint32) = card (free_bits (bitmaxnum 9) ?bm)"
    by (simp add: t free_bits_zero)
  have u: "unit_of (ml_groups example_heap) 9 0 = fresh_unit 9 9"
    by (simp add: example_heap_def partial_group_def)
  have len: "(9::nat) < MallocSize_Num" "0 < length (ml_groups example_heap)"
    "9 < length (mg_unit (ml_groups example_heap ! 0))"
    by (simp_all add: example_heap_def partial_group_def)
  note upd = update_unit_inv [OF example_heap_inv len(1,2) refl refl _ n same_regions_refl,
      folded example_used_unit_def, unfolded t]
  have mpu: "ml_mpu example_heap = example_heap_map" by (simp add: example_heap_def)
  show "malloc_inv example_used_heap" using upd(1) by (simp add: example_used_heap_def mpu)
  have "block_addr example_used_heap (9, 0, 0) = block_addr example_heap (9, 0, 0)"
    using upd(2) by (simp add: example_used_heap_def mpu)
  also have "\<dots> = 0x1900000"
    by (simp add: block_addr_def u unit_start_def mpu) (simp add: fresh_unit_def example_heap_start)
  finally show "block_addr example_used_heap (9, 0, 0) = 0x1900000" .
  have "mu_bitmap (unit_of (ml_groups example_heap) 9 0) = Some (replicate 8 0)"
    using t(2) by (simp add: u fresh_unit_def)
  from live_update_unit [OF len this, of example_used_unit ?bm "\<lambda>_. True" 0 example_heap_map] bits
  show "live example_used_heap = {(9, 0, 0)}"
    by (simp add: example_used_heap_def example_used_unit_def example_heap_not_live t)
qed

theorem mpu_malloc_rel_memory_correct_witness:
  "\<exists>st'. mpu_malloc_rel_memory 0x1900010 example_used_heap = Some st' \<and> malloc_inv st' \<and> live st' = {}"
proof -
  have "unat (0x1900010 :: uint32) \<in> block_range example_used_heap (9, 0, 0)"
    unfolding block_range_def example_used_heap_facts(3) by (simp add: table_eq)
  from mpu_malloc_rel_memory_correct [OF example_used_heap_facts(1) _ this] example_used_heap_facts(2)
  show ?thesis by auto
qed

end
