(* ===== verification/ElfImage.thy ===== *)
theory ElfImage
  imports Prelude
begin

text \<open>
  The ELF file formats of src/src/lib/loader/elf.h and elf_common.h: the records of the 32-bit and
  64-bit headers, program headers, section headers and symbols, and how the bytes of a file
  are read as such a record. A \<open>memcpy\<close> of a structure, or a pointer cast, reads all
  bytes of the structure; reading past the end of the file image is \<open>None\<close>.
\<close>

definition field :: "nat \<Rightarrow> nat \<Rightarrow> uint8 list \<Rightarrow> 'a::len word" where
  "field off n bs = le_decode (take n (drop off bs))"

abbreviation (input) EI_NIDENT :: nat where "EI_NIDENT \<equiv> 16"
abbreviation (input) EI_CLASS :: nat where "EI_CLASS \<equiv> 4"
abbreviation (input) EI_DATA :: nat where "EI_DATA \<equiv> 5"
abbreviation (input) EI_VERSION :: nat where "EI_VERSION \<equiv> 6"
abbreviation (input) EI_OSABI :: nat where "EI_OSABI \<equiv> 7"
abbreviation (input) EI_ABIVERSION :: nat where "EI_ABIVERSION \<equiv> 8"
abbreviation (input) ELFCLASS32 :: uint8 where "ELFCLASS32 \<equiv> 1"
abbreviation (input) ELFCLASS64 :: uint8 where "ELFCLASS64 \<equiv> 2"
abbreviation (input) ELFDATA2LSB :: uint8 where "ELFDATA2LSB \<equiv> 1"
abbreviation (input) EV_CURRENT :: "'a::len word" where "EV_CURRENT \<equiv> 1"
abbreviation (input) ELFOSABI_SYSV :: uint8 where "ELFOSABI_SYSV \<equiv> 0"
abbreviation (input) ET_EXEC :: uint16 where "ET_EXEC \<equiv> 2"
abbreviation (input) PT_LOAD :: uint32 where "PT_LOAD \<equiv> 1"
abbreviation (input) PF_X :: uint32 where "PF_X \<equiv> 1"
abbreviation (input) SHT_NULL :: uint32 where "SHT_NULL \<equiv> 0"
abbreviation (input) SHT_SYMTAB :: uint32 where "SHT_SYMTAB \<equiv> 2"
abbreviation (input) SHT_STRTAB :: uint32 where "SHT_STRTAB \<equiv> 3"
abbreviation (input) SHT_NOBITS :: uint32 where "SHT_NOBITS \<equiv> 8"

section \<open>32-bit records\<close>

record Elf32_Ehdr =
  e32_ident :: "uint8 list"
  e32_type :: uint16
  e32_machine :: uint16
  e32_version :: uint32
  e32_entry :: uint32
  e32_phoff :: uint32
  e32_shoff :: uint32
  e32_flags :: uint32
  e32_ehsize :: uint16
  e32_phentsize :: uint16
  e32_phnum :: uint16
  e32_shentsize :: uint16
  e32_shnum :: uint16
  e32_shstrndx :: uint16

definition sizeof_Elf32_Ehdr :: nat where "sizeof_Elf32_Ehdr = 52"

definition Elf32_Ehdr_of :: "uint8 list \<Rightarrow> Elf32_Ehdr" where
  "Elf32_Ehdr_of bs =
    \<lparr>e32_ident = take EI_NIDENT bs, e32_type = field 16 2 bs, e32_machine = field 18 2 bs,
     e32_version = field 20 4 bs, e32_entry = field 24 4 bs, e32_phoff = field 28 4 bs,
     e32_shoff = field 32 4 bs, e32_flags = field 36 4 bs, e32_ehsize = field 40 2 bs,
     e32_phentsize = field 42 2 bs, e32_phnum = field 44 2 bs, e32_shentsize = field 46 2 bs,
     e32_shnum = field 48 2 bs, e32_shstrndx = field 50 2 bs\<rparr>"

record Elf32_Shdr =
  sh32_name :: uint32
  sh32_type :: uint32
  sh32_flags :: uint32
  sh32_addr :: uint32
  sh32_offset :: uint32
  sh32_size :: uint32
  sh32_link :: uint32
  sh32_info :: uint32
  sh32_addralign :: uint32
  sh32_entsize :: uint32

definition sizeof_Elf32_Shdr :: nat where "sizeof_Elf32_Shdr = 40"

definition Elf32_Shdr_of :: "uint8 list \<Rightarrow> Elf32_Shdr" where
  "Elf32_Shdr_of bs =
    \<lparr>sh32_name = field 0 4 bs, sh32_type = field 4 4 bs, sh32_flags = field 8 4 bs,
     sh32_addr = field 12 4 bs, sh32_offset = field 16 4 bs, sh32_size = field 20 4 bs,
     sh32_link = field 24 4 bs, sh32_info = field 28 4 bs, sh32_addralign = field 32 4 bs,
     sh32_entsize = field 36 4 bs\<rparr>"

record Elf32_Phdr =
  p32_type :: uint32
  p32_offset :: uint32
  p32_vaddr :: uint32
  p32_paddr :: uint32
  p32_filesz :: uint32
  p32_memsz :: uint32
  p32_flags :: uint32
  p32_align :: uint32

definition sizeof_Elf32_Phdr :: nat where "sizeof_Elf32_Phdr = 32"

definition Elf32_Phdr_of :: "uint8 list \<Rightarrow> Elf32_Phdr" where
  "Elf32_Phdr_of bs =
    \<lparr>p32_type = field 0 4 bs, p32_offset = field 4 4 bs, p32_vaddr = field 8 4 bs,
     p32_paddr = field 12 4 bs, p32_filesz = field 16 4 bs, p32_memsz = field 20 4 bs,
     p32_flags = field 24 4 bs, p32_align = field 28 4 bs\<rparr>"

record Elf32_Sym =
  st32_name :: uint32
  st32_value :: uint32
  st32_size :: uint32
  st32_info :: uint8
  st32_other :: uint8
  st32_shndx :: uint16

definition sizeof_Elf32_Sym :: nat where "sizeof_Elf32_Sym = 16"

definition Elf32_Sym_of :: "uint8 list \<Rightarrow> Elf32_Sym" where
  "Elf32_Sym_of bs =
    \<lparr>st32_name = field 0 4 bs, st32_value = field 4 4 bs, st32_size = field 8 4 bs,
     st32_info = field 12 1 bs, st32_other = field 13 1 bs, st32_shndx = field 14 2 bs\<rparr>"

section \<open>64-bit records\<close>

record Elf64_Ehdr =
  e64_ident :: "uint8 list"
  e64_type :: uint16
  e64_machine :: uint16
  e64_version :: uint32
  e64_entry :: uint64
  e64_phoff :: uint64
  e64_shoff :: uint64
  e64_flags :: uint32
  e64_ehsize :: uint16
  e64_phentsize :: uint16
  e64_phnum :: uint16
  e64_shentsize :: uint16
  e64_shnum :: uint16
  e64_shstrndx :: uint16

definition sizeof_Elf64_Ehdr :: nat where "sizeof_Elf64_Ehdr = 64"

definition Elf64_Ehdr_of :: "uint8 list \<Rightarrow> Elf64_Ehdr" where
  "Elf64_Ehdr_of bs =
    \<lparr>e64_ident = take EI_NIDENT bs, e64_type = field 16 2 bs, e64_machine = field 18 2 bs,
     e64_version = field 20 4 bs, e64_entry = field 24 8 bs, e64_phoff = field 32 8 bs,
     e64_shoff = field 40 8 bs, e64_flags = field 48 4 bs, e64_ehsize = field 52 2 bs,
     e64_phentsize = field 54 2 bs, e64_phnum = field 56 2 bs, e64_shentsize = field 58 2 bs,
     e64_shnum = field 60 2 bs, e64_shstrndx = field 62 2 bs\<rparr>"

record Elf64_Phdr =
  p64_type :: uint32
  p64_flags :: uint32
  p64_offset :: uint64
  p64_vaddr :: uint64
  p64_paddr :: uint64
  p64_filesz :: uint64
  p64_memsz :: uint64
  p64_align :: uint64

definition sizeof_Elf64_Phdr :: nat where "sizeof_Elf64_Phdr = 56"

definition Elf64_Phdr_of :: "uint8 list \<Rightarrow> Elf64_Phdr" where
  "Elf64_Phdr_of bs =
    \<lparr>p64_type = field 0 4 bs, p64_flags = field 4 4 bs, p64_offset = field 8 8 bs,
     p64_vaddr = field 16 8 bs, p64_paddr = field 24 8 bs, p64_filesz = field 32 8 bs,
     p64_memsz = field 40 8 bs, p64_align = field 48 8 bs\<rparr>"

record Elf64_Shdr =
  sh64_name :: uint32
  sh64_type :: uint32
  sh64_flags :: uint64
  sh64_addr :: uint64
  sh64_offset :: uint64
  sh64_size :: uint64
  sh64_link :: uint32
  sh64_info :: uint32
  sh64_addralign :: uint64
  sh64_entsize :: uint64

definition sizeof_Elf64_Shdr :: nat where "sizeof_Elf64_Shdr = 64"

definition Elf64_Shdr_of :: "uint8 list \<Rightarrow> Elf64_Shdr" where
  "Elf64_Shdr_of bs =
    \<lparr>sh64_name = field 0 4 bs, sh64_type = field 4 4 bs, sh64_flags = field 8 8 bs,
     sh64_addr = field 16 8 bs, sh64_offset = field 24 8 bs, sh64_size = field 32 8 bs,
     sh64_link = field 40 4 bs, sh64_info = field 44 4 bs, sh64_addralign = field 48 8 bs,
     sh64_entsize = field 56 8 bs\<rparr>"

record Elf64_Sym =
  st64_name :: uint32
  st64_info :: uint8
  st64_other :: uint8
  st64_shndx :: uint16
  st64_value :: uint64
  st64_size :: uint64

definition sizeof_Elf64_Sym :: nat where "sizeof_Elf64_Sym = 24"

definition Elf64_Sym_of :: "uint8 list \<Rightarrow> Elf64_Sym" where
  "Elf64_Sym_of bs =
    \<lparr>st64_name = field 0 4 bs, st64_info = field 4 1 bs, st64_other = field 5 1 bs,
     st64_shndx = field 6 2 bs, st64_value = field 8 8 bs, st64_size = field 16 8 bs\<rparr>"

text \<open>The magic number test, on the identification bytes.\<close>

definition IS_ELF :: "uint8 list \<Rightarrow> bool" where
  "IS_ELF ident \<longleftrightarrow> take 4 ident = [0x7F, 0x45, 0x4C, 0x46]"

end
