(* ===== verification/ElfImageCheck.thy ===== *)
theory ElfImageCheck
  imports ElfImage
begin

text \<open>
  The well-formedness check of an ELF file, src/src/lib/loader/elf_image_check.c, which every
  reader of the file relies on. The class-neutral views are the records of the source, with
  their widths; offsets and sizes are 64-bit words and the checks are written with the
  source's wrapping arithmetic. An operation that reads the image returns \<open>None\<close> when
  it would read past its end. The printed reasons are not modelled.
\<close>

record ElfHeaderView =
  hv_is_64 :: bool
  hv_phoff :: uint64
  hv_shoff :: uint64
  hv_phentsize :: uint32
  hv_phnum :: uint32
  hv_shentsize :: uint32
  hv_shnum :: uint32
  hv_shstrndx :: uint32

record ElfProgramView =
  pv_type :: uint32
  pv_offset :: uint64
  pv_filesz :: uint64
  pv_memsz :: uint64

record ElfSectionView =
  sv_name :: uint32
  sv_type :: uint32
  sv_offset :: uint64
  sv_size :: uint64
  sv_link :: uint32
  sv_entsize :: uint64

definition range_is_inside :: "uint64 \<Rightarrow> uint64 \<Rightarrow> uint64 \<Rightarrow> bool" where
  "range_is_inside offset sz elf_size =
    (if offset > elf_size then False else sz \<le> elf_size - offset)"

definition table_is_inside :: "uint64 \<Rightarrow> uint32 \<Rightarrow> uint32 \<Rightarrow> uint64 \<Rightarrow> bool" where
  "table_is_inside offset count entry_size elf_size =
    (if count = 0 then True
     else if (ucast entry_size :: uint64) > elf_size div ucast count then False
     else range_is_inside offset (ucast count * ucast entry_size) elf_size)"

text \<open>\<open>Inl\<close> is the error return of \<open>read_header\<close>, \<open>Inr\<close> the filled view.\<close>

definition read_header :: "uint8 list \<Rightarrow> uint64 \<Rightarrow> (Std_ReturnType + ElfHeaderView) option" where
  "read_header elf_data elf_size =
    (if elf_size < of_nat EI_NIDENT then Some (Inl STD_E_INVALID)
     else do {
       ident \<leftarrow> buf_read 0 EI_NIDENT elf_data;
       if \<not> IS_ELF ident then Some (Inl STD_E_INVALID)
       else if ident ! EI_DATA \<noteq> ELFDATA2LSB then Some (Inl STD_E_INVALID)
       else if ident ! EI_CLASS = ELFCLASS32 then
         (if elf_size < of_nat sizeof_Elf32_Ehdr then Some (Inl STD_E_INVALID)
          else do {
            bs \<leftarrow> buf_read 0 sizeof_Elf32_Ehdr elf_data;
            let ehdr = Elf32_Ehdr_of bs;
            Some (Inr \<lparr>hv_is_64 = False, hv_phoff = ucast (e32_phoff ehdr), hv_shoff = ucast (e32_shoff ehdr),
              hv_phentsize = ucast (e32_phentsize ehdr), hv_phnum = ucast (e32_phnum ehdr),
              hv_shentsize = ucast (e32_shentsize ehdr), hv_shnum = ucast (e32_shnum ehdr),
              hv_shstrndx = ucast (e32_shstrndx ehdr)\<rparr>)
          })
       else if ident ! EI_CLASS = ELFCLASS64 then
         (if elf_size < of_nat sizeof_Elf64_Ehdr then Some (Inl STD_E_INVALID)
          else do {
            bs \<leftarrow> buf_read 0 sizeof_Elf64_Ehdr elf_data;
            let ehdr = Elf64_Ehdr_of bs;
            Some (Inr \<lparr>hv_is_64 = True, hv_phoff = e64_phoff ehdr, hv_shoff = e64_shoff ehdr,
              hv_phentsize = ucast (e64_phentsize ehdr), hv_phnum = ucast (e64_phnum ehdr),
              hv_shentsize = ucast (e64_shentsize ehdr), hv_shnum = ucast (e64_shnum ehdr),
              hv_shstrndx = ucast (e64_shstrndx ehdr)\<rparr>)
          })
       else Some (Inl STD_E_INVALID)
     })"

definition read_program :: "uint8 list \<Rightarrow> ElfHeaderView \<Rightarrow> uint32 \<Rightarrow> ElfProgramView option" where
  "read_program elf_data header index =
    (let entry = unat (hv_phoff header) + unat ((ucast index :: uint64) * ucast (hv_phentsize header))
     in if hv_is_64 header
        then do {
          bs \<leftarrow> buf_read entry sizeof_Elf64_Phdr elf_data;
          let phdr = Elf64_Phdr_of bs;
          Some \<lparr>pv_type = p64_type phdr, pv_offset = p64_offset phdr, pv_filesz = p64_filesz phdr,
            pv_memsz = p64_memsz phdr\<rparr>
        }
        else do {
          bs \<leftarrow> buf_read entry sizeof_Elf32_Phdr elf_data;
          let phdr = Elf32_Phdr_of bs;
          Some \<lparr>pv_type = p32_type phdr, pv_offset = ucast (p32_offset phdr),
            pv_filesz = ucast (p32_filesz phdr), pv_memsz = ucast (p32_memsz phdr)\<rparr>
        })"

definition read_section :: "uint8 list \<Rightarrow> ElfHeaderView \<Rightarrow> uint32 \<Rightarrow> ElfSectionView option" where
  "read_section elf_data header index =
    (let entry = unat (hv_shoff header) + unat ((ucast index :: uint64) * ucast (hv_shentsize header))
     in if hv_is_64 header
        then do {
          bs \<leftarrow> buf_read entry sizeof_Elf64_Shdr elf_data;
          let shdr = Elf64_Shdr_of bs;
          Some \<lparr>sv_name = sh64_name shdr, sv_type = sh64_type shdr, sv_offset = sh64_offset shdr,
            sv_size = sh64_size shdr, sv_link = sh64_link shdr, sv_entsize = sh64_entsize shdr\<rparr>
        }
        else do {
          bs \<leftarrow> buf_read entry sizeof_Elf32_Shdr elf_data;
          let shdr = Elf32_Shdr_of bs;
          Some \<lparr>sv_name = sh32_name shdr, sv_type = sh32_type shdr, sv_offset = ucast (sh32_offset shdr),
            sv_size = ucast (sh32_size shdr), sv_link = sh32_link shdr, sv_entsize = ucast (sh32_entsize shdr)\<rparr>
        })"

definition read_symbol_name :: "uint8 list \<Rightarrow> ElfHeaderView \<Rightarrow> uint64 \<Rightarrow> uint32 option" where
  "read_symbol_name elf_data header offset =
    (if hv_is_64 header
     then map_option (\<lambda>bs. st64_name (Elf64_Sym_of bs)) (buf_read (unat offset) sizeof_Elf64_Sym elf_data)
     else map_option (\<lambda>bs. st32_name (Elf32_Sym_of bs)) (buf_read (unat offset) sizeof_Elf32_Sym elf_data))"

text \<open>
  A loop over \<open>i < n\<close> that returns at the first error: \<open>body i\<close> is \<open>None\<close>
  when it reads out of bounds, \<open>Some False\<close> when it returns STD_E_INVALID.
\<close>

fun check_all :: "(nat \<Rightarrow> bool option) \<Rightarrow> nat list \<Rightarrow> bool option" where
  "check_all body [] = Some True"
| "check_all body (i # is) =
    (case body i of None \<Rightarrow> None | Some False \<Rightarrow> Some False | Some True \<Rightarrow> check_all body is)"

definition check_program :: "uint8 list \<Rightarrow> uint64 \<Rightarrow> ElfHeaderView \<Rightarrow> nat \<Rightarrow> bool option" where
  "check_program elf_data elf_size header i = do {
     program \<leftarrow> read_program elf_data header (of_nat i);
     Some (if pv_type program \<noteq> PT_LOAD then True
           else if \<not> range_is_inside (pv_offset program) (pv_filesz program) elf_size then False
           else \<not> pv_filesz program > pv_memsz program)
   }"

definition check_programs :: "uint8 list \<Rightarrow> uint64 \<Rightarrow> ElfHeaderView \<Rightarrow> bool option" where
  "check_programs elf_data elf_size header =
    (let entry_size = of_nat (if hv_is_64 header then sizeof_Elf64_Phdr else sizeof_Elf32_Phdr)
     in if hv_phnum header = 0 then Some True
        else if hv_phentsize header < entry_size then Some False
        else if \<not> table_is_inside (hv_phoff header) (hv_phnum header) (hv_phentsize header) elf_size then Some False
        else check_all (check_program elf_data elf_size header) [0..<unat (hv_phnum header)])"

definition string_table_is_valid :: "uint8 list \<Rightarrow> ElfSectionView \<Rightarrow> bool option" where
  "string_table_is_valid elf_data section =
    (if sv_type section \<noteq> SHT_STRTAB then Some False
     else if sv_size section = 0 then Some False
     else map_option (\<lambda>bs. bs = [0]) (buf_read (unat (sv_offset section + sv_size section - 1)) 1 elf_data))"

definition check_symbol_table :: "uint8 list \<Rightarrow> ElfHeaderView \<Rightarrow> ElfSectionView \<Rightarrow> bool option" where
  "check_symbol_table elf_data header symtab =
    (let entry_size = of_nat (if hv_is_64 header then sizeof_Elf64_Sym else sizeof_Elf32_Sym)
     in if sv_entsize symtab \<noteq> 0 \<and> sv_entsize symtab \<noteq> entry_size then Some False
        else if sv_link symtab \<ge> hv_shnum header then Some False
        else do {
          strtab \<leftarrow> read_section elf_data header (sv_link symtab);
          ok \<leftarrow> string_table_is_valid elf_data strtab;
          if \<not> ok then Some False
          else check_all
            (\<lambda>i. map_option (\<lambda>name. \<not> (ucast name :: uint64) \<ge> sv_size strtab)
              (read_symbol_name elf_data header (sv_offset symtab + of_nat i * entry_size)))
            [0..<unat (sv_size symtab div entry_size)]
        })"

definition check_section_contents :: "uint8 list \<Rightarrow> uint64 \<Rightarrow> ElfHeaderView \<Rightarrow> nat \<Rightarrow> bool option" where
  "check_section_contents elf_data elf_size header i = do {
     section \<leftarrow> read_section elf_data header (of_nat i);
     Some (if sv_type section = SHT_NULL \<or> sv_type section = SHT_NOBITS then True
           else range_is_inside (sv_offset section) (sv_size section) elf_size)
   }"

definition check_section_name :: "uint8 list \<Rightarrow> ElfHeaderView \<Rightarrow> ElfSectionView \<Rightarrow> nat \<Rightarrow> bool option" where
  "check_section_name elf_data header names i = do {
     section \<leftarrow> read_section elf_data header (of_nat i);
     if (ucast (sv_name section) :: uint64) \<ge> sv_size names then Some False
     else if sv_type section = SHT_SYMTAB then check_symbol_table elf_data header section
     else Some True
   }"

definition check_sections :: "uint8 list \<Rightarrow> uint64 \<Rightarrow> ElfHeaderView \<Rightarrow> bool option" where
  "check_sections elf_data elf_size header =
    (let entry_size = of_nat (if hv_is_64 header then sizeof_Elf64_Shdr else sizeof_Elf32_Shdr)
     in if hv_shnum header = 0 then Some True
        else if hv_shentsize header < entry_size then Some False
        else if \<not> table_is_inside (hv_shoff header) (hv_shnum header) (hv_shentsize header) elf_size then Some False
        else do {
          ok \<leftarrow> check_all (check_section_contents elf_data elf_size header) [0..<unat (hv_shnum header)];
          if \<not> ok then Some False
          else if hv_shstrndx header \<ge> hv_shnum header then Some False
          else do {
            names \<leftarrow> read_section elf_data header (hv_shstrndx header);
            ok' \<leftarrow> string_table_is_valid elf_data names;
            if \<not> ok' then Some False
            else check_all (check_section_name elf_data header names) [0..<unat (hv_shnum header)]
          }
        })"

definition elf_image_check :: "uint8 list \<Rightarrow> uint64 \<Rightarrow> Std_ReturnType option" where
  "elf_image_check elf_data elf_size = do {
     r \<leftarrow> read_header elf_data elf_size;
     case r of
       Inl _ \<Rightarrow> Some STD_E_INVALID
     | Inr header \<Rightarrow> do {
         p \<leftarrow> check_programs elf_data elf_size header;
         if \<not> p then Some STD_E_INVALID
         else do {
           q \<leftarrow> check_sections elf_data elf_size header;
           Some (if q then STD_E_OK else STD_E_INVALID)
         }
       }
   }"

end
