(* ===== verification/Loader.thy ===== *)
theory Loader
  imports MpuMalloc ElfImageCheck
begin

text \<open>
  The program loader, src/src/device/mpu/loader/loader.c, with the code-cache registration of
  src/src/cpu/cpu.h and the memory map description of src/src/inc/cpuemu_ops.h.

  \<^item> The state is the guest heap with its address map, the list of code caches with the
    \<open>last\<close> entry the inline search remembers, and the memory map description, which the
    loader changes when an external device cannot be set up.
  \<^item> \<open>alloc\<close> gives the result of the host allocation for a region by its start and size;
    \<open>alloc_ok\<close> says that the small allocations of the bookkeeping succeed.
  \<^item> \<open>None\<close> is undefined behaviour of the C code or a failed ASSERT.
  \<^item> Parameters of the target: the machine number \<open>ELF_MACHINE_TYPE\<close>, the permission
    test and the devices of \<open>mpu_env\<close>. The symbol reader and the readers of the debug
    information (src/src/lib/dwarf) do not touch this state; \<open>elf_load\<close> has their
    results as the parameter \<open>sym_load\<close>.
\<close>

section \<open>The memory map description\<close>

datatype MemoryAddressImplType =
    MemoryAddressImplType_ROM | MemoryAddressImplType_RAM | MemoryAddressImplType_MMAP
  | MemoryAddressImplType_MALLOC | MemoryAddressImplType_DEV

record MemoryAddressType =
  ma_type :: MemoryAddressImplType
  ma_start :: AthrillAddrType
  ma_size :: AthrillAddrType
  ma_mmap_addr :: "hptr option"
  ma_extdev_handle :: "AthrillExDeviceType option"
  ma_region_executable :: bool
  ma_region_elf_load_from_vaddr :: bool

record MemoryAddressMapType =
  mm_rom :: "MemoryAddressType list"
  mm_ram :: "MemoryAddressType list"
  mm_dev :: "MemoryAddressType list"

text \<open>The cast between the two enumerations; DEV has no counterpart.\<close>

fun get_type_of :: "MemoryAddressImplType \<Rightarrow> MpuAddressGetType option" where
  "get_type_of MemoryAddressImplType_ROM = Some MpuAddressGetType_ROM"
| "get_type_of MemoryAddressImplType_RAM = Some MpuAddressGetType_RAM"
| "get_type_of MemoryAddressImplType_MMAP = Some MpuAddressGetType_MMAP"
| "get_type_of MemoryAddressImplType_MALLOC = Some MpuAddressGetType_MALLOC"
| "get_type_of MemoryAddressImplType_DEV = None"

record CachedOperationCodeType =
  cc_code_start_addr :: AthrillAddrType
  cc_code_size :: uint32

record 'd load_state =
  ld_heap :: "'d malloc_state"
  ld_cached_code :: "CachedOperationCodeType list"
  ld_last :: "nat option"
  ld_memap :: MemoryAddressMapType

abbreviation ld_mpu :: "'d load_state \<Rightarrow> 'd mpu_state" where
  "ld_mpu st \<equiv> ml_mpu (ld_heap st)"

definition set_mpu :: "'d mpu_state \<Rightarrow> 'd load_state \<Rightarrow> 'd load_state" where
  "set_mpu s st = st\<lparr>ld_heap := (ld_heap st)\<lparr>ml_mpu := s\<rparr>\<rparr>"

section \<open>Code caches\<close>

definition code_covers :: "AthrillAddrType \<Rightarrow> CachedOperationCodeType \<Rightarrow> bool" where
  "code_covers pc c \<longleftrightarrow> \<not> pc < cc_code_start_addr c \<and> \<not> pc \<ge> cc_code_start_addr c + cc_code_size c"

definition virtual_cpu_get_cached_code :: "AthrillAddrType \<Rightarrow> 'd load_state \<Rightarrow> nat option \<times> 'd load_state" where
  "virtual_cpu_get_cached_code pc st =
    (let search = (case find_first (code_covers pc) (ld_cached_code st) of
                     Some i \<Rightarrow> (Some i, st\<lparr>ld_last := Some i\<rparr>) | None \<Rightarrow> (None, st))
     in case ld_last st of
          Some l \<Rightarrow> (if pc \<ge> cc_code_start_addr (ld_cached_code st ! l) \<and>
                        pc < cc_code_start_addr (ld_cached_code st ! l) + cc_code_size (ld_cached_code st ! l)
                     then (Some l, st) else search)
        | None \<Rightarrow> search)"

definition virtual_cpu_cache_code_add_with_check ::
  "uint32 \<Rightarrow> AthrillAddrType \<Rightarrow> 'd load_state \<Rightarrow> 'd load_state" where
  "virtual_cpu_cache_code_add_with_check memsz start_addr st =
    (case virtual_cpu_get_cached_code start_addr st of
       (Some _, st1) \<Rightarrow> st1
     | (None, st1) \<Rightarrow>
        st1\<lparr>ld_cached_code := ld_cached_code st1 @ [\<lparr>cc_code_start_addr = start_addr, cc_code_size = memsz\<rparr>]\<rparr>)"

section \<open>Segments\<close>

definition memory_region_covers ::
  "MemoryAddressType \<Rightarrow> AthrillAddrType \<Rightarrow> AthrillAddrType \<Rightarrow> bool \<Rightarrow> bool" where
  "memory_region_covers region addr sz size_is_kb =
    (let region_size = (if size_is_kb then ma_size region * 1024 else ma_size region)
     in if addr < ma_start region then False
        else let offset = addr - ma_start region
             in offset \<le> region_size \<and> sz \<le> region_size - offset)"

definition memory_map_covers :: "MemoryAddressMapType \<Rightarrow> AthrillAddrType \<Rightarrow> AthrillAddrType \<Rightarrow> bool" where
  "memory_map_covers memap addr sz \<longleftrightarrow>
    (\<exists>r\<in>set (mm_rom memap). memory_region_covers r addr sz True) \<or>
    (\<exists>r\<in>set (mm_ram memap). ma_type r \<noteq> MemoryAddressImplType_MALLOC \<and> memory_region_covers r addr sz True) \<or>
    (\<exists>r\<in>set (mm_dev memap). memory_region_covers r addr sz False)"

definition load_segment ::
  "'d mpu_env \<Rightarrow> uint8 list \<Rightarrow> uint64 \<Rightarrow> uint64 \<Rightarrow> uint64 \<Rightarrow> uint64 \<Rightarrow> MemoryAddressMapType \<Rightarrow> 'd mpu_state
    \<Rightarrow> (Std_ReturnType \<times> 'd mpu_state) option" where
  "load_segment env elf_data offset load_addr file_size memory_size memap s =
    (if memory_size < file_size \<or> \<not> memory_map_covers memap (ucast load_addr) (ucast memory_size)
     then Some (STD_E_NOENT, s)
     else if memory_size = 0 then Some (STD_E_OK, s)
     else do {
       (err, ptr, s1) \<leftarrow> mpu_get_pointer env 0 (ucast load_addr) s;
       if err \<noteq> STD_E_OK then Some (STD_E_INVALID, s1)
       else do {
         p \<leftarrow> ptr;
         bs \<leftarrow> buf_read (unat offset) (unat file_size) elf_data;
         h1 \<leftarrow> host_write (mpu_host s1) p bs;
         h2 \<leftarrow> host_write h1 (ptr_add p (unat file_size)) (replicate (unat (memory_size - file_size)) 0);
         Some (STD_E_OK, s1\<lparr>mpu_host := h2\<rparr>)
       }
     })"

definition binary_load ::
  "'d mpu_env \<Rightarrow> uint8 list \<Rightarrow> AthrillAddrType \<Rightarrow> uint32 \<Rightarrow> 'd mpu_state \<Rightarrow> (Std_ReturnType \<times> 'd mpu_state) option" where
  "binary_load env binary_data load_addr binary_data_len s = do {
     (err, ptr, s1) \<leftarrow> mpu_get_pointer env 0 load_addr s;
     if err \<noteq> STD_E_OK then Some (err, s1)
     else do {
       p \<leftarrow> ptr;
       bs \<leftarrow> buf_read 0 (unat binary_data_len) binary_data;
       h1 \<leftarrow> host_write (mpu_host s1) p bs;
       Some (STD_E_OK, s1\<lparr>mpu_host := h1\<rparr>)
     }
   }"

section \<open>Header checks\<close>

definition Elf_Check :: "uint16 \<Rightarrow> Elf32_Ehdr \<Rightarrow> Std_ReturnType" where
  "Elf_Check ELF_MACHINE_TYPE elf_image =
    (if \<not> IS_ELF (e32_ident elf_image) then STD_E_INVALID
     else if e32_ident elf_image ! EI_CLASS \<noteq> ELFCLASS32 then STD_E_INVALID
     else if e32_ident elf_image ! EI_DATA \<noteq> ELFDATA2LSB then STD_E_INVALID
     else if e32_ident elf_image ! EI_VERSION \<noteq> EV_CURRENT then STD_E_INVALID
     else if e32_ident elf_image ! EI_OSABI \<noteq> ELFOSABI_SYSV then STD_E_INVALID
     else if e32_ident elf_image ! EI_ABIVERSION \<noteq> 0 then STD_E_INVALID
     else if e32_type elf_image \<noteq> ET_EXEC then STD_E_INVALID
     else if e32_machine elf_image \<noteq> ELF_MACHINE_TYPE then STD_E_INVALID
     else if e32_version elf_image \<noteq> EV_CURRENT then STD_E_INVALID
     else STD_E_OK)"

definition Elf64_Check :: "uint16 \<Rightarrow> Elf64_Ehdr \<Rightarrow> Std_ReturnType" where
  "Elf64_Check ELF_MACHINE_TYPE elf_image =
    (if \<not> IS_ELF (e64_ident elf_image) \<or> e64_ident elf_image ! EI_CLASS \<noteq> ELFCLASS64 \<or>
        e64_ident elf_image ! EI_DATA \<noteq> ELFDATA2LSB \<or> e64_ident elf_image ! EI_VERSION \<noteq> EV_CURRENT \<or>
        e64_ident elf_image ! EI_OSABI \<noteq> ELFOSABI_SYSV \<or> e64_ident elf_image ! EI_ABIVERSION \<noteq> 0 \<or>
        e64_type elf_image \<noteq> ET_EXEC \<or> e64_machine elf_image \<noteq> ELF_MACHINE_TYPE \<or>
        e64_version elf_image \<noteq> EV_CURRENT
     then STD_E_INVALID else STD_E_OK)"

text \<open>A \<open>for\<close> loop whose body may return from the function with an error.\<close>

fun for_each :: "('x \<Rightarrow> 's \<Rightarrow> (Std_ReturnType \<times> 's) option) \<Rightarrow> 'x list \<Rightarrow> 's \<Rightarrow> (Std_ReturnType \<times> 's) option" where
  "for_each body [] st = Some (STD_E_OK, st)"
| "for_each body (x # xs) st = do {
     (err, st1) \<leftarrow> body x st;
     if err \<noteq> STD_E_OK then Some (err, st1) else for_each body xs st1
   }"

section \<open>Creating the regions\<close>

definition set_rom_ram ::
  "(AthrillAddrType \<Rightarrow> AthrillAddrType \<Rightarrow> uint8 list option) \<Rightarrow> MemoryAddressImplType \<Rightarrow> AthrillAddrType
    \<Rightarrow> AthrillAddrType \<Rightarrow> hptr option \<Rightarrow> 'd load_state \<Rightarrow> (hptr option \<times> 'd load_state) option" where
  "set_rom_ram alloc ty start sz mmap_addr st = do {
     gt \<leftarrow> get_type_of ty;
     (ptr, s1) \<leftarrow> mpu_address_set_rom_ram gt start sz mmap_addr (alloc start sz) (ld_mpu st);
     Some (ptr, set_mpu s1 st)
   }"

definition set_cache_code_from_map :: "MemoryAddressType \<Rightarrow> 'd load_state \<Rightarrow> 'd load_state" where
  "set_cache_code_from_map memory_map st =
    (if ma_region_executable memory_map
     then virtual_cpu_cache_code_add_with_check (ma_size memory_map * 1024) (ma_start memory_map) st
     else st)"

abbreviation malloc_unit_bytes :: AthrillAddrType where
  "malloc_unit_bytes \<equiv> of_nat (MPU_MALLOC_REGION_UNIT_SIZE * 1024)"

definition malloc_unit_num :: "MemoryAddressType \<Rightarrow> nat" where
  "malloc_unit_num m = unat (ma_size m div of_nat MPU_MALLOC_REGION_UNIT_SIZE)"

fun reserve_malloc_units ::
  "(AthrillAddrType \<Rightarrow> AthrillAddrType \<Rightarrow> uint8 list option) \<Rightarrow> MemoryAddressImplType \<Rightarrow> nat \<Rightarrow> AthrillAddrType
    \<Rightarrow> 'd load_state \<Rightarrow> 'd load_state option" where
  "reserve_malloc_units alloc ty 0 start st = Some st"
| "reserve_malloc_units alloc ty (Suc n) start st = do {
     (_, st1) \<leftarrow> set_rom_ram alloc ty start malloc_unit_bytes None st;
     reserve_malloc_units alloc ty n (start + malloc_unit_bytes) st1
   }"

fun register_malloc_units :: "bool \<Rightarrow> nat \<Rightarrow> AthrillAddrType \<Rightarrow> 'd load_state \<Rightarrow> 'd load_state option" where
  "register_malloc_units alloc_ok 0 start st = Some st"
| "register_malloc_units alloc_ok (Suc n) start st = do {
     heap \<leftarrow> mpu_address_set_malloc_region alloc_ok start malloc_unit_bytes (ld_heap st);
     register_malloc_units alloc_ok n (start + malloc_unit_bytes) (st\<lparr>ld_heap := heap\<rparr>)
   }"

definition set_malloc_region :: "bool \<Rightarrow> MemoryAddressType \<Rightarrow> 'd load_state \<Rightarrow> 'd load_state option" where
  "set_malloc_region alloc_ok m st = register_malloc_units alloc_ok (malloc_unit_num m) (ma_start m) st"

definition load_rom ::
  "(AthrillAddrType \<Rightarrow> AthrillAddrType \<Rightarrow> uint8 list option) \<Rightarrow> MemoryAddressType \<Rightarrow> 'd load_state
    \<Rightarrow> (Std_ReturnType \<times> 'd load_state) option" where
  "load_rom alloc m st = do {
     (ptr, st1) \<leftarrow> set_rom_ram alloc (ma_type m) (ma_start m) (ma_size m * 1024) None st;
     Some (if ptr = None then (STD_E_INVALID, st1) else (STD_E_OK, set_cache_code_from_map m st1))
   }"

definition load_ram ::
  "(AthrillAddrType \<Rightarrow> AthrillAddrType \<Rightarrow> uint8 list option) \<Rightarrow> MemoryAddressType \<Rightarrow> 'd load_state
    \<Rightarrow> (Std_ReturnType \<times> 'd load_state) option" where
  "load_ram alloc m st =
    (if ma_type m \<noteq> MemoryAddressImplType_MALLOC
     then do {
       (ptr, st1) \<leftarrow> set_rom_ram alloc (ma_type m) (ma_start m) (ma_size m * 1024) (ma_mmap_addr m) st;
       Some (if ptr = None then (STD_E_INVALID, st1) else (STD_E_OK, set_cache_code_from_map m st1))
     }
     else do {
       st1 \<leftarrow> reserve_malloc_units alloc (ma_type m) (malloc_unit_num m) (ma_start m) st;
       Some (STD_E_OK, set_cache_code_from_map m st1)
     })"

definition load_malloc :: "bool \<Rightarrow> MemoryAddressType \<Rightarrow> 'd load_state \<Rightarrow> (Std_ReturnType \<times> 'd load_state) option" where
  "load_malloc alloc_ok m st =
    (if ma_type m = MemoryAddressImplType_MALLOC
     then map_option (Pair STD_E_OK) (set_malloc_region alloc_ok m st)
     else Some (STD_E_OK, st))"

definition load_dev :: "bool \<Rightarrow> nat \<Rightarrow> 'd load_state \<Rightarrow> (Std_ReturnType \<times> 'd load_state) option" where
  "load_dev alloc_ok i st =
    (let m = mm_dev (ld_memap st) ! i
     in do {
       (ptr, s1) \<leftarrow> mpu_address_set_dev (ma_start m) (ma_size m) (ma_extdev_handle m) alloc_ok (ld_mpu st);
       let st1 = set_mpu s1 st;
       Some (if ptr = None
             then (STD_E_INVALID, st1\<lparr>ld_memap := (ld_memap st1)
                     \<lparr>mm_dev := (mm_dev (ld_memap st1))[i := m\<lparr>ma_extdev_handle := None\<rparr>]\<rparr>\<rparr>)
             else (STD_E_OK, st1))
     })"

text \<open>The part of both \<open>LoadProgram\<close> functions that sets up the regions of the map.\<close>

definition load_regions ::
  "(AthrillAddrType \<Rightarrow> AthrillAddrType \<Rightarrow> uint8 list option) \<Rightarrow> bool \<Rightarrow> 'd load_state
    \<Rightarrow> (Std_ReturnType \<times> 'd load_state) option" where
  "load_regions alloc alloc_ok st = do {
     (err, st1) \<leftarrow> for_each (load_rom alloc) (mm_rom (ld_memap st)) st;
     if err \<noteq> STD_E_OK then Some (err, st1)
     else do {
       (err, st2) \<leftarrow> for_each (load_ram alloc) (mm_ram (ld_memap st)) st1;
       if err \<noteq> STD_E_OK then Some (err, st2)
       else do {
         (err, st3) \<leftarrow> for_each (load_malloc alloc_ok) (mm_ram (ld_memap st)) st2;
         if err \<noteq> STD_E_OK then Some (err, st3)
         else for_each (load_dev alloc_ok) [0..<length (mm_dev (ld_memap st))] st3
       }
     }
   }"

section \<open>Loading a program\<close>

definition Elf32_Phdr_at :: "uint8 list \<Rightarrow> Elf32_Ehdr \<Rightarrow> nat \<Rightarrow> Elf32_Phdr option" where
  "Elf32_Phdr_at elf_data ehdr i =
    map_option Elf32_Phdr_of (buf_read
      (unat (e32_phoff ehdr) + unat ((ucast (e32_phentsize ehdr) :: uint32) * of_nat i)) sizeof_Elf32_Phdr elf_data)"

definition Elf64_Phdr_at :: "uint8 list \<Rightarrow> Elf64_Ehdr \<Rightarrow> nat \<Rightarrow> Elf64_Phdr option" where
  "Elf64_Phdr_at elf_data ehdr i =
    map_option Elf64_Phdr_of (buf_read
      (unat (e64_phoff ehdr) + unat ((ucast (e64_phentsize ehdr) :: uint32) * of_nat i)) sizeof_Elf64_Phdr elf_data)"

definition cache_segment :: "uint8 list \<Rightarrow> Elf32_Ehdr \<Rightarrow> nat \<Rightarrow> 'd load_state \<Rightarrow> (Std_ReturnType \<times> 'd load_state) option" where
  "cache_segment elf_data ehdr i st = do {
     phdr \<leftarrow> Elf32_Phdr_at elf_data ehdr i;
     Some (STD_E_OK, if p32_flags phdr AND PF_X = PF_X
       then virtual_cpu_cache_code_add_with_check (p32_memsz phdr) (p32_vaddr phdr) st else st)
   }"

definition set_cache_code_from_elf :: "uint8 list \<Rightarrow> Elf32_Ehdr \<Rightarrow> 'd load_state \<Rightarrow> (Std_ReturnType \<times> 'd load_state) option" where
  "set_cache_code_from_elf elf_data ehdr st =
    for_each (cache_segment elf_data ehdr) [0..<unat (e32_phnum ehdr)] st"

text \<open>
  One turn of the loop over the program headers in \<open>Elf_LoadProgram\<close>: a segment outside the
  memory map is skipped, any other failure of \<open>load_segment\<close> ends the function.
\<close>

definition load_program_segment ::
  "'d mpu_env \<Rightarrow> uint8 list \<Rightarrow> Elf32_Ehdr \<Rightarrow> nat \<Rightarrow> 'd load_state \<Rightarrow> (Std_ReturnType \<times> 'd load_state) option" where
  "load_program_segment env elf_data ehdr i st = do {
     phdr \<leftarrow> Elf32_Phdr_at elf_data ehdr i;
     if p32_type phdr \<noteq> PT_LOAD then Some (STD_E_OK, st)
     else do {
       (err, s1) \<leftarrow> load_segment env elf_data (ucast (p32_offset phdr)) (ucast (p32_paddr phdr))
         (ucast (p32_filesz phdr)) (ucast (p32_memsz phdr)) (ld_memap st) (ld_mpu st);
       let st1 = set_mpu s1 st;
       Some (if err = STD_E_NOENT then (STD_E_OK, st1)
             else if err \<noteq> STD_E_OK then (STD_E_INVALID, st1)
             else (STD_E_OK, st1))
     }
   }"

definition Elf_LoadProgram ::
  "'d mpu_env \<Rightarrow> (AthrillAddrType \<Rightarrow> AthrillAddrType \<Rightarrow> uint8 list option) \<Rightarrow> bool \<Rightarrow> uint8 list \<Rightarrow> Elf32_Ehdr
    \<Rightarrow> 'd load_state \<Rightarrow> (Std_ReturnType \<times> 'd load_state) option" where
  "Elf_LoadProgram env alloc alloc_ok elf_data ehdr st = do {
     (err, st1) \<leftarrow> load_regions alloc alloc_ok st;
     if err \<noteq> STD_E_OK then Some (err, st1)
     else do {
       (_, st2) \<leftarrow> set_cache_code_from_elf elf_data ehdr st1;
       for_each (load_program_segment env elf_data ehdr) [0..<unat (e32_phnum ehdr)] st2
     }
   }"

text \<open>The range check of the 32-bit bus, \<open>UINT32_MAX\<close> and \<open>UINT64_MAX\<close> at 64 bits.\<close>

definition above_bus :: "Elf64_Phdr \<Rightarrow> bool" where
  "above_bus p \<longleftrightarrow>
    p64_paddr p > 0xFFFFFFFF \<or> p64_vaddr p > 0xFFFFFFFF \<or> p64_filesz p > 0xFFFFFFFF \<or>
    p64_memsz p > 0xFFFFFFFF \<or> p64_memsz p > 0xFFFFFFFFFFFFFFFF - p64_paddr p \<or>
    p64_paddr p + p64_memsz p > 0x100000000"

definition load_program_segment64 ::
  "'d mpu_env \<Rightarrow> uint8 list \<Rightarrow> Elf64_Ehdr \<Rightarrow> nat \<Rightarrow> 'd load_state \<Rightarrow> (Std_ReturnType \<times> 'd load_state) option" where
  "load_program_segment64 env elf_data ehdr i st = do {
     p \<leftarrow> Elf64_Phdr_at elf_data ehdr i;
     if p64_type p \<noteq> PT_LOAD then Some (STD_E_OK, st)
     else if above_bus p then Some (STD_E_INVALID, st)
     else do {
       let st1 = (if p64_flags p AND PF_X \<noteq> 0
         then virtual_cpu_cache_code_add_with_check (ucast (p64_memsz p)) (ucast (p64_vaddr p)) st else st);
       (err, s1) \<leftarrow> load_segment env elf_data (p64_offset p) (p64_paddr p) (p64_filesz p) (p64_memsz p)
         (ld_memap st1) (ld_mpu st1);
       let st2 = set_mpu s1 st1;
       Some (if err = STD_E_NOENT then (STD_E_OK, st2)
             else if err \<noteq> STD_E_OK then (STD_E_INVALID, st2)
             else (STD_E_OK, st2))
     }
   }"

definition Elf64_LoadProgram ::
  "'d mpu_env \<Rightarrow> (AthrillAddrType \<Rightarrow> AthrillAddrType \<Rightarrow> uint8 list option) \<Rightarrow> bool \<Rightarrow> uint8 list \<Rightarrow> Elf64_Ehdr
    \<Rightarrow> 'd load_state \<Rightarrow> (Std_ReturnType \<times> 'd load_state) option" where
  "Elf64_LoadProgram env alloc alloc_ok elf_data ehdr st = do {
     (err, st1) \<leftarrow> load_regions alloc alloc_ok st;
     if err \<noteq> STD_E_OK then Some (err, st1)
     else for_each (load_program_segment64 env elf_data ehdr) [0..<unat (e64_phnum ehdr)] st1
   }"

text \<open>
  \<open>elf_load\<close>: the entry address is \<open>*entry_addr\<close>, \<open>None\<close> where it is
  not written. \<open>sym_load\<close> is the result of \<open>elf_symbol_load\<close>; the debug
  information is optional and its readers return nothing.
\<close>

definition elf_load ::
  "'d mpu_env \<Rightarrow> (AthrillAddrType \<Rightarrow> AthrillAddrType \<Rightarrow> uint8 list option) \<Rightarrow> bool \<Rightarrow> uint16
    \<Rightarrow> (uint8 list \<Rightarrow> Std_ReturnType) \<Rightarrow> uint8 list \<Rightarrow> uint64 \<Rightarrow> 'd load_state
    \<Rightarrow> (Std_ReturnType \<times> AthrillAddrType option \<times> 'd load_state) option" where
  "elf_load env alloc alloc_ok ELF_MACHINE_TYPE sym_load elf_data elf_size st = do {
     err \<leftarrow> elf_image_check elf_data elf_size;
     if err \<noteq> STD_E_OK then Some (err, None, st)
     else do {
       ident \<leftarrow> buf_read 0 EI_NIDENT elf_data;
       if ident ! EI_CLASS = ELFCLASS64
       then do {
         image64 \<leftarrow> map_option Elf64_Ehdr_of (buf_read 0 sizeof_Elf64_Ehdr elf_data);
         if Elf64_Check ELF_MACHINE_TYPE image64 \<noteq> STD_E_OK then Some (STD_E_INVALID, None, st)
         else if e64_entry image64 > 0xFFFFFFFF then Some (STD_E_INVALID, None, st)
         else do {
           (err, st1) \<leftarrow> Elf64_LoadProgram env alloc alloc_ok elf_data image64 st;
           let entry = Some (ucast (e64_entry image64));
           Some (if err \<noteq> STD_E_OK then (err, entry, st1) else (sym_load elf_data, entry, st1))
         }
       }
       else do {
         ehdr \<leftarrow> map_option Elf32_Ehdr_of (buf_read 0 sizeof_Elf32_Ehdr elf_data);
         let err = Elf_Check ELF_MACHINE_TYPE ehdr;
         if err \<noteq> STD_E_OK then Some (err, None, st)
         else do {
           (err, st1) \<leftarrow> Elf_LoadProgram env alloc alloc_ok elf_data ehdr st;
           let entry = Some (e32_entry ehdr);
           Some (if err \<noteq> STD_E_OK then (err, entry, st1) else (sym_load elf_data, entry, st1))
         }
       }
     }
   }"

section \<open>Reloading on reset\<close>

definition clear_region :: "'d mpu_env \<Rightarrow> MemoryAddressType \<Rightarrow> 'd mpu_state \<Rightarrow> (Std_ReturnType \<times> 'd mpu_state) option" where
  "clear_region env m s = do {
     (err, ptr, s1) \<leftarrow> mpu_get_pointer env 0 (ma_start m) s;
     if err \<noteq> STD_E_OK then Some (STD_E_INVALID, s1)
     else do {
       p \<leftarrow> ptr;
       h1 \<leftarrow> host_write (mpu_host s1) p (replicate (unat (ma_size m * 1024)) 0);
       Some (STD_E_OK, s1\<lparr>mpu_host := h1\<rparr>)
     }
   }"

definition clear_regions :: "'d mpu_env \<Rightarrow> MemoryAddressMapType \<Rightarrow> 'd mpu_state \<Rightarrow> (Std_ReturnType \<times> 'd mpu_state) option" where
  "clear_regions env memap s = do {
     (err, s1) \<leftarrow> for_each (clear_region env) (mm_rom memap) s;
     if err \<noteq> STD_E_OK then Some (err, s1)
     else for_each
       (\<lambda>m s. if ma_type m = MemoryAddressImplType_MALLOC then Some (STD_E_OK, s) else clear_region env m s)
       (mm_ram memap) s1
   }"

definition reload_segment :: "(Std_ReturnType \<times> 'd mpu_state) option \<Rightarrow> (Std_ReturnType \<times> 'd mpu_state) option" where
  "reload_segment r = do {
     (err, s1) \<leftarrow> r;
     Some (if err = STD_E_INVALID then (STD_E_INVALID, s1) else (STD_E_OK, s1))
   }"

definition reload_program_segment ::
  "'d mpu_env \<Rightarrow> uint8 list \<Rightarrow> MemoryAddressMapType \<Rightarrow> Elf32_Ehdr \<Rightarrow> nat \<Rightarrow> 'd mpu_state
    \<Rightarrow> (Std_ReturnType \<times> 'd mpu_state) option" where
  "reload_program_segment env elf_data memap ehdr i s = do {
     phdr \<leftarrow> Elf32_Phdr_at elf_data ehdr i;
     if p32_type phdr \<noteq> PT_LOAD then Some (STD_E_OK, s)
     else reload_segment (load_segment env elf_data (ucast (p32_offset phdr)) (ucast (p32_paddr phdr))
       (ucast (p32_filesz phdr)) (ucast (p32_memsz phdr)) memap s)
   }"

definition reload_program_segment64 ::
  "'d mpu_env \<Rightarrow> uint8 list \<Rightarrow> MemoryAddressMapType \<Rightarrow> Elf64_Ehdr \<Rightarrow> nat \<Rightarrow> 'd mpu_state
    \<Rightarrow> (Std_ReturnType \<times> 'd mpu_state) option" where
  "reload_program_segment64 env elf_data memap ehdr i s = do {
     p \<leftarrow> Elf64_Phdr_at elf_data ehdr i;
     if p64_type p \<noteq> PT_LOAD then Some (STD_E_OK, s)
     else reload_segment (load_segment env elf_data (p64_offset p) (p64_paddr p)
       (p64_filesz p) (p64_memsz p) memap s)
   }"

definition elf_reload ::
  "'d mpu_env \<Rightarrow> uint16 \<Rightarrow> uint8 list \<Rightarrow> uint64 \<Rightarrow> MemoryAddressMapType \<Rightarrow> 'd mpu_state
    \<Rightarrow> (Std_ReturnType \<times> 'd mpu_state) option" where
  "elf_reload env ELF_MACHINE_TYPE elf_data elf_size memap s = do {
     err \<leftarrow> elf_image_check elf_data elf_size;
     if err \<noteq> STD_E_OK then Some (STD_E_INVALID, s)
     else do {
       ident \<leftarrow> buf_read 0 EI_NIDENT elf_data;
       if ident ! EI_CLASS = ELFCLASS64
       then do {
         image64 \<leftarrow> map_option Elf64_Ehdr_of (buf_read 0 sizeof_Elf64_Ehdr elf_data);
         if Elf64_Check ELF_MACHINE_TYPE image64 \<noteq> STD_E_OK then Some (STD_E_INVALID, s)
         else do {
           (err, s1) \<leftarrow> clear_regions env memap s;
           if err \<noteq> STD_E_OK then Some (err, s1)
           else for_each (reload_program_segment64 env elf_data memap image64) [0..<unat (e64_phnum image64)] s1
         }
       }
       else do {
         ehdr \<leftarrow> map_option Elf32_Ehdr_of (buf_read 0 sizeof_Elf32_Ehdr elf_data);
         if Elf_Check ELF_MACHINE_TYPE ehdr \<noteq> STD_E_OK then Some (STD_E_INVALID, s)
         else do {
           (err, s1) \<leftarrow> clear_regions env memap s;
           if err \<noteq> STD_E_OK then Some (err, s1)
           else for_each (reload_program_segment env elf_data memap ehdr) [0..<unat (e32_phnum ehdr)] s1
         }
       }
     }
   }"

end
