(* ===== verification/ElfImageLaws.thy ===== *)
theory ElfImageLaws
  imports ElfImageCheck
begin

text \<open>
  Correctness of the ELF image check: it never reads outside the image itself, and it accepts
  exactly the images in which every structure the loader and the readers of the debug
  information follow lies inside the file, as the comment of elf_image_check.h promises. The
  specification is written with unbounded natural numbers.
\<close>

section \<open>Ranges\<close>

lemma range_is_inside_iff:
  "range_is_inside offset sz elf_size \<longleftrightarrow> unat offset + unat sz \<le> unat elf_size"
proof (cases "offset > elf_size")
  case True
  then show ?thesis by (simp add: range_is_inside_def word_less_nat_alt)
next
  case False
  then have "unat (elf_size - offset) = unat elf_size - unat offset"
    by (simp add: unat_sub not_less)
  with False show ?thesis by (auto simp: range_is_inside_def word_le_nat_alt word_less_nat_alt)
qed

lemma ucast_mult:
  "unat ((ucast (a :: uint32) :: uint64) * ucast (b :: uint32)) = unat a * unat b"
proof -
  have "unat a < 2 ^ 32" "unat b < 2 ^ 32"
    using unsigned_less [of a, where ?'a = nat] unsigned_less [of b, where ?'a = nat] by simp_all
  then have "unat a * unat b < 2 ^ 32 * 2 ^ 32" by (rule mult_strict_mono) simp_all
  then show ?thesis by (simp add: unat_word_ariths unat_ucast_up)
qed

lemma table_is_inside_iff:
  "table_is_inside offset count entry_size elf_size \<longleftrightarrow>
    count = 0 \<or> unat offset + unat count * unat entry_size \<le> unat elf_size"
proof (cases "count = 0")
  case True
  then show ?thesis by (simp add: table_is_inside_def)
next
  case False
  then have pos: "0 < unat count" by (simp add: unat_gt_0)
  have cmp: "(ucast entry_size :: uint64) > elf_size div ucast count \<longleftrightarrow>
      unat elf_size div unat count < unat entry_size"
    by (simp add: word_less_nat_alt unat_div_distrib unat_ucast_up)
  have "unat count * unat entry_size > unat elf_size" if "unat elf_size div unat count < unat entry_size"
    using that pos by (simp add: div_less_iff_less_mult mult.commute)
  then show ?thesis using False
    by (auto simp: table_is_inside_def cmp range_is_inside_iff ucast_mult)
qed

section \<open>Loops\<close>

lemma check_all_eq:
  "(\<And>i. i \<in> set is \<Longrightarrow> body i = Some (P i)) \<Longrightarrow> check_all body is = Some (\<forall>i\<in>set is. P i)"
  by (induction "is") (auto split: bool.splits)

section \<open>Table entries\<close>

definition phdr_size :: "ElfHeaderView \<Rightarrow> nat" where
  "phdr_size header = (if hv_is_64 header then sizeof_Elf64_Phdr else sizeof_Elf32_Phdr)"

definition shdr_size :: "ElfHeaderView \<Rightarrow> nat" where
  "shdr_size header = (if hv_is_64 header then sizeof_Elf64_Shdr else sizeof_Elf32_Shdr)"

definition sym_size :: "ElfHeaderView \<Rightarrow> nat" where
  "sym_size header = (if hv_is_64 header then sizeof_Elf64_Sym else sizeof_Elf32_Sym)"

lemma struct_sizes:
  "unat (of_nat (phdr_size header) :: uint32) = phdr_size header"
  "unat (of_nat (shdr_size header) :: uint32) = shdr_size header"
  "unat (of_nat (sym_size header) :: uint64) = sym_size header"
  "0 < sym_size header"
  by (simp_all add: phdr_size_def shdr_size_def sym_size_def sizeof_Elf64_Phdr_def sizeof_Elf32_Phdr_def
      sizeof_Elf64_Shdr_def sizeof_Elf32_Shdr_def sizeof_Elf64_Sym_def sizeof_Elf32_Sym_def)

lemma table_entry_inside:
  fixes index num entsize entry limit off :: nat
  assumes "off + num * entsize \<le> limit" "index < num" "entry \<le> entsize"
  shows "off + index * entsize + entry \<le> limit"
proof -
  have "Suc index * entsize \<le> num * entsize" using assms(2) by (intro mult_le_mono1) simp
  then show ?thesis using assms(1,3) by simp
qed

definition table_ok :: "nat \<Rightarrow> nat \<Rightarrow> nat \<Rightarrow> nat \<Rightarrow> nat \<Rightarrow> bool" where
  "table_ok off num entsize entry limit \<longleftrightarrow> entry \<le> entsize \<and> off + num * entsize \<le> limit"

abbreviation ph_table_ok :: "uint8 list \<Rightarrow> ElfHeaderView \<Rightarrow> bool" where
  "ph_table_ok data header \<equiv> table_ok (unat (hv_phoff header)) (unat (hv_phnum header))
    (unat (hv_phentsize header)) (phdr_size header) (length data)"

abbreviation sh_table_ok :: "uint8 list \<Rightarrow> ElfHeaderView \<Rightarrow> bool" where
  "sh_table_ok data header \<equiv> table_ok (unat (hv_shoff header)) (unat (hv_shnum header))
    (unat (hv_shentsize header)) (shdr_size header) (length data)"

lemma buf_read_defined: "off + n \<le> length xs \<Longrightarrow> buf_read off n xs = Some (take n (drop off xs))"
  by (simp add: buf_read_def)

lemma read_program_defined:
  assumes "ph_table_ok data header" "unat index < unat (hv_phnum header)"
  shows "read_program data header index \<noteq> None"
proof -
  have "unat (hv_phoff header) + unat index * unat (hv_phentsize header) + phdr_size header \<le> length data"
    using assms by (intro table_entry_inside) (simp_all add: table_ok_def)
  then show ?thesis
    by (auto simp: read_program_def Let_def ucast_mult phdr_size_def buf_read_defined)
qed

lemma read_section_defined:
  assumes "sh_table_ok data header" "unat index < unat (hv_shnum header)"
  shows "read_section data header index \<noteq> None"
proof -
  have "unat (hv_shoff header) + unat index * unat (hv_shentsize header) + shdr_size header \<le> length data"
    using assms by (intro table_entry_inside) (simp_all add: table_ok_def)
  then show ?thesis
    by (auto simp: read_section_def Let_def ucast_mult shdr_size_def buf_read_defined)
qed

lemma loop_index:
  assumes "i < unat (n :: uint32)"
  shows "unat (of_nat i :: uint32) = i"
  using assms unsigned_less [of n, where ?'a = nat]
  by (simp add: unat_of_nat take_bit_nat_eq_self)

section \<open>The specification\<close>

definition program_ok :: "uint8 list \<Rightarrow> ElfProgramView \<Rightarrow> bool" where
  "program_ok data p \<longleftrightarrow> pv_type p = PT_LOAD \<longrightarrow>
    unat (pv_offset p) + unat (pv_filesz p) \<le> length data \<and> unat (pv_filesz p) \<le> unat (pv_memsz p)"

definition programs_ok :: "uint8 list \<Rightarrow> ElfHeaderView \<Rightarrow> bool" where
  "programs_ok data header \<longleftrightarrow> hv_phnum header = 0 \<or>
    ph_table_ok data header \<and>
    (\<forall>i<unat (hv_phnum header). \<exists>p. read_program data header (of_nat i) = Some p \<and> program_ok data p)"

definition contents_ok :: "uint8 list \<Rightarrow> ElfSectionView \<Rightarrow> bool" where
  "contents_ok data sec \<longleftrightarrow> sv_type sec = SHT_NULL \<or> sv_type sec = SHT_NOBITS \<or>
    unat (sv_offset sec) + unat (sv_size sec) \<le> length data"

definition strtab_ok :: "uint8 list \<Rightarrow> ElfSectionView \<Rightarrow> bool" where
  "strtab_ok data sec \<longleftrightarrow> sv_type sec = SHT_STRTAB \<and> 0 < unat (sv_size sec) \<and>
    unat (sv_offset sec) + unat (sv_size sec) \<le> length data \<and>
    data ! (unat (sv_offset sec) + unat (sv_size sec) - 1) = 0"

definition symbol_name_at :: "uint8 list \<Rightarrow> ElfHeaderView \<Rightarrow> nat \<Rightarrow> nat" where
  "symbol_name_at data header off = unat (field off 4 data :: uint32)"

definition symtab_ok :: "uint8 list \<Rightarrow> ElfHeaderView \<Rightarrow> ElfSectionView \<Rightarrow> bool" where
  "symtab_ok data header sec \<longleftrightarrow>
    (unat (sv_entsize sec) = 0 \<or> unat (sv_entsize sec) = sym_size header) \<and>
    unat (sv_link sec) < unat (hv_shnum header) \<and>
    (\<exists>str. read_section data header (sv_link sec) = Some str \<and> strtab_ok data str \<and>
      (\<forall>i<unat (sv_size sec) div sym_size header.
        symbol_name_at data header (unat (sv_offset sec) + i * sym_size header) < unat (sv_size str)))"

definition section_inside :: "uint8 list \<Rightarrow> ElfHeaderView \<Rightarrow> nat \<Rightarrow> bool" where
  "section_inside data header i \<longleftrightarrow>
    (\<exists>sec. read_section data header (of_nat i) = Some sec \<and> contents_ok data sec)"

definition section_named :: "uint8 list \<Rightarrow> ElfHeaderView \<Rightarrow> ElfSectionView \<Rightarrow> nat \<Rightarrow> bool" where
  "section_named data header names i \<longleftrightarrow>
    (\<exists>sec. read_section data header (of_nat i) = Some sec \<and> unat (sv_name sec) < unat (sv_size names) \<and>
      (sv_type sec = SHT_SYMTAB \<longrightarrow> symtab_ok data header sec))"

definition sections_ok :: "uint8 list \<Rightarrow> ElfHeaderView \<Rightarrow> bool" where
  "sections_ok data header \<longleftrightarrow> hv_shnum header = 0 \<or>
    sh_table_ok data header \<and> (\<forall>i<unat (hv_shnum header). section_inside data header i) \<and>
    unat (hv_shstrndx header) < unat (hv_shnum header) \<and>
    (\<exists>names. read_section data header (hv_shstrndx header) = Some names \<and> strtab_ok data names \<and>
      (\<forall>i<unat (hv_shnum header). section_named data header names i))"

definition elf_well_formed :: "uint8 list \<Rightarrow> bool" where
  "elf_well_formed data \<longleftrightarrow>
    (\<exists>header. read_header data (of_nat (length data)) = Some (Inr header) \<and>
      programs_ok data header \<and> sections_ok data header)"

section \<open>Each check decides its part\<close>

lemma check_programs_eq:
  assumes len: "unat elf_size = length data"
  shows "check_programs data elf_size header = Some (programs_ok data header)"
proof (cases "hv_phnum header = 0")
  case True
  then show ?thesis by (simp add: check_programs_def programs_ok_def)
next
  case nz: False
  have tbl: "hv_phentsize header < of_nat (phdr_size header) \<or>
      \<not> table_is_inside (hv_phoff header) (hv_phnum header) (hv_phentsize header) elf_size \<longleftrightarrow>
      \<not> ph_table_ok data header"
    using nz by (auto simp: table_is_inside_iff table_ok_def len word_less_nat_alt struct_sizes)
  show ?thesis
  proof (cases "ph_table_ok data header")
    case False
    then show ?thesis using nz tbl by (auto simp: check_programs_def programs_ok_def Let_def phdr_size_def)
  next
    case True
    let ?P = "\<lambda>i. \<exists>p. read_program data header (of_nat i) = Some p \<and> program_ok data p"
    have "check_program data elf_size header i = Some (?P i)" if "i < unat (hv_phnum header)" for i
    proof -
      have "read_program data header (of_nat i) \<noteq> None"
        using read_program_defined [OF True, of "of_nat i"] that by (simp add: loop_index)
      then show ?thesis
        by (auto simp: check_program_def program_ok_def range_is_inside_iff len word_less_nat_alt)
    qed
    then have "check_all (check_program data elf_size header) [0..<unat (hv_phnum header)] =
        Some (\<forall>i\<in>set [0..<unat (hv_phnum header)]. ?P i)" by (intro check_all_eq) simp
    then show ?thesis using nz True tbl
      by (auto simp: check_programs_def programs_ok_def Let_def phdr_size_def)
  qed
qed

lemma string_table_is_valid_eq:
  assumes "contents_ok data sec" "length data < 2 ^ 64"
  shows "string_table_is_valid data sec = Some (strtab_ok data sec)"
proof (cases "sv_type sec = SHT_STRTAB \<and> sv_size sec \<noteq> 0")
  case False
  then show ?thesis by (auto simp: string_table_is_valid_def strtab_ok_def)
next
  case True
  then have inside: "unat (sv_offset sec) + unat (sv_size sec) \<le> length data" and pos: "0 < unat (sv_size sec)"
    using assms by (auto simp: contents_ok_def unat_gt_0)
  then have "unat (sv_offset sec + sv_size sec) = unat (sv_offset sec) + unat (sv_size sec)"
    using assms(2) by (intro unat_add_nowrap) simp
  then have "unat (sv_offset sec + sv_size sec - 1) = unat (sv_offset sec) + unat (sv_size sec) - 1"
    using pos by (subst unat_minus_one) auto
  then show ?thesis using True inside pos
    by (auto simp: string_table_is_valid_def strtab_ok_def buf_read_one)
qed

lemma read_symbol_name_eq:
  assumes "unat off + sym_size header \<le> length data"
  shows "read_symbol_name data header off = Some (field (unat off) 4 data)"
  using assms
  by (auto simp: read_symbol_name_def sym_size_def sizeof_Elf64_Sym_def sizeof_Elf32_Sym_def
      buf_read_defined Elf64_Sym_of_def Elf32_Sym_of_def field_def)

lemma symbol_offset:
  assumes "unat off + unat sz \<le> length data" "length data < 2 ^ 64" "i < unat sz div n" "n < 2 ^ 32"
  shows "unat (off + of_nat i * of_nat n :: uint64) = unat off + i * n"
    and "unat off + i * n + n \<le> length data"
proof -
  have "Suc i * n \<le> unat sz" using assms(3) by (metis Suc_leI div_times_less_eq_dividend le_trans mult_le_mono1)
  then show le: "unat off + i * n + n \<le> length data" using assms(1) by simp
  have "unat (of_nat k :: uint64) = k" if "k < 2 ^ 64" for k
    using that by (simp add: unat_of_nat take_bit_nat_eq_self)
  then have "unat (of_nat (i * n) :: uint64) = i * n" using le assms(2) by (metis add_leD1 add_leD2 le_less_trans)
  then show "unat (off + of_nat i * of_nat n :: uint64) = unat off + i * n"
    unfolding of_nat_mult [symmetric] using le assms(2) by (subst unat_add_nowrap) (simp_all del: of_nat_mult)
qed

lemma check_symbol_table_eq:
  assumes tbl: "sh_table_ok data header" and secs: "\<forall>i<unat (hv_shnum header). section_inside data header i"
    and len: "length data < 2 ^ 64"
    and sec: "unat (sv_offset sec) + unat (sv_size sec) \<le> length data"
  shows "check_symbol_table data header sec = Some (symtab_ok data header sec)"
proof (cases "sv_link sec \<ge> hv_shnum header")
  case True
  then show ?thesis
    by (auto simp: check_symbol_table_def symtab_ok_def Let_def word_le_nat_alt)
next
  case False
  then have link: "unat (sv_link sec) < unat (hv_shnum header)" by (simp add: word_le_nat_alt)
  have "of_nat (unat (sv_link sec)) = sv_link sec" by simp
  then obtain str where str: "read_section data header (sv_link sec) = Some str" "contents_ok data str"
    using secs link unfolding section_inside_def by metis
  note st = string_table_is_valid_eq [OF str(2) len]
  let ?n = "sym_size header"
  have n: "unat (of_nat ?n :: uint64) = ?n" "?n < 2 ^ 32" "0 < ?n"
    by (simp_all add: struct_sizes) (simp add: sym_size_def sizeof_Elf64_Sym_def sizeof_Elf32_Sym_def)
  have ent: "sv_entsize sec \<noteq> 0 \<and> sv_entsize sec \<noteq> of_nat ?n \<longleftrightarrow>
      \<not> (unat (sv_entsize sec) = 0 \<or> unat (sv_entsize sec) = ?n)"
    by (simp add: word_eq_iff_unsigned [where ?'a = nat] n(1))
  have cnt: "unat (sv_size sec div of_nat ?n) = unat (sv_size sec) div ?n"
    by (simp add: unat_div_distrib n(1))
  let ?P = "\<lambda>i. symbol_name_at data header (unat (sv_offset sec) + i * ?n) < unat (sv_size str)"
  have "check_all (\<lambda>i. map_option (\<lambda>name. \<not> (ucast name :: uint64) \<ge> sv_size str)
      (read_symbol_name data header (sv_offset sec + of_nat i * of_nat ?n))) [0..<unat (sv_size sec) div ?n] =
    Some (\<forall>i\<in>set [0..<unat (sv_size sec) div ?n]. ?P i)"
  proof (rule check_all_eq)
    fix i assume "i \<in> set [0..<unat (sv_size sec) div ?n]"
    then have i: "i < unat (sv_size sec) div ?n" by simp
    note so = symbol_offset [OF sec len i n(2)]
    show "map_option (\<lambda>name. \<not> (ucast name :: uint64) \<ge> sv_size str)
      (read_symbol_name data header (sv_offset sec + of_nat i * of_nat ?n)) = Some (?P i)"
      using read_symbol_name_eq [of "sv_offset sec + of_nat i * of_nat ?n" header data] so
      by (simp add: word_le_nat_alt unat_ucast_up symbol_name_at_def not_le)
  qed
  then show ?thesis using False link str st ent cnt
    by (auto simp: check_symbol_table_def symtab_ok_def Let_def sym_size_def)
qed

lemma check_section_contents_eq:
  assumes "sh_table_ok data header" "i < unat (hv_shnum header)" "unat elf_size = length data"
  shows "check_section_contents data elf_size header i = Some (section_inside data header i)"
proof -
  have "read_section data header (of_nat i) \<noteq> None"
    using read_section_defined [OF assms(1), of "of_nat i"] assms(2) by (simp add: loop_index)
  then show ?thesis
    by (auto simp: check_section_contents_def section_inside_def contents_ok_def range_is_inside_iff assms(3))
qed

lemma check_section_name_eq:
  assumes tbl: "sh_table_ok data header" and secs: "\<forall>i<unat (hv_shnum header). section_inside data header i"
    and len: "length data < 2 ^ 64" and i: "i < unat (hv_shnum header)"
  shows "check_section_name data header names i = Some (section_named data header names i)"
proof -
  obtain sec where sec: "read_section data header (of_nat i) = Some sec" "contents_ok data sec"
    using secs i unfolding section_inside_def by blast
  have "check_symbol_table data header sec = Some (symtab_ok data header sec)" if "sv_type sec = SHT_SYMTAB"
    using sec(2) that by (intro check_symbol_table_eq [OF tbl secs len]) (simp add: contents_ok_def)
  then show ?thesis using sec(1)
    by (auto simp: check_section_name_def section_named_def word_le_nat_alt unat_ucast_up)
qed

lemma check_sections_eq:
  assumes elf: "unat elf_size = length data"
  shows "check_sections data elf_size header = Some (sections_ok data header)"
proof (cases "hv_shnum header = 0")
  case True
  then show ?thesis by (simp add: check_sections_def sections_ok_def)
next
  case nz: False
  have len: "length data < 2 ^ 64" using elf unsigned_less [of elf_size, where ?'a = nat] by simp
  have tbl: "hv_shentsize header < of_nat (shdr_size header) \<or>
      \<not> table_is_inside (hv_shoff header) (hv_shnum header) (hv_shentsize header) elf_size \<longleftrightarrow>
      \<not> sh_table_ok data header"
    using nz by (auto simp: table_is_inside_iff table_ok_def elf word_less_nat_alt struct_sizes)
  show ?thesis
  proof (cases "sh_table_ok data header")
    case False
    then show ?thesis using nz tbl by (auto simp: check_sections_def sections_ok_def Let_def shdr_size_def)
  next
    case ok: True
    let ?inside = "\<forall>i<unat (hv_shnum header). section_inside data header i"
    have "check_all (check_section_contents data elf_size header) [0..<unat (hv_shnum header)] =
        Some (\<forall>i\<in>set [0..<unat (hv_shnum header)]. section_inside data header i)"
      by (intro check_all_eq check_section_contents_eq [OF ok _ elf]) simp
    then have first: "check_sections data elf_size header =
        (if \<not> ?inside \<or> hv_shstrndx header \<ge> hv_shnum header then Some False
         else do {
           names \<leftarrow> read_section data header (hv_shstrndx header);
           ok' \<leftarrow> string_table_is_valid data names;
           if \<not> ok' then Some False
           else check_all (check_section_name data header names) [0..<unat (hv_shnum header)]
         })"
      using nz ok tbl by (auto simp: check_sections_def Let_def shdr_size_def)
    show ?thesis
    proof (cases "?inside \<and> \<not> hv_shstrndx header \<ge> hv_shnum header")
      case False
      then show ?thesis using nz ok unfolding first by (auto simp: sections_ok_def word_le_nat_alt)
    next
      case True
      then have idx: "unat (hv_shstrndx header) < unat (hv_shnum header)" by (simp add: word_le_nat_alt)
      have "of_nat (unat (hv_shstrndx header)) = hv_shstrndx header" by simp
      then obtain names where names: "read_section data header (hv_shstrndx header) = Some names"
        "contents_ok data names"
        using True idx unfolding section_inside_def by metis
      have "check_all (check_section_name data header names) [0..<unat (hv_shnum header)] =
          Some (\<forall>i\<in>set [0..<unat (hv_shnum header)]. section_named data header names i)"
        using True by (intro check_all_eq check_section_name_eq [OF ok _ len]) simp_all
      then show ?thesis
        using True nz ok names idx string_table_is_valid_eq [OF names(2) len] unfolding first
        by (auto simp: sections_ok_def)
    qed
  qed
qed

lemma read_header_defined:
  assumes "unat elf_size = length data"
  shows "read_header data elf_size \<noteq> None"
  using assms
  by (auto simp: read_header_def word_less_nat_alt sizeof_Elf32_Ehdr_def sizeof_Elf64_Ehdr_def buf_read_def Let_def)

lemma elf_image_check_eq:
  assumes "length data < 2 ^ 64"
  shows "elf_image_check data (of_nat (length data)) =
    Some (if elf_well_formed data then STD_E_OK else STD_E_INVALID)"
proof -
  let ?size = "of_nat (length data) :: uint64"
  have sz: "unat ?size = length data" using assms by (simp add: unat_of_nat take_bit_nat_eq_self)
  obtain r where r: "read_header data ?size = Some r" using read_header_defined [OF sz] by blast
  show ?thesis
    using check_programs_eq [OF sz] check_sections_eq [OF sz] r
    by (cases r) (auto simp: elf_image_check_def elf_well_formed_def)
qed

text \<open>
  C11: the ELF image check. For an image of any size below 2\^64 bytes, given with its true size,
  \<open>elf_image_check\<close> never reads outside the image and returns \<open>STD_E_OK\<close> exactly
  when the image is well formed: the header, both tables, the file part of every PT_LOAD, the
  contents of every section, all string tables (which end with NUL), all section names and all
  symbol names lie inside the file; otherwise it returns \<open>STD_E_INVALID\<close>.
\<close>

theorem elf_image_check_correct:
  assumes "length data < 2 ^ 64"
  shows "elf_image_check data (of_nat (length data)) =
    Some (if elf_well_formed data then STD_E_OK else STD_E_INVALID)"
  using assms by (rule elf_image_check_eq)

text \<open>A minimal file: an ELF32 header without tables.\<close>

definition example_elf :: "uint8 list" where
  "example_elf = [0x7F, 0x45, 0x4C, 0x46, 1, 1, 1] @ replicate 45 0"

theorem elf_image_check_correct_witness:
  "elf_image_check example_elf 52 = Some STD_E_OK \<and> elf_well_formed example_elf"
proof -
  have "elf_image_check example_elf (of_nat (length example_elf)) = Some STD_E_OK" by code_simp
  moreover have "length example_elf = 52" by (simp add: example_elf_def)
  ultimately show ?thesis using elf_image_check_correct [of example_elf] by (auto split: if_splits)
qed

end
