(* ===== verification/SymbolOps.thy ===== *)
theory SymbolOps
  imports Prelude
begin

text \<open>
  The symbol tables of the debugger, src/src/lib/symbol_ops.c: functions and global variables with
  their address ranges, the sorted range index and the lookups with a remembered last result.
  The static variables of the lookups (\<open>last_funcid\<close>, \<open>last_glid\<close>) are fields of the
  state. Ids are table indices; a lookup returns -1 when nothing is found. Allocation of the
  tables is not modelled: they are lists that grow at the end. The end of a range is
  \<open>addr + size\<close> at 32 bits, as in the source.
\<close>

section \<open>Tables\<close>

record DbgSymbolType =
  ds_name :: string
  ds_addr :: AthrillAddrType
  ds_size :: uint32
  ds_enter_sp :: "uint32 list"

record SymbolRangeIndex =
  si_built_count :: nat
  si_order :: "nat list"
  si_max_end :: "AthrillAddrType list"

record symbol_state =
  sy_func :: "DbgSymbolType list"
  sy_gl :: "DbgSymbolType list"
  sy_func_index :: SymbolRangeIndex
  sy_gl_index :: SymbolRangeIndex
  sy_last_funcid :: int
  sy_last_glid :: int

definition symbol_get_func_num :: "symbol_state \<Rightarrow> nat" where
  "symbol_get_func_num st = length (sy_func st)"

definition symbol_get_gl_num :: "symbol_state \<Rightarrow> nat" where
  "symbol_get_gl_num st = length (sy_gl st)"

definition symbol_gl_add :: "DbgSymbolType \<Rightarrow> symbol_state \<Rightarrow> symbol_state" where
  "symbol_gl_add dsym st = st\<lparr>sy_gl := sy_gl st @ [dsym]\<rparr>"

definition symbol_func_add :: "DbgSymbolType \<Rightarrow> symbol_state \<Rightarrow> symbol_state" where
  "symbol_func_add dsym st = st\<lparr>sy_func := sy_func st @ [dsym]\<rparr>"

section \<open>The range index\<close>

definition symbol_compare_start :: "DbgSymbolType list \<Rightarrow> nat \<Rightarrow> nat \<Rightarrow> int" where
  "symbol_compare_start table a b =
    (if ds_addr (table ! a) \<noteq> ds_addr (table ! b)
     then (if ds_addr (table ! a) < ds_addr (table ! b) then -1 else 1)
     else if a < b then -1 else if a > b then 1 else 0)"

text \<open>\<open>qsort\<close>: the elements in an order the comparison function allows.\<close>

fun qsort_insert :: "('a \<Rightarrow> 'a \<Rightarrow> int) \<Rightarrow> 'a \<Rightarrow> 'a list \<Rightarrow> 'a list" where
  "qsort_insert cmp x [] = [x]"
| "qsort_insert cmp x (y # ys) = (if cmp x y \<le> 0 then x # y # ys else y # qsort_insert cmp x ys)"

fun qsort_by :: "('a \<Rightarrow> 'a \<Rightarrow> int) \<Rightarrow> 'a list \<Rightarrow> 'a list" where
  "qsort_by cmp [] = []"
| "qsort_by cmp (x # xs) = qsort_insert cmp x (qsort_by cmp xs)"

definition symbol_end :: "DbgSymbolType \<Rightarrow> AthrillAddrType" where
  "symbol_end dsym = ds_addr dsym + ds_size dsym"

text \<open>The loop that fills \<open>max_end\<close>, from the running maximum so far.\<close>

fun running_max_end :: "DbgSymbolType list \<Rightarrow> AthrillAddrType \<Rightarrow> nat list \<Rightarrow> AthrillAddrType list" where
  "running_max_end table max_end [] = []"
| "running_max_end table max_end (k # ks) =
    (let e = symbol_end (table ! k); m = (if e > max_end then e else max_end)
     in m # running_max_end table m ks)"

definition symbol_index_build :: "DbgSymbolType list \<Rightarrow> SymbolRangeIndex" where
  "symbol_index_build table =
    (let order = qsort_by (symbol_compare_start table) [0..<length table]
     in \<lparr>si_built_count = length table, si_order = order, si_max_end = running_max_end table 0 order\<rparr>)"

function symbol_search_low :: "DbgSymbolType list \<Rightarrow> nat list \<Rightarrow> AthrillAddrType \<Rightarrow> nat \<Rightarrow> nat \<Rightarrow> nat" where
  "symbol_search_low table order addr low high =
    (if low < high
     then let middle = low + (high - low) div 2
          in if ds_addr (table ! (order ! middle)) \<le> addr
             then symbol_search_low table order addr (middle + 1) high
             else symbol_search_low table order addr low middle
     else low)"
  by pat_completeness auto
termination
  by (relation "measure (\<lambda>(table, order, addr, low, high). high - low)") auto

declare symbol_search_low.simps [simp del]

text \<open>The backward scan from \<open>k\<close>, with the id found so far.\<close>

fun symbol_scan_back :: "DbgSymbolType list \<Rightarrow> SymbolRangeIndex \<Rightarrow> AthrillAddrType \<Rightarrow> nat \<Rightarrow> int \<Rightarrow> int" where
  "symbol_scan_back table index addr 0 found = found"
| "symbol_scan_back table index addr (Suc k) found =
    (if si_max_end index ! k \<le> addr then found
     else let id = si_order index ! k
          in symbol_scan_back table index addr k
               (if addr < symbol_end (table ! id) \<and> (found < 0 \<or> int id < found) then int id else found))"

definition symbol_index_find ::
  "SymbolRangeIndex \<Rightarrow> DbgSymbolType list \<Rightarrow> AthrillAddrType \<Rightarrow> int \<times> SymbolRangeIndex" where
  "symbol_index_find index table addr =
    (let index' = (if si_built_count index \<noteq> length table then symbol_index_build table else index);
         low = symbol_search_low table (si_order index') addr 0 (length table)
     in (symbol_scan_back table index' addr low (-1), index'))"

section \<open>Lookups\<close>

text \<open>
  The common body of \<open>symbol_pc2funcid\<close> and \<open>symbol_addr2glid\<close>: the id, the start
  address that is stored through the pointer (if it is stored), the new last result and the index.
\<close>

definition range_lookup ::
  "DbgSymbolType list \<Rightarrow> SymbolRangeIndex \<Rightarrow> int \<Rightarrow> AthrillAddrType
    \<Rightarrow> int \<times> AthrillAddrType option \<times> int \<times> SymbolRangeIndex" where
  "range_lookup table index lst addr =
    (if lst \<ge> 0 \<and> addr \<ge> ds_addr (table ! nat lst) \<and> addr < symbol_end (table ! nat lst)
     then (lst, Some (ds_addr (table ! nat lst)), lst, index)
     else let (found, index') = symbol_index_find index table addr
          in if found \<ge> 0 then (found, Some (ds_addr (table ! nat found)), found, index')
             else (found, None, lst, index'))"

definition symbol_pc2funcid :: "AthrillAddrType \<Rightarrow> symbol_state \<Rightarrow> int \<times> AthrillAddrType option \<times> symbol_state" where
  "symbol_pc2funcid pc st =
    (let (found, funcaddr, lst, index) = range_lookup (sy_func st) (sy_func_index st) (sy_last_funcid st) pc
     in (found, funcaddr, st\<lparr>sy_last_funcid := lst, sy_func_index := index\<rparr>))"

definition symbol_addr2glid :: "AthrillAddrType \<Rightarrow> symbol_state \<Rightarrow> int \<times> AthrillAddrType option \<times> symbol_state" where
  "symbol_addr2glid addr st =
    (let (found, gladdr, lst, index) = range_lookup (sy_gl st) (sy_gl_index st) (sy_last_glid st) addr
     in (found, gladdr, st\<lparr>sy_last_glid := lst, sy_gl_index := index\<rparr>))"

text \<open>
  Lookups by name: the given name has at least \<open>len\<close> characters and is compared with
  \<open>strncmp\<close>.
\<close>

definition symbol_by_name :: "DbgSymbolType list \<Rightarrow> string \<Rightarrow> nat \<Rightarrow> nat option" where
  "symbol_by_name table name len = find_first (\<lambda>dsym. len = length (ds_name dsym) \<and> take len name = ds_name dsym) table"

definition symbol_get_func :: "string \<Rightarrow> nat \<Rightarrow> symbol_state \<Rightarrow> (AthrillAddrType \<times> uint32) option" where
  "symbol_get_func funcname func_len st =
    map_option (\<lambda>i. (ds_addr (sy_func st ! i), ds_size (sy_func st ! i))) (symbol_by_name (sy_func st) funcname func_len)"

definition symbol_get_gl :: "string \<Rightarrow> nat \<Rightarrow> symbol_state \<Rightarrow> (nat \<times> AthrillAddrType \<times> uint32) option" where
  "symbol_get_gl gl_name gl_len st =
    map_option (\<lambda>i. (i, ds_addr (sy_gl st ! i), ds_size (sy_gl st ! i))) (symbol_by_name (sy_gl st) gl_name gl_len)"

definition symbol_contains :: "AthrillAddrType \<Rightarrow> DbgSymbolType \<Rightarrow> bool" where
  "symbol_contains addr dsym \<longleftrightarrow> \<not> addr < ds_addr dsym \<and> \<not> addr \<ge> symbol_end dsym"

definition symbol_pc2func :: "AthrillAddrType \<Rightarrow> symbol_state \<Rightarrow> string option" where
  "symbol_pc2func pc st = map_option (\<lambda>i. ds_name (sy_func st ! i)) (find_first (symbol_contains pc) (sy_func st))"

definition symbol_set_pc :: "nat \<Rightarrow> nat \<Rightarrow> uint32 \<Rightarrow> symbol_state \<Rightarrow> symbol_state option" where
  "symbol_set_pc funcid core_id sp st =
    (if funcid < length (sy_func st) \<and> core_id < length (ds_enter_sp (sy_func st ! funcid))
     then Some (st\<lparr>sy_func := (sy_func st)[funcid := (sy_func st ! funcid)
            \<lparr>ds_enter_sp := (ds_enter_sp (sy_func st ! funcid))[core_id := sp]\<rparr>]\<rparr>)
     else None)"

definition symbol_get_entered_sp :: "nat \<Rightarrow> nat \<Rightarrow> symbol_state \<Rightarrow> uint32 option" where
  "symbol_get_entered_sp funcid core_id st =
    (if funcid < length (sy_func st) \<and> core_id < length (ds_enter_sp (sy_func st ! funcid))
     then Some (ds_enter_sp (sy_func st ! funcid) ! core_id) else None)"

text \<open>Accessors by id; an id outside the table is \<open>None\<close>.\<close>

definition table_at :: "'a list \<Rightarrow> int \<Rightarrow> 'a option" where
  "table_at xs i = (if 0 \<le> i \<and> nat i < length xs then Some (xs ! nat i) else None)"

definition symbol_funcid2funcname :: "int \<Rightarrow> symbol_state \<Rightarrow> string option" where
  "symbol_funcid2funcname i st = (if i < 0 then Some ''unknown'' else map_option ds_name (table_at (sy_func st) i))"

definition symbol_funcid2funcaddr :: "int \<Rightarrow> symbol_state \<Rightarrow> AthrillAddrType option" where
  "symbol_funcid2funcaddr i st = map_option ds_addr (table_at (sy_func st) i)"

definition symbol_funcid2funcsize :: "int \<Rightarrow> symbol_state \<Rightarrow> uint32 option" where
  "symbol_funcid2funcsize i st = map_option ds_size (table_at (sy_func st) i)"

definition symbol_glid2glname :: "int \<Rightarrow> symbol_state \<Rightarrow> string option" where
  "symbol_glid2glname i st = map_option ds_name (table_at (sy_gl st) i)"

definition symbol_glid2gladdr :: "int \<Rightarrow> symbol_state \<Rightarrow> AthrillAddrType option" where
  "symbol_glid2gladdr i st = map_option ds_addr (table_at (sy_gl st) i)"

text \<open>The candidates that \<open>symbol_print_gl\<close> and \<open>symbol_print_func\<close> print, in order.\<close>

fun print_candidates :: "DbgSymbolType list \<Rightarrow> string \<Rightarrow> nat \<Rightarrow> string list" where
  "print_candidates [] name show_num = []"
| "print_candidates (dsym # dsyms) name show_num =
    (if length (ds_name dsym) < length name then print_candidates dsyms name show_num
     else if take (length name) (ds_name dsym) \<noteq> name then print_candidates dsyms name show_num
     else if show_num > 0 then ds_name dsym # print_candidates dsyms name (show_num - 1)
     else [])"

definition symbol_print_gl :: "string \<Rightarrow> nat \<Rightarrow> symbol_state \<Rightarrow> string list" where
  "symbol_print_gl gl_name show_num st = print_candidates (sy_gl st) gl_name show_num"

definition symbol_print_func :: "string \<Rightarrow> nat \<Rightarrow> symbol_state \<Rightarrow> string list" where
  "symbol_print_func gl_name show_num st = print_candidates (sy_func st) gl_name show_num"

end
