(* ===== verification/SymbolLaws.thy ===== *)
theory SymbolLaws
  imports SymbolOps
begin

text \<open>
  Correctness of the symbol lookups of \<open>SymbolOps\<close>: the index search returns the lowest
  id whose range contains the address, for any table (overlapping, nested, empty or wrapping
  ranges included), and the lookups with a remembered result satisfy the specification that the
  comment of symbol_ops.c and test/symbol_lookup_test.c state.
\<close>

section \<open>Sorting\<close>

lemma set_qsort_insert [simp]: "set (qsort_insert cmp x ys) = insert x (set ys)"
  by (induction ys) auto

lemma set_qsort_by [simp]: "set (qsort_by cmp xs) = set xs"
  by (induction xs) auto

lemma length_qsort_insert [simp]: "length (qsort_insert cmp x ys) = Suc (length ys)"
  by (induction ys) auto

lemma length_qsort_by [simp]: "length (qsort_by cmp xs) = length xs"
  by (induction xs) auto

text \<open>A comparison function that orders its arguments by a key sorts by that key.\<close>

lemma sorted_qsort_insert:
  assumes key: "\<And>x y. cmp x y \<le> 0 \<Longrightarrow> f x \<le> (f y :: 'k::linorder)" "\<And>x y. \<not> cmp x y \<le> 0 \<Longrightarrow> f y \<le> f x"
    and "sorted (map f ys)"
  shows "sorted (map f (qsort_insert cmp x ys))"
  using assms(3) by (induction ys) (auto dest: key intro: order_trans)

lemma sorted_qsort_by:
  assumes "\<And>x y. cmp x y \<le> 0 \<Longrightarrow> f x \<le> (f y :: 'k::linorder)" "\<And>x y. \<not> cmp x y \<le> 0 \<Longrightarrow> f y \<le> f x"
  shows "sorted (map f (qsort_by cmp xs))"
  by (induction xs) (auto intro: sorted_qsort_insert [where cmp = cmp and f = f] assms)

section \<open>The index\<close>

definition index_ok :: "DbgSymbolType list \<Rightarrow> SymbolRangeIndex \<Rightarrow> bool" where
  "index_ok table index \<longleftrightarrow>
    length (si_order index) = length table \<and> length (si_max_end index) = length table \<and>
    set (si_order index) = {..<length table} \<and>
    sorted (map (\<lambda>k. ds_addr (table ! k)) (si_order index)) \<and>
    (\<forall>k<length table. \<forall>j\<le>k. symbol_end (table ! (si_order index ! j)) \<le> si_max_end index ! k)"

lemma length_running_max_end [simp]: "length (running_max_end table m ks) = length ks"
  by (induction ks arbitrary: m) (simp_all add: Let_def)

lemma running_max_end_bound:
  "k < length ks \<Longrightarrow> m \<le> running_max_end table m ks ! k \<and>
    (\<forall>j\<le>k. symbol_end (table ! (ks ! j)) \<le> running_max_end table m ks ! k)"
proof (induction ks arbitrary: m k)
  case Nil
  then show ?case by simp
next
  case (Cons x ks)
  let ?m = "if symbol_end (table ! x) > m then symbol_end (table ! x) else m"
  have m: "m \<le> ?m" "symbol_end (table ! x) \<le> ?m" by auto
  have eq: "running_max_end table m (x # ks) = ?m # running_max_end table ?m ks" by (simp add: Let_def)
  show ?case
  proof (cases k)
    case 0
    then show ?thesis using m unfolding eq by simp
  next
    case (Suc k')
    then have k': "k' < length ks" using Cons.prems by simp
    note ih = Cons.IH [OF k', of ?m]
    have "symbol_end (table ! ((x # ks) ! j)) \<le> running_max_end table ?m ks ! k'" if "j \<le> k" for j
      using that ih m(2) Suc by (cases j) (auto intro: order_trans)
    then show ?thesis using ih m(1) Suc unfolding eq by (auto intro: order_trans)
  qed
qed

lemma index_build_ok: "index_ok table (symbol_index_build table)"
proof -
  let ?order = "qsort_by (symbol_compare_start table) [0..<length table]"
  have "sorted (map (\<lambda>k. ds_addr (table ! k)) ?order)"
    by (rule sorted_qsort_by) (auto simp: symbol_compare_start_def split: if_splits)
  then show ?thesis using running_max_end_bound [of _ ?order 0 table]
    by (auto simp: index_ok_def symbol_index_build_def Let_def atLeast0LessThan)
qed

section \<open>Binary search\<close>

lemma search_low_bound:
  assumes "sorted (map (\<lambda>k. ds_addr (table ! k)) order)" "high \<le> length order" "low \<le> high"
    "\<forall>j<low. ds_addr (table ! (order ! j)) \<le> addr"
    "\<forall>j. high \<le> j \<and> j < length order \<longrightarrow> \<not> ds_addr (table ! (order ! j)) \<le> addr"
  shows "symbol_search_low table order addr low high \<le> length order \<and>
    (\<forall>j. j < symbol_search_low table order addr low high \<longrightarrow> ds_addr (table ! (order ! j)) \<le> addr) \<and>
    (\<forall>j. symbol_search_low table order addr low high \<le> j \<and> j < length order \<longrightarrow>
      \<not> ds_addr (table ! (order ! j)) \<le> addr)"
  using assms
proof (induction table order addr low high rule: symbol_search_low.induct)
  case (1 table order addr low high)
  show ?case
  proof (cases "low < high")
    case False
    then have eq: "symbol_search_low table order addr low high = low" by (subst symbol_search_low.simps) simp
    show ?thesis unfolding eq using 1(3-) False by auto
  next
    case True
    let ?mid = "low + (high - low) div 2"
    have mid: "low \<le> ?mid" "?mid < high" using True by auto
    have mono: "ds_addr (table ! (order ! i)) \<le> ds_addr (table ! (order ! j))" if "i \<le> j" "j < length order" for i j
      using sorted_nth_mono [OF 1(3) that(1)] that by simp
    show ?thesis
    proof (cases "ds_addr (table ! (order ! ?mid)) \<le> addr")
      case ok: True
      have low: "\<forall>j<?mid + 1. ds_addr (table ! (order ! j)) \<le> addr"
      proof (intro allI impI)
        fix j assume "j < ?mid + 1"
        then have "ds_addr (table ! (order ! j)) \<le> ds_addr (table ! (order ! ?mid))"
          using mid(2) 1(4) by (intro mono) linarith+
        with ok show "ds_addr (table ! (order ! j)) \<le> addr" by (rule order_trans [rotated])
      qed
      have eq: "symbol_search_low table order addr low high = symbol_search_low table order addr (?mid + 1) high"
        using True ok by (subst symbol_search_low.simps) (simp add: Let_def)
      have le: "?mid + 1 \<le> high" using mid(2) by simp
      show ?thesis unfolding eq by (rule 1(1) [OF True refl ok 1(3,4) le low 1(7)])
    next
      case no: False
      have "\<not> ds_addr (table ! (order ! j)) \<le> addr" if "?mid \<le> j" "j < length order" for j
        using mono [OF that] no by (meson order_trans)
      then have up: "\<forall>j. ?mid \<le> j \<and> j < length order \<longrightarrow> \<not> ds_addr (table ! (order ! j)) \<le> addr" by blast
      have eq: "symbol_search_low table order addr low high = symbol_search_low table order addr low ?mid"
        using True no by (subst symbol_search_low.simps) (simp add: Let_def)
      have le: "?mid \<le> length order" using mid(2) 1(4) by linarith
      show ?thesis unfolding eq by (rule 1(2) [OF True refl no 1(3) le mid(1) 1(6) up])
    qed
  qed
qed

section \<open>The backward scan\<close>

text \<open>The ids at positions below \<open>k\<close> whose range ends after the address.\<close>

definition candidates :: "DbgSymbolType list \<Rightarrow> SymbolRangeIndex \<Rightarrow> AthrillAddrType \<Rightarrow> nat \<Rightarrow> nat set" where
  "candidates table index addr k = {si_order index ! j |j. j < k \<and> addr < symbol_end (table ! (si_order index ! j))}"

definition lowest :: "int \<Rightarrow> nat set \<Rightarrow> int" where
  "lowest found ids = (if found < 0 then (if ids = {} then found else int (Min ids))
    else if ids = {} then found else min found (int (Min ids)))"

lemma candidates_Suc:
  "candidates table index addr (Suc k) =
    (if addr < symbol_end (table ! (si_order index ! k)) then insert (si_order index ! k) (candidates table index addr k)
     else candidates table index addr k)"
  by (auto simp: candidates_def less_Suc_eq)

lemma finite_candidates [simp]: "finite (candidates table index addr k)"
  by (simp add: candidates_def)

lemma lowest_insert:
  assumes "finite ids"
  shows "lowest found (insert n ids) = lowest (if found < 0 \<or> int n < found then int n else found) ids"
proof (cases "ids = {}")
  case False
  with assms have "Min (insert n ids) = min n (Min ids)" by simp
  then show ?thesis using False by (simp add: lowest_def min_def del: Min_insert)
qed (simp add: lowest_def)

lemma scan_back_lowest:
  assumes "index_ok table index" "k \<le> length table"
  shows "symbol_scan_back table index addr k found = lowest found (candidates table index addr k)"
  using assms(2)
proof (induction k arbitrary: found)
  case 0
  then show ?case by (simp add: lowest_def candidates_def)
next
  case (Suc k)
  show ?case
  proof (cases "si_max_end index ! k \<le> addr")
    case True
    have "symbol_end (table ! (si_order index ! j)) \<le> addr" if "j < Suc k" for j
      using assms(1) Suc.prems that True unfolding index_ok_def by (meson Suc_le_lessD less_Suc_eq_le order_trans)
    then have "candidates table index addr (Suc k) = {}" by (force simp: candidates_def)
    then show ?thesis using True by (simp add: lowest_def)
  next
    case False
    then show ?thesis using Suc
      by (auto simp: Let_def candidates_Suc lowest_insert)
  qed
qed

section \<open>The search\<close>

definition lowest_containing :: "DbgSymbolType list \<Rightarrow> AthrillAddrType \<Rightarrow> int" where
  "lowest_containing table addr =
    (case find_first (symbol_contains addr) table of Some i \<Rightarrow> int i | None \<Rightarrow> -1)"

lemma lowest_containing_eq:
  "lowest_containing table addr = lowest (-1) {i. i < length table \<and> symbol_contains addr (table ! i)}"
proof (cases "find_first (symbol_contains addr) table")
  case None
  then have "\<forall>x\<in>set table. \<not> symbol_contains addr x" by (simp add: find_first_None_iff)
  then have "{i. i < length table \<and> symbol_contains addr (table ! i)} = {}" by auto
  with None show ?thesis by (simp add: lowest_containing_def lowest_def)
next
  case (Some i)
  then have i: "i < length table" "symbol_contains addr (table ! i)" "\<forall>j<i. \<not> symbol_contains addr (table ! j)"
    by (simp_all add: find_first_Some_iff)
  then have "Min {i. i < length table \<and> symbol_contains addr (table ! i)} = i"
    by (intro Min_eqI) (auto simp: not_less [symmetric])
  with Some i show ?thesis by (auto simp: lowest_containing_def lowest_def)
qed

definition index_inv :: "DbgSymbolType list \<Rightarrow> SymbolRangeIndex \<Rightarrow> bool" where
  "index_inv table index \<longleftrightarrow> si_built_count index \<le> length table \<and>
    (si_built_count index = length table \<longrightarrow> index_ok table index)"

lemma symbol_index_find_correct:
  assumes "index_inv table index"
  obtains index' where "symbol_index_find index table addr = (lowest_containing table addr, index')"
    "index_inv table index'"
proof -
  define index' where "index' = (if si_built_count index \<noteq> length table then symbol_index_build table else index)"
  have ok: "index_ok table index'" using assms index_build_ok by (simp add: index'_def index_inv_def)
  define low where "low = symbol_search_low table (si_order index') addr 0 (length table)"
  have len: "length (si_order index') = length table" and srt: "sorted (map (\<lambda>k. ds_addr (table ! k)) (si_order index'))"
    and ids: "set (si_order index') = {..<length table}"
    using ok by (simp_all add: index_ok_def)
  have "low \<le> length table \<and> (\<forall>j. j < low \<longrightarrow> ds_addr (table ! (si_order index' ! j)) \<le> addr) \<and>
      (\<forall>j. low \<le> j \<and> j < length table \<longrightarrow> \<not> ds_addr (table ! (si_order index' ! j)) \<le> addr)"
    unfolding low_def len [symmetric] by (rule search_low_bound [OF srt]) auto
  then have low: "low \<le> length table"
    and side: "\<And>j. j < length table \<Longrightarrow> j < low \<longleftrightarrow> ds_addr (table ! (si_order index' ! j)) \<le> addr"
    by (blast, metis not_less)
  have "candidates table index' addr low = {i. i < length table \<and> symbol_contains addr (table ! i)}"
  proof (rule set_eqI)
    fix i
    have "i \<in> candidates table index' addr low \<longleftrightarrow>
        (\<exists>j<length table. i = si_order index' ! j \<and> j < low \<and> addr < symbol_end (table ! i))"
      using low unfolding candidates_def mem_Collect_eq by (metis less_le_trans)
    also have "\<dots> \<longleftrightarrow>
        (\<exists>j<length table. i = si_order index' ! j \<and> symbol_contains addr (table ! i))"
      by (auto simp: side symbol_contains_def not_less)
    also have "\<dots> \<longleftrightarrow> i \<in> set (si_order index') \<and> symbol_contains addr (table ! i)"
      using len by (auto simp: in_set_conv_nth)
    finally show "i \<in> candidates table index' addr low \<longleftrightarrow> i \<in> {i. i < length table \<and> symbol_contains addr (table ! i)}"
      by (simp add: ids)
  qed
  then have "symbol_scan_back table index' addr low (-1) = lowest_containing table addr"
    using scan_back_lowest [OF ok, of low] low by (simp add: lowest_containing_eq)
  moreover have "index_inv table index'"
    using assms ok by (auto simp: index_inv_def index'_def symbol_index_build_def Let_def)
  ultimately show thesis using that [of index']
    by (simp add: symbol_index_find_def Let_def index'_def [symmetric] low_def [symmetric])
qed

section \<open>The lookups\<close>

definition specified_lookup :: "DbgSymbolType list \<Rightarrow> int \<Rightarrow> AthrillAddrType \<Rightarrow> int" where
  "specified_lookup table lst addr =
    (if lst \<ge> 0 \<and> symbol_contains addr (table ! nat lst) then lst else lowest_containing table addr)"

lemma lowest_containing_nonneg:
  assumes "lowest_containing table addr \<ge> 0"
  shows "nat (lowest_containing table addr) < length table"
    and "symbol_contains addr (table ! nat (lowest_containing table addr))"
  using assms find_first_Some_bound [of "symbol_contains addr" table]
    find_first_Some_prop [of "symbol_contains addr" table]
  by (auto simp: lowest_containing_def split: option.splits)

lemma range_lookup_correct:
  assumes inv: "index_inv table index"
  obtains index' where "range_lookup table index lst addr =
      (let i = specified_lookup table lst addr
       in (i, if i \<ge> 0 then Some (ds_addr (table ! nat i)) else None, if i \<ge> 0 then i else lst, index'))"
    "index_inv table index'"
proof (cases "lst \<ge> 0 \<and> symbol_contains addr (table ! nat lst)")
  case True
  with inv that [of index] show thesis
    by (simp add: range_lookup_def specified_lookup_def symbol_contains_def not_less)
next
  case False
  then have no: "\<not> (lst \<ge> 0 \<and> addr \<ge> ds_addr (table ! nat lst) \<and> addr < symbol_end (table ! nat lst))"
    by (auto simp: symbol_contains_def)
  from symbol_index_find_correct [OF inv] obtain index' where
    f: "symbol_index_find index table addr = (lowest_containing table addr, index')" "index_inv table index'" .
  show thesis
    by (rule that [OF _ f(2)])
      (simp add: range_lookup_def specified_lookup_def if_not_P [OF no] if_not_P [OF False] f(1) Let_def)
qed

definition symbols_inv :: "symbol_state \<Rightarrow> bool" where
  "symbols_inv st \<longleftrightarrow> index_inv (sy_func st) (sy_func_index st) \<and> index_inv (sy_gl st) (sy_gl_index st) \<and>
    sy_last_funcid st < int (length (sy_func st)) \<and> sy_last_glid st < int (length (sy_gl st))"

lemma symbol_add_inv:
  assumes "symbols_inv st"
  shows "symbols_inv (symbol_gl_add dsym st)" "symbols_inv (symbol_func_add dsym st)"
  using assms by (auto simp: symbols_inv_def index_inv_def symbol_gl_add_def symbol_func_add_def)

text \<open>The result a lookup of either kind must have.\<close>

definition lookup_spec ::
  "DbgSymbolType list \<Rightarrow> int \<Rightarrow> AthrillAddrType \<Rightarrow> int \<Rightarrow> AthrillAddrType option \<Rightarrow> int \<Rightarrow> bool" where
  "lookup_spec table lst addr i start lst' \<longleftrightarrow>
    i = specified_lookup table lst addr \<and>
    (if i < 0 then start = None \<and> lst' = lst \<and> (\<forall>dsym\<in>set table. \<not> symbol_contains addr dsym)
     else nat i < length table \<and> symbol_contains addr (table ! nat i) \<and>
       start = Some (ds_addr (table ! nat i)) \<and> lst' = i)"

lemma range_lookup_spec:
  assumes inv: "index_inv table index" and lst: "lst < int (length table)"
  obtains i start lst' index' where "range_lookup table index lst addr = (i, start, lst', index')"
    "lookup_spec table lst addr i start lst'" "index_inv table index'" "lst' < int (length table)"
proof -
  let ?i = "specified_lookup table lst addr"
  from range_lookup_correct [OF inv] obtain index' where
    r: "range_lookup table index lst addr =
      (?i, if ?i \<ge> 0 then Some (ds_addr (table ! nat ?i)) else None, if ?i \<ge> 0 then ?i else lst, index')"
    and inv': "index_inv table index'" by (metis (no_types, lifting))
  have hit: "nat ?i < length table" "symbol_contains addr (table ! nat ?i)" if "?i \<ge> 0"
    using that lst lowest_containing_nonneg [of table addr] by (auto simp: specified_lookup_def split: if_splits)
  have miss: "\<forall>dsym\<in>set table. \<not> symbol_contains addr dsym" if "?i < 0"
    using that find_first_None_iff [of "symbol_contains addr" table]
    by (auto simp: specified_lookup_def lowest_containing_def split: if_splits option.splits)
  show thesis
    by (rule that [OF r _ inv']; cases "?i \<ge> 0") (use hit miss lst in \<open>auto simp: lookup_spec_def\<close>)
qed

lemma symbol_lookup_main:
  assumes "symbols_inv st"
  shows "(case symbol_pc2funcid addr st of (i, start, st') \<Rightarrow>
      lookup_spec (sy_func st) (sy_last_funcid st) addr i start (sy_last_funcid st') \<and>
      symbols_inv st' \<and> sy_func st' = sy_func st \<and> sy_gl st' = sy_gl st) \<and>
    (case symbol_addr2glid addr st of (i, start, st') \<Rightarrow>
      lookup_spec (sy_gl st) (sy_last_glid st) addr i start (sy_last_glid st') \<and>
      symbols_inv st' \<and> sy_func st' = sy_func st \<and> sy_gl st' = sy_gl st)"
proof -
  from assms have f: "index_inv (sy_func st) (sy_func_index st)" "sy_last_funcid st < int (length (sy_func st))"
    and g: "index_inv (sy_gl st) (sy_gl_index st)" "sy_last_glid st < int (length (sy_gl st))"
    by (simp_all add: symbols_inv_def)
  obtain i start lst' index' where
    "range_lookup (sy_func st) (sy_func_index st) (sy_last_funcid st) addr = (i, start, lst', index')"
    "lookup_spec (sy_func st) (sy_last_funcid st) addr i start lst'" "index_inv (sy_func st) index'"
    "lst' < int (length (sy_func st))"
    using range_lookup_spec [OF f] .
  moreover obtain j start' lst'' index'' where
    "range_lookup (sy_gl st) (sy_gl_index st) (sy_last_glid st) addr = (j, start', lst'', index'')"
    "lookup_spec (sy_gl st) (sy_last_glid st) addr j start' lst''" "index_inv (sy_gl st) index''"
    "lst'' < int (length (sy_gl st))"
    using range_lookup_spec [OF g] .
  ultimately show ?thesis using assms
    by (simp add: symbol_pc2funcid_def symbol_addr2glid_def symbols_inv_def)
qed

lemma symbol_addr2glidE:
  assumes "symbols_inv st"
  obtains i start st' where "symbol_addr2glid addr st = (i, start, st')"
    "lookup_spec (sy_gl st) (sy_last_glid st) addr i start (sy_last_glid st')"
    "symbols_inv st'" "sy_func st' = sy_func st" "sy_gl st' = sy_gl st"
  using symbol_lookup_main [OF assms, of addr] by (auto split: prod.splits)

lemma symbol_pc2funcidE:
  assumes "symbols_inv st"
  obtains i start st' where "symbol_pc2funcid addr st = (i, start, st')"
    "lookup_spec (sy_func st) (sy_last_funcid st) addr i start (sy_last_funcid st')"
    "symbols_inv st'" "sy_func st' = sy_func st" "sy_gl st' = sy_gl st"
  using symbol_lookup_main [OF assms, of addr] by (auto split: prod.splits)

text \<open>
  C14: symbol lookup. \<open>symbol_pc2funcid\<close> and \<open>symbol_addr2glid\<close> return the symbol
  found last if its range still contains the address, otherwise the lowest id whose range
  contains it, or -1 if there is none; they store its start address, remember it, rebuild the
  index when symbols were added, and keep the tables.
\<close>

theorem symbol_lookup_correct:
  assumes "symbols_inv st"
  shows "(case symbol_pc2funcid addr st of (i, start, st') \<Rightarrow>
      lookup_spec (sy_func st) (sy_last_funcid st) addr i start (sy_last_funcid st') \<and>
      symbols_inv st' \<and> sy_func st' = sy_func st \<and> sy_gl st' = sy_gl st) \<and>
    (case symbol_addr2glid addr st of (i, start, st') \<Rightarrow>
      lookup_spec (sy_gl st) (sy_last_glid st) addr i start (sy_last_glid st') \<and>
      symbols_inv st' \<and> sy_func st' = sy_func st \<and> sy_gl st' = sy_gl st)"
  using assms by (rule symbol_lookup_main)

definition example_symbols :: symbol_state where
  "example_symbols =
    \<lparr>sy_func = [\<lparr>ds_name = ''main'', ds_addr = 0x100, ds_size = 0x40, ds_enter_sp = [0]\<rparr>],
     sy_gl = [\<lparr>ds_name = ''buf'', ds_addr = 0x2000, ds_size = 16, ds_enter_sp = [0]\<rparr>,
              \<lparr>ds_name = ''all'', ds_addr = 0x1000, ds_size = 0x2000, ds_enter_sp = [0]\<rparr>],
     sy_func_index = \<lparr>si_built_count = 0, si_order = [], si_max_end = []\<rparr>,
     sy_gl_index = \<lparr>si_built_count = 0, si_order = [], si_max_end = []\<rparr>,
     sy_last_funcid = -1, sy_last_glid = -1\<rparr>"

theorem symbol_lookup_correct_witness:
  "\<exists>i start st'. symbol_addr2glid 0x2008 example_symbols = (i, start, st') \<and> i = 0 \<and> start = Some 0x2000 \<and>
    symbols_inv st'"
proof -
  have inv: "symbols_inv example_symbols"
    by (simp add: symbols_inv_def index_inv_def example_symbols_def)
  have "specified_lookup (sy_gl example_symbols) (sy_last_glid example_symbols) 0x2008 = 0"
    by (simp add: specified_lookup_def lowest_containing_def symbol_contains_def symbol_end_def example_symbols_def)
  moreover have "ds_addr (sy_gl example_symbols ! 0) = 0x2000" by (simp add: example_symbols_def)
  moreover obtain i start st' where "symbol_addr2glid 0x2008 example_symbols = (i, start, st')"
    by (cases "symbol_addr2glid 0x2008 example_symbols")
  ultimately show ?thesis using symbol_lookup_correct [OF inv, of "0x2008"]
    by (auto simp: lookup_spec_def)
qed

end
