(* ===== verification/CpuControl.thy ===== *)
theory CpuControl
  imports Mpu SymbolOps
begin

text \<open>
  The debugger's control of the CPU, src/src/debugger/executor/cpu_control/dbg_cpu_control.c:
  break points, data watch points, the debug mode, continuation by clocks, the function log, the
  access records, the profile and the stack frame records. \<open>cpuctrl_state\<close> holds the
  static variables of the file together with the symbol tables it looks addresses up in.
  \<^item> The build is the UNIX one of cmake/AthrillCore.cmake: \<open>OS_LINUX\<close> and
    \<open>SUPRESS_DETECT_WARNING_MESSAGE\<close> are defined, so the code that only prints warnings is
    not compiled.
  \<^item> An array index outside its array and a failed \<open>ASSERT\<close> are \<open>None\<close>.
  \<^item> The core identity, its stack pointer and the clock counter that the code asks the target
    and the emulator for are arguments (\<open>cpuctrl_env\<close>). The calls of
    \<open>cpuemu_start_elaps\<close> and \<open>cpuemu_end_elaps\<close> are recorded in order.
  \<^item> The editor support (\<open>search_filepath\<close>, \<open>dbg_cpu_control_print_source\<close>,
    \<open>dbg_cpu_control_update_editor\<close>) only writes files and starts programs and is left out.
\<close>

section \<open>State\<close>

datatype BreakPointEumType = BREAK_POINT_TYPE_FOREVER | BREAK_POINT_TYPE_ONLY_ONCE

record DbgCpuCtrlBreakPointType =
  bp_is_set :: bool
  bp_type :: BreakPointEumType
  bp_addr :: uint32

definition DBG_CPU_CONTROL_BREAK_SETSIZE :: nat where "DBG_CPU_CONTROL_BREAK_SETSIZE = 128"

datatype DataWatchPointEumType =
  DATA_WATCH_POINT_TYPE_READ | DATA_WATCH_POINT_TYPE_WRITE | DATA_WATCH_POINT_TYPE_RW

record DbgCpuCtrlDataWatchType =
  dw_is_set :: bool
  dw_type :: DataWatchPointEumType
  dw_addr :: uint32
  dw_size :: uint32

definition DBG_CPU_CONTROL_WATCH_DATA_SETSIZE :: nat where "DBG_CPU_CONTROL_WATCH_DATA_SETSIZE = 128"

datatype DbgCpuctrlDbgModeType =
  DBG_CPUCTRL_DBG_MODE_NONE | DBG_CPUCTRL_DBG_MODE_NORMAL | DBG_CPUCTRL_DBG_MODE_FORCE

record DbgCpuStoppedCoreType =
  sc_is_stopped :: bool
  sc_core_id :: CoreIdType

record DbgCpuContType =
  ct_is_timeout :: bool
  ct_cont_clocks :: uint64

record DbgFuncLogTraceEntryType =
  le_sp :: uint32
  le_funcid :: uint32
  le_funcoff :: uint32
  le_funcpc :: uint32
  le_funcname :: string

record DbgFuncLogTraceType =
  lt_current :: uint32
  lt_lognum :: uint32
  lt_logmax :: uint32
  lt_entry_array :: "DbgFuncLogTraceEntryType list"

definition DBG_FUNCLOG_TRACE_SIZE :: uint32 where "DBG_FUNCLOG_TRACE_SIZE = 1024"

record DataAccessContextType =
  ac_access_type :: uint8
  ac_core_id :: CoreIdType
  ac_sp :: uint32
  ac_funcid :: uint32
  ac_access_num :: uint64
  ac_access_time :: uint64

text \<open>
  The access contexts of a variable are an \<open>object_container\<close> that is created at the first
  access and only grows at its end: an optional list.
\<close>

record DataAccessInfoType =
  ai_region_type :: MpuAddressRegionEnumType
  ai_access_num :: uint64
  ai_access_context :: "DataAccessContextType list option"

definition ACCESS_TYPE_READ :: uint8 where "ACCESS_TYPE_READ = 0x01"
definition ACCESS_TYPE_WRITE :: uint8 where "ACCESS_TYPE_WRITE = 0x02"

record CpuProfileType =
  pf_call_num :: uint64
  pf_start_time :: uint64
  pf_func_time :: uint64
  pf_total_time :: uint64
  pf_recursive_num :: uint64
  pf_sp_func_enter :: uint32

record CpuProfileCurrentInfoType =
  pc_prev_funcid :: uint32
  pc_current_funcid :: uint32

definition DBG_STACK_LOG_SIZE :: nat where "DBG_STACK_LOG_SIZE = 1024"
definition DBG_STACK_NUM :: nat where "DBG_STACK_NUM = 1024"

record DbgFuncFrameType =
  fr_current :: uint32
  fr_lognum :: uint32
  fr_sp :: "uint32 list"

datatype elaps_call = cpuemu_start_elaps | cpuemu_end_elaps

text \<open>
  \<open>cc_access_info_table_gl\<close> holds, for each variable, the index of the record its pointer
  refers to, or \<open>None\<close> for \<open>NULL\<close>.
\<close>

record cpuctrl_state =
  cc_break_points_num :: int
  cc_break_points :: "DbgCpuCtrlBreakPointType list"
  cc_data_watch_points :: "DbgCpuCtrlDataWatchType list"
  cc_dbg_mode :: DbgCpuctrlDbgModeType
  cc_stopped_core :: DbgCpuStoppedCoreType
  cc_cont :: "DbgCpuContType list"
  cc_debug_mode :: "bool list"
  cc_current_funcid :: int
  cc_current_pc :: uint32
  cc_current_sp :: uint32
  cc_current_access_glid :: uint32
  cc_func_log_trace :: "DbgFuncLogTraceType list"
  cc_access_info :: "DataAccessInfoType list"
  cc_access_info_table_gl :: "nat option list"
  cc_profile :: "CpuProfileType list list"
  cc_profile_current :: "CpuProfileCurrentInfoType list"
  cc_func_frame :: "DbgFuncFrameType list"
  cc_elaps_calls :: "elaps_call list"
  cc_symbols :: symbol_state

record cpuctrl_env =
  ce_core_id :: CoreIdType
  ce_core_sp :: uint32
  ce_total_clocks :: uint64

section \<open>Debug mode, stopped core and continuation\<close>

definition dbg_cpu_debug_mode_set :: "uint32 \<Rightarrow> bool \<Rightarrow> cpuctrl_state \<Rightarrow> cpuctrl_state option" where
  "dbg_cpu_debug_mode_set core_id dbg_mode st =
    map_option (\<lambda>xs. st\<lparr>cc_debug_mode := xs\<rparr>) (update_at (cc_debug_mode st) (unat core_id) dbg_mode)"

definition dbg_cpu_debug_mode_get :: "uint32 \<Rightarrow> cpuctrl_state \<Rightarrow> bool option" where
  "dbg_cpu_debug_mode_get core_id st = index_at (cc_debug_mode st) (unat core_id)"

definition dbg_cpu_callback_start :: "uint32 \<Rightarrow> uint32 \<Rightarrow> cpuctrl_state \<Rightarrow> cpuctrl_state" where
  "dbg_cpu_callback_start pc sp st =
    (let (funcid, funcpc, sy) = symbol_pc2funcid pc (cc_symbols st)
     in st\<lparr>cc_current_pc := pc, cc_current_funcid := funcid, cc_symbols := sy, cc_current_sp := sp\<rparr>)"

definition cpuctrl_set_cont_clocks :: "bool \<Rightarrow> uint64 \<Rightarrow> cpuctrl_state \<Rightarrow> cpuctrl_state option" where
  "cpuctrl_set_cont_clocks is_timeout cont_clocks st =
    map_option (\<lambda>xs. st\<lparr>cc_cont := xs\<rparr>)
      (update_at (cc_cont st) (unat (sc_core_id (cc_stopped_core st)))
        \<lparr>ct_is_timeout = is_timeout, ct_cont_clocks = cont_clocks\<rparr>)"

definition cpuctrl_is_timeout_cont_clocks :: "CoreIdType \<Rightarrow> cpuctrl_state \<Rightarrow> (bool \<times> cpuctrl_state) option" where
  "cpuctrl_is_timeout_cont_clocks core_id st = do {
    c \<leftarrow> index_at (cc_cont st) (unat core_id);
    if ct_is_timeout c
    then if ct_cont_clocks c > 1
         then Some (False, st\<lparr>cc_cont := (cc_cont st)[unat core_id := c\<lparr>ct_cont_clocks := ct_cont_clocks c - 1\<rparr>]\<rparr>)
         else Some (True, st)
    else Some (False, st)
  }"

definition cpuctrl_set_current_debugged_core :: "CoreIdType \<Rightarrow> cpuctrl_state \<Rightarrow> cpuctrl_state" where
  "cpuctrl_set_current_debugged_core core_id st =
    st\<lparr>cc_stopped_core := \<lparr>sc_is_stopped = True, sc_core_id = core_id\<rparr>\<rparr>"

text \<open>\<open>None\<close> when \<open>FALSE\<close> is returned and nothing is stored.\<close>

definition cpuctrl_get_current_debugged_core :: "cpuctrl_state \<Rightarrow> CoreIdType option" where
  "cpuctrl_get_current_debugged_core st =
    (if sc_is_stopped (cc_stopped_core st) then Some (sc_core_id (cc_stopped_core st)) else None)"

definition cpuctrl_clr_current_debugged_core :: "cpuctrl_state \<Rightarrow> cpuctrl_state" where
  "cpuctrl_clr_current_debugged_core st = st\<lparr>cc_stopped_core := (cc_stopped_core st)\<lparr>sc_is_stopped := False\<rparr>\<rparr>"

definition cpuctrl_is_debug_mode :: "cpuctrl_state \<Rightarrow> bool" where
  "cpuctrl_is_debug_mode st \<longleftrightarrow> cc_dbg_mode st \<noteq> DBG_CPUCTRL_DBG_MODE_NONE"

definition cpuctrl_set_debug_mode :: "bool \<Rightarrow> cpuctrl_state \<Rightarrow> cpuctrl_state" where
  "cpuctrl_set_debug_mode on st =
    (if on
     then (if cc_dbg_mode st \<noteq> DBG_CPUCTRL_DBG_MODE_NORMAL
           then st\<lparr>cc_elaps_calls := cc_elaps_calls st @ [cpuemu_end_elaps]\<rparr> else st)
            \<lparr>cc_dbg_mode := DBG_CPUCTRL_DBG_MODE_NORMAL\<rparr>
     else (if cc_dbg_mode st \<noteq> DBG_CPUCTRL_DBG_MODE_NONE
           then st\<lparr>cc_elaps_calls := cc_elaps_calls st @ [cpuemu_start_elaps]\<rparr> else st)
            \<lparr>cc_dbg_mode := DBG_CPUCTRL_DBG_MODE_NONE\<rparr>)"

definition cpuctrl_set_force_break :: "cpuctrl_state \<Rightarrow> cpuctrl_state" where
  "cpuctrl_set_force_break st = cpuctrl_set_debug_mode True st"

definition cpuctrl_is_force_debug_mode :: "cpuctrl_state \<Rightarrow> bool" where
  "cpuctrl_is_force_debug_mode st \<longleftrightarrow> cc_dbg_mode st = DBG_CPUCTRL_DBG_MODE_FORCE"

definition cpuctrl_set_force_debug_mode :: "cpuctrl_state \<Rightarrow> cpuctrl_state" where
  "cpuctrl_set_force_debug_mode st = st\<lparr>cc_dbg_mode := DBG_CPUCTRL_DBG_MODE_FORCE\<rparr>"

section \<open>Break points\<close>

text \<open>The searches return the index of the entry; \<open>None\<close> is \<open>NULL\<close>.\<close>

definition search_free_break_point_space :: "DbgCpuCtrlBreakPointType list \<Rightarrow> nat option" where
  "search_free_break_point_space bps = find_first (\<lambda>b. \<not> bp_is_set b) bps"

definition search_break_point :: "uint32 \<Rightarrow> DbgCpuCtrlBreakPointType list \<Rightarrow> nat option" where
  "search_break_point addr bps = find_first (\<lambda>b. bp_is_set b \<and> bp_addr b = addr) bps"

definition search_break_point_with_type ::
  "uint32 \<Rightarrow> BreakPointEumType \<Rightarrow> DbgCpuCtrlBreakPointType list \<Rightarrow> nat option" where
  "search_break_point_with_type addr type bps =
    find_first (\<lambda>b. bp_is_set b \<and> bp_type b = type \<and> bp_addr b = addr) bps"

definition cpuctrl_get_break :: "uint32 \<Rightarrow> cpuctrl_state \<Rightarrow> uint32 option" where
  "cpuctrl_get_break index st =
    (if unat index \<ge> DBG_CPU_CONTROL_BREAK_SETSIZE then None
     else if \<not> bp_is_set (cc_break_points st ! unat index) then None
     else Some (bp_addr (cc_break_points st ! unat index)))"

definition cpuctrl_is_break_point :: "uint32 \<Rightarrow> cpuctrl_state \<Rightarrow> bool" where
  "cpuctrl_is_break_point addr st =
    (if cc_break_points_num st > 0 then search_break_point addr (cc_break_points st) \<noteq> None
     else bp_addr (cc_break_points st ! 0) = addr)"

definition cpuctrl_set_break :: "uint32 \<Rightarrow> BreakPointEumType \<Rightarrow> cpuctrl_state \<Rightarrow> bool \<times> cpuctrl_state" where
  "cpuctrl_set_break addr type st =
    (case search_break_point_with_type addr type (cc_break_points st) of
       Some _ \<Rightarrow> (True, st)
     | None \<Rightarrow>
        (case search_free_break_point_space (cc_break_points st) of
           Some i \<Rightarrow>
             (True, st\<lparr>cc_break_points := (cc_break_points st)[i := \<lparr>bp_is_set = True, bp_type = type, bp_addr = addr\<rparr>],
                       cc_break_points_num := cc_break_points_num st
                         + (if type \<noteq> BREAK_POINT_TYPE_ONLY_ONCE then 1 else 0)\<rparr>)
         | None \<Rightarrow> (False, st)))"

text \<open>There is no upper bound check on \<open>index\<close>: an index outside the table is undefined.\<close>

definition cpuctrl_del_break :: "uint32 \<Rightarrow> cpuctrl_state \<Rightarrow> (bool \<times> cpuctrl_state) option" where
  "cpuctrl_del_break index st =
    (if index > 0
     then do {
       b \<leftarrow> index_at (cc_break_points st) (unat index);
       Some (True, st\<lparr>cc_break_points_num := cc_break_points_num st - (if bp_is_set b then 1 else 0),
                      cc_break_points := (cc_break_points st)[unat index := b\<lparr>bp_is_set := False\<rparr>]\<rparr>)
     }
     else Some (False, st))"

text \<open>The loop of \<open>cpuctrl_del_all_break\<close> over the indices that are left.\<close>

fun del_break_loop :: "BreakPointEumType \<Rightarrow> nat list \<Rightarrow> cpuctrl_state \<Rightarrow> cpuctrl_state option" where
  "del_break_loop type [] st = Some st"
| "del_break_loop type (i # is) st = do {
    b \<leftarrow> index_at (cc_break_points st) i;
    st' \<leftarrow> (if bp_type b = type then map_option snd (cpuctrl_del_break (of_nat i) st) else Some st);
    del_break_loop type is st'
  }"

definition cpuctrl_del_all_break :: "BreakPointEumType \<Rightarrow> cpuctrl_state \<Rightarrow> cpuctrl_state option" where
  "cpuctrl_del_all_break type st = do {
    st' \<leftarrow> del_break_loop type [0..<DBG_CPU_CONTROL_BREAK_SETSIZE] st;
    Some (if type \<noteq> BREAK_POINT_TYPE_ONLY_ONCE then st'\<lparr>cc_break_points_num := 0\<rparr> else st')
  }"

section \<open>Access records\<close>

definition cpuctrl_get_func_access_info_table_glid :: "uint32 \<Rightarrow> cpuctrl_state \<Rightarrow> nat option option" where
  "cpuctrl_get_func_access_info_table_glid glid st = index_at (cc_access_info_table_gl st) (unat glid)"

text \<open>The outer \<open>None\<close> is an access outside the table, the inner one \<open>NULL\<close>.\<close>

definition cpuctrl_get_func_access_info_table :: "string \<Rightarrow> cpuctrl_state \<Rightarrow> nat option option" where
  "cpuctrl_get_func_access_info_table glname st =
    (case symbol_get_gl glname (length glname) (cc_symbols st) of
       None \<Rightarrow> Some None
     | Some (glid, addr, sz) \<Rightarrow> index_at (cc_access_info_table_gl st) glid)"

definition same_context :: "DataAccessContextType \<Rightarrow> DataAccessContextType \<Rightarrow> bool" where
  "same_context context dp \<longleftrightarrow>
    ac_access_type dp = ac_access_type context \<and> ac_core_id dp = ac_core_id context
    \<and> ac_sp dp = ac_sp context \<and> ac_funcid dp = ac_funcid context"

definition count_access :: "uint64 \<Rightarrow> DataAccessContextType \<Rightarrow> DataAccessContextType" where
  "count_access clocks dp = dp\<lparr>ac_access_num := ac_access_num dp + 1, ac_access_time := clocks\<rparr>"

definition record_context :: "uint64 \<Rightarrow> DataAccessContextType \<Rightarrow> DataAccessContextType list \<Rightarrow> DataAccessContextType list" where
  "record_context clocks context cs =
    (case find_first (same_context context) cs of
       Some i \<Rightarrow> cs[i := count_access clocks (cs ! i)]
     | None \<Rightarrow> cs @ [count_access clocks context])"

definition cpuctrl_access_context_add :: "cpuctrl_env \<Rightarrow> uint8 \<Rightarrow> nat \<Rightarrow> cpuctrl_state \<Rightarrow> cpuctrl_state option" where
  "cpuctrl_access_context_add env access_type inx st =
    (let (glid, gladdr, sy) = symbol_addr2glid (cc_current_sp st) (cc_symbols st);
         st1 = st\<lparr>cc_symbols := sy\<rparr>
     in if glid < 0 then Some st1
        else do {
          info \<leftarrow> index_at (cc_access_info st1) inx;
          let cs = (case ai_access_context info of None \<Rightarrow> [] | Some cs \<Rightarrow> cs);
          let context = \<lparr>ac_access_type = access_type, ac_core_id = ce_core_id env, ac_sp = word_of_int glid,
            ac_funcid = word_of_int (cc_current_funcid st1), ac_access_num = 0, ac_access_time = 0\<rparr>;
          Some (st1\<lparr>cc_access_info := (cc_access_info st1)[inx := info\<lparr>ai_access_num := ai_access_num info + 1,
            ai_access_context := Some (record_context (ce_total_clocks env) context cs)\<rparr>]\<rparr>)
        })"

text \<open>The loop of \<open>cpuctrl_set_access\<close> over the byte offsets that are left, with \<open>prev_glid\<close>.\<close>

fun set_access_loop ::
  "cpuctrl_env \<Rightarrow> uint8 \<Rightarrow> AthrillAddrType \<Rightarrow> nat list \<Rightarrow> int \<Rightarrow> cpuctrl_state \<Rightarrow> cpuctrl_state option" where
  "set_access_loop env access_type access_addr [] prev_glid st = Some st"
| "set_access_loop env access_type access_addr (i # is) prev_glid st =
    (let (glid, gladdr, sy) = symbol_addr2glid (access_addr + of_nat i) (cc_symbols st);
         st1 = st\<lparr>cc_symbols := sy\<rparr>
     in if glid < 0 then set_access_loop env access_type access_addr is prev_glid st1
        else if glid = prev_glid then set_access_loop env access_type access_addr is prev_glid st1
        else let st2 = st1\<lparr>cc_current_access_glid := word_of_int glid\<rparr>
          in (case index_at (cc_access_info_table_gl st2) (nat glid) of
                None \<Rightarrow> None
              | Some None \<Rightarrow> set_access_loop env access_type access_addr is prev_glid st2
              | Some (Some inx) \<Rightarrow>
                  (case cpuctrl_access_context_add env access_type inx st2 of
                     None \<Rightarrow> None
                   | Some st3 \<Rightarrow> set_access_loop env access_type access_addr is glid st3)))"

definition cpuctrl_set_access ::
  "cpuctrl_env \<Rightarrow> uint8 \<Rightarrow> AthrillAddrType \<Rightarrow> uint32 \<Rightarrow> cpuctrl_state \<Rightarrow> cpuctrl_state option" where
  "cpuctrl_set_access env access_type access_addr sz st =
    set_access_loop env access_type access_addr [0..<unat sz] (-1) st"

fun stack_overflow_loop :: "AthrillAddrType \<Rightarrow> int \<Rightarrow> nat list \<Rightarrow> symbol_state \<Rightarrow> bool \<times> symbol_state" where
  "stack_overflow_loop start_addr stack_glid [] sy = (False, sy)"
| "stack_overflow_loop start_addr stack_glid (i # is) sy =
    (let (glid, gladdr, sy') = symbol_addr2glid (start_addr + of_nat i) sy
     in if glid \<noteq> stack_glid then (True, sy') else stack_overflow_loop start_addr stack_glid is sy')"

definition cpu_may_store_on_stack_overflow :: "uint32 \<Rightarrow> uint32 \<Rightarrow> cpuctrl_state \<Rightarrow> bool \<times> cpuctrl_state" where
  "cpu_may_store_on_stack_overflow start_addr sz st =
    (let (stack_glid, gladdr, sy) = symbol_addr2glid (cc_current_sp st) (cc_symbols st);
         (r, sy') = stack_overflow_loop start_addr stack_glid [0..<unat sz] sy
     in (r, st\<lparr>cc_symbols := sy'\<rparr>))"

section \<open>Data watch points\<close>

definition access_overlaps :: "uint32 \<Rightarrow> uint32 \<Rightarrow> DbgCpuCtrlDataWatchType \<Rightarrow> bool" where
  "access_overlaps access_addr access_end w \<longleftrightarrow>
    \<not> access_end \<le> dw_addr w \<and> \<not> access_addr \<ge> dw_addr w + dw_size w"

text \<open>The loop of both access checks; \<open>other\<close> is the type of watch point that is skipped.\<close>

definition watch_hit :: "DataWatchPointEumType \<Rightarrow> uint32 \<Rightarrow> uint32 \<Rightarrow> DbgCpuCtrlDataWatchType list \<Rightarrow> int" where
  "watch_hit other access_addr access_end ws =
    (case find_first (\<lambda>w. dw_is_set w \<and> dw_type w \<noteq> other \<and> access_overlaps access_addr access_end w) ws of
       Some i \<Rightarrow> int i | None \<Rightarrow> -1)"

definition cpuctrl_is_break_read_access ::
  "cpuctrl_env \<Rightarrow> AthrillAddrType \<Rightarrow> uint32 \<Rightarrow> cpuctrl_state \<Rightarrow> (int \<times> cpuctrl_state) option" where
  "cpuctrl_is_break_read_access env access_addr sz st = do {
    st' \<leftarrow> cpuctrl_set_access env ACCESS_TYPE_READ access_addr sz st;
    Some (watch_hit DATA_WATCH_POINT_TYPE_WRITE access_addr (access_addr + sz) (cc_data_watch_points st'), st')
  }"

definition cpuctrl_is_break_write_access ::
  "cpuctrl_env \<Rightarrow> AthrillAddrType \<Rightarrow> uint32 \<Rightarrow> cpuctrl_state \<Rightarrow> (int \<times> cpuctrl_state) option" where
  "cpuctrl_is_break_write_access env access_addr sz st = do {
    st' \<leftarrow> cpuctrl_set_access env ACCESS_TYPE_WRITE access_addr sz st;
    Some (watch_hit DATA_WATCH_POINT_TYPE_READ access_addr (access_addr + sz) (cc_data_watch_points st'), st')
  }"

definition cpuctrl_get_data_watch_point ::
  "uint32 \<Rightarrow> cpuctrl_state \<Rightarrow> (uint32 \<times> uint32 \<times> DataWatchPointEumType) option" where
  "cpuctrl_get_data_watch_point index st =
    (if unat index \<ge> DBG_CPU_CONTROL_WATCH_DATA_SETSIZE then None
     else let w = cc_data_watch_points st ! unat index
          in if \<not> dw_is_set w then None else Some (dw_addr w, dw_size w, dw_type w))"

definition cpuctrl_set_data_watch ::
  "DataWatchPointEumType \<Rightarrow> uint32 \<Rightarrow> uint32 \<Rightarrow> cpuctrl_state \<Rightarrow> bool \<times> cpuctrl_state" where
  "cpuctrl_set_data_watch watch_type addr sz st =
    (let w = \<lparr>dw_is_set = True, dw_type = watch_type, dw_addr = addr, dw_size = sz\<rparr>
     in case find_first (\<lambda>w. dw_is_set w \<and> dw_addr w = addr) (cc_data_watch_points st) of
          Some i \<Rightarrow> (True, st\<lparr>cc_data_watch_points := (cc_data_watch_points st)[i := w]\<rparr>)
        | None \<Rightarrow>
           (case find_first (\<lambda>w. \<not> dw_is_set w) (cc_data_watch_points st) of
              Some i \<Rightarrow> (True, st\<lparr>cc_data_watch_points := (cc_data_watch_points st)[i := w]\<rparr>)
            | None \<Rightarrow> (False, st)))"

definition cpuctrl_del_data_watch_point :: "uint32 \<Rightarrow> cpuctrl_state \<Rightarrow> bool \<times> cpuctrl_state" where
  "cpuctrl_del_data_watch_point delno st =
    (if unat delno \<ge> DBG_CPU_CONTROL_WATCH_DATA_SETSIZE then (False, st)
     else (True, st\<lparr>cc_data_watch_points := (cc_data_watch_points st)
             [unat delno := (cc_data_watch_points st ! unat delno)\<lparr>dw_is_set := False\<rparr>]\<rparr>))"

definition cpuctrl_del_all_data_watch_points :: "cpuctrl_state \<Rightarrow> cpuctrl_state" where
  "cpuctrl_del_all_data_watch_points st =
    fold (\<lambda>i st. snd (cpuctrl_del_data_watch_point (of_nat i) st)) [0..<DBG_CPU_CONTROL_WATCH_DATA_SETSIZE] st"

section \<open>Function log\<close>

definition push_func_log :: "DbgFuncLogTraceEntryType \<Rightarrow> DbgFuncLogTraceType \<Rightarrow> DbgFuncLogTraceType option" where
  "push_func_log e t = do {
    next \<leftarrow> (if lt_lognum t > 0
             then do {
               cur \<leftarrow> index_at (lt_entry_array t) (unat (lt_current t));
               if le_funcpc cur = le_funcpc e then Some None
               else Some (Some (if lt_current t + 1 \<ge> lt_logmax t then 0 else lt_current t + 1))
             }
             else Some (Some 0));
    case next of
      None \<Rightarrow> Some t
    | Some n \<Rightarrow> do {
        es \<leftarrow> update_at (lt_entry_array t) (unat n) e;
        Some (t\<lparr>lt_current := n, lt_entry_array := es,
                lt_lognum := (if lt_lognum t < lt_logmax t then lt_lognum t + 1 else lt_lognum t)\<rparr>)
      }
  }"

definition cpuctrl_set_func_log_trace :: "uint32 \<Rightarrow> uint32 \<Rightarrow> uint32 \<Rightarrow> cpuctrl_state \<Rightarrow> cpuctrl_state option" where
  "cpuctrl_set_func_log_trace coreId pc sp st =
    (case symbol_pc2funcid pc (cc_symbols st) of (funcid, funcpc, sy) \<Rightarrow>
      if funcid < 0 then Some (st\<lparr>cc_symbols := sy\<rparr>)
      else do {
        funcname \<leftarrow> symbol_funcid2funcname funcid sy;
        funcpc \<leftarrow> funcpc;
        t \<leftarrow> index_at (cc_func_log_trace st) (unat coreId);
        t' \<leftarrow> push_func_log \<lparr>le_sp = sp, le_funcid = word_of_int funcid, le_funcoff = pc - funcpc,
               le_funcpc = funcpc, le_funcname = funcname\<rparr> t;
        Some (st\<lparr>cc_symbols := sy, cc_func_log_trace := (cc_func_log_trace st)[unat coreId := t']\<rparr>)
      })"

definition cpuctrl_get_func_log_trace_num :: "uint32 \<Rightarrow> cpuctrl_state \<Rightarrow> uint32 option" where
  "cpuctrl_get_func_log_trace_num coreId st = map_option lt_lognum (index_at (cc_func_log_trace st) (unat coreId))"

text \<open>
  The entry \<open>bt_number\<close> steps back. \<open>off\<close> is an \<open>int\<close>. The inner
  \<open>None\<close> is \<open>NULL\<close>; otherwise the entry whose name is returned and whose other
  fields are stored.
\<close>

definition func_log_entry :: "uint32 \<Rightarrow> DbgFuncLogTraceType \<Rightarrow> DbgFuncLogTraceEntryType option option" where
  "func_log_entry bt_number t =
    (if bt_number \<ge> lt_logmax t then Some None
     else if bt_number \<ge> lt_lognum t then Some None
     else let off = (if lt_current t \<ge> bt_number then sint (lt_current t - bt_number)
                     else sint (lt_logmax t - (bt_number - lt_current t)))
          in if off < 0 then None else map_option Some (index_at (lt_entry_array t) (nat off)))"

definition cpuctrl_get_func_log_trace_info ::
  "uint32 \<Rightarrow> uint32 \<Rightarrow> cpuctrl_state \<Rightarrow> (string \<times> uint32 \<times> uint32 \<times> uint32) option option" where
  "cpuctrl_get_func_log_trace_info coreId bt_number st = do {
    t \<leftarrow> index_at (cc_func_log_trace st) (unat coreId);
    e \<leftarrow> func_log_entry bt_number t;
    Some (map_option (\<lambda>e. (le_funcname e, le_funcoff e, le_funcid e, le_sp e)) e)
  }"

section \<open>Profile\<close>

definition profile_enter :: "cpuctrl_env \<Rightarrow> CpuProfileType \<Rightarrow> CpuProfileType" where
  "profile_enter env p =
    (let p1 = p\<lparr>pf_call_num := pf_call_num p + 1\<rparr>
     in if pf_recursive_num p1 = 0
        then p1\<lparr>pf_sp_func_enter := ce_core_sp env, pf_start_time := ce_total_clocks env,
                pf_recursive_num := pf_recursive_num p1 + 1\<rparr>
        else p1)"

definition profile_leave :: "cpuctrl_env \<Rightarrow> CpuProfileType \<Rightarrow> CpuProfileType" where
  "profile_leave env p =
    p\<lparr>pf_total_time := pf_total_time p + (ce_total_clocks env - pf_start_time p),
      pf_recursive_num := pf_recursive_num p - 1\<rparr>"

text \<open>The loop that ends the first function entered with the current stack pointer.\<close>

definition profile_exit :: "cpuctrl_env \<Rightarrow> nat \<Rightarrow> CpuProfileType list \<Rightarrow> CpuProfileType list option" where
  "profile_exit env func_num ps =
    (case find_first (\<lambda>p. pf_recursive_num p > 0 \<and> ce_core_sp env = pf_sp_func_enter p) (take func_num ps) of
       Some i \<Rightarrow> Some (ps[i := profile_leave env (ps ! i)])
     | None \<Rightarrow> if func_num \<le> length ps then Some ps else None)"

definition cpuctrl_profile_collect :: "cpuctrl_env \<Rightarrow> uint32 \<Rightarrow> uint32 \<Rightarrow> cpuctrl_state \<Rightarrow> cpuctrl_state option" where
  "cpuctrl_profile_collect env coreId pc st =
    (case symbol_pc2funcid pc (cc_symbols st) of (funcid, funcaddr, sy) \<Rightarrow>
      if funcid < 0 then Some (st\<lparr>cc_symbols := sy\<rparr>)
      else do {
        funcpc \<leftarrow> symbol_funcid2funcaddr funcid sy;
        ps \<leftarrow> index_at (cc_profile st) (unat coreId);
        cur \<leftarrow> index_at (cc_profile_current st) (unat coreId);
        p \<leftarrow> index_at ps (nat funcid);
        (ps1, cur1) \<leftarrow>
          (if pc = funcpc then Some (ps[nat funcid := profile_enter env p], cur)
           else if pc_current_funcid cur \<noteq> word_of_int funcid
           then map_option (\<lambda>ps. (ps, cur\<lparr>pc_prev_funcid := pc_current_funcid cur\<rparr>))
                  (profile_exit env (symbol_get_func_num sy) ps)
           else Some (ps, cur));
        let p1 = ps1 ! nat funcid;
        Some (st\<lparr>cc_symbols := sy,
          cc_profile := (cc_profile st)[unat coreId := ps1[nat funcid := p1\<lparr>pf_func_time := pf_func_time p1 + 1\<rparr>]],
          cc_profile_current := (cc_profile_current st)[unat coreId := cur1\<lparr>pc_current_funcid := word_of_int funcid\<rparr>]\<rparr>)
      })"

definition cpuctrl_profile_get :: "uint32 \<Rightarrow> uint32 \<Rightarrow> cpuctrl_state \<Rightarrow> CpuProfileType option" where
  "cpuctrl_profile_get coreId funcid st =
    Option.bind (index_at (cc_profile st) (unat coreId)) (\<lambda>ps. index_at ps (unat funcid))"

section \<open>Stack frame records\<close>

definition frame_push :: "uint32 \<Rightarrow> uint32 \<Rightarrow> DbgFuncFrameType \<Rightarrow> DbgFuncFrameType option" where
  "frame_push next sp f = do {
    sps \<leftarrow> update_at (fr_sp f) (unat next) sp;
    Some (f\<lparr>fr_current := next, fr_sp := sps, fr_lognum := fr_lognum f + 1\<rparr>)
  }"

definition frame_record :: "uint32 \<Rightarrow> DbgFuncFrameType \<Rightarrow> DbgFuncFrameType option" where
  "frame_record sp f =
    (if fr_lognum f > 0
     then do {
       cur \<leftarrow> index_at (fr_sp f) (unat (fr_current f));
       if cur = sp then Some f
       else (case find_first (\<lambda>x. x = sp) (take (unat (fr_lognum f)) (fr_sp f)) of
               Some prev \<Rightarrow> Some (f\<lparr>fr_lognum := of_nat prev + 1, fr_current := of_nat prev\<rparr>)
             | None \<Rightarrow>
                (if unat (fr_lognum f) \<le> length (fr_sp f) \<and> unat (fr_current f + 1) \<le> DBG_STACK_LOG_SIZE
                 then frame_push (fr_current f + 1) sp f else None))
     }
     else frame_push 0 sp f)"

definition cpuctrl_set_stack_pointer :: "uint32 \<Rightarrow> cpuctrl_state \<Rightarrow> cpuctrl_state option" where
  "cpuctrl_set_stack_pointer sp st =
    (case symbol_addr2glid sp (cc_symbols st) of (glid, gladdr, sy) \<Rightarrow>
      if glid < 0 then Some (st\<lparr>cc_symbols := sy\<rparr>)
      else do {
        f \<leftarrow> index_at (cc_func_frame st) (nat glid);
        f' \<leftarrow> frame_record sp f;
        Some (st\<lparr>cc_symbols := sy, cc_func_frame := (cc_func_frame st)[nat glid := f']\<rparr>)
      })"

definition cpuctrl_get_stack_pointer :: "int \<Rightarrow> uint32 \<Rightarrow> cpuctrl_state \<Rightarrow> (Std_ReturnType \<times> uint32 option) option" where
  "cpuctrl_get_stack_pointer glid bt_number st = do {
    f \<leftarrow> table_at (cc_func_frame st) glid;
    if fr_lognum f \<le> 1 then Some (STD_E_NOENT, None)
    else if bt_number \<ge> fr_lognum f then Some (STD_E_NOENT, None)
    else map_option (\<lambda>sp. (STD_E_OK, Some sp)) (index_at (fr_sp f) (unat bt_number))
  }"

section \<open>Initialisation\<close>

text \<open>The initial values of the static variables, for \<open>core_num\<close> cores.\<close>

definition dbg_cpuctrl_break_points_init :: "DbgCpuCtrlBreakPointType list" where
  "dbg_cpuctrl_break_points_init =
    \<lparr>bp_is_set = True, bp_type = BREAK_POINT_TYPE_FOREVER, bp_addr = 0x00\<rparr>
    # replicate (DBG_CPU_CONTROL_BREAK_SETSIZE - 1) \<lparr>bp_is_set = False, bp_type = BREAK_POINT_TYPE_FOREVER, bp_addr = 0\<rparr>"

definition cpuctrl_static :: "nat \<Rightarrow> symbol_state \<Rightarrow> cpuctrl_state" where
  "cpuctrl_static core_num sy =
    \<lparr>cc_break_points_num = 0, cc_break_points = dbg_cpuctrl_break_points_init,
     cc_data_watch_points = replicate DBG_CPU_CONTROL_WATCH_DATA_SETSIZE
       \<lparr>dw_is_set = False, dw_type = DATA_WATCH_POINT_TYPE_READ, dw_addr = 0, dw_size = 0\<rparr>,
     cc_dbg_mode = DBG_CPUCTRL_DBG_MODE_NORMAL,
     cc_stopped_core = \<lparr>sc_is_stopped = False, sc_core_id = 0\<rparr>,
     cc_cont = replicate core_num \<lparr>ct_is_timeout = False, ct_cont_clocks = 0\<rparr>,
     cc_debug_mode = replicate core_num False,
     cc_current_funcid = 0, cc_current_pc = 0, cc_current_sp = 0, cc_current_access_glid = -1,
     cc_func_log_trace = replicate core_num
       \<lparr>lt_current = 0, lt_lognum = 0, lt_logmax = 0, lt_entry_array = []\<rparr>,
     cc_access_info = [], cc_access_info_table_gl = [],
     cc_profile = replicate core_num [],
     cc_profile_current = replicate core_num \<lparr>pc_prev_funcid = 0, pc_current_funcid = 0\<rparr>,
     cc_func_frame = replicate DBG_STACK_NUM
       \<lparr>fr_current = 0, fr_lognum = 0, fr_sp = replicate DBG_STACK_LOG_SIZE 0\<rparr>,
     cc_elaps_calls = [], cc_symbols = sy\<rparr>"

text \<open>
  The number of cores of the target, the value of \<open>DEBUG_FUNC_FT_LOG_SIZE\<close> in the device
  configuration (if any) and the contents of freshly allocated log entries are arguments; the
  allocations succeed.
\<close>

definition no_profile :: CpuProfileType where
  "no_profile = \<lparr>pf_call_num = 0, pf_start_time = 0, pf_func_time = 0, pf_total_time = 0,
    pf_recursive_num = 0, pf_sp_func_enter = 0\<rparr>"

fun init_profiles :: "nat list \<Rightarrow> nat \<Rightarrow> cpuctrl_state \<Rightarrow> cpuctrl_state option" where
  "init_profiles [] func_num st = Some st"
| "init_profiles (c # cs) func_num st = do {
    ps \<leftarrow> update_at (cc_profile st) c (replicate func_num no_profile);
    cur \<leftarrow> index_at (cc_profile_current st) c;
    init_profiles cs func_num (st\<lparr>cc_profile := ps,
      cc_profile_current := (cc_profile_current st)[c := cur\<lparr>pc_current_funcid := of_nat func_num\<rparr>]\<rparr>)
  }"

fun cpuctrl_init_func_log_trace ::
  "uint32 \<Rightarrow> (nat \<Rightarrow> DbgFuncLogTraceEntryType list) \<Rightarrow> nat list \<Rightarrow> cpuctrl_state \<Rightarrow> cpuctrl_state option" where
  "cpuctrl_init_func_log_trace entry_num fresh [] st = Some st"
| "cpuctrl_init_func_log_trace entry_num fresh (c # cs) st = do {
    ts \<leftarrow> update_at (cc_func_log_trace st) c
      \<lparr>lt_current = 0, lt_lognum = 0, lt_logmax = entry_num, lt_entry_array = fresh c\<rparr>;
    cpuctrl_init_func_log_trace entry_num fresh cs (st\<lparr>cc_func_log_trace := ts\<rparr>)
  }"

definition init_access_info :: "'d mpu_state \<Rightarrow> symbol_state \<Rightarrow> DataAccessInfoType list" where
  "init_access_info mpu sy =
    map (\<lambda>g. \<lparr>ai_region_type = fst (mpu_address_region_type_get mpu (ds_addr g)), ai_access_num = 0,
             ai_access_context = None\<rparr>) (sy_gl sy)"

definition init_access_table :: "DataAccessInfoType list \<Rightarrow> nat option list" where
  "init_access_table infos =
    map (\<lambda>i. if ai_region_type (infos ! i) \<noteq> REGION_UNKNOWN then Some i else None) [0..<length infos]"

definition cpuctrl_init ::
  "nat \<Rightarrow> uint32 option \<Rightarrow> (uint32 \<Rightarrow> nat \<Rightarrow> DbgFuncLogTraceEntryType list) \<Rightarrow> 'd mpu_state \<Rightarrow> cpuctrl_state
    \<Rightarrow> cpuctrl_state option" where
  "cpuctrl_init core_num log_size fresh mpu st = do {
    st1 \<leftarrow> init_profiles [0..<core_num] (symbol_get_func_num (cc_symbols st)) st;
    let infos = init_access_info mpu (cc_symbols st1);
    let entry_num = (case log_size of Some n \<Rightarrow> n | None \<Rightarrow> DBG_FUNCLOG_TRACE_SIZE);
    cpuctrl_init_func_log_trace entry_num (fresh entry_num) [0..<core_num]
      (st1\<lparr>cc_access_info := infos, cc_access_info_table_gl := init_access_table infos\<rparr>)
  }"

end
