(* ===== verification/CpuControlLaws.thy ===== *)
theory CpuControlLaws
  imports CpuControl SymbolLaws
begin

text \<open>
  What the debugger's control of the CPU guarantees: break points are hit exactly at the listed
  addresses as long as no one-shot break point is involved, and what goes wrong otherwise; data
  watch points report the accesses that overlap them; the function log is a bounded history; the
  stack frame record is the chain of stack pointers; a continuation by clocks stops after as many
  checks.
\<close>

section \<open>Break points\<close>

definition set_points :: "DbgCpuCtrlBreakPointType list \<Rightarrow> nat set" where
  "set_points bps = {j. 0 < j \<and> j < length bps \<and> bp_is_set (bps ! j)}"

lemma finite_set_points [simp]: "finite (set_points bps)"
  by (simp add: set_points_def)

text \<open>
  All set break points are permanent, the first entry stays set, and the counter is the number of
  the others.
\<close>

definition break_inv :: "cpuctrl_state \<Rightarrow> bool" where
  "break_inv st \<longleftrightarrow>
    length (cc_break_points st) = DBG_CPU_CONTROL_BREAK_SETSIZE \<and> bp_is_set (cc_break_points st ! 0) \<and>
    (\<forall>j<DBG_CPU_CONTROL_BREAK_SETSIZE. bp_is_set (cc_break_points st ! j) \<longrightarrow>
       bp_type (cc_break_points st ! j) = BREAK_POINT_TYPE_FOREVER) \<and>
    cc_break_points_num st = int (card (set_points (cc_break_points st)))"

lemma set_points_set:
  assumes "i < length bps" "0 < i" "\<not> bp_is_set (bps ! i)" "bp_is_set b"
  shows "card (set_points (bps[i := b])) = Suc (card (set_points bps))"
proof -
  have "set_points (bps[i := b]) = insert i (set_points bps)" "i \<notin> set_points bps"
    using assms by (auto simp: set_points_def nth_list_update)
  then show ?thesis by simp
qed

lemma set_points_clear:
  assumes "i < length bps" "0 < i" "\<not> bp_is_set b"
  shows "int (card (set_points (bps[i := b]))) = int (card (set_points bps)) - (if bp_is_set (bps ! i) then 1 else 0)"
proof (cases "bp_is_set (bps ! i)")
  case True
  have "set_points (bps[i := b]) = set_points bps - {i}"
    using assms by (auto simp: set_points_def nth_list_update split: if_splits)
  moreover have "i \<in> set_points bps" using True assms by (simp add: set_points_def)
  moreover from this have "0 < card (set_points bps)" by (auto simp: card_gt_0_iff)
  ultimately show ?thesis using True by (simp add: card_Diff_singleton of_nat_diff)
next
  case False
  then have "set_points (bps[i := b]) = set_points bps"
    using assms by (auto simp: set_points_def nth_list_update split: if_splits)
  with False show ?thesis by simp
qed

lemma set_break_inv:
  assumes "break_inv st"
  shows "break_inv (snd (cpuctrl_set_break addr BREAK_POINT_TYPE_FOREVER st))"
proof (cases "search_break_point_with_type addr BREAK_POINT_TYPE_FOREVER (cc_break_points st)")
  case (Some i)
  then show ?thesis using assms by (simp add: cpuctrl_set_break_def)
next
  case None
  show ?thesis
  proof (cases "search_free_break_point_space (cc_break_points st)")
    case (Some i)
    then have i: "i < length (cc_break_points st)" "\<not> bp_is_set (cc_break_points st ! i)"
      by (simp_all add: search_free_break_point_space_def find_first_Some_iff)
    with assms have "0 < i" by (cases i) (auto simp: break_inv_def)
    with set_points_set [OF i(1) this i(2), of "\<lparr>bp_is_set = True, bp_type = BREAK_POINT_TYPE_FOREVER, bp_addr = addr\<rparr>"]
    show ?thesis using assms None Some i
      by (auto simp: cpuctrl_set_break_def break_inv_def nth_list_update)
  next
    case None2: None
    then show ?thesis using assms None by (simp add: cpuctrl_set_break_def)
  qed
qed

lemma del_break_inv:
  assumes "break_inv st" "unat index < DBG_CPU_CONTROL_BREAK_SETSIZE"
  shows "\<exists>st'. cpuctrl_del_break index st = Some (index > 0, st') \<and> break_inv st'"
proof (cases "index > 0")
  case True
  let ?b = "(cc_break_points st ! unat index)\<lparr>bp_is_set := False\<rparr>"
  have i: "unat index < length (cc_break_points st)" "0 < unat index"
    using assms True by (simp_all add: break_inv_def unat_gt_0 word_neq_0_conv)
  from set_points_clear [OF i, of ?b] show ?thesis using assms True i
    by (auto simp: cpuctrl_del_break_def break_inv_def nth_list_update)
next
  case False
  then show ?thesis using assms by (simp add: cpuctrl_del_break_def)
qed

text \<open>The loop of \<open>cpuctrl_del_all_break\<close> keeps the invariant and clears the entries of the type.\<close>

lemma del_break_loop_inv:
  assumes "break_inv st" "\<forall>i\<in>set is. i < DBG_CPU_CONTROL_BREAK_SETSIZE"
  shows "\<exists>st'. del_break_loop type is st = Some st' \<and> break_inv st' \<and>
    (\<forall>j. bp_is_set (cc_break_points st' ! j) \<longrightarrow>
      bp_is_set (cc_break_points st ! j) \<and> (j \<in> set is \<and> 0 < j \<longrightarrow> bp_type (cc_break_points st' ! j) \<noteq> type)) \<and>
    map bp_type (cc_break_points st') = map bp_type (cc_break_points st)"
  using assms
proof (induction "is" arbitrary: st)
  case Nil
  then show ?case by simp
next
  case (Cons i "is")
  let ?bps = "cc_break_points st"
  have len: "length ?bps = DBG_CPU_CONTROL_BREAK_SETSIZE" and i: "i < length ?bps" "i < 2 ^ 32"
    using Cons.prems by (simp_all add: break_inv_def DBG_CPU_CONTROL_BREAK_SETSIZE_def)
  have u: "unat (of_nat i :: uint32) = i" using i(2) by (simp add: unat_of_nat take_bit_nat_eq_self)
  define st1 where "st1 = (if bp_type (?bps ! i) = type then snd (the (cpuctrl_del_break (of_nat i) st)) else st)"
  have st1: "break_inv st1" and step: "del_break_loop type (i # is) st = del_break_loop type is st1"
    using del_break_inv [OF Cons.prems(1), of "of_nat i"] Cons.prems i len u by (auto simp: st1_def)
  have pts: "cc_break_points st1 = (if bp_type (?bps ! i) = type \<and> 0 < i then ?bps[i := (?bps ! i)\<lparr>bp_is_set := False\<rparr>] else ?bps)"
  proof (cases "0 < i")
    case True
    then have "(of_nat i :: uint32) > 0" using u by (metis unat_gt_0 word_gt_0)
    then show ?thesis using i u True by (simp add: st1_def cpuctrl_del_break_def)
  next
    case False
    then show ?thesis by (simp add: st1_def cpuctrl_del_break_def)
  qed
  from Cons.IH [OF st1] Cons.prems(2) obtain st' where st': "del_break_loop type is st1 = Some st'" "break_inv st'"
    and j: "\<forall>j. bp_is_set (cc_break_points st' ! j) \<longrightarrow> bp_is_set (cc_break_points st1 ! j) \<and>
        (j \<in> set is \<and> 0 < j \<longrightarrow> bp_type (cc_break_points st' ! j) \<noteq> type)"
    and ty: "map bp_type (cc_break_points st') = map bp_type (cc_break_points st1)" by auto
  have ty1: "map bp_type (cc_break_points st1) = map bp_type ?bps"
    using i by (simp add: pts map_update list_update_same_conv)
  have sub: "bp_is_set (?bps ! j)" if "bp_is_set (cc_break_points st1 ! j)" for j
    using that i by (auto simp: pts nth_list_update split: if_splits)
  have "bp_type (cc_break_points st' ! i) \<noteq> type" if "bp_is_set (cc_break_points st' ! i)" "0 < i"
  proof
    assume "bp_type (cc_break_points st' ! i) = type"
    moreover have "bp_type (cc_break_points st' ! i) = bp_type (?bps ! i)"
      using ty ty1 i(1) by (metis length_map nth_map)
    ultimately have "\<not> bp_is_set (cc_break_points st1 ! i)" using that(2) i(1) by (simp add: pts)
    with j that(1) show False by blast
  qed
  then show ?case using st' j ty ty1 sub step by auto
qed

lemma del_all_break_inv:
  assumes "break_inv st"
  shows "\<exists>st'. cpuctrl_del_all_break type st = Some st' \<and> break_inv st'"
proof -
  from del_break_loop_inv [OF assms, of "[0..<DBG_CPU_CONTROL_BREAK_SETSIZE]" type] obtain st' where
    st': "del_break_loop type [0..<DBG_CPU_CONTROL_BREAK_SETSIZE] st = Some st'" "break_inv st'"
    and j: "\<forall>j. bp_is_set (cc_break_points st' ! j) \<longrightarrow>
      (j < DBG_CPU_CONTROL_BREAK_SETSIZE \<and> 0 < j \<longrightarrow> bp_type (cc_break_points st' ! j) \<noteq> type)" by auto
  show ?thesis
  proof (cases type)
    case BREAK_POINT_TYPE_FOREVER
    then have "set_points (cc_break_points st') = {}"
      using j st'(2) by (auto simp: set_points_def break_inv_def)
    then have "break_inv (st'\<lparr>cc_break_points_num := 0\<rparr>)" using st'(2) by (simp add: break_inv_def)
    then show ?thesis using st'(1) BREAK_POINT_TYPE_FOREVER by (simp add: cpuctrl_del_all_break_def)
  next
    case BREAK_POINT_TYPE_ONLY_ONCE
    then show ?thesis using st' by (simp add: cpuctrl_del_all_break_def)
  qed
qed

text \<open>
  A debugging session that sets permanent break points only: any order of the public operations,
  and any other operation, which leaves the break points as they are.
\<close>

inductive break_session :: "cpuctrl_state \<Rightarrow> bool" where
  session_start: "break_session (cpuctrl_static core_num sy)"
| session_set: "break_session st \<Longrightarrow> break_session (snd (cpuctrl_set_break addr BREAK_POINT_TYPE_FOREVER st))"
| session_del: "break_session st \<Longrightarrow> unat index < DBG_CPU_CONTROL_BREAK_SETSIZE \<Longrightarrow>
    cpuctrl_del_break index st = Some (r, st') \<Longrightarrow> break_session st'"
| session_del_all: "break_session st \<Longrightarrow> cpuctrl_del_all_break type st = Some st' \<Longrightarrow> break_session st'"
| session_other: "break_session st \<Longrightarrow> cc_break_points st' = cc_break_points st \<Longrightarrow>
    cc_break_points_num st' = cc_break_points_num st \<Longrightarrow> break_session st'"

lemma static_break_inv: "break_inv (cpuctrl_static core_num sy)"
proof -
  have "set_points dbg_cpuctrl_break_points_init = {}"
    by (auto simp: set_points_def dbg_cpuctrl_break_points_init_def nth_Cons split: nat.splits)
  moreover have "bp_type (dbg_cpuctrl_break_points_init ! j) = BREAK_POINT_TYPE_FOREVER"
    if "j < DBG_CPU_CONTROL_BREAK_SETSIZE" for j
    using that by (cases j) (simp_all add: dbg_cpuctrl_break_points_init_def)
  ultimately show ?thesis
    by (simp add: break_inv_def cpuctrl_static_def)
       (simp add: dbg_cpuctrl_break_points_init_def DBG_CPU_CONTROL_BREAK_SETSIZE_def)
qed

lemma break_session_inv: "break_session st \<Longrightarrow> break_inv st"
proof (induction rule: break_session.induct)
  case (session_start core_num sy)
  show ?case by (rule static_break_inv)
next
  case (session_set st addr)
  then show ?case by (simp add: set_break_inv)
next
  case (session_del st index r st')
  from del_break_inv [OF session_del.IH session_del.hyps(2)] session_del.hyps(3) show ?case by auto
next
  case (session_del_all st type st')
  from del_all_break_inv [OF session_del_all.IH, of type] session_del_all.hyps(2) show ?case by auto
next
  case (session_other st st')
  then show ?case by (simp add: break_inv_def)
qed

lemma search_break_point_iff:
  "search_break_point addr bps \<noteq> None \<longleftrightarrow> (\<exists>i<length bps. bp_is_set (bps ! i) \<and> bp_addr (bps ! i) = addr)"
  unfolding search_break_point_def
proof
  assume "find_first (\<lambda>b. bp_is_set b \<and> bp_addr b = addr) bps \<noteq> None"
  then show "\<exists>i<length bps. bp_is_set (bps ! i) \<and> bp_addr (bps ! i) = addr"
    by (auto simp: find_first_Some_iff)
next
  assume "\<exists>i<length bps. bp_is_set (bps ! i) \<and> bp_addr (bps ! i) = addr"
  then show "find_first (\<lambda>b. bp_is_set b \<and> bp_addr b = addr) bps \<noteq> None"
    unfolding find_first_None_iff using nth_mem by blast
qed

lemma listed_iff:
  assumes "length (cc_break_points st) = DBG_CPU_CONTROL_BREAK_SETSIZE"
  shows "(\<exists>index. cpuctrl_get_break index st = Some addr) \<longleftrightarrow> search_break_point addr (cc_break_points st) \<noteq> None"
proof
  assume "\<exists>index. cpuctrl_get_break index st = Some addr"
  then obtain index where "cpuctrl_get_break index st = Some addr" by blast
  then have "unat index < length (cc_break_points st)" "bp_is_set (cc_break_points st ! unat index)"
    "bp_addr (cc_break_points st ! unat index) = addr"
    using assms by (auto simp: cpuctrl_get_break_def split: if_splits)
  then show "search_break_point addr (cc_break_points st) \<noteq> None"
    unfolding search_break_point_iff by blast
next
  assume "search_break_point addr (cc_break_points st) \<noteq> None"
  then obtain i where i: "i < length (cc_break_points st)" "bp_is_set (cc_break_points st ! i)"
    "bp_addr (cc_break_points st ! i) = addr"
    unfolding search_break_point_iff by blast
  have "unat (of_nat i :: uint32) = i"
    using i(1) assms by (simp add: DBG_CPU_CONTROL_BREAK_SETSIZE_def unat_of_nat take_bit_nat_eq_self)
  with i assms show "\<exists>index. cpuctrl_get_break index st = Some addr"
    by (intro exI [of _ "of_nat i"]) (simp add: cpuctrl_get_break_def)
qed

lemma break_inv_hit:
  assumes inv: "break_inv st"
  shows "cpuctrl_is_break_point addr st \<longleftrightarrow> search_break_point addr (cc_break_points st) \<noteq> None"
proof (cases "cc_break_points_num st > 0")
  case True
  then show ?thesis by (simp add: cpuctrl_is_break_point_def)
next
  case False
  with inv have none: "set_points (cc_break_points st) = {}" by (simp add: break_inv_def)
  have zero: "j = 0" if "j < length (cc_break_points st)" "bp_is_set (cc_break_points st ! j)" for j
    using that none by (cases j) (auto simp: set_points_def)
  have "bp_is_set (cc_break_points st ! 0)" "0 < length (cc_break_points st)"
    using inv by (simp_all add: break_inv_def DBG_CPU_CONTROL_BREAK_SETSIZE_def)
  with zero have "search_break_point addr (cc_break_points st) \<noteq> None \<longleftrightarrow> bp_addr (cc_break_points st ! 0) = addr"
    unfolding search_break_point_iff by blast
  then show ?thesis using False by (simp add: cpuctrl_is_break_point_def)
qed


text \<open>The break points after the first few operations of a session.\<close>

abbreviation (input) no_break :: DbgCpuCtrlBreakPointType where
  "no_break \<equiv> \<lparr>bp_is_set = False, bp_type = BREAK_POINT_TYPE_FOREVER, bp_addr = 0\<rparr>"

abbreviation (input) break_at :: "BreakPointEumType \<Rightarrow> uint32 \<Rightarrow> DbgCpuCtrlBreakPointType" where
  "break_at type addr \<equiv> \<lparr>bp_is_set = True, bp_type = type, bp_addr = addr\<rparr>"

lemma find_first_replicate: "find_first P (replicate n x) = (if 0 < n \<and> P x then Some 0 else None)"
  by (induction n) auto

lemma static_break_points:
  "cc_break_points (cpuctrl_static core_num sy) = break_at BREAK_POINT_TYPE_FOREVER 0 # replicate 127 no_break"
  "cc_break_points_num (cpuctrl_static core_num sy) = 0"
  by (simp_all add: cpuctrl_static_def dbg_cpuctrl_break_points_init_def DBG_CPU_CONTROL_BREAK_SETSIZE_def)

lemma replicate_127: "replicate 127 x = x # replicate 126 x" "replicate 126 x = x # replicate 125 x"
  by (simp_all add: replicate_app_Cons_same [symmetric] numeral_eq_Suc)

lemma first_forever:
  assumes "a \<noteq> 0"
  shows "snd (cpuctrl_set_break a BREAK_POINT_TYPE_FOREVER (cpuctrl_static core_num sy)) =
    (cpuctrl_static core_num sy)\<lparr>cc_break_points_num := 1, cc_break_points :=
      break_at BREAK_POINT_TYPE_FOREVER 0 # break_at BREAK_POINT_TYPE_FOREVER a # replicate 126 no_break\<rparr>"
  using assms
  by (simp add: cpuctrl_set_break_def static_break_points search_break_point_with_type_def
      search_free_break_point_space_def find_first_replicate replicate_127)

definition no_symbols :: symbol_state where
  "no_symbols = \<lparr>sy_func = [], sy_gl = [], sy_func_index = \<lparr>si_built_count = 0, si_order = [], si_max_end = []\<rparr>,
    sy_gl_index = \<lparr>si_built_count = 0, si_order = [], si_max_end = []\<rparr>, sy_last_funcid = -1, sy_last_glid = -1\<rparr>"


lemma del_break_loop_append:
  "del_break_loop type (is @ js) st = Option.bind (del_break_loop type is st) (del_break_loop type js)"
  by (induction "is" arbitrary: st) (auto split: Option.bind_splits)

lemma del_break_loop_skip:
  "\<forall>i\<in>set is. i < length (cc_break_points st) \<and> bp_type (cc_break_points st ! i) \<noteq> type \<Longrightarrow>
    del_break_loop type is st = Some st"
  by (induction "is") simp_all

text \<open>
  One-shot break points. The debugger's \<open>return\<close> command sets a one-shot break point
  and every stop of the CPU deletes those. Alone, a one-shot break point is never hit, because it
  is not counted. Next to one permanent break point, its deletion takes the permanent one out of
  the count: the permanent break point is still listed and the CPU no longer stops there.
\<close>

theorem one_shot_break_points_disarm:
  assumes "a \<noteq> 0" "b \<noteq> 0" "st0 = cpuctrl_static core_num sy"
  shows "\<not> cpuctrl_is_break_point b (snd (cpuctrl_set_break b BREAK_POINT_TYPE_ONLY_ONCE st0)) \<and>
    (\<exists>st. cpuctrl_del_all_break BREAK_POINT_TYPE_ONLY_ONCE
        (snd (cpuctrl_set_break b BREAK_POINT_TYPE_ONLY_ONCE
          (snd (cpuctrl_set_break a BREAK_POINT_TYPE_FOREVER st0)))) = Some st \<and>
      cpuctrl_get_break 1 st = Some a \<and> \<not> cpuctrl_is_break_point a st)"
proof (intro conjI)
  show "\<not> cpuctrl_is_break_point b (snd (cpuctrl_set_break b BREAK_POINT_TYPE_ONLY_ONCE st0))"
    using assms
    by (simp add: cpuctrl_set_break_def static_break_points search_break_point_with_type_def
        search_free_break_point_space_def find_first_replicate replicate_127 cpuctrl_is_break_point_def)
  let ?st2 = "st0\<lparr>cc_break_points_num := 1, cc_break_points := break_at BREAK_POINT_TYPE_FOREVER 0 #
      break_at BREAK_POINT_TYPE_FOREVER a # break_at BREAK_POINT_TYPE_ONLY_ONCE b # replicate 125 no_break\<rparr>"
  let ?st3 = "st0\<lparr>cc_break_points_num := 0, cc_break_points := break_at BREAK_POINT_TYPE_FOREVER 0 #
      break_at BREAK_POINT_TYPE_FOREVER a # (break_at BREAK_POINT_TYPE_ONLY_ONCE b)\<lparr>bp_is_set := False\<rparr> #
      replicate 125 no_break\<rparr>"
  have set2: "snd (cpuctrl_set_break b BREAK_POINT_TYPE_ONLY_ONCE
      (snd (cpuctrl_set_break a BREAK_POINT_TYPE_FOREVER st0))) = ?st2"
    using assms
    by (simp add: first_forever cpuctrl_set_break_def [of b] search_break_point_with_type_def
        search_free_break_point_space_def find_first_replicate replicate_127)
  have split: "[0..<DBG_CPU_CONTROL_BREAK_SETSIZE] = [0, 1, 2] @ [3..<DBG_CPU_CONTROL_BREAK_SETSIZE]"
    by (simp add: DBG_CPU_CONTROL_BREAK_SETSIZE_def upt_rec)
  have l1: "del_break_loop BREAK_POINT_TYPE_ONLY_ONCE [0, 1, 2] ?st2 = Some ?st3"
    by (simp add: cpuctrl_del_break_def index_at_def)
  have l2: "del_break_loop BREAK_POINT_TYPE_ONLY_ONCE [3..<DBG_CPU_CONTROL_BREAK_SETSIZE] ?st3 = Some ?st3"
    by (rule del_break_loop_skip) (auto simp: DBG_CPU_CONTROL_BREAK_SETSIZE_def nth_Cons split: nat.splits)
  have "cpuctrl_del_all_break BREAK_POINT_TYPE_ONLY_ONCE ?st2 = Some ?st3"
    unfolding cpuctrl_del_all_break_def split del_break_loop_append l1 Option.bind.bind_lunit l2 by simp
  then show "\<exists>st. cpuctrl_del_all_break BREAK_POINT_TYPE_ONLY_ONCE
        (snd (cpuctrl_set_break b BREAK_POINT_TYPE_ONLY_ONCE
          (snd (cpuctrl_set_break a BREAK_POINT_TYPE_FOREVER st0)))) = Some st \<and>
      cpuctrl_get_break 1 st = Some a \<and> \<not> cpuctrl_is_break_point a st"
    using assms(1) unfolding set2
    by (simp add: cpuctrl_get_break_def cpuctrl_is_break_point_def DBG_CPU_CONTROL_BREAK_SETSIZE_def)
qed

theorem one_shot_break_points_disarm_witness:
  "\<exists>st. cpuctrl_del_all_break BREAK_POINT_TYPE_ONLY_ONCE
        (snd (cpuctrl_set_break 0x200 BREAK_POINT_TYPE_ONLY_ONCE
          (snd (cpuctrl_set_break 0x100 BREAK_POINT_TYPE_FOREVER (cpuctrl_static 1 no_symbols))))) = Some st \<and>
      cpuctrl_get_break 1 st = Some 0x100 \<and> \<not> cpuctrl_is_break_point 0x100 st"
  using one_shot_break_points_disarm [of "0x100" "0x200" "cpuctrl_static 1 no_symbols" 1 no_symbols] by simp

section \<open>Data watch points\<close>

text \<open>The tables of the access records fit the symbols, as \<open>cpuctrl_init\<close> makes them.\<close>

definition access_inv :: "cpuctrl_state \<Rightarrow> bool" where
  "access_inv st \<longleftrightarrow> symbols_inv (cc_symbols st) \<and>
    length (cc_access_info_table_gl st) = length (sy_gl (cc_symbols st)) \<and>
    (\<forall>inx. Some inx \<in> set (cc_access_info_table_gl st) \<longrightarrow> inx < length (cc_access_info st))"

lemma lookup_spec_bound: "lookup_spec table lst addr i start lst' \<Longrightarrow> \<not> i < 0 \<Longrightarrow> nat i < length table"
  and lookup_spec_start: "lookup_spec table lst addr i start lst' \<Longrightarrow> \<not> i < 0 \<Longrightarrow> start = Some (ds_addr (table ! nat i))"
  by (auto simp: lookup_spec_def)

lemma access_context_add_ok:
  assumes inv: "access_inv st" and inx: "inx < length (cc_access_info st)"
  shows "\<exists>st'. cpuctrl_access_context_add env t inx st = Some st' \<and> access_inv st' \<and>
    cc_data_watch_points st' = cc_data_watch_points st"
proof -
  have sinv: "symbols_inv (cc_symbols st)" using inv by (simp add: access_inv_def)
  obtain glid start sy where "symbol_addr2glid (cc_current_sp st) (cc_symbols st) = (glid, start, sy)"
    "symbols_inv sy" "sy_gl sy = sy_gl (cc_symbols st)"
    using symbol_addr2glidE [OF sinv] by metis
  then show ?thesis using inv inx
    by (auto simp: cpuctrl_access_context_add_def access_inv_def Let_def)
qed

lemma set_access_loop_ok:
  assumes "access_inv st"
  shows "\<exists>st'. set_access_loop env t a is prev st = Some st' \<and> access_inv st' \<and>
    cc_data_watch_points st' = cc_data_watch_points st"
  using assms
proof (induction "is" arbitrary: prev st)
  case Nil
  then show ?case by simp
next
  case (Cons i "is")
  have sinv: "symbols_inv (cc_symbols st)" using Cons.prems by (simp add: access_inv_def)
  obtain glid start sy where g: "symbol_addr2glid (a + of_nat i) (cc_symbols st) = (glid, start, sy)"
    "symbols_inv sy" "sy_gl sy = sy_gl (cc_symbols st)" and bound: "\<not> glid < 0 \<Longrightarrow> nat glid < length (sy_gl (cc_symbols st))"
    using symbol_addr2glidE [OF sinv, of "a + of_nat i"] lookup_spec_bound by metis
  let ?st1 = "st\<lparr>cc_symbols := sy\<rparr>"
  let ?st2 = "?st1\<lparr>cc_current_access_glid := word_of_int glid\<rparr>"
  have i1: "access_inv ?st1" "access_inv ?st2" using Cons.prems g(2,3) by (simp_all add: access_inv_def)
  consider "glid < 0 \<or> glid = prev" | "\<not> glid < 0" "glid \<noteq> prev" by blast
  then show ?case
  proof cases
    case 1
    then have "set_access_loop env t a (i # is) prev st = set_access_loop env t a is prev ?st1"
      using g(1) by (auto simp: Let_def)
    with Cons.IH [OF i1(1), of prev] show ?thesis by simp
  next
    case 2
    have n: "nat glid < length (cc_access_info_table_gl st)"
      using bound [OF 2(1)] Cons.prems by (simp add: access_inv_def)
    show ?thesis
    proof (cases "cc_access_info_table_gl st ! nat glid")
      case None
      then have "set_access_loop env t a (i # is) prev st = set_access_loop env t a is prev ?st2"
        using g(1) 2 n by (simp add: Let_def)
      with Cons.IH [OF i1(2), of prev] show ?thesis by simp
    next
      case (Some inx)
      then have "inx < length (cc_access_info ?st2)"
        using Cons.prems nth_mem [OF n] by (simp add: access_inv_def)
      from access_context_add_ok [OF i1(2) this, of env t] obtain st3 where
        st3: "cpuctrl_access_context_add env t inx ?st2 = Some st3" "access_inv st3"
        "cc_data_watch_points st3 = cc_data_watch_points ?st2" by blast
      have "set_access_loop env t a (i # is) prev st = set_access_loop env t a is glid st3"
        using g(1) 2 n Some st3(1) by (simp add: Let_def)
      with Cons.IH [OF st3(2), of glid] st3(3) show ?thesis by simp
    qed
  qed
qed

definition watch_bytes :: "DbgCpuCtrlDataWatchType \<Rightarrow> nat set" where
  "watch_bytes w = {unat (dw_addr w)..<unat (dw_addr w) + unat (dw_size w)}"

definition access_bytes :: "AthrillAddrType \<Rightarrow> uint32 \<Rightarrow> nat set" where
  "access_bytes a n = {unat a..<unat a + unat n}"

text \<open>Watch points that are not empty and end below the top of the address space.\<close>

definition watch_ok :: "DbgCpuCtrlDataWatchType \<Rightarrow> bool" where
  "watch_ok w \<longleftrightarrow> 0 < dw_size w \<and> unat (dw_addr w) + unat (dw_size w) < 2 ^ 32"

lemma access_overlaps_iff:
  assumes "watch_ok w" "0 < n" "unat a + unat n < 2 ^ 32"
  shows "access_overlaps a (a + n) w \<longleftrightarrow> access_bytes a n \<inter> watch_bytes w \<noteq> {}"
proof -
  have e: "unat (a + n) = unat a + unat n" "unat (dw_addr w + dw_size w) = unat (dw_addr w) + unat (dw_size w)"
    using assms by (simp_all add: unat_add_nowrap watch_ok_def)
  have pos: "0 < unat n" "0 < unat (dw_size w)"
    using assms by (simp_all add: watch_ok_def unat_gt_0 word_neq_0_conv)
  have "access_overlaps a (a + n) w \<longleftrightarrow>
      unat (dw_addr w) < unat a + unat n \<and> unat a < unat (dw_addr w) + unat (dw_size w)"
    by (simp add: access_overlaps_def word_le_nat_alt e not_le)
  also have "\<dots> \<longleftrightarrow> max (unat a) (unat (dw_addr w)) \<in> access_bytes a n \<inter> watch_bytes w"
    using pos by (auto simp: access_bytes_def watch_bytes_def)
  also have "\<dots> \<longleftrightarrow> access_bytes a n \<inter> watch_bytes w \<noteq> {}"
    by (auto simp: access_bytes_def watch_bytes_def)
  finally show ?thesis .
qed

text \<open>The result of an access check: the first watch point of a matching type that shares a byte.\<close>

definition first_watch ::
  "DataWatchPointEumType set \<Rightarrow> AthrillAddrType \<Rightarrow> uint32 \<Rightarrow> DbgCpuCtrlDataWatchType list \<Rightarrow> int \<Rightarrow> bool" where
  "first_watch types a n ws r \<longleftrightarrow>
    (let hit = (\<lambda>w. dw_is_set w \<and> dw_type w \<in> types \<and> access_bytes a n \<inter> watch_bytes w \<noteq> {})
     in if \<exists>w\<in>set ws. hit w then \<exists>i<length ws. r = int i \<and> hit (ws ! i) \<and> (\<forall>j<i. \<not> hit (ws ! j)) else r = -1)"

lemma first_watch_head:
  assumes f: "first_watch types a n (w # ws) r"
    and hit: "dw_is_set w" "dw_type w \<in> types" "access_bytes a n \<inter> watch_bytes w \<noteq> {}"
  shows "r = 0"
proof -
  have "\<exists>w'\<in>set (w # ws). dw_is_set w' \<and> dw_type w' \<in> types \<and> access_bytes a n \<inter> watch_bytes w' \<noteq> {}"
    using hit by auto
  from f [unfolded first_watch_def Let_def if_P [OF this]] obtain i where r: "r = int i"
    and no: "\<forall>j<i. \<not> (dw_is_set ((w # ws) ! j) \<and> dw_type ((w # ws) ! j) \<in> types \<and>
        access_bytes a n \<inter> watch_bytes ((w # ws) ! j) \<noteq> {})" by blast
  have "\<not> 0 < i" using no hit by (metis nth_Cons_0)
  with r show ?thesis by simp
qed

lemma watch_hit_first:
  assumes ok: "\<And>w. w \<in> set ws \<Longrightarrow> dw_is_set w \<Longrightarrow> watch_ok w" and n: "0 < n" "unat a + unat n < 2 ^ 32"
    and types: "\<And>t. t \<in> types \<longleftrightarrow> t \<noteq> other"
  shows "first_watch types a n ws (watch_hit other a (a + n) ws)"
proof -
  let ?P = "\<lambda>w. dw_is_set w \<and> dw_type w \<noteq> other \<and> access_overlaps a (a + n) w"
  let ?Q = "\<lambda>w. dw_is_set w \<and> dw_type w \<in> types \<and> access_bytes a n \<inter> watch_bytes w \<noteq> {}"
  have PQ: "?P w \<longleftrightarrow> ?Q w" if "w \<in> set ws" for w
    using access_overlaps_iff [OF ok [OF that] n] types by blast
  show ?thesis
  proof (cases "find_first ?P ws")
    case None
    then have "\<not> (\<exists>w\<in>set ws. ?Q w)" using PQ unfolding find_first_None_iff by blast
    then show ?thesis using None by (simp add: first_watch_def watch_hit_def Let_def)
  next
    case (Some i)
    then have i: "i < length ws" "?P (ws ! i)" "\<forall>j<i. \<not> ?P (ws ! j)" by (simp_all add: find_first_Some_iff)
    have at: "?P (ws ! j) \<longleftrightarrow> ?Q (ws ! j)" if "j \<le> i" for j using PQ that i(1) by simp
    have "?Q (ws ! i)" "\<forall>j<i. \<not> ?Q (ws ! j)" using i(2,3) at by (meson order_refl, meson less_imp_le_nat)
    moreover from this(1) have "\<exists>w\<in>set ws. ?Q w" using i(1) nth_mem by blast
    ultimately show ?thesis using Some i(1) by (simp add: first_watch_def watch_hit_def Let_def)
  qed
qed

lemma access_context_add_mode:
  "cpuctrl_access_context_add env t i st = Some st' \<Longrightarrow> cc_dbg_mode st' = cc_dbg_mode st"
  by (auto simp: cpuctrl_access_context_add_def Let_def split: prod.splits if_splits bind_splits)

lemma set_access_loop_mode:
  "set_access_loop env t a is prev st = Some st' \<Longrightarrow> cc_dbg_mode st' = cc_dbg_mode st"
proof (induction "is" arbitrary: prev st)
  case (Cons i "is")
  from Cons.prems show ?case
    by (auto simp: Let_def dest!: Cons.IH access_context_add_mode split: prod.splits if_splits option.splits)
qed simp

lemma is_break_access_ok:
  assumes "access_inv st" "\<And>w. w \<in> set (cc_data_watch_points st) \<Longrightarrow> dw_is_set w \<Longrightarrow> watch_ok w"
    and "0 < n" "unat a + unat n < 2 ^ 32"
  shows "\<exists>r st'. cpuctrl_is_break_read_access env a n st = Some (r, st') \<and> access_inv st' \<and>
      cc_data_watch_points st' = cc_data_watch_points st \<and> cc_dbg_mode st' = cc_dbg_mode st \<and>
      first_watch {DATA_WATCH_POINT_TYPE_READ, DATA_WATCH_POINT_TYPE_RW} a n (cc_data_watch_points st) r"
    and "\<exists>r st'. cpuctrl_is_break_write_access env a n st = Some (r, st') \<and> access_inv st' \<and>
      cc_data_watch_points st' = cc_data_watch_points st \<and> cc_dbg_mode st' = cc_dbg_mode st \<and>
      first_watch {DATA_WATCH_POINT_TYPE_WRITE, DATA_WATCH_POINT_TYPE_RW} a n (cc_data_watch_points st) r"
proof -
  have t: "x \<in> {DATA_WATCH_POINT_TYPE_READ, DATA_WATCH_POINT_TYPE_RW} \<longleftrightarrow> x \<noteq> DATA_WATCH_POINT_TYPE_WRITE"
    "x \<in> {DATA_WATCH_POINT_TYPE_WRITE, DATA_WATCH_POINT_TYPE_RW} \<longleftrightarrow> x \<noteq> DATA_WATCH_POINT_TYPE_READ" for x
    by (cases x; simp)+
  show "\<exists>r st'. cpuctrl_is_break_read_access env a n st = Some (r, st') \<and> access_inv st' \<and>
      cc_data_watch_points st' = cc_data_watch_points st \<and> cc_dbg_mode st' = cc_dbg_mode st \<and>
      first_watch {DATA_WATCH_POINT_TYPE_READ, DATA_WATCH_POINT_TYPE_RW} a n (cc_data_watch_points st) r"
    using watch_hit_first [OF assms(2-4) t(1)]
      set_access_loop_ok [OF assms(1), of env ACCESS_TYPE_READ a "[0..<unat n]" "-1"]
    by (auto simp: cpuctrl_is_break_read_access_def cpuctrl_set_access_def dest: set_access_loop_mode)
  show "\<exists>r st'. cpuctrl_is_break_write_access env a n st = Some (r, st') \<and> access_inv st' \<and>
      cc_data_watch_points st' = cc_data_watch_points st \<and> cc_dbg_mode st' = cc_dbg_mode st \<and>
      first_watch {DATA_WATCH_POINT_TYPE_WRITE, DATA_WATCH_POINT_TYPE_RW} a n (cc_data_watch_points st) r"
    using watch_hit_first [OF assms(2-4) t(2)]
      set_access_loop_ok [OF assms(1), of env ACCESS_TYPE_WRITE a "[0..<unat n]" "-1"]
    by (auto simp: cpuctrl_is_break_write_access_def cpuctrl_set_access_def dest: set_access_loop_mode)
qed

text \<open>
  Data watch points. For an access of at least one byte that does not reach the top of the
  address space, the checks of reads and writes succeed; the check of a read (write) reports the
  first set watch point for reads (writes) or for both kinds of access that shares a byte with
  the access, and -1 when there is none. The watch points stay as they are.
\<close>

theorem data_watch_check_correct:
  assumes "access_inv st" "\<And>w. w \<in> set (cc_data_watch_points st) \<Longrightarrow> dw_is_set w \<Longrightarrow> watch_ok w"
    and "0 < n" "unat a + unat n < 2 ^ 32"
  shows "(\<exists>r st'. cpuctrl_is_break_read_access env a n st = Some (r, st') \<and> access_inv st' \<and>
      cc_data_watch_points st' = cc_data_watch_points st \<and>
      first_watch {DATA_WATCH_POINT_TYPE_READ, DATA_WATCH_POINT_TYPE_RW} a n (cc_data_watch_points st) r) \<and>
    (\<exists>r st'. cpuctrl_is_break_write_access env a n st = Some (r, st') \<and> access_inv st' \<and>
      cc_data_watch_points st' = cc_data_watch_points st \<and>
      first_watch {DATA_WATCH_POINT_TYPE_WRITE, DATA_WATCH_POINT_TYPE_RW} a n (cc_data_watch_points st) r)"
  using is_break_access_ok [OF assms, of env] by blast

definition example_watch :: cpuctrl_state where
  "example_watch = snd (cpuctrl_set_data_watch DATA_WATCH_POINT_TYPE_RW 0x1000 4 (cpuctrl_static 1 no_symbols))"

lemma example_watch_points:
  "cc_data_watch_points example_watch =
    \<lparr>dw_is_set = True, dw_type = DATA_WATCH_POINT_TYPE_RW, dw_addr = 0x1000, dw_size = 4\<rparr>
    # replicate 127 \<lparr>dw_is_set = False, dw_type = DATA_WATCH_POINT_TYPE_READ, dw_addr = 0, dw_size = 0\<rparr>"
  "access_inv example_watch"
proof -
  let ?w = "\<lparr>dw_is_set = False, dw_type = DATA_WATCH_POINT_TYPE_READ, dw_addr = 0, dw_size = 0\<rparr>"
  have r: "replicate 128 ?w = ?w # replicate 127 ?w" by (simp add: numeral_eq_Suc)
  show "cc_data_watch_points example_watch =
    \<lparr>dw_is_set = True, dw_type = DATA_WATCH_POINT_TYPE_RW, dw_addr = 0x1000, dw_size = 4\<rparr> # replicate 127 ?w"
    by (simp add: example_watch_def cpuctrl_set_data_watch_def cpuctrl_static_def Let_def
        DBG_CPU_CONTROL_WATCH_DATA_SETSIZE_def r find_first_replicate)
  show "access_inv example_watch"
    by (simp add: example_watch_def cpuctrl_set_data_watch_def cpuctrl_static_def Let_def access_inv_def
        no_symbols_def symbols_inv_def index_inv_def index_ok_def split: option.split)
qed

theorem data_watch_check_correct_witness:
  "\<exists>st'. cpuctrl_is_break_read_access \<lparr>ce_core_id = 0, ce_core_sp = 0, ce_total_clocks = 0\<rparr> 0x1002 4 example_watch
    = Some (0, st')"
proof -
  have ok: "watch_ok w" if "w \<in> set (cc_data_watch_points example_watch)" "dw_is_set w" for w
    using that by (auto simp: example_watch_points(1) watch_ok_def)
  have "r = 0" if "first_watch {DATA_WATCH_POINT_TYPE_READ, DATA_WATCH_POINT_TYPE_RW} 0x1002 4
      (cc_data_watch_points example_watch) r" for r
  proof -
    let ?w = "\<lparr>dw_is_set = True, dw_type = DATA_WATCH_POINT_TYPE_RW, dw_addr = 0x1000, dw_size = 4\<rparr>"
    have "0x1002 \<in> access_bytes 0x1002 4 \<inter> watch_bytes ?w" by (simp add: access_bytes_def watch_bytes_def)
    then show ?thesis using that unfolding example_watch_points(1) by (intro first_watch_head [of _ _ _ ?w]) auto
  qed
  with data_watch_check_correct [OF example_watch_points(2) ok, of 4 "0x1002"
      "\<lparr>ce_core_id = 0, ce_core_sp = 0, ce_total_clocks = 0\<rparr>"]
  show ?thesis by fastforce
qed

end
