(* ===== verification/CpuRecordLaws.thy ===== *)
theory CpuRecordLaws
  imports CpuControlLaws
begin

text \<open>
  The records the debugger keeps while the CPU runs: the function log is the bounded history of
  entered functions, the stack frame record is the chain of the stack pointers of a stack, and a
  continuation by clocks expires after exactly as many checks.
\<close>

section \<open>The function log\<close>

definition log_inv :: "DbgFuncLogTraceType \<Rightarrow> bool" where
  "log_inv t \<longleftrightarrow> 0 < unat (lt_logmax t) \<and> unat (lt_logmax t) < 2 ^ 31 \<and>
    length (lt_entry_array t) = unat (lt_logmax t) \<and> unat (lt_lognum t) \<le> unat (lt_logmax t) \<and>
    unat (lt_current t) < unat (lt_logmax t) \<and>
    (0 < unat (lt_lognum t) \<and> unat (lt_lognum t) < unat (lt_logmax t) \<longrightarrow> Suc (unat (lt_current t)) = unat (lt_lognum t))"

text \<open>The logged entries, the latest first.\<close>

definition log_history :: "DbgFuncLogTraceType \<Rightarrow> DbgFuncLogTraceEntryType list" where
  "log_history t =
    map (\<lambda>k. lt_entry_array t ! ((unat (lt_current t) + unat (lt_logmax t) - k) mod unat (lt_logmax t)))
      [0..<unat (lt_lognum t)]"

lemma length_log_history [simp]: "length (log_history t) = unat (lt_lognum t)"
  by (simp add: log_history_def)

lemma ring_next:
  fixes c m k :: nat
  assumes "c < m" "0 < k" "k \<le> m"
  shows "((if Suc c \<ge> m then 0 else Suc c) + m - k) mod m = (c + m - (k - 1)) mod m"
proof (cases "Suc c \<ge> m")
  case True
  then have e: "c + m - (k - 1) = (m - k) + m" using assms by linarith
  show ?thesis unfolding e if_P [OF True] by simp
next
  case False
  then have e: "Suc c + m - k = c + m - (k - 1)" using assms by linarith
  show ?thesis unfolding if_not_P [OF False] e ..
qed

lemma ring_back_neq:
  fixes n m k :: nat
  assumes "n < m" "0 < k" "k < m"
  shows "(n + m - k) mod m \<noteq> n"
proof (cases "n < k")
  case True
  then have "(n + m - k) mod m = n + m - k" using assms by (intro mod_less) linarith
  with assms show ?thesis by linarith
next
  case False
  then have e: "n + m - k = (n - k) + m" by linarith
  have "(n - k) mod m = n - k" using assms(1) by (intro mod_less) linarith
  with assms(2) False show ?thesis unfolding e mod_add_self2 by linarith
qed

text \<open>Writing the next slot of the ring puts the entry in front of the history.\<close>

lemma log_history_push:
  assumes inv: "log_inv t" and n: "unat n = (if lt_lognum t = 0 then 0 else if Suc (unat (lt_current t)) \<ge> unat (lt_logmax t) then 0 else Suc (unat (lt_current t)))"
    and t': "t' = t\<lparr>lt_current := n, lt_entry_array := (lt_entry_array t)[unat n := e],
      lt_lognum := (if lt_lognum t < lt_logmax t then lt_lognum t + 1 else lt_lognum t)\<rparr>"
  shows "log_inv t'" "log_history t' = take (unat (lt_logmax t)) (e # log_history t)"
proof -
  let ?m = "unat (lt_logmax t)" and ?c = "unat (lt_current t)" and ?l = "unat (lt_lognum t)"
  have i: "0 < ?m" "?m < 2 ^ 31" "length (lt_entry_array t) = ?m" "?l \<le> ?m" "?c < ?m"
    "0 < ?l \<and> ?l < ?m \<longrightarrow> Suc ?c = ?l" using inv by (simp_all add: log_inv_def)
  have nm: "unat n < ?m" using n i by auto
  have l0: "lt_lognum t = 0 \<longleftrightarrow> ?l = 0" by (simp add: unat_eq_0)
  have l': "unat (lt_lognum t') = min (Suc ?l) ?m"
    using i(4) unat_plus_one [of "lt_lognum t" "lt_logmax t"] by (auto simp: t' word_less_nat_alt)
  have f: "lt_logmax t' = lt_logmax t" "lt_current t' = n" "lt_entry_array t' = (lt_entry_array t)[unat n := e]"
    by (simp_all add: t')
  show "log_inv t'"
    unfolding log_inv_def f l' using i nm n l0 by (auto split: if_splits)
  show "log_history t' = take ?m (e # log_history t)"
  proof (rule nth_equalityI)
    show "length (log_history t') = length (take ?m (e # log_history t))" using l' by simp
    fix k assume "k < length (log_history t')"
    then have k: "k < Suc ?l" "k < ?m" using l' by simp_all
    have h': "log_history t' ! k = (lt_entry_array t)[unat n := e] ! ((unat n + ?m - k) mod ?m)"
      using k by (simp add: log_history_def l' f)
    show "log_history t' ! k = take ?m (e # log_history t) ! k"
    proof (cases k)
      case 0
      then show ?thesis using h' nm i by simp
    next
      case (Suc j)
      then have "\<not> ?l = 0" using k by simp
      then have "(unat n + ?m - k) mod ?m = (?c + ?m - j) mod ?m"
        using ring_next [OF i(5), of k] k Suc n l0 by simp
      moreover have "(unat n + ?m - k) mod ?m \<noteq> unat n" using ring_back_neq [OF nm] k Suc by simp
      ultimately have "log_history t' ! k = lt_entry_array t ! ((?c + ?m - j) mod ?m)" using h' by simp
      then show ?thesis using k Suc by (simp add: log_history_def)
    qed
  qed
qed

lemma push_func_log_history:
  assumes inv: "log_inv t"
  shows "\<exists>t'. push_func_log e t = Some t' \<and> log_inv t' \<and>
    log_history t' = (if log_history t \<noteq> [] \<and> le_funcpc (hd (log_history t)) = le_funcpc e then log_history t
                      else take (unat (lt_logmax t)) (e # log_history t))"
proof -
  let ?m = "unat (lt_logmax t)" and ?c = "unat (lt_current t)"
  have i: "0 < ?m" "length (lt_entry_array t) = ?m" "?c < ?m" using inv by (simp_all add: log_inv_def)
  have ne: "log_history t \<noteq> [] \<longleftrightarrow> lt_lognum t > 0"
    by (metis length_0_conv length_log_history unat_0 unat_eq_zero word_gt_0)
  have hd: "hd (log_history t) = lt_entry_array t ! ?c" if "lt_lognum t > 0"
    using that ne i(3) by (simp add: log_history_def hd_map hd_conv_nth unat_gt_0 word_gt_0)
  have suc: "unat (lt_current t + 1) = Suc ?c" using i(3) by (rule unat_plus_one)
  have le: "lt_current t + 1 \<ge> lt_logmax t \<longleftrightarrow> Suc ?c \<ge> ?m" by (simp add: word_le_nat_alt suc)
  define n where "n = (if lt_lognum t = 0 then 0 else if Suc ?c \<ge> ?m then 0 else lt_current t + 1)"
  have n: "unat n = (if lt_lognum t = 0 then 0 else if Suc ?c \<ge> ?m then 0 else Suc ?c)"
    by (simp add: n_def suc)
  then have nm: "unat n < length (lt_entry_array t)" using i by auto
  note push = log_history_push [OF inv n refl, of e]
  show ?thesis
  proof (cases "lt_lognum t > 0 \<and> le_funcpc (lt_entry_array t ! ?c) = le_funcpc e")
    case True
    then show ?thesis using inv i ne hd by (simp add: push_func_log_def)
  next
    case False
    then have "push_func_log e t = Some (t\<lparr>lt_current := n, lt_entry_array := (lt_entry_array t)[unat n := e],
        lt_lognum := (if lt_lognum t < lt_logmax t then lt_lognum t + 1 else lt_lognum t)\<rparr>)"
      using i nm le by (auto simp: push_func_log_def n_def word_gt_0)
    then show ?thesis using push False ne hd by auto
  qed
qed

lemma func_log_entry_history:
  assumes inv: "log_inv t"
  shows "func_log_entry k t = Some (if unat k < length (log_history t) then Some (log_history t ! unat k) else None)"
proof -
  let ?m = "unat (lt_logmax t)" and ?c = "unat (lt_current t)" and ?l = "unat (lt_lognum t)"
  have i: "0 < ?m" "?m < 2 ^ 31" "length (lt_entry_array t) = ?m" "?l \<le> ?m" "?c < ?m"
    using inv by (simp_all add: log_inv_def)
  have small: "sint w = int (unat w)" if "unat w < 2 ^ 31" for w :: uint32
  proof -
    have "int (unat w) < int (2 ^ 31)" using that by (simp only: of_nat_less_iff)
    then have "uint w < 2 ^ 31" by simp
    moreover have "- (2 ^ 31) \<le> uint w" by (rule order_trans [OF _ uint_ge_0]) simp
    ultimately have "signed_take_bit 31 (uint w) = uint w" by (intro signed_take_bit_int_eq_self)
    then show ?thesis by (simp add: sint_uint)
  qed
  show ?thesis
  proof (cases "unat k < ?l")
    case False
    then show ?thesis by (simp add: func_log_entry_def word_le_nat_alt)
  next
    case True
    define off where "off = (if lt_current t \<ge> k then lt_current t - k else lt_logmax t - (k - lt_current t))"
    have u: "unat off = (?c + ?m - unat k) mod ?m"
    proof (cases "lt_current t \<ge> k")
      case True
      then have "unat off = ?c - unat k" by (simp add: off_def unat_sub)
      moreover have e: "?c + ?m - unat k = (?c - unat k) + ?m"
        using True unfolding word_le_nat_alt by linarith
      moreover have "(?c - unat k) mod ?m = ?c - unat k" using i(5) by (intro mod_less) linarith
      ultimately show ?thesis unfolding e mod_add_self2 by linarith
    next
      case False
      then have le: "lt_current t \<le> k" "k - lt_current t \<le> lt_logmax t" "?c < unat k"
        using \<open>unat k < ?l\<close> i by (auto simp: word_le_nat_alt unat_sub not_le)
      then have "unat off = ?m - (unat k - ?c)" using False by (simp add: off_def unat_sub)
      moreover have "(?c + ?m - unat k) mod ?m = ?c + ?m - unat k"
        using le(3) i(1) by (intro mod_less) linarith
      ultimately show ?thesis using le \<open>unat k < ?l\<close> i by linarith
    qed
    have bound: "unat off < ?m" using i(1) by (simp add: u)
    have "func_log_entry k t = map_option Some (index_at (lt_entry_array t) (unat off))"
      using True i small [of off] bound
      by (simp add: func_log_entry_def word_le_nat_alt off_def Let_def split: if_splits)
    also have "\<dots> = Some (Some (log_history t ! unat k))" using bound i True by (simp add: log_history_def u)
    finally show ?thesis using True by simp
  qed
qed

text \<open>The function a program counter belongs to, as a log entry, and its effect on a history.\<close>

definition entered_function :: "symbol_state \<Rightarrow> uint32 \<Rightarrow> uint32 \<Rightarrow> DbgFuncLogTraceEntryType option" where
  "entered_function sy pc sp =
    (let i = specified_lookup (sy_func sy) (sy_last_funcid sy) pc; f = sy_func sy ! nat i
     in if i < 0 then None
        else Some \<lparr>le_sp = sp, le_funcid = word_of_int i, le_funcoff = pc - ds_addr f, le_funcpc = ds_addr f,
                   le_funcname = ds_name f\<rparr>)"

definition history_after ::
  "nat \<Rightarrow> DbgFuncLogTraceEntryType option \<Rightarrow> DbgFuncLogTraceEntryType list \<Rightarrow> DbgFuncLogTraceEntryType list" where
  "history_after m entry h =
    (case entry of
       None \<Rightarrow> h
     | Some e \<Rightarrow> if h \<noteq> [] \<and> le_funcpc (hd h) = le_funcpc e then h else take m (e # h))"

text \<open>
  C16: the function log. On a core whose log is in order, logging a program counter puts the
  function it belongs to in front of the history, unless it is the latest entry already or the
  program counter belongs to no function; the history keeps the latest entries that fit. The
  entry read back for a number of steps is the entry that many steps back, and nothing beyond the
  end of the history.
\<close>

theorem func_log_trace_is_history:
  assumes inv: "symbols_inv (cc_symbols st)" and c: "unat c < length (cc_func_log_trace st)"
    and log: "log_inv (cc_func_log_trace st ! unat c)"
  shows "(\<exists>st'. cpuctrl_set_func_log_trace c pc sp st = Some st' \<and> symbols_inv (cc_symbols st') \<and>
      log_inv (cc_func_log_trace st' ! unat c) \<and>
      log_history (cc_func_log_trace st' ! unat c) =
        history_after (unat (lt_logmax (cc_func_log_trace st ! unat c))) (entered_function (cc_symbols st) pc sp)
          (log_history (cc_func_log_trace st ! unat c))) \<and>
    cpuctrl_get_func_log_trace_info c k st =
      Some (if unat k < length (log_history (cc_func_log_trace st ! unat c))
            then let e = log_history (cc_func_log_trace st ! unat c) ! unat k
                 in Some (le_funcname e, le_funcoff e, le_funcid e, le_sp e)
            else None)"
proof (intro conjI)
  obtain i start sy where p: "symbol_pc2funcid pc (cc_symbols st) = (i, start, sy)" "symbols_inv sy"
      "sy_func sy = sy_func (cc_symbols st)"
    and spec: "lookup_spec (sy_func (cc_symbols st)) (sy_last_funcid (cc_symbols st)) pc i start (sy_last_funcid sy)"
    using symbol_pc2funcidE [OF inv] by metis
  let ?f = "sy_func (cc_symbols st) ! nat i"
  show "\<exists>st'. cpuctrl_set_func_log_trace c pc sp st = Some st' \<and> symbols_inv (cc_symbols st') \<and>
      log_inv (cc_func_log_trace st' ! unat c) \<and>
      log_history (cc_func_log_trace st' ! unat c) =
        history_after (unat (lt_logmax (cc_func_log_trace st ! unat c))) (entered_function (cc_symbols st) pc sp)
          (log_history (cc_func_log_trace st ! unat c))"
  proof (cases "i < 0")
    case True
    moreover have "entered_function (cc_symbols st) pc sp = None"
      using spec True by (simp add: lookup_spec_def entered_function_def)
    ultimately show ?thesis using p log by (simp add: cpuctrl_set_func_log_trace_def history_after_def)
  next
    case False
    then have f: "nat i < length (sy_func (cc_symbols st))" "start = Some (ds_addr ?f)"
      "i = specified_lookup (sy_func (cc_symbols st)) (sy_last_funcid (cc_symbols st)) pc"
      using lookup_spec_bound [OF spec] lookup_spec_start [OF spec] spec by (simp_all add: lookup_spec_def)
    let ?e = "\<lparr>le_sp = sp, le_funcid = word_of_int i, le_funcoff = pc - ds_addr ?f, le_funcpc = ds_addr ?f,
                   le_funcname = ds_name ?f\<rparr>"
    have e: "entered_function (cc_symbols st) pc sp = Some ?e"
      using False f(3) by (simp add: entered_function_def Let_def)
    from push_func_log_history [OF log, of ?e] obtain t' where t': "push_func_log ?e (cc_func_log_trace st ! unat c) = Some t'"
      "log_inv t'" "log_history t' = history_after (unat (lt_logmax (cc_func_log_trace st ! unat c))) (Some ?e)
        (log_history (cc_func_log_trace st ! unat c))" by (auto simp: history_after_def)
    have "cpuctrl_set_func_log_trace c pc sp st =
        Some (st\<lparr>cc_symbols := sy, cc_func_log_trace := (cc_func_log_trace st)[unat c := t']\<rparr>)"
      using p(1,3) False f(1,2) t'(1) c
      by (simp add: cpuctrl_set_func_log_trace_def symbol_funcid2funcname_def table_at_def)
    then show ?thesis using t'(2,3) p(2) c e by simp
  qed
  show "cpuctrl_get_func_log_trace_info c k st =
      Some (if unat k < length (log_history (cc_func_log_trace st ! unat c))
            then let e = log_history (cc_func_log_trace st ! unat c) ! unat k
                 in Some (le_funcname e, le_funcoff e, le_funcid e, le_sp e)
            else None)"
    using c by (simp add: cpuctrl_get_func_log_trace_info_def func_log_entry_history [OF log] Let_def)
qed

definition example_trace :: cpuctrl_state where
  "example_trace = (cpuctrl_static 1 example_symbols)\<lparr>cc_func_log_trace :=
    [\<lparr>lt_current = 0, lt_lognum = 0, lt_logmax = 2,
      lt_entry_array = replicate 2 \<lparr>le_sp = 0, le_funcid = 0, le_funcoff = 0, le_funcpc = 0, le_funcname = []\<rparr>\<rparr>]\<rparr>"

theorem func_log_trace_is_history_witness:
  "\<exists>st'. cpuctrl_set_func_log_trace 0 0x110 0x3000 example_trace = Some st' \<and>
    map le_funcname (log_history (cc_func_log_trace st' ! 0)) = [''main'']"
proof -
  have inv: "symbols_inv (cc_symbols example_trace)"
    by (simp add: example_trace_def cpuctrl_static_def symbols_inv_def index_inv_def example_symbols_def)
  have log: "log_inv (cc_func_log_trace example_trace ! unat (0 :: uint32))"
    by (simp add: example_trace_def log_inv_def)
  have e: "entered_function (cc_symbols example_trace) 0x110 0x3000 =
      Some \<lparr>le_sp = 0x3000, le_funcid = 0, le_funcoff = 0x10, le_funcpc = 0x100, le_funcname = ''main''\<rparr>"
    by (simp add: entered_function_def example_trace_def cpuctrl_static_def example_symbols_def Let_def
        specified_lookup_def lowest_containing_def symbol_contains_def symbol_end_def)
  have h: "log_history (cc_func_log_trace example_trace ! 0) = []" "unat (lt_logmax (cc_func_log_trace example_trace ! 0)) = 2"
    by (simp_all add: example_trace_def log_history_def)
  have c: "unat (0 :: uint32) < length (cc_func_log_trace example_trace)" by (simp add: example_trace_def)
  from func_log_trace_is_history [OF inv c log, of "0x110" "0x3000" 0] show ?thesis
    by (auto simp: e h history_after_def)
qed

section \<open>Stack frames\<close>

text \<open>The stack pointers of a stack, from the outermost frame to the current one.\<close>

definition frames :: "DbgFuncFrameType \<Rightarrow> uint32 list" where
  "frames f = take (unat (fr_lognum f)) (fr_sp f)"

definition frame_inv :: "DbgFuncFrameType \<Rightarrow> bool" where
  "frame_inv f \<longleftrightarrow> length (fr_sp f) = DBG_STACK_LOG_SIZE \<and> unat (fr_lognum f) \<le> DBG_STACK_LOG_SIZE \<and>
    (0 < unat (fr_lognum f) \<longrightarrow> Suc (unat (fr_current f)) = unat (fr_lognum f)) \<and> distinct (frames f)"

lemma length_frames: "frame_inv f \<Longrightarrow> length (frames f) = unat (fr_lognum f)"
  by (simp add: frames_def frame_inv_def)

lemma unat_of_nat_small: "n \<le> 1024 \<Longrightarrow> unat (of_nat n :: uint32) = n"
  by (simp add: unat_of_nat take_bit_nat_eq_self)

lemma frame_push_frames:
  assumes inv: "frame_inv f" and new: "sp \<notin> set (frames f)" and room: "length (frames f) < DBG_STACK_LOG_SIZE"
    and n: "unat n = length (frames f)"
  shows "\<exists>f'. frame_push n sp f = Some f' \<and> frame_inv f' \<and> frames f' = frames f @ [sp]"
proof -
  let ?l = "unat (fr_lognum f)"
  have len: "length (fr_sp f) = 1024" and l: "length (frames f) = ?l" "?l < 1024"
    using inv room length_frames [OF inv] by (simp_all add: frame_inv_def DBG_STACK_LOG_SIZE_def)
  have suc: "unat (fr_lognum f + 1) = Suc ?l" by (rule unat_plus_one [of _ 1024]) (simp add: l)
  let ?f' = "f\<lparr>fr_current := n, fr_sp := (fr_sp f)[?l := sp], fr_lognum := fr_lognum f + 1\<rparr>"
  have push: "frame_push n sp f = Some ?f'" using len l n by (simp add: frame_push_def)
  have fr: "frames ?f' = frames f @ [sp]" using len l by (simp add: frames_def suc take_Suc_conv_app_nth)
  have "distinct (frames f)" using inv by (simp add: frame_inv_def)
  then have "frame_inv ?f'"
    unfolding frame_inv_def fr using new len l n suc by (simp add: DBG_STACK_LOG_SIZE_def)
  with push fr show ?thesis by blast
qed

lemma distinct_upto_hit:
  assumes "distinct xs" "i < length xs" "xs ! i = x"
  shows "takeWhile (\<lambda>y. y \<noteq> x) xs @ [x] = take (Suc i) xs"
proof -
  have "takeWhile (\<lambda>y. y \<noteq> x) xs = take i xs"
    using assms by (intro takeWhile_eq_take_P_nth) (auto simp: nth_eq_iff_index_eq)
  with assms show ?thesis by (simp add: take_Suc_conv_app_nth)
qed

lemma frame_cut_frames:
  assumes inv: "frame_inv f" and i: "i < length (frames f)" "frames f ! i = sp"
  shows "frame_inv (f\<lparr>fr_lognum := of_nat i + 1, fr_current := of_nat i\<rparr>)"
    and "frames (f\<lparr>fr_lognum := of_nat i + 1, fr_current := of_nat i\<rparr>) = takeWhile (\<lambda>x. x \<noteq> sp) (frames f) @ [sp]"
proof -
  let ?f = "f\<lparr>fr_lognum := of_nat i + 1, fr_current := of_nat i\<rparr>"
  have l: "length (frames f) = unat (fr_lognum f)" "unat (fr_lognum f) \<le> 1024" "length (fr_sp f) = 1024"
    using inv length_frames [OF inv] by (simp_all add: frame_inv_def DBG_STACK_LOG_SIZE_def)
  have u: "unat (of_nat i :: uint32) = i" using i l by (intro unat_of_nat_small) linarith
  have suc: "unat (of_nat i + 1 :: uint32) = Suc i"
    using i l unat_plus_one [of "of_nat i :: uint32" 1024] u by simp
  have d: "distinct (frames f)" using inv by (simp add: frame_inv_def)
  have t: "frames ?f = take (Suc i) (frames f)" using i l by (simp add: frames_def suc min_def)
  then show "frames ?f = takeWhile (\<lambda>x. x \<noteq> sp) (frames f) @ [sp]"
    using distinct_upto_hit [OF d i] by simp
  show "frame_inv ?f" unfolding frame_inv_def t using d i l u suc by (simp add: DBG_STACK_LOG_SIZE_def)
qed

text \<open>What recording a stack pointer does to the frames; \<open>None\<close> is undefined behaviour.\<close>

definition frames_after :: "uint32 \<Rightarrow> uint32 list \<Rightarrow> uint32 list option" where
  "frames_after sp l =
    (if sp \<in> set l then Some (takeWhile (\<lambda>x. x \<noteq> sp) l @ [sp])
     else if length l < DBG_STACK_LOG_SIZE then Some (l @ [sp]) else None)"

lemma frame_record_frames:
  assumes inv: "frame_inv f"
  shows "case frames_after sp (frames f) of
      None \<Rightarrow> frame_record sp f = None
    | Some l \<Rightarrow> \<exists>f'. frame_record sp f = Some f' \<and> frame_inv f' \<and> frames f' = l"
proof -
  let ?l = "unat (fr_lognum f)" and ?c = "unat (fr_current f)"
  have len: "length (fr_sp f) = 1024" and l: "length (frames f) = ?l" "?l \<le> 1024"
    and cur: "0 < ?l \<longrightarrow> Suc ?c = ?l" and d: "distinct (frames f)"
    using inv length_frames [OF inv] by (simp_all add: frame_inv_def DBG_STACK_LOG_SIZE_def)
  have pos: "fr_lognum f > 0 \<longleftrightarrow> 0 < ?l" by (simp add: word_less_nat_alt)
  consider "?l = 0" | "0 < ?l" "fr_sp f ! ?c = sp" | i where "0 < ?l" "fr_sp f ! ?c \<noteq> sp" "find_first (\<lambda>x. x = sp) (frames f) = Some i"
    | "0 < ?l" "fr_sp f ! ?c \<noteq> sp" "find_first (\<lambda>x. x = sp) (frames f) = None" by fastforce
  then show ?thesis
  proof cases
    case 1
    then have e: "frames f = []" using l by simp
    then have "frames_after sp (frames f) = Some [sp]" by (simp add: frames_after_def DBG_STACK_LOG_SIZE_def)
    moreover have "frame_record sp f = frame_push 0 sp f" using 1 pos by (simp add: frame_record_def)
    ultimately show ?thesis
      using frame_push_frames [OF inv, of sp 0] e by (simp add: DBG_STACK_LOG_SIZE_def)
  next
    case 2
    have i: "?c < length (frames f)" "frames f ! ?c = sp" using 2 cur l by (simp_all add: frames_def)
    have "take (Suc ?c) (frames f) = frames f" using cur 2(1) l by simp
    then have "frames_after sp (frames f) = Some (frames f)"
      using distinct_upto_hit [OF d i] i nth_mem [OF i(1)] by (simp add: frames_after_def)
    moreover have "frame_record sp f = Some f" using 2 pos cur len l by (simp add: frame_record_def)
    ultimately show ?thesis using inv by simp
  next
    case 3
    then have i: "i < length (frames f)" "frames f ! i = sp" by (simp_all add: find_first_Some_iff)
    then have "sp \<in> set (frames f)" using nth_mem by blast
    moreover have "frame_record sp f = Some (f\<lparr>fr_lognum := of_nat i + 1, fr_current := of_nat i\<rparr>)"
      using 3 pos cur len l by (simp add: frame_record_def frames_def [symmetric])
    ultimately show ?thesis using frame_cut_frames [OF inv i] by (simp add: frames_after_def)
  next
    case 4
    then have new: "sp \<notin> set (frames f)" by (auto simp: find_first_None_iff)
    have suc: "unat (fr_current f + 1) = ?l" using cur 4(1) unat_plus_one [of "fr_current f" 1024] l by simp
    then have r: "frame_record sp f = frame_push (fr_current f + 1) sp f"
      using 4 pos cur len l by (simp add: frame_record_def frames_def [symmetric] DBG_STACK_LOG_SIZE_def)
    show ?thesis
    proof (cases "?l < DBG_STACK_LOG_SIZE")
      case True
      then show ?thesis using frame_push_frames [OF inv new, of "fr_current f + 1"] r new l suc
        by (simp add: frames_after_def)
    next
      case False
      then have "frame_push (fr_current f + 1) sp f = None"
        using len l suc by (simp add: frame_push_def update_at_def DBG_STACK_LOG_SIZE_def)
      then show ?thesis using r new l False by (simp add: frames_after_def)
    qed
  qed
qed

definition frame_table_inv :: "cpuctrl_state \<Rightarrow> bool" where
  "frame_table_inv st \<longleftrightarrow> length (cc_func_frame st) = DBG_STACK_NUM \<and> (\<forall>f\<in>set (cc_func_frame st). frame_inv f)"

text \<open>
  The stack frame record. Recording a stack pointer that lies in a variable cuts the frames
  of that stack back to the pointer if it is one of them and otherwise adds it as the new current
  frame; the frames of a stack stay distinct and the other stacks keep theirs. A pointer outside
  every variable changes nothing. The record is written out of bounds in exactly two cases: when a
  stack with 1024 frames gets a new one, and when the variable has an index of 1024 or more.
\<close>

theorem stack_pointer_frames:
  assumes inv: "symbols_inv (cc_symbols st)" and tab: "frame_table_inv st"
    and i: "i = specified_lookup (sy_gl (cc_symbols st)) (sy_last_glid (cc_symbols st)) sp"
  shows "case (if i < 0 then Some (map frames (cc_func_frame st))
      else if nat i \<ge> DBG_STACK_NUM then None
      else map_option (\<lambda>l. (map frames (cc_func_frame st))[nat i := l]) (frames_after sp (frames (cc_func_frame st ! nat i))))
    of None \<Rightarrow> cpuctrl_set_stack_pointer sp st = None
     | Some ls \<Rightarrow> \<exists>st'. cpuctrl_set_stack_pointer sp st = Some st' \<and> symbols_inv (cc_symbols st') \<and>
         frame_table_inv st' \<and> map frames (cc_func_frame st') = ls"
proof -
  obtain j start sy where p: "symbol_addr2glid sp (cc_symbols st) = (j, start, sy)" "symbols_inv sy"
    and spec: "lookup_spec (sy_gl (cc_symbols st)) (sy_last_glid (cc_symbols st)) sp j start (sy_last_glid sy)"
    using symbol_addr2glidE [OF inv] by metis
  have j: "j = i" using spec i by (simp add: lookup_spec_def)
  have len: "length (cc_func_frame st) = DBG_STACK_NUM" using tab by (simp add: frame_table_inv_def)
  consider "i < 0" | "\<not> i < 0" "nat i \<ge> DBG_STACK_NUM" | "\<not> i < 0" "nat i < DBG_STACK_NUM" by linarith
  then show ?thesis
  proof cases
    case 1
    then show ?thesis using p tab j by (simp add: cpuctrl_set_stack_pointer_def frame_table_inv_def)
  next
    case 2
    then show ?thesis using p j len by (simp add: cpuctrl_set_stack_pointer_def index_at_def)
  next
    case 3
    let ?f = "cc_func_frame st ! nat i"
    have f: "frame_inv ?f" using tab 3 by (simp add: frame_table_inv_def)
    show ?thesis
    proof (cases "frames_after sp (frames ?f)")
      case None
      then show ?thesis using frame_record_frames [OF f, of sp] 3 p j len
        by (simp add: cpuctrl_set_stack_pointer_def)
    next
      case (Some l)
      with frame_record_frames [OF f, of sp] obtain f' where
        f': "frame_record sp ?f = Some f'" "frame_inv f'" "frames f' = l" by auto
      have "\<forall>g\<in>set ((cc_func_frame st)[nat i := f']). frame_inv g"
        using tab f'(2) by (auto simp: frame_table_inv_def dest: set_update_subset_insert [THEN subsetD])
      then show ?thesis using f' Some 3 p j len
        by (simp add: cpuctrl_set_stack_pointer_def frame_table_inv_def map_update)
    qed
  qed
qed

theorem stack_pointer_frames_witness:
  "\<exists>st'. cpuctrl_set_stack_pointer 0x2008 (cpuctrl_static 2 example_symbols) = Some st' \<and>
    frames (cc_func_frame st' ! 0) = [0x2008]"
proof -
  let ?st = "cpuctrl_static 2 example_symbols"
  let ?f = "\<lparr>fr_current = 0, fr_lognum = 0, fr_sp = replicate DBG_STACK_LOG_SIZE 0\<rparr>"
  have fr: "cc_func_frame (cpuctrl_static n sy) = replicate DBG_STACK_NUM ?f" "frames ?f = []" for n sy
    by (simp_all add: cpuctrl_static_def frames_def)
  have inv: "symbols_inv (cc_symbols ?st)"
    by (simp add: cpuctrl_static_def symbols_inv_def index_inv_def example_symbols_def)
  have tab: "frame_table_inv ?st" by (simp add: frame_table_inv_def fr frame_inv_def)
  have i: "0 = specified_lookup (sy_gl (cc_symbols ?st)) (sy_last_glid (cc_symbols ?st)) 0x2008"
    by (simp add: cpuctrl_static_def specified_lookup_def lowest_containing_def symbol_contains_def symbol_end_def example_symbols_def)
  have a: "frames_after 0x2008 (frames (cc_func_frame ?st ! nat 0)) = Some [0x2008]"
    by (simp add: fr(1) frames_def frames_after_def DBG_STACK_LOG_SIZE_def DBG_STACK_NUM_def)
  from stack_pointer_frames [OF inv tab i] obtain st' where
    st': "cpuctrl_set_stack_pointer 0x2008 ?st = Some st'" "frame_table_inv st'"
    "map frames (cc_func_frame st') = (map frames (cc_func_frame ?st))[0 := [0x2008]]"
    by (auto simp: a [simplified] DBG_STACK_NUM_def)
  from st'(2) have "0 < length (cc_func_frame st')" by (simp add: frame_table_inv_def DBG_STACK_NUM_def)
  then have "frames (cc_func_frame st' ! 0) = map frames (cc_func_frame st') ! 0" by simp
  also have "\<dots> = [0x2008]" by (simp add: st'(3) fr DBG_STACK_NUM_def)
  finally show ?thesis using st'(1) by blast
qed

section \<open>Continuation by clocks\<close>

text \<open>The answers of the next \<open>k\<close> checks of a core.\<close>

fun timeout_checks :: "nat \<Rightarrow> CoreIdType \<Rightarrow> cpuctrl_state \<Rightarrow> bool list option" where
  "timeout_checks 0 core_id st = Some []"
| "timeout_checks (Suc k) core_id st =
    (case cpuctrl_is_timeout_cont_clocks core_id st of
       None \<Rightarrow> None
     | Some (b, st') \<Rightarrow> map_option ((#) b) (timeout_checks k core_id st'))"

lemma timeout_checks_answers:
  assumes "unat core_id < length (cc_cont st)" "ct_is_timeout (cc_cont st ! unat core_id)"
    "unat (ct_cont_clocks (cc_cont st ! unat core_id)) = n"
  shows "timeout_checks k core_id st = Some (map (\<lambda>i. n \<le> Suc i) [0..<k])"
  using assms
proof (induction k arbitrary: st n)
  case 0
  then show ?case by simp
next
  case (Suc k)
  let ?c = "cc_cont st ! unat core_id"
  have split: "map (\<lambda>i. n \<le> Suc i) [0..<Suc k] = (n \<le> 1) # map (\<lambda>i. n \<le> Suc (Suc i)) [0..<k]"
    by (simp add: upt_rec [of 0 "Suc k"] map_Suc_upt [symmetric] comp_def del: upt_Suc)
  show ?case
  proof (cases "n > 1")
    case True
    then have gt: "ct_cont_clocks ?c > 1" using Suc.prems(3) by (simp add: word_less_nat_alt)
    let ?st = "st\<lparr>cc_cont := (cc_cont st)[unat core_id := ?c\<lparr>ct_cont_clocks := ct_cont_clocks ?c - 1\<rparr>]\<rparr>"
    have step: "cpuctrl_is_timeout_cont_clocks core_id st = Some (False, ?st)"
      using Suc.prems gt by (simp add: cpuctrl_is_timeout_cont_clocks_def)
    have "ct_cont_clocks ?c \<noteq> 0" using gt by auto
    then have "unat (ct_cont_clocks ?c - 1) = n - 1" using Suc.prems(3) by (simp add: unat_minus_one)
    with Suc.IH [of ?st "n - 1"] Suc.prems
    have "timeout_checks k core_id ?st = Some (map (\<lambda>i. n - 1 \<le> Suc i) [0..<k])" by simp
    moreover have "n - 1 \<le> Suc i \<longleftrightarrow> n \<le> Suc (Suc i)" for i using True by linarith
    ultimately show ?thesis unfolding split using step True by simp
  next
    case False
    then have "\<not> ct_cont_clocks ?c > 1" using Suc.prems(3) by (simp add: word_less_nat_alt)
    then have "cpuctrl_is_timeout_cont_clocks core_id st = Some (True, st)"
      using Suc.prems by (simp add: cpuctrl_is_timeout_cont_clocks_def)
    then show ?thesis unfolding split using Suc.IH [OF Suc.prems] False by simp
  qed
qed

text \<open>
  Continuation by clocks. After the debugger lets the stopped core continue for \<open>n\<close>
  clocks, the core's first \<open>n - 1\<close> checks say to go on and every later one says to stop;
  with 0 clocks the first one does. Without a limit no check stops the core.
\<close>

theorem cont_clocks_stop_after:
  assumes "unat (sc_core_id (cc_stopped_core st)) < length (cc_cont st)"
  shows "\<exists>st'. cpuctrl_set_cont_clocks limited n st = Some st' \<and>
    timeout_checks k (sc_core_id (cc_stopped_core st)) st' = Some (map (\<lambda>i. limited \<and> unat n \<le> Suc i) [0..<k])"
proof -
  let ?c = "sc_core_id (cc_stopped_core st)"
  let ?st = "st\<lparr>cc_cont := (cc_cont st)[unat ?c := \<lparr>ct_is_timeout = limited, ct_cont_clocks = n\<rparr>]\<rparr>"
  have set: "cpuctrl_set_cont_clocks limited n st = Some ?st"
    using assms by (simp add: cpuctrl_set_cont_clocks_def)
  have "timeout_checks k ?c ?st = Some (map (\<lambda>i. limited \<and> unat n \<le> Suc i) [0..<k])"
  proof (cases limited)
    case True
    then show ?thesis using timeout_checks_answers [of ?c ?st "unat n" k] assms by simp
  next
    case False
    have "cpuctrl_is_timeout_cont_clocks ?c ?st = Some (False, ?st)"
      using assms False by (simp add: cpuctrl_is_timeout_cont_clocks_def)
    then have "timeout_checks k ?c ?st = Some (replicate k False)" by (induction k) simp_all
    then show ?thesis using False by (simp add: map_replicate_const)
  qed
  with set show ?thesis by blast
qed

theorem cont_clocks_stop_after_witness:
  "\<exists>st'. cpuctrl_set_cont_clocks True 3 (cpuctrl_static 1 no_symbols) = Some st' \<and>
    timeout_checks 4 0 st' = Some [False, False, True, True]"
  using cont_clocks_stop_after [of "cpuctrl_static 1 no_symbols" True 3 4]
  by (auto simp: cpuctrl_static_def upt_conv_Cons)

end
