(* ===== verification/Bus.thy ===== *)
theory Bus
  imports MpuFlat
begin

text \<open>
  The bus, src/src/bus/bus.h and src/src/bus/bus.c: the accesses of the CPU and the debugger go to
  the address map and are entered in a log of the last instruction's accesses, which the data
  watch takes them from. The bus state is the state of the address map with the log. A read that
  fails logs what the caller's variable holds (the argument \<open>old\<close>). The option is the one
  of the address map: \<open>None\<close> for undefined behaviour.
  The locale \<open>byte_store\<close> is the contract that clients of the bus rely on when they move
  byte strings; it is interpreted on \<open>bus_put_data8\<close> and \<open>bus_get_data8\<close>.
\<close>

section \<open>The access log\<close>

datatype BusAccessType = BUS_ACCESS_TYPE_NONE | BUS_ACCESS_TYPE_READ | BUS_ACCESS_TYPE_WRITE

definition BUS_ACCESS_LOG_SIZE :: uint32 where "BUS_ACCESS_LOG_SIZE = 128"

record BusAccessLogType =
  bl_access_type :: BusAccessType
  bl_access_size :: uint32
  bl_access_addr :: AthrillAddrType
  bl_access_last_data :: uint32

record 'd bus_state =
  bus_mpu :: "'d mpu_state"
  bus_access_log_size :: uint32
  bus_access_log :: "BusAccessLogType list"

definition bus_access_set_log ::
  "BusAccessType \<Rightarrow> uint32 \<Rightarrow> AthrillAddrType \<Rightarrow> uint32 \<Rightarrow> 'd bus_state \<Rightarrow> 'd bus_state" where
  "bus_access_set_log type sz access_addr data st =
    (if type = BUS_ACCESS_TYPE_NONE then st\<lparr>bus_access_log_size := 0\<rparr>
     else if bus_access_log_size st \<ge> BUS_ACCESS_LOG_SIZE then st
     else st\<lparr>bus_access_log := (bus_access_log st)[unat (bus_access_log_size st) :=
               \<lparr>bl_access_type = type, bl_access_size = sz, bl_access_addr = access_addr,
                bl_access_last_data = data\<rparr>],
             bus_access_log_size := bus_access_log_size st + 1\<rparr>)"

definition bus_access_get_log :: "'d bus_state \<Rightarrow> (Std_ReturnType \<times> BusAccessLogType option) \<times> 'd bus_state" where
  "bus_access_get_log st =
    (if bus_access_log_size st = 0 then ((STD_E_NOENT, None), st)
     else let n = bus_access_log_size st - 1
          in ((STD_E_OK, Some (bus_access_log st ! unat n)), st\<lparr>bus_access_log_size := n\<rparr>))"

section \<open>Accesses\<close>

text \<open>The common shape of the reads: \<open>get\<close> is the read of the address map.\<close>

definition bus_get_with ::
  "('d mpu_state \<Rightarrow> (Std_ReturnType \<times> 'w::len word \<times> 'd mpu_state) option) \<Rightarrow> uint32 \<Rightarrow> AthrillAddrType
    \<Rightarrow> 'd bus_state \<Rightarrow> (Std_ReturnType \<times> 'w word \<times> 'd bus_state) option" where
  "bus_get_with get sz addr st = do {
    (err, data, mpu) \<leftarrow> get (bus_mpu st);
    Some (err, data, bus_access_set_log BUS_ACCESS_TYPE_READ sz addr (ucast data) (st\<lparr>bus_mpu := mpu\<rparr>))
  }"

definition bus_put_with ::
  "('d mpu_state \<Rightarrow> (Std_ReturnType \<times> 'd mpu_state) option) \<Rightarrow> uint32 \<Rightarrow> AthrillAddrType \<Rightarrow> uint32
    \<Rightarrow> 'd bus_state \<Rightarrow> (Std_ReturnType \<times> 'd bus_state) option" where
  "bus_put_with put sz addr data st = do {
    let st1 = bus_access_set_log BUS_ACCESS_TYPE_WRITE sz addr data st;
    (err, mpu) \<leftarrow> put (bus_mpu st1);
    Some (err, st1\<lparr>bus_mpu := mpu\<rparr>)
  }"

definition bus_get_data8 ::
  "'d mpu_env \<Rightarrow> CoreIdType \<Rightarrow> AthrillAddrType \<Rightarrow> uint8 \<Rightarrow> 'd bus_state \<Rightarrow> (Std_ReturnType \<times> uint8 \<times> 'd bus_state) option" where
  "bus_get_data8 env core_id addr old st = bus_get_with (mpu_get_data8 env core_id addr old) 1 addr st"

definition bus_get_data16 ::
  "'d mpu_env \<Rightarrow> CoreIdType \<Rightarrow> AthrillAddrType \<Rightarrow> uint16 \<Rightarrow> 'd bus_state \<Rightarrow> (Std_ReturnType \<times> uint16 \<times> 'd bus_state) option" where
  "bus_get_data16 env core_id addr old st = bus_get_with (mpu_get_data16 env core_id addr old) 2 addr st"

definition bus_get_data32 ::
  "'d mpu_env \<Rightarrow> CoreIdType \<Rightarrow> AthrillAddrType \<Rightarrow> uint32 \<Rightarrow> 'd bus_state \<Rightarrow> (Std_ReturnType \<times> uint32 \<times> 'd bus_state) option" where
  "bus_get_data32 env core_id addr old st = bus_get_with (mpu_get_data32 env core_id addr old) 4 addr st"

definition bus_put_data8 ::
  "'d mpu_env \<Rightarrow> CoreIdType \<Rightarrow> AthrillAddrType \<Rightarrow> uint8 \<Rightarrow> 'd bus_state \<Rightarrow> (Std_ReturnType \<times> 'd bus_state) option" where
  "bus_put_data8 env core_id addr data st = bus_put_with (mpu_put_data8 env core_id addr data) 1 addr (ucast data) st"

definition bus_put_data16 ::
  "'d mpu_env \<Rightarrow> CoreIdType \<Rightarrow> AthrillAddrType \<Rightarrow> uint16 \<Rightarrow> 'd bus_state \<Rightarrow> (Std_ReturnType \<times> 'd bus_state) option" where
  "bus_put_data16 env core_id addr data st = bus_put_with (mpu_put_data16 env core_id addr data) 2 addr (ucast data) st"

definition bus_put_data32 ::
  "'d mpu_env \<Rightarrow> CoreIdType \<Rightarrow> AthrillAddrType \<Rightarrow> uint32 \<Rightarrow> 'd bus_state \<Rightarrow> (Std_ReturnType \<times> 'd bus_state) option" where
  "bus_put_data32 env core_id addr data st = bus_put_with (mpu_put_data32 env core_id addr data) 4 addr data st"

definition bus_get_pointer ::
  "'d mpu_env \<Rightarrow> CoreIdType \<Rightarrow> AthrillAddrType \<Rightarrow> 'd bus_state \<Rightarrow> (Std_ReturnType \<times> hptr option \<times> 'd bus_state) option" where
  "bus_get_pointer env core_id addr st = do {
    (err, p, mpu) \<leftarrow> mpu_get_pointer env core_id addr (bus_mpu st);
    Some (err, p, st\<lparr>bus_mpu := mpu\<rparr>)
  }"

section \<open>The log is a bounded stack\<close>

definition bus_wf :: "'d bus_state \<Rightarrow> bool" where
  "bus_wf st \<longleftrightarrow> length (bus_access_log st) = unat BUS_ACCESS_LOG_SIZE \<and> bus_access_log_size st \<le> BUS_ACCESS_LOG_SIZE"

text \<open>The logged accesses, the latest first.\<close>

definition logged :: "'d bus_state \<Rightarrow> BusAccessLogType list" where
  "logged st = rev (take (unat (bus_access_log_size st)) (bus_access_log st))"

lemma logged_set_log:
  assumes "bus_wf st" "type \<noteq> BUS_ACCESS_TYPE_NONE"
  shows "logged (bus_access_set_log type sz a d st) =
    (if length (logged st) < 128
     then \<lparr>bl_access_type = type, bl_access_size = sz, bl_access_addr = a, bl_access_last_data = d\<rparr> # logged st
     else logged st)"
    and "bus_wf (bus_access_set_log type sz a d st)"
proof -
  let ?n = "unat (bus_access_log_size st)"
  have wf: "length (bus_access_log st) = 128" "?n \<le> 128"
    using assms(1) by (simp_all add: bus_wf_def BUS_ACCESS_LOG_SIZE_def word_le_nat_alt)
  have lt: "bus_access_log_size st \<ge> BUS_ACCESS_LOG_SIZE \<longleftrightarrow> \<not> ?n < 128"
    by (simp add: BUS_ACCESS_LOG_SIZE_def word_le_nat_alt not_less)
  have suc: "unat (bus_access_log_size st + 1) = Suc ?n" if "?n < 128"
    using that by (intro unat_plus_one [of _ "128"]) simp
  show "logged (bus_access_set_log type sz a d st) =
    (if length (logged st) < 128
     then \<lparr>bl_access_type = type, bl_access_size = sz, bl_access_addr = a, bl_access_last_data = d\<rparr> # logged st
     else logged st)"
  proof (cases "?n < 128")
    case True
    then show ?thesis using assms(2) wf suc [OF True]
      by (simp add: bus_access_set_log_def logged_def lt take_Suc_conv_app_nth)
  next
    case False
    then show ?thesis using assms(2) wf by (simp add: bus_access_set_log_def logged_def lt)
  qed
  show "bus_wf (bus_access_set_log type sz a d st)"
  proof (cases "?n < 128")
    case True
    then show ?thesis using assms wf suc [OF True]
      by (simp add: bus_access_set_log_def bus_wf_def lt BUS_ACCESS_LOG_SIZE_def word_le_nat_alt)
  next
    case False
    then show ?thesis using assms by (simp add: bus_access_set_log_def lt)
  qed
qed

lemma logged_clear [simp]: "logged (bus_access_set_log BUS_ACCESS_TYPE_NONE sz a d st) = []"
  by (simp add: bus_access_set_log_def logged_def)

lemma logged_get_log:
  assumes "bus_wf st"
  shows "bus_access_get_log st =
    (case logged st of
       [] \<Rightarrow> ((STD_E_NOENT, None), st)
     | e # es \<Rightarrow> ((STD_E_OK, Some e), st\<lparr>bus_access_log_size := bus_access_log_size st - 1\<rparr>))"
    and "logged (snd (bus_access_get_log st)) = tl (logged st)"
    and "bus_wf (snd (bus_access_get_log st))"
    and "bus_mpu (snd (bus_access_get_log st)) = bus_mpu st"
proof -
  let ?n = "unat (bus_access_log_size st)"
  have wf: "length (bus_access_log st) = 128" "?n \<le> 128"
    using assms by (simp_all add: bus_wf_def BUS_ACCESS_LOG_SIZE_def word_le_nat_alt)
  have *: "logged st = bus_access_log st ! unat (bus_access_log_size st - 1)
        # logged (st\<lparr>bus_access_log_size := bus_access_log_size st - 1\<rparr>)
      \<and> bus_access_log_size st - 1 \<le> BUS_ACCESS_LOG_SIZE" if "bus_access_log_size st \<noteq> 0"
  proof -
    have m: "unat (bus_access_log_size st - 1) = ?n - 1" "0 < ?n"
      using that by (simp_all add: unat_minus_one unat_gt_0)
    then have "take ?n (bus_access_log st) =
        take (?n - 1) (bus_access_log st) @ [bus_access_log st ! (?n - 1)]"
      using wf take_Suc_conv_app_nth [of "?n - 1" "bus_access_log st"] by simp
    then show ?thesis using m wf
      by (simp add: logged_def word_le_nat_alt BUS_ACCESS_LOG_SIZE_def)
  qed
  then show "bus_access_get_log st =
    (case logged st of
       [] \<Rightarrow> ((STD_E_NOENT, None), st)
     | e # es \<Rightarrow> ((STD_E_OK, Some e), st\<lparr>bus_access_log_size := bus_access_log_size st - 1\<rparr>))"
    by (cases "bus_access_log_size st = 0") (auto simp: bus_access_get_log_def logged_def [of st] Let_def)
  show "logged (snd (bus_access_get_log st)) = tl (logged st)"
    using * by (cases "bus_access_log_size st = 0") (auto simp: bus_access_get_log_def logged_def [of st] Let_def)
  show "bus_wf (snd (bus_access_get_log st))"
    using * assms by (auto simp: bus_access_get_log_def bus_wf_def Let_def)
  show "bus_mpu (snd (bus_access_get_log st)) = bus_mpu st"
    by (simp add: bus_access_get_log_def Let_def)
qed

lemma bus_mpu_set_log [simp]: "bus_mpu (bus_access_set_log type sz a d st) = bus_mpu st"
  by (simp add: bus_access_set_log_def)

section \<open>Byte strings over a byte store\<close>

text \<open>
  The loops that move a byte string to or from consecutive addresses, one bus access per byte,
  until an access fails.
\<close>

fun store_bytes ::
  "(AthrillAddrType \<Rightarrow> uint8 \<Rightarrow> 's \<Rightarrow> (Std_ReturnType \<times> 's) option) \<Rightarrow> AthrillAddrType \<Rightarrow> uint8 list \<Rightarrow> 's
    \<Rightarrow> (Std_ReturnType \<times> 's) option" where
  "store_bytes put a [] s = Some (STD_E_OK, s)"
| "store_bytes put a (b # bs) s =
    (case put a b s of
       None \<Rightarrow> None
     | Some (err, s') \<Rightarrow> if err \<noteq> STD_E_OK then Some (err, s') else store_bytes put (a + 1) bs s')"

fun fetch_bytes ::
  "(AthrillAddrType \<Rightarrow> uint8 \<Rightarrow> 's \<Rightarrow> (Std_ReturnType \<times> uint8 \<times> 's) option) \<Rightarrow> AthrillAddrType \<Rightarrow> uint8 list \<Rightarrow> 's
    \<Rightarrow> (Std_ReturnType \<times> uint8 list \<times> 's) option" where
  "fetch_bytes get a [] s = Some (STD_E_OK, [], s)"
| "fetch_bytes get a (old # olds) s =
    (case get a old s of
       None \<Rightarrow> None
     | Some (err, v, s') \<Rightarrow>
        if err \<noteq> STD_E_OK then Some (err, v # olds, s')
        else map_option (\<lambda>(err, vs, s). (err, v # vs, s)) (fetch_bytes get (a + 1) olds s'))"

lemma unat_plus_one_le: "unat (a :: AthrillAddrType) + Suc n \<le> 2 ^ 32 \<Longrightarrow> 0 < n \<Longrightarrow> unat (a + 1) = Suc (unat a)"
  by (subst unat_add_nowrap) simp_all

lemma flat_put_Cons:
  assumes "unat a + Suc (length bs) \<le> 2 ^ 32"
  shows "flat_put m a (b # bs) = flat_put (m(a \<mapsto> b)) (a + 1) bs"
proof (cases bs)
  case Nil
  then show ?thesis by (auto simp: flat_put_def fun_eq_iff word_eq_iff_unsigned [where ?'a = nat])
next
  case (Cons c cs)
  have s: "unat (a + 1) = Suc (unat a)" using assms by (rule unat_plus_one_le) (simp add: Cons)
  show ?thesis
  proof
    fix x
    consider "unat x < unat a" | "x = a" | "unat a < unat x"
      by (metis linorder_neqE_nat word_eq_iff_unsigned [where ?'a = nat])
    then show "flat_put m a (b # bs) x = flat_put (m(a \<mapsto> b)) (a + 1) bs x"
      by cases (auto simp: flat_put_def s nth_Cons' word_eq_iff_unsigned [where ?'a = nat])
  qed
qed

lemma flat_get_Suc:
  "flat_get m a (Suc n) = (case m a of None \<Rightarrow> None | Some v \<Rightarrow> map_option ((#) v) (flat_get m (a + 1) n))"
proof -
  have "map (\<lambda>i. m (a + of_nat i)) [0..<Suc n] = m a # map (\<lambda>i. m (a + 1 + of_nat i)) [0..<n]"
    by (simp add: upt_rec [of 0 "Suc n"] map_Suc_upt [symmetric] comp_def add.assoc [symmetric] del: upt_Suc)
  then show ?thesis unfolding flat_get_def by (simp del: upt_Suc)
qed

lemma flat_get_0 [simp]: "flat_get m a 0 = Some []"
  by (simp add: flat_get_def)

lemma flat_get_put_same:
  "unat a + length bs \<le> 2 ^ 32 \<Longrightarrow> flat_get (flat_put m a bs) a (length bs) = Some bs"
proof -
  assume le: "unat a + length bs \<le> 2 ^ 32"
  have "flat_put m a bs (a + of_nat i) = Some (bs ! i)" if "i < length bs" for i
  proof -
    have "unat (a + of_nat i) = unat a + i"
      using that le by (subst unat_add_nowrap) (simp_all add: unat_of_nat take_bit_nat_eq_self)
    with that show ?thesis by (simp add: flat_put_def)
  qed
  then have "flat_get (flat_put m a bs) a (length bs) = Some (map ((!) bs) [0..<length bs])"
    by (rule flat_get_Some)
  then show ?thesis by (simp add: map_nth)
qed

locale byte_store =
  fixes inv :: "'s \<Rightarrow> bool"
    and view :: "'s \<Rightarrow> AthrillAddrType \<rightharpoonup> uint8"
    and readable writable :: "'s \<Rightarrow> AthrillAddrType \<Rightarrow> bool"
    and get :: "AthrillAddrType \<Rightarrow> uint8 \<Rightarrow> 's \<Rightarrow> (Std_ReturnType \<times> uint8 \<times> 's) option"
    and put :: "AthrillAddrType \<Rightarrow> uint8 \<Rightarrow> 's \<Rightarrow> (Std_ReturnType \<times> 's) option"
  assumes put_ok: "inv s \<Longrightarrow> writable s a \<Longrightarrow> \<exists>s'. put a b s = Some (STD_E_OK, s') \<and> inv s' \<and>
      view s' = (view s)(a \<mapsto> b) \<and> readable s' = readable s \<and> writable s' = writable s"
    and get_ok: "inv s \<Longrightarrow> readable s a \<Longrightarrow> \<exists>v s'. get a old s = Some (STD_E_OK, v, s') \<and> view s a = Some v \<and>
      inv s' \<and> view s' = view s \<and> readable s' = readable s \<and> writable s' = writable s"
begin

lemma store_bytes_ok:
  assumes "inv s" "\<And>i. i < length bs \<Longrightarrow> writable s (a + of_nat i)" "unat a + length bs \<le> 2 ^ 32"
  shows "\<exists>s'. store_bytes put a bs s = Some (STD_E_OK, s') \<and> inv s' \<and> view s' = flat_put (view s) a bs \<and>
    readable s' = readable s \<and> writable s' = writable s"
  using assms
proof (induction bs arbitrary: a s)
  case Nil
  then show ?case by simp
next
  case (Cons b bs)
  from put_ok [OF Cons.prems(1), of a b] Cons.prems(2) [of 0] obtain s1 where
    s1: "put a b s = Some (STD_E_OK, s1)" "inv s1" "view s1 = (view s)(a \<mapsto> b)"
    "readable s1 = readable s" "writable s1 = writable s" by auto
  have w: "writable s1 (a + 1 + of_nat i)" if "i < length bs" for i
    using Cons.prems(2) [of "Suc i"] that s1(5) by (simp add: add.assoc)
  have "unat (a + 1) + length bs \<le> 2 ^ 32" if "bs \<noteq> []"
    using Cons.prems(3) unat_plus_one_le [of a "length bs"] that by simp
  then have "\<exists>s'. store_bytes put (a + 1) bs s1 = Some (STD_E_OK, s') \<and> inv s' \<and>
      view s' = flat_put (view s1) (a + 1) bs \<and> readable s' = readable s1 \<and> writable s' = writable s1"
    using Cons.IH [OF s1(2) w] s1(2) by (cases "bs = []") simp_all
  then show ?case using s1 flat_put_Cons [of a bs "view s" b] Cons.prems(3) by (auto split: prod.split)
qed

lemma fetch_bytes_ok:
  assumes "inv s" "\<And>i. i < length olds \<Longrightarrow> readable s (a + of_nat i)"
  shows "\<exists>vs s'. fetch_bytes get a olds s = Some (STD_E_OK, vs, s') \<and>
    flat_get (view s) a (length olds) = Some vs \<and> inv s' \<and> view s' = view s \<and>
    readable s' = readable s \<and> writable s' = writable s"
  using assms
proof (induction olds arbitrary: a s)
  case Nil
  then show ?case by simp
next
  case (Cons old olds)
  from get_ok [OF Cons.prems(1), of a old] Cons.prems(2) [of 0] obtain v s1 where
    s1: "get a old s = Some (STD_E_OK, v, s1)" "view s a = Some v" "inv s1" "view s1 = view s"
    "readable s1 = readable s" "writable s1 = writable s" by auto
  have "readable s1 (a + 1 + of_nat i)" if "i < length olds" for i
    using Cons.prems(2) [of "Suc i"] that s1(5) by (simp add: add.assoc)
  from Cons.IH [OF s1(3) this] show ?case using s1 by (auto simp: flat_get_Suc)
qed

lemma fetch_after_store:
  assumes "inv s" "\<And>i. i < length bs \<Longrightarrow> writable s (a + of_nat i) \<and> readable s (a + of_nat i)"
    "unat a + length bs \<le> 2 ^ 32" "length olds = length bs"
  obtains s' s'' where "store_bytes put a bs s = Some (STD_E_OK, s')"
    "fetch_bytes get a olds s' = Some (STD_E_OK, bs, s'')"
proof -
  from store_bytes_ok [OF assms(1) _ assms(3)] assms(2) obtain s' where
    s': "store_bytes put a bs s = Some (STD_E_OK, s')" "inv s'" "view s' = flat_put (view s) a bs"
    "readable s' = readable s" by blast
  from fetch_bytes_ok [OF s'(2), of olds a] s'(4) assms(2,4) obtain vs s'' where
    "fetch_bytes get a olds s' = Some (STD_E_OK, vs, s'')" "flat_get (view s') a (length olds) = Some vs" by auto
  with flat_get_put_same [OF assms(3), of "view s"] s'(1,3) assms(4) show ?thesis by (auto intro: that)
qed

end

section \<open>The bus is a byte store\<close>

definition bus_inv :: "'d bus_state \<Rightarrow> bool" where
  "bus_inv st \<longleftrightarrow> mpu_flat (bus_mpu st) \<and> bus_wf st"

definition bus_view :: "'d bus_state \<Rightarrow> AthrillAddrType \<rightharpoonup> uint8" where
  "bus_view st = mem_view (bus_mpu st)"

text \<open>Plain memory that the target lets the core read or write, byte by byte.\<close>

definition bus_readable :: "'d mpu_env \<Rightarrow> CoreIdType \<Rightarrow> 'd bus_state \<Rightarrow> AthrillAddrType \<Rightarrow> bool" where
  "bus_readable env c st a =
    (case search_region_loops (bus_mpu st) a 1 of
       None \<Rightarrow> False
     | Some ref \<Rightarrow> plain_ref (bus_mpu st) ref \<and>
         env_perm env c (rg_type (region_at (bus_mpu st) ref)) CpuMemoryAccess_READ a 1)"

definition bus_writable :: "'d mpu_env \<Rightarrow> CoreIdType \<Rightarrow> 'd bus_state \<Rightarrow> AthrillAddrType \<Rightarrow> bool" where
  "bus_writable env c st a =
    (case search_region_loops (bus_mpu st) a 1 of
       None \<Rightarrow> False
     | Some ref \<Rightarrow> plain_ref (bus_mpu st) ref \<and> rg_type (region_at (bus_mpu st) ref) \<noteq> READONLY_MEMORY \<and>
         env_perm env c (rg_type (region_at (bus_mpu st) ref)) CpuMemoryAccess_WRITE a 1)"

lemma bus_mpu_put_with:
  "bus_put_with put sz a d st =
    map_option (\<lambda>(err, mpu). (err, (bus_access_set_log BUS_ACCESS_TYPE_WRITE sz a d st)\<lparr>bus_mpu := mpu\<rparr>)) (put (bus_mpu st))"
  by (cases "put (bus_mpu st)") (simp_all add: bus_put_with_def split: prod.split)

lemma bus_mpu_get_with:
  "bus_get_with get sz a st =
    map_option (\<lambda>(err, v, mpu). (err, v, bus_access_set_log BUS_ACCESS_TYPE_READ sz a (ucast v) (st\<lparr>bus_mpu := mpu\<rparr>)))
      (get (bus_mpu st))"
  by (cases "get (bus_mpu st)") (simp_all add: bus_get_with_def split: prod.split)

lemma bus_wf_mpu [simp]: "bus_wf (st\<lparr>bus_mpu := mpu\<rparr>) = bus_wf st"
  by (simp add: bus_wf_def)

lemma bus_put_data8_ok:
  assumes inv: "bus_inv st" and w: "bus_writable env c st a"
  shows "\<exists>st'. bus_put_data8 env c a b st = Some (STD_E_OK, st') \<and> bus_inv st' \<and>
    bus_view st' = (bus_view st)(a \<mapsto> b) \<and>
    bus_readable env c st' = bus_readable env c st \<and> bus_writable env c st' = bus_writable env c st"
proof -
  let ?s = "bus_mpu st"
  have flat: "mpu_flat ?s" and wf: "bus_wf st" using inv by (simp_all add: bus_inv_def)
  from w obtain ref where ref: "search_region_loops ?s a 1 = Some ref" "plain_ref ?s ref"
    "rg_type (region_at ?s ref) \<noteq> READONLY_MEMORY"
    "env_perm env c (rg_type (region_at ?s ref)) CpuMemoryAccess_WRITE a 1"
    by (auto simp: bus_writable_def split: option.splits)
  have dd: "regions_disjoint (mpu_dynamic_map ?s)"
    using flat by (simp add: mpu_flat_def regions_disjoint_dynamic)
  have ops: "rg_ops (region_at ?s ref) = default_memory_operation" using ref(2) by (simp add: plain_ref_def)
  from search_region_eq [OF dd, of a 1] obtain q where
    q: "search_region ?s a 1 = (search_region_loops ?s a 1, ?s\<lparr>mpu_prev_w := q\<rparr>)" by blast
  have bk: "region_backed (mpu_host ?s) (region_at ?s ref)"
    using mpu_wf_backed [OF _ ref(1)] flat by (simp add: mpu_flat_def)
  from memory_put_defined [OF bk search_region_loops_SomeD(1) [OF ref(1)] ops, of b] obtain h where
    h: "memory_put 1 (region_at ?s ref) (a AND rg_mask (region_at ?s ref)) b (mpu_host ?s) = Some h" by auto
  let ?s' = "?s\<lparr>mpu_prev_w := q, mpu_host := h\<rparr>"
  have put: "mpu_put_data8 env c a b ?s = Some (STD_E_OK, ?s')"
    unfolding mpu_put_defs mpu_put_with_plain [OF dd ref(1) ops] using ref(3,4) h q by simp
  have "mpu_flat ?s' \<and> mem_view ?s' = flat_put (mem_view ?s) a (le_encode 1 b)"
    using mpu_put_with_flat [OF flat ref(1,2), of op_put_data8 env c b ?s'] put by (simp add: mpu_put_defs)
  moreover have "flat_put m a (le_encode 1 b) = m(a \<mapsto> b)" for m
    by (auto simp: flat_put_def fun_eq_iff word_eq_iff_unsigned [where ?'a = nat] le_encode.simps(2) [of 0, simplified])
  ultimately show ?thesis using put logged_set_log(2) [OF wf, of BUS_ACCESS_TYPE_WRITE]
    by (simp add: bus_put_data8_def bus_mpu_put_with bus_inv_def bus_view_def bus_readable_def bus_writable_def
        plain_ref_def fun_eq_iff split: option.split)
qed

lemma bus_get_data8_ok:
  assumes inv: "bus_inv st" and r: "bus_readable env c st a"
  shows "\<exists>v st'. bus_get_data8 env c a old st = Some (STD_E_OK, v, st') \<and> bus_view st a = Some v \<and> bus_inv st' \<and>
    bus_view st' = bus_view st \<and>
    bus_readable env c st' = bus_readable env c st \<and> bus_writable env c st' = bus_writable env c st"
proof -
  let ?s = "bus_mpu st"
  have flat: "mpu_flat ?s" and wf: "bus_wf st" using inv by (simp_all add: bus_inv_def)
  from r obtain ref where ref: "search_region_loops ?s a 1 = Some ref" "plain_ref ?s ref"
    "env_perm env c (rg_type (region_at ?s ref)) CpuMemoryAccess_READ a 1"
    by (auto simp: bus_readable_def split: option.splits)
  have dd: "regions_disjoint (mpu_dynamic_map ?s)"
    using flat by (simp add: mpu_flat_def regions_disjoint_dynamic)
  have ops: "rg_ops (region_at ?s ref) = default_memory_operation" using ref(2) by (simp add: plain_ref_def)
  from search_region_r_eq [OF dd, of a 1] obtain q where
    q: "search_region_r ?s a 1 = (search_region_loops ?s a 1, ?s\<lparr>mpu_prev_r := q\<rparr>)" by blast
  have bk: "region_backed (mpu_host ?s) (region_at ?s ref)"
    using mpu_wf_backed [OF _ ref(1)] flat by (simp add: mpu_flat_def)
  from memory_get_defined [OF bk search_region_loops_SomeD(1) [OF ref(1)] ops] obtain v :: uint8 where
    v: "memory_get 1 (region_at ?s ref) (a AND rg_mask (region_at ?s ref)) (mpu_host ?s) = Some v" by auto
  let ?s' = "?s\<lparr>mpu_prev_r := q\<rparr>"
  have get: "mpu_get_data8 env c a old ?s = Some (STD_E_OK, v, ?s')"
    unfolding mpu_get_defs mpu_get_with_plain [OF dd ref(1) ops ref(3)] using v q by simp
  have "map_option le_decode (flat_get (mem_view ?s) a 1) = Some v \<and> mem_view ?s' = mem_view ?s"
    using mpu_get_with_flat [OF flat ref(1,2), of op_get_data8 env c old v ?s'] get by (simp add: mpu_get_defs)
  then have "mem_view ?s a = Some v"
    by (auto simp: flat_get_Suc [of _ _ 0, simplified] split: option.splits)
  moreover have "mpu_flat ?s'" using flat by (simp add: mpu_flat_def mpu_wf_def regions_of_def)
  ultimately show ?thesis using get logged_set_log(2) [of "st\<lparr>bus_mpu := ?s'\<rparr>" BUS_ACCESS_TYPE_READ] wf
    by (simp add: bus_get_data8_def bus_mpu_get_with bus_inv_def bus_view_def bus_readable_def bus_writable_def
        plain_ref_def fun_eq_iff split: option.split)
qed

interpretation bus_bytes: byte_store bus_inv bus_view "bus_readable env c" "bus_writable env c"
  "bus_get_data8 env c" "bus_put_data8 env c" for env c
  by unfold_locales (erule (1) bus_put_data8_ok, erule (1) bus_get_data8_ok)

end
