(* ===== verification/CpuCallback.thy ===== *)
theory CpuCallback
  imports CpuControlLaws Bus
begin

text \<open>
  The debugger's hooks around every clock of a core,
  src/src/debugger/executor/cpu_control/dbg_cpu_callback.c. The hook before the clock decides whether
  the core has to stop and wait for the debugger; the hook after the clock feeds the records and
  checks the logged bus accesses against the data watch points. The program counter and the
  stack pointer of the core are arguments. Messages are not modelled (they are the only use of
  \<open>dbg_cpu_callback_gdb_mode\<close>), nor is \<open>dbg_log_sync\<close>, which flushes the log
  file. The call of \<open>cputhr_control_cpu_wait\<close> is the flag in the result.
\<close>

section \<open>Before the clock\<close>

definition dbg_notify_cpu_clock_supply_start ::
  "CoreIdType \<Rightarrow> uint32 \<Rightarrow> cpuctrl_state \<Rightarrow> (bool \<times> cpuctrl_state) option" where
  "dbg_notify_cpu_clock_supply_start core_id pc st = do {
    let is_debug_mode = cpuctrl_is_debug_mode st;
    mode \<leftarrow> (if \<not> cpuctrl_is_force_debug_mode st then dbg_cpu_debug_mode_get core_id st else Some True);
    if \<not> mode then Some (False, st)
    else do {
      (timeout, st1) \<leftarrow> cpuctrl_is_timeout_cont_clocks core_id st;
      let (need_stop, st2) =
        (if timeout then (True, st1)
         else if cpuctrl_is_break_point pc st1
         then (case symbol_pc2funcid pc (cc_symbols st1) of (funcid, funcaddr, sy) \<Rightarrow> (True, st1\<lparr>cc_symbols := sy\<rparr>))
         else (is_debug_mode, st1));
      if need_stop
      then do {
        st3 \<leftarrow> cpuctrl_del_all_break BREAK_POINT_TYPE_ONLY_ONCE
          (cpuctrl_set_debug_mode True (cpuctrl_set_current_debugged_core core_id st2));
        Some (True, st3)
      }
      else Some (False, st2)
    }
  }"

section \<open>After the clock\<close>

record DbgCpuCallbackFuncEnableType =
  en_enable_ft :: uint32
  en_enable_bt :: uint32
  en_enable_prof :: uint32
  en_enable_watch :: uint32
  en_enable_sync_time :: uint32
  en_show_skip_time :: uint32
  en_reset_pc :: uint32

text \<open>One logged access: whether it hits a watch point.\<close>

definition check_logged_access ::
  "cpuctrl_env \<Rightarrow> BusAccessLogType \<Rightarrow> cpuctrl_state \<Rightarrow> (bool \<times> cpuctrl_state) option" where
  "check_logged_access env e st =
    (case bl_access_type e of
       BUS_ACCESS_TYPE_READ \<Rightarrow>
         map_option (\<lambda>(inx, st). (inx \<ge> 0, st)) (cpuctrl_is_break_read_access env (bl_access_addr e) (bl_access_size e) st)
     | BUS_ACCESS_TYPE_WRITE \<Rightarrow>
         map_option (\<lambda>(inx, st). (inx \<ge> 0, st)) (cpuctrl_is_break_write_access env (bl_access_addr e) (bl_access_size e) st)
     | BUS_ACCESS_TYPE_NONE \<Rightarrow> Some (False, st))"

text \<open>The loop that empties the log.\<close>

function watch_loop ::
  "cpuctrl_env \<Rightarrow> bool \<Rightarrow> 'd bus_state \<Rightarrow> cpuctrl_state \<Rightarrow> (bool \<times> 'd bus_state \<times> cpuctrl_state) option" where
  "watch_loop env need_stop bus st =
    (case bus_access_get_log bus of
       ((err, entry), bus') \<Rightarrow>
         (case entry of
            None \<Rightarrow> Some (need_stop, bus', st)
          | Some e \<Rightarrow>
             (case check_logged_access env e st of
                None \<Rightarrow> None
              | Some (hit, st') \<Rightarrow> watch_loop env (need_stop \<or> hit) bus' st')))"
  by pat_completeness auto
termination
  by (relation "measure (\<lambda>(env, need_stop, bus, st). unat (bus_access_log_size bus))")
     (auto simp: bus_access_get_log_def Let_def unat_minus_one unat_gt_0 split: if_splits)

declare watch_loop.simps [simp del]

definition record_clock ::
  "cpuctrl_env \<Rightarrow> CoreIdType \<Rightarrow> uint32 \<Rightarrow> uint32 \<Rightarrow> DbgCpuCallbackFuncEnableType \<Rightarrow> cpuctrl_state \<Rightarrow> cpuctrl_state option" where
  "record_clock env core_id pc sp enable_dbg st = do {
    st1 \<leftarrow> (if en_enable_ft enable_dbg = 1 then cpuctrl_set_func_log_trace core_id pc sp st else Some st);
    st2 \<leftarrow> (if en_enable_prof enable_dbg = 1 then cpuctrl_profile_collect env core_id pc st1 else Some st1);
    if en_enable_bt enable_dbg = 1 then cpuctrl_set_stack_pointer sp st2 else Some st2
  }"

definition dbg_notify_cpu_clock_supply_end ::
  "cpuctrl_env \<Rightarrow> CoreIdType \<Rightarrow> uint32 \<Rightarrow> uint32 \<Rightarrow> DbgCpuCallbackFuncEnableType \<Rightarrow> 'd bus_state \<Rightarrow> cpuctrl_state
    \<Rightarrow> ('d bus_state \<times> cpuctrl_state) option" where
  "dbg_notify_cpu_clock_supply_end env core_id pc sp enable_dbg bus st = do {
    st1 \<leftarrow> record_clock env core_id pc sp enable_dbg st;
    if en_enable_watch enable_dbg = 1
    then do {
      (need_stop, bus', st2) \<leftarrow> watch_loop env False bus st1;
      Some (bus', if need_stop then cpuctrl_set_debug_mode True st2 else st2)
    }
    else Some (bus, st1)
  }"

section \<open>Stopping before the clock\<close>

lemma del_break_loop_clears:
  assumes "length (cc_break_points st) = DBG_CPU_CONTROL_BREAK_SETSIZE"
    "\<forall>i\<in>set is. i < DBG_CPU_CONTROL_BREAK_SETSIZE"
  shows "\<exists>n bps. del_break_loop type is st = Some (st\<lparr>cc_break_points_num := n, cc_break_points := bps\<rparr>) \<and>
    length bps = DBG_CPU_CONTROL_BREAK_SETSIZE \<and> map bp_type bps = map bp_type (cc_break_points st) \<and>
    (\<forall>j<DBG_CPU_CONTROL_BREAK_SETSIZE. bp_is_set (bps ! j) \<longleftrightarrow>
       bp_is_set (cc_break_points st ! j) \<and> \<not> (j \<in> set is \<and> 0 < j \<and> bp_type (cc_break_points st ! j) = type))"
  using assms
proof (induction "is" arbitrary: st)
  case Nil
  then show ?case by (intro exI [of _ "cc_break_points_num st"] exI [of _ "cc_break_points st"]) simp
next
  case (Cons i "is")
  let ?bps = "cc_break_points st"
  have i: "i < length ?bps" "i < 2 ^ 32" using Cons.prems by (simp_all add: DBG_CPU_CONTROL_BREAK_SETSIZE_def)
  have u: "unat (of_nat i :: uint32) = i" using i(2) by (simp add: unat_of_nat take_bit_nat_eq_self)
  have pos: "(of_nat i :: uint32) > 0 \<longleftrightarrow> 0 < i" using u by (metis unat_gt_0 word_gt_0)
  define bps where "bps = (if bp_type (?bps ! i) = type \<and> 0 < i then ?bps[i := (?bps ! i)\<lparr>bp_is_set := False\<rparr>] else ?bps)"
  define n where "n = (if bp_type (?bps ! i) = type \<and> 0 < i \<and> bp_is_set (?bps ! i) then cc_break_points_num st - 1
    else cc_break_points_num st)"
  let ?st1 = "st\<lparr>cc_break_points_num := n, cc_break_points := bps\<rparr>"
  have step: "del_break_loop type (i # is) st = del_break_loop type is ?st1"
    using i u pos by (simp add: cpuctrl_del_break_def bps_def n_def)
  have len: "length bps = DBG_CPU_CONTROL_BREAK_SETSIZE" using Cons.prems(1) by (simp add: bps_def)
  have ty: "map bp_type bps = map bp_type ?bps" using i by (simp add: bps_def map_update list_update_same_conv)
  have ty_at: "bp_type (bps ! j) = bp_type (?bps ! j)" for j
    using i by (simp add: bps_def nth_list_update)
  have at: "bp_is_set (bps ! j) \<longleftrightarrow> bp_is_set (?bps ! j) \<and> \<not> (j = i \<and> 0 < j \<and> bp_type (?bps ! j) = type)" for j
    using i by (auto simp: bps_def nth_list_update)
  from Cons.IH [of ?st1] len Cons.prems(2) obtain n' bps' where r:
    "del_break_loop type is ?st1 = Some (?st1\<lparr>cc_break_points_num := n', cc_break_points := bps'\<rparr>)"
    "length bps' = DBG_CPU_CONTROL_BREAK_SETSIZE" "map bp_type bps' = map bp_type bps"
    "\<forall>j<DBG_CPU_CONTROL_BREAK_SETSIZE. bp_is_set (bps' ! j) \<longleftrightarrow>
       bp_is_set (bps ! j) \<and> \<not> (j \<in> set is \<and> 0 < j \<and> bp_type (bps ! j) = type)" by auto
  have "\<forall>j<DBG_CPU_CONTROL_BREAK_SETSIZE. bp_is_set (bps' ! j) \<longleftrightarrow>
       bp_is_set (?bps ! j) \<and> \<not> (j \<in> set (i # is) \<and> 0 < j \<and> bp_type (?bps ! j) = type)"
    using r(4) at ty_at by auto
  then show ?case using r(1-3) ty step by (intro exI [of _ n'] exI [of _ bps']) simp
qed

definition clock_limit_reached :: "CoreIdType \<Rightarrow> cpuctrl_state \<Rightarrow> bool" where
  "clock_limit_reached c st \<longleftrightarrow>
    ct_is_timeout (cc_cont st ! unat c) \<and> ct_cont_clocks (cc_cont st ! unat c) \<le> 1"

text \<open>
  C17: stopping a core. Before a clock, a core whose debugging is enabled (or every core, in the
  forced debug mode) stops exactly when its clock limit is reached, its program counter is at a
  break point, or the debugger is in debug mode. A core that stops leaves the debugger in debug
  mode with that core as the one being debugged and without one-shot break points; a core that
  goes on changes neither break points nor the debug mode.
\<close>

theorem clock_start_stops_iff:
  assumes c: "unat c < length (cc_debug_mode st)" "unat c < length (cc_cont st)"
    and len: "length (cc_break_points st) = DBG_CPU_CONTROL_BREAK_SETSIZE"
  shows "\<exists>stop st'. dbg_notify_cpu_clock_supply_start c pc st = Some (stop, st') \<and>
    (stop \<longleftrightarrow> (cpuctrl_is_force_debug_mode st \<or> cc_debug_mode st ! unat c) \<and>
      (clock_limit_reached c st \<or> cpuctrl_is_break_point pc st \<or> cpuctrl_is_debug_mode st)) \<and>
    (if stop
     then cc_dbg_mode st' = DBG_CPUCTRL_DBG_MODE_NORMAL \<and> cpuctrl_get_current_debugged_core st' = Some c \<and>
       (\<forall>j<DBG_CPU_CONTROL_BREAK_SETSIZE. bp_is_set (cc_break_points st' ! j) \<longleftrightarrow>
         bp_is_set (cc_break_points st ! j) \<and>
         \<not> (0 < j \<and> bp_type (cc_break_points st ! j) = BREAK_POINT_TYPE_ONLY_ONCE))
     else cc_break_points st' = cc_break_points st \<and> cc_dbg_mode st' = cc_dbg_mode st)"
proof (cases "cpuctrl_is_force_debug_mode st \<or> cc_debug_mode st ! unat c")
  case False
  then show ?thesis using c
    by (intro exI [of _ False] exI [of _ st]) (simp add: dbg_notify_cpu_clock_supply_start_def dbg_cpu_debug_mode_get_def)
next
  case True
  let ?cont = "cc_cont st ! unat c"
  define st1 where "st1 = (if ct_is_timeout ?cont \<and> ct_cont_clocks ?cont > 1
    then st\<lparr>cc_cont := (cc_cont st)[unat c := ?cont\<lparr>ct_cont_clocks := ct_cont_clocks ?cont - 1\<rparr>]\<rparr> else st)"
  have t: "cpuctrl_is_timeout_cont_clocks c st = Some (clock_limit_reached c st, st1)"
    using c(2) by (auto simp: cpuctrl_is_timeout_cont_clocks_def clock_limit_reached_def st1_def not_less)
  have same: "cc_break_points st1 = cc_break_points st" "cc_dbg_mode st1 = cc_dbg_mode st"
    "cpuctrl_is_break_point pc st1 = cpuctrl_is_break_point pc st"
    by (simp_all add: st1_def cpuctrl_is_break_point_def)
  obtain funcid fa sy where sy: "symbol_pc2funcid pc (cc_symbols st1) = (funcid, fa, sy)" by (metis prod_cases3)
  let ?stop = "clock_limit_reached c st \<or> cpuctrl_is_break_point pc st \<or> cpuctrl_is_debug_mode st"
  define st2 where "st2 = (if \<not> clock_limit_reached c st \<and> cpuctrl_is_break_point pc st then st1\<lparr>cc_symbols := sy\<rparr> else st1)"
  let ?st3 = "cpuctrl_set_debug_mode True (cpuctrl_set_current_debugged_core c st2)"
  have start: "dbg_notify_cpu_clock_supply_start c pc st =
      (if ?stop then map_option (Pair True) (cpuctrl_del_all_break BREAK_POINT_TYPE_ONLY_ONCE ?st3) else Some (False, st2))"
    using True c(1) t same(3) sy
    by (auto simp: dbg_notify_cpu_clock_supply_start_def dbg_cpu_debug_mode_get_def st2_def map_conv_bind_option
        intro!: arg_cong2 [where f = Option.bind])
  have pts: "cc_break_points ?st3 = cc_break_points st" "cc_dbg_mode ?st3 = DBG_CPUCTRL_DBG_MODE_NORMAL"
    "cc_stopped_core ?st3 = \<lparr>sc_is_stopped = True, sc_core_id = c\<rparr>"
    using same by (simp_all add: cpuctrl_set_debug_mode_def cpuctrl_set_current_debugged_core_def st2_def)
  from del_break_loop_clears [of ?st3 "[0..<DBG_CPU_CONTROL_BREAK_SETSIZE]" BREAK_POINT_TYPE_ONLY_ONCE] len pts(1)
  obtain n bps where d: "cpuctrl_del_all_break BREAK_POINT_TYPE_ONLY_ONCE ?st3 =
      Some (?st3\<lparr>cc_break_points_num := n, cc_break_points := bps\<rparr>)"
    "\<forall>j<DBG_CPU_CONTROL_BREAK_SETSIZE. bp_is_set (bps ! j) \<longleftrightarrow> bp_is_set (cc_break_points st ! j) \<and>
         \<not> (0 < j \<and> bp_type (cc_break_points st ! j) = BREAK_POINT_TYPE_ONLY_ONCE)"
    by (auto simp: cpuctrl_del_all_break_def)
  show ?thesis
  proof (cases ?stop)
    case stop: True
    then show ?thesis using start d pts(2,3) True
      by (intro exI [of _ True] exI [of _ "?st3\<lparr>cc_break_points_num := n, cc_break_points := bps\<rparr>"])
         (simp add: cpuctrl_get_current_debugged_core_def)
  next
    case go: False
    then show ?thesis using start True same by (intro exI [of _ False] exI [of _ st2]) (simp add: st2_def)
  qed
qed

theorem clock_start_stops_iff_witness:
  "\<exists>st'. dbg_notify_cpu_clock_supply_start 0 0x100 ((cpuctrl_static 2 no_symbols)\<lparr>cc_debug_mode := [True, True]\<rparr>)
    = Some (True, st') \<and> cpuctrl_get_current_debugged_core st' = Some 0"
proof -
  let ?st = "(cpuctrl_static 2 no_symbols)\<lparr>cc_debug_mode := [True, True]\<rparr>"
  have "unat (0 :: CoreIdType) < length (cc_debug_mode ?st)" "unat (0 :: CoreIdType) < length (cc_cont ?st)"
    "length (cc_break_points ?st) = DBG_CPU_CONTROL_BREAK_SETSIZE" "cpuctrl_is_debug_mode ?st" "cc_debug_mode ?st ! 0"
    by (simp_all add: cpuctrl_static_def dbg_cpuctrl_break_points_init_def DBG_CPU_CONTROL_BREAK_SETSIZE_def
        cpuctrl_is_debug_mode_def)
  with clock_start_stops_iff [of 0 ?st "0x100"] show ?thesis by auto
qed

section \<open>Watching the accesses of a clock\<close>

definition watched :: "DataWatchPointEumType set \<Rightarrow> BusAccessLogType \<Rightarrow> DbgCpuCtrlDataWatchType list \<Rightarrow> bool" where
  "watched types e ws \<longleftrightarrow> (\<exists>w\<in>set ws. dw_is_set w \<and> dw_type w \<in> types \<and>
     access_bytes (bl_access_addr e) (bl_access_size e) \<inter> watch_bytes w \<noteq> {})"

definition access_hits :: "DbgCpuCtrlDataWatchType list \<Rightarrow> BusAccessLogType \<Rightarrow> bool" where
  "access_hits ws e =
    (case bl_access_type e of
       BUS_ACCESS_TYPE_READ \<Rightarrow> watched {DATA_WATCH_POINT_TYPE_READ, DATA_WATCH_POINT_TYPE_RW} e ws
     | BUS_ACCESS_TYPE_WRITE \<Rightarrow> watched {DATA_WATCH_POINT_TYPE_WRITE, DATA_WATCH_POINT_TYPE_RW} e ws
     | BUS_ACCESS_TYPE_NONE \<Rightarrow> False)"

definition access_ok :: "BusAccessLogType \<Rightarrow> bool" where
  "access_ok e \<longleftrightarrow> 0 < bl_access_size e \<and> unat (bl_access_addr e) + unat (bl_access_size e) < 2 ^ 32"

lemma first_watch_nonneg: "first_watch types (bl_access_addr e) (bl_access_size e) ws r \<Longrightarrow> r \<ge> 0 \<longleftrightarrow> watched types e ws"
  by (auto simp: first_watch_def watched_def Let_def split: if_splits)

lemma check_logged_access_ok:
  assumes inv: "access_inv st" and ok: "\<And>w. w \<in> set (cc_data_watch_points st) \<Longrightarrow> dw_is_set w \<Longrightarrow> watch_ok w"
    and e: "access_ok e"
  shows "\<exists>st'. check_logged_access env e st = Some (access_hits (cc_data_watch_points st) e, st') \<and>
    access_inv st' \<and> cc_data_watch_points st' = cc_data_watch_points st \<and> cc_dbg_mode st' = cc_dbg_mode st"
proof (cases "bl_access_type e")
  case BUS_ACCESS_TYPE_NONE
  then show ?thesis using inv by (simp add: check_logged_access_def access_hits_def)
next
  case BUS_ACCESS_TYPE_READ
  from is_break_access_ok(1) [OF inv ok, of "bl_access_size e" "bl_access_addr e" env] e
  show ?thesis using BUS_ACCESS_TYPE_READ
    by (auto simp: check_logged_access_def access_hits_def access_ok_def dest!: first_watch_nonneg)
next
  case BUS_ACCESS_TYPE_WRITE
  from is_break_access_ok(2) [OF inv ok, of "bl_access_size e" "bl_access_addr e" env] e
  show ?thesis using BUS_ACCESS_TYPE_WRITE
    by (auto simp: check_logged_access_def access_hits_def access_ok_def dest!: first_watch_nonneg)
qed

lemma watch_loop_ok:
  assumes "bus_wf bus" "access_inv st" "\<And>w. w \<in> set (cc_data_watch_points st) \<Longrightarrow> dw_is_set w \<Longrightarrow> watch_ok w"
    "\<forall>e\<in>set (logged bus). access_ok e"
  shows "\<exists>bus' st'. watch_loop env need_stop bus st =
      Some (need_stop \<or> (\<exists>e\<in>set (logged bus). access_hits (cc_data_watch_points st) e), bus', st') \<and>
    logged bus' = [] \<and> bus_mpu bus' = bus_mpu bus \<and> access_inv st' \<and>
    cc_data_watch_points st' = cc_data_watch_points st \<and> cc_dbg_mode st' = cc_dbg_mode st"
  using assms
proof (induction "logged bus" arbitrary: bus st need_stop)
  case Nil
  then show ?case using logged_get_log(1) [OF Nil.prems(1)] by (simp add: watch_loop.simps)
next
  case (Cons e es)
  define bus1 where "bus1 = snd (bus_access_get_log bus)"
  note g = logged_get_log [OF Cons.prems(1), folded bus1_def]
  have get: "bus_access_get_log bus = ((STD_E_OK, Some e), bus1)"
    using g(1) Cons.hyps(2) [symmetric] by (simp add: bus1_def)
  have es: "es = logged bus1" using g(2) Cons.hyps(2) [symmetric] by simp
  have e: "access_ok e" using Cons.prems(4) Cons.hyps(2) [symmetric] by simp
  from check_logged_access_ok [OF Cons.prems(2,3) e, of env] obtain st1 where
    st1: "check_logged_access env e st = Some (access_hits (cc_data_watch_points st) e, st1)" "access_inv st1"
    "cc_data_watch_points st1 = cc_data_watch_points st" "cc_dbg_mode st1 = cc_dbg_mode st" by blast
  have w1: "\<And>w. w \<in> set (cc_data_watch_points st1) \<Longrightarrow> dw_is_set w \<Longrightarrow> watch_ok w"
    using Cons.prems(3) st1(3) by simp
  have a1: "\<forall>e\<in>set (logged bus1). access_ok e" using Cons.prems(4) Cons.hyps(2) [symmetric] es by simp
  from Cons.hyps(1) [OF es g(3) st1(2) w1 a1, of "need_stop \<or> access_hits (cc_data_watch_points st) e"]
  show ?case unfolding Cons.hyps(2) [symmetric] es [symmetric]
    using get st1 g(4) by (auto simp: watch_loop.simps [of env need_stop bus])
qed

text \<open>The records leave the access tables, the watch points and the debug mode as they are.\<close>

definition same_watch :: "cpuctrl_state \<Rightarrow> cpuctrl_state \<Rightarrow> bool" where
  "same_watch st st' \<longleftrightarrow> cc_data_watch_points st' = cc_data_watch_points st \<and> cc_dbg_mode st' = cc_dbg_mode st \<and>
    cc_access_info_table_gl st' = cc_access_info_table_gl st \<and> cc_access_info st' = cc_access_info st \<and>
    (symbols_inv (cc_symbols st) \<longrightarrow> symbols_inv (cc_symbols st') \<and> sy_gl (cc_symbols st') = sy_gl (cc_symbols st))"

lemma same_watch_trans: "same_watch a b \<Longrightarrow> same_watch b c \<Longrightarrow> same_watch a c"
  by (auto simp: same_watch_def)

lemma same_watch_access_inv: "same_watch st st' \<Longrightarrow> access_inv st \<Longrightarrow> access_inv st'"
  by (auto simp: same_watch_def access_inv_def)

lemma pc2funcid_inv:
  "symbol_pc2funcid pc sy = (i, start, sy') \<Longrightarrow> symbols_inv sy \<Longrightarrow> symbols_inv sy' \<and> sy_gl sy' = sy_gl sy"
  by (erule symbol_pc2funcidE [of _ pc]) auto

lemma addr2glid_inv:
  "symbol_addr2glid a sy = (i, start, sy') \<Longrightarrow> symbols_inv sy \<Longrightarrow> symbols_inv sy' \<and> sy_gl sy' = sy_gl sy"
  by (erule symbol_addr2glidE [of _ a]) auto

lemma set_func_log_trace_same: "cpuctrl_set_func_log_trace c pc sp st = Some st' \<Longrightarrow> same_watch st st'"
  by (auto simp: cpuctrl_set_func_log_trace_def same_watch_def dest: pc2funcid_inv
      split: prod.splits if_splits bind_splits)

lemma profile_collect_same: "cpuctrl_profile_collect env c pc st = Some st' \<Longrightarrow> same_watch st st'"
  by (auto simp: cpuctrl_profile_collect_def same_watch_def Let_def dest: pc2funcid_inv
      split: prod.splits if_splits bind_splits)

lemma set_stack_pointer_same: "cpuctrl_set_stack_pointer sp st = Some st' \<Longrightarrow> same_watch st st'"
  by (auto simp: cpuctrl_set_stack_pointer_def same_watch_def dest: addr2glid_inv
      split: prod.splits if_splits bind_splits)

lemma record_clock_same:
  assumes "record_clock env c pc sp en st = Some st'"
  shows "same_watch st st'"
proof -
  have refl: "same_watch s s" for s by (simp add: same_watch_def)
  from assms obtain st1 st2 where
    "(if en_enable_ft en = 1 then cpuctrl_set_func_log_trace c pc sp st else Some st) = Some st1"
    "(if en_enable_prof en = 1 then cpuctrl_profile_collect env c pc st1 else Some st1) = Some st2"
    "(if en_enable_bt en = 1 then cpuctrl_set_stack_pointer sp st2 else Some st2) = Some st'"
    by (auto simp: record_clock_def bind_eq_Some_conv)
  then have "same_watch st st1" "same_watch st1 st2" "same_watch st2 st'"
    using set_func_log_trace_same profile_collect_same set_stack_pointer_same refl
    by (metis option.inject)+
  then show ?thesis using same_watch_trans by blast
qed

text \<open>
  Watching a clock. When the records of a clock are written and the data watch is enabled,
  the hook after the clock empties the access log without touching memory, and turns the debug
  mode on exactly when one of the logged accesses shares a byte with a watch point for its kind of
  access; otherwise the debug mode stays.
\<close>

theorem clock_end_watches_all_accesses:
  assumes rec: "record_clock env c pc sp en st = Some st1" and en: "en_enable_watch en = 1"
    and inv: "bus_wf bus" "access_inv st" and ok: "\<forall>w\<in>set (cc_data_watch_points st). dw_is_set w \<longrightarrow> watch_ok w"
    and log: "\<forall>e\<in>set (logged bus). access_ok e"
  shows "\<exists>bus' st'. dbg_notify_cpu_clock_supply_end env c pc sp en bus st = Some (bus', st') \<and>
    logged bus' = [] \<and> bus_mpu bus' = bus_mpu bus \<and> access_inv st' \<and>
    cc_data_watch_points st' = cc_data_watch_points st \<and>
    cc_dbg_mode st' = (if \<exists>e\<in>set (logged bus). access_hits (cc_data_watch_points st) e
      then DBG_CPUCTRL_DBG_MODE_NORMAL else cc_dbg_mode st)"
proof -
  have same: "same_watch st st1" using rec by (rule record_clock_same)
  have inv1: "access_inv st1" using same inv(2) by (rule same_watch_access_inv)
  have w: "cc_data_watch_points st1 = cc_data_watch_points st" "cc_dbg_mode st1 = cc_dbg_mode st"
    using same by (simp_all add: same_watch_def)
  have ok1: "\<And>w. w \<in> set (cc_data_watch_points st1) \<Longrightarrow> dw_is_set w \<Longrightarrow> watch_ok w" using ok w(1) by simp
  from watch_loop_ok [OF inv(1) inv1 ok1 log, of env False] obtain bus' st2 where
    loop: "watch_loop env False bus st1 =
      Some (\<exists>e\<in>set (logged bus). access_hits (cc_data_watch_points st) e, bus', st2)"
    "logged bus' = []" "bus_mpu bus' = bus_mpu bus" "access_inv st2"
    "cc_data_watch_points st2 = cc_data_watch_points st" "cc_dbg_mode st2 = cc_dbg_mode st"
    using w by auto
  have mode: "access_inv (cpuctrl_set_debug_mode True st2)"
    "cc_data_watch_points (cpuctrl_set_debug_mode True st2) = cc_data_watch_points st2"
    "cc_dbg_mode (cpuctrl_set_debug_mode True st2) = DBG_CPUCTRL_DBG_MODE_NORMAL"
    using loop(4) by (simp_all add: cpuctrl_set_debug_mode_def access_inv_def)
  show ?thesis using rec en loop mode
    by (cases "\<exists>e\<in>set (logged bus). access_hits (cc_data_watch_points st) e")
       (simp_all add: dbg_notify_cpu_clock_supply_end_def)
qed

definition example_bus :: "unit bus_state" where
  "example_bus = bus_access_set_log BUS_ACCESS_TYPE_WRITE 4 0x1002 7
    \<lparr>bus_mpu = example_map, bus_access_log_size = 0,
     bus_access_log = replicate 128 \<lparr>bl_access_type = BUS_ACCESS_TYPE_NONE, bl_access_size = 0, bl_access_addr = 0,
       bl_access_last_data = 0\<rparr>\<rparr>"

theorem clock_end_watches_all_accesses_witness:
  "\<exists>bus' st'. dbg_notify_cpu_clock_supply_end \<lparr>ce_core_id = 0, ce_core_sp = 0, ce_total_clocks = 0\<rparr> 0 0 0
      \<lparr>en_enable_ft = 0, en_enable_bt = 0, en_enable_prof = 0, en_enable_watch = 1, en_enable_sync_time = 0,
       en_show_skip_time = 0, en_reset_pc = 0\<rparr> example_bus
      (example_watch\<lparr>cc_dbg_mode := DBG_CPUCTRL_DBG_MODE_NONE\<rparr>) = Some (bus', st') \<and>
    cpuctrl_is_debug_mode st'"
proof -
  let ?env = "\<lparr>ce_core_id = 0, ce_core_sp = 0, ce_total_clocks = 0\<rparr>"
  let ?en = "\<lparr>en_enable_ft = 0, en_enable_bt = 0, en_enable_prof = 0, en_enable_watch = 1, en_enable_sync_time = 0,
       en_show_skip_time = 0, en_reset_pc = 0\<rparr> :: DbgCpuCallbackFuncEnableType"
  let ?st = "example_watch\<lparr>cc_dbg_mode := DBG_CPUCTRL_DBG_MODE_NONE\<rparr>"
  let ?w = "\<lparr>dw_is_set = True, dw_type = DATA_WATCH_POINT_TYPE_RW, dw_addr = 0x1000, dw_size = 4\<rparr>"
  let ?e = "\<lparr>bl_access_type = BUS_ACCESS_TYPE_WRITE, bl_access_size = 4, bl_access_addr = 0x1002, bl_access_last_data = 7\<rparr>"
  have rec: "record_clock ?env 0 0 0 ?en ?st = Some ?st" by (simp add: record_clock_def)
  have inv: "access_inv ?st" using example_watch_points(2) by (simp add: access_inv_def)
  have ok: "\<forall>w\<in>set (cc_data_watch_points ?st). dw_is_set w \<longrightarrow> watch_ok w"
    by (simp add: example_watch_points(1) watch_ok_def)
  let ?b0 = "\<lparr>bus_mpu = example_map, bus_access_log_size = 0,
     bus_access_log = replicate 128 \<lparr>bl_access_type = BUS_ACCESS_TYPE_NONE, bl_access_size = 0, bl_access_addr = 0,
       bl_access_last_data = 0\<rparr>\<rparr> :: unit bus_state"
  have b0: "bus_wf ?b0" "logged ?b0 = []" by (simp_all add: bus_wf_def BUS_ACCESS_LOG_SIZE_def logged_def)
  have wf: "bus_wf example_bus" and lg: "logged example_bus = [?e]"
    using logged_set_log [OF b0(1), of BUS_ACCESS_TYPE_WRITE 4 "0x1002" 7] b0(2) by (simp_all add: example_bus_def)
  have "0x1002 \<in> access_bytes 0x1002 4 \<inter> watch_bytes ?w" by (simp add: access_bytes_def watch_bytes_def)
  then have hit: "access_hits (cc_data_watch_points ?st) ?e"
    by (auto simp: access_hits_def watched_def example_watch_points(1))
  have log: "\<forall>e\<in>set (logged example_bus). access_ok e" by (simp add: lg access_ok_def)
  have en: "en_enable_watch ?en = 1" by simp
  from clock_end_watches_all_accesses [OF rec en wf inv ok log] show ?thesis
    unfolding lg using hit by (auto simp: cpuctrl_is_debug_mode_def)
qed

end
