(* ===== verification/ThreadControl.thy ===== *)
theory ThreadControl
  imports Prelude
begin

text \<open>
  The hand-over between the CPU thread and the debugger thread,
  src/src/debugger/executor/cpu_control/dbg_cpu_thread_control.c, as a step relation: each step is one
  statement of one thread, and the steps of the two threads interleave in any order.
  \<^item> The mutex has an owner or is free; \<open>pthread_mutex_lock\<close> is a step that is possible
    only while it is free. \<open>pthread_cond_wait\<close> releases it and blocks;
    \<open>pthread_cond_signal\<close> unblocks the thread that is blocked on the condition, if any, and
    a blocked thread may also wake up without a signal; a woken thread takes the mutex again.
  \<^item> The CPU thread runs until it calls \<open>cputhr_control_cpu_wait\<close> (or
    \<open>cputhr_control_cpu_wakeup_dbg\<close>); the debugger thread calls its operations in any order.
  \<^item> Two fields that the program does not have record its history: \<open>th_taken\<close> counts the
    wake-up requests the CPU thread has taken and \<open>th_mark\<close> is that count when the last
    request was made.
\<close>

section \<open>State\<close>

datatype DbgCpuThrStateType = THREAD_STATE_RUNNING | THREAD_STATE_WAIT

datatype thread_name = Cpu_thread | Dbg_thread

text \<open>Where the CPU thread is.\<close>

datatype cpu_at =
    Cpu_run          \<comment> \<open>outside the operations\<close>
  | Cpu_lock         \<comment> \<open>\<open>cpu_wait\<close>: before taking the mutex\<close>
  | Cpu_set_wait     \<comment> \<open>before \<open>cputhr_state = THREAD_STATE_WAIT\<close>\<close>
  | Cpu_test         \<comment> \<open>before the test of the loop\<close>
  | Cpu_blocked      \<comment> \<open>in \<open>pthread_cond_wait\<close>\<close>
  | Cpu_relock       \<comment> \<open>woken up, before taking the mutex again\<close>
  | Cpu_take         \<comment> \<open>after the loop\<close>
  | Cpu_set_running  \<comment> \<open>before \<open>cputhr_state = THREAD_STATE_RUNNING\<close>\<close>
  | Cpu_unlock
  | Cpu_notify_lock  \<comment> \<open>\<open>cpu_wakeup_dbg\<close>: before taking the mutex\<close>
  | Cpu_notify       \<comment> \<open>before the signal\<close>

datatype dbg_call = Call_wakeup | Call_wakeup_and_wait | Call_waitfor_stopped

text \<open>Where the debugger thread is, in which of its operations.\<close>

datatype dbg_at =
    Dbg_run
  | Dbg_lock dbg_call
  | Dbg_request dbg_call    \<comment> \<open>before \<open>cputhr_wakeup_requested = TRUE\<close>\<close>
  | Dbg_signal dbg_call     \<comment> \<open>before \<open>pthread_cond_signal(&cpu_cv)\<close>\<close>
  | Dbg_test dbg_call       \<comment> \<open>before the test of the loop\<close>
  | Dbg_retry dbg_call      \<comment> \<open>in the loop, before unlocking\<close>
  | Dbg_sleep dbg_call      \<comment> \<open>in the loop, unlocked\<close>
  | Dbg_unlock dbg_call     \<comment> \<open>before the final unlock\<close>
  | Dbg_wait_lock           \<comment> \<open>\<open>dbg_wait\<close>\<close>
  | Dbg_wait_set
  | Dbg_wait_block
  | Dbg_blocked
  | Dbg_wait_relock
  | Dbg_wait_done
  | Dbg_wait_unlock

record thr_state =
  th_mutex :: "thread_name option"
  th_dbgthr_state :: DbgCpuThrStateType
  th_cputhr_state :: DbgCpuThrStateType
  th_wakeup_requested :: bool
  th_cpu :: cpu_at
  th_dbg :: dbg_at
  th_taken :: nat
  th_mark :: nat

text \<open>After \<open>cputhr_control_init\<close> and \<open>cputhr_control_start\<close>.\<close>

definition cputhr_control_start :: thr_state where
  "cputhr_control_start =
    \<lparr>th_mutex = None, th_dbgthr_state = THREAD_STATE_RUNNING, th_cputhr_state = THREAD_STATE_RUNNING,
     th_wakeup_requested = False, th_cpu = Cpu_run, th_dbg = Dbg_run, th_taken = 0, th_mark = 0\<rparr>"

section \<open>Steps\<close>

inductive cputhr_control_cpu_wait :: "thr_state \<Rightarrow> thr_state \<Rightarrow> bool" where
  cpu_call: "th_cpu s = Cpu_run \<Longrightarrow> cputhr_control_cpu_wait s (s\<lparr>th_cpu := Cpu_lock\<rparr>)"
| cpu_lock: "th_cpu s = Cpu_lock \<Longrightarrow> th_mutex s = None \<Longrightarrow>
    cputhr_control_cpu_wait s (s\<lparr>th_cpu := Cpu_set_wait, th_mutex := Some Cpu_thread\<rparr>)"
| cpu_set_wait: "th_cpu s = Cpu_set_wait \<Longrightarrow>
    cputhr_control_cpu_wait s (s\<lparr>th_cpu := Cpu_test, th_cputhr_state := THREAD_STATE_WAIT\<rparr>)"
| cpu_test_no: "th_cpu s = Cpu_test \<Longrightarrow> \<not> th_wakeup_requested s \<Longrightarrow>
    cputhr_control_cpu_wait s (s\<lparr>th_cpu := Cpu_blocked, th_mutex := None\<rparr>)"
| cpu_spurious: "th_cpu s = Cpu_blocked \<Longrightarrow> cputhr_control_cpu_wait s (s\<lparr>th_cpu := Cpu_relock\<rparr>)"
| cpu_relock: "th_cpu s = Cpu_relock \<Longrightarrow> th_mutex s = None \<Longrightarrow>
    cputhr_control_cpu_wait s (s\<lparr>th_cpu := Cpu_test, th_mutex := Some Cpu_thread\<rparr>)"
| cpu_test_yes: "th_cpu s = Cpu_test \<Longrightarrow> th_wakeup_requested s \<Longrightarrow>
    cputhr_control_cpu_wait s (s\<lparr>th_cpu := Cpu_take\<rparr>)"
| cpu_take: "th_cpu s = Cpu_take \<Longrightarrow>
    cputhr_control_cpu_wait s (s\<lparr>th_cpu := Cpu_set_running, th_wakeup_requested := False, th_taken := Suc (th_taken s)\<rparr>)"
| cpu_set_running: "th_cpu s = Cpu_set_running \<Longrightarrow>
    cputhr_control_cpu_wait s (s\<lparr>th_cpu := Cpu_unlock, th_cputhr_state := THREAD_STATE_RUNNING\<rparr>)"
| cpu_unlock: "th_cpu s = Cpu_unlock \<Longrightarrow>
    cputhr_control_cpu_wait s (s\<lparr>th_cpu := Cpu_run, th_mutex := None\<rparr>)"

inductive cputhr_control_cpu_wakeup_dbg :: "thr_state \<Rightarrow> thr_state \<Rightarrow> bool" where
  notify_call: "th_cpu s = Cpu_run \<Longrightarrow> cputhr_control_cpu_wakeup_dbg s (s\<lparr>th_cpu := Cpu_notify_lock\<rparr>)"
| notify_lock: "th_cpu s = Cpu_notify_lock \<Longrightarrow> th_mutex s = None \<Longrightarrow>
    cputhr_control_cpu_wakeup_dbg s (s\<lparr>th_cpu := Cpu_notify, th_mutex := Some Cpu_thread\<rparr>)"
| notify_signal: "th_cpu s = Cpu_notify \<Longrightarrow>
    cputhr_control_cpu_wakeup_dbg s
      (s\<lparr>th_cpu := Cpu_unlock, th_dbg := (if th_dbg s = Dbg_blocked then Dbg_wait_relock else th_dbg s)\<rparr>)"

inductive cputhr_control_dbg_wait :: "thr_state \<Rightarrow> thr_state \<Rightarrow> bool" where
  dwait_call: "th_dbg s = Dbg_run \<Longrightarrow> cputhr_control_dbg_wait s (s\<lparr>th_dbg := Dbg_wait_lock\<rparr>)"
| dwait_lock: "th_dbg s = Dbg_wait_lock \<Longrightarrow> th_mutex s = None \<Longrightarrow>
    cputhr_control_dbg_wait s (s\<lparr>th_dbg := Dbg_wait_set, th_mutex := Some Dbg_thread\<rparr>)"
| dwait_set: "th_dbg s = Dbg_wait_set \<Longrightarrow>
    cputhr_control_dbg_wait s (s\<lparr>th_dbg := Dbg_wait_block, th_dbgthr_state := THREAD_STATE_WAIT\<rparr>)"
| dwait_block: "th_dbg s = Dbg_wait_block \<Longrightarrow>
    cputhr_control_dbg_wait s (s\<lparr>th_dbg := Dbg_blocked, th_mutex := None\<rparr>)"
| dwait_spurious: "th_dbg s = Dbg_blocked \<Longrightarrow> cputhr_control_dbg_wait s (s\<lparr>th_dbg := Dbg_wait_relock\<rparr>)"
| dwait_relock: "th_dbg s = Dbg_wait_relock \<Longrightarrow> th_mutex s = None \<Longrightarrow>
    cputhr_control_dbg_wait s (s\<lparr>th_dbg := Dbg_wait_done, th_mutex := Some Dbg_thread\<rparr>)"
| dwait_done: "th_dbg s = Dbg_wait_done \<Longrightarrow>
    cputhr_control_dbg_wait s (s\<lparr>th_dbg := Dbg_wait_unlock, th_dbgthr_state := THREAD_STATE_RUNNING\<rparr>)"
| dwait_unlock: "th_dbg s = Dbg_wait_unlock \<Longrightarrow>
    cputhr_control_dbg_wait s (s\<lparr>th_dbg := Dbg_run, th_mutex := None\<rparr>)"

text \<open>
  The wake-up operations and the waiting loops. \<open>cputhr_control_dbg_wakeup_cpu\<close> requests,
  signals and returns; \<open>cputhr_control_dbg_wakeup_cpu_and_wait_for_cpu_stopped\<close> goes on with
  the loop; \<open>cputhr_control_dbg_waitfor_cpu_stopped\<close> is the loop alone, with a weaker test.
\<close>

definition stays_in_loop :: "dbg_call \<Rightarrow> thr_state \<Rightarrow> bool" where
  "stays_in_loop call s =
    (case call of
       Call_wakeup_and_wait \<Rightarrow> th_wakeup_requested s \<or> th_cputhr_state s = THREAD_STATE_RUNNING
     | Call_waitfor_stopped \<Rightarrow> th_cputhr_state s = THREAD_STATE_RUNNING
     | Call_wakeup \<Rightarrow> False)"

inductive dbg_control_step :: "thr_state \<Rightarrow> thr_state \<Rightarrow> bool" where
  dbg_call: "th_dbg s = Dbg_run \<Longrightarrow> dbg_control_step s (s\<lparr>th_dbg := Dbg_lock call\<rparr>)"
| dbg_lock: "th_dbg s = Dbg_lock call \<Longrightarrow> th_mutex s = None \<Longrightarrow>
    dbg_control_step s (s\<lparr>th_mutex := Some Dbg_thread,
      th_dbg := (if call = Call_waitfor_stopped then Dbg_test call else Dbg_request call)\<rparr>)"
| dbg_request: "th_dbg s = Dbg_request call \<Longrightarrow>
    dbg_control_step s (s\<lparr>th_dbg := Dbg_signal call, th_wakeup_requested := True, th_mark := th_taken s\<rparr>)"
| dbg_signal: "th_dbg s = Dbg_signal call \<Longrightarrow>
    dbg_control_step s (s\<lparr>th_dbg := (if call = Call_wakeup then Dbg_unlock call else Dbg_test call),
      th_cpu := (if th_cpu s = Cpu_blocked then Cpu_relock else th_cpu s)\<rparr>)"
| dbg_test_again: "th_dbg s = Dbg_test call \<Longrightarrow> stays_in_loop call s \<Longrightarrow>
    dbg_control_step s (s\<lparr>th_dbg := Dbg_retry call\<rparr>)"
| dbg_retry: "th_dbg s = Dbg_retry call \<Longrightarrow>
    dbg_control_step s (s\<lparr>th_dbg := Dbg_sleep call, th_mutex := None\<rparr>)"
| dbg_sleep: "th_dbg s = Dbg_sleep call \<Longrightarrow> th_mutex s = None \<Longrightarrow>
    dbg_control_step s (s\<lparr>th_dbg := Dbg_test call, th_mutex := Some Dbg_thread\<rparr>)"
| dbg_test_done: "th_dbg s = Dbg_test call \<Longrightarrow> \<not> stays_in_loop call s \<Longrightarrow>
    dbg_control_step s (s\<lparr>th_dbg := Dbg_unlock call\<rparr>)"
| dbg_unlock: "th_dbg s = Dbg_unlock call \<Longrightarrow>
    dbg_control_step s (s\<lparr>th_dbg := Dbg_run, th_mutex := None\<rparr>)"

definition thr_step :: "thr_state \<Rightarrow> thr_state \<Rightarrow> bool" where
  "thr_step s s' \<longleftrightarrow> cputhr_control_cpu_wait s s' \<or> cputhr_control_cpu_wakeup_dbg s s' \<or>
    cputhr_control_dbg_wait s s' \<or> dbg_control_step s s'"

inductive thr_reach :: "thr_state \<Rightarrow> bool" where
  reach_start: "thr_reach cputhr_control_start"
| reach_step: "thr_reach s \<Longrightarrow> thr_step s s' \<Longrightarrow> thr_reach s'"

section \<open>Invariant\<close>

definition cpu_owns :: "cpu_at \<Rightarrow> bool" where
  "cpu_owns a \<longleftrightarrow> a \<in> {Cpu_set_wait, Cpu_test, Cpu_take, Cpu_set_running, Cpu_unlock, Cpu_notify}"

fun dbg_owns :: "dbg_at \<Rightarrow> bool" where
  "dbg_owns (Dbg_request _) = True"
| "dbg_owns (Dbg_signal _) = True"
| "dbg_owns (Dbg_test _) = True"
| "dbg_owns (Dbg_retry _) = True"
| "dbg_owns (Dbg_unlock _) = True"
| "dbg_owns a = (a \<in> {Dbg_wait_set, Dbg_wait_block, Dbg_wait_done, Dbg_wait_unlock})"

text \<open>The CPU thread has stopped: it has announced that it waits and has not taken a request since.\<close>

definition cpu_stopped :: "cpu_at \<Rightarrow> bool" where
  "cpu_stopped a \<longleftrightarrow> a \<in> {Cpu_test, Cpu_blocked, Cpu_relock, Cpu_take, Cpu_set_running}"

fun after_request :: "dbg_at \<Rightarrow> bool" where
  "after_request (Dbg_signal call) = True"
| "after_request (Dbg_test call) = (call = Call_wakeup_and_wait)"
| "after_request (Dbg_retry call) = (call = Call_wakeup_and_wait)"
| "after_request (Dbg_sleep call) = (call = Call_wakeup_and_wait)"
| "after_request (Dbg_unlock call) = (call = Call_wakeup_and_wait)"
| "after_request _ = False"

definition thr_inv :: "thr_state \<Rightarrow> bool" where
  "thr_inv s \<longleftrightarrow>
    (th_mutex s = Some Cpu_thread \<longleftrightarrow> cpu_owns (th_cpu s)) \<and>
    (th_mutex s = Some Dbg_thread \<longleftrightarrow> dbg_owns (th_dbg s)) \<and>
    (th_cputhr_state s = THREAD_STATE_WAIT \<longleftrightarrow> cpu_stopped (th_cpu s)) \<and>
    (th_cpu s = Cpu_take \<longrightarrow> th_wakeup_requested s) \<and>
    (th_cpu s = Cpu_blocked \<and> th_wakeup_requested s \<longrightarrow> (\<exists>call. th_dbg s = Dbg_signal call)) \<and>
    (after_request (th_dbg s) \<longrightarrow> th_wakeup_requested s \<or> th_mark s < th_taken s) \<and>
    th_mark s \<le> th_taken s"

lemmas thr_inv_simps = thr_inv_def cpu_owns_def cpu_stopped_def

lemma cpu_owner: "thr_inv s \<Longrightarrow> cpu_owns (th_cpu s) \<Longrightarrow> th_mutex s = Some Cpu_thread \<and> \<not> dbg_owns (th_dbg s)"
  unfolding thr_inv_def by (metis option.inject thread_name.distinct(1))

lemma dbg_owner: "thr_inv s \<Longrightarrow> dbg_owns (th_dbg s) \<Longrightarrow> th_mutex s = Some Dbg_thread \<and> \<not> cpu_owns (th_cpu s)"
  unfolding thr_inv_def by (metis option.inject thread_name.distinct(1))

lemma start_inv: "thr_inv cputhr_control_start"
  by (simp add: thr_inv_simps cputhr_control_start_def)

lemma cpu_wait_inv: "cputhr_control_cpu_wait s s' \<Longrightarrow> thr_inv s \<Longrightarrow> thr_inv s'"
  by (induction rule: cputhr_control_cpu_wait.induct) (auto simp: thr_inv_simps)

lemma cpu_wakeup_dbg_inv: "cputhr_control_cpu_wakeup_dbg s s' \<Longrightarrow> thr_inv s \<Longrightarrow> thr_inv s'"
proof (induction rule: cputhr_control_cpu_wakeup_dbg.induct)
  case (notify_call s)
  then show ?case by (simp add: thr_inv_simps)
next
  case (notify_lock s)
  then show ?case by (simp add: thr_inv_simps)
next
  case (notify_signal s)
  have "th_mutex s = Some Cpu_thread" "\<not> dbg_owns (th_dbg s)"
    using cpu_owner [OF notify_signal.prems] notify_signal.hyps by (simp_all add: cpu_owns_def)
  then show ?case using notify_signal by (cases "th_dbg s = Dbg_blocked") (simp_all add: thr_inv_simps)
qed

lemma dbg_wait_inv:
  assumes "cputhr_control_dbg_wait s s'" "thr_inv s"
  shows "thr_inv s'"
proof -
  note own = dbg_owner [OF assms(2)] and inv = assms(2) [unfolded thr_inv_simps]
  from assms(1) show ?thesis
    by cases (use own inv in \<open>simp_all add: thr_inv_simps\<close>)
qed

lemma dbg_control_inv:
  assumes "dbg_control_step s s'" "thr_inv s"
  shows "thr_inv s'"
proof -
  note own = dbg_owner [OF assms(2)] and inv = assms(2) [unfolded thr_inv_simps]
  from assms(1) show ?thesis
  proof cases
    case (dbg_lock call)
    then show ?thesis using own inv by (cases call) (simp_all add: thr_inv_simps)
  next
    case (dbg_signal call)
    then show ?thesis using own inv
      by (cases call; cases "th_cpu s = Cpu_blocked") (simp_all add: thr_inv_simps)
  qed (use own inv in \<open>simp_all add: thr_inv_simps\<close>)
qed

lemma reach_inv: "thr_reach s \<Longrightarrow> thr_inv s"
  by (induction rule: thr_reach.induct)
     (auto simp: thr_step_def intro: start_inv cpu_wait_inv cpu_wakeup_dbg_inv dbg_wait_inv dbg_control_inv)

inductive_cases test_doneE: "dbg_control_step s s'"

section \<open>Properties\<close>

text \<open>
  C18: no lost wake-up. In every reachable state, if the CPU thread is blocked while a wake-up
  request is pending, the debugger thread is about to signal it: the request is never forgotten.
\<close>

theorem no_lost_wakeup:
  assumes "thr_reach s" "th_cpu s = Cpu_blocked" "th_wakeup_requested s"
  shows "\<exists>call. th_dbg s = Dbg_signal call"
  using reach_inv [OF assms(1)] assms(2,3) by (simp add: thr_inv_def)

text \<open>
  C19: waiting for the stop. When
  \<open>cputhr_control_dbg_wakeup_cpu_and_wait_for_cpu_stopped\<close> leaves its loop, the CPU thread has
  taken the request of this call, no request is pending, and the CPU thread waits for the next
  request without holding the mutex.
\<close>

theorem wakeup_and_wait_returns_stopped:
  assumes "thr_reach s" "th_dbg s = Dbg_test Call_wakeup_and_wait" "dbg_control_step s s'"
    "th_dbg s' = Dbg_unlock Call_wakeup_and_wait"
  shows "th_mark s' < th_taken s' \<and> \<not> th_wakeup_requested s' \<and> th_cputhr_state s' = THREAD_STATE_WAIT \<and>
    (th_cpu s' = Cpu_blocked \<or> th_cpu s' = Cpu_relock)"
proof -
  have inv: "thr_inv s" using assms(1) by (rule reach_inv)
  from assms(2-4) have out: "\<not> stays_in_loop Call_wakeup_and_wait s" and s': "s' = s\<lparr>th_dbg := Dbg_unlock Call_wakeup_and_wait\<rparr>"
    by (auto elim!: test_doneE)
  have w: "\<not> th_wakeup_requested s" "th_cputhr_state s = THREAD_STATE_WAIT"
    using out by (auto simp: stays_in_loop_def intro: DbgCpuThrStateType.exhaust)
  have "\<not> cpu_owns (th_cpu s)" using inv assms(2) by (auto simp: thr_inv_def)
  then have "th_cpu s = Cpu_blocked \<or> th_cpu s = Cpu_relock"
    using inv w(2) by (auto simp: thr_inv_simps)
  moreover have "th_mark s < th_taken s" using inv assms(2) w(1) by (simp add: thr_inv_def)
  ultimately show ?thesis using w by (simp add: s')
qed

text \<open>The CPU thread's way from each place to taking the pending request.\<close>

lemma take_from_test:
  assumes "th_cpu s = Cpu_test" "th_wakeup_requested s"
  shows "\<exists>s'. cputhr_control_cpu_wait\<^sup>*\<^sup>* s s' \<and> th_cpu s' = Cpu_run \<and> th_taken s' = Suc (th_taken s) \<and> \<not> th_wakeup_requested s'"
proof -
  let ?s1 = "s\<lparr>th_cpu := Cpu_take\<rparr>"
  let ?s2 = "?s1\<lparr>th_cpu := Cpu_set_running, th_wakeup_requested := False, th_taken := Suc (th_taken ?s1)\<rparr>"
  let ?s3 = "?s2\<lparr>th_cpu := Cpu_unlock, th_cputhr_state := THREAD_STATE_RUNNING\<rparr>"
  let ?s4 = "?s3\<lparr>th_cpu := Cpu_run, th_mutex := None\<rparr>"
  have "cputhr_control_cpu_wait s ?s1" using assms by (rule cpu_test_yes)
  moreover have "cputhr_control_cpu_wait ?s1 ?s2" by (rule cpu_take) simp
  moreover have "cputhr_control_cpu_wait ?s2 ?s3" by (rule cpu_set_running) simp
  moreover have "cputhr_control_cpu_wait ?s3 ?s4" by (rule cpu_unlock) simp
  ultimately have "cputhr_control_cpu_wait\<^sup>*\<^sup>* s ?s4" by (meson converse_rtranclp_into_rtranclp rtranclp.rtrancl_refl)
  then show ?thesis by (intro exI [of _ ?s4]) simp
qed

lemma take_from_relock:
  assumes "th_cpu s = Cpu_relock" "th_mutex s = None" "th_wakeup_requested s"
  shows "\<exists>s'. cputhr_control_cpu_wait\<^sup>*\<^sup>* s s' \<and> th_cpu s' = Cpu_run \<and> th_taken s' = Suc (th_taken s) \<and> \<not> th_wakeup_requested s'"
proof -
  let ?s1 = "s\<lparr>th_cpu := Cpu_test, th_mutex := Some Cpu_thread\<rparr>"
  have "cputhr_control_cpu_wait s ?s1" using assms(1,2) by (rule cpu_relock)
  with take_from_test [of ?s1] assms(3) show ?thesis by (auto intro: converse_rtranclp_into_rtranclp)
qed

lemma take_from_run:
  assumes "th_cpu s = Cpu_run" "th_mutex s = None" "th_wakeup_requested s"
  shows "\<exists>s'. cputhr_control_cpu_wait\<^sup>*\<^sup>* s s' \<and> th_cpu s' = Cpu_run \<and> th_taken s' = Suc (th_taken s) \<and> \<not> th_wakeup_requested s'"
proof -
  let ?s1 = "s\<lparr>th_cpu := Cpu_lock\<rparr>"
  let ?s2 = "?s1\<lparr>th_cpu := Cpu_set_wait, th_mutex := Some Cpu_thread\<rparr>"
  let ?s3 = "?s2\<lparr>th_cpu := Cpu_test, th_cputhr_state := THREAD_STATE_WAIT\<rparr>"
  have "cputhr_control_cpu_wait s ?s1" using assms(1) by (rule cpu_call)
  moreover have "cputhr_control_cpu_wait ?s1 ?s2" using assms(2) by (intro cpu_lock) simp_all
  moreover have "cputhr_control_cpu_wait ?s2 ?s3" by (rule cpu_set_wait) simp
  ultimately have "cputhr_control_cpu_wait\<^sup>*\<^sup>* s ?s3" by (meson converse_rtranclp_into_rtranclp rtranclp.rtrancl_refl)
  with take_from_test [of ?s3] assms(3) show ?thesis by (auto intro: rtranclp_trans)
qed


section \<open>Runs\<close>

lemma reach_cpu: "thr_reach s \<Longrightarrow> cputhr_control_cpu_wait s s' \<Longrightarrow> thr_reach s'"
  by (auto simp: thr_step_def intro: reach_step)

lemma reach_dbg: "thr_reach s \<Longrightarrow> dbg_control_step s s' \<Longrightarrow> thr_reach s'"
  by (auto simp: thr_step_def intro: reach_step)

text \<open>The CPU thread stops first; then the debugger thread wakes it up.\<close>

abbreviation (input) stopped_at :: "dbg_at \<Rightarrow> thread_name option \<Rightarrow> bool \<Rightarrow> cpu_at \<Rightarrow> thr_state" where
  "stopped_at d m req c \<equiv>
    \<lparr>th_mutex = m, th_dbgthr_state = THREAD_STATE_RUNNING, th_cputhr_state = THREAD_STATE_WAIT,
     th_wakeup_requested = req, th_cpu = c, th_dbg = d, th_taken = 0, th_mark = 0\<rparr>"

lemma reach_blocked: "thr_reach (stopped_at Dbg_run None False Cpu_blocked)"
proof -
  have "thr_reach (cputhr_control_start\<lparr>th_cpu := Cpu_lock\<rparr>)"
    by (rule reach_cpu [OF reach_start cpu_call]) (simp add: cputhr_control_start_def)
  from reach_cpu [OF this cpu_lock]
  have "thr_reach (cputhr_control_start\<lparr>th_cpu := Cpu_set_wait, th_mutex := Some Cpu_thread\<rparr>)"
    by (simp add: cputhr_control_start_def)
  from reach_cpu [OF this cpu_set_wait]
  have "thr_reach (stopped_at Dbg_run (Some Cpu_thread) False Cpu_test)" by (simp add: cputhr_control_start_def)
  from reach_cpu [OF this cpu_test_no] show ?thesis by simp
qed

lemma reach_requested: "thr_reach (stopped_at (Dbg_signal call) (Some Dbg_thread) True Cpu_blocked)"
  if "call \<noteq> Call_waitfor_stopped"
proof -
  from reach_dbg [OF reach_blocked dbg_call, of call]
  have "thr_reach (stopped_at (Dbg_lock call) None False Cpu_blocked)" by simp
  from reach_dbg [OF this dbg_lock, of call] that
  have "thr_reach (stopped_at (Dbg_request call) (Some Dbg_thread) False Cpu_blocked)" by simp
  from reach_dbg [OF this dbg_request, of call] show ?thesis by simp
qed

lemma reach_woken: "thr_reach (stopped_at Dbg_run None True Cpu_relock)"
proof -
  from reach_dbg [OF reach_requested dbg_signal, of Call_wakeup Call_wakeup]
  have "thr_reach (stopped_at (Dbg_unlock Call_wakeup) (Some Dbg_thread) True Cpu_relock)" by simp
  from reach_dbg [OF this dbg_unlock, of Call_wakeup] show ?thesis by simp
qed

theorem no_lost_wakeup_witness:
  "\<exists>call. th_dbg (stopped_at (Dbg_signal Call_wakeup) (Some Dbg_thread) True Cpu_blocked) = Dbg_signal call"
  by (rule no_lost_wakeup [OF reach_requested]) simp_all


text \<open>
  A wait that ends too early. \<open>cputhr_control_dbg_waitfor_cpu_stopped\<close> does not look
  at pending requests: there is a run in which the debugger thread wakes the CPU up, asks for the
  stop and leaves the loop at once, while the CPU thread has not even taken the request and is
  going to run.
\<close>

theorem waitfor_stopped_ignores_requests:
  "\<exists>s s'. thr_reach s \<and> th_dbg s = Dbg_test Call_waitfor_stopped \<and> dbg_control_step s s' \<and>
    th_dbg s' = Dbg_unlock Call_waitfor_stopped \<and> th_wakeup_requested s' \<and> th_cpu s' = Cpu_relock"
proof -
  let ?c = Call_waitfor_stopped
  from reach_dbg [OF reach_woken dbg_call, of ?c]
  have "thr_reach (stopped_at (Dbg_lock ?c) None True Cpu_relock)" by simp
  from reach_dbg [OF this dbg_lock, of ?c]
  have r: "thr_reach (stopped_at (Dbg_test ?c) (Some Dbg_thread) True Cpu_relock)" by simp
  let ?s = "stopped_at (Dbg_test ?c) (Some Dbg_thread) True Cpu_relock"
  let ?s' = "?s\<lparr>th_dbg := Dbg_unlock ?c\<rparr>"
  have "dbg_control_step ?s ?s'" by (rule dbg_test_done) (simp_all add: stays_in_loop_def)
  with r show ?thesis by (intro exI [of _ ?s] exI [of _ ?s']) simp
qed

text \<open>A run in which the CPU thread takes the request of a call, runs and stops again.\<close>

lemma reach_stopped_again:
  "thr_reach \<lparr>th_mutex = Some Dbg_thread, th_dbgthr_state = THREAD_STATE_RUNNING, th_cputhr_state = THREAD_STATE_WAIT,
     th_wakeup_requested = False, th_cpu = Cpu_blocked, th_dbg = Dbg_test Call_wakeup_and_wait, th_taken = 1, th_mark = 0\<rparr>"
proof -
  let ?c = Call_wakeup_and_wait
  from reach_dbg [OF reach_requested dbg_signal, of ?c ?c]
  have "thr_reach (stopped_at (Dbg_test ?c) (Some Dbg_thread) True Cpu_relock)" by simp
  from reach_dbg [OF this dbg_test_again, of ?c]
  have "thr_reach (stopped_at (Dbg_retry ?c) (Some Dbg_thread) True Cpu_relock)" by (simp add: stays_in_loop_def)
  from reach_dbg [OF this dbg_retry, of ?c] have "thr_reach (stopped_at (Dbg_sleep ?c) None True Cpu_relock)" by simp
  from reach_cpu [OF this cpu_relock] have "thr_reach (stopped_at (Dbg_sleep ?c) (Some Cpu_thread) True Cpu_test)" by simp
  from reach_cpu [OF this cpu_test_yes] have "thr_reach (stopped_at (Dbg_sleep ?c) (Some Cpu_thread) True Cpu_take)" by simp
  note t = reach_cpu [OF this cpu_take, simplified]
  note t = reach_cpu [OF t cpu_set_running, simplified]
  note t = reach_cpu [OF t cpu_unlock, simplified]
  note t = reach_cpu [OF t cpu_call, simplified]
  note t = reach_cpu [OF t cpu_lock, simplified]
  note t = reach_cpu [OF t cpu_set_wait, simplified]
  note t = reach_cpu [OF t cpu_test_no, simplified]
  from reach_dbg [OF t dbg_sleep, of ?c] show ?thesis by simp
qed

theorem wakeup_and_wait_returns_stopped_witness:
  "th_mark (stopped_at (Dbg_unlock Call_wakeup_and_wait) (Some Dbg_thread) False Cpu_blocked\<lparr>th_taken := 1\<rparr>) < 1"
proof -
  let ?s = "stopped_at (Dbg_test Call_wakeup_and_wait) (Some Dbg_thread) False Cpu_blocked\<lparr>th_taken := 1\<rparr>"
  let ?s' = "?s\<lparr>th_dbg := Dbg_unlock Call_wakeup_and_wait\<rparr>"
  have "thr_reach ?s" using reach_stopped_again by simp
  moreover have "dbg_control_step ?s ?s'" by (rule dbg_test_done) (simp_all add: stays_in_loop_def)
  ultimately have "th_mark ?s' < th_taken ?s'" using wakeup_and_wait_returns_stopped [of ?s ?s'] by simp
  then show ?thesis by simp
qed

end
