(* ===== verification/CString.thy ===== *)
theory CString
  imports Prelude "HOL-Library.Char_ord"
begin

text \<open>
  Strings of C and the functions of the C library that the sources apply to them. A string is the
  list of its characters before the terminating NUL. \<open>strchr\<close> and \<open>strstr\<close> return
  the offset of the hit; \<open>strtoul\<close> returns the value, the offset where it stopped and
  whether the value was out of range, for \<open>unsigned long\<close> of 64 bits.
\<close>

definition NUL :: char where "NUL = CHR 0x00"

text \<open>What C sees of a character array: the characters before the first NUL.\<close>

definition c_string :: "string \<Rightarrow> string" where
  "c_string s = takeWhile (\<lambda>c. c \<noteq> NUL) s"

definition strchr :: "string \<Rightarrow> char \<Rightarrow> nat option" where
  "strchr s c = find_first (\<lambda>d. d = c) s"

definition strncmp_eq :: "string \<Rightarrow> string \<Rightarrow> nat \<Rightarrow> bool" where
  "strncmp_eq s t n \<longleftrightarrow> take n s = take n t"

fun strstr :: "string \<Rightarrow> string \<Rightarrow> nat option" where
  "strstr s [] = Some 0"
| "strstr [] (c # cs) = None"
| "strstr (d # s) (c # cs) =
    (if take (length (c # cs)) (d # s) = c # cs then Some 0 else map_option Suc (strstr s (c # cs)))"

definition strspn :: "string \<Rightarrow> string \<Rightarrow> nat" where
  "strspn s accept = length (takeWhile (\<lambda>c. c \<in> set accept) s)"

definition isspace :: "char \<Rightarrow> bool" where
  "isspace c \<longleftrightarrow> c = CHR '' '' \<or> (9 \<le> (of_char c :: nat) \<and> (of_char c :: nat) \<le> 13)"

definition isdigit :: "char \<Rightarrow> bool" where
  "isdigit c \<longleftrightarrow> CHR ''0'' \<le> c \<and> c \<le> CHR ''9''"

text \<open>The value of a digit in the bases up to 16.\<close>

definition digit_value :: "char \<Rightarrow> nat option" where
  "digit_value c =
    (if CHR ''0'' \<le> c \<and> c \<le> CHR ''9'' then Some (of_char c - 48)
     else if CHR ''a'' \<le> c \<and> c \<le> CHR ''f'' then Some (of_char c - 87)
     else if CHR ''A'' \<le> c \<and> c \<le> CHR ''F'' then Some (of_char c - 55)
     else None)"

definition is_digit_of :: "nat \<Rightarrow> char \<Rightarrow> bool" where
  "is_digit_of base c = (case digit_value c of None \<Rightarrow> False | Some v \<Rightarrow> v < base)"

definition digits_value :: "nat \<Rightarrow> string \<Rightarrow> nat" where
  "digits_value base ds = foldl (\<lambda>v c. v * base + (case digit_value c of None \<Rightarrow> 0 | Some d \<Rightarrow> d)) 0 ds"

definition ULONG_MAX :: nat where "ULONG_MAX = 2 ^ 64 - 1"

definition skip_0x :: "nat \<Rightarrow> string \<Rightarrow> string" where
  "skip_0x base s =
    (case s of c # x # d # r \<Rightarrow>
       if base = 16 \<and> c = CHR ''0'' \<and> (x = CHR ''x'' \<or> x = CHR ''X'') \<and> is_digit_of 16 d then d # r else s
     | _ \<Rightarrow> s)"

lemma skip_0x_other [simp]: "base \<noteq> 16 \<Longrightarrow> skip_0x base s = s"
  by (simp add: skip_0x_def split: list.split)

text \<open>
  What \<open>strtol\<close> and \<open>strtoul\<close> scan for the bases 10 and 16: whether there is a
  minus sign, the digits, and the offset where the digits end.
\<close>

definition strto_scan :: "nat \<Rightarrow> string \<Rightarrow> bool \<times> string \<times> nat" where
  "strto_scan base s =
    (let s1 = dropWhile isspace s;
         neg = (case s1 of c # _ \<Rightarrow> c = CHR ''-'' | [] \<Rightarrow> False);
         s2 = (case s1 of c # r \<Rightarrow> if c = CHR ''-'' \<or> c = CHR ''+'' then r else s1 | [] \<Rightarrow> s1);
         s3 = skip_0x base s2;
         ds = takeWhile (is_digit_of base) s3
     in (neg, ds, length s - (length s3 - length ds)))"

definition strtoul :: "nat \<Rightarrow> string \<Rightarrow> nat \<times> nat \<times> bool" where
  "strtoul base s =
    (let (neg, ds, end') = strto_scan base s; v = digits_value base ds
     in if ds = [] then (0, 0, False)
        else (if v > ULONG_MAX then ULONG_MAX else if neg \<and> v \<noteq> 0 then 2 ^ 64 - v else v, end', v > ULONG_MAX))"

definition LONG_MAX :: int where "LONG_MAX = 2 ^ 63 - 1"

definition strtol :: "nat \<Rightarrow> string \<Rightarrow> int \<times> nat \<times> bool" where
  "strtol base s =
    (let (neg, ds, end') = strto_scan base s; v = (if neg then - int (digits_value base ds) else int (digits_value base ds))
     in if ds = [] then (0, 0, False)
        else if v > LONG_MAX then (LONG_MAX, end', True)
        else if v < - LONG_MAX - 1 then (- LONG_MAX - 1, end', True)
        else (v, end', False))"

text \<open>
  The words of a line: the maximal runs without delimiters, which \<open>strtok\<close> returns one after
  the other; \<open>w\<close> is the word so far.
\<close>

fun words_from :: "(char \<Rightarrow> bool) \<Rightarrow> string \<Rightarrow> string \<Rightarrow> string list" where
  "words_from P w [] = (if w = [] then [] else [w])"
| "words_from P w (c # cs) =
    (if P c then (if w = [] then words_from P [] cs else w # words_from P [] cs) else words_from P (w @ [c]) cs)"

definition words_of :: "(char \<Rightarrow> bool) \<Rightarrow> string \<Rightarrow> string list" where
  "words_of P s = words_from P [] s"

section \<open>Numbers as text\<close>

text \<open>What \<open>printf\<close> writes for a number in base 10 or 16.\<close>

definition hex_digit :: "nat \<Rightarrow> char" where
  "hex_digit n = ''0123456789abcdef'' ! n"

fun digits_of :: "nat \<Rightarrow> nat \<Rightarrow> string" where
  "digits_of base n =
    (if n < base \<or> base < 2 then [hex_digit n] else digits_of base (n div base) @ [hex_digit (n mod base)])"

declare digits_of.simps [simp del]

text \<open>The facts on the sixteen digits are evaluated for all of them.\<close>

lemma hex_digits_all:
  "list_all (\<lambda>n. digit_value (hex_digit n) = Some n \<and> \<not> isspace (hex_digit n) \<and>
      hex_digit n \<notin> set (NUL # ''-+xX#,:'')) [0..<16]"
  by code_simp

lemma hex_digit_facts:
  assumes "n < 16"
  shows "digit_value (hex_digit n) = Some n" "\<not> isspace (hex_digit n)" "hex_digit n \<notin> set (NUL # ''-+xX#,:'')"
  using hex_digits_all assms by (simp_all add: list_all_iff del: upt_rec_numeral)

lemmas digit_value_hex_digit = hex_digit_facts(1)

lemma is_digit_hex_digit: "n < 16 \<Longrightarrow> is_digit_of 16 (hex_digit n)"
  by (simp add: is_digit_of_def digit_value_hex_digit)

lemma hex_digit_not_special:
  assumes "n < 16"
  shows "hex_digit n \<noteq> CHR ''-''" "hex_digit n \<noteq> CHR ''+''" "hex_digit n \<noteq> CHR ''x''" "hex_digit n \<noteq> CHR ''X''"
    "hex_digit n \<noteq> CHR ''#''" "hex_digit n \<noteq> CHR '',''" "hex_digit n \<noteq> CHR '':''" "hex_digit n \<noteq> NUL" "\<not> isspace (hex_digit n)"
  using hex_digit_facts(2,3) [OF assms] by simp_all

end
