(* ===== verification/GdbRsp.thy ===== *)
theory GdbRsp
  imports CString CpuControl Bus
begin

text \<open>
  The GDB remote serial protocol server, src/src/debugger/rsp/gdb_rsp.c.
  \<^item> The connection is the list of characters that are still to be received (its end is the end of
    the connection), the characters sent so far, and whether sending works.
  \<^item> The registers of the target (\<open>dbg_target_gdb_*\<close> of gdb_rsp_target.h, implemented by the
    target) are the parameter \<open>gdb_target\<close>: a read gives the bytes of the register, as many
    as its size. Sizes are below \<open>2 ^ 31\<close>, so that doubling them does not wrap.
  \<^item> The CPU thread runs while the server waits for it and changes the bus, the control state and
    the target, the \<open>machine\<close>. What it does until it has stopped is the parameter
    \<open>re_stopped\<close>; in \<open>await_stop\<close> each poll of the socket comes with what the CPU
    thread did before it, and the script of polls that is part of the state decides when data is
    there. \<open>None\<close> from \<open>await_stop\<close> means that the script ended before the
    stop; elsewhere \<open>None\<close> is undefined behaviour.
  \<^item> \<open>data\<close>, the uninitialised buffer of \<open>dispatch_packet\<close>, is the parameter
    \<open>re_data\<close>.
\<close>

section \<open>Connection\<close>

datatype poll = No_data | Data

record 't gdb_target =
  gt_reg_count :: nat
  gt_reg_size :: "nat \<Rightarrow> nat"
  gt_read_reg :: "nat \<Rightarrow> 't \<Rightarrow> uint8 list option"
  gt_write_reg :: "nat \<Rightarrow> uint8 list \<Rightarrow> 't \<Rightarrow> bool \<times> 't"
  gt_set_pc :: "uint32 \<Rightarrow> 't \<Rightarrow> 't"

type_synonym ('d, 't) machine = "'d bus_state \<times> cpuctrl_state \<times> 't"

record ('d, 't) rsp_state =
  rs_in :: string
  rs_out :: string
  rs_send_ok :: bool
  rs_bus :: "'d bus_state"
  rs_ctl :: cpuctrl_state
  rs_target :: 't
  rs_polls :: "((('d, 't) machine \<Rightarrow> ('d, 't) machine) \<times> poll) list"

record ('d, 't) rsp_env =
  re_mpu :: "'d mpu_env"
  re_target :: "'t gdb_target"
  re_data :: "uint8 list"
  re_stopped :: "('d, 't) machine \<Rightarrow> ('d, 't) machine"

definition RSP_PACKET_SIZE :: nat where "RSP_PACKET_SIZE = 8192"

definition send :: "string \<Rightarrow> ('d, 't) rsp_state \<Rightarrow> ('d, 't) rsp_state" where
  "send s st = (if rs_send_ok st then st\<lparr>rs_out := rs_out st @ s\<rparr> else st)"

definition read_byte :: "('d, 't) rsp_state \<Rightarrow> char option \<times> ('d, 't) rsp_state" where
  "read_byte st = (case rs_in st of [] \<Rightarrow> (None, st) | c # cs \<Rightarrow> (Some c, st\<lparr>rs_in := cs\<rparr>))"

section \<open>Packets\<close>

text \<open>The loop that skips everything up to the start of a packet; \<open>False\<close> at the end of the input.\<close>

fun skip_to_start :: "string \<Rightarrow> bool \<times> string" where
  "skip_to_start [] = (False, [])"
| "skip_to_start (c # cs) = (if c = CHR ''$'' then (True, cs) else skip_to_start cs)"

text \<open>
  The loop that reads the payload, with the checksum and the characters so far: \<open>None\<close> when
  the function returns 0 because the input ends or the buffer is full.
\<close>

fun read_payload :: "nat \<Rightarrow> nat \<Rightarrow> string \<Rightarrow> string \<Rightarrow> (nat \<times> string) option \<times> string" where
  "read_payload capacity checksum packet [] = (None, [])"
| "read_payload capacity checksum packet (c # cs) =
    (if c = CHR ''#'' then (Some (checksum, packet), cs)
     else let checksum' = (checksum + of_char c) mod 256
          in if length packet + 1 \<ge> capacity then (None, cs)
             else read_payload capacity checksum' (packet @ [c]) cs)"

definition read_packet :: "nat \<Rightarrow> ('d, 't) rsp_state \<Rightarrow> int \<times> string \<times> ('d, 't) rsp_state" where
  "read_packet capacity st =
    (case skip_to_start (rs_in st) of
       (False, cs) \<Rightarrow> (0, [], st\<lparr>rs_in := cs\<rparr>)
     | (True, cs) \<Rightarrow>
        (case read_payload capacity 0 [] cs of
           (None, cs) \<Rightarrow> (0, [], st\<lparr>rs_in := cs\<rparr>)
         | (Some (checksum, packet), cs) \<Rightarrow>
            (if length cs < 2 then (0, [], st\<lparr>rs_in := []\<rparr>)
             else let checksum_text = c_string (take 2 cs);
                      st1 = st\<lparr>rs_in := drop 2 cs\<rparr>;
                      (v, end', erange) = strtoul 16 checksum_text;
                      expected = v mod 2 ^ 32
                  in if end' \<noteq> length checksum_text \<or> expected \<noteq> checksum
                     then (-1, [], send ''-'' st1)
                     else (int (length packet), packet, send ''+'' st1))))"

definition hex_pair :: "uint8 \<Rightarrow> string" where
  "hex_pair b = [hex_digit (unat (drop_bit 4 b)), hex_digit (unat (b AND 0xf))]"

definition checksum_of :: "string \<Rightarrow> nat" where
  "checksum_of packet = fold (\<lambda>c sum. (sum + of_char c) mod 256) packet 0"

definition send_packet :: "string \<Rightarrow> ('d, 't) rsp_state \<Rightarrow> int \<times> ('d, 't) rsp_state" where
  "send_packet packet st =
    (if length packet > RSP_PACKET_SIZE then (-1, st)
     else let frame = CHR ''$'' # packet @ CHR ''#'' # hex_pair (of_nat (checksum_of packet))
          in (if rs_send_ok st then 0 else -1, send frame st))"

section \<open>Text fields\<close>

definition hex_value :: "char \<Rightarrow> int" where
  "hex_value ch =
    (if ch \<ge> CHR ''0'' \<and> ch \<le> CHR ''9'' then of_char ch - of_char (CHR ''0'')
     else if ch \<ge> CHR ''a'' \<and> ch \<le> CHR ''f'' then of_char ch - of_char (CHR ''a'') + 10
     else if ch \<ge> CHR ''A'' \<and> ch \<le> CHR ''F'' then of_char ch - of_char (CHR ''A'') + 10
     else -1)"

definition parse_hex_u32 :: "string \<Rightarrow> uint32 option" where
  "parse_hex_u32 text =
    (let (v, end', erange) = strtoul 16 text
     in if end' = 0 \<or> end' \<noteq> length text \<or> erange \<or> v > 0xffffffff then None else Some (of_nat v))"

definition hex_encode :: "uint8 list \<Rightarrow> string" where
  "hex_encode data = concat (map hex_pair data)"

text \<open>The loop that decodes pairs of digits: \<open>None\<close> at the first character that is no digit.\<close>

fun hex_decode :: "string \<Rightarrow> uint8 list option" where
  "hex_decode (h # l # cs) =
    (let hi = hex_value h; lo = hex_value l
     in if hi < 0 \<or> lo < 0 then None
        else map_option ((#) (word_of_int (hi * 16 + lo))) (hex_decode cs))"
| "hex_decode [] = Some []"
| "hex_decode [c] = None"

definition stop_reply :: "uint8 \<Rightarrow> string \<Rightarrow> ('d, 't) rsp_state \<Rightarrow> int \<times> ('d, 't) rsp_state" where
  "stop_reply sig reason st = send_packet (''T'' @ hex_pair sig @ ''thread:1;'' @ reason) st"

definition on_ctl :: "(cpuctrl_state \<Rightarrow> cpuctrl_state) \<Rightarrow> ('d, 't) rsp_state \<Rightarrow> ('d, 't) rsp_state" where
  "on_ctl f st = st\<lparr>rs_ctl := f (rs_ctl st)\<rparr>"

text \<open>The CPU thread runs: what it does is \<open>f\<close>.\<close>

definition cpu_runs :: "(('d, 't) machine \<Rightarrow> ('d, 't) machine) \<Rightarrow> ('d, 't) rsp_state \<Rightarrow> ('d, 't) rsp_state" where
  "cpu_runs f st =
    (case f (rs_bus st, rs_ctl st, rs_target st) of
       (bus, ctl, t) \<Rightarrow> st\<lparr>rs_bus := bus, rs_ctl := ctl, rs_target := t\<rparr>)"

text \<open>The loop of \<open>await_stop\<close>, one poll per turn.\<close>

fun await_stop_loop ::
  "('d, 't) rsp_env \<Rightarrow> uint8 \<Rightarrow> ((('d, 't) machine \<Rightarrow> ('d, 't) machine) \<times> poll) list \<Rightarrow> ('d, 't) rsp_state
    \<Rightarrow> (int \<times> ('d, 't) rsp_state) option" where
  "await_stop_loop env stop_signal [] st = None"
| "await_stop_loop env stop_signal ((cpu, poll) # polls) st =
    (let st1 = (cpu_runs cpu st)\<lparr>rs_polls := polls\<rparr>;
         (ch, st2) = (case poll of No_data \<Rightarrow> (Some NUL, st1) | Data \<Rightarrow> read_byte st1)
     in case ch of
          None \<Rightarrow> Some (-1, cpu_runs (re_stopped env) (on_ctl cpuctrl_set_force_break st2))
        | Some c \<Rightarrow>
            let intr = (poll = Data \<and> c = CHR 0x03);
                stop_signal' = (if intr then 2 else stop_signal);
                st3 = (if intr then on_ctl cpuctrl_set_force_break st2 else st2)
            in if cpuctrl_is_debug_mode (rs_ctl st3)
               then Some (stop_reply stop_signal' [] (cpu_runs (re_stopped env) st3))
               else await_stop_loop env stop_signal' polls st3)"

definition await_stop :: "('d, 't) rsp_env \<Rightarrow> ('d, 't) rsp_state \<Rightarrow> (int \<times> ('d, 't) rsp_state) option" where
  "await_stop env st = await_stop_loop env 5 (rs_polls st) st"

section \<open>Requests\<close>

text \<open>
  Each request handler returns the reply and the state; \<open>dispatch_packet\<close> sends the reply. The
  packet is a C string. \<open>x_string n\<close> is what \<open>memset(.., 'x', n)\<close> leaves.
\<close>

definition x_string :: "nat \<Rightarrow> string" where "x_string n = replicate n (CHR ''x'')"

text \<open>\<open>g\<close>: all registers; without any, \<open>response\<close> is sent uninitialised. \<open>out\<close> is the response so far, 8192 characters at most.\<close>

fun read_all_regs :: "'t gdb_target \<Rightarrow> 't \<Rightarrow> nat list \<Rightarrow> string \<Rightarrow> string option" where
  "read_all_regs tgt t [] out = Some out"
| "read_all_regs tgt t (reg # regs) out =
    (let sz = gt_reg_size tgt reg
     in if sz > 4096 \<or> length out + 2 * sz > RSP_PACKET_SIZE then None
        else case gt_read_reg tgt reg t of
               Some data \<Rightarrow> read_all_regs tgt t regs (out @ hex_encode data)
             | None \<Rightarrow> read_all_regs tgt t regs (out @ x_string (2 * sz)))"

definition request_g :: "('d, 't) rsp_env \<Rightarrow> ('d, 't) rsp_state \<Rightarrow> (string \<times> ('d, 't) rsp_state) option" where
  "request_g env st =
    (if gt_reg_count (re_target env) = 0 then None
     else map_option (\<lambda>r. (r, st)) (read_all_regs (re_target env) (rs_target st) [0..<gt_reg_count (re_target env)] []))"

definition request_p :: "('d, 't) rsp_env \<Rightarrow> string \<Rightarrow> ('d, 't) rsp_state \<Rightarrow> (string \<times> ('d, 't) rsp_state) option" where
  "request_p env args st =
    (case parse_hex_u32 args of
       None \<Rightarrow> Some (''E01'', st)
     | Some regno \<Rightarrow>
        let reg = unat regno; sz = gt_reg_size (re_target env) reg
        in if reg \<ge> gt_reg_count (re_target env) then Some (''E01'', st)
           else if sz > 4096 then None
           else case gt_read_reg (re_target env) reg (rs_target st) of
                  None \<Rightarrow> Some (x_string (2 * sz), st)
                | Some data \<Rightarrow> Some (hex_encode data, st))"

definition write_reg ::
  "('d, 't) rsp_env \<Rightarrow> nat \<Rightarrow> uint8 list \<Rightarrow> ('d, 't) rsp_state \<Rightarrow> bool \<times> ('d, 't) rsp_state" where
  "write_reg env reg data st =
    (case gt_write_reg (re_target env) reg data (rs_target st) of (ok, t) \<Rightarrow> (ok, st\<lparr>rs_target := t\<rparr>))"

definition request_P :: "('d, 't) rsp_env \<Rightarrow> string \<Rightarrow> ('d, 't) rsp_state \<Rightarrow> string \<times> ('d, 't) rsp_state" where
  "request_P env args st =
    (case strchr args (CHR ''='') of
       None \<Rightarrow> (''E01'', st)
     | Some i \<Rightarrow>
        (case parse_hex_u32 (take i args) of
           None \<Rightarrow> (''E01'', st)
         | Some regno \<Rightarrow>
            let reg = unat regno; sep = drop (i + 1) args; sz = gt_reg_size (re_target env) reg
            in if reg \<ge> gt_reg_count (re_target env) then (''E01'', st)
               else if length sep \<noteq> sz * 2 then (''E01'', st)
               else if strspn sep ''x'' = sz * 2 then (''OK'', st)
               else case hex_decode sep of
                      None \<Rightarrow> (''E01'', st)
                    | Some data \<Rightarrow> (case write_reg env reg data st of (ok, st') \<Rightarrow> (if ok then ''OK'' else ''E02'', st'))))"

text \<open>\<open>G\<close>: the loop over all registers, with the text that is left.\<close>

fun write_all_regs ::
  "('d, 't) rsp_env \<Rightarrow> nat list \<Rightarrow> string \<Rightarrow> ('d, 't) rsp_state \<Rightarrow> string \<times> ('d, 't) rsp_state" where
  "write_all_regs env [] cursor st = (if cursor = [] then ''OK'' else ''E01'', st)"
| "write_all_regs env (reg # regs) cursor st =
    (let sz = gt_reg_size (re_target env) reg
     in if length cursor < sz * 2 then (''E01'', st)
        else if strspn cursor ''x'' \<ge> sz * 2 then write_all_regs env regs (drop (sz * 2) cursor) st
        else case hex_decode (take (sz * 2) cursor) of
               None \<Rightarrow> (''E01'', st)
             | Some data \<Rightarrow>
                (case write_reg env reg data st of
                   (ok, st') \<Rightarrow> if \<not> ok then (''E02'', st')
                     else write_all_regs env regs (drop (sz * 2) cursor) st'))"

definition request_G :: "('d, 't) rsp_env \<Rightarrow> string \<Rightarrow> ('d, 't) rsp_state \<Rightarrow> string \<times> ('d, 't) rsp_state" where
  "request_G env args st = write_all_regs env [0..<gt_reg_count (re_target env)] args st"

definition request_m :: "('d, 't) rsp_env \<Rightarrow> string \<Rightarrow> ('d, 't) rsp_state \<Rightarrow> (string \<times> ('d, 't) rsp_state) option" where
  "request_m env args st =
    (case strchr args (CHR '','') of
       None \<Rightarrow> Some (''E01'', st)
     | Some i \<Rightarrow>
        if i \<ge> 32 then Some (''E01'', st)
        else case (parse_hex_u32 (take i args), parse_hex_u32 (drop (i + 1) args)) of
          (Some address, Some len) \<Rightarrow>
            if unat len > 4096 then Some (''E01'', st)
            else (case fetch_bytes (bus_get_data8 (re_mpu env) 0) address (take (unat len) (re_data env)) (rs_bus st) of
                    None \<Rightarrow> None
                  | Some (err, data, bus) \<Rightarrow>
                      Some (if err \<noteq> STD_E_OK then ''E02'' else hex_encode data, st\<lparr>rs_bus := bus\<rparr>))
        | _ \<Rightarrow> Some (''E01'', st))"

text \<open>\<open>M\<close>: the loop that decodes and writes byte by byte; \<open>True\<close> when all bytes are written.\<close>

fun write_hex :: "'d mpu_env \<Rightarrow> AthrillAddrType \<Rightarrow> string \<Rightarrow> 'd bus_state \<Rightarrow> (bool \<times> 'd bus_state) option" where
  "write_hex mpu address (h # l # cs) bus =
    (let hi = hex_value h; lo = hex_value l
     in if hi < 0 \<or> lo < 0 then Some (False, bus)
        else case bus_put_data8 mpu 0 address (word_of_int (hi * 16 + lo)) bus of
               None \<Rightarrow> None
             | Some (err, bus') \<Rightarrow> if err \<noteq> STD_E_OK then Some (False, bus') else write_hex mpu (address + 1) cs bus')"
| "write_hex mpu address _ bus = Some (True, bus)"

definition request_M :: "('d, 't) rsp_env \<Rightarrow> string \<Rightarrow> ('d, 't) rsp_state \<Rightarrow> (string \<times> ('d, 't) rsp_state) option" where
  "request_M env args st =
    (case strchr args (CHR '','') of
       None \<Rightarrow> Some (''E01'', st)
     | Some i \<Rightarrow>
        let sep = drop (i + 1) args
        in case strchr sep (CHR '':'') of
             None \<Rightarrow> Some (''E01'', st)
           | Some j \<Rightarrow>
              let colon = drop (j + 1) sep
              in case (parse_hex_u32 (take i args), parse_hex_u32 (take j sep)) of
                   (Some address, Some len) \<Rightarrow>
                     if unat len > 4096 \<or> length colon \<noteq> unat len * 2 then Some (''E01'', st)
                     else (case write_hex (re_mpu env) address colon (rs_bus st) of
                             None \<Rightarrow> None
                           | Some (ok, bus) \<Rightarrow> Some (if ok then ''OK'' else ''E02'', st\<lparr>rs_bus := bus\<rparr>))
                 | _ \<Rightarrow> Some (''E01'', st))"

text \<open>\<open>Z0\<close> and \<open>z0\<close>: the loop of \<open>z\<close> looks for the entry with the address.\<close>

fun remove_break :: "uint32 \<Rightarrow> nat list \<Rightarrow> cpuctrl_state \<Rightarrow> (string \<times> cpuctrl_state) option" where
  "remove_break address [] ctl = Some (''E03'', ctl)"
| "remove_break address (i # is) ctl =
    (if cpuctrl_get_break (of_nat i) ctl = Some address
     then map_option (\<lambda>(_, ctl'). (''OK'', ctl')) (cpuctrl_del_break (of_nat i) ctl)
     else remove_break address is ctl)"

definition request_Z ::
  "bool \<Rightarrow> string \<Rightarrow> ('d, 't) rsp_state \<Rightarrow> (string \<times> ('d, 't) rsp_state) option" where
  "request_Z ins args st =
    (case strchr args (CHR '','') of
       None \<Rightarrow> Some (''E01'', st)
     | Some i \<Rightarrow>
        let sep = drop (i + 1) args
        in case strchr sep (CHR '','') of
             None \<Rightarrow> Some (''E01'', st)
           | Some j \<Rightarrow>
              let type = fst (strtoul 16 (take i args)) mod 2 ^ 32
              in if type \<noteq> 0 then Some ([], st)
                 else case (parse_hex_u32 (take j sep), parse_hex_u32 (drop (j + 1) sep)) of
                   (Some address, Some sz) \<Rightarrow>
                     if sz = 0 then Some (''E01'', st)
                     else if ins
                     then (case cpuctrl_set_break address BREAK_POINT_TYPE_FOREVER (rs_ctl st) of
                             (ok, ctl) \<Rightarrow> Some (if ok then ''OK'' else ''E02'', st\<lparr>rs_ctl := ctl\<rparr>))
                     else map_option (\<lambda>(reply, ctl). (reply, st\<lparr>rs_ctl := ctl\<rparr>))
                            (remove_break address [0..<DBG_CPU_CONTROL_BREAK_SETSIZE] (rs_ctl st))
                 | _ \<Rightarrow> Some ([], st))"

text \<open>\<open>c\<close>, \<open>s\<close> and \<open>vCont\<close>.\<close>

definition is_stepping :: "string \<Rightarrow> bool" where
  "is_stepping packet \<longleftrightarrow>
    take 1 packet = ''s'' \<or> strncmp_eq packet ''vCont;s'' 7 \<or> strstr packet '';s'' \<noteq> None"

definition resume :: "('d, 't) rsp_env \<Rightarrow> bool \<Rightarrow> ('d, 't) rsp_state \<Rightarrow> (int \<times> ('d, 't) rsp_state) option" where
  "resume env stepping st = do {
    ctl \<leftarrow> cpuctrl_set_cont_clocks False 0 (rs_ctl st);
    let st1 = st\<lparr>rs_ctl := cpuctrl_set_debug_mode stepping ctl\<rparr>;
    if stepping then Some (stop_reply 5 [] (cpu_runs (re_stopped env) st1))
    else await_stop env st1
  }"

definition request_resume :: "('d, 't) rsp_env \<Rightarrow> string \<Rightarrow> ('d, 't) rsp_state \<Rightarrow> (int \<times> ('d, 't) rsp_state) option" where
  "request_resume env packet st =
    (if drop 1 packet \<noteq> [] \<and> take 1 packet \<noteq> ''v''
     then case parse_hex_u32 (drop 1 packet) of
            None \<Rightarrow> Some (send_packet ''E01'' st)
          | Some address \<Rightarrow>
             resume env (is_stepping packet) (st\<lparr>rs_target := gt_set_pc (re_target env) address (rs_target st)\<rparr>)
     else resume env (is_stepping packet) st)"

definition send_reply :: "string \<times> ('d, 't) rsp_state \<Rightarrow> int \<times> bool \<times> ('d, 't) rsp_state" where
  "send_reply = (\<lambda>(reply, st). case send_packet reply st of (result, st') \<Rightarrow> (result, False, st'))"

text \<open>The result, \<open>should_close\<close> and the state.\<close>

definition dispatch_packet ::
  "('d, 't) rsp_env \<Rightarrow> string \<Rightarrow> ('d, 't) rsp_state \<Rightarrow> (int \<times> bool \<times> ('d, 't) rsp_state) option" where
  "dispatch_packet env packet st =
    (let starts = (\<lambda>c. take 1 packet = [c]); args = drop 1 packet
     in if strncmp_eq packet ''qSupported'' 10 then Some (send_reply (''PacketSize=2000;vContSupported+'', st))
        else if packet = ''?'' then Some (case stop_reply 5 [] st of (result, st') \<Rightarrow> (result, False, st'))
        else if packet = ''qAttached'' then Some (send_reply (''1'', st))
        else if packet = ''qC'' then Some (send_reply (''QC1'', st))
        else if packet = ''qfThreadInfo'' then Some (send_reply (''m1'', st))
        else if packet = ''qsThreadInfo'' then Some (send_reply (''l'', st))
        else if starts (CHR ''H'') then Some (send_reply (''OK'', st))
        else if packet = ''vCont?'' then Some (send_reply (''vCont;c;s'', st))
        else if packet = ''D'' then Some (case send_packet ''OK'' st of (result, st') \<Rightarrow> (result, True, st'))
        else if starts (CHR ''k'') then Some (1, True, st)
        else if starts (CHR ''g'') then map_option send_reply (request_g env st)
        else if starts (CHR ''p'') then map_option send_reply (request_p env args st)
        else if starts (CHR ''P'') then Some (send_reply (request_P env args st))
        else if starts (CHR ''G'') then Some (send_reply (request_G env args st))
        else if starts (CHR ''m'') then map_option send_reply (request_m env args st)
        else if starts (CHR ''Z'') then map_option send_reply (request_Z True args st)
        else if starts (CHR ''z'') then map_option send_reply (request_Z False args st)
        else if starts (CHR ''c'') \<or> starts (CHR ''s'') \<or> strncmp_eq packet ''vCont;c'' 7 \<or> strncmp_eq packet ''vCont;s'' 7
        then map_option (\<lambda>(result, st'). (result, False, st')) (request_resume env packet st)
        else if starts (CHR ''M'') then map_option send_reply (request_M env args st)
        else Some (send_reply ([], st)))"

section \<open>Sessions\<close>

text \<open>Requests never put anything back into the input, so that a session ends with the input.\<close>

lemma rs_in_send [simp]: "rs_in (send s st) = rs_in st"
  by (simp add: send_def)

lemma rs_in_send_packet [simp]: "rs_in (snd (send_packet p st)) = rs_in st"
  by (simp add: send_packet_def Let_def)

lemma rs_in_cpu_runs [simp]: "rs_in (cpu_runs f st) = rs_in st"
  by (simp add: cpu_runs_def split: prod.split)

lemma rs_in_stop_reply [simp]: "rs_in (snd (stop_reply sig r st)) = rs_in st"
  by (simp add: stop_reply_def)

lemma rs_in_on_ctl [simp]: "rs_in (on_ctl f st) = rs_in st"
  by (simp add: on_ctl_def)

lemma read_byte_shorter: "length (rs_in (snd (read_byte st))) \<le> length (rs_in st)"
  by (simp add: read_byte_def split: list.split)

lemma skip_to_start_shorter: "skip_to_start cs = (True, cs') \<Longrightarrow> length cs' < length cs"
  by (induction cs) (auto split: if_splits)

lemma read_payload_shorter: "read_payload n k p cs = (r, cs') \<Longrightarrow> length cs' \<le> length cs"
  by (induction n k p cs rule: read_payload.induct) (force split: if_splits simp: Let_def)+

lemma read_packet_shorter:
  assumes "read_packet n st = (len, packet, st')" "len \<noteq> 0"
  shows "length (rs_in st') < length (rs_in st)"
proof -
  obtain cs where cs: "skip_to_start (rs_in st) = (True, cs)"
    using assms by (auto simp: read_packet_def split: prod.splits bool.splits)
  obtain r ds where ds: "read_payload n 0 [] cs = (r, ds)" by fastforce
  have "length (rs_in st') \<le> length ds"
    using assms cs ds by (auto simp: read_packet_def Let_def split: option.splits prod.splits if_splits)
  with skip_to_start_shorter [OF cs] read_payload_shorter [OF ds] show ?thesis by simp
qed

lemma await_stop_shorter:
  "await_stop_loop env sig polls st = Some (result, st') \<Longrightarrow> length (rs_in st') \<le> length (rs_in st)"
proof (induction env sig polls st rule: await_stop_loop.induct)
  case (2 env sig cpu poll polls st)
  let ?st1 = "(cpu_runs cpu st)\<lparr>rs_polls := polls\<rparr>"
  obtain ch st2 where r: "(case poll of No_data \<Rightarrow> (Some NUL, ?st1) | Data \<Rightarrow> read_byte ?st1) = (ch, st2)"
    by fastforce
  have le: "length (rs_in st2) \<le> length (rs_in st)"
    using r read_byte_shorter [of ?st1] by (auto split: poll.splits)
  show ?case
  proof (cases ch)
    case None
    then show ?thesis using 2(2) r le by (auto simp: Let_def)
  next
    case (Some c)
    let ?intr = "poll = Data \<and> c = CHR 0x03"
    let ?st3 = "if ?intr then on_ctl cpuctrl_set_force_break st2 else st2"
    let ?sig = "if ?intr then 2 else sig"
    have le3: "length (rs_in ?st3) \<le> length (rs_in st)" using le by simp
    have eq: "(if cpuctrl_is_debug_mode (rs_ctl ?st3) then Some (stop_reply ?sig [] (cpu_runs (re_stopped env) ?st3))
        else await_stop_loop env ?sig polls ?st3) = Some (result, st')"
      using 2(2) r Some by (simp add: Let_def cong: if_cong)
    show ?thesis
    proof (cases "cpuctrl_is_debug_mode (rs_ctl ?st3)")
      case True
      then have "st' = snd (stop_reply ?sig [] (cpu_runs (re_stopped env) ?st3))"
        using eq by (metis option.inject snd_conv)
      then show ?thesis using le3 by simp
    next
      case False
      then have "await_stop_loop env ?sig polls ?st3 = Some (result, st')" using eq by presburger
      then show ?thesis using 2(1) [OF refl r [symmetric] refl Some refl refl refl False] le3 by linarith
    qed
  qed
qed simp

lemma rs_in_write_reg: "write_reg env reg data st = (ok, st') \<Longrightarrow> rs_in st' = rs_in st"
  by (auto simp: write_reg_def split: prod.splits)

lemma rs_in_request_P [simp]: "rs_in (snd (request_P env args st)) = rs_in st"
  by (auto simp: request_P_def Let_def split: option.split prod.split dest: rs_in_write_reg)

lemma rs_in_write_all_regs [simp]: "rs_in (snd (write_all_regs env regs cursor st)) = rs_in st"
  by (induction env regs cursor st rule: write_all_regs.induct)
    (auto simp: Let_def split: option.split prod.split dest: rs_in_write_reg)

lemma rs_in_requests:
  "request_g env st = Some (r, st') \<Longrightarrow> rs_in st' = rs_in st"
  "request_p env args st = Some (r, st') \<Longrightarrow> rs_in st' = rs_in st"
  "request_m env args st = Some (r, st') \<Longrightarrow> rs_in st' = rs_in st"
  "request_M env args st = Some (r, st') \<Longrightarrow> rs_in st' = rs_in st"
  "request_Z ins args st = Some (r, st') \<Longrightarrow> rs_in st' = rs_in st"
  by (auto simp: request_g_def request_p_def request_m_def request_M_def request_Z_def Let_def
      split: option.splits prod.splits if_splits)

lemma resume_shorter: "resume env stepping st = Some (result, st') \<Longrightarrow> length (rs_in st') \<le> length (rs_in st)"
  by (auto simp: resume_def await_stop_def Let_def bind_eq_Some_conv split: if_splits
      dest!: await_stop_shorter arg_cong [where f = snd and x = "stop_reply _ _ _"])

lemma request_resume_shorter:
  "request_resume env packet st = Some (result, st') \<Longrightarrow> length (rs_in st') \<le> length (rs_in st)"
  by (auto simp: request_resume_def split: option.splits if_splits
      dest!: resume_shorter arg_cong [where f = snd and x = "send_packet _ _"])

lemma rs_in_send_reply [simp]: "rs_in (snd (snd (send_reply r))) = rs_in (snd r)"
  by (cases r) (simp add: send_reply_def case_prod_unfold)

text \<open>A request that leaves at most \<open>n\<close> characters of input.\<close>

definition leaves :: "nat \<Rightarrow> ('a \<times> bool \<times> ('d, 't) rsp_state) option \<Rightarrow> bool" where
  "leaves n r \<longleftrightarrow> (\<forall>result close st'. r = Some (result, close, st') \<longrightarrow> length (rs_in st') \<le> n)"

lemma leaves_if: "leaves n a \<Longrightarrow> leaves n b \<Longrightarrow> leaves n (if c then a else b)"
  by simp

lemma leaves_Some: "length (rs_in (snd (snd p))) \<le> n \<Longrightarrow> leaves n (Some p)"
  by (auto simp: leaves_def)

lemma leaves_reply:
  assumes "\<And>r st1. req = Some (r, st1) \<Longrightarrow> rs_in st1 = rs_in st"
  shows "leaves (length (rs_in st)) (map_option send_reply req)"
proof (cases req)
  case (Some p)
  then show ?thesis using assms by (cases p) (auto intro!: leaves_Some)
qed (simp add: leaves_def)

lemma leaves_resume:
  "leaves (length (rs_in st)) (map_option (\<lambda>(result, st'). (result, False, st')) (request_resume env packet st))"
  by (auto simp: leaves_def dest: request_resume_shorter)

lemma dispatch_shorter: "leaves (length (rs_in st)) (dispatch_packet env packet st)"
  unfolding dispatch_packet_def Let_def
  by (intro leaves_if leaves_resume leaves_reply leaves_Some; (erule rs_in_requests)?;
      simp add: case_prod_unfold request_G_def)

lemma dispatch_packet_shorter:
  "dispatch_packet env packet st = Some (result, close, st') \<Longrightarrow> length (rs_in st') \<le> length (rs_in st)"
  using dispatch_shorter [of st env packet] by (simp add: leaves_def)

function rsp_session :: "('d, 't) rsp_env \<Rightarrow> ('d, 't) rsp_state \<Rightarrow> (bool \<times> ('d, 't) rsp_state) option" where
  "rsp_session env st =
    (case read_packet (RSP_PACKET_SIZE + 1) st of
       (len, packet, st1) \<Rightarrow>
         if len = 0 then Some (False, st1)
         else if len < 0 then rsp_session env st1
         else case dispatch_packet env (c_string packet) st1 of
                None \<Rightarrow> None
              | Some (result, close_client, st2) \<Rightarrow>
                  if result > 0 then Some (True, st2)
                  else if result < 0 \<or> close_client then Some (False, st2)
                  else rsp_session env st2)"
  by pat_completeness auto

termination
  by (relation "measure (\<lambda>(env, st). length (rs_in st))")
    (auto dest!: dispatch_packet_shorter read_packet_shorter [OF sym] intro: order.strict_trans1)

declare rsp_session.simps [simp del]

text \<open>
  \<open>gdb_rsp_run\<close> once the socket listens, for the clients it accepts: their input, whether they
  take what is sent, and their polls. \<open>True\<close> when a client has killed the target and the
  server returns 1; \<open>False\<close> when it waits for the next client.
\<close>

type_synonym ('d, 't) client = "string \<times> bool \<times> ((('d, 't) machine \<Rightarrow> ('d, 't) machine) \<times> poll) list"

fun gdb_rsp_run :: "('d, 't) rsp_env \<Rightarrow> ('d, 't) client list \<Rightarrow> ('d, 't) rsp_state \<Rightarrow> (bool \<times> ('d, 't) rsp_state) option" where
  "gdb_rsp_run env [] st = Some (False, st)"
| "gdb_rsp_run env ((input, send_ok, polls) # clients) st = do {
    ctl \<leftarrow> cpuctrl_del_all_break BREAK_POINT_TYPE_FOREVER (rs_ctl st);
    let st1 = cpu_runs (re_stopped env)
                (st\<lparr>rs_in := input, rs_send_ok := send_ok, rs_polls := polls, rs_ctl := ctl\<rparr>);
    (killed, st2) \<leftarrow> rsp_session env st1;
    if killed then Some (True, st2) else gdb_rsp_run env clients st2
  }"

end
