(* ===== verification/GdbRspLaws.thy ===== *)
theory GdbRspLaws
  imports GdbRsp CpuCallback
begin

text \<open>
  The GDB remote serial protocol server: framing of packets, memory and break point requests, and
  the interrupt of a running target.
\<close>

section \<open>Hexadecimal fields\<close>

lemma unat_nibbles:
  fixes b :: uint8
  shows "unat (drop_bit 4 b) < 16" "unat (b AND 0xf) < 16"
    "16 * unat (drop_bit 4 b) + unat (b AND 0xf) = unat b"
proof -
  have "b AND 0xf = take_bit 4 b" by (simp add: take_bit_eq_mask mask_eq_exp_minus_1)
  then have lo: "unat (b AND 0xf) = unat b mod 16"
    using unsigned_take_bit_eq [where ?'a = nat, of 4 b] by (simp only: take_bit_eq_mod) simp
  have hi: "unat (drop_bit 4 b) = unat b div 16" by (simp add: drop_bit_eq_div unat_div_distrib)
  have "unat b < 2 ^ 8" using unsigned_less [of b] by simp
  then show "unat (drop_bit 4 b) < 16" "unat (b AND 0xf) < 16" by (simp_all add: hi lo)
  show "16 * unat (drop_bit 4 b) + unat (b AND 0xf) = unat b" by (simp add: hi lo)
qed

lemma hex_value_digit: "n < 16 \<Longrightarrow> hex_value (hex_digit n) = int n"
proof -
  have "list_all (\<lambda>n. hex_value (hex_digit n) = int n) [0..<16]" by code_simp
  then show "n < 16 \<Longrightarrow> hex_value (hex_digit n) = int n" by (simp add: list_all_iff del: upt_rec_numeral)
qed

lemma hex_decode_encode [simp]: "hex_decode (hex_encode data) = Some data"
proof (induction data)
  case (Cons b data)
  have "int (unat (drop_bit 4 b)) * 16 + int (unat (b AND 0xf)) = int (unat b)"
    using unat_nibbles(3) [of b] by linarith
  then have "word_of_int (int (unat (drop_bit 4 b)) * 16 + int (unat (b AND 0xf))) = b" by simp
  with Cons show ?case
    by (simp add: hex_encode_def hex_pair_def hex_value_digit unat_nibbles)
qed (simp add: hex_encode_def)

lemma length_hex_encode [simp]: "length (hex_encode data) = 2 * length data"
  by (induction data) (simp_all add: hex_encode_def hex_pair_def)

lemma strtoul_hex_pair: "strtoul 16 (hex_pair b) = (unat b, 2, False)"
proof -
  note d = unat_nibbles [of b]
  have "unat b < 2 ^ LENGTH(8)" by (rule unsigned_less)
  then have "unat b \<le> ULONG_MAX" by (simp add: ULONG_MAX_def)
  then show ?thesis
    using d hex_digit_not_special [OF d(1)] hex_digit_not_special [OF d(2)]
    by (simp add: strtoul_def strto_scan_def skip_0x_def hex_pair_def is_digit_hex_digit digits_value_def digit_value_hex_digit Let_def mult.commute)
qed

lemmas parse_eval = parse_hex_u32_def strtoul_def strto_scan_def skip_0x_def Let_def isspace_def is_digit_of_def digit_value_def digits_value_def
  ULONG_MAX_def less_eq_char_def

section \<open>Packets\<close>

definition frame :: "string \<Rightarrow> string" where
  "frame packet = CHR ''$'' # packet @ CHR ''#'' # hex_pair (of_nat (checksum_of packet))"

lemma checksum_fold: "fold (\<lambda>c sum. (sum + of_char c) mod 256) cs k = (k + sum_list (map of_char cs)) mod 256"
  if "k < 256" for k :: nat
  using that by (induction cs arbitrary: k) (simp_all add: mod_add_left_eq add.assoc)

lemma checksum_of_sum: "checksum_of packet = sum_list (map of_char packet) mod 256"
  by (simp add: checksum_of_def checksum_fold)

lemma skip_to_start_noise: "CHR ''$'' \<notin> set noise \<Longrightarrow> skip_to_start (noise @ CHR ''$'' # cs) = (True, cs)"
  by (induction noise) auto

lemma read_payload_frame:
  assumes "CHR ''#'' \<notin> set cs" "length p + length cs < capacity" "k < 256"
  shows "read_payload capacity k p (cs @ CHR ''#'' # rest) = (Some ((k + sum_list (map of_char cs)) mod 256, p @ cs), rest)"
  using assms by (induction cs arbitrary: k p) (auto simp: Let_def mod_add_left_eq add.assoc)

lemma hex_pair_no_NUL: "c_string (hex_pair b) = hex_pair b"
  using hex_digit_not_special(8) [OF unat_nibbles(1)] hex_digit_not_special(8) [OF unat_nibbles(2)]
  by (simp add: c_string_def hex_pair_def)

text \<open>What the reader does with a payload and a checksum text.\<close>

lemma read_packet_framed:
  assumes "rs_in st = noise @ CHR ''$'' # packet @ CHR ''#'' # hex_pair b @ rest"
    "CHR ''$'' \<notin> set noise" "CHR ''#'' \<notin> set packet" "length packet < capacity"
  shows "read_packet capacity st =
    (if unat b = checksum_of packet then (int (length packet), packet, send ''+'' (st\<lparr>rs_in := rest\<rparr>))
     else (-1, [], send ''-'' (st\<lparr>rs_in := rest\<rparr>)))"
proof -
  have "unat b < 2 ^ LENGTH(8)" by (rule unsigned_less)
  then have b: "unat b mod 4294967296 = unat b" by simp
  have len: "length (hex_pair b) = 2" by (simp add: hex_pair_def)
  have "read_payload capacity 0 [] (packet @ CHR ''#'' # hex_pair b @ rest) =
      (Some (checksum_of packet, packet), hex_pair b @ rest)"
    using read_payload_frame [OF assms(3), of "[]" capacity 0 "hex_pair b @ rest"] assms(4) by (simp add: checksum_of_sum)
  moreover have "take 2 (hex_pair b @ rest) = hex_pair b" "drop 2 (hex_pair b @ rest) = rest" using len by simp_all
  ultimately show ?thesis
    by (auto simp add: read_packet_def assms(1) skip_to_start_noise [OF assms(2)] Let_def hex_pair_no_NUL strtoul_hex_pair b len)
qed

text \<open>
  C21: a packet that \<open>send_packet\<close> frames is read back by \<open>read_packet\<close> on the other
  side: whatever comes before its start character is skipped, exactly the characters of the frame
  are consumed, the packet is returned and acknowledged. This holds for every packet without
  \<open>#\<close> of up to 8192 characters, the largest that \<open>send_packet\<close> accepts.
\<close>

theorem packet_roundtrip:
  assumes "rs_send_ok st" "CHR ''#'' \<notin> set packet" "length packet \<le> RSP_PACKET_SIZE"
    "CHR ''$'' \<notin> set noise" "rs_in peer = noise @ sent @ rest" "rs_send_ok peer"
    "send_packet packet st = (result, st')" "rs_out st' = rs_out st @ sent"
  shows "result = 0 \<and>
    read_packet (RSP_PACKET_SIZE + 1) peer =
      (int (length packet), packet, peer\<lparr>rs_in := rest, rs_out := rs_out peer @ ''+''\<rparr>)"
proof -
  have sent: "sent = frame packet" "result = 0"
    using assms(1,3,7,8) by (auto simp: send_packet_def send_def frame_def Let_def)
  have "unat (of_nat (checksum_of packet) :: uint8) = checksum_of packet"
    by (simp add: unat_of_nat take_bit_nat_eq_self checksum_of_sum)
  with read_packet_framed [of peer noise packet "of_nat (checksum_of packet)" rest "RSP_PACKET_SIZE + 1"] sent assms
  show ?thesis by (simp add: frame_def send_def)
qed

text \<open>A connection with given input, without memory, for examples.\<close>

definition example_rsp :: "string \<Rightarrow> (unit, unit) rsp_state" where
  "example_rsp input =
    \<lparr>rs_in = input, rs_out = [], rs_send_ok = True,
     rs_bus = \<lparr>bus_mpu = example_map, bus_access_log_size = 0,
       bus_access_log = replicate 128 \<lparr>bl_access_type = BUS_ACCESS_TYPE_NONE, bl_access_size = 0,
         bl_access_addr = 0, bl_access_last_data = 0\<rparr>\<rparr>,
     rs_ctl = cpuctrl_static 2 no_symbols, rs_target = (), rs_polls = []\<rparr>"

lemma frame_OK: "frame ''OK'' = ''$OK#9a''"
  by code_simp

theorem packet_roundtrip_witness:
  "read_packet (RSP_PACKET_SIZE + 1) (example_rsp ''+$OK#9a$'') =
    (2, ''OK'', (example_rsp ''+$OK#9a$'')\<lparr>rs_in := ''$'', rs_out := ''+''\<rparr>)"
proof -
  have send: "send_packet ''OK'' (example_rsp []) = (0, (example_rsp [])\<lparr>rs_out := ''$OK#9a''\<rparr>)"
    using frame_OK by (simp add: send_packet_def send_def example_rsp_def RSP_PACKET_SIZE_def frame_def Let_def)
  show ?thesis
    using packet_roundtrip [of "example_rsp []" "''OK''" "''+''" "example_rsp ''+$OK#9a$''" "''$OK#9a''" "''$''", OF _ _ _ _ _ _ send]
    by (simp add: example_rsp_def RSP_PACKET_SIZE_def)
qed

lemma sum_list_replace:
  "i < length xs \<Longrightarrow> sum_list (xs[i := x]) + xs ! i = sum_list xs + (x :: nat)"
proof (induction xs arbitrary: i)
  case (Cons y xs)
  then show ?case by (cases i) (simp_all add: add.assoc)
qed simp

lemma checksum_detects:
  assumes "i < length packet" "c \<noteq> packet ! i"
  shows "checksum_of (packet[i := c]) \<noteq> checksum_of packet"
proof
  let ?f = "of_char :: char \<Rightarrow> nat"
  assume "checksum_of (packet[i := c]) = checksum_of packet"
  then have "sum_list (map ?f (packet[i := c])) mod 256 = sum_list (map ?f packet) mod 256"
    by (simp add: checksum_of_sum)
  then have "(sum_list (map ?f (packet[i := c])) + ?f (packet ! i)) mod 256 = (sum_list (map ?f packet) + ?f (packet ! i)) mod 256"
    by (rule mod_add_cong) simp
  then have "(sum_list (map ?f packet) + ?f c) mod 256 = (sum_list (map ?f packet) + ?f (packet ! i)) mod 256"
    using sum_list_replace [of i "map ?f packet" "?f c"] assms(1) by (simp add: map_update)
  then have "int (?f c) mod 256 = int (?f (packet ! i)) mod 256"
    by (metis (no_types, opaque_lifting) add_diff_cancel_left' mod_diff_left_eq of_nat_add of_nat_mod of_nat_numeral)
  moreover have "?f d < 256" for d by (rule nat_of_char_less_256)
  ultimately have "?f c = ?f (packet ! i)" by (simp add: zmod_int [symmetric])
  then show False using assms(2) by simp
qed



section \<open>Memory requests\<close>

lemma strchr_at: "c \<notin> set xs \<Longrightarrow> strchr (xs @ c # ys) c = Some (length xs)"
  by (induction xs) (auto simp: strchr_def)

lemma write_hex_store:
  "write_hex mpu a (hex_encode bs) bus =
    map_option (\<lambda>(err, bus'). (err = STD_E_OK, bus')) (store_bytes (bus_put_data8 mpu 0) a bs bus)"
proof (induction bs arbitrary: a bus)
  case (Cons b bs)
  let ?hi = "unat (drop_bit 4 b)" and ?lo = "unat (b AND 0xf)"
  have e: "hex_encode (b # bs) = hex_digit ?hi # hex_digit ?lo # hex_encode bs"
    by (simp add: hex_encode_def hex_pair_def)
  have "int ?hi * 16 + int ?lo = int (unat b)" using unat_nibbles(3) [of b] by linarith
  then have "word_of_int (int ?hi * 16 + int ?lo) = b" by simp
  then have "write_hex mpu a (hex_encode (b # bs)) bus =
     (case bus_put_data8 mpu 0 a b bus of None \<Rightarrow> None
      | Some (err, bus') \<Rightarrow> if err \<noteq> STD_E_OK then Some (False, bus') else write_hex mpu (a + 1) (hex_encode bs) bus')"
    unfolding e by (simp add: hex_value_digit unat_nibbles)
  also have "\<dots> = map_option (\<lambda>(err, bus'). (err = STD_E_OK, bus')) (store_bytes (bus_put_data8 mpu 0) a (b # bs) bus)"
    by (simp add: Cons.IH split: option.split)
  finally show ?case .
qed (simp add: hex_encode_def)

lemma send_packet_ok:
  "rs_send_ok st \<Longrightarrow> length r \<le> RSP_PACKET_SIZE \<Longrightarrow> send_reply (r, st) = (0, False, st\<lparr>rs_out := rs_out st @ frame r\<rparr>)"
  by (simp add: send_reply_def send_packet_def send_def frame_def Let_def)

lemma dispatch_M: "dispatch_packet env (CHR ''M'' # args) st = map_option send_reply (request_M env args st)"
  by (simp add: dispatch_packet_def strncmp_eq_def Let_def)

lemma dispatch_m: "dispatch_packet env (CHR ''m'' # args) st = map_option send_reply (request_m env args st)"
  by (simp add: dispatch_packet_def strncmp_eq_def Let_def)

text \<open>
  C23: what a debugger writes with an \<open>M\<close> request it reads back with an \<open>m\<close> request. For
  any byte string of up to 4096 bytes and memory that may be written and read, the write is
  answered with \<open>OK\<close>, it puts exactly those bytes at exactly those addresses of the flat
  memory, and the read is answered with the hexadecimal text of the bytes. \<open>A\<close> and
  \<open>L\<close> are any texts of the address and the length.
\<close>

theorem memory_write_read:
  assumes inv: "bus_inv (rs_bus st)" and send: "rs_send_ok st" and data: "length (re_data env) = 4096"
    and rw: "\<And>i. i < length bs \<Longrightarrow> bus_writable (re_mpu env) 0 (rs_bus st) (a + of_nat i) \<and>
      bus_readable (re_mpu env) 0 (rs_bus st) (a + of_nat i)"
    and len: "unat a + length bs \<le> 2 ^ 32" "length bs \<le> 4096"
    and A: "parse_hex_u32 A = Some a" "length A < 32" "CHR '','' \<notin> set A"
    and L: "parse_hex_u32 L = Some (of_nat (length bs))" "CHR '':'' \<notin> set L"
  shows "\<exists>st1 st2. dispatch_packet env (''M'' @ A @ '','' @ L @ '':'' @ hex_encode bs) st = Some (0, False, st1) \<and>
    rs_out st1 = rs_out st @ frame ''OK'' \<and> bus_view (rs_bus st1) = flat_put (bus_view (rs_bus st)) a bs \<and>
    dispatch_packet env (''m'' @ A @ '','' @ L) st1 = Some (0, False, st2) \<and>
    rs_out st2 = rs_out st1 @ frame (hex_encode bs)"
proof -
  let ?mpu = "re_mpu env"
  from bus_bytes.store_bytes_ok [OF inv, of bs ?mpu 0 a] rw len(1) obtain bus1 where
    w: "store_bytes (bus_put_data8 ?mpu 0) a bs (rs_bus st) = Some (STD_E_OK, bus1)" "bus_inv bus1"
    "bus_view bus1 = flat_put (bus_view (rs_bus st)) a bs" "bus_readable ?mpu 0 bus1 = bus_readable ?mpu 0 (rs_bus st)"
    by blast
  have u: "unat (of_nat (length bs) :: uint32) = length bs"
    using len(2) by (simp add: unat_of_nat take_bit_nat_eq_self)
  let ?olds = "take (length bs) (re_data env)"
  have olds: "length ?olds = length bs" using data len(2) by simp
  from bus_bytes.fetch_bytes_ok [OF w(2), of ?olds ?mpu 0 a] rw w(4) olds obtain vs bus2 where
    r: "fetch_bytes (bus_get_data8 ?mpu 0) a ?olds bus1 = Some (STD_E_OK, vs, bus2)"
    "flat_get (bus_view bus1) a (length ?olds) = Some vs" by auto
  have vs: "vs = bs" using r(2) flat_get_put_same [OF len(1)] olds by (simp add: w(3))
  have "request_M env (A @ '','' @ L @ '':'' @ hex_encode bs) st = Some (''OK'', st\<lparr>rs_bus := bus1\<rparr>)"
    using A L u len(2) w(1) by (simp add: request_M_def strchr_at Let_def write_hex_store)
  then have 1: "dispatch_packet env (''M'' @ A @ '','' @ L @ '':'' @ hex_encode bs) st =
      Some (0, False, st\<lparr>rs_bus := bus1, rs_out := rs_out st @ frame ''OK''\<rparr>)"
    using send by (simp add: dispatch_M send_packet_ok RSP_PACKET_SIZE_def)
  let ?st1 = "st\<lparr>rs_bus := bus1, rs_out := rs_out st @ frame ''OK''\<rparr>"
  have "request_m env (A @ '','' @ L) ?st1 = Some (hex_encode bs, ?st1\<lparr>rs_bus := bus2\<rparr>)"
    using A L u len(2) r(1) vs by (simp add: request_m_def strchr_at)
  then have 2: "dispatch_packet env (''m'' @ A @ '','' @ L) ?st1 =
      Some (0, False, ?st1\<lparr>rs_bus := bus2, rs_out := rs_out ?st1 @ frame (hex_encode bs)\<rparr>)"
    using send len(2) by (simp add: dispatch_m send_packet_ok RSP_PACKET_SIZE_def)
  from 1 2 w(3) show ?thesis by auto
qed

definition example_rsp_env :: "(unit, unit) rsp_env" where
  "example_rsp_env =
    \<lparr>re_mpu = example_env,
     re_target = \<lparr>gt_reg_count = 1, gt_reg_size = (\<lambda>_. 4), gt_read_reg = (\<lambda>_ _. Some [1, 2, 3, 4]),
       gt_write_reg = (\<lambda>_ _ _. (True, ())), gt_set_pc = (\<lambda>_ _. ())\<rparr>,
     re_data = replicate 4096 0, re_stopped = id\<rparr>"

lemma example_rsp_bus:
  "bus_inv (rs_bus (example_rsp input))"
  "x \<in> {0x200, 0x201} \<Longrightarrow> bus_writable example_env c (rs_bus (example_rsp input)) x \<and>
    bus_readable example_env c (rs_bus (example_rsp input)) x"
proof -
  show "bus_inv (rs_bus (example_rsp input))"
    using example_map_flat by (simp add: bus_inv_def bus_wf_def example_rsp_def BUS_ACCESS_LOG_SIZE_def)
  assume x: "x \<in> {0x200, 0x201}"
  have "search_region_loops example_map x 1 = Some (Dynamic 1)"
    using x by (auto simp: search_region_loops_def example_map_def region_covers_def new_region_def)
  then show "bus_writable example_env c (rs_bus (example_rsp input)) x \<and>
    bus_readable example_env c (rs_bus (example_rsp input)) x"
    by (simp add: bus_writable_def bus_readable_def example_rsp_def plain_ref_def example_map_def
        new_region_def example_env_def)
qed

theorem memory_write_read_witness:
  "\<exists>st1 st2. dispatch_packet example_rsp_env ''M200,2:abcd'' (example_rsp []) = Some (0, False, st1) \<and>
    dispatch_packet example_rsp_env ''m200,2'' st1 = Some (0, False, st2) \<and>
    rs_out st2 = frame ''OK'' @ frame ''abcd''"
proof -
  have hex: "hex_encode [0xab, 0xcd] = ''abcd''"
    by (simp add: hex_encode_def hex_pair_def hex_digit_def drop_bit_eq_div unat_div_distrib)
  have parse: "parse_hex_u32 ''200'' = Some 0x200" "parse_hex_u32 ''2'' = Some 2" by (simp_all add: parse_eval)
  have rw: "bus_writable example_env 0 (rs_bus (example_rsp [])) (0x200 + of_nat i) \<and>
      bus_readable example_env 0 (rs_bus (example_rsp [])) (0x200 + of_nat i)" if "i < 2" for i
    using that example_rsp_bus(2) [of "0x200 + of_nat i"] by (auto simp: less_2_cases_iff)
  show ?thesis
    using memory_write_read [of "example_rsp []" example_rsp_env "[0xab, 0xcd]" "0x200" "''200''" "''2''", OF example_rsp_bus(1)]
      rw hex parse by (auto simp: example_rsp_env_def example_rsp_def)
qed

section \<open>Break point requests\<close>

text \<open>No address is listed twice.\<close>

definition breaks_distinct :: "cpuctrl_state \<Rightarrow> bool" where
  "breaks_distinct ctl \<longleftrightarrow>
    (\<forall>i<DBG_CPU_CONTROL_BREAK_SETSIZE. \<forall>j<DBG_CPU_CONTROL_BREAK_SETSIZE.
      bp_is_set (cc_break_points ctl ! i) \<longrightarrow> bp_is_set (cc_break_points ctl ! j) \<longrightarrow>
      bp_addr (cc_break_points ctl ! i) = bp_addr (cc_break_points ctl ! j) \<longrightarrow> i = j)"

lemma hit_iff:
  "break_inv ctl \<Longrightarrow> cpuctrl_is_break_point x ctl \<longleftrightarrow>
    (\<exists>i<DBG_CPU_CONTROL_BREAK_SETSIZE. bp_is_set (cc_break_points ctl ! i) \<and> bp_addr (cc_break_points ctl ! i) = x)"
  unfolding break_inv_hit search_break_point_iff by (simp add: break_inv_def)

lemma break_set_hits:
  assumes inv: "break_inv ctl" "breaks_distinct ctl"
    and set: "cpuctrl_set_break a BREAK_POINT_TYPE_FOREVER ctl = (ok, ctl')"
  shows "break_inv ctl' \<and> breaks_distinct ctl' \<and>
    (if ok then \<forall>x. cpuctrl_is_break_point x ctl' \<longleftrightarrow> cpuctrl_is_break_point x ctl \<or> x = a
     else ctl' = ctl \<and> \<not> cpuctrl_is_break_point a ctl \<and> search_free_break_point_space (cc_break_points ctl) = None)"
proof -
  let ?bps = "cc_break_points ctl"
  have len: "length ?bps = DBG_CPU_CONTROL_BREAK_SETSIZE" using inv(1) by (simp add: break_inv_def)
  have inv': "break_inv ctl'" using set_break_inv [OF inv(1), of a] set by simp
  have known: "search_break_point_with_type a BREAK_POINT_TYPE_FOREVER ?bps \<noteq> None \<longleftrightarrow> cpuctrl_is_break_point a ctl"
    using inv(1) unfolding hit_iff [OF inv(1)] search_break_point_with_type_def find_first_None_iff set_conv_nth break_inv_def
    by auto
  show ?thesis
  proof (cases "cpuctrl_is_break_point a ctl")
    case True
    then show ?thesis using known set inv by (auto simp: cpuctrl_set_break_def split: option.splits)
  next
    case False
    with known have none: "search_break_point_with_type a BREAK_POINT_TYPE_FOREVER ?bps = None" by simp
    show ?thesis
    proof (cases "search_free_break_point_space ?bps")
      case None
      then show ?thesis using none False set inv by (simp add: cpuctrl_set_break_def)
    next
      case (Some i)
      then have i: "i < length ?bps" "\<not> bp_is_set (?bps ! i)"
        by (simp_all add: search_free_break_point_space_def find_first_Some_iff)
      have pts: "cc_break_points ctl' = ?bps[i := \<lparr>bp_is_set = True, bp_type = BREAK_POINT_TYPE_FOREVER, bp_addr = a\<rparr>]" "ok"
        using set none Some by (auto simp: cpuctrl_set_break_def)
      have at: "bp_is_set (cc_break_points ctl' ! j) \<longleftrightarrow> j = i \<or> bp_is_set (?bps ! j)"
        "bp_addr (cc_break_points ctl' ! j) = (if j = i then a else bp_addr (?bps ! j))" for j
        using i by (simp_all add: pts nth_list_update)
      have new: "bp_addr (?bps ! j) \<noteq> a" if "j < DBG_CPU_CONTROL_BREAK_SETSIZE" "bp_is_set (?bps ! j)" for j
        using False that unfolding hit_iff [OF inv(1)] by blast
      have "breaks_distinct ctl'" using inv(2) new i(2) unfolding breaks_distinct_def at by metis
      moreover have "cpuctrl_is_break_point x ctl' \<longleftrightarrow> cpuctrl_is_break_point x ctl \<or> x = a" for x
        unfolding hit_iff [OF inv(1)] hit_iff [OF inv'] at using i len by auto
      ultimately show ?thesis using inv' pts(2) by simp
    qed
  qed
qed

lemma remove_break_find:
  "remove_break a is ctl =
    (case find (\<lambda>i. cpuctrl_get_break (of_nat i) ctl = Some a) is of
       None \<Rightarrow> Some (''E03'', ctl)
     | Some i \<Rightarrow> map_option (\<lambda>(_, ctl'). (''OK'', ctl')) (cpuctrl_del_break (of_nat i) ctl))"
  by (induction "is") simp_all

lemma break_remove_hits:
  assumes inv: "break_inv ctl" "breaks_distinct ctl"
  shows "\<exists>reply ctl'. remove_break a [0..<DBG_CPU_CONTROL_BREAK_SETSIZE] ctl = Some (reply, ctl') \<and>
    break_inv ctl' \<and> breaks_distinct ctl' \<and>
    (if cpuctrl_is_break_point a ctl
     then reply = ''OK'' \<and> (\<forall>x. cpuctrl_is_break_point x ctl' \<longleftrightarrow>
        cpuctrl_is_break_point x ctl \<and> (x \<noteq> a \<or> a = bp_addr (cc_break_points ctl ! 0)))
     else reply = ''E03'' \<and> ctl' = ctl)"
proof -
  let ?bps = "cc_break_points ctl" and ?N = DBG_CPU_CONTROL_BREAK_SETSIZE
  let ?P = "\<lambda>i. cpuctrl_get_break (of_nat i) ctl = Some a"
  have len: "length ?bps = ?N" using inv(1) by (simp add: break_inv_def)
  have u: "unat (of_nat i :: uint32) = i" if "i < ?N" for i
    using that by (simp add: DBG_CPU_CONTROL_BREAK_SETSIZE_def unat_of_nat take_bit_nat_eq_self)
  have get: "?P i \<longleftrightarrow> bp_is_set (?bps ! i) \<and> bp_addr (?bps ! i) = a" if "i < ?N" for i
    using that u [OF that] by (auto simp: cpuctrl_get_break_def)
  show ?thesis
  proof (cases "find ?P [0..<?N]")
    case None
    then have "\<not> cpuctrl_is_break_point a ctl" using get unfolding hit_iff [OF inv(1)] find_None_iff by auto
    then show ?thesis using None inv by (simp add: remove_break_find)
  next
    case (Some i)
    then have i: "i < ?N" "bp_is_set (?bps ! i)" "bp_addr (?bps ! i) = a"
      using get by (auto simp: find_Some_iff)
    then have hit: "cpuctrl_is_break_point a ctl" unfolding hit_iff [OF inv(1)] by blast
    from del_break_inv [OF inv(1), of "of_nat i"] u [OF i(1)] i(1) obtain ctl' where
      d: "cpuctrl_del_break (of_nat i) ctl = Some ((of_nat i :: uint32) > 0, ctl')" "break_inv ctl'" by auto
    have r: "remove_break a [0..<?N] ctl = Some (''OK'', ctl')" using Some d(1) by (simp add: remove_break_find)
    show ?thesis
    proof (cases "i = 0")
      case True
      then have "ctl' = ctl" "a = bp_addr (?bps ! 0)" using d(1) i(3) by (simp_all add: cpuctrl_del_break_def)
      then show ?thesis using r inv hit by simp
    next
      case False
      then have pos: "(of_nat i :: uint32) > 0" using u [OF i(1)] by (metis unat_gt_0 word_gt_0 neq0_conv)
      have pts: "cc_break_points ctl' = ?bps[i := (?bps ! i)\<lparr>bp_is_set := False\<rparr>]"
        using d(1) pos i(1) len u [OF i(1)] by (auto simp: cpuctrl_del_break_def)
      have at: "bp_is_set (cc_break_points ctl' ! j) \<longleftrightarrow> j \<noteq> i \<and> bp_is_set (?bps ! j)"
        "bp_addr (cc_break_points ctl' ! j) = bp_addr (?bps ! j)" for j
        using i(1) len by (simp_all add: pts nth_list_update)
      have "bp_is_set (?bps ! 0)" "0 < ?N" using inv(1) by (simp_all add: break_inv_def DBG_CPU_CONTROL_BREAK_SETSIZE_def)
      then have first: "a \<noteq> bp_addr (?bps ! 0)" using inv(2) i False unfolding breaks_distinct_def by metis
      have "breaks_distinct ctl'" using inv(2) unfolding breaks_distinct_def at by blast
      moreover have "cpuctrl_is_break_point x ctl' \<longleftrightarrow> cpuctrl_is_break_point x ctl \<and> x \<noteq> a" for x
        unfolding hit_iff [OF inv(1)] hit_iff [OF d(2)] at using inv(2) i unfolding breaks_distinct_def by blast
      ultimately show ?thesis using r d(2) hit first by simp
    qed
  qed
qed

lemma dispatch_Z: "dispatch_packet env (CHR ''Z'' # args) st = map_option send_reply (request_Z True args st)"
  by (simp add: dispatch_packet_def strncmp_eq_def Let_def)

lemma dispatch_z: "dispatch_packet env (CHR ''z'' # args) st = map_option send_reply (request_Z False args st)"
  by (simp add: dispatch_packet_def strncmp_eq_def Let_def)

lemma strtoul_0: "strtoul 16 ''0'' = (0, 1, False)"
  by (simp add: parse_eval)

text \<open>
  C24: the break point requests of the debugger act on the set of addresses at which the CPU
  stops. \<open>Z0\<close> adds the address and answers \<open>OK\<close>, or answers \<open>E02\<close>
  and changes nothing when the table is full and the address is not in it. \<open>z0\<close> removes
  the address and answers \<open>OK\<close>, or answers \<open>E03\<close> and changes nothing when the CPU
  does not stop there; the one exception is the address of the first entry, which is never
  removed although the answer is \<open>OK\<close>. Both keep the table in order.
\<close>

theorem break_requests_refine:
  assumes "break_inv (rs_ctl st)" "breaks_distinct (rs_ctl st)" "rs_send_ok st"
    "parse_hex_u32 A = Some a" "CHR '','' \<notin> set A" "parse_hex_u32 K = Some k" "k \<noteq> 0"
  shows "(\<exists>st1 ok. dispatch_packet env (''Z0,'' @ A @ '','' @ K) st = Some (0, False, st1) \<and>
      rs_out st1 = rs_out st @ frame (if ok then ''OK'' else ''E02'') \<and>
      break_inv (rs_ctl st1) \<and> breaks_distinct (rs_ctl st1) \<and>
      (if ok then \<forall>x. cpuctrl_is_break_point x (rs_ctl st1) \<longleftrightarrow> cpuctrl_is_break_point x (rs_ctl st) \<or> x = a
       else rs_ctl st1 = rs_ctl st \<and> \<not> cpuctrl_is_break_point a (rs_ctl st) \<and>
         search_free_break_point_space (cc_break_points (rs_ctl st)) = None)) \<and>
    (\<exists>st1 reply. dispatch_packet env (''z0,'' @ A @ '','' @ K) st = Some (0, False, st1) \<and>
      rs_out st1 = rs_out st @ frame reply \<and> break_inv (rs_ctl st1) \<and> breaks_distinct (rs_ctl st1) \<and>
      (if cpuctrl_is_break_point a (rs_ctl st)
       then reply = ''OK'' \<and> (\<forall>x. cpuctrl_is_break_point x (rs_ctl st1) \<longleftrightarrow> cpuctrl_is_break_point x (rs_ctl st) \<and>
          (x \<noteq> a \<or> a = bp_addr (cc_break_points (rs_ctl st) ! 0)))
       else reply = ''E03'' \<and> rs_ctl st1 = rs_ctl st))"
proof -
  have args: "strchr (''0,'' @ A @ '','' @ K) (CHR '','') = Some 1" "strchr (A @ '','' @ K) (CHR '','') = Some (length A)"
    using strchr_at [of "CHR '',''" "''0''" "A @ '','' @ K"] strchr_at [OF assms(5)] by simp_all
  obtain ok ctl1 where 1: "cpuctrl_set_break a BREAK_POINT_TYPE_FOREVER (rs_ctl st) = (ok, ctl1)" by fastforce
  have "request_Z True (''0,'' @ A @ '','' @ K) st = Some (if ok then ''OK'' else ''E02'', st\<lparr>rs_ctl := ctl1\<rparr>)"
    using args assms(4,6,7) 1 by (simp add: request_Z_def strtoul_0 Let_def)
  then have Z: "dispatch_packet env (''Z0,'' @ A @ '','' @ K) st =
      Some (0, False, st\<lparr>rs_ctl := ctl1, rs_out := rs_out st @ frame (if ok then ''OK'' else ''E02'')\<rparr>)"
    using assms(3) by (simp add: dispatch_Z send_packet_ok RSP_PACKET_SIZE_def)
  from break_remove_hits [OF assms(1,2), of a] obtain reply ctl2 where
    2: "remove_break a [0..<DBG_CPU_CONTROL_BREAK_SETSIZE] (rs_ctl st) = Some (reply, ctl2)"
    and r: "break_inv ctl2" "breaks_distinct ctl2"
    "if cpuctrl_is_break_point a (rs_ctl st)
     then reply = ''OK'' \<and> (\<forall>x. cpuctrl_is_break_point x ctl2 \<longleftrightarrow> cpuctrl_is_break_point x (rs_ctl st) \<and>
        (x \<noteq> a \<or> a = bp_addr (cc_break_points (rs_ctl st) ! 0)))
     else reply = ''E03'' \<and> ctl2 = rs_ctl st" by blast
  have "request_Z False (''0,'' @ A @ '','' @ K) st = Some (reply, st\<lparr>rs_ctl := ctl2\<rparr>)"
    using args assms(4,6,7) 2 by (simp add: request_Z_def strtoul_0 Let_def)
  moreover have "length reply \<le> RSP_PACKET_SIZE" using r(3) by (auto simp: RSP_PACKET_SIZE_def split: if_splits)
  ultimately have z: "dispatch_packet env (''z0,'' @ A @ '','' @ K) st =
      Some (0, False, st\<lparr>rs_ctl := ctl2, rs_out := rs_out st @ frame reply\<rparr>)"
    using assms(3) by (simp add: dispatch_z send_packet_ok)
  show ?thesis
    by (rule conjI, rule exI, rule exI [of _ ok], rule conjI [OF Z],
        use break_set_hits [OF assms(1,2) 1] in \<open>simp split: if_splits\<close>,
        rule exI, rule exI [of _ reply], rule conjI [OF z], use r in \<open>simp split: if_splits\<close>)
qed

lemma example_breaks: "break_inv (rs_ctl (example_rsp input))" "breaks_distinct (rs_ctl (example_rsp input))"
proof -
  show "break_inv (rs_ctl (example_rsp input))" by (simp add: example_rsp_def static_break_inv)
  show "breaks_distinct (rs_ctl (example_rsp input))"
    by (auto simp: breaks_distinct_def example_rsp_def static_break_points nth_Cons DBG_CPU_CONTROL_BREAK_SETSIZE_def
        split: nat.splits)
qed

theorem break_requests_refine_witness:
  "\<exists>st1. dispatch_packet example_rsp_env ''z0,200,2'' (example_rsp []) = Some (0, False, st1) \<and>
    rs_out st1 = frame ''E03'' \<and> rs_ctl st1 = cpuctrl_static 2 no_symbols"
proof -
  have parse: "parse_hex_u32 ''200'' = Some 0x200" "parse_hex_u32 ''2'' = Some 2" by (simp_all add: parse_eval)
  have "\<not> cpuctrl_is_break_point 0x200 (cpuctrl_static 2 no_symbols)"
    by (simp add: cpuctrl_is_break_point_def static_break_points)
  then show ?thesis
    using break_requests_refine [OF example_breaks _ parse(1) _ parse(2), of "[]" example_rsp_env]
    by (auto simp: example_rsp_def)
qed

section \<open>Every request is answered\<close>

text \<open>What the address map needs of the devices: their byte accesses do not free or shrink host memory.\<close>

definition devices_keep_host :: "'d mpu_env \<Rightarrow> bool" where
  "devices_keep_host env \<longleftrightarrow>
    (\<forall>d g r c a v ds h. op_get_data8 (env_dev env d) = Some g \<longrightarrow>
       map length (snd (snd (snd (g r c a v (ds, h))))) = map length h) \<and>
    (\<forall>d p r c a v ds h. op_put_data8 (env_dev env d) = Some p \<longrightarrow>
       map length (snd (snd (p r c a v (ds, h)))) = map length h)"

lemma mpu_wf_host:
  assumes "mpu_wf s" "map length (mpu_host s') = map length (mpu_host s)" "mpu_map s' = mpu_map s"
    "mpu_dynamic_map s' = mpu_dynamic_map s"
  shows "mpu_wf s'"
proof -
  have len: "length (mpu_host s') = length (mpu_host s)" using assms(2) by (metis length_map)
  moreover have "length (mpu_host s' ! b) = length (mpu_host s ! b)" if "b < length (mpu_host s)" for b
    using assms(2) that len by (metis nth_map)
  ultimately have "region_backed (mpu_host s') r = region_backed (mpu_host s) r" for r
    by (auto simp: region_backed_def split: option.splits)
  then show ?thesis using assms(1,3,4) by (simp add: mpu_wf_def)
qed

lemma mpu_get_data8_wf:
  assumes "mpu_wf s" "devices_keep_host env" "mpu_get_data8 env c a d s = Some (err, v, s')"
  shows "mpu_wf s'"
proof -
  have "map length (mpu_host s') = map length (mpu_host s)" "mpu_map s' = mpu_map s" "mpu_dynamic_map s' = mpu_dynamic_map s"
    using assms(2,3)
    by (auto simp: mpu_get_defs mpu_get_with_def search_region_r_def devices_keep_host_def Let_def case_prod_beta
        split: option.splits prod.splits MpuOps.splits if_splits)
  with assms(1) show ?thesis by (rule mpu_wf_host)
qed

lemma mpu_put_data8_wf:
  assumes "mpu_wf s" "devices_keep_host env" "mpu_put_data8 env c a d s = Some (err, s')"
  shows "mpu_wf s'"
proof -
  have "map length (mpu_host s') = map length (mpu_host s)" "mpu_map s' = mpu_map s" "mpu_dynamic_map s' = mpu_dynamic_map s"
    using assms(2,3)
    by (auto simp: mpu_put_defs mpu_put_with_def search_region_def devices_keep_host_def Let_def case_prod_beta
        memory_put_def bind_eq_Some_conv dest: host_write_lengths
        split: option.splits prod.splits MpuOps.splits if_splits)
  with assms(1) show ?thesis by (rule mpu_wf_host)
qed

abbreviation bus_mpu_wf :: "'d bus_state \<Rightarrow> bool" where "bus_mpu_wf bus \<equiv> mpu_wf (bus_mpu bus)"

lemma bus_get_data8_wf:
  assumes "bus_mpu_wf bus" "devices_keep_host env"
  obtains err v bus' where "bus_get_data8 env c a old bus = Some (err, v, bus')" "bus_mpu_wf bus'"
proof -
  have "mpu_get_data8 env c a old (bus_mpu bus) \<noteq> None"
    unfolding mpu_get_defs using assms(1) by (rule mpu_get_with_defined) simp_all
  then obtain err v s' where g: "mpu_get_data8 env c a old (bus_mpu bus) = Some (err, v, s')" by auto
  from that mpu_get_data8_wf [OF assms g] show thesis by (simp add: bus_get_data8_def bus_mpu_get_with g)
qed

lemma bus_put_data8_wf:
  assumes "bus_mpu_wf bus" "devices_keep_host env"
  obtains err bus' where "bus_put_data8 env c a v bus = Some (err, bus')" "bus_mpu_wf bus'"
proof -
  have "mpu_put_data8 env c a v (bus_mpu bus) \<noteq> None"
    unfolding mpu_put_defs using assms(1) by (rule mpu_put_with_defined) simp_all
  then obtain err s' where p: "mpu_put_data8 env c a v (bus_mpu bus) = Some (err, s')" by auto
  from that mpu_put_data8_wf [OF assms p] show thesis by (simp add: bus_put_data8_def bus_mpu_put_with p)
qed

lemma fetch_bytes_defined:
  assumes "bus_mpu_wf bus" "devices_keep_host env"
  shows "\<exists>err data bus'. fetch_bytes (bus_get_data8 env c) a olds bus = Some (err, data, bus') \<and> length data = length olds"
  using assms(1)
proof (induction olds arbitrary: a bus)
  case (Cons old olds)
  obtain err v bus' where g: "bus_get_data8 env c a old bus = Some (err, v, bus')" "bus_mpu_wf bus'"
    using bus_get_data8_wf [OF Cons.prems assms(2)] .
  from Cons.IH [OF g(2), of "a + 1"] g(1) show ?case by auto
qed simp

lemma write_hex_defined:
  assumes "bus_mpu_wf bus" "devices_keep_host env"
  shows "write_hex env a cs bus \<noteq> None"
  using assms
proof (induction env a cs bus rule: write_hex.induct)
  case (1 env a h l cs bus)
  obtain err bus' where p: "bus_put_data8 env 0 a (word_of_int (hex_value h * 16 + hex_value l)) bus = Some (err, bus')" "bus_mpu_wf bus'"
    using bus_put_data8_wf [OF 1(2,3)] .
  show ?case
  proof (cases "hex_value h < 0 \<or> hex_value l < 0")
    case True
    then show ?thesis by simp
  next
    case False
    with 1(1) [OF refl refl False p(1) refl _ p(2) 1(3)] p(1) show ?thesis by (cases "err = STD_E_OK") simp_all
  qed
qed simp_all

text \<open>What the protocol requires of the target: there are registers and their image fits a packet.\<close>

definition target_fits :: "'t gdb_target \<Rightarrow> bool" where
  "target_fits tgt \<longleftrightarrow> 0 < gt_reg_count tgt \<and>
    sum_list (map (gt_reg_size tgt) [0..<gt_reg_count tgt]) \<le> 4096 \<and>
    (\<forall>reg t data. gt_read_reg tgt reg t = Some data \<longrightarrow> length data = gt_reg_size tgt reg)"

definition replies :: "('d, 't) rsp_state \<Rightarrow> (string \<times> ('d, 't) rsp_state) option \<Rightarrow> bool" where
  "replies st req \<longleftrightarrow> (\<exists>reply st1. req = Some (reply, st1) \<and> length reply \<le> RSP_PACKET_SIZE \<and>
     rs_out st1 = rs_out st \<and> rs_send_ok st1 = rs_send_ok st)"

lemma read_all_regs_fits:
  assumes "\<And>reg t data. gt_read_reg tgt reg t = Some data \<Longrightarrow> length data = gt_reg_size tgt reg"
    "length out + 2 * sum_list (map (gt_reg_size tgt) regs) \<le> RSP_PACKET_SIZE"
  shows "\<exists>reply. read_all_regs tgt t regs out = Some reply \<and> length reply \<le> RSP_PACKET_SIZE"
  using assms(2)
proof (induction regs arbitrary: out)
  case (Cons reg regs)
  have sz: "\<not> (gt_reg_size tgt reg > 4096 \<or> length out + 2 * gt_reg_size tgt reg > RSP_PACKET_SIZE)"
    using Cons.prems by (simp add: RSP_PACKET_SIZE_def)
  show ?case
  proof (cases "gt_read_reg tgt reg t")
    case None
    have "length (out @ x_string (2 * gt_reg_size tgt reg)) + 2 * sum_list (map (gt_reg_size tgt) regs) \<le> RSP_PACKET_SIZE"
      using Cons.prems by (simp add: x_string_def)
    from Cons.IH [OF this] show ?thesis using sz None by simp
  next
    case (Some data)
    have "length (out @ hex_encode data) + 2 * sum_list (map (gt_reg_size tgt) regs) \<le> RSP_PACKET_SIZE"
      using Cons.prems assms(1) [OF Some] by simp
    from Cons.IH [OF this] show ?thesis using sz Some by simp
  qed
qed simp

lemma write_reg_frame:
  "write_reg env reg data st = (ok, st') \<Longrightarrow> rs_out st' = rs_out st \<and> rs_send_ok st' = rs_send_ok st"
  by (auto simp: write_reg_def split: prod.splits)

lemma write_all_regs_frame:
  "rs_out (snd (write_all_regs env regs cursor st)) = rs_out st \<and>
    rs_send_ok (snd (write_all_regs env regs cursor st)) = rs_send_ok st \<and>
    length (fst (write_all_regs env regs cursor st)) \<le> 3"
  by (induction env regs cursor st rule: write_all_regs.induct)
    (auto simp: Let_def split: option.split prod.split dest: write_reg_frame)

lemma remove_break_defined:
  assumes "length (cc_break_points ctl) = DBG_CPU_CONTROL_BREAK_SETSIZE"
  shows "\<exists>reply ctl'. remove_break a is ctl = Some (reply, ctl') \<and> length reply \<le> 3"
proof (induction "is")
  case (Cons i "is")
  have "cpuctrl_del_break (of_nat i) ctl \<noteq> None" if "cpuctrl_get_break (of_nat i) ctl = Some a"
    using that assms by (auto simp: cpuctrl_get_break_def cpuctrl_del_break_def split: if_splits)
  with Cons show ?case by (auto split: if_splits)
qed simp

lemma requests_reply:
  assumes "bus_mpu_wf (rs_bus st)" "devices_keep_host (re_mpu env)" "length (re_data env) = 4096"
    "target_fits (re_target env)" "length (cc_break_points (rs_ctl st)) = DBG_CPU_CONTROL_BREAK_SETSIZE"
  shows "replies st (request_g env st)" "replies st (request_p env args st)"
    "replies st (Some (request_P env args st))" "replies st (Some (request_G env args st))"
    "replies st (request_m env args st)" "replies st (request_M env args st)" "replies st (request_Z ins args st)"
proof -
  let ?tgt = "re_target env"
  have read: "gt_read_reg ?tgt reg t = Some data \<Longrightarrow> length data = gt_reg_size ?tgt reg" for reg t data
    using assms(4) by (simp add: target_fits_def)
  have size: "gt_reg_size ?tgt reg \<le> 4096" if "reg < gt_reg_count ?tgt" for reg
    using assms(4) that member_le_sum_list [of "gt_reg_size ?tgt reg" "map (gt_reg_size ?tgt) [0..<gt_reg_count ?tgt]"]
    by (simp add: target_fits_def)
  from read_all_regs_fits [OF read, where out = "[]" and regs = "[0..<gt_reg_count ?tgt]" and t = "rs_target st"] assms(4)
  show "replies st (request_g env st)"
    by (auto simp: replies_def request_g_def target_fits_def RSP_PACKET_SIZE_def)
  show "replies st (request_p env args st)"
    using read size by (fastforce simp: replies_def request_p_def Let_def RSP_PACKET_SIZE_def x_string_def not_le split: option.split)
  show "replies st (Some (request_P env args st))"
    by (auto simp: replies_def request_P_def Let_def RSP_PACKET_SIZE_def split: option.split prod.split dest!: write_reg_frame)
  show "replies st (Some (request_G env args st))" 
    using write_all_regs_frame [of env "[0..<gt_reg_count ?tgt]" args st]
    by (auto simp: replies_def request_G_def RSP_PACKET_SIZE_def prod_eq_iff)
  let ?fetch = "\<lambda>a n. fetch_bytes (bus_get_data8 (re_mpu env) 0) a (take n (re_data env)) (rs_bus st)"
  have fetch: "\<exists>err data bus'. ?fetch a n = Some (err, data, bus') \<and> length data \<le> 4096" for a n
    using fetch_bytes_defined [OF assms(1,2), of 0 a "take n (re_data env)"] assms(3) by auto
  have "?fetch a n = None \<Longrightarrow> False" "?fetch a n = Some (err, data, bus') \<Longrightarrow> length data \<le> 4096" for a n err data bus'
    using fetch [of a n] by auto
  then show "replies st (request_m env args st)"
    by (auto simp: replies_def request_m_def RSP_PACKET_SIZE_def split: option.split simp del: not_None_eq)
  show "replies st (request_M env args st)"
    using write_hex_defined [OF assms(1,2)]
    by (auto simp: replies_def request_M_def RSP_PACKET_SIZE_def Let_def split: option.split simp del: not_None_eq)
  let ?remove = "\<lambda>a. remove_break a [0..<DBG_CPU_CONTROL_BREAK_SETSIZE] (rs_ctl st)"
  have "?remove a = None \<Longrightarrow> False" "?remove a = Some (reply, ctl') \<Longrightarrow> length reply \<le> 3" for a reply ctl'
    using remove_break_defined [OF assms(5), of a "[0..<DBG_CPU_CONTROL_BREAK_SETSIZE]"] by auto
  then show "replies st (request_Z ins args st)"
    by (fastforce simp: replies_def request_Z_def RSP_PACKET_SIZE_def Let_def split: option.split prod.split)
qed

definition answered :: "bool \<Rightarrow> ('d, 't) rsp_state \<Rightarrow> (int \<times> bool \<times> ('d, 't) rsp_state) option \<Rightarrow> bool" where
  "answered close st r \<longleftrightarrow> (\<exists>st' reply. r = Some (0, close, st') \<and> length reply \<le> RSP_PACKET_SIZE \<and>
     rs_out st' = rs_out st @ frame reply)"

lemma answered_if: "(c \<Longrightarrow> answered cl st a) \<Longrightarrow> (\<not> c \<Longrightarrow> answered cl st b) \<Longrightarrow> answered cl st (if c then a else b)"
  by simp

lemma answered_reply: "rs_send_ok st \<Longrightarrow> replies st req \<Longrightarrow> answered False st (map_option send_reply req)"
  by (auto simp: answered_def replies_def send_packet_ok)

lemma answered_send: "rs_send_ok st \<Longrightarrow> replies st (Some p) \<Longrightarrow> answered False st (Some (send_reply p))"
  using answered_reply [of st "Some p"] by simp

lemma replies_text: "length r \<le> RSP_PACKET_SIZE \<Longrightarrow> replies st (Some (r, st))"
  by (simp add: replies_def)

lemma answered_stop: "rs_send_ok st \<Longrightarrow> answered False st (Some (case stop_reply sig [] st of (result, st') \<Rightarrow> (result, False, st')))"
  by (auto simp: answered_def stop_reply_def send_packet_def send_def frame_def Let_def hex_pair_def RSP_PACKET_SIZE_def
      intro!: exI [of _ "''T'' @ hex_pair sig @ ''thread:1;''"])



section \<open>Interrupts\<close>

lemma debug_mode_forced [simp]: "cpuctrl_is_debug_mode (cpuctrl_set_force_break ctl)"
  by (simp add: cpuctrl_set_force_break_def cpuctrl_is_debug_mode_def cpuctrl_set_debug_mode_def)

lemma cpu_runs_frame [simp]:
  "rs_out (cpu_runs f st) = rs_out st" "rs_send_ok (cpu_runs f st) = rs_send_ok st"
  by (simp_all add: cpu_runs_def split: prod.split)

lemma await_stop_loop_interrupt:
  assumes "\<forall>p\<in>set ps. snd p = No_data" "rs_in st = [] \<or> take 1 (rs_in st) = [CHR 0x03]"
  shows "\<exists>st1. cpuctrl_is_debug_mode (rs_ctl st1) \<and> rs_out st1 = rs_out st \<and> rs_send_ok st1 = rs_send_ok st \<and>
    (rs_in st1 = rs_in st \<and> await_stop_loop env 5 (ps @ (cpu, Data) # rest) st = Some (stop_reply 5 [] (cpu_runs (re_stopped env) st1)) \<or>
     rs_in st = CHR 0x03 # rs_in st1 \<and>
       await_stop_loop env 5 (ps @ (cpu, Data) # rest) st = Some (stop_reply 2 [] (cpu_runs (re_stopped env) st1)) \<or>
     rs_in st = [] \<and> await_stop_loop env 5 (ps @ (cpu, Data) # rest) st = Some (-1, cpu_runs (re_stopped env) st1))"
  using assms
proof (induction ps arbitrary: st)
  case Nil
  let ?st1 = "(cpu_runs cpu st)\<lparr>rs_polls := rest\<rparr>"
  show ?case
  proof (cases "rs_in st")
    case empty: Nil
    then show ?thesis
      by (intro exI [of _ "on_ctl cpuctrl_set_force_break ?st1"]) (simp add: read_byte_def on_ctl_def)
  next
    case (Cons c cs)
    then have "c = CHR 0x03" using Nil.prems(2) by simp
    then show ?thesis using Cons
      by (intro exI [of _ "on_ctl cpuctrl_set_force_break (?st1\<lparr>rs_in := cs\<rparr>)"]) (simp add: read_byte_def on_ctl_def)
  qed
next
  case (Cons p ps)
  obtain f where p: "p = (f, No_data)" using Cons.prems(1) by (cases p) simp
  let ?st1 = "(cpu_runs f st)\<lparr>rs_polls := ps @ (cpu, Data) # rest\<rparr>"
  show ?case
  proof (cases "cpuctrl_is_debug_mode (rs_ctl ?st1)")
    case True
    then show ?thesis by (intro exI [of _ ?st1]) (simp add: p)
  next
    case False
    then have "await_stop_loop env 5 ((p # ps) @ (cpu, Data) # rest) st = await_stop_loop env 5 (ps @ (cpu, Data) # rest) ?st1"
      by (simp add: p)
    with Cons.IH [of ?st1] Cons.prems show ?thesis by simp
  qed
qed

text \<open>
  C26: a running target can always be interrupted. When the debugger has sent the interrupt
  character, or has closed the connection, and the server polls the socket any number of times
  before the data arrives, then waiting for the stop ends: the target is in debug mode, and the
  reply is the stop of the target itself (signal 5) when it stopped on its own before, the
  interrupt (signal 2) when the character was taken, and none, with the connection given up, at
  the end of the connection.
\<close>

theorem interrupt_stops_target:
  assumes "rs_polls st = ps @ (cpu, Data) # rest" "\<forall>p\<in>set ps. snd p = No_data"
    "rs_in st = [] \<or> take 1 (rs_in st) = [CHR 0x03]" "rs_send_ok st"
  shows "\<exists>st1 st2. cpuctrl_is_debug_mode (rs_ctl st1) \<and> rs_bus st2 = rs_bus (cpu_runs (re_stopped env) st1) \<and>
    rs_ctl st2 = rs_ctl (cpu_runs (re_stopped env) st1) \<and>
    (rs_in st2 = rs_in st \<and> await_stop env st = Some (0, st2) \<and> rs_out st2 = rs_out st @ frame ''T05thread:1;'' \<or>
     rs_in st = CHR 0x03 # rs_in st2 \<and> await_stop env st = Some (0, st2) \<and> rs_out st2 = rs_out st @ frame ''T02thread:1;'' \<or>
     rs_in st = [] \<and> await_stop env st = Some (-1, st2) \<and> rs_out st2 = rs_out st)"
proof -
  from await_stop_loop_interrupt [OF assms(2,3), of env cpu rest] obtain st1 where
    dbg: "cpuctrl_is_debug_mode (rs_ctl st1)" and fr: "rs_out st1 = rs_out st" "rs_send_ok st1 = rs_send_ok st"
    and c: "rs_in st1 = rs_in st \<and> await_stop_loop env 5 (ps @ (cpu, Data) # rest) st = Some (stop_reply 5 [] (cpu_runs (re_stopped env) st1)) \<or>
     rs_in st = CHR 0x03 # rs_in st1 \<and>
       await_stop_loop env 5 (ps @ (cpu, Data) # rest) st = Some (stop_reply 2 [] (cpu_runs (re_stopped env) st1)) \<or>
     rs_in st = [] \<and> await_stop_loop env 5 (ps @ (cpu, Data) # rest) st = Some (-1, cpu_runs (re_stopped env) st1)"
    by blast
  let ?run = "cpu_runs (re_stopped env) st1"
  have texts: "''T'' @ hex_pair 5 @ ''thread:1;'' = ''T05thread:1;''" "''T'' @ hex_pair 2 @ ''thread:1;'' = ''T02thread:1;''"
    by (simp_all add: hex_pair_def hex_digit_def drop_bit_eq_div unat_div_distrib)
  have reply: "stop_reply sig [] ?run = (0, ?run\<lparr>rs_out := rs_out ?run @ frame (''T'' @ hex_pair sig @ ''thread:1;'')\<rparr>)" for sig
    using fr assms(4) by (simp add: stop_reply_def send_packet_def send_def frame_def RSP_PACKET_SIZE_def hex_pair_def Let_def)
  have eq: "await_stop env st = await_stop_loop env 5 (ps @ (cpu, Data) # rest) st" by (simp add: await_stop_def assms(1))
  from c show ?thesis
  proof (elim disjE conjE)
    assume "rs_in st1 = rs_in st" "await_stop_loop env 5 (ps @ (cpu, Data) # rest) st = Some (stop_reply 5 [] ?run)"
    then show ?thesis using dbg fr eq
      by (intro exI [of _ st1] exI [of _ "?run\<lparr>rs_out := rs_out st @ frame ''T05thread:1;''\<rparr>"])
        (simp add: reply [of 5, unfolded texts])
  next
    assume "rs_in st = CHR 0x03 # rs_in st1" "await_stop_loop env 5 (ps @ (cpu, Data) # rest) st = Some (stop_reply 2 [] ?run)"
    then show ?thesis using dbg fr eq
      by (intro exI [of _ st1] exI [of _ "?run\<lparr>rs_out := rs_out st @ frame ''T02thread:1;''\<rparr>"])
        (simp add: reply [of 2, unfolded texts])
  next
    assume "rs_in st = []" "await_stop_loop env 5 (ps @ (cpu, Data) # rest) st = Some (-1, ?run)"
    then show ?thesis using dbg fr eq by (intro exI [of _ st1] exI [of _ ?run]) simp
  qed
qed

theorem interrupt_stops_target_witness:
  "\<exists>st2. await_stop example_rsp_env ((example_rsp [CHR 0x03])\<lparr>rs_polls := [(id, No_data), (id, Data)]\<rparr>) = Some (0, st2)"
  using interrupt_stops_target [of "(example_rsp [CHR 0x03])\<lparr>rs_polls := [(id, No_data), (id, Data)]\<rparr>"
      "[(id, No_data)]" id "[]" example_rsp_env]
  by (auto simp: example_rsp_def)

end
