(* ===== verification/Token.thy ===== *)
theory Token
  imports CString
begin

text \<open>
  The tokens of a command line, src/src/lib/token.h and src/src/lib/token.c.
  \<^item> The bodies of a token value share storage: \<open>hex.value\<close>, \<open>dec.value\<close> and
    \<open>str.len\<close> are the same four bytes, which are \<open>tv_len\<close>; the characters follow.
  \<^item> A token container and the buffer of the splitter are not initialised; what they hold before
    is an argument of \<open>token_split\<close>.
  \<^item> \<open>None\<close> is an access outside an array.
\<close>

section \<open>Data\<close>

datatype TokenEnumType = TOKEN_TYPE_VALUE_HEX | TOKEN_TYPE_VALUE_DEC | TOKEN_TYPE_STRING | TOKEN_TYPE_UNKNOWN

definition TOKEN_STRING_MAX_SIZE :: nat where "TOKEN_STRING_MAX_SIZE = 4096"
definition TOKEN_CONTAINER_MAX_SIZE :: nat where "TOKEN_CONTAINER_MAX_SIZE = 128"

record TokenStringType =
  ts_len :: uint32
  ts_str :: string

record TokenValueType =
  tv_type :: TokenEnumType
  tv_body :: TokenStringType

text \<open>The value of a number token.\<close>

abbreviation tv_value :: "TokenValueType \<Rightarrow> uint32" where "tv_value v \<equiv> ts_len (tv_body v)"

record TokenContainerType =
  tc_num :: uint32
  tc_array :: "TokenValueType list"

section \<open>Operations\<close>

definition token_strcmp :: "TokenStringType \<Rightarrow> TokenStringType \<Rightarrow> bool" where
  "token_strcmp str1 str2 \<longleftrightarrow>
    ts_len str1 = ts_len str2 \<and> strncmp_eq (c_string (ts_str str1)) (c_string (ts_str str2)) (unat (ts_len str1))"

definition is_delimiter :: "char \<Rightarrow> char option \<Rightarrow> bool" where
  "is_delimiter c ex_c \<longleftrightarrow>
    isspace c \<or> c = CHR '','' \<or> c = CHR '':'' \<or> c = NUL \<or> (case ex_c of None \<Rightarrow> False | Some e \<Rightarrow> c = e)"

definition update_value :: "(TokenValueType \<Rightarrow> TokenValueType) \<Rightarrow> nat \<Rightarrow> TokenContainerType \<Rightarrow> TokenContainerType option" where
  "update_value f i tc =
    (if i < length (tc_array tc) then Some (tc\<lparr>tc_array := (tc_array tc)[i := f (tc_array tc ! i)]\<rparr>) else None)"

definition set_number :: "TokenEnumType \<Rightarrow> uint32 \<Rightarrow> TokenValueType \<Rightarrow> TokenValueType" where
  "set_number type v tv = tv\<lparr>tv_type := type, tv_body := (tv_body tv)\<lparr>ts_len := v\<rparr>\<rparr>"

text \<open>The checks of \<open>set_token\<close> on the terminated buffer, and what they store.\<close>

definition classify :: "TokenStringType \<Rightarrow> TokenValueType \<Rightarrow> TokenValueType" where
  "classify buffer =
    (let text = c_string (ts_str buffer);
         (ret32, end32, range32) = strtol 10 text;
         (ret64, end64, range64) = strtoul 16 text
     in if \<not> range32 \<and> end32 = length text then set_number TOKEN_TYPE_VALUE_DEC (word_of_int ret32)
        else if ts_len buffer > 2 \<and> ts_str buffer ! 0 = CHR ''0'' \<and> ts_str buffer ! 1 = CHR ''x''
          \<and> \<not> range64 \<and> end64 = length text
        then set_number TOKEN_TYPE_VALUE_HEX (of_nat ret64)
        else (\<lambda>_. \<lparr>tv_type = TOKEN_TYPE_STRING, tv_body = buffer\<rparr>))"

definition set_token :: "TokenContainerType \<Rightarrow> TokenStringType \<Rightarrow> (TokenContainerType \<times> TokenStringType) option" where
  "set_token tc buffer = do {
    str \<leftarrow> update_at (ts_str buffer) (unat (ts_len buffer)) NUL;
    let buffer' = buffer\<lparr>ts_str := str\<rparr>;
    tc' \<leftarrow> update_value (classify buffer') (unat (tc_num tc - 1)) tc;
    Some (tc', buffer')
  }"

datatype TokenCheckStateType = TOKEN_CHECK_STATE_DEMILITER | TOKEN_CHECK_STATE_CODE

definition put_char :: "char \<Rightarrow> TokenStringType \<Rightarrow> TokenStringType option" where
  "put_char c buffer =
    map_option (\<lambda>str. buffer\<lparr>ts_str := str, ts_len := ts_len buffer + 1\<rparr>)
      (update_at (ts_str buffer) (unat (ts_len buffer)) c)"

text \<open>The loop over the characters that are left.\<close>

fun split_loop ::
  "char option \<Rightarrow> string \<Rightarrow> TokenCheckStateType \<Rightarrow> TokenStringType \<Rightarrow> TokenContainerType
    \<Rightarrow> (Std_ReturnType \<times> TokenContainerType) option" where
  "split_loop ex_c [] state buffer tc = Some (STD_E_OK, tc)"
| "split_loop ex_c (c # cs) TOKEN_CHECK_STATE_DEMILITER buffer tc =
    (if is_delimiter c ex_c then split_loop ex_c cs TOKEN_CHECK_STATE_DEMILITER buffer tc
     else if unat (tc_num tc) > TOKEN_CONTAINER_MAX_SIZE then Some (STD_E_INVALID, tc)
     else let tc1 = tc\<lparr>tc_num := tc_num tc + 1\<rparr>
          in case put_char c buffer of
               None \<Rightarrow> None
             | Some buffer1 \<Rightarrow>
                 if cs = []
                 then map_option (\<lambda>(tc2, _). (STD_E_OK, tc2)) (set_token tc1 buffer1)
                 else split_loop ex_c cs TOKEN_CHECK_STATE_CODE buffer1 tc1)"
| "split_loop ex_c (c # cs) TOKEN_CHECK_STATE_CODE buffer tc =
    (if is_delimiter c ex_c
     then case set_token tc buffer of
            None \<Rightarrow> None
          | Some (tc1, buffer1) \<Rightarrow> split_loop ex_c cs TOKEN_CHECK_STATE_DEMILITER (buffer1\<lparr>ts_len := 0\<rparr>) tc1
     else if unat (ts_len buffer) \<ge> TOKEN_STRING_MAX_SIZE - 1 then Some (STD_E_INVALID, tc)
     else case put_char c buffer of
            None \<Rightarrow> None
          | Some buffer1 \<Rightarrow>
              if cs = []
              then map_option (\<lambda>(tc1, _). (STD_E_OK, tc1)) (set_token tc buffer1)
              else split_loop ex_c cs TOKEN_CHECK_STATE_CODE buffer1 tc)"

definition token_split_common ::
  "string \<Rightarrow> char option \<Rightarrow> TokenContainerType \<Rightarrow> string \<Rightarrow> (Std_ReturnType \<times> TokenContainerType) option" where
  "token_split_common buf ex_c tc str =
    split_loop ex_c str TOKEN_CHECK_STATE_DEMILITER \<lparr>ts_len = 0, ts_str = buf\<rparr> (tc\<lparr>tc_num := 0\<rparr>)"

definition token_split ::
  "string \<Rightarrow> TokenContainerType \<Rightarrow> string \<Rightarrow> (Std_ReturnType \<times> TokenContainerType) option" where
  "token_split buf tc str = token_split_common buf None tc str"

definition token_split_with_delimiter ::
  "string \<Rightarrow> TokenContainerType \<Rightarrow> string \<Rightarrow> char \<Rightarrow> (Std_ReturnType \<times> TokenContainerType) option" where
  "token_split_with_delimiter buf tc str delimiter = token_split_common buf (Some delimiter) tc str"

section \<open>Merging and trimming\<close>

definition token_merge :: "TokenStringType \<Rightarrow> TokenStringType \<Rightarrow> (bool \<times> TokenStringType) option" where
  "token_merge dest src =
    (if unat (ts_len dest + ts_len src) > TOKEN_STRING_MAX_SIZE - 1 then Some (False, dest)
     else do {
       bytes \<leftarrow> buf_read 0 (unat (ts_len src)) (ts_str src);
       str \<leftarrow> buf_write (unat (ts_len dest)) bytes (ts_str dest);
       let len = ts_len dest + ts_len src;
       str' \<leftarrow> update_at str (unat len) NUL;
       Some (True, \<lparr>ts_len = len, ts_str = str'\<rparr>)
     })"

text \<open>The text of a token with a blank, as \<open>sprintf\<close> writes it.\<close>

definition token_text :: "TokenValueType \<Rightarrow> string option" where
  "token_text tv =
    (case tv_type tv of
       TOKEN_TYPE_STRING \<Rightarrow> Some (c_string (ts_str (tv_body tv)) @ '' '')
     | TOKEN_TYPE_VALUE_DEC \<Rightarrow>
         Some ((if sint (tv_value tv) < 0 then CHR ''-'' # digits_of 10 (nat (- sint (tv_value tv)))
                else digits_of 10 (unat (tv_value tv))) @ '' '')
     | TOKEN_TYPE_VALUE_HEX \<Rightarrow> Some (''0x'' @ digits_of 16 (unat (tv_value tv)) @ '' '')
     | TOKEN_TYPE_UNKNOWN \<Rightarrow> None)"

text \<open>The loop over the tokens; \<open>tmp\<close> is what the scratch string holds.\<close>

fun merge_loop :: "string \<Rightarrow> TokenValueType list \<Rightarrow> TokenStringType \<Rightarrow> TokenStringType option" where
  "merge_loop tmp [] out = Some out"
| "merge_loop tmp (tv # tvs) out =
    (case token_text tv of
       None \<Rightarrow> merge_loop tmp tvs out
     | Some text \<Rightarrow>
        (case buf_write 0 (text @ [NUL]) tmp of
           None \<Rightarrow> None
         | Some tmp' \<Rightarrow>
            (case token_merge out \<lparr>ts_len = of_nat (length text), ts_str = tmp'\<rparr> of
               None \<Rightarrow> None
             | Some (_, out') \<Rightarrow> merge_loop tmp' tvs out')))"

definition token_split_merge :: "string \<Rightarrow> TokenContainerType \<Rightarrow> uint8 \<Rightarrow> TokenStringType \<Rightarrow> TokenStringType option" where
  "token_split_merge tmp tc start_index out =
    (if unat (tc_num tc) \<le> length (tc_array tc)
     then merge_loop tmp (drop (unat start_index) (take (unat (tc_num tc)) (tc_array tc))) out else None)"

definition token_trim_newline :: "TokenStringType \<Rightarrow> TokenStringType" where
  "token_trim_newline token =
    token\<lparr>ts_len := of_nat (length (takeWhile (\<lambda>c. c \<noteq> CHR 0x0D \<and> c \<noteq> CHR 0x0A \<and> c \<noteq> CHR '' '')
      (take (unat (ts_len token)) (ts_str token))))\<rparr>"

definition token_string_set :: "TokenStringType \<Rightarrow> string \<Rightarrow> (bool \<times> TokenStringType) option" where
  "token_string_set dest src =
    (if length src > TOKEN_STRING_MAX_SIZE then Some (False, dest)
     else map_option (\<lambda>str. (True, \<lparr>ts_len = of_nat (length src), ts_str = str\<rparr>)) (buf_write 0 (src @ [NUL]) (ts_str dest)))"

section \<open>Constants and tokens\<close>

text \<open>A string constant as a token string.\<close>

definition token_const :: "string \<Rightarrow> TokenStringType" where
  "token_const s = \<lparr>ts_len = of_nat (length s), ts_str = s @ replicate (TOKEN_STRING_MAX_SIZE - length s) NUL\<rparr>"

text \<open>The tokens of a container.\<close>

definition tok :: "TokenContainerType \<Rightarrow> nat \<Rightarrow> TokenValueType" where
  "tok tc i = tc_array tc ! i"

abbreviation tok_type :: "TokenContainerType \<Rightarrow> nat \<Rightarrow> TokenEnumType" where "tok_type tc i \<equiv> tv_type (tok tc i)"
abbreviation tok_str :: "TokenContainerType \<Rightarrow> nat \<Rightarrow> TokenStringType" where "tok_str tc i \<equiv> tv_body (tok tc i)"
abbreviation tok_value :: "TokenContainerType \<Rightarrow> nat \<Rightarrow> uint32" where "tok_value tc i \<equiv> tv_value (tok tc i)"

end
