(* ===== verification/DbgParser.thy ===== *)
theory DbgParser
  imports Token
begin

text \<open>
  The command parsers of the debugger:
  src/src/debugger/interaction/front/parser/concrete_parser/dbg_std_parser.c and dbg_std_parser.h,
  dbg_parser.c, dbg_parser_config.c, dbg_executor.h and dbg_interaction_std_ids.h.
  \<^item> A parser returns the command it fills in, or \<open>None\<close> for \<open>NULL\<close>. The
    arguments are one structure per command in the same zeroed buffer, which is the datatype
    \<open>parsed_args\<close>; fields that a parser does not set are zero. What a parser writes before
    it gives up is not kept: no later parser accepts a line whose arguments were written to, apart
    from \<open>bt_way\<close>, whose bytes \<open>dbg_parse_data_access_info\<close> overwrites.
  \<^item> The function that runs the command is its name in \<open>run\<close>.
  \<^item> The token container is a local variable that is not initialised; what it holds, and what the
    local buffers of the token functions hold, is in \<open>parse_env\<close>, with the number of cores
    of the target.
\<close>

section \<open>Commands\<close>

datatype DbgCmdStdIdType =
    DBG_CMD_STD_ID_PARSE_ERROR | DBG_CMD_STD_ID_BREAK | DBG_CMD_STD_ID_DELETE | DBG_CMD_STD_ID_CONT
  | DBG_CMD_STD_ID_CORE | DBG_CMD_STD_ID_INTR | DBG_CMD_STD_ID_DATA_WATCH | DBG_CMD_STD_ID_ELAPS
  | DBG_CMD_STD_ID_NEXT | DBG_CMD_STD_ID_RETURN | DBG_CMD_STD_ID_VIEW | DBG_CMD_STD_ID_PRINT
  | DBG_CMD_STD_ID_MEMSET | DBG_CMD_STD_ID_QUIT | DBG_CMD_STD_ID_EXIT | DBG_CMD_STD_ID_SERIALIN
  | DBG_CMD_STD_ID_INFO_CPU | DBG_CMD_STD_ID_FUNC_TRACE | DBG_CMD_STD_ID_DATA_ACCESS_INFO
  | DBG_CMD_STD_ID_BACK_TRACE | DBG_CMD_STD_ID_PROFILE | DBG_CMD_STD_ID_LIST | DBG_CMD_STD_ID_HELP

datatype run =
    Run_parse_error | Run_break | Run_delete | Run_cont | Run_core | Run_watch_data | Run_intr | Run_next | Run_return
  | Run_quit | Run_exit | Run_elaps | Run_view | Run_print | Run_memset | Run_serialin | Run_info_cpu | Run_func_trace
  | Run_data_access_info | Run_back_trace | Run_profile | Run_list | Run_help

datatype DbgCmdBreakType = DBG_CMD_BBREAK_SET | DBG_CMD_BBREAK_SET_SYMBOL | DBG_CMD_BREAK_SET_FILE_LINE | DBG_CMD_BREAK_INFO

record DbgCmdExecutorBreakType =
  br_type :: DbgCmdBreakType
  br_break_addr :: AthrillAddrType
  br_symbol :: TokenStringType
  br_line :: uint32

datatype DbgCmdDeleteType = DBG_CMD_DELETE_ALL | DBG_CMD_DELETE_ONE

record DbgCmdExecutorDeleteType =
  de_type :: DbgCmdDeleteType
  de_delete_break_no :: uint32

datatype DbgCmdContType = DBG_CMD_CONT_ALL | DBG_CMD_CONT_CLOCKS

record DbgCmdExecutorContType =
  co_type :: DbgCmdContType
  co_cont_clocks :: uint32

datatype DbgCmdCoreType = DBG_CMD_CORE_ALL | DBG_CMD_CORE_SINGLE | DBG_CMD_CORE_SHOW

record DbgCmdExecutorCoreType =
  cr_type :: DbgCmdCoreType
  cr_core_id :: CoreIdType
  cr_is_debug_mode :: bool

datatype DbgCmdDPrintType = DBG_CMD_PRINT_SYMBOL | DBG_CMD_PRINT_ADDR | DBG_CMD_PRINT_ADDR_SIZE | DBG_CMD_PRINT_ADDR_TYPE

record DbgCmdExecutorPrintType =
  pr_type :: DbgCmdDPrintType
  pr_symbol :: TokenStringType
  pr_addr :: AthrillAddrType
  pr_size :: uint32
  pr_dataType :: TokenStringType
  pr_dataTypeName :: TokenStringType

record DbgCmdExecutorMemsetType =
  me_addr :: AthrillAddrType
  me_value :: uint8

record DbgCmdExecutorSerialInType =
  se_channel :: uint32
  se_input :: TokenStringType

record DbgCmdExecutorInfoCpuType =
  ic_type :: DbgCmdCoreType
  ic_core_id :: CoreIdType

record DbgCmdExecutorFuncTraceType =
  ft_bt_number :: uint32
  ft_bt_way :: bool

datatype DbgCmdDWatchDataType =
  DBG_CMD_WATCH_SET | DBG_CMD_WATCH_SET_SYMBOL | DBG_CMD_WATCH_DELETE_ONE | DBG_CMD_WATCH_DELETE_ALL | DBG_CMD_WATCH_INFO

definition DBG_CMD_WATCH_TYPE_READ :: uint8 where "DBG_CMD_WATCH_TYPE_READ = 0x01"
definition DBG_CMD_WATCH_TYPE_WRITE :: uint8 where "DBG_CMD_WATCH_TYPE_WRITE = 0x10"
definition DBG_CMD_WATCH_TYPE_RW :: uint8 where "DBG_CMD_WATCH_TYPE_RW = DBG_CMD_WATCH_TYPE_READ OR DBG_CMD_WATCH_TYPE_WRITE"

record DbgCmdExecutorWatchDataType =
  wd_type :: DbgCmdDWatchDataType
  wd_watch_type :: uint8
  wd_symbol :: TokenStringType
  wd_addr :: AthrillAddrType
  wd_size :: uint32
  wd_delno :: uint32

datatype parsed_args =
    No_args
  | Break_args DbgCmdExecutorBreakType
  | Delete_args DbgCmdExecutorDeleteType
  | Cont_args DbgCmdExecutorContType
  | Core_args DbgCmdExecutorCoreType
  | Watch_args DbgCmdExecutorWatchDataType
  | Intr_args uint32
  | Print_args DbgCmdExecutorPrintType
  | Memset_args DbgCmdExecutorMemsetType
  | Serial_args DbgCmdExecutorSerialInType
  | Info_cpu_args DbgCmdExecutorInfoCpuType
  | Func_trace_args DbgCmdExecutorFuncTraceType
  | Data_access_args TokenStringType
  | Help_args

record DbgCmdExecutorType =
  ex_std_id :: DbgCmdStdIdType
  ex_original_str :: string
  ex_parsed_args :: parsed_args
  ex_run :: run
  ex_result_ok :: bool

record parse_env =
  pe_tokens :: TokenContainerType
  pe_buffer :: string
  pe_tmp :: string
  pe_core_id_num :: uint32

definition zero_string :: TokenStringType where
  "zero_string = \<lparr>ts_len = 0, ts_str = replicate TOKEN_STRING_MAX_SIZE NUL\<rparr>"

definition accept :: "DbgCmdStdIdType \<Rightarrow> run \<Rightarrow> parsed_args \<Rightarrow> DbgCmdExecutorType \<Rightarrow> DbgCmdExecutorType option" where
  "accept std_id run args arg = Some (arg\<lparr>ex_std_id := std_id, ex_run := run, ex_parsed_args := args\<rparr>)"

section \<open>Command names\<close>

named_theorems command_names \<open>definitions of the command names\<close>

definition break_string :: TokenStringType where [command_names]: "break_string = token_const ''break''"
definition break_string_short :: TokenStringType where [command_names]: "break_string_short = token_const ''b''"
definition break_info_string :: TokenStringType where [command_names]: "break_info_string = token_const ''info''"
definition watch_string :: TokenStringType where [command_names]: "watch_string = token_const ''watch''"
definition watch_string_short :: TokenStringType where [command_names]: "watch_string_short = token_const ''w''"
definition watch_info_string :: TokenStringType where [command_names]: "watch_info_string = token_const ''info''"
definition watch_option_string_readset :: TokenStringType where [command_names]: "watch_option_string_readset = token_const ''r''"
definition watch_option_string_writeset :: TokenStringType where [command_names]: "watch_option_string_writeset = token_const ''w''"
definition watch_option_string_rwset :: TokenStringType where [command_names]: "watch_option_string_rwset = token_const ''rw''"
definition watch_option_string_delete :: TokenStringType where [command_names]: "watch_option_string_delete = token_const ''d''"
definition delete_string :: TokenStringType where [command_names]: "delete_string = token_const ''delete''"
definition delete_string_short :: TokenStringType where [command_names]: "delete_string_short = token_const ''d''"
definition cont_string :: TokenStringType where [command_names]: "cont_string = token_const ''cont''"
definition cont_string_short :: TokenStringType where [command_names]: "cont_string_short = token_const ''c''"
definition core_string :: TokenStringType where [command_names]: "core_string = token_const ''core''"
definition cpu_all :: TokenStringType where [command_names]: "cpu_all = token_const ''all''"
definition dbg_mode_true :: TokenStringType where [command_names]: "dbg_mode_true = token_const ''t''"
definition intr_string :: TokenStringType where [command_names]: "intr_string = token_const ''intr''"
definition intr_string_short :: TokenStringType where [command_names]: "intr_string_short = token_const ''i''"
definition elaps_string :: TokenStringType where [command_names]: "elaps_string = token_const ''elaps''"
definition elaps_string_short :: TokenStringType where [command_names]: "elaps_string_short = token_const ''e''"
definition next_string :: TokenStringType where [command_names]: "next_string = token_const ''next''"
definition next_string_short :: TokenStringType where [command_names]: "next_string_short = token_const ''n''"
definition return_string :: TokenStringType where [command_names]: "return_string = token_const ''return''"
definition return_string_short :: TokenStringType where [command_names]: "return_string_short = token_const ''r''"
definition view_string :: TokenStringType where [command_names]: "view_string = token_const ''view''"
definition view_string_short :: TokenStringType where [command_names]: "view_string_short = token_const ''v''"
definition print_string :: TokenStringType where [command_names]: "print_string = token_const ''print''"
definition print_string_short :: TokenStringType where [command_names]: "print_string_short = token_const ''p''"
definition memset_string :: TokenStringType where [command_names]: "memset_string = token_const ''set''"
definition memset_string_short :: TokenStringType where [command_names]: "memset_string_short = token_const ''s''"
definition quit_string :: TokenStringType where [command_names]: "quit_string = token_const ''quit''"
definition quit_string_short :: TokenStringType where [command_names]: "quit_string_short = token_const ''q''"
definition list_string :: TokenStringType where [command_names]: "list_string = token_const ''list''"
definition list_string_short :: TokenStringType where [command_names]: "list_string_short = token_const ''l''"
definition exit_string :: TokenStringType where [command_names]: "exit_string = token_const ''exit''"
definition serial_string :: TokenStringType where [command_names]: "serial_string = token_const ''serial''"
definition serial_string_short :: TokenStringType where [command_names]: "serial_string_short = token_const ''S''"
definition info_cpu_string :: TokenStringType where [command_names]: "info_cpu_string = token_const ''cpu''"
definition func_trace_string :: TokenStringType where [command_names]: "func_trace_string = token_const ''ft''"
definition data_access_info_string :: TokenStringType where [command_names]: "data_access_info_string = token_const ''access''"
definition back_trace_string :: TokenStringType where [command_names]: "back_trace_string = token_const ''bt''"
definition prof_string :: TokenStringType where [command_names]: "prof_string = token_const ''prof''"
definition help_string :: TokenStringType where [command_names]: "help_string = token_const ''help''"

text \<open>Whether token \<open>i\<close> compares equal to a name, whatever its type is.\<close>

abbreviation tok_is :: "TokenContainerType \<Rightarrow> nat \<Rightarrow> TokenStringType \<Rightarrow> bool" where
  "tok_is tc i s \<equiv> token_strcmp (tok_str tc i) s"

section \<open>Parsers\<close>

definition dbg_parse_break :: "DbgCmdExecutorType \<Rightarrow> TokenContainerType \<Rightarrow> DbgCmdExecutorType option" where
  "dbg_parse_break arg tc =
    (let set = (\<lambda>type addr symbol line. accept DBG_CMD_STD_ID_BREAK Run_break
           (Break_args \<lparr>br_type = type, br_break_addr = addr, br_symbol = symbol, br_line = line\<rparr>) arg)
     in if tc_num tc \<noteq> 2 \<and> tc_num tc \<noteq> 3 then None
        else if tok_type tc 0 \<noteq> TOKEN_TYPE_STRING then None
        else if tok_is tc 0 break_string \<or> tok_is tc 0 break_string_short
        then (if tok_type tc 1 = TOKEN_TYPE_VALUE_HEX then set DBG_CMD_BBREAK_SET (tok_value tc 1) zero_string 0
              else if tok_type tc 1 = TOKEN_TYPE_STRING
              then (if tc_num tc = 2 then set DBG_CMD_BBREAK_SET_SYMBOL 0 (tok_str tc 1) 0
                    else if tc_num tc = 3 \<and> tok_type tc 2 = TOKEN_TYPE_VALUE_DEC
                    then set DBG_CMD_BREAK_SET_FILE_LINE 0 (tok_str tc 1) (tok_value tc 2)
                    else None)
              else None)
        else if tok_is tc 0 break_info_string
        then (if tok_is tc 1 break_string then set DBG_CMD_BREAK_INFO 0 zero_string 0 else None)
        else None)"

definition dbg_parse_watch_data :: "DbgCmdExecutorType \<Rightarrow> TokenContainerType \<Rightarrow> DbgCmdExecutorType option" where
  "dbg_parse_watch_data arg tc =
    (let set = (\<lambda>type wt symbol addr sz delno. accept DBG_CMD_STD_ID_DATA_WATCH Run_watch_data
           (Watch_args \<lparr>wd_type = type, wd_watch_type = wt, wd_symbol = symbol, wd_addr = addr, wd_size = sz, wd_delno = delno\<rparr>) arg)
     in if tc_num tc < 2 then None
        else if tok_type tc 0 \<noteq> TOKEN_TYPE_STRING then None
        else if tok_type tc 1 \<noteq> TOKEN_TYPE_STRING then None
        else if tok_is tc 0 watch_string \<or> tok_is tc 0 watch_string_short
        then (if tok_is tc 1 watch_option_string_delete \<and> tc_num tc = 2
              then set DBG_CMD_WATCH_DELETE_ALL 0 zero_string 0 0 0
              else if tok_is tc 1 watch_option_string_delete \<and> tc_num tc = 3 \<and> tok_type tc 2 = TOKEN_TYPE_VALUE_DEC
              then set DBG_CMD_WATCH_DELETE_ONE 0 zero_string 0 0 (tok_value tc 2)
              else case (if tok_is tc 1 watch_option_string_readset then Some DBG_CMD_WATCH_TYPE_READ
                         else if tok_is tc 1 watch_option_string_writeset then Some DBG_CMD_WATCH_TYPE_WRITE
                         else if tok_is tc 1 watch_option_string_rwset then Some DBG_CMD_WATCH_TYPE_RW
                         else None) of
                None \<Rightarrow> None
              | Some wt \<Rightarrow>
                  if tc_num tc = 3 \<and> tok_type tc 2 = TOKEN_TYPE_STRING
                  then set DBG_CMD_WATCH_SET_SYMBOL wt (tok_str tc 2) 0 0 0
                  else if tc_num tc = 4 \<and> tok_type tc 2 = TOKEN_TYPE_VALUE_HEX \<and> tok_type tc 3 = TOKEN_TYPE_VALUE_DEC
                  then set DBG_CMD_WATCH_SET wt zero_string (tok_value tc 2) (tok_value tc 3) 0
                  else None)
        else if tok_is tc 0 watch_info_string
        then (if tok_is tc 1 watch_string then set DBG_CMD_WATCH_INFO 0 zero_string 0 0 0 else None)
        else None)"

definition dbg_parse_delete :: "DbgCmdExecutorType \<Rightarrow> TokenContainerType \<Rightarrow> DbgCmdExecutorType option" where
  "dbg_parse_delete arg tc =
    (let set = (\<lambda>type no. accept DBG_CMD_STD_ID_DELETE Run_delete (Delete_args \<lparr>de_type = type, de_delete_break_no = no\<rparr>) arg)
     in if tc_num tc > 2 then None
        else if tok_type tc 0 \<noteq> TOKEN_TYPE_STRING then None
        else if tok_is tc 0 delete_string \<or> tok_is tc 0 delete_string_short
        then (if tc_num tc = 1 then set DBG_CMD_DELETE_ALL 0
              else if tc_num tc = 2 \<and> tok_type tc 1 = TOKEN_TYPE_VALUE_DEC then set DBG_CMD_DELETE_ONE (tok_value tc 1)
              else None)
        else None)"

definition dbg_parse_cont :: "DbgCmdExecutorType \<Rightarrow> TokenContainerType \<Rightarrow> DbgCmdExecutorType option" where
  "dbg_parse_cont arg tc =
    (if tc_num tc > 2 then None
     else if tok_type tc 0 \<noteq> TOKEN_TYPE_STRING then None
     else if tc_num tc = 2 \<and> tok_type tc 1 \<noteq> TOKEN_TYPE_VALUE_DEC then None
     else if tok_is tc 0 cont_string \<or> tok_is tc 0 cont_string_short
     then accept DBG_CMD_STD_ID_CONT Run_cont
            (Cont_args (if tc_num tc = 1 then \<lparr>co_type = DBG_CMD_CONT_ALL, co_cont_clocks = 0\<rparr>
                        else \<lparr>co_type = DBG_CMD_CONT_CLOCKS, co_cont_clocks = tok_value tc 1\<rparr>)) arg
     else None)"

definition dbg_parse_core :: "uint32 \<Rightarrow> DbgCmdExecutorType \<Rightarrow> TokenContainerType \<Rightarrow> DbgCmdExecutorType option" where
  "dbg_parse_core core_id_num arg tc =
    (let set = (\<lambda>type core_id mode. accept DBG_CMD_STD_ID_CORE Run_core
           (Core_args \<lparr>cr_type = type, cr_core_id = core_id, cr_is_debug_mode = mode\<rparr>) arg)
     in if tc_num tc \<noteq> 1 \<and> tc_num tc \<noteq> 3 then None
        else if tok_type tc 0 \<noteq> TOKEN_TYPE_STRING then None
        else if tc_num tc = 3 \<and>
          (if tok_type tc 1 = TOKEN_TYPE_STRING then \<not> tok_is tc 1 cpu_all
           else tok_type tc 1 \<noteq> TOKEN_TYPE_VALUE_DEC \<or> tok_value tc 1 \<ge> core_id_num) then None
        else if tc_num tc = 3 \<and> tok_type tc 2 \<noteq> TOKEN_TYPE_STRING then None
        else if tok_is tc 0 core_string
        then (if tc_num tc = 3
              then (if tok_type tc 1 = TOKEN_TYPE_STRING
                    then (if \<not> tok_is tc 2 dbg_mode_true then None else set DBG_CMD_CORE_ALL 0 True)
                    else set DBG_CMD_CORE_SINGLE (tok_value tc 1) (tok_is tc 2 dbg_mode_true))
              else set DBG_CMD_CORE_SHOW 0 False)
        else None)"

definition dbg_parse_intr :: "DbgCmdExecutorType \<Rightarrow> TokenContainerType \<Rightarrow> DbgCmdExecutorType option" where
  "dbg_parse_intr arg tc =
    (if tc_num tc \<noteq> 2 then None
     else if tok_type tc 0 \<noteq> TOKEN_TYPE_STRING then None
     else if tok_type tc 1 \<noteq> TOKEN_TYPE_VALUE_DEC then None
     else if tok_is tc 0 intr_string \<or> tok_is tc 0 intr_string_short
     then accept DBG_CMD_STD_ID_INTR Run_intr (Intr_args (tok_value tc 1)) arg
     else None)"

text \<open>The common shape of the parsers of commands without arguments.\<close>

definition parse_word ::
  "TokenStringType list \<Rightarrow> DbgCmdStdIdType \<Rightarrow> run \<Rightarrow> parsed_args \<Rightarrow> DbgCmdExecutorType \<Rightarrow> TokenContainerType
    \<Rightarrow> DbgCmdExecutorType option" where
  "parse_word names std_id run args arg tc =
    (if tc_num tc \<noteq> 1 then None
     else if tok_type tc 0 \<noteq> TOKEN_TYPE_STRING then None
     else if list_ex (tok_is tc 0) names then accept std_id run args arg
     else None)"

definition dbg_parse_elaps :: "DbgCmdExecutorType \<Rightarrow> TokenContainerType \<Rightarrow> DbgCmdExecutorType option" where
  "dbg_parse_elaps = parse_word [elaps_string, elaps_string_short] DBG_CMD_STD_ID_ELAPS Run_elaps No_args"

definition dbg_parse_next :: "DbgCmdExecutorType \<Rightarrow> TokenContainerType \<Rightarrow> DbgCmdExecutorType option" where
  "dbg_parse_next = parse_word [next_string, next_string_short] DBG_CMD_STD_ID_NEXT Run_next No_args"

definition dbg_parse_return :: "DbgCmdExecutorType \<Rightarrow> TokenContainerType \<Rightarrow> DbgCmdExecutorType option" where
  "dbg_parse_return = parse_word [return_string, return_string_short] DBG_CMD_STD_ID_RETURN Run_return No_args"

definition dbg_parse_view :: "DbgCmdExecutorType \<Rightarrow> TokenContainerType \<Rightarrow> DbgCmdExecutorType option" where
  "dbg_parse_view = parse_word [view_string, view_string_short] DBG_CMD_STD_ID_VIEW Run_view No_args"

definition dbg_parse_quit :: "DbgCmdExecutorType \<Rightarrow> TokenContainerType \<Rightarrow> DbgCmdExecutorType option" where
  "dbg_parse_quit = parse_word [quit_string, quit_string_short] DBG_CMD_STD_ID_QUIT Run_quit No_args"

definition dbg_parse_list :: "DbgCmdExecutorType \<Rightarrow> TokenContainerType \<Rightarrow> DbgCmdExecutorType option" where
  "dbg_parse_list = parse_word [list_string, list_string_short] DBG_CMD_STD_ID_LIST Run_list No_args"

definition dbg_parse_exit :: "DbgCmdExecutorType \<Rightarrow> TokenContainerType \<Rightarrow> DbgCmdExecutorType option" where
  "dbg_parse_exit = parse_word [exit_string] DBG_CMD_STD_ID_EXIT Run_exit No_args"

definition dbg_parse_back_trace :: "DbgCmdExecutorType \<Rightarrow> TokenContainerType \<Rightarrow> DbgCmdExecutorType option" where
  "dbg_parse_back_trace = parse_word [back_trace_string] DBG_CMD_STD_ID_BACK_TRACE Run_back_trace No_args"

definition dbg_parse_profile :: "DbgCmdExecutorType \<Rightarrow> TokenContainerType \<Rightarrow> DbgCmdExecutorType option" where
  "dbg_parse_profile = parse_word [prof_string] DBG_CMD_STD_ID_PROFILE Run_profile No_args"

definition dbg_parse_help :: "DbgCmdExecutorType \<Rightarrow> TokenContainerType \<Rightarrow> DbgCmdExecutorType option" where
  "dbg_parse_help = parse_word [help_string] DBG_CMD_STD_ID_HELP Run_help Help_args"

definition dbg_parse_print :: "DbgCmdExecutorType \<Rightarrow> TokenContainerType \<Rightarrow> DbgCmdExecutorType option" where
  "dbg_parse_print arg tc =
    (let set = (\<lambda>type symbol addr sz dataType dataTypeName. accept DBG_CMD_STD_ID_PRINT Run_print
           (Print_args \<lparr>pr_type = type, pr_symbol = symbol, pr_addr = addr, pr_size = sz, pr_dataType = dataType,
              pr_dataTypeName = dataTypeName\<rparr>) arg)
     in if tc_num tc \<noteq> 2 \<and> tc_num tc \<noteq> 3 \<and> tc_num tc \<noteq> 4 then None
        else if tok_type tc 0 \<noteq> TOKEN_TYPE_STRING then None
        else if \<not> tok_is tc 0 print_string \<and> \<not> tok_is tc 0 print_string_short then None
        else if tc_num tc = 2
        then (if tok_type tc 1 = TOKEN_TYPE_STRING then set DBG_CMD_PRINT_SYMBOL (tok_str tc 1) 0 0 zero_string zero_string
              else if tok_type tc 1 = TOKEN_TYPE_VALUE_HEX then set DBG_CMD_PRINT_ADDR zero_string (tok_value tc 1) 0 zero_string zero_string
              else None)
        else if tc_num tc = 3
        then (if tok_type tc 1 = TOKEN_TYPE_VALUE_HEX \<and> tok_type tc 2 = TOKEN_TYPE_VALUE_DEC
              then set DBG_CMD_PRINT_ADDR_SIZE zero_string (tok_value tc 1) (tok_value tc 2) zero_string zero_string
              else None)
        else (if tok_type tc 1 = TOKEN_TYPE_VALUE_HEX \<and> tok_type tc 2 = TOKEN_TYPE_STRING \<and> tok_type tc 3 = TOKEN_TYPE_STRING
              then set DBG_CMD_PRINT_ADDR_TYPE zero_string (tok_value tc 1) 0 (tok_str tc 2) (tok_str tc 3)
              else None))"

text \<open>\<open>set\<close> keeps the id that is there.\<close>

definition dbg_parse_memset :: "DbgCmdExecutorType \<Rightarrow> TokenContainerType \<Rightarrow> DbgCmdExecutorType option" where
  "dbg_parse_memset arg tc =
    (if tc_num tc \<noteq> 3 then None
     else if tok_type tc 0 \<noteq> TOKEN_TYPE_STRING then None
     else if \<not> tok_is tc 0 memset_string \<and> \<not> tok_is tc 0 memset_string_short then None
     else if tok_type tc 1 \<noteq> TOKEN_TYPE_VALUE_HEX then None
     else if tok_type tc 2 \<noteq> TOKEN_TYPE_VALUE_DEC then None
     else accept (ex_std_id arg) Run_memset (Memset_args \<lparr>me_addr = tok_value tc 1, me_value = ucast (tok_value tc 2)\<rparr>) arg)"

text \<open>The outer \<open>option\<close> is undefined behaviour, when the text of a token does not fit.\<close>

definition dbg_parse_serialin :: "string \<Rightarrow> DbgCmdExecutorType \<Rightarrow> TokenContainerType \<Rightarrow> DbgCmdExecutorType option option" where
  "dbg_parse_serialin tmp arg tc =
    (if tc_num tc < 3 then Some None
     else if tok_type tc 0 \<noteq> TOKEN_TYPE_STRING then Some None
     else if tok_type tc 1 \<noteq> TOKEN_TYPE_VALUE_DEC then Some None
     else if tok_is tc 0 serial_string \<or> tok_is tc 0 serial_string_short
     then map_option (\<lambda>input. accept DBG_CMD_STD_ID_SERIALIN Run_serialin
            (Serial_args \<lparr>se_channel = tok_value tc 1, se_input = token_trim_newline input\<rparr>) arg)
            (token_split_merge tmp tc 2 zero_string)
     else Some None)"

definition dbg_parse_info_cpu :: "DbgCmdExecutorType \<Rightarrow> TokenContainerType \<Rightarrow> DbgCmdExecutorType option" where
  "dbg_parse_info_cpu arg tc =
    (if tc_num tc \<noteq> 1 \<and> tc_num tc \<noteq> 2 then None
     else if tok_type tc 0 \<noteq> TOKEN_TYPE_STRING then None
     else if tc_num tc = 2 \<and> tok_type tc 1 \<noteq> TOKEN_TYPE_VALUE_DEC then None
     else if tok_is tc 0 info_cpu_string
     then accept DBG_CMD_STD_ID_INFO_CPU Run_info_cpu
            (Info_cpu_args (if tc_num tc = 1 then \<lparr>ic_type = DBG_CMD_CORE_ALL, ic_core_id = 0\<rparr>
                            else \<lparr>ic_type = DBG_CMD_CORE_SINGLE, ic_core_id = tok_value tc 1\<rparr>)) arg
     else None)"

definition dbg_parse_func_trace :: "DbgCmdExecutorType \<Rightarrow> TokenContainerType \<Rightarrow> DbgCmdExecutorType option" where
  "dbg_parse_func_trace arg tc =
    (if tc_num tc \<noteq> 2 \<and> tc_num tc \<noteq> 3 then None
     else if tok_type tc 0 \<noteq> TOKEN_TYPE_STRING then None
     else if tok_type tc 1 \<noteq> TOKEN_TYPE_VALUE_DEC then None
     else if tok_is tc 0 func_trace_string
     then accept DBG_CMD_STD_ID_FUNC_TRACE Run_func_trace
            (Func_trace_args \<lparr>ft_bt_number = tok_value tc 1, ft_bt_way = (tc_num tc = 3)\<rparr>) arg
     else None)"

definition dbg_parse_data_access_info :: "DbgCmdExecutorType \<Rightarrow> TokenContainerType \<Rightarrow> DbgCmdExecutorType option" where
  "dbg_parse_data_access_info arg tc =
    (if tc_num tc \<noteq> 2 then None
     else if tok_type tc 0 \<noteq> TOKEN_TYPE_STRING then None
     else if tok_type tc 1 \<noteq> TOKEN_TYPE_STRING then None
     else if tok_is tc 0 data_access_info_string
     then accept DBG_CMD_STD_ID_DATA_ACCESS_INFO Run_data_access_info (Data_access_args (tok_str tc 1)) arg
     else None)"

section \<open>The command line\<close>

definition dbg_cmd_parser_std_table :: "parse_env \<Rightarrow> (DbgCmdExecutorType \<Rightarrow> TokenContainerType \<Rightarrow> DbgCmdExecutorType option option) list" where
  "dbg_cmd_parser_std_table env =
    (let pure = (\<lambda>parse arg tc. Some (parse arg tc))
     in [pure dbg_parse_break, pure dbg_parse_delete, pure dbg_parse_intr, pure dbg_parse_watch_data, pure dbg_parse_cont,
         pure (dbg_parse_core (pe_core_id_num env)), pure dbg_parse_elaps, pure dbg_parse_next, pure dbg_parse_return,
         pure dbg_parse_view, pure dbg_parse_print, pure dbg_parse_memset, pure dbg_parse_quit, pure dbg_parse_exit,
         dbg_parse_serialin (pe_tmp env), pure dbg_parse_info_cpu, pure dbg_parse_func_trace, pure dbg_parse_data_access_info,
         pure dbg_parse_back_trace, pure dbg_parse_profile, pure dbg_parse_list, pure dbg_parse_help])"

text \<open>The loop over the table.\<close>

fun parse_first ::
  "(DbgCmdExecutorType \<Rightarrow> TokenContainerType \<Rightarrow> DbgCmdExecutorType option option) list \<Rightarrow> DbgCmdExecutorType
    \<Rightarrow> TokenContainerType \<Rightarrow> DbgCmdExecutorType option option" where
  "parse_first [] arg tc = Some None"
| "parse_first (parse # table) arg tc =
    (case parse arg tc of
       None \<Rightarrow> None
     | Some None \<Rightarrow> parse_first table arg tc
     | Some (Some res) \<Rightarrow> Some (Some res))"

definition can_execute :: "bool \<Rightarrow> DbgCmdExecutorType \<Rightarrow> bool" where
  "can_execute debug_mode res =
    (if debug_mode then ex_std_id res \<noteq> DBG_CMD_STD_ID_QUIT else ex_std_id res = DBG_CMD_STD_ID_QUIT)"

text \<open>
  The variables of the parser: \<open>parse_command\<close>, and \<open>last_command\<close>, which is either
  \<open>NULL\<close> or points to \<open>parse_command\<close>.
\<close>

record parser_state =
  ps_parse_command :: DbgCmdExecutorType
  ps_last_command :: bool

definition DBG_CMD_BUFFER_SIZE :: nat where "DBG_CMD_BUFFER_SIZE = 4096 * 256"

text \<open>The result is whether a command is returned, which then is \<open>ps_parse_command\<close>.\<close>

definition dbg_parse :: "parse_env \<Rightarrow> bool \<Rightarrow> string \<Rightarrow> parser_state \<Rightarrow> (bool \<times> parser_state) option" where
  "dbg_parse env debug_mode str st =
    (if str = [] \<and> ps_last_command st then Some (True, st)
     else if length str \<ge> DBG_CMD_BUFFER_SIZE then None
     else do {
       let arg = (ps_parse_command st)\<lparr>ex_original_str := str, ex_std_id := DBG_CMD_STD_ID_PARSE_ERROR,
                   ex_run := Run_parse_error, ex_parsed_args := No_args\<rparr>;
       (err, tc) \<leftarrow> token_split (pe_buffer env) (pe_tokens env) str;
       if err \<noteq> STD_E_OK then Some (True, \<lparr>ps_parse_command = arg, ps_last_command = False\<rparr>)
       else do {
         res \<leftarrow> parse_first (dbg_cmd_parser_std_table env) arg tc;
         case res of
           None \<Rightarrow> Some (True, \<lparr>ps_parse_command = arg, ps_last_command = False\<rparr>)
         | Some cmd \<Rightarrow>
             if \<not> can_execute debug_mode cmd then Some (False, st\<lparr>ps_parse_command := cmd\<rparr>)
             else Some (True, \<lparr>ps_parse_command = cmd, ps_last_command = True\<rparr>)
       }
     })"

end
