(* ===== verification/DbgExecutor.thy ===== *)
theory DbgExecutor
  imports DbgParser CpuControl Bus
begin

text \<open>
  The commands of the debugger, src/src/debugger/executor/concrete_executor/dbg_std_executor.c, and
  the loop that reads and runs them, \<open>do_cui\<close> of src/src/main/main.cpp.
  \<^item> The state has the control of the CPU, the bus, the rest of the machine (\<open>'t\<close>, what
    interrupts and the serial line act on), the modes of the log, the calls to the CPU thread, the
    replies to a remote front end (\<open>CUI_PRINTF\<close>), and whether the program has ended.
  \<^item> Parameters stand for the target (return address, interrupts, serial input), for the debug
    information (linkage names and line addresses), and for what the CPU thread does while a
    command waits for it to stop.
  \<^item> A command returns whether it set \<open>result_ok\<close>; \<open>None\<close> is undefined behaviour or a
    failed \<open>ASSERT\<close>.
  \<^item> The commands elaps, print, access, bt, prof, list and help, which print records and variables,
    are not modelled; what they do is the parameter \<open>dn_show\<close>. Of \<open>ft\<close> the rows are modelled.
\<close>

section \<open>State\<close>

datatype thr_call = Wakeup_cpu | Wakeup_cpu_and_wait | Waitfor_stopped

type_synonym ('d, 't) cpu_machine = "'d bus_state \<times> cpuctrl_state \<times> 't"

record ('d, 't) dbg_state =
  dx_ctl :: cpuctrl_state
  dx_bus :: "'d bus_state"
  dx_target :: 't
  dx_view_mode :: bool
  dx_print_mode :: bool
  dx_thr_calls :: "thr_call list"
  dx_replies :: "string list"
  dx_exited :: bool

record ('d, 't) dbg_env =
  dn_mpu :: "'d mpu_env"
  dn_core_id_num :: nat
  dn_linkagename :: "string \<Rightarrow> string \<Rightarrow> string option"
  dn_file_addr :: "string \<Rightarrow> uint32 \<Rightarrow> AthrillAddrType option"
  dn_retaddr :: "CoreIdType \<Rightarrow> 't \<Rightarrow> uint32"
  dn_raise_intr :: "uint32 \<Rightarrow> 't \<Rightarrow> 't"
  dn_serial_in :: "uint8 \<Rightarrow> char \<Rightarrow> 't \<Rightarrow> Std_ReturnType \<times> 't"
  dn_stopped :: "('d, 't) cpu_machine \<Rightarrow> ('d, 't) cpu_machine"
  dn_show :: "run \<Rightarrow> parsed_args \<Rightarrow> cpuctrl_state \<times> 'd bus_state \<Rightarrow> (string list \<times> cpuctrl_state \<times> 'd bus_state) option"

definition reply :: "string \<Rightarrow> ('d, 't) dbg_state \<Rightarrow> ('d, 't) dbg_state" where
  "reply s st = st\<lparr>dx_replies := dx_replies st @ [s]\<rparr>"

definition thr_control :: "thr_call \<Rightarrow> ('d, 't) dbg_env \<Rightarrow> ('d, 't) dbg_state \<Rightarrow> ('d, 't) dbg_state" where
  "thr_control call env st =
    (let st1 = st\<lparr>dx_thr_calls := dx_thr_calls st @ [call]\<rparr>
     in if call = Wakeup_cpu then st1
        else case dn_stopped env (dx_bus st1, dx_ctl st1, dx_target st1) of
               (bus, ctl, t) \<Rightarrow> st1\<lparr>dx_bus := bus, dx_ctl := ctl, dx_target := t\<rparr>)"

section \<open>Break and watch points\<close>

definition dbg_std_executor_parse_error :: "('d, 't) dbg_state \<Rightarrow> ('d, 't) dbg_state" where
  "dbg_std_executor_parse_error st = reply ''NG'' st"

definition get_class_method :: "('d, 't) dbg_env \<Rightarrow> string \<Rightarrow> string option" where
  "get_class_method env symbol =
    (case words_of (\<lambda>c. c = CHR ''.'') symbol of
       classname # methodname # _ \<Rightarrow> dn_linkagename env classname methodname
     | _ \<Rightarrow> None)"

definition set_break_reply :: "AthrillAddrType \<Rightarrow> ('d, 't) dbg_state \<Rightarrow> bool \<times> ('d, 't) dbg_state" where
  "set_break_reply addr st =
    (case cpuctrl_set_break addr BREAK_POINT_TYPE_FOREVER (dx_ctl st) of
       (ok, ctl) \<Rightarrow> (ok, reply (if ok then ''OK'' else ''NG'') (st\<lparr>dx_ctl := ctl\<rparr>)))"

text \<open>\<open>info break\<close> looks the function of every break point up.\<close>

fun info_break_loop :: "nat list \<Rightarrow> cpuctrl_state \<Rightarrow> cpuctrl_state" where
  "info_break_loop [] ctl = ctl"
| "info_break_loop (i # is) ctl =
    (case cpuctrl_get_break (of_nat i) ctl of
       None \<Rightarrow> info_break_loop is ctl
     | Some addr \<Rightarrow>
        (case symbol_pc2funcid addr (cc_symbols ctl) of
           (_, _, sy) \<Rightarrow> info_break_loop is (ctl\<lparr>cc_symbols := sy\<rparr>)))"

definition dbg_std_executor_break ::
  "('d, 't) dbg_env \<Rightarrow> DbgCmdExecutorBreakType \<Rightarrow> ('d, 't) dbg_state \<Rightarrow> bool \<times> ('d, 't) dbg_state" where
  "dbg_std_executor_break env args st =
    (let name = c_string (ts_str (br_symbol args))
     in case br_type args of
          DBG_CMD_BBREAK_SET_SYMBOL \<Rightarrow>
            (let symbol = (case get_class_method env name of None \<Rightarrow> name | Some linkagename \<Rightarrow> linkagename)
             in case symbol_get_func symbol (length symbol) (cc_symbols (dx_ctl st)) of
                  None \<Rightarrow> (False, reply ''NG'' st)
                | Some (addr, _) \<Rightarrow> set_break_reply addr st)
        | DBG_CMD_BBREAK_SET \<Rightarrow> set_break_reply (br_break_addr args) st
        | DBG_CMD_BREAK_SET_FILE_LINE \<Rightarrow>
            (case dn_file_addr env name (br_line args) of
               None \<Rightarrow> (False, reply ''NG'' st)
             | Some addr \<Rightarrow> set_break_reply addr st)
        | DBG_CMD_BREAK_INFO \<Rightarrow>
            (False, reply ''OK'' (st\<lparr>dx_ctl := info_break_loop [0..<DBG_CPU_CONTROL_BREAK_SETSIZE] (dx_ctl st)\<rparr>)))"

fun info_watch_loop :: "nat list \<Rightarrow> cpuctrl_state \<Rightarrow> cpuctrl_state" where
  "info_watch_loop [] ctl = ctl"
| "info_watch_loop (i # is) ctl =
    (case cpuctrl_get_data_watch_point (of_nat i) ctl of
       None \<Rightarrow> info_watch_loop is ctl
     | Some (addr, _, _) \<Rightarrow>
        (case symbol_addr2glid addr (cc_symbols ctl) of
           (_, _, sy) \<Rightarrow> info_watch_loop is (ctl\<lparr>cc_symbols := sy\<rparr>)))"

definition dbg_std_executor_watch_data_info :: "cpuctrl_state \<Rightarrow> bool \<times> cpuctrl_state" where
  "dbg_std_executor_watch_data_info ctl = (True, info_watch_loop [0..<DBG_CPU_CONTROL_WATCH_DATA_SETSIZE] ctl)"

definition dbg_std_executor_watch_data_delete :: "DbgCmdExecutorWatchDataType \<Rightarrow> cpuctrl_state \<Rightarrow> bool \<times> cpuctrl_state" where
  "dbg_std_executor_watch_data_delete args ctl =
    (case wd_type args of
       DBG_CMD_WATCH_DELETE_ONE \<Rightarrow> cpuctrl_del_data_watch_point (wd_delno args) ctl
     | DBG_CMD_WATCH_DELETE_ALL \<Rightarrow> (True, cpuctrl_del_all_data_watch_points ctl)
     | _ \<Rightarrow> (True, ctl))"

definition watch_point_type :: "uint8 \<Rightarrow> DataWatchPointEumType option" where
  "watch_point_type wt =
    (if wt AND DBG_CMD_WATCH_TYPE_RW = DBG_CMD_WATCH_TYPE_READ then Some DATA_WATCH_POINT_TYPE_READ
     else if wt AND DBG_CMD_WATCH_TYPE_RW = DBG_CMD_WATCH_TYPE_WRITE then Some DATA_WATCH_POINT_TYPE_WRITE
     else if wt AND DBG_CMD_WATCH_TYPE_RW = DBG_CMD_WATCH_TYPE_RW then Some DATA_WATCH_POINT_TYPE_RW
     else None)"

definition dbg_std_executor_watch_data_set :: "DbgCmdExecutorWatchDataType \<Rightarrow> cpuctrl_state \<Rightarrow> bool \<times> cpuctrl_state" where
  "dbg_std_executor_watch_data_set args ctl =
    (let range = (if wd_type args = DBG_CMD_WATCH_SET_SYMBOL
                  then map_option snd (symbol_get_gl (c_string (ts_str (wd_symbol args))) (unat (ts_len (wd_symbol args))) (cc_symbols ctl))
                  else Some (wd_addr args, wd_size args))
     in case (range, watch_point_type (wd_watch_type args)) of
          (Some (addr, sz), Some type) \<Rightarrow> cpuctrl_set_data_watch type addr sz ctl
        | _ \<Rightarrow> (False, ctl))"

definition dbg_std_executor_watch_data ::
  "DbgCmdExecutorWatchDataType \<Rightarrow> ('d, 't) dbg_state \<Rightarrow> bool \<times> ('d, 't) dbg_state" where
  "dbg_std_executor_watch_data args st =
    (let (result, ctl) =
       (case wd_type args of
          DBG_CMD_WATCH_SET \<Rightarrow> dbg_std_executor_watch_data_set args (dx_ctl st)
        | DBG_CMD_WATCH_SET_SYMBOL \<Rightarrow> dbg_std_executor_watch_data_set args (dx_ctl st)
        | DBG_CMD_WATCH_DELETE_ALL \<Rightarrow> dbg_std_executor_watch_data_delete args (dx_ctl st)
        | DBG_CMD_WATCH_DELETE_ONE \<Rightarrow> dbg_std_executor_watch_data_delete args (dx_ctl st)
        | DBG_CMD_WATCH_INFO \<Rightarrow> dbg_std_executor_watch_data_info (dx_ctl st))
     in (result, reply (if result then ''OK'' else ''NG'') (st\<lparr>dx_ctl := ctl\<rparr>)))"

definition dbg_std_executor_delete ::
  "DbgCmdExecutorDeleteType \<Rightarrow> ('d, 't) dbg_state \<Rightarrow> (bool \<times> ('d, 't) dbg_state) option" where
  "dbg_std_executor_delete args st =
    (case de_type args of
       DBG_CMD_DELETE_ONE \<Rightarrow>
         map_option (\<lambda>(ok, ctl). (ok, reply (if ok then ''OK'' else ''NG'') (st\<lparr>dx_ctl := ctl\<rparr>)))
           (cpuctrl_del_break (de_delete_break_no args) (dx_ctl st))
     | DBG_CMD_DELETE_ALL \<Rightarrow>
         map_option (\<lambda>ctl. (True, reply ''OK'' (st\<lparr>dx_ctl := ctl\<rparr>)))
           (cpuctrl_del_all_break BREAK_POINT_TYPE_FOREVER (dx_ctl st)))"

section \<open>Running the CPU\<close>

definition on_dx_ctl :: "(cpuctrl_state \<Rightarrow> cpuctrl_state) \<Rightarrow> ('d, 't) dbg_state \<Rightarrow> ('d, 't) dbg_state" where
  "on_dx_ctl f st = st\<lparr>dx_ctl := f (dx_ctl st)\<rparr>"

definition set_cont_clocks :: "bool \<Rightarrow> uint64 \<Rightarrow> ('d, 't) dbg_state \<Rightarrow> ('d, 't) dbg_state option" where
  "set_cont_clocks is_timeout clocks st =
    map_option (\<lambda>ctl. st\<lparr>dx_ctl := ctl\<rparr>) (cpuctrl_set_cont_clocks is_timeout clocks (dx_ctl st))"

definition dbg_std_executor_cont ::
  "('d, 't) dbg_env \<Rightarrow> DbgCmdExecutorContType \<Rightarrow> ('d, 't) dbg_state \<Rightarrow> ('d, 't) dbg_state option" where
  "dbg_std_executor_cont env args st = do {
    let st1 = on_dx_ctl (cpuctrl_set_debug_mode False) st;
    st2 \<leftarrow> (if co_type args = DBG_CMD_CONT_ALL
           then map_option (thr_control Wakeup_cpu env) (set_cont_clocks False 0 st1)
           else map_option (thr_control Wakeup_cpu_and_wait env) (set_cont_clocks True (ucast (co_cont_clocks args)) st1));
    Some (reply ''OK'' st2)
  }"

text \<open>\<open>core\<close>: the loop that looks for a core in debug mode.\<close>

fun some_debug_core :: "nat list \<Rightarrow> cpuctrl_state \<Rightarrow> bool option" where
  "some_debug_core [] ctl = Some False"
| "some_debug_core (i # is) ctl =
    (case dbg_cpu_debug_mode_get (of_nat i) ctl of
       None \<Rightarrow> None
     | Some mode \<Rightarrow> if mode then Some True else some_debug_core is ctl)"

text \<open>The loop of \<open>DBG_CMD_CORE_ALL\<close> over the cores that are left.\<close>

fun core_all_loop :: "nat list \<Rightarrow> bool \<Rightarrow> cpuctrl_state \<Rightarrow> cpuctrl_state option" where
  "core_all_loop [] mode ctl = Some ctl"
| "core_all_loop (i # is) mode ctl =
    (case dbg_cpu_debug_mode_set (of_nat i) mode ctl of None \<Rightarrow> None | Some ctl' \<Rightarrow> core_all_loop is mode ctl')"

definition dbg_std_executor_core ::
  "('d, 't) dbg_env \<Rightarrow> DbgCmdExecutorCoreType \<Rightarrow> ('d, 't) dbg_state \<Rightarrow> ('d, 't) dbg_state option" where
  "dbg_std_executor_core env args st =
    (case cr_type args of
       DBG_CMD_CORE_SINGLE \<Rightarrow> do {
         ctl1 \<leftarrow> dbg_cpu_debug_mode_set (cr_core_id args) (cr_is_debug_mode args) (dx_ctl st);
         some_core \<leftarrow> some_debug_core [0..<dn_core_id_num env] ctl1;
         if \<not> some_core
         then do {
           ctl2 \<leftarrow> dbg_cpu_debug_mode_set (cr_core_id args) True ctl1;
           Some (reply ''NG'' (st\<lparr>dx_ctl := ctl2\<rparr>))
         }
         else Some (reply ''OK'' (st\<lparr>dx_ctl := ctl1\<rparr>))
       }
     | DBG_CMD_CORE_ALL \<Rightarrow>
         map_option (\<lambda>ctl. reply ''OK'' (st\<lparr>dx_ctl := ctl\<rparr>)) (core_all_loop [0..<dn_core_id_num env] (cr_is_debug_mode args) (dx_ctl st))
     | DBG_CMD_CORE_SHOW \<Rightarrow> Some (reply ''OK'' st))"

definition dbg_std_executor_intr :: "('d, 't) dbg_env \<Rightarrow> uint32 \<Rightarrow> ('d, 't) dbg_state \<Rightarrow> ('d, 't) dbg_state" where
  "dbg_std_executor_intr env intno st = reply ''OK'' (st\<lparr>dx_target := dn_raise_intr env intno (dx_target st)\<rparr>)"

definition elaps_log :: "elaps_call \<Rightarrow> cpuctrl_state \<Rightarrow> cpuctrl_state" where
  "elaps_log c ctl = ctl\<lparr>cc_elaps_calls := cc_elaps_calls ctl @ [c]\<rparr>"

definition dbg_std_executor_next :: "('d, 't) dbg_env \<Rightarrow> ('d, 't) dbg_state \<Rightarrow> ('d, 't) dbg_state option" where
  "dbg_std_executor_next env st = do {
    let org_view_mode = dx_view_mode st;
    st1 \<leftarrow> set_cont_clocks False 0 st;
    let st2 = on_dx_ctl (elaps_log cpuemu_start_elaps \<circ> cpuctrl_set_debug_mode True) (st1\<lparr>dx_view_mode := True, dx_print_mode := True\<rparr>);
    let st3 = on_dx_ctl (elaps_log cpuemu_end_elaps) (thr_control Wakeup_cpu_and_wait env st2);
    Some (st3\<lparr>dx_print_mode := False, dx_view_mode := org_view_mode\<rparr>)
  }"

definition dbg_std_executor_return :: "('d, 't) dbg_env \<Rightarrow> ('d, 't) dbg_state \<Rightarrow> ('d, 't) dbg_state option" where
  "dbg_std_executor_return env st = do {
    st1 \<leftarrow> set_cont_clocks False 0 st;
    core_id \<leftarrow> cpuctrl_get_current_debugged_core (dx_ctl st1);
    let retaddr = dn_retaddr env core_id (dx_target st1);
    let ctl = snd (cpuctrl_set_break retaddr BREAK_POINT_TYPE_ONLY_ONCE (dx_ctl st1));
    Some (thr_control Wakeup_cpu env (st1\<lparr>dx_ctl := cpuctrl_set_debug_mode False ctl\<rparr>))
  }"

definition dbg_std_executor_quit :: "('d, 't) dbg_env \<Rightarrow> ('d, 't) dbg_state \<Rightarrow> ('d, 't) dbg_state" where
  "dbg_std_executor_quit env st =
    on_dx_ctl (cpuctrl_set_debug_mode True) (thr_control Waitfor_stopped env (on_dx_ctl cpuctrl_set_force_debug_mode st))"

definition dbg_std_executor_exit :: "('d, 't) dbg_env \<Rightarrow> ('d, 't) dbg_state \<Rightarrow> ('d, 't) dbg_state" where
  "dbg_std_executor_exit env st =
    (reply ''OK'' (thr_control Waitfor_stopped env (on_dx_ctl (cpuctrl_set_debug_mode True) st)))\<lparr>dx_exited := True\<rparr>"

section \<open>Memory, serial line and log\<close>

definition dbg_std_executor_view :: "('d, 't) dbg_state \<Rightarrow> ('d, 't) dbg_state" where
  "dbg_std_executor_view st =
    (if dx_view_mode st then reply ''VIEW_MODE=OFF'' (st\<lparr>dx_view_mode := False\<rparr>)
     else reply ''VIEW_MODE=ON'' (st\<lparr>dx_view_mode := True\<rparr>))"

definition cpuemu_get_addr_pointer ::
  "'d mpu_env \<Rightarrow> AthrillAddrType \<Rightarrow> 'd bus_state \<Rightarrow> (Std_ReturnType \<times> hptr option \<times> 'd bus_state) option" where
  "cpuemu_get_addr_pointer env addr bus = bus_get_pointer env 0 addr bus"

definition dbg_std_executor_memset ::
  "('d, 't) dbg_env \<Rightarrow> DbgCmdExecutorMemsetType \<Rightarrow> ('d, 't) dbg_state \<Rightarrow> ('d, 't) dbg_state option" where
  "dbg_std_executor_memset env args st = do {
    (ret, p, bus) \<leftarrow> cpuemu_get_addr_pointer (dn_mpu env) (me_addr args) (dx_bus st);
    if ret = STD_E_OK
    then do {
      data \<leftarrow> p;
      h \<leftarrow> host_write (mpu_host (bus_mpu bus)) data [me_value args];
      Some (reply ''OK'' (st\<lparr>dx_bus := bus\<lparr>bus_mpu := (bus_mpu bus)\<lparr>mpu_host := h\<rparr>\<rparr>\<rparr>))
    }
    else Some (reply ''NG'' (st\<lparr>dx_bus := bus\<rparr>))
  }"

text \<open>The loop of \<open>serial\<close>; \<open>channel\<close> is narrowed to 8 bits by the call.\<close>

fun serial_loop :: "('d, 't) dbg_env \<Rightarrow> uint8 \<Rightarrow> string \<Rightarrow> 't \<Rightarrow> bool \<times> 't" where
  "serial_loop env channel [] t = (True, t)"
| "serial_loop env channel (c # cs) t =
    (case dn_serial_in env channel c t of (err, t') \<Rightarrow> if err \<noteq> STD_E_OK then (False, t') else serial_loop env channel cs t')"

definition dbg_std_executor_serialin ::
  "('d, 't) dbg_env \<Rightarrow> DbgCmdExecutorSerialInType \<Rightarrow> ('d, 't) dbg_state \<Rightarrow> ('d, 't) dbg_state" where
  "dbg_std_executor_serialin env args st =
    (case serial_loop env (ucast (se_channel args)) (take (unat (ts_len (se_input args))) (ts_str (se_input args))) (dx_target st) of
       (ok, t) \<Rightarrow> reply (if ok then ''OK'' else ''NG'') (st\<lparr>dx_target := t\<rparr>))"

text \<open>\<open>cpu\<close>: the registers are printed by the target.\<close>

definition dbg_std_executor_info_cpu ::
  "('d, 't) dbg_env \<Rightarrow> DbgCmdExecutorInfoCpuType \<Rightarrow> ('d, 't) dbg_state \<Rightarrow> ('d, 't) dbg_state" where
  "dbg_std_executor_info_cpu env args st =
    (if ic_type args = DBG_CMD_CORE_ALL then reply ''OK'' st
     else if unat (ic_core_id args) \<ge> length (cc_debug_mode (dx_ctl st)) then reply ''NG'' st
     else reply ''OK'' st)"

text \<open>The commands that are not modelled, with the replies they send.\<close>

definition show_command ::
  "('d, 't) dbg_env \<Rightarrow> DbgCmdExecutorType \<Rightarrow> ('d, 't) dbg_state \<Rightarrow> ('d, 't) dbg_state option" where
  "show_command env cmd st =
    map_option (\<lambda>(replies, ctl, bus). st\<lparr>dx_replies := dx_replies st @ replies, dx_ctl := ctl, dx_bus := bus\<rparr>)
      (dn_show env (ex_run cmd) (ex_parsed_args cmd) (dx_ctl st, dx_bus st))"

section \<open>The function trace\<close>

text \<open>A row: the number shown, the offset in the function, the function and the stack.\<close>

type_synonym trace_row = "uint32 \<times> uint32 \<times> string \<times> string option"

fun fun_trace_rows ::
  "uint32 \<Rightarrow> (nat \<Rightarrow> uint32) \<Rightarrow> nat list \<Rightarrow> cpuctrl_state \<Rightarrow> (trace_row list \<times> cpuctrl_state) option" where
  "fun_trace_rows coreId label [] ctl = Some ([], ctl)"
| "fun_trace_rows coreId label (i # is) ctl =
    (case cpuctrl_get_func_log_trace_info coreId (of_nat i) ctl of
       None \<Rightarrow> None
     | Some None \<Rightarrow> Some ([], ctl)
     | Some (Some (funcname, funcpcoff, funcid, sp)) \<Rightarrow>
        (case symbol_addr2glid sp (cc_symbols ctl) of
           (glid, _, sy) \<Rightarrow>
             map_option (\<lambda>(rows, ctl'). ((label i, funcpcoff, funcname, symbol_glid2glname glid sy) # rows, ctl'))
               (fun_trace_rows coreId label is (ctl\<lparr>cc_symbols := sy\<rparr>))))"

definition dbg_std_executor_fun_trace_toward_older ::
  "uint32 \<Rightarrow> uint32 \<Rightarrow> cpuctrl_state \<Rightarrow> (trace_row list \<times> cpuctrl_state) option" where
  "dbg_std_executor_fun_trace_toward_older coreId bt_number ctl =
    fun_trace_rows coreId of_nat (rev [0..<unat bt_number]) ctl"

definition dbg_std_executor_fun_trace_toward_newer ::
  "uint32 \<Rightarrow> uint32 \<Rightarrow> cpuctrl_state \<Rightarrow> (trace_row list \<times> cpuctrl_state) option" where
  "dbg_std_executor_fun_trace_toward_newer coreId bt_number ctl = do {
    lognum \<leftarrow> cpuctrl_get_func_log_trace_num coreId ctl;
    fun_trace_rows coreId (\<lambda>i. lognum - 1 - of_nat i) [0..<unat bt_number] ctl
  }"

text \<open>The loop over the cores; \<open>bt_number\<close> stays reduced for the cores after one with a shorter log.\<close>

fun func_trace_loop ::
  "bool \<Rightarrow> nat list \<Rightarrow> uint32 \<Rightarrow> cpuctrl_state \<Rightarrow> (trace_row list list \<times> cpuctrl_state) option" where
  "func_trace_loop bt_way [] bt_number ctl = Some ([], ctl)"
| "func_trace_loop bt_way (coreId # cores) bt_number ctl = do {
    lognum \<leftarrow> cpuctrl_get_func_log_trace_num (of_nat coreId) ctl;
    let bt_number' = (if bt_number > lognum then lognum else bt_number);
    (rows, ctl1) \<leftarrow> (if \<not> bt_way then dbg_std_executor_fun_trace_toward_older (of_nat coreId) bt_number' ctl
                   else dbg_std_executor_fun_trace_toward_newer (of_nat coreId) bt_number' ctl);
    (more, ctl2) \<leftarrow> func_trace_loop bt_way cores bt_number' ctl1;
    Some (rows # more, ctl2)
  }"

definition dbg_std_executor_func_trace ::
  "('d, 't) dbg_env \<Rightarrow> DbgCmdExecutorFuncTraceType \<Rightarrow> ('d, 't) dbg_state \<Rightarrow> (trace_row list list \<times> ('d, 't) dbg_state) option" where
  "dbg_std_executor_func_trace env args st =
    map_option (\<lambda>(rows, ctl). (rows, reply ''OK'' (st\<lparr>dx_ctl := ctl\<rparr>)))
      (func_trace_loop (ft_bt_way args) [0..<dn_core_id_num env] (ft_bt_number args) (dx_ctl st))"

section \<open>Reading and running commands\<close>

text \<open>The call of \<open>run\<close>: whether it set \<open>result_ok\<close>, and the state.\<close>

definition run_command ::
  "('d, 't) dbg_env \<Rightarrow> DbgCmdExecutorType \<Rightarrow> ('d, 't) dbg_state \<Rightarrow> (bool \<times> ('d, 't) dbg_state) option" where
  "run_command env cmd st =
    (let ng = map_option (\<lambda>st. (False, st))
     in case (ex_run cmd, ex_parsed_args cmd) of
          (Run_parse_error, _) \<Rightarrow> Some (False, dbg_std_executor_parse_error st)
        | (Run_break, Break_args args) \<Rightarrow> Some (dbg_std_executor_break env args st)
        | (Run_watch_data, Watch_args args) \<Rightarrow> Some (dbg_std_executor_watch_data args st)
        | (Run_delete, Delete_args args) \<Rightarrow> dbg_std_executor_delete args st
        | (Run_cont, Cont_args args) \<Rightarrow> ng (dbg_std_executor_cont env args st)
        | (Run_core, Core_args args) \<Rightarrow> ng (dbg_std_executor_core env args st)
        | (Run_intr, Intr_args intno) \<Rightarrow> Some (False, dbg_std_executor_intr env intno st)
        | (Run_next, _) \<Rightarrow> ng (dbg_std_executor_next env st)
        | (Run_return, _) \<Rightarrow> ng (dbg_std_executor_return env st)
        | (Run_quit, _) \<Rightarrow> Some (False, dbg_std_executor_quit env st)
        | (Run_exit, _) \<Rightarrow> Some (False, dbg_std_executor_exit env st)
        | (Run_view, _) \<Rightarrow> Some (False, dbg_std_executor_view st)
        | (Run_memset, Memset_args args) \<Rightarrow> ng (dbg_std_executor_memset env args st)
        | (Run_serialin, Serial_args args) \<Rightarrow> Some (False, dbg_std_executor_serialin env args st)
        | (Run_func_trace, Func_trace_args args) \<Rightarrow> ng (map_option snd (dbg_std_executor_func_trace env args st))
        | (Run_info_cpu, Info_cpu_args args) \<Rightarrow> Some (False, dbg_std_executor_info_cpu env args st)
        | _ \<Rightarrow> ng (show_command env cmd st))"

text \<open>One line of \<open>do_cui\<close>; a command that may not run now is answered by \<open>dbg_parse\<close>.\<close>

definition cui_line ::
  "parse_env \<Rightarrow> ('d, 't) dbg_env \<Rightarrow> string \<Rightarrow> parser_state \<times> ('d, 't) dbg_state \<Rightarrow> (parser_state \<times> ('d, 't) dbg_state) option" where
  "cui_line penv env line = (\<lambda>(ps, st). do {
    (found, ps1) \<leftarrow> dbg_parse penv (cpuctrl_is_debug_mode (dx_ctl st)) line ps;
    if found
    then do {
      (ok, st1) \<leftarrow> run_command env (ps_parse_command ps1) st;
      Some (ps1\<lparr>ps_parse_command := (ps_parse_command ps1)\<lparr>ex_result_ok := ok\<rparr>\<rparr>, st1)
    }
    else Some (ps1, reply ''NG'' st)
  })"

text \<open>The lines that are read one after the other, until the program ends.\<close>

fun do_cui ::
  "(parse_env \<times> string) list \<Rightarrow> ('d, 't) dbg_env \<Rightarrow> parser_state \<times> ('d, 't) dbg_state \<Rightarrow> (parser_state \<times> ('d, 't) dbg_state) option" where
  "do_cui [] env s = Some s"
| "do_cui ((penv, line) # lines) env s =
    (if dx_exited (snd s) then Some s
     else case cui_line penv env line s of None \<Rightarrow> None | Some s' \<Rightarrow> do_cui lines env s')"

end
