(* ===== verification/TokenLaws.thy ===== *)
theory TokenLaws
  imports Token
begin

text \<open>
  The command line splitter returns the words of the line, each classified as a decimal number, a
  hexadecimal number or a string.
\<close>

section \<open>Words and their classification\<close>

definition dec_number :: "string \<Rightarrow> uint32 option" where
  "dec_number w = (case strtol 10 w of (v, e, erange) \<Rightarrow> if \<not> erange \<and> e = length w then Some (word_of_int v) else None)"

definition hex_number :: "string \<Rightarrow> uint32 option" where
  "hex_number w =
    (case strtoul 16 w of
       (v, e, erange) \<Rightarrow> if length w > 2 \<and> w ! 0 = CHR ''0'' \<and> w ! 1 = CHR ''x'' \<and> \<not> erange \<and> e = length w then Some (of_nat v) else None)"

text \<open>The token of a word.\<close>

definition token_is :: "string \<Rightarrow> TokenValueType \<Rightarrow> bool" where
  "token_is w tv =
    (case dec_number w of
       Some v \<Rightarrow> tv_type tv = TOKEN_TYPE_VALUE_DEC \<and> tv_value tv = v
     | None \<Rightarrow>
        (case hex_number w of
           Some v \<Rightarrow> tv_type tv = TOKEN_TYPE_VALUE_HEX \<and> tv_value tv = v
         | None \<Rightarrow> tv_type tv = TOKEN_TYPE_STRING \<and> unat (ts_len (tv_body tv)) = length w \<and>
             c_string (ts_str (tv_body tv)) = w))"

text \<open>A buffer that holds the word \<open>w\<close>.\<close>

definition holds :: "string \<Rightarrow> TokenStringType \<Rightarrow> bool" where
  "holds w buffer \<longleftrightarrow> length (ts_str buffer) = TOKEN_STRING_MAX_SIZE \<and> length w < TOKEN_STRING_MAX_SIZE \<and>
    ts_len buffer = of_nat (length w) \<and> take (length w) (ts_str buffer) = w \<and> NUL \<notin> set w"

lemma holds_len: "holds w buffer \<Longrightarrow> unat (ts_len buffer) = length w"
  by (simp add: holds_def TOKEN_STRING_MAX_SIZE_def unat_of_nat take_bit_nat_eq_self)

lemma take_update_here: "i < length xs \<Longrightarrow> take (Suc i) (xs[i := x]) = take i xs @ [x]"
  by (simp add: take_Suc_conv_app_nth)

lemma put_char_holds:
  assumes "holds w buffer" "length w < TOKEN_STRING_MAX_SIZE - 1" "c \<noteq> NUL"
  shows "\<exists>buffer'. put_char c buffer = Some buffer' \<and> holds (w @ [c]) buffer'"
  using assms holds_len [OF assms(1)]
  by (auto simp: put_char_def holds_def TOKEN_STRING_MAX_SIZE_def take_update_here)

lemma c_string_terminated: "take n s = w \<Longrightarrow> n = length w \<Longrightarrow> n < length s \<Longrightarrow> NUL \<notin> set w \<Longrightarrow> c_string (s[n := NUL]) = w"
proof -
  assume *: "take n s = w" "n = length w" "n < length s" "NUL \<notin> set w"
  then have "s[n := NUL] = w @ NUL # drop (Suc n) s" by (metis upd_conv_take_nth_drop)
  with *(4) show ?thesis by (simp add: c_string_def takeWhile_append)
qed

lemma classify_holds:
  assumes "holds w buffer" "w \<noteq> []"
  shows "token_is w (classify (buffer\<lparr>ts_str := (ts_str buffer)[length w := NUL]\<rparr>) tv)"
proof -
  let ?str = "(ts_str buffer)[length w := NUL]"
  have c: "c_string ?str = w" using assms by (intro c_string_terminated) (auto simp: holds_def)
  have nth: "?str ! i = w ! i" if "i < length w" for i
    using assms that by (metis holds_def nth_list_update_neq nth_take less_irrefl)
  have gt: "ts_len buffer > 2 \<longleftrightarrow> length w > 2"
    using holds_len [OF assms(1)] by (simp add: word_less_nat_alt)
  have hex: "ts_len buffer > 2 \<and> ?str ! 0 = CHR ''0'' \<and> ?str ! 1 = CHR ''x'' \<longleftrightarrow> length w > 2 \<and> w ! 0 = CHR ''0'' \<and> w ! 1 = CHR ''x''"
  proof (cases "length w > 2")
    case True
    then have l: "0 < length w" "1 < length w" by linarith+
    have "?str ! 0 = w ! 0" "?str ! 1 = w ! 1" using nth [OF l(1)] nth [OF l(2)] by (simp_all only:)
    then show ?thesis by (simp only: gt)
  qed (simp only: gt simp_thms)
  obtain v e r where d: "strtol 10 w = (v, e, r)" by (cases "strtol 10 w") auto
  obtain v' e' r' where h: "strtoul 16 w = (v', e', r')" by (cases "strtoul 16 w") auto
  show ?thesis
    using hex holds_len [OF assms(1)]
    by (auto simp: token_is_def dec_number_def hex_number_def classify_def c d h set_number_def split: if_splits)
qed

lemma set_token_holds:
  assumes "holds w buffer" "w \<noteq> []" "length (tc_array tc) = TOKEN_CONTAINER_MAX_SIZE" "tc_num tc = of_nat (Suc k)"
    "k \<le> TOKEN_CONTAINER_MAX_SIZE"
  shows "if k < TOKEN_CONTAINER_MAX_SIZE
    then \<exists>tv buffer'. set_token tc buffer = Some (tc\<lparr>tc_array := (tc_array tc)[k := tv]\<rparr>, buffer') \<and> token_is w tv \<and>
      length (ts_str buffer') = TOKEN_STRING_MAX_SIZE
    else set_token tc buffer = None"
proof -
  have k: "unat (tc_num tc - 1) = k"
    using assms(4,5) by (simp add: TOKEN_CONTAINER_MAX_SIZE_def unat_of_nat take_bit_nat_eq_self)
  have "update_at (ts_str buffer) (unat (ts_len buffer)) NUL = Some ((ts_str buffer)[length w := NUL])"
    using assms(1) holds_len [OF assms(1)] by (simp add: holds_def)
  then show ?thesis
    using assms(1,3) k classify_holds [OF assms(1,2)] by (auto simp: set_token_def update_value_def holds_def Let_def)
qed

section \<open>The loop\<close>

definition tokens_are :: "string list \<Rightarrow> TokenContainerType \<Rightarrow> bool" where
  "tokens_are ws tc \<longleftrightarrow> length ws \<le> TOKEN_CONTAINER_MAX_SIZE \<and> length (tc_array tc) = TOKEN_CONTAINER_MAX_SIZE \<and>
    (\<forall>i<length ws. token_is (ws ! i) (tc_array tc ! i))"

lemma tokens_are_snoc:
  assumes "tokens_are ws tc" "length ws < TOKEN_CONTAINER_MAX_SIZE" "token_is w tv"
  shows "tokens_are (ws @ [w]) (tc\<lparr>tc_array := (tc_array tc)[length ws := tv]\<rparr>)"
  using assms by (auto simp: tokens_are_def nth_append nth_list_update less_Suc_eq)

text \<open>What the loop does from a state on: all words become tokens, or they do not fit the array.\<close>

definition split_ok :: "string list \<Rightarrow> (Std_ReturnType \<times> TokenContainerType) option \<Rightarrow> bool" where
  "split_ok ws r \<longleftrightarrow>
    (if length ws \<le> TOKEN_CONTAINER_MAX_SIZE
     then \<exists>tc. r = Some (STD_E_OK, tc) \<and> unat (tc_num tc) = length ws \<and> tokens_are ws tc
     else r = None)"

lemma words_from_word: "w \<noteq> [] \<Longrightarrow> \<exists>v\<in>set (words_from P w cs). length w \<le> length v"
proof (induction cs arbitrary: w)
  case (Cons c cs)
  from Cons.IH [of "w @ [c]"] show ?case using Cons.prems by (cases "P c") (auto intro: bexI [rotated])
qed simp

lemma words_from_ne: "w \<noteq> [] \<Longrightarrow> words_from P w cs \<noteq> []"
  using words_from_word [of w P cs] by auto

lemma last_word:
  assumes "holds w buffer" "w \<noteq> []" "tokens_are ws tc" "tc_num tc = of_nat (Suc (length ws))"
  shows "split_ok (ws @ [w]) (map_option (\<lambda>(tc', _). (STD_E_OK, tc')) (set_token tc buffer))"
proof -
  have "length ws \<le> TOKEN_CONTAINER_MAX_SIZE" "length (tc_array tc) = TOKEN_CONTAINER_MAX_SIZE"
    using assms(3) by (simp_all add: tokens_are_def)
  note set = set_token_holds [OF assms(1,2) this(2) assms(4) this(1)]
  have num: "unat (tc_num tc) = Suc (length ws)"
    using assms(3,4) by (simp add: tokens_are_def TOKEN_CONTAINER_MAX_SIZE_def unat_of_nat take_bit_nat_eq_self del: of_nat_Suc)
  show ?thesis
  proof (cases "length ws < TOKEN_CONTAINER_MAX_SIZE")
    case True
    with set obtain tv buffer' where
      "set_token tc buffer = Some (tc\<lparr>tc_array := (tc_array tc)[length ws := tv]\<rparr>, buffer')" "token_is w tv" by auto
    with tokens_are_snoc [OF assms(3) True] True num show ?thesis by (auto simp: split_ok_def)
  next
    case False
    with set show ?thesis by (simp add: split_ok_def)
  qed
qed

lemma split_loop_ok:
  assumes "\<forall>v\<in>set (words_from (\<lambda>c. is_delimiter c ex_c) w cs). length v < TOKEN_STRING_MAX_SIZE"
    "holds w buffer" "tokens_are ws tc" "cs = [] \<Longrightarrow> w = []"
    "tc_num tc = of_nat (length ws + (if w = [] then 0 else 1))"
    "state = (if w = [] then TOKEN_CHECK_STATE_DEMILITER else TOKEN_CHECK_STATE_CODE)"
  shows "split_ok (ws @ words_from (\<lambda>c. is_delimiter c ex_c) w cs) (split_loop ex_c cs state buffer tc)"
  using assms
proof (induction cs arbitrary: w buffer ws tc state)
  case Nil
  have "unat (of_nat (length ws) :: uint32) = length ws"
    using Nil.prems(3) by (simp add: tokens_are_def TOKEN_CONTAINER_MAX_SIZE_def unat_of_nat take_bit_nat_eq_self)
  then show ?case using Nil.prems by (simp add: split_ok_def tokens_are_def)
next
  case (Cons c cs)
  let ?P = "\<lambda>c. is_delimiter c ex_c"
  have n: "length ws \<le> TOKEN_CONTAINER_MAX_SIZE" "length (tc_array tc) = TOKEN_CONTAINER_MAX_SIZE"
    using Cons.prems(3) by (simp_all add: tokens_are_def)
  have full: "length (ts_str buffer) = TOKEN_STRING_MAX_SIZE" using Cons.prems(2) by (simp add: holds_def)
  show ?case
  proof (cases "?P c")
    case True
    show ?thesis
    proof (cases "w = []")
      case True
      then show ?thesis using Cons.prems \<open>?P c\<close> Cons.IH [of "[]" buffer ws tc] by simp
    next
      case False
      note set = set_token_holds [OF Cons.prems(2) False n(2) _ n(1)]
      have num: "tc_num tc = of_nat (Suc (length ws))" using Cons.prems(5) False by simp
      show ?thesis
      proof (cases "length ws < TOKEN_CONTAINER_MAX_SIZE")
        case True
        with set [OF num] obtain tv buffer' where
          s: "set_token tc buffer = Some (tc\<lparr>tc_array := (tc_array tc)[length ws := tv]\<rparr>, buffer')" "token_is w tv"
          "length (ts_str buffer') = TOKEN_STRING_MAX_SIZE" by auto
        let ?tc = "tc\<lparr>tc_array := (tc_array tc)[length ws := tv]\<rparr>"
        have h: "holds [] (buffer'\<lparr>ts_len := 0\<rparr>)" using s(3) by (simp add: holds_def TOKEN_STRING_MAX_SIZE_def)
        have sn: "tokens_are (ws @ [w]) ?tc" using tokens_are_snoc [OF Cons.prems(3) True s(2)] .
        from Cons.IH [OF _ h sn, of TOKEN_CHECK_STATE_DEMILITER] Cons.prems(1) \<open>?P c\<close> num False
        have "split_ok (ws @ [w] @ words_from ?P [] cs)
            (split_loop ex_c cs TOKEN_CHECK_STATE_DEMILITER (buffer'\<lparr>ts_len := 0\<rparr>) ?tc)" by simp
        then show ?thesis using \<open>?P c\<close> False s(1) Cons.prems(6) by simp
      next
        case big: False
        then have "set_token tc buffer = None" using set [OF num] by simp
        then show ?thesis using \<open>?P c\<close> False Cons.prems(6) big by (simp add: split_ok_def)
      qed
    qed
  next
    case False
    then have c: "c \<noteq> NUL" by (auto simp: is_delimiter_def)
    have "length (w @ [c]) < TOKEN_STRING_MAX_SIZE"
      using words_from_word [of "w @ [c]" ?P cs] Cons.prems(1) False by fastforce
    then have lt: "length w < TOKEN_STRING_MAX_SIZE - 1" by simp
    from put_char_holds [OF Cons.prems(2) lt c] obtain buffer1 where
      b: "put_char c buffer = Some buffer1" "holds (w @ [c]) buffer1" by blast
    define tc1 where "tc1 = (if w = [] then tc\<lparr>tc_num := tc_num tc + 1\<rparr> else tc)"
    have tc1: "tokens_are ws tc1" "tc_num tc1 = of_nat (Suc (length ws))"
      using Cons.prems(3,5) by (simp_all add: tc1_def tokens_are_def)
    have num: "\<not> unat (tc_num tc) > TOKEN_CONTAINER_MAX_SIZE" if "w = []"
      using Cons.prems(5) n(1) that by (simp add: TOKEN_CONTAINER_MAX_SIZE_def unat_of_nat take_bit_nat_eq_self)
    have len: "\<not> unat (ts_len buffer) \<ge> TOKEN_STRING_MAX_SIZE - 1" using lt holds_len [OF Cons.prems(2)] by simp
    have step: "split_loop ex_c (c # cs) state buffer tc =
        (if cs = [] then map_option (\<lambda>(tc2, _). (STD_E_OK, tc2)) (set_token tc1 buffer1)
         else split_loop ex_c cs TOKEN_CHECK_STATE_CODE buffer1 tc1)"
      using False Cons.prems(6) b(1) num len by (simp add: tc1_def)
    show ?thesis
    proof (cases "cs = []")
      case True
      with last_word [OF b(2) _ tc1] step False show ?thesis by simp
    next
      case ne: False
      with Cons.IH [OF _ b(2) tc1(1), of TOKEN_CHECK_STATE_CODE] Cons.prems(1) False tc1(2) step
      show ?thesis by simp
    qed
  qed
qed

lemma token_split_ok:
  assumes "length buf = TOKEN_STRING_MAX_SIZE" "length (tc_array tc) = TOKEN_CONTAINER_MAX_SIZE"
    and ws: "ws = words_of (\<lambda>c. is_delimiter c None) str" "\<forall>w\<in>set ws. length w < TOKEN_STRING_MAX_SIZE"
  shows "split_ok ws (token_split buf tc str)"
proof -
  have "holds [] \<lparr>ts_len = 0, ts_str = buf\<rparr>" using assms(1) by (simp add: holds_def TOKEN_STRING_MAX_SIZE_def)
  moreover have "tokens_are [] (tc\<lparr>tc_num := 0\<rparr>)" using assms(2) by (simp add: tokens_are_def)
  ultimately show ?thesis
    using split_loop_ok [of None "[]" str _ "[]" "tc\<lparr>tc_num := 0\<rparr>" TOKEN_CHECK_STATE_DEMILITER] ws
    by (simp add: token_split_def token_split_common_def words_of_def)
qed

text \<open>
  C27: the splitter returns the words of the line. Whatever the container and the buffer held
  before, if no word is longer than the buffer takes, then a line of up to 128 words gives exactly
  its words in order, each as the decimal number, the hexadecimal number or the string that it
  is. With more words the splitter writes behind the array (the bound is checked with
  \<open>>\<close> where the array already ends).
\<close>

theorem token_split_correct:
  assumes "length buf = TOKEN_STRING_MAX_SIZE" "length (tc_array tc) = TOKEN_CONTAINER_MAX_SIZE"
    and ws: "ws = words_of (\<lambda>c. is_delimiter c None) str" "\<forall>w\<in>set ws. length w < TOKEN_STRING_MAX_SIZE"
  shows "if length ws \<le> 128
    then \<exists>tc'. token_split buf tc str = Some (STD_E_OK, tc') \<and> unat (tc_num tc') = length ws \<and>
      (\<forall>i<length ws. token_is (ws ! i) (tc_array tc' ! i))
    else token_split buf tc str = None"
  using token_split_ok [OF assms] by (auto simp: split_ok_def tokens_are_def TOKEN_CONTAINER_MAX_SIZE_def split: if_splits)

lemmas number_eval = dec_number_def hex_number_def strtol_def strtoul_def strto_scan_def skip_0x_def Let_def isspace_def is_digit_of_def
  digit_value_def digits_value_def ULONG_MAX_def LONG_MAX_def less_eq_char_def

theorem token_split_correct_witness:
  "\<exists>tc'. token_split (replicate 4096 NUL) \<lparr>tc_num = 7, tc_array = replicate 128 \<lparr>tv_type = TOKEN_TYPE_UNKNOWN,
      tv_body = \<lparr>ts_len = 0, ts_str = replicate 4096 NUL\<rparr>\<rparr>\<rparr> ''b 0x1f, 12'' = Some (STD_E_OK, tc') \<and>
    unat (tc_num tc') = 3 \<and> c_string (ts_str (tv_body (tc_array tc' ! 0))) = ''b'' \<and>
    tv_type (tc_array tc' ! 1) = TOKEN_TYPE_VALUE_HEX \<and> tv_value (tc_array tc' ! 1) = 0x1f \<and>
    tv_type (tc_array tc' ! 2) = TOKEN_TYPE_VALUE_DEC \<and> tv_value (tc_array tc' ! 2) = 12"
proof -
  let ?tc = "\<lparr>tc_num = 7, tc_array = replicate 128 \<lparr>tv_type = TOKEN_TYPE_UNKNOWN,
      tv_body = \<lparr>ts_len = 0, ts_str = replicate 4096 NUL\<rparr>\<rparr>\<rparr>"
  let ?ws = "[''b'', ''0x1f'', ''12'']"
  have ws: "?ws = words_of (\<lambda>c. is_delimiter c None) ''b 0x1f, 12''"
    by (simp add: words_of_def is_delimiter_def isspace_def NUL_def)
  have kinds: "dec_number ''b'' = None" "hex_number ''b'' = None" "dec_number ''0x1f'' = None" "hex_number ''0x1f'' = Some 0x1f"
    "dec_number ''12'' = Some 12"
    by (simp_all add: number_eval)
  from token_split_correct [OF _ _ ws, of "replicate 4096 NUL" ?tc] obtain tc' where
    tc': "token_split (replicate 4096 NUL) ?tc ''b 0x1f, 12'' = Some (STD_E_OK, tc')" "unat (tc_num tc') = 3"
    "\<forall>i<3. token_is (?ws ! i) (tc_array tc' ! i)"
    by (auto simp: TOKEN_STRING_MAX_SIZE_def TOKEN_CONTAINER_MAX_SIZE_def)
  have "token_is ''b'' (tc_array tc' ! 0)" "token_is ''0x1f'' (tc_array tc' ! 1)" "token_is ''12'' (tc_array tc' ! 2)"
    using tc'(3) [rule_format, of 0] tc'(3) [rule_format, of 1] tc'(3) [rule_format, of 2] by simp_all
  then show ?thesis using tc'(1,2) by (intro exI [of _ tc']) (simp add: token_is_def kinds)
qed

section \<open>Using the tokens\<close>

text \<open>The tokens of a line, for the callers of the splitter.\<close>

lemma split_tokens:
  assumes "length buf = TOKEN_STRING_MAX_SIZE" "length (tc_array tc) = TOKEN_CONTAINER_MAX_SIZE"
    "words_of (\<lambda>c. is_delimiter c None) str = ws" "\<forall>w\<in>set ws. length w < TOKEN_STRING_MAX_SIZE" "length ws \<le> 128"
  obtains tc' where "token_split buf tc str = Some (STD_E_OK, tc')" "tc_num tc' = of_nat (length ws)"
    "\<And>i. i < length ws \<Longrightarrow> token_is (ws ! i) (tok tc' i)" "length (tc_array tc') = TOKEN_CONTAINER_MAX_SIZE"
proof -
  have "split_ok ws (token_split buf tc str)" using token_split_ok [OF assms(1,2) assms(3) [symmetric] assms(4)] .
  then obtain tc' where tc': "token_split buf tc str = Some (STD_E_OK, tc')" "unat (tc_num tc') = length ws" "tokens_are ws tc'"
    using assms(5) by (auto simp: split_ok_def TOKEN_CONTAINER_MAX_SIZE_def)
  have "tc_num tc' = of_nat (length ws)" using arg_cong [OF tc'(2), of "of_nat :: nat \<Rightarrow> uint32"] by simp
  with tc' that show thesis by (simp add: tokens_are_def tok_def)
qed

lemma c_string_token_const: "NUL \<notin> set s \<Longrightarrow> length s < TOKEN_STRING_MAX_SIZE \<Longrightarrow> c_string (ts_str (token_const s)) = s"
  by (auto simp: token_const_def c_string_def takeWhile_append takeWhile_eq_all_conv)

text \<open>A token of a word that is no number compares with a constant as the word does.\<close>

lemma string_token_cmp:
  assumes "token_is w tv" "dec_number w = None" "hex_number w = None" "NUL \<notin> set w" "length w < TOKEN_STRING_MAX_SIZE"
    "NUL \<notin> set b" "length b < TOKEN_STRING_MAX_SIZE"
  shows "token_strcmp (tv_body tv) (token_const b) \<longleftrightarrow> w = b"
proof -
  have tv: "unat (ts_len (tv_body tv)) = length w" "c_string (ts_str (tv_body tv)) = w" using assms by (simp_all add: token_is_def)
  have "length w < 2 ^ 32" "length b < 2 ^ 32" using assms(5,7) by (simp_all add: TOKEN_STRING_MAX_SIZE_def)
  then have "ts_len (tv_body tv) = ts_len (token_const b) \<longleftrightarrow> length w = length b"
    using tv(1) by (simp add: token_const_def word_unat_eq_iff unat_of_nat take_bit_nat_eq_self)
  then show ?thesis using tv c_string_token_const [OF assms(6,7)] by (auto simp: token_strcmp_def strncmp_eq_def)
qed

section \<open>Numbers survive printing\<close>

lemma digits_of_chars:
  assumes "2 \<le> base"
  shows "c \<in> set (digits_of base n) \<Longrightarrow> \<exists>d<base. c = hex_digit d"
  using assms
proof (induction base n rule: digits_of.induct)
  case (1 base n)
  show ?case
  proof (cases "n < base")
    case True
    then show ?thesis using "1.prems" by (auto simp: digits_of.simps [of base n])
  next
    case False
    then have "c \<in> set (digits_of base (n div base)) \<or> c = hex_digit (n mod base)"
      using "1.prems" by (auto simp: digits_of.simps [of base n])
    moreover have "n mod base < base" using "1.prems"(2) by simp
    moreover have "\<exists>d<base. c = hex_digit d" if "c \<in> set (digits_of base (n div base))"
      using that "1.IH" False "1.prems"(2) by simp
    ultimately show ?thesis by blast
  qed
qed

lemma digits_of_ne [simp]: "digits_of base n \<noteq> []"
  by (simp add: digits_of.simps [of base n])

lemma digits_value_digits_of:
  assumes "2 \<le> base" "base \<le> 16"
  shows "digits_value base (digits_of base n) = n"
  using assms
proof (induction base n rule: digits_of.induct)
  case (1 base n)
  show ?case
  proof (cases "n < base")
    case True
    then show ?thesis using "1.prems" by (simp add: digits_of.simps [of base n] digits_value_def digit_value_hex_digit)
  next
    case False
    have "n mod base < base" using "1.prems"(1) by simp
    then have "digit_value (hex_digit (n mod base)) = Some (n mod base)"
      using "1.prems"(2) by (intro digit_value_hex_digit) simp
    then show ?thesis using False "1.prems" "1.IH"
      by (simp add: digits_of.simps [of base n] digits_value_def)
  qed
qed

lemma digits_of_facts:
  assumes "2 \<le> base" "base \<le> 16" "c \<in> set (digits_of base n)"
  shows "is_digit_of base c" "\<not> isspace c" "c \<noteq> CHR ''-''" "c \<noteq> CHR ''+''" "c \<noteq> CHR ''x''" "c \<noteq> CHR ''X''"
proof -
  obtain d where d: "d < base" "c = hex_digit d" using digits_of_chars [OF assms(1,3)] by blast
  then have "d < 16" using assms(2) by simp
  then show "is_digit_of base c" "\<not> isspace c" "c \<noteq> CHR ''-''" "c \<noteq> CHR ''+''" "c \<noteq> CHR ''x''" "c \<noteq> CHR ''X''"
    using hex_digit_not_special [of d] d by (simp_all add: is_digit_of_def digit_value_hex_digit)
qed

lemma all_digits:
  assumes "2 \<le> base" "base \<le> 16"
  shows "takeWhile (is_digit_of base) (digits_of base n) = digits_of base n"
  using digits_of_facts(1) [OF assms] by (simp add: takeWhile_eq_all_conv)

lemma skip_0x_digits: "skip_0x 16 (digits_of 16 n) = digits_of 16 n"
proof -
  have "x \<noteq> CHR ''x'' \<and> x \<noteq> CHR ''X''" if "digits_of 16 n = c # x # r" for c x r
    using digits_of_facts(5,6) [of 16 x n] that by simp
  then show ?thesis by (auto simp: skip_0x_def split: list.split)
qed

lemma scan_digits:
  assumes "base = 10 \<or> base = 16"
  shows "strto_scan base (digits_of base n) = (False, digits_of base n, length (digits_of base n))"
proof -
  have b: "2 \<le> base" "base \<le> 16" using assms by auto
  obtain c r where ds: "digits_of base n = c # r" by (cases "digits_of base n") auto
  have c: "\<not> isspace c" "c \<noteq> CHR ''-''" "c \<noteq> CHR ''+''" using digits_of_facts [OF b, of c n] by (simp_all add: ds)
  have s: "skip_0x base (c # r) = c # r" using assms skip_0x_digits [of n] ds by auto
  have t: "takeWhile (is_digit_of base) (c # r) = c # r" using all_digits [OF b, of n] ds by simp
  show ?thesis using c unfolding strto_scan_def ds by (simp add: s t Let_def del: takeWhile.simps)
qed

lemma scan_minus:
  "strto_scan 10 (CHR ''-'' # digits_of 10 n) = (True, digits_of 10 n, Suc (length (digits_of 10 n)))"
  by (simp add: strto_scan_def isspace_def all_digits Let_def)

lemma scan_0x:
  "strto_scan 16 (CHR ''0'' # CHR ''x'' # digits_of 16 n) = (False, digits_of 16 n, Suc (Suc (length (digits_of 16 n))))"
  "strto_scan 10 (CHR ''0'' # CHR ''x'' # digits_of 16 n) = (False, ''0'', 1)"
proof -
  obtain c r where ds: "digits_of 16 n = c # r" by (cases "digits_of 16 n") auto
  have "is_digit_of 16 c" using digits_of_facts(1) [of 16 c n] by (simp add: ds)
  then have "skip_0x 16 (CHR ''0'' # CHR ''x'' # digits_of 16 n) = digits_of 16 n" by (simp add: skip_0x_def ds)
  then show "strto_scan 16 (CHR ''0'' # CHR ''x'' # digits_of 16 n) = (False, digits_of 16 n, Suc (Suc (length (digits_of 16 n))))"
    by (simp add: strto_scan_def isspace_def all_digits Let_def)
  show "strto_scan 10 (CHR ''0'' # CHR ''x'' # digits_of 16 n) = (False, ''0'', 1)"
    by (simp add: strto_scan_def isspace_def is_digit_of_def digit_value_def less_eq_char_def)
qed

lemma number_texts:
  "n < 2 ^ 32 \<Longrightarrow> dec_number (digits_of 10 n) = Some (of_nat n)"
  "n < 2 ^ 32 \<Longrightarrow> dec_number (CHR ''-'' # digits_of 10 n) = Some (word_of_int (- int n))"
  "dec_number (''0x'' @ digits_of 16 n) = None"
  "n < 2 ^ 32 \<Longrightarrow> hex_number (''0x'' @ digits_of 16 n) = Some (of_nat n)"
  using scan_digits [of 10 n]
  by (simp_all add: dec_number_def hex_number_def strtol_def strtoul_def scan_minus scan_0x digits_value_digits_of
      LONG_MAX_def ULONG_MAX_def Let_def)

text \<open>Words put together are taken apart again.\<close>

lemma words_from_word_end: "w \<noteq> [] \<Longrightarrow> \<forall>c\<in>set cs. \<not> P c \<Longrightarrow> words_from P w cs = [w @ cs]"
  by (induction cs arbitrary: w) simp_all

lemma words_from_append: "w @ cs \<noteq> [] \<Longrightarrow> \<forall>c\<in>set cs. \<not> P c \<Longrightarrow> P d \<Longrightarrow> words_from P w (cs @ d # s) = (w @ cs) # words_from P [] s"
  by (induction cs arbitrary: w) simp_all

lemma words_of_word: "w \<noteq> [] \<Longrightarrow> \<forall>c\<in>set w. \<not> P c \<Longrightarrow> words_of P w = [w]"
  by (cases w) (simp_all add: words_of_def words_from_word_end)

lemma words_of_append: "w \<noteq> [] \<Longrightarrow> \<forall>c\<in>set w. \<not> P c \<Longrightarrow> P d \<Longrightarrow> words_of P (w @ d # s) = w # words_of P s"
  using words_from_append [of "[]" w P d s] by (simp add: words_of_def)

lemma words_of_skip: "P d \<Longrightarrow> words_of P (d # s) = words_of P s"
  by (simp add: words_of_def)

lemma digits_of_no_delimiter:
  assumes "2 \<le> base" "base \<le> 16" "c \<in> set (digits_of base n)"
  shows "\<not> is_delimiter c None"
proof -
  obtain d where "d < base" "c = hex_digit d" using digits_of_chars [OF assms(1,3)] by blast
  moreover have "list_all (\<lambda>d. \<not> is_delimiter (hex_digit d) None) [0..<16]" by code_simp
  ultimately show ?thesis using assms(2) by (simp add: list_all_iff)
qed

lemma digits_of_length: "2 \<le> base \<Longrightarrow> n < base ^ Suc k \<Longrightarrow> length (digits_of base n) \<le> Suc k"
proof (induction k arbitrary: n)
  case 0
  then show ?case by (simp add: digits_of.simps [of base n])
next
  case (Suc k)
  have "n div base < base ^ Suc k" using Suc.prems by (simp add: less_mult_imp_div_less mult.commute)
  then show ?case using Suc.IH [of "n div base"] Suc.prems(1) by (simp add: digits_of.simps [of base n])
qed

text \<open>
  A number survives being printed and read again. The text that \<open>token_split_merge\<close>
  writes for a number token, without its blank, is classified as a number of the same kind and
  the same 32-bit value, for negative decimal numbers too.
\<close>

theorem number_text_roundtrip:
  assumes "tv_type tv = TOKEN_TYPE_VALUE_DEC \<or> tv_type tv = TOKEN_TYPE_VALUE_HEX"
    "token_text tv = Some (w @ '' '')" "token_is w tv'"
  shows "tv_type tv' = tv_type tv \<and> tv_value tv' = tv_value tv"
proof -
  let ?v = "tv_value tv"
  have "unat ?v < 2 ^ LENGTH(32)" by (rule unsigned_less)
  then have v: "unat ?v < 2 ^ 32" by simp
  have neg: "nat (- sint ?v) < 2 ^ 32" using sint_greater_eq [of ?v] by (simp add: nat_less_iff)
  show ?thesis
  proof (cases "tv_type tv = TOKEN_TYPE_VALUE_DEC")
    case True
    then have w: "w = (if sint ?v < 0 then CHR ''-'' # digits_of 10 (nat (- sint ?v)) else digits_of 10 (unat ?v))"
      using assms(2) by (auto simp: token_text_def split: if_splits)
    have "dec_number w = Some ?v"
    proof (cases "sint ?v < 0")
      case True
      then show ?thesis using number_texts(2) [OF neg] w by simp
    next
      case False
      then show ?thesis using number_texts(1) [OF v] w by simp
    qed
    then show ?thesis using assms(3) True by (simp add: token_is_def)
  next
    case False
    then have "w = ''0x'' @ digits_of 16 (unat ?v)" using assms(1,2) by (simp add: token_text_def)
    then show ?thesis using assms(1,3) False number_texts(3) [of "unat ?v"] number_texts(4) [OF v]
      by (simp add: token_is_def)
  qed
qed

theorem number_text_roundtrip_witness:
  "\<exists>tv'. token_is ''-5'' tv' \<and> tv_type tv' = TOKEN_TYPE_VALUE_DEC \<and> tv_value tv' = 0xfffffffb"
proof -
  let ?tv = "\<lparr>tv_type = TOKEN_TYPE_VALUE_DEC, tv_body = \<lparr>ts_len = 0xfffffffb, ts_str = []\<rparr>\<rparr>"
  let ?tv' = "\<lparr>tv_type = TOKEN_TYPE_VALUE_DEC, tv_body = \<lparr>ts_len = word_of_int (- 5), ts_str = []\<rparr>\<rparr>"
  have txt_eq: "token_text ?tv = Some (''-5'' @ '' '')"
    by (simp add: token_text_def digits_of.simps hex_digit_def)
  have tok: "token_is ''-5'' ?tv'" by (simp add: token_is_def number_eval)
  show ?thesis using number_text_roundtrip [OF _ txt_eq tok] tok by (intro exI [of _ ?tv']) simp
qed

end
