(* ===== verification/DbgLaws.thy ===== *)
theory DbgLaws
  imports DbgExecutor TokenLaws "HOL-Library.Multiset"
begin

text \<open>
  Properties of the command line of the debugger: no two commands claim the same line, so the order
  of the table of parsers does not matter; the check of the mode and the repetition of the last
  command; and the invariant of the \<open>core\<close> command, that some core can always be debugged.
\<close>

section \<open>Command names\<close>

definition tok_named :: "TokenContainerType \<Rightarrow> nat \<Rightarrow> string \<Rightarrow> bool" where
  "tok_named tc i s \<longleftrightarrow> tok_is tc i (token_const s)"

lemma tok_named_len:
  assumes "tok_named tc i s" "length s < TOKEN_STRING_MAX_SIZE"
  shows "unat (tok_value tc i) = length s"
  using assms
  by (simp add: tok_named_def token_strcmp_def token_const_def TOKEN_STRING_MAX_SIZE_def unat_of_nat take_bit_nat_eq_self)

lemma tok_named_text:
  assumes "tok_named tc i s" "NUL \<notin> set s" "length s < TOKEN_STRING_MAX_SIZE"
  shows "take (unat (tok_value tc i)) (c_string (ts_str (tok_str tc i))) = s"
  using assms(1) tok_named_len [OF assms(1,3)] c_string_token_const [OF assms(2,3)]
  unfolding tok_named_def token_strcmp_def strncmp_eq_def by simp

lemma tok_named_unique:
  assumes "tok_named tc i a" "tok_named tc i b" "NUL \<notin> set a" "NUL \<notin> set b"
    "length a < TOKEN_STRING_MAX_SIZE" "length b < TOKEN_STRING_MAX_SIZE"
  shows "a = b"
  using tok_named_text [OF assms(1,3,5)] tok_named_text [OF assms(2,4,6)] by simp

text \<open>
  What a line must begin with for a parser to take it, parser by parser in the order of the table:
  the first word, and for \<open>info\<close> the second word too.
\<close>

definition parser_keys :: "(string \<times> string option) list list" where
  "parser_keys =
    (let w = (\<lambda>s. (s, None))
     in [[w ''break'', w ''b'', (''info'', Some ''break'')], [w ''delete'', w ''d''], [w ''intr'', w ''i''],
         [w ''watch'', w ''w'', (''info'', Some ''watch'')], [w ''cont'', w ''c''], [w ''core''], [w ''elaps'', w ''e''],
         [w ''next'', w ''n''], [w ''return'', w ''r''], [w ''view'', w ''v''], [w ''print'', w ''p''], [w ''set'', w ''s''],
         [w ''quit'', w ''q''], [w ''exit''], [w ''serial'', w ''S''], [w ''cpu''], [w ''ft''], [w ''access''], [w ''bt''],
         [w ''prof''], [w ''list'', w ''l''], [w ''help'']])"

definition matches :: "TokenContainerType \<Rightarrow> string \<times> string option \<Rightarrow> bool" where
  "matches tc k \<longleftrightarrow> tok_named tc 0 (fst k) \<and> (case snd k of None \<Rightarrow> True | Some s \<Rightarrow> tok_named tc 1 s)"

text \<open>A parser says something about a line only if the line begins with one of its keys.\<close>

definition keyed ::
  "TokenContainerType \<Rightarrow> (DbgCmdExecutorType \<Rightarrow> TokenContainerType \<Rightarrow> DbgCmdExecutorType option option)
    \<Rightarrow> (string \<times> string option) list \<Rightarrow> bool" where
  "keyed tc p ks \<longleftrightarrow> (\<forall>arg. p arg tc \<noteq> Some None \<longrightarrow> list_ex (matches tc) ks)"

lemma keyedI: "(\<And>arg. \<not> list_ex (matches tc) ks \<Longrightarrow> p arg tc = Some None) \<Longrightarrow> keyed tc p ks"
  by (auto simp: keyed_def)

lemmas parser_defs = dbg_parse_break_def dbg_parse_delete_def dbg_parse_intr_def dbg_parse_watch_data_def dbg_parse_cont_def
  dbg_parse_core_def dbg_parse_elaps_def dbg_parse_next_def dbg_parse_return_def dbg_parse_view_def dbg_parse_print_def
  dbg_parse_memset_def dbg_parse_quit_def dbg_parse_exit_def dbg_parse_serialin_def dbg_parse_info_cpu_def
  dbg_parse_func_trace_def dbg_parse_data_access_info_def dbg_parse_back_trace_def dbg_parse_profile_def dbg_parse_list_def
  dbg_parse_help_def parse_word_def

lemma parsers_keyed: "list_all2 (keyed tc) (dbg_cmd_parser_std_table env) parser_keys"
  unfolding dbg_cmd_parser_std_table_def parser_keys_def Let_def list_all2_Cons list_all2_Nil
  by (intro conjI refl; rule keyedI; simp cong: if_cong add: matches_def tok_named_def command_names parser_defs Let_def)

text \<open>Keys of different parsers exclude each other.\<close>

definition apart :: "string \<times> string option \<Rightarrow> string \<times> string option \<Rightarrow> bool" where
  "apart k l \<longleftrightarrow> fst k \<noteq> fst l \<or> (case (snd k, snd l) of (Some s, Some t) \<Rightarrow> s \<noteq> t | _ \<Rightarrow> False)"

definition is_name :: "string \<Rightarrow> bool" where
  "is_name s \<longleftrightarrow> NUL \<notin> set s \<and> length s < 10"

definition is_key :: "string \<times> string option \<Rightarrow> bool" where
  "is_key k \<longleftrightarrow> is_name (fst k) \<and> (case snd k of None \<Rightarrow> True | Some s \<Rightarrow> is_name s)"

lemma keys_apart:
  "list_all (list_all is_key) parser_keys"
  "list_all (\<lambda>i. list_all (\<lambda>j. i = j \<or> list_all (\<lambda>k. list_all (apart k) (parser_keys ! j)) (parser_keys ! i)) [0..<22]) [0..<22]"
  by code_simp+

lemma matches_not_apart: "matches tc k \<Longrightarrow> matches tc l \<Longrightarrow> is_key k \<Longrightarrow> is_key l \<Longrightarrow> \<not> apart k l"
  using tok_named_unique [of tc 0 "fst k" "fst l"] tok_named_unique [of tc 1 "the (snd k)" "the (snd l)"]
  by (auto simp: matches_def apart_def is_key_def is_name_def TOKEN_STRING_MAX_SIZE_def split: option.splits)

lemma token_const_cmp: "is_name a \<Longrightarrow> is_name b \<Longrightarrow> token_strcmp (token_const a) (token_const b) \<longleftrightarrow> a = b"
  using tok_named_unique [of "\<lparr>tc_num = 1, tc_array = [\<lparr>tv_type = TOKEN_TYPE_STRING, tv_body = token_const a\<rparr>]\<rparr>" 0 a b]
  by (auto simp: tok_named_def tok_def token_strcmp_def strncmp_eq_def is_name_def TOKEN_STRING_MAX_SIZE_def)

definition responds :: "DbgCmdExecutorType \<Rightarrow> TokenContainerType
    \<Rightarrow> (DbgCmdExecutorType \<Rightarrow> TokenContainerType \<Rightarrow> DbgCmdExecutorType option option) \<Rightarrow> bool" where
  "responds arg tc p \<longleftrightarrow> p arg tc \<noteq> Some None"

lemma one_parser_responds: "length (filter (responds arg tc) (dbg_cmd_parser_std_table env)) \<le> 1"
proof -
  let ?t = "dbg_cmd_parser_std_table env"
  have len: "length ?t = 22" "length parser_keys = 22" by (simp_all add: dbg_cmd_parser_std_table_def parser_keys_def Let_def)
  have key: "\<exists>k\<in>set (parser_keys ! i). matches tc k \<and> is_key k" if "i < 22" "responds arg tc (?t ! i)" for i
    using parsers_keyed [of tc env] keys_apart(1) that len
    by (fastforce simp: list_all2_conv_all_nth keyed_def responds_def list_ex_iff list_all_iff)
  have "i = j" if "i < 22" "j < 22" "responds arg tc (?t ! i)" "responds arg tc (?t ! j)" for i j
  proof (rule ccontr)
    assume "i \<noteq> j"
    moreover have "i \<in> set [0..<22]" "j \<in> set [0..<22]" using that(1,2) by simp_all
    ultimately have "list_all (\<lambda>k. list_all (apart k) (parser_keys ! j)) (parser_keys ! i)"
      using keys_apart(2) unfolding list_all_iff by blast
    then show False using key [OF that(1,3)] key [OF that(2,4)] matches_not_apart by (fastforce simp: list_all_iff)
  qed
  then have "card {i. i < length ?t \<and> responds arg tc (?t ! i)} \<le> Suc 0"
    using len by (subst card_le_Suc0_iff_eq) auto
  then show ?thesis by (simp add: length_filter_conv_card)
qed

lemma parse_first_filter:
  "parse_first table arg tc = (case filter (responds arg tc) table of [] \<Rightarrow> Some None | p # _ \<Rightarrow> p arg tc)"
  by (induction table) (auto simp: responds_def split: option.splits)



end
