(* ===== verification/DbgSession.thy ===== *)
theory DbgSession
  imports DbgLaws MpuLaws SymbolLaws
begin

text \<open>
  Properties of sequences of command lines: a command that the mode of the CPU forbids is run by the
  next empty line, and no sequence of commands leaves every core out of debug mode.
\<close>

section \<open>Lines of one word\<close>

text \<open>A token of a word that is no number compares with the names as the word does.\<close>

lemma string_token:
  assumes "token_is w tv" "dec_number w = None" "hex_number w = None" "is_name w"
  shows "tv_type tv = TOKEN_TYPE_STRING" "is_name b \<Longrightarrow> token_strcmp (tv_body tv) (token_const b) \<longleftrightarrow> w = b"
  using assms string_token_cmp [OF assms(1-3), of b] by (simp_all add: token_is_def is_name_def TOKEN_STRING_MAX_SIZE_def)

definition env_ok :: "parse_env \<Rightarrow> bool" where
  "env_ok env \<longleftrightarrow> length (pe_buffer env) = TOKEN_STRING_MAX_SIZE \<and>
    length (tc_array (pe_tokens env)) = TOKEN_CONTAINER_MAX_SIZE"

text \<open>The tokens of a line.\<close>

lemma line_tokens:
  assumes "env_ok env" "words_of (\<lambda>c. is_delimiter c None) str = ws" "\<forall>w\<in>set ws. length w < TOKEN_STRING_MAX_SIZE" "length ws \<le> 128"
  obtains tc where "token_split (pe_buffer env) (pe_tokens env) str = Some (STD_E_OK, tc)" "tc_num tc = of_nat (length ws)"
    "\<And>i. i < length ws \<Longrightarrow> token_is (ws ! i) (tok tc i)"
  using split_tokens [OF _ _ assms(2-4), of "pe_buffer env" "pe_tokens env"] assms(1) that by (auto simp: env_ok_def)

section \<open>The last command\<close>

text \<open>
  The check of the mode does not protect against the empty line. Once a command has been
  accepted, a line whose command the mode of the CPU forbids is refused, but the refused command
  replaces the last one, because both are the same variable: the next empty line returns it to be
  run, in any mode.
\<close>

theorem refused_command_repeated:
  assumes "ps_last_command st" "dbg_parse env debug_mode line st = Some (False, st1)"
  shows "\<not> can_execute debug_mode (ps_parse_command st1) \<and> dbg_parse env' debug_mode' [] st1 = Some (True, st1)"
  using assms by (auto simp: dbg_parse_def Let_def split: if_splits bind_splits option.splits)

definition sample_env :: parse_env where
  "sample_env =
    \<lparr>pe_tokens = \<lparr>tc_num = 0, tc_array = replicate 128 \<lparr>tv_type = TOKEN_TYPE_UNKNOWN, tv_body = zero_string\<rparr>\<rparr>,
     pe_buffer = replicate 4096 NUL, pe_tmp = replicate 4096 NUL, pe_core_id_num = 2\<rparr>"

lemma sample_env_ok: "env_ok sample_env"
  by (simp add: env_ok_def sample_env_def TOKEN_STRING_MAX_SIZE_def TOKEN_CONTAINER_MAX_SIZE_def)

text \<open>The line \<open>n\<close> is the command \<open>next\<close>.\<close>

lemma next_line:
  assumes "env_ok env"
  obtains tc where "token_split (pe_buffer env) (pe_tokens env) ''n'' = Some (STD_E_OK, tc)"
    "\<And>arg. parse_first (dbg_cmd_parser_std_table env) arg tc = Some (accept DBG_CMD_STD_ID_NEXT Run_next No_args arg)"
proof -
  have w: "words_of (\<lambda>c. is_delimiter c None) ''n'' = [''n'']" by (simp add: words_of_def is_delimiter_def isspace_def NUL_def)
  obtain tc where tc: "token_split (pe_buffer env) (pe_tokens env) ''n'' = Some (STD_E_OK, tc)" "tc_num tc = 1"
    "token_is ''n'' (tok tc 0)"
    using line_tokens [OF assms w] by (auto simp: TOKEN_STRING_MAX_SIZE_def)
  have num: "dec_number ''n'' = None" "hex_number ''n'' = None" by (simp_all add: number_eval)
  have nm: "is_name ''n''" by (simp add: is_name_def NUL_def)
  note t = string_token [OF tc(3) num nm]
  have "parse_first (dbg_cmd_parser_std_table env) arg tc = Some (accept DBG_CMD_STD_ID_NEXT Run_next No_args arg)" for arg
    by (simp add: dbg_cmd_parser_std_table_def parser_defs command_names tc(2) t is_name_def NUL_def accept_def)
  then show thesis using that tc(1) by blast
qed

theorem refused_command_repeated_witness:
  "\<exists>st1. dbg_parse sample_env False ''n'' \<lparr>ps_parse_command = \<lparr>ex_std_id = DBG_CMD_STD_ID_CONT, ex_original_str = ''c'',
       ex_parsed_args = Cont_args \<lparr>co_type = DBG_CMD_CONT_ALL, co_cont_clocks = 0\<rparr>, ex_run = Run_cont, ex_result_ok = False\<rparr>,
       ps_last_command = True\<rparr> = Some (False, st1) \<and>
     dbg_parse sample_env False [] st1 = Some (True, st1) \<and> ex_run (ps_parse_command st1) = Run_next"
proof -
  let ?st = "\<lparr>ps_parse_command = \<lparr>ex_std_id = DBG_CMD_STD_ID_CONT, ex_original_str = ''c'',
       ex_parsed_args = Cont_args \<lparr>co_type = DBG_CMD_CONT_ALL, co_cont_clocks = 0\<rparr>, ex_run = Run_cont, ex_result_ok = False\<rparr>,
       ps_last_command = True\<rparr>"
  obtain tc where "token_split (pe_buffer sample_env) (pe_tokens sample_env) ''n'' = Some (STD_E_OK, tc)"
    "\<And>arg. parse_first (dbg_cmd_parser_std_table sample_env) arg tc = Some (accept DBG_CMD_STD_ID_NEXT Run_next No_args arg)"
    using next_line [OF sample_env_ok] by blast
  then have "\<exists>st1. dbg_parse sample_env False ''n'' ?st = Some (False, st1) \<and> ex_run (ps_parse_command st1) = Run_next"
    by (simp add: dbg_parse_def Let_def accept_def can_execute_def DBG_CMD_BUFFER_SIZE_def)
  then show ?thesis using refused_command_repeated [of ?st sample_env False "''n''"] by auto
qed

section \<open>What the commands leave alone\<close>

text \<open>The debug modes of the cores are changed by no operation but \<open>dbg_cpu_debug_mode_set\<close>.\<close>

named_theorems keeps_modes \<open>operations that keep the debug modes of the cores\<close>

lemma set_break_keeps [keeps_modes]: "cc_debug_mode (snd (cpuctrl_set_break addr type ctl)) = cc_debug_mode ctl"
  by (simp add: cpuctrl_set_break_def split: option.split)

lemma del_break_keeps: "cpuctrl_del_break i ctl = Some (ok, ctl') \<Longrightarrow> cc_debug_mode ctl' = cc_debug_mode ctl"
  by (auto simp: cpuctrl_del_break_def split: if_splits bind_splits)

lemma del_break_loop_keeps: "del_break_loop type is ctl = Some ctl' \<Longrightarrow> cc_debug_mode ctl' = cc_debug_mode ctl"
  by (induction "is" arbitrary: ctl) (auto split: bind_splits if_splits dest: del_break_keeps)

lemma del_all_break_keeps: "cpuctrl_del_all_break type ctl = Some ctl' \<Longrightarrow> cc_debug_mode ctl' = cc_debug_mode ctl"
  by (auto simp: cpuctrl_del_all_break_def split: bind_splits if_splits dest: del_break_loop_keeps)

lemma info_break_keeps [keeps_modes]: "cc_debug_mode (info_break_loop is ctl) = cc_debug_mode ctl"
  by (induction "is" arbitrary: ctl) (simp_all split: option.split prod.split)

lemma info_watch_keeps [keeps_modes]: "cc_debug_mode (info_watch_loop is ctl) = cc_debug_mode ctl"
  by (induction "is" arbitrary: ctl) (simp_all split: option.split prod.split)

lemma set_data_watch_keeps [keeps_modes]: "cc_debug_mode (snd (cpuctrl_set_data_watch type addr sz ctl)) = cc_debug_mode ctl"
  by (simp add: cpuctrl_set_data_watch_def Let_def split: option.split)

lemma del_data_watch_keeps [keeps_modes]: "cc_debug_mode (snd (cpuctrl_del_data_watch_point i ctl)) = cc_debug_mode ctl"
  by (simp add: cpuctrl_del_data_watch_point_def)

lemma del_all_data_watch_keeps [keeps_modes]: "cc_debug_mode (cpuctrl_del_all_data_watch_points ctl) = cc_debug_mode ctl"
proof -
  have "cc_debug_mode (fold (\<lambda>i st. snd (cpuctrl_del_data_watch_point (of_nat i) st)) is st) = cc_debug_mode st" for "is" st
    by (induction "is" arbitrary: st) (simp_all add: keeps_modes)
  then show ?thesis by (simp add: cpuctrl_del_all_data_watch_points_def)
qed

lemma set_debug_mode_keeps [keeps_modes]: "cc_debug_mode (cpuctrl_set_debug_mode on ctl) = cc_debug_mode ctl"
  by (simp add: cpuctrl_set_debug_mode_def)

lemma set_cont_clocks_keeps: "cpuctrl_set_cont_clocks t c ctl = Some ctl' \<Longrightarrow> cc_debug_mode ctl' = cc_debug_mode ctl"
  by (auto simp: cpuctrl_set_cont_clocks_def split: bind_splits if_splits)

lemma trace_rows_keeps: "fun_trace_rows core label is ctl = Some (rows, ctl') \<Longrightarrow> cc_debug_mode ctl' = cc_debug_mode ctl"
  by (induction "is" arbitrary: ctl rows) (fastforce split: option.splits prod.splits)+

lemma trace_loop_keeps: "func_trace_loop way cores n ctl = Some (rows, ctl') \<Longrightarrow> cc_debug_mode ctl' = cc_debug_mode ctl"
proof (induction cores arbitrary: n ctl rows)
  case (Cons core cores)
  then show ?case
    by (auto simp: Let_def dbg_std_executor_fun_trace_toward_older_def dbg_std_executor_fun_trace_toward_newer_def
        split: bind_splits if_splits dest!: trace_rows_keeps)
qed simp

section \<open>Some core can be debugged\<close>

text \<open>
  What is not modelled keeps the debug modes of the cores: the CPU thread, and the commands that only
  show something.
\<close>

definition modes_kept :: "('d, 't) dbg_env \<Rightarrow> bool" where
  "modes_kept env \<longleftrightarrow>
    (\<forall>bus ctl t. cc_debug_mode (fst (snd (dn_stopped env (bus, ctl, t)))) = cc_debug_mode ctl) \<and>
    (\<forall>run args ctl bus replies ctl' bus'. dn_show env run args (ctl, bus) = Some (replies, ctl', bus') \<longrightarrow>
      cc_debug_mode ctl' = cc_debug_mode ctl)"

text \<open>Some core of the target is in debug mode.\<close>

definition core_debugged :: "('d, 't) dbg_env \<Rightarrow> cpuctrl_state \<Rightarrow> bool" where
  "core_debugged env ctl \<longleftrightarrow> dn_core_id_num env \<le> length (cc_debug_mode ctl) \<and> (\<exists>i<dn_core_id_num env. cc_debug_mode ctl ! i)"

text \<open>The arguments that the parser accepts for \<open>core\<close>.\<close>

definition core_args_ok :: "nat \<Rightarrow> DbgCmdExecutorType \<Rightarrow> bool" where
  "core_args_ok n cmd =
    (case ex_parsed_args cmd of
       Core_args args \<Rightarrow>
        (case cr_type args of
           DBG_CMD_CORE_ALL \<Rightarrow> cr_is_debug_mode args
         | DBG_CMD_CORE_SINGLE \<Rightarrow> unat (cr_core_id args) < n
         | DBG_CMD_CORE_SHOW \<Rightarrow> True)
     | _ \<Rightarrow> True)"

lemma reply_ctl [simp]: "dx_ctl (reply s st) = dx_ctl st"
  by (simp add: reply_def)

lemma thr_control_keeps: "modes_kept env \<Longrightarrow> cc_debug_mode (dx_ctl (thr_control call env st)) = cc_debug_mode (dx_ctl st)"
  by (auto simp: thr_control_def modes_kept_def Let_def split: prod.split dest: spec [of _ "dx_bus st"]) (metis fst_conv snd_conv)

lemma some_debug_core_eq:
  assumes "\<forall>i\<in>set is. i < length (cc_debug_mode ctl) \<and> i < 2 ^ 32"
  shows "some_debug_core is ctl = Some (\<exists>i\<in>set is. cc_debug_mode ctl ! i)"
  using assms by (induction "is") (auto simp: dbg_cpu_debug_mode_get_def index_at_def unat_of_nat take_bit_nat_eq_self)

lemma core_all_loop_true:
  assumes "core_all_loop is True ctl = Some ctl'" "\<forall>i\<in>set is. i < 2 ^ 32"
  shows "length (cc_debug_mode ctl') = length (cc_debug_mode ctl) \<and>
    (\<forall>j. cc_debug_mode ctl ! j \<longrightarrow> j < length (cc_debug_mode ctl) \<longrightarrow> cc_debug_mode ctl' ! j)"
  using assms
proof (induction "is" arbitrary: ctl)
  case (Cons i "is")
  obtain ctl1 where c: "dbg_cpu_debug_mode_set (of_nat i) True ctl = Some ctl1" "core_all_loop is True ctl1 = Some ctl'"
    using Cons.prems(1) by (auto split: option.splits)
  have m: "cc_debug_mode ctl1 = (cc_debug_mode ctl)[i := True]"
    using c(1) Cons.prems(2) by (auto simp: dbg_cpu_debug_mode_set_def update_at_def unat_of_nat take_bit_nat_eq_self split: if_splits)
  have "cc_debug_mode ctl1 ! j" if "cc_debug_mode ctl ! j" "j < length (cc_debug_mode ctl)" for j
    using that by (cases "i = j") (simp_all add: m)
  then show ?case using Cons.IH [OF c(2)] Cons.prems(2) m by simp
qed simp

lemma core_command:
  assumes "core_debugged env (dx_ctl st)" "dn_core_id_num env < 2 ^ 32"
    "core_args_ok (dn_core_id_num env) cmd" "ex_parsed_args cmd = Core_args args" "dbg_std_executor_core env args st = Some st'"
  shows "core_debugged env (dx_ctl st')"
proof (cases "cr_type args")
  case DBG_CMD_CORE_ALL
  then obtain ctl where c: "core_all_loop [0..<dn_core_id_num env] True (dx_ctl st) = Some ctl" "dx_ctl st' = ctl"
    using assms(3-5) by (auto simp: dbg_std_executor_core_def core_args_ok_def)
  then show ?thesis using core_all_loop_true [OF c(1)] assms(1,2) by (fastforce simp: core_debugged_def)
next
  case DBG_CMD_CORE_SINGLE
  let ?ctl = "dx_ctl st" and ?i = "unat (cr_core_id args)" and ?n = "dn_core_id_num env"
  let ?set = "\<lambda>on. ?ctl\<lparr>cc_debug_mode := (cc_debug_mode ?ctl)[?i := on]\<rparr>"
  have i: "?i < ?n" using DBG_CMD_CORE_SINGLE assms(3,4) by (simp add: core_args_ok_def)
  have n: "?n \<le> length (cc_debug_mode ?ctl)" using assms(1) by (simp add: core_debugged_def)
  have upd: "dbg_cpu_debug_mode_set (cr_core_id args) on c = Some (c\<lparr>cc_debug_mode := (cc_debug_mode c)[?i := on]\<rparr>)"
    if "length (cc_debug_mode c) = length (cc_debug_mode ?ctl)" for on c
    using that i n by (simp add: dbg_cpu_debug_mode_set_def update_at_def)
  have "some_debug_core [0..<?n] (?set on) = Some (\<exists>j<?n. (cc_debug_mode ?ctl)[?i := on] ! j)" for on
    using some_debug_core_eq [of "[0..<?n]" "?set on"] n assms(2) by auto
  then have "dx_ctl st' = (if \<exists>j<?n. (cc_debug_mode ?ctl)[?i := cr_is_debug_mode args] ! j then ?set (cr_is_debug_mode args) else ?set True)"
    using assms(5) DBG_CMD_CORE_SINGLE upd by (auto simp: dbg_std_executor_core_def split: if_splits)
  then show ?thesis using i n by (auto simp: core_debugged_def intro: exI [of _ ?i])
next
  case DBG_CMD_CORE_SHOW
  then show ?thesis using assms(1,5) by (simp add: dbg_std_executor_core_def) (metis reply_ctl)
qed

text \<open>Every other command keeps the debug modes.\<close>

lemma break_keeps: "cc_debug_mode (dx_ctl (snd (dbg_std_executor_break env args st))) = cc_debug_mode (dx_ctl st)"
proof -
  have "cc_debug_mode (dx_ctl (snd (set_break_reply addr st))) = cc_debug_mode (dx_ctl st)" for addr
    using set_break_keeps [of addr BREAK_POINT_TYPE_FOREVER "dx_ctl st"] by (auto simp: set_break_reply_def split: prod.split)
  then show ?thesis
    by (simp add: dbg_std_executor_break_def Let_def keeps_modes split: DbgCmdBreakType.split option.split)
qed

lemma watch_data_keeps: "cc_debug_mode (dx_ctl (snd (dbg_std_executor_watch_data args st))) = cc_debug_mode (dx_ctl st)"
proof -
  have s: "cc_debug_mode (snd (dbg_std_executor_watch_data_set args ctl)) = cc_debug_mode ctl" for ctl
    by (simp add: dbg_std_executor_watch_data_set_def Let_def keeps_modes split: option.split prod.split)
  have d: "cc_debug_mode (snd (dbg_std_executor_watch_data_delete args ctl)) = cc_debug_mode ctl" for ctl
    by (simp add: dbg_std_executor_watch_data_delete_def keeps_modes split: DbgCmdDWatchDataType.split)
  show ?thesis
    by (simp add: dbg_std_executor_watch_data_def dbg_std_executor_watch_data_info_def s d keeps_modes split_beta Let_def
        split: DbgCmdDWatchDataType.split)
qed

lemma delete_keeps:
  "dbg_std_executor_delete args st = Some (ok, st') \<Longrightarrow> cc_debug_mode (dx_ctl st') = cc_debug_mode (dx_ctl st)"
  by (auto simp: dbg_std_executor_delete_def del_break_keeps del_all_break_keeps split: DbgCmdDeleteType.splits)

lemma cont_clocks_keeps: "set_cont_clocks t c st = Some st' \<Longrightarrow> cc_debug_mode (dx_ctl st') = cc_debug_mode (dx_ctl st)"
  by (auto simp: set_cont_clocks_def set_cont_clocks_keeps)

lemma on_dx_ctl_keeps: "(\<And>ctl. cc_debug_mode (f ctl) = cc_debug_mode ctl) \<Longrightarrow> cc_debug_mode (dx_ctl (on_dx_ctl f st)) = cc_debug_mode (dx_ctl st)"
  by (simp add: on_dx_ctl_def)

lemma show_keeps:
  "modes_kept env \<Longrightarrow> dn_show env run args (ctl, bus) = Some (replies, ctl', bus') \<Longrightarrow> cc_debug_mode ctl' = cc_debug_mode ctl"
  unfolding modes_kept_def by blast

lemma run_keeps:
  assumes "modes_kept env"
  shows "dbg_std_executor_cont env cargs st = Some st' \<Longrightarrow> cc_debug_mode (dx_ctl st') = cc_debug_mode (dx_ctl st)"
    "dbg_std_executor_next env st = Some st' \<Longrightarrow> cc_debug_mode (dx_ctl st') = cc_debug_mode (dx_ctl st)"
    "dbg_std_executor_return env st = Some st' \<Longrightarrow> cc_debug_mode (dx_ctl st') = cc_debug_mode (dx_ctl st)"
    "cc_debug_mode (dx_ctl (dbg_std_executor_quit env st)) = cc_debug_mode (dx_ctl st)"
    "cc_debug_mode (dx_ctl (dbg_std_executor_exit env st)) = cc_debug_mode (dx_ctl st)"
    "show_command env cmd st = Some st' \<Longrightarrow> cc_debug_mode (dx_ctl st') = cc_debug_mode (dx_ctl st)"
  using assms
  by (auto simp: dbg_std_executor_cont_def dbg_std_executor_next_def dbg_std_executor_return_def dbg_std_executor_quit_def
      dbg_std_executor_exit_def show_command_def show_keeps [OF assms] thr_control_keeps [OF assms] on_dx_ctl_def elaps_log_def
      cpuctrl_set_force_debug_mode_def keeps_modes Let_def split: bind_splits if_splits dest!: cont_clocks_keeps)

lemma other_keeps:
  "dbg_std_executor_memset env margs st = Some st' \<Longrightarrow> cc_debug_mode (dx_ctl st') = cc_debug_mode (dx_ctl st)"
  "cc_debug_mode (dx_ctl (dbg_std_executor_serialin env sargs st)) = cc_debug_mode (dx_ctl st)"
  "cc_debug_mode (dx_ctl (dbg_std_executor_info_cpu env iargs st)) = cc_debug_mode (dx_ctl st)"
  "cc_debug_mode (dx_ctl (dbg_std_executor_view st)) = cc_debug_mode (dx_ctl st)"
  "cc_debug_mode (dx_ctl (dbg_std_executor_intr env n st)) = cc_debug_mode (dx_ctl st)"
  "cc_debug_mode (dx_ctl (dbg_std_executor_parse_error st)) = cc_debug_mode (dx_ctl st)"
  "dbg_std_executor_func_trace env fargs st = Some (rows, st') \<Longrightarrow> cc_debug_mode (dx_ctl st') = cc_debug_mode (dx_ctl st)"
  by (auto simp: dbg_std_executor_memset_def dbg_std_executor_serialin_def dbg_std_executor_info_cpu_def
      dbg_std_executor_view_def dbg_std_executor_intr_def dbg_std_executor_parse_error_def dbg_std_executor_func_trace_def
      trace_loop_keeps split: bind_splits if_splits prod.splits)

lemma run_command_keeps:
  assumes "modes_kept env" "run_command env cmd st = Some (ok, st')"
    "\<And>args. \<not> (ex_run cmd = Run_core \<and> ex_parsed_args cmd = Core_args args)"
  shows "cc_debug_mode (dx_ctl st') = cc_debug_mode (dx_ctl st)"
proof -
  have pairs: "dbg_std_executor_break env bargs st = (ok, st') \<Longrightarrow> cc_debug_mode (dx_ctl st') = cc_debug_mode (dx_ctl st)"
    "dbg_std_executor_watch_data wargs st = (ok, st') \<Longrightarrow> cc_debug_mode (dx_ctl st') = cc_debug_mode (dx_ctl st)" for bargs wargs
    using break_keeps [of env bargs st] watch_data_keeps [of wargs st] by simp_all
  show ?thesis
  proof (cases "ex_run cmd")
    case Run_core
    then show ?thesis using assms by (cases "ex_parsed_args cmd") (auto simp: run_command_def Let_def dest: run_keeps(6) [OF assms(1)])
  qed (cases "ex_parsed_args cmd"; use assms(2) in \<open>auto simp: run_command_def Let_def other_keeps run_keeps [OF assms(1)]
    dest: pairs delete_keeps\<close>)+
qed

lemma run_command_core:
  assumes "modes_kept env" "core_debugged env (dx_ctl st)" "dn_core_id_num env < 2 ^ 32"
    "core_args_ok (dn_core_id_num env) cmd" "run_command env cmd st = Some (ok, st')"
  shows "core_debugged env (dx_ctl st')"
proof (cases "\<exists>args. ex_run cmd = Run_core \<and> ex_parsed_args cmd = Core_args args")
  case True
  then show ?thesis using assms(5) core_command [OF assms(2-4)] by (auto simp: run_command_def)
next
  case False
  then show ?thesis using run_command_keeps [OF assms(1,5)] assms(2) by (simp add: core_debugged_def)
qed

text \<open>The parsers accept no other arguments.\<close>

lemma parse_first_member: "parse_first table arg tc = Some (Some cmd) \<Longrightarrow> \<exists>p\<in>set table. p arg tc = Some (Some cmd)"
  by (induction table) (auto split: option.splits)

definition only_ok :: "nat \<Rightarrow> DbgCmdExecutorType option \<Rightarrow> bool" where
  "only_ok n r \<longleftrightarrow> (\<forall>cmd. r = Some cmd \<longrightarrow> core_args_ok n cmd)"

lemma only_ok_None: "only_ok n None"
  by (simp add: only_ok_def)

lemma only_ok_if: "(b \<Longrightarrow> only_ok n x) \<Longrightarrow> (\<not> b \<Longrightarrow> only_ok n y) \<Longrightarrow> only_ok n (if b then x else y)"
  by simp

lemma only_ok_option: "only_ok n x \<Longrightarrow> (\<And>a. only_ok n (f a)) \<Longrightarrow> only_ok n (case m of None \<Rightarrow> x | Some a \<Rightarrow> f a)"
  by (cases m) simp_all

lemma only_ok_accept: "core_args_ok n (arg\<lparr>ex_parsed_args := args\<rparr>) \<Longrightarrow> only_ok n (accept std_id run args arg)"
  by (simp add: only_ok_def accept_def core_args_ok_def)

lemmas only_ok_intros = only_ok_None only_ok_if only_ok_option only_ok_accept

lemma parse_core_ok: "unat (pe_core_id_num env) = n \<Longrightarrow> only_ok n (dbg_parse_core (pe_core_id_num env) arg tc)"
  unfolding dbg_parse_core_def Let_def
  by (intro only_ok_intros) (auto simp: core_args_ok_def word_le_nat_alt)

lemma parse_other_ok:
  "only_ok n (dbg_parse_break arg tc)" "only_ok n (dbg_parse_delete arg tc)" "only_ok n (dbg_parse_intr arg tc)"
  "only_ok n (dbg_parse_watch_data arg tc)" "only_ok n (dbg_parse_cont arg tc)" "only_ok n (dbg_parse_print arg tc)"
  "only_ok n (dbg_parse_memset arg tc)" "only_ok n (dbg_parse_info_cpu arg tc)" "only_ok n (dbg_parse_func_trace arg tc)"
  "only_ok n (dbg_parse_data_access_info arg tc)" "only_ok n (dbg_parse_help arg tc)"
  "only_ok n (parse_word names std_id run No_args arg tc)"
  unfolding parser_defs Let_def by (intro only_ok_intros; simp add: core_args_ok_def)+

lemma parse_serialin_ok: "dbg_parse_serialin tmp arg tc = Some r \<Longrightarrow> only_ok n r"
  by (auto simp: dbg_parse_serialin_def only_ok_def accept_def core_args_ok_def split: if_splits)

lemma parse_core_args:
  assumes "parse_first (dbg_cmd_parser_std_table env) arg tc = Some (Some cmd)" "unat (pe_core_id_num env) = n"
  shows "core_args_ok n cmd"
proof -
  obtain p where p: "p \<in> set (dbg_cmd_parser_std_table env)" "p arg tc = Some (Some cmd)" using parse_first_member [OF assms(1)] by blast
  have "list_all (\<lambda>p. \<forall>r. p arg tc = Some r \<longrightarrow> only_ok n r) (dbg_cmd_parser_std_table env)"
    unfolding dbg_cmd_parser_std_table_def Let_def
    by (simp add: parse_core_ok [OF assms(2)] parse_other_ok parse_serialin_ok dbg_parse_elaps_def dbg_parse_next_def
        dbg_parse_return_def dbg_parse_view_def dbg_parse_quit_def dbg_parse_exit_def dbg_parse_back_trace_def
        dbg_parse_profile_def dbg_parse_list_def)
  then have "only_ok n (Some cmd)" using p unfolding list_all_iff by blast
  then show ?thesis by (simp add: only_ok_def)
qed

section \<open>The invariant\<close>

lemma dbg_parse_core_args:
  assumes "dbg_parse env debug_mode line ps = Some (found, ps')" "unat (pe_core_id_num env) = n" "core_args_ok n (ps_parse_command ps)"
  shows "core_args_ok n (ps_parse_command ps')"
proof -
  have "core_args_ok n (cmd\<lparr>ex_original_str := str, ex_std_id := i, ex_run := r, ex_parsed_args := No_args\<rparr>)" for cmd str i r
    by (simp add: core_args_ok_def)
  then show ?thesis using assms
    by (auto simp: dbg_parse_def Let_def parse_core_args split: if_splits bind_splits option.splits)
qed

definition session_inv :: "('d, 't) dbg_env \<Rightarrow> parser_state \<times> ('d, 't) dbg_state \<Rightarrow> bool" where
  "session_inv env s \<longleftrightarrow> core_args_ok (dn_core_id_num env) (ps_parse_command (fst s)) \<and> core_debugged env (dx_ctl (snd s))"

lemma cui_line_inv:
  assumes "session_inv env s" "modes_kept env" "dn_core_id_num env < 2 ^ 32" "unat (pe_core_id_num penv) = dn_core_id_num env"
    "cui_line penv env line s = Some s'"
  shows "session_inv env s'"
proof -
  obtain ps st where s: "s = (ps, st)" by (cases s)
  obtain found ps1 where p: "dbg_parse penv (cpuctrl_is_debug_mode (dx_ctl st)) line ps = Some (found, ps1)"
    using assms(5) s by (auto simp: cui_line_def split: bind_splits)
  have ok: "core_args_ok (dn_core_id_num env) (ps_parse_command ps1)"
    using dbg_parse_core_args [OF p assms(4)] assms(1) s by (simp add: session_inv_def)
  then have ok': "core_args_ok (dn_core_id_num env) ((ps_parse_command ps1)\<lparr>ex_result_ok := b\<rparr>)" for b
    by (simp add: core_args_ok_def)
  have d: "core_debugged env (dx_ctl st)" using assms(1) s by (simp add: session_inv_def)
  show ?thesis using assms(5) s p ok ok' d run_command_core [OF assms(2) d assms(3) ok]
    by (auto simp: cui_line_def session_inv_def split: if_splits bind_splits)
qed

text \<open>
  C29: no sequence of command lines leaves every core out of debug mode. Whatever lines are read,
  in whatever mode, as long as a core of the target is in debug mode at the start and the parts
  that are not modelled do not touch the debug modes, some core is in debug mode at the end: the
  command that would switch the last one off is undone.
\<close>

theorem some_core_stays_debugged:
  assumes "modes_kept env" "dn_core_id_num env < 2 ^ 32" "\<forall>(penv, line)\<in>set lines. unat (pe_core_id_num penv) = dn_core_id_num env"
    "ex_parsed_args (ps_parse_command ps) = No_args" "core_debugged env (dx_ctl st)" "do_cui lines env (ps, st) = Some (ps', st')"
  shows "core_debugged env (dx_ctl st')"
proof -
  have inv: "session_inv env s \<Longrightarrow> do_cui lines env s = Some s' \<Longrightarrow> session_inv env s'" for s s'
    using assms(3)
  proof (induction lines arbitrary: s)
    case (Cons l lines)
    obtain penv line where l: "l = (penv, line)" by (cases l)
    have n: "unat (pe_core_id_num penv) = dn_core_id_num env" "\<forall>(penv, line)\<in>set lines. unat (pe_core_id_num penv) = dn_core_id_num env"
      using Cons.prems(3) l by auto
    show ?case
    proof (cases "dx_exited (snd s)")
      case True
      then show ?thesis using Cons.prems l by simp
    next
      case False
      then obtain s1 where s1: "cui_line penv env line s = Some s1" "do_cui lines env s1 = Some s'"
        using Cons.prems(2) l by (auto split: option.splits)
      show ?thesis by (rule Cons.IH [OF cui_line_inv [OF Cons.prems(1) assms(1,2) n(1) s1(1)] s1(2) n(2)])
    qed
  qed simp
  have "session_inv env (ps, st)" using assms(4,5) by (simp add: session_inv_def core_args_ok_def)
  from inv [OF this assms(6)] show ?thesis by (simp add: session_inv_def)
qed

definition sample_dbg_env :: "(unit, unit) dbg_env" where
  "sample_dbg_env =
    \<lparr>dn_mpu = example_env, dn_core_id_num = 2, dn_linkagename = (\<lambda>_ _. None), dn_file_addr = (\<lambda>_ _. None),
     dn_retaddr = (\<lambda>_ _. 0), dn_raise_intr = (\<lambda>_ t. t), dn_serial_in = (\<lambda>_ _ t. (STD_E_OK, t)), dn_stopped = (\<lambda>m. m),
     dn_show = (\<lambda>_ _ (ctl, bus). Some ([''OK''], ctl, bus))\<rparr>"

definition sample_dbg :: "(unit, unit) dbg_state" where
  "sample_dbg =
    \<lparr>dx_ctl = (cpuctrl_static 2 example_symbols)\<lparr>cc_debug_mode := [True, False]\<rparr>,
     dx_bus = \<lparr>bus_mpu = example_map, bus_access_log_size = 0, bus_access_log = []\<rparr>, dx_target = (), dx_view_mode = False,
     dx_print_mode = False, dx_thr_calls = [], dx_replies = [], dx_exited = False\<rparr>"

definition sample_parser :: parser_state where
  "sample_parser =
    \<lparr>ps_parse_command = \<lparr>ex_std_id = DBG_CMD_STD_ID_PARSE_ERROR, ex_original_str = [], ex_parsed_args = No_args,
       ex_run = Run_parse_error, ex_result_ok = False\<rparr>, ps_last_command = False\<rparr>"

text \<open>The line \<open>core 0 f\<close> switches the debug mode of core 0 off.\<close>

lemma core_line:
  obtains tc where "token_split (pe_buffer sample_env) (pe_tokens sample_env) ''core 0 f'' = Some (STD_E_OK, tc)"
    "\<And>arg. parse_first (dbg_cmd_parser_std_table sample_env) arg tc = Some (accept DBG_CMD_STD_ID_CORE Run_core
       (Core_args \<lparr>cr_type = DBG_CMD_CORE_SINGLE, cr_core_id = 0, cr_is_debug_mode = False\<rparr>) arg)"
proof -
  have w: "words_of (\<lambda>c. is_delimiter c None) ''core 0 f'' = [''core'', ''0'', ''f'']"
    by (simp add: words_of_def is_delimiter_def isspace_def NUL_def)
  have all: "\<forall>v\<in>set [''core'', ''0'', ''f'']. length v < TOKEN_STRING_MAX_SIZE" "length [''core'', ''0'', ''f''] \<le> 128"
    by (simp_all add: TOKEN_STRING_MAX_SIZE_def)
  obtain tc where tc: "token_split (pe_buffer sample_env) (pe_tokens sample_env) ''core 0 f'' = Some (STD_E_OK, tc)"
    "tc_num tc = of_nat (length [''core'', ''0'', ''f''])"
    "\<And>i. i < length [''core'', ''0'', ''f''] \<Longrightarrow> token_is ([''core'', ''0'', ''f''] ! i) (tok tc i)"
    using line_tokens [OF sample_env_ok w all] by blast
  have num: "tc_num tc = 3" using tc(2) by simp
  have t: "token_is ''core'' (tok tc 0)" "token_is ''0'' (tok tc 1)" "token_is ''f'' (tok tc 2)"
    using tc(3) [of 0] tc(3) [of 1] tc(3) [of 2] by simp_all
  have n: "dec_number ''core'' = None" "hex_number ''core'' = None" "dec_number ''0'' = Some 0" "dec_number ''f'' = None"
    "hex_number ''f'' = None" by (simp_all add: number_eval)
  have nm: "is_name ''core''" "is_name ''f''" by (simp_all add: is_name_def NUL_def)
  note t0 = string_token [OF t(1) n(1,2) nm(1)] and t2 = string_token [OF t(3) n(4,5) nm(2)]
  have t1: "tok_type tc 1 = TOKEN_TYPE_VALUE_DEC" "tok_value tc 1 = 0" using t(2) n(3) by (simp_all add: token_is_def)
  have "parse_first (dbg_cmd_parser_std_table sample_env) arg tc = Some (accept DBG_CMD_STD_ID_CORE Run_core
       (Core_args \<lparr>cr_type = DBG_CMD_CORE_SINGLE, cr_core_id = 0, cr_is_debug_mode = False\<rparr>) arg)" for arg
    by (simp add: dbg_cmd_parser_std_table_def parser_defs command_names num t0 t1 [unfolded One_nat_def] t2 is_name_def NUL_def accept_def sample_env_def)
  then show thesis using that tc(1) by blast
qed

theorem some_core_stays_debugged_witness:
  "\<exists>ps' st'. do_cui [(sample_env, ''core 0 f'')] sample_dbg_env (sample_parser, sample_dbg) = Some (ps', st') \<and>
     dx_replies st' = [''NG''] \<and> core_debugged sample_dbg_env (dx_ctl st')"
proof -
  have "\<exists>ps' st'. do_cui [(sample_env, ''core 0 f'')] sample_dbg_env (sample_parser, sample_dbg) = Some (ps', st') \<and> dx_replies st' = [''NG'']"
    by (rule core_line)
      (simp add: cui_line_def dbg_parse_def Let_def accept_def can_execute_def DBG_CMD_BUFFER_SIZE_def run_command_def
        dbg_std_executor_core_def dbg_cpu_debug_mode_set_def dbg_cpu_debug_mode_get_def update_at_def index_at_def reply_def
        sample_parser_def sample_dbg_def sample_dbg_env_def cpuctrl_static_def cpuctrl_is_debug_mode_def numeral_2_eq_2)
  then obtain ps' st' where r: "do_cui [(sample_env, ''core 0 f'')] sample_dbg_env (sample_parser, sample_dbg) = Some (ps', st')"
    "dx_replies st' = [''NG'']" by blast
  have h: "modes_kept sample_dbg_env" "dn_core_id_num sample_dbg_env < 2 ^ 32" "core_debugged sample_dbg_env (dx_ctl sample_dbg)"
    "\<forall>(penv, line)\<in>set [(sample_env, ''core 0 f'')]. unat (pe_core_id_num penv) = dn_core_id_num sample_dbg_env"
    "ex_parsed_args (ps_parse_command sample_parser) = No_args"
    by (auto simp: modes_kept_def core_debugged_def sample_env_def sample_dbg_env_def sample_dbg_def sample_parser_def intro: exI [of _ 0])
  show ?thesis using some_core_stays_debugged [OF h(1,2,4,5,3) r(1)] r by blast
qed

end
