(* ===== verification/DevConfig.thy ===== *)
theory DevConfig
  imports Token Loader Bus SymbolOps
begin

text \<open>
  The configuration files of src/src/main/cpuemu.cpp: the device configuration
  (\<open>cpuemu_load_devcfg\<close> and the getters), the memory configuration
  (\<open>cpuemu_load_memmap\<close>) and the overrides of global variables
  (\<open>cpuemu_set_debug_romdata\<close>), with \<open>file_getline\<close> of src/src/lib/file.c.
  \<^item> The text of a file is a parameter that maps paths to contents (\<open>None\<close> when
    \<open>fopen\<close> fails); \<open>getenv\<close>, mapped files and shared libraries are parameters too.
  \<^item> The token container is a static variable that keeps its contents between lines; the local
    buffer of the splitter has the contents \<open>bufs k\<close> at the \<open>k\<close>-th line, and a newly
    allocated entry of the memory map the contents \<open>fresh k\<close>.
  \<^item> \<open>None\<close> is undefined behaviour or a failed \<open>ASSERT\<close>.
\<close>

section \<open>Lines of a file\<close>

definition newline :: char where "newline = CHR 0x0A"

fun getline_loop :: "nat \<Rightarrow> string \<Rightarrow> string \<times> string" where
  "getline_loop 0 text = ([], text)"
| "getline_loop (Suc k) [] = ([], [])"
| "getline_loop (Suc k) (c # cs) =
    (if c = newline then ([], cs) else case getline_loop k cs of (line, rest) \<Rightarrow> (c # line, rest))"

text \<open>The line, and the text that is left in the file.\<close>

definition file_getline :: "nat \<Rightarrow> string \<Rightarrow> string \<times> string" where
  "file_getline sz text = getline_loop (sz - 1) text"

lemma getline_loop_shorter: "getline_loop k text = (line, rest) \<Longrightarrow> length line + length rest \<le> length text"
  by (induction k "text" arbitrary: line rule: getline_loop.induct) (fastforce split: if_splits prod.splits)+

lemma file_getline_shorter: "file_getline sz text = (line, rest) \<Longrightarrow> line \<noteq> [] \<Longrightarrow> length rest < length text"
  using getline_loop_shorter [of "sz - 1" "text" line rest] by (cases line) (auto simp: file_getline_def)

section \<open>Device configuration\<close>

definition CPUEMU_DEVCFG_PARAM_MAXNUM :: nat where "CPUEMU_DEVCFG_PARAM_MAXNUM = 128"

record devcfg_param =
  dp_key :: TokenValueType
  dp_value :: TokenValueType
  dp_second_value :: TokenValueType
  dp_value_num :: uint32

record CpuEmuDevCfgType =
  dc_param_num :: uint32
  dc_param :: "devcfg_param list"

record devcfg_state =
  dv_cfg :: CpuEmuDevCfgType
  dv_tokens :: TokenContainerType
  dv_filepath :: TokenStringType

definition add_param :: "TokenContainerType \<Rightarrow> CpuEmuDevCfgType \<Rightarrow> CpuEmuDevCfgType option" where
  "add_param tc cfg = do {
    p \<leftarrow> index_at (dc_param cfg) (unat (dc_param_num cfg));
    ps \<leftarrow> update_at (dc_param cfg) (unat (dc_param_num cfg))
      \<lparr>dp_key = tok tc 0, dp_value = tok tc 1,
       dp_second_value = (if tc_num tc = 3 then tok tc 2 else dp_second_value p),
       dp_value_num = tc_num tc - 1\<rparr>;
    Some \<lparr>dc_param_num = dc_param_num cfg + 1, dc_param = ps\<rparr>
  }"

text \<open>
  The body of the loop for one line: the code, whether the loop goes on, and the state. A line with
  a wrong number of words and a line too many end the loop with the code of the splitter.
\<close>

definition devcfg_line :: "string \<Rightarrow> string \<Rightarrow> devcfg_state \<Rightarrow> (Std_ReturnType \<times> bool \<times> devcfg_state) option" where
  "devcfg_line buf line st = do {
    (err, tc) \<leftarrow> token_split buf (dv_tokens st) line;
    let st1 = st\<lparr>dv_tokens := tc\<rparr>;
    if err \<noteq> STD_E_OK then Some (err, False, st1)
    else if tc_num tc \<noteq> 2 \<and>
      \<not> (tc_num tc = 3 \<and> c_string (ts_str (tok_str tc 0)) = ''DEVICE_CONFIG_HOST_FUNCTION'')
    then Some (err, False, st1)
    else if unat (dc_param_num (dv_cfg st)) \<ge> CPUEMU_DEVCFG_PARAM_MAXNUM then Some (err, False, st1)
    else map_option (\<lambda>cfg. (err, True, st1\<lparr>dv_cfg := cfg\<rparr>)) (add_param tc (dv_cfg st))
  }"

function devcfg_loop ::
  "(nat \<Rightarrow> string) \<Rightarrow> nat \<Rightarrow> string \<Rightarrow> devcfg_state \<Rightarrow> (Std_ReturnType \<times> devcfg_state) option" where
  "devcfg_loop bufs k text st =
    (let (line, rest) = file_getline 4096 text
     in if line = [] then Some (STD_E_OK, st)
        else case devcfg_line (bufs k) line st of
               None \<Rightarrow> None
             | Some (err, again, st1) \<Rightarrow> if again then devcfg_loop bufs (Suc k) rest st1 else Some (err, st1))"
  by pat_completeness auto
termination
  by (relation "measure (\<lambda>(bufs, k, text, st). length text)") (auto dest: file_getline_shorter [OF sym])

definition cpuemu_load_devcfg ::
  "(string \<Rightarrow> string option) \<Rightarrow> (nat \<Rightarrow> string) \<Rightarrow> string \<Rightarrow> devcfg_state \<Rightarrow> (Std_ReturnType \<times> devcfg_state) option" where
  "cpuemu_load_devcfg files bufs path st = do {
    let st1 = st\<lparr>dv_cfg := (dv_cfg st)\<lparr>dc_param_num := 0\<rparr>\<rparr>;
    (ok, filepath) \<leftarrow> token_string_set (dv_filepath st) path;
    let st2 = st1\<lparr>dv_filepath := filepath\<rparr>;
    if \<not> ok then Some (STD_E_INVALID, st2)
    else case files (c_string (ts_str filepath)) of
           None \<Rightarrow> Some (STD_E_NOENT, st2)
         | Some text \<Rightarrow> devcfg_loop bufs 0 text st2
  }"

section \<open>Getters\<close>

text \<open>Whether an entry has a value of the type and the key; the key is compared as a string.\<close>

definition param_is :: "TokenEnumType \<Rightarrow> string \<Rightarrow> devcfg_param \<Rightarrow> bool" where
  "param_is type key p \<longleftrightarrow> tv_type (dp_value p) = type \<and> token_strcmp (tv_body (dp_key p)) (token_const key)"

definition find_param :: "(devcfg_param \<Rightarrow> bool) \<Rightarrow> CpuEmuDevCfgType \<Rightarrow> nat option" where
  "find_param P cfg = find_first P (take (unat (dc_param_num cfg)) (dc_param cfg))"

text \<open>The value, or \<open>None\<close> for \<open>STD_E_NOENT\<close>.\<close>

definition cpuemu_get_devcfg_value :: "string \<Rightarrow> CpuEmuDevCfgType \<Rightarrow> uint32 option" where
  "cpuemu_get_devcfg_value key cfg =
    map_option (\<lambda>i. tv_value (dp_value (dc_param cfg ! i))) (find_param (param_is TOKEN_TYPE_VALUE_DEC key) cfg)"

definition cpuemu_get_devcfg_value_hex :: "string \<Rightarrow> CpuEmuDevCfgType \<Rightarrow> uint32 option" where
  "cpuemu_get_devcfg_value_hex key cfg =
    map_option (\<lambda>i. tv_value (dp_value (dc_param cfg ! i))) (find_param (param_is TOKEN_TYPE_VALUE_HEX key) cfg)"

text \<open>
  The environment reference in braces is replaced together with the text before it. A closing brace
  before the opening one gives \<open>memcpy\<close> a negative length, and a result that does not fit
  is terminated behind the buffer. The new length counts the terminator.
\<close>

definition cpuemu_env_parse_devcfg_string :: "(string \<Rightarrow> string option) \<Rightarrow> TokenStringType \<Rightarrow> TokenStringType option" where
  "cpuemu_env_parse_devcfg_string getenv strp =
    (let s = c_string (ts_str strp)
     in case (strchr s (CHR ''{''), strchr s (CHR ''}'')) of
          (Some start, Some end') \<Rightarrow>
            if end' = start + 1 then Some strp
            else if end' < start then None
            else (case getenv (take (end' - start - 1) (drop (start + 1) s)) of
                    None \<Rightarrow> Some strp
                  | Some ep \<Rightarrow>
                      (let out_name = ep @ drop (end' + 1) s
                       in if length out_name \<ge> TOKEN_STRING_MAX_SIZE then None
                          else map_option (\<lambda>str. \<lparr>ts_len = of_nat (length out_name + 1), ts_str = str\<rparr>)
                                 (buf_write 0 (out_name @ [NUL]) (ts_str strp))))
        | _ \<Rightarrow> Some strp)"

definition expand_value :: "(string \<Rightarrow> string option) \<Rightarrow> TokenValueType \<Rightarrow> TokenValueType option" where
  "expand_value getenv tv = map_option (\<lambda>str. tv\<lparr>tv_body := str\<rparr>) (cpuemu_env_parse_devcfg_string getenv (tv_body tv))"

definition cpuemu_get_devcfg_string ::
  "(string \<Rightarrow> string option) \<Rightarrow> string \<Rightarrow> CpuEmuDevCfgType \<Rightarrow> (string option \<times> CpuEmuDevCfgType) option" where
  "cpuemu_get_devcfg_string getenv key cfg =
    (case find_param (param_is TOKEN_TYPE_STRING key) cfg of
       None \<Rightarrow> Some (None, cfg)
     | Some i \<Rightarrow> do {
         let p = dc_param cfg ! i;
         v \<leftarrow> expand_value getenv (dp_value p);
         Some (Some (c_string (ts_str (tv_body v))), cfg\<lparr>dc_param := (dc_param cfg)[i := p\<lparr>dp_value := v\<rparr>]\<rparr>)
       })"

definition is_pair :: "string \<Rightarrow> devcfg_param \<Rightarrow> bool" where
  "is_pair key p \<longleftrightarrow> dp_value_num p = 2 \<and> tv_type (dp_second_value p) = TOKEN_TYPE_STRING \<and> param_is TOKEN_TYPE_STRING key p"

definition cpuemu_get_devcfg_string_pair_at ::
  "(string \<Rightarrow> string option) \<Rightarrow> string \<Rightarrow> uint32 \<Rightarrow> CpuEmuDevCfgType \<Rightarrow> ((string \<times> string) option \<times> CpuEmuDevCfgType) option" where
  "cpuemu_get_devcfg_string_pair_at getenv key occurrence cfg =
    (let matching = filter (\<lambda>i. is_pair key (dc_param cfg ! i)) [0..<unat (dc_param_num cfg)]
     in if unat occurrence \<ge> length matching then Some (None, cfg)
        else do {
          let i = matching ! unat occurrence;
          let p = dc_param cfg ! i;
          v \<leftarrow> expand_value getenv (dp_value p);
          w \<leftarrow> expand_value getenv (dp_second_value p);
          Some (Some (c_string (ts_str (tv_body v)), c_string (ts_str (tv_body w))),
            cfg\<lparr>dc_param := (dc_param cfg)[i := p\<lparr>dp_value := v, dp_second_value := w\<rparr>]\<rparr>)
        })"

section \<open>Memory configuration\<close>

text \<open>
  What the operating system provides: whether files can be mapped, the size of a file that can be
  opened, its mapping, whether external devices are built in, and the device of a shared library with
  its header (\<open>None\<close> when it cannot be opened, \<open>Some None\<close> without the symbol).
\<close>

record AthrillExDeviceHeaderType =
  xh_magicno :: uint32
  xh_version :: uint32
  xh_memory_size :: int

definition ATHRILL_EXTERNAL_DEVICE_MAGICNO :: uint32 where "ATHRILL_EXTERNAL_DEVICE_MAGICNO = 0xBEEFDEAD"
definition ATHRILL_EXTERNAL_DEVICE_VERSION :: uint32 where "ATHRILL_EXTERNAL_DEVICE_VERSION = 0x00000004"

record memmap_env =
  mv_files :: "string \<Rightarrow> string option"
  mv_getenv :: "string \<Rightarrow> string option"
  mv_bufs :: "nat \<Rightarrow> string"
  mv_fresh :: "nat \<Rightarrow> MemoryAddressType"
  mv_supports_mapped_memory :: bool
  mv_mapped_file_size :: "string \<Rightarrow> uint64 option"
  mv_map_open_file :: "string \<Rightarrow> uint32 \<Rightarrow> hptr option"
  mv_exdev_enable :: bool
  mv_library :: "string \<Rightarrow> (AthrillExDeviceHeaderType \<times> AthrillExDeviceType) option option"

record memmap_state =
  mt_map :: MemoryAddressMapType
  mt_tokens :: TokenContainerType
  mt_filepath :: TokenStringType
  mt_mmap_infos :: "(string \<times> AthrillAddrType) list"

definition analize_memmap_arguments :: "TokenContainerType \<Rightarrow> MemoryAddressType \<Rightarrow> MemoryAddressType" where
  "analize_memmap_arguments token memp =
    (if tc_num token \<le> 3 then memp\<lparr>ma_region_executable := False, ma_region_elf_load_from_vaddr := False\<rparr>
     else let flags = take 2 (ts_str (tok_str token 3))
          in memp\<lparr>ma_region_executable := CHR ''X'' \<in> set flags,
                  ma_region_elf_load_from_vaddr := CHR ''V'' \<in> set flags\<rparr>)"

definition add_rom :: "MemoryAddressType \<Rightarrow> memmap_state \<Rightarrow> memmap_state" where
  "add_rom m st = st\<lparr>mt_map := (mt_map st)\<lparr>mm_rom := mm_rom (mt_map st) @ [m]\<rparr>\<rparr>"

definition add_ram :: "MemoryAddressType \<Rightarrow> memmap_state \<Rightarrow> memmap_state" where
  "add_ram m st = st\<lparr>mt_map := (mt_map st)\<lparr>mm_ram := mm_ram (mt_map st) @ [m]\<rparr>\<rparr>"

definition add_dev :: "MemoryAddressType \<Rightarrow> memmap_state \<Rightarrow> memmap_state" where
  "add_dev m st = st\<lparr>mt_map := (mt_map st)\<lparr>mm_dev := mm_dev (mt_map st) @ [m]\<rparr>\<rparr>"

text \<open>The branches of \<open>ROM\<close> and \<open>RAM\<close>.\<close>

definition plain_region :: "MemoryAddressImplType \<Rightarrow> MemoryAddressType \<Rightarrow> TokenContainerType \<Rightarrow> MemoryAddressType" where
  "plain_region type memp tc =
    (analize_memmap_arguments tc (memp\<lparr>ma_type := type, ma_size := tok_value tc 2, ma_mmap_addr := None\<rparr>))
      \<lparr>ma_start := tok_value tc 1\<rparr>"

text \<open>The branch of \<open>MMAP\<close>; the path is expanded in the container.\<close>

definition memmap_mmap :: "memmap_env \<Rightarrow> nat \<Rightarrow> memmap_state \<Rightarrow> memmap_state option" where
  "memmap_mmap env k st = do {
    let tc = mt_tokens st;
    path \<leftarrow> expand_value (mv_getenv env) (tok tc 2);
    tc1 \<leftarrow> update_value (\<lambda>_. path) 2 tc;
    let filepath = c_string (ts_str (tv_body path));
    file_size \<leftarrow> mv_mapped_file_size env filepath;
    let pages = ucast (((file_size + 8191) div 8192) * 8);
    let sz = (if pages = 0 then 8 else pages);
    addr \<leftarrow> mv_map_open_file env filepath (sz * 1024);
    let memp = analize_memmap_arguments tc1
      ((mv_fresh env k)\<lparr>ma_type := MemoryAddressImplType_MMAP, ma_size := sz, ma_mmap_addr := Some addr\<rparr>);
    Some (add_ram (memp\<lparr>ma_start := tok_value tc1 1\<rparr>)
      (st\<lparr>mt_tokens := tc1, mt_mmap_infos := mt_mmap_infos st @ [(filepath, tok_value tc1 1)]\<rparr>))
  }"

definition MPU_MALLOC_REGION_UNIT_GROUP_NUM :: nat where "MPU_MALLOC_REGION_UNIT_GROUP_NUM = 10"

text \<open>The branch of \<open>MALLOC\<close>: an invalid size ends the loop, with the entry left incomplete.\<close>

definition memmap_malloc :: "memmap_env \<Rightarrow> nat \<Rightarrow> memmap_state \<Rightarrow> Std_ReturnType \<times> bool \<times> memmap_state" where
  "memmap_malloc env k st =
    (let tc = mt_tokens st;
         memp = (mv_fresh env k)\<lparr>ma_type := MemoryAddressImplType_MALLOC, ma_size := tok_value tc 2, ma_mmap_addr := None\<rparr>
     in if ma_size memp mod (of_nat MPU_MALLOC_REGION_UNIT_SIZE * of_nat MPU_MALLOC_REGION_UNIT_GROUP_NUM) \<noteq> 0
        then (STD_E_INVALID, False, add_ram memp st)
        else (STD_E_OK, True, add_ram (plain_region MemoryAddressImplType_MALLOC memp tc) st))"

text \<open>The branch of \<open>DEV\<close>: a library that is not valid is skipped.\<close>

definition memmap_dev :: "memmap_env \<Rightarrow> nat \<Rightarrow> memmap_state \<Rightarrow> memmap_state" where
  "memmap_dev env k st =
    (let tc = mt_tokens st
     in case mv_library env (c_string (ts_str (tok_str tc 2))) of
          Some (Some (header, dev)) \<Rightarrow>
            if xh_magicno header \<noteq> ATHRILL_EXTERNAL_DEVICE_MAGICNO then st
            else if xh_version header \<noteq> ATHRILL_EXTERNAL_DEVICE_VERSION then st
            else if xh_memory_size header \<le> 0 then st
            else add_dev ((mv_fresh env k)\<lparr>ma_type := MemoryAddressImplType_DEV, ma_extdev_handle := Some dev,
                   ma_size := word_of_int (xh_memory_size header), ma_mmap_addr := None, ma_start := tok_value tc 1\<rparr>) st
        | _ \<Rightarrow> st)"

definition memmap_line :: "memmap_env \<Rightarrow> nat \<Rightarrow> string \<Rightarrow> memmap_state \<Rightarrow> (Std_ReturnType \<times> bool \<times> memmap_state) option" where
  "memmap_line env k line st = do {
    (err, tc) \<leftarrow> token_split (mv_bufs env k) (mt_tokens st) line;
    let st1 = st\<lparr>mt_tokens := tc\<rparr>;
    let kind = c_string (ts_str (tok_str tc 0));
    if err \<noteq> STD_E_OK then Some (err, False, st1)
    else if tc_num tc \<noteq> 3 \<and> tc_num tc \<noteq> 4 then Some (err, False, st1)
    else if kind = ''ROM''
    then Some (err, True, add_rom (plain_region MemoryAddressImplType_ROM (mv_fresh env k) tc) st1)
    else if kind = ''RAM''
    then Some (err, True, add_ram (plain_region MemoryAddressImplType_RAM (mv_fresh env k) tc) st1)
    else if kind = ''MMAP''
    then (if mv_supports_mapped_memory env then map_option (\<lambda>st2. (err, True, st2)) (memmap_mmap env k st1)
          else Some (err, True, st1))
    else if kind = ''MALLOC''
    then (if mv_supports_mapped_memory env then Some (memmap_malloc env k st1) else Some (err, True, st1))
    else if kind = ''DEV'' \<and> mv_exdev_enable env then Some (err, True, memmap_dev env k st1)
    else Some (err, True, st1)
  }"

function memmap_loop :: "memmap_env \<Rightarrow> nat \<Rightarrow> string \<Rightarrow> memmap_state \<Rightarrow> (Std_ReturnType \<times> memmap_state) option" where
  "memmap_loop env k text st =
    (let (line, rest) = file_getline 4096 text
     in if line = [] then Some (STD_E_OK, st)
        else case memmap_line env k line st of
               None \<Rightarrow> None
             | Some (err, again, st1) \<Rightarrow> if again then memmap_loop env (Suc k) rest st1 else Some (err, st1))"
  by pat_completeness auto
termination
  by (relation "measure (\<lambda>(env, k, text, st). length text)") (auto dest: file_getline_shorter [OF sym])

definition cpuemu_load_memmap :: "memmap_env \<Rightarrow> string \<Rightarrow> memmap_state \<Rightarrow> (Std_ReturnType \<times> memmap_state) option" where
  "cpuemu_load_memmap env path st = do {
    let st1 = st\<lparr>mt_map := \<lparr>mm_rom = [], mm_ram = [], mm_dev = []\<rparr>\<rparr>;
    (ok, filepath) \<leftarrow> token_string_set (mt_filepath st) path;
    let st2 = st1\<lparr>mt_filepath := filepath\<rparr>;
    if \<not> ok then Some (STD_E_INVALID, st2)
    else case mv_files env (c_string (ts_str filepath)) of
           None \<Rightarrow> Some (STD_E_NOENT, st2)
         | Some text \<Rightarrow> memmap_loop env 0 text st2
  }"

section \<open>Overrides of global variables\<close>

record 'd rom_state =
  ro_cfg :: CpuEmuDevCfgType
  ro_tokens :: TokenContainerType
  ro_symbols :: symbol_state
  ro_bus :: "'d bus_state"

text \<open>
  One override: whether the loop goes on, and the state. The value is written to the host memory
  of the variable with the size that the symbol has; other sizes are skipped.
\<close>

definition rom_define ::
  "'d mpu_env \<Rightarrow> (string \<Rightarrow> string option) \<Rightarrow> string \<Rightarrow> string \<Rightarrow> 'd rom_state \<Rightarrow> (bool \<times> 'd rom_state) option" where
  "rom_define env getenv buf parameter st = do {
    (name, cfg) \<leftarrow> cpuemu_get_devcfg_string getenv parameter (ro_cfg st);
    let st1 = st\<lparr>ro_cfg := cfg\<rparr>;
    case name of
      None \<Rightarrow> Some (False, st1)
    | Some rom_variable_name \<Rightarrow> do {
        (err, tc) \<leftarrow> token_split_with_delimiter buf (ro_tokens st1) rom_variable_name (CHR ''='');
        let st2 = st1\<lparr>ro_tokens := tc\<rparr>;
        let gl_name = c_string (ts_str (tok_str tc 0));
        if err \<noteq> STD_E_OK then Some (False, st2)
        else case symbol_get_gl gl_name (length gl_name) (ro_symbols st2) of
               None \<Rightarrow> Some (False, st2)
             | Some (_, addr, sz) \<Rightarrow> do {
                 (err, p, bus) \<leftarrow> bus_get_pointer env 0 addr (ro_bus st2);
                 let st3 = st2\<lparr>ro_bus := bus\<rparr>;
                 if err \<noteq> STD_E_OK then Some (False, st3)
                 else if sz = 1 \<or> sz = 2 \<or> sz = 4
                 then do {
                   data \<leftarrow> p;
                   h \<leftarrow> host_write (mpu_host (bus_mpu bus)) data (le_encode (unat sz) (tok_value tc 1));
                   Some (True, st3\<lparr>ro_bus := bus\<lparr>bus_mpu := (bus_mpu bus)\<lparr>mpu_host := h\<rparr>\<rparr>\<rparr>)
                 }
                 else Some (True, st3)
               }
      }
  }"

fun rom_define_loop ::
  "'d mpu_env \<Rightarrow> (string \<Rightarrow> string option) \<Rightarrow> (nat \<Rightarrow> string) \<Rightarrow> nat list \<Rightarrow> 'd rom_state \<Rightarrow> 'd rom_state option" where
  "rom_define_loop env getenv bufs [] st = Some st"
| "rom_define_loop env getenv bufs (i # is) st =
    (case rom_define env getenv (bufs i) (''DEBUG_ROM_DEFINE_'' @ digits_of 10 i) st of
       None \<Rightarrow> None
     | Some (again, st1) \<Rightarrow> if again then rom_define_loop env getenv bufs is st1 else Some st1)"

definition cpuemu_set_debug_romdata ::
  "'d mpu_env \<Rightarrow> (string \<Rightarrow> string option) \<Rightarrow> (nat \<Rightarrow> string) \<Rightarrow> 'd rom_state \<Rightarrow> 'd rom_state option" where
  "cpuemu_set_debug_romdata env getenv bufs st =
    (case cpuemu_get_devcfg_value ''DEBUG_ROM_DEFINE_NUM'' (ro_cfg st) of
       None \<Rightarrow> Some st
     | Some param_num \<Rightarrow> rom_define_loop env getenv bufs [0..<unat param_num] st)"

end
