(* ===== verification/DevConfigLaws.thy ===== *)
theory DevConfigLaws
  imports DevConfig TokenLaws
begin

text \<open>
  The configuration files are read back as they were written: the getters return the values of the
  device configuration, and the memory configuration gives the regions it lists. A malformed line is
  not reported to the caller.
\<close>

section \<open>Files\<close>

lemma getline_loop_line:
  "newline \<notin> set line \<Longrightarrow> length line < k \<Longrightarrow> getline_loop k (line @ newline # rest) = (line, rest)"
proof (induction line arbitrary: k)
  case Nil
  then show ?case by (cases k) simp_all
next
  case (Cons c cs)
  then show ?case by (cases k) auto
qed

lemma file_getline_line:
  "newline \<notin> set line \<Longrightarrow> length line < 4095 \<Longrightarrow> file_getline 4096 (line @ newline # rest) = (line, rest)"
  by (simp add: file_getline_def getline_loop_line)

text \<open>The text ends the loops: the end of the file, or a blank line.\<close>

definition at_end :: "string \<Rightarrow> bool" where
  "at_end rest \<longleftrightarrow> rest = [] \<or> hd rest = newline"

lemma file_getline_end: "at_end rest \<Longrightarrow> fst (file_getline 4096 rest) = []"
  by (cases rest) (auto simp: at_end_def file_getline_def numeral_eq_Suc)

lemma newline_delimiter: "is_delimiter newline None"
  by (simp add: is_delimiter_def newline_def isspace_def)

lemma blank_delimiter: "is_delimiter (CHR '' '') None" "is_delimiter (CHR '','') None"
  by (simp_all add: is_delimiter_def isspace_def)

section \<open>Words of a line\<close>

abbreviation words :: "string \<Rightarrow> string list" where
  "words \<equiv> words_of (\<lambda>c. is_delimiter c None)"

definition no_delimiter :: "string \<Rightarrow> bool" where
  "no_delimiter w \<longleftrightarrow> w \<noteq> [] \<and> (\<forall>c\<in>set w. \<not> is_delimiter c None)"

lemma no_delimiter_NUL: "no_delimiter w \<Longrightarrow> NUL \<notin> set w" "no_delimiter w \<Longrightarrow> newline \<notin> set w"
  using newline_delimiter by (auto simp: no_delimiter_def is_delimiter_def)

lemma words_single: "no_delimiter w \<Longrightarrow> words w = [w]"
  by (simp add: no_delimiter_def words_of_word)

lemma words_then: "no_delimiter w \<Longrightarrow> is_delimiter d None \<Longrightarrow> words (w @ d # s) = w # words s"
  by (simp add: no_delimiter_def words_of_append)

text \<open>A word that is no number.\<close>

definition plain_word :: "string \<Rightarrow> bool" where
  "plain_word w \<longleftrightarrow> no_delimiter w \<and> length w < 1000 \<and> dec_number w = None \<and> hex_number w = None"

text \<open>The text of a number.\<close>

definition dec_text :: "uint32 \<Rightarrow> string" where "dec_text v = digits_of 10 (unat v)"
definition hex_text :: "uint32 \<Rightarrow> string" where "hex_text v = ''0x'' @ digits_of 16 (unat v)"

lemma uint32_bounds: "unat (v :: uint32) < 2 ^ 32" "unat v < 16 ^ Suc 7" "unat v < 10 ^ Suc 9"
proof -
  have "unat v < 2 ^ LENGTH(32)" by (rule unsigned_less)
  then show "unat v < 2 ^ 32" "unat v < 16 ^ Suc 7" "unat v < 10 ^ Suc 9" by simp_all
qed

lemma number_words: "no_delimiter (dec_text v)" "no_delimiter (hex_text v)" "length (dec_text v) \<le> 10" "length (hex_text v) \<le> 10"
proof -
  show "no_delimiter (dec_text v)" using digits_of_no_delimiter [of 10] by (auto simp: no_delimiter_def dec_text_def)
  have "\<not> is_delimiter (CHR ''0'') None" "\<not> is_delimiter (CHR ''x'') None" by (simp_all add: is_delimiter_def isspace_def NUL_def)
  then show "no_delimiter (hex_text v)" using digits_of_no_delimiter [of 16] by (auto simp: no_delimiter_def hex_text_def)
  show "length (dec_text v) \<le> 10" using digits_of_length [of 10 "unat v" 9] uint32_bounds(3) by (simp add: dec_text_def)
  show "length (hex_text v) \<le> 10" using digits_of_length [of 16 "unat v" 7] uint32_bounds(2) by (simp add: hex_text_def)
qed

lemma dec_token: "token_is (dec_text v) tv \<Longrightarrow> tv_type tv = TOKEN_TYPE_VALUE_DEC \<and> tv_value tv = v"
  using number_texts(1) [OF uint32_bounds(1)] by (simp add: token_is_def dec_text_def)

lemma hex_token: "token_is (hex_text v) tv \<Longrightarrow> tv_type tv = TOKEN_TYPE_VALUE_HEX \<and> tv_value tv = v"
  using number_texts(3) [of "unat v"] number_texts(4) [OF uint32_bounds(1), of v] by (simp add: token_is_def hex_text_def)

lemma plain_token:
  "plain_word w \<Longrightarrow> token_is w tv \<Longrightarrow> tv_type tv = TOKEN_TYPE_STRING \<and> c_string (ts_str (tv_body tv)) = w"
  by (simp add: plain_word_def token_is_def)

lemma plain_token_cmp:
  "plain_word w \<Longrightarrow> token_is w tv \<Longrightarrow> NUL \<notin> set b \<Longrightarrow> length b < TOKEN_STRING_MAX_SIZE \<Longrightarrow>
    token_strcmp (tv_body tv) (token_const b) \<longleftrightarrow> w = b"
  using string_token_cmp [of w tv b] no_delimiter_NUL(1) [of w] by (simp add: plain_word_def TOKEN_STRING_MAX_SIZE_def)

section \<open>Device configuration\<close>

datatype cfg_value = Dec uint32 | Hex uint32 | Str string

fun value_text :: "cfg_value \<Rightarrow> string" where
  "value_text (Dec v) = dec_text v"
| "value_text (Hex v) = hex_text v"
| "value_text (Str s) = s"

type_synonym cfg_entry = "string \<times> cfg_value"

fun entry_ok :: "cfg_entry \<Rightarrow> bool" where
  "entry_ok (key, v) \<longleftrightarrow> plain_word key \<and> (case v of Str s \<Rightarrow> plain_word s \<and> CHR ''{'' \<notin> set s | _ \<Rightarrow> True)"

fun entry_line :: "cfg_entry \<Rightarrow> string" where
  "entry_line (key, v) = key @ '' '' @ value_text v"

definition devcfg_text :: "cfg_entry list \<Rightarrow> string" where
  "devcfg_text es = concat (map (\<lambda>e. entry_line e @ [newline]) es)"

lemma value_word: "entry_ok (key, v) \<Longrightarrow> no_delimiter (value_text v) \<and> length (value_text v) < 1000"
  using number_words [of "case v of Dec n \<Rightarrow> n | Hex n \<Rightarrow> n"] by (cases v) (simp_all add: plain_word_def)

lemma entry_line_facts:
  assumes "entry_ok (key, v)"
  shows "words (entry_line (key, v)) = [key, value_text v]" "newline \<notin> set (entry_line (key, v))"
    "length (entry_line (key, v)) < 4095" "entry_line (key, v) \<noteq> []"
proof -
  have k: "no_delimiter key" "length key < 1000" using assms by (simp_all add: plain_word_def)
  note v = value_word [OF assms]
  show "words (entry_line (key, v)) = [key, value_text v]"
    using words_then [OF k(1) blank_delimiter(1), of "value_text v"] words_single v by simp
  show "newline \<notin> set (entry_line (key, v))" using no_delimiter_NUL(2) k(1) v by (auto simp: newline_def)
  show "length (entry_line (key, v)) < 4095" "entry_line (key, v) \<noteq> []" using k(2) v by simp_all
qed

text \<open>The table holds exactly the entries.\<close>

definition param_of :: "cfg_entry \<Rightarrow> devcfg_param \<Rightarrow> bool" where
  "param_of e p \<longleftrightarrow> token_is (fst e) (dp_key p) \<and> token_is (value_text (snd e)) (dp_value p)"

definition params_are :: "cfg_entry list \<Rightarrow> CpuEmuDevCfgType \<Rightarrow> bool" where
  "params_are es cfg \<longleftrightarrow> length (dc_param cfg) = CPUEMU_DEVCFG_PARAM_MAXNUM \<and> unat (dc_param_num cfg) = length es \<and>
    length es \<le> CPUEMU_DEVCFG_PARAM_MAXNUM \<and> list_all2 param_of es (take (length es) (dc_param cfg))"

lemma add_param_are:
  assumes "params_are es cfg" "length es < CPUEMU_DEVCFG_PARAM_MAXNUM" "token_is key (tok tc 0)" "token_is (value_text v) (tok tc 1)"
  shows "\<exists>cfg'. add_param tc cfg = Some cfg' \<and> params_are (es @ [(key, v)]) cfg'"
proof -
  have n: "length (dc_param cfg) = 128" "unat (dc_param_num cfg) = length es" "length es < 128"
    using assms(1,2) by (simp_all add: params_are_def CPUEMU_DEVCFG_PARAM_MAXNUM_def)
  have "unat (dc_param_num cfg) < unat (128 :: uint32)" using n by simp
  then have num: "unat (dc_param_num cfg + 1) = Suc (length es)" using unat_plus_one n(2) by metis
  have t: "take (Suc (length es)) ((dc_param cfg)[length es := x]) = take (length es) (dc_param cfg) @ [x]" for x
    using n by (intro take_update_here) simp
  show ?thesis using assms n num
    by (simp add: add_param_def params_are_def index_at_def update_at_def CPUEMU_DEVCFG_PARAM_MAXNUM_def t param_of_def
        list_all2_append)
qed

definition cfg_state_ok :: "cfg_entry list \<Rightarrow> devcfg_state \<Rightarrow> bool" where
  "cfg_state_ok es st \<longleftrightarrow> params_are es (dv_cfg st) \<and> length (tc_array (dv_tokens st)) = TOKEN_CONTAINER_MAX_SIZE"

lemma devcfg_line_ok:
  assumes "entry_ok e" "cfg_state_ok es st" "length es < CPUEMU_DEVCFG_PARAM_MAXNUM" "length buf = TOKEN_STRING_MAX_SIZE"
  shows "\<exists>st'. devcfg_line buf (entry_line e) st = Some (STD_E_OK, True, st') \<and> cfg_state_ok (es @ [e]) st'"
proof -
  obtain key v where e: "e = (key, v)" by (cases e)
  note facts = entry_line_facts [OF assms(1) [unfolded e]]
  have len: "\<forall>w\<in>set [key, value_text v]. length w < TOKEN_STRING_MAX_SIZE" "length [key, value_text v] \<le> 128"
    using assms(1) value_word [of key v] by (simp_all add: e plain_word_def TOKEN_STRING_MAX_SIZE_def)
  have st: "length (tc_array (dv_tokens st)) = TOKEN_CONTAINER_MAX_SIZE" "params_are es (dv_cfg st)"
    using assms(2) by (simp_all add: cfg_state_ok_def)
  obtain tc where tc: "token_split buf (dv_tokens st) (entry_line e) = Some (STD_E_OK, tc)"
    "tc_num tc = of_nat (length [key, value_text v])" "length (tc_array tc) = TOKEN_CONTAINER_MAX_SIZE"
    "\<And>i. i < length [key, value_text v] \<Longrightarrow> token_is ([key, value_text v] ! i) (tok tc i)"
    using split_tokens [OF assms(4) st(1) facts(1) len] e by blast
  have "token_is key (tok tc 0)" "token_is (value_text v) (tok tc 1)" using tc(4) [of 0] tc(4) [of 1] by simp_all
  from add_param_are [OF st(2) assms(3) this] obtain cfg where
    "add_param tc (dv_cfg st) = Some cfg" "params_are (es @ [e]) cfg" using e by blast
  then show ?thesis using tc(1-3) assms(3) st(2)
    by (simp add: devcfg_line_def cfg_state_ok_def params_are_def)
qed

lemma devcfg_loop_entries:
  assumes "\<forall>e\<in>set es. entry_ok e" "cfg_state_ok ds st" "length (ds @ es) \<le> CPUEMU_DEVCFG_PARAM_MAXNUM"
    "\<forall>k. length (bufs k) = TOKEN_STRING_MAX_SIZE"
  shows "\<exists>st'. devcfg_loop bufs k (devcfg_text es @ rest) st = devcfg_loop bufs (k + length es) rest st' \<and> cfg_state_ok (ds @ es) st'"
  using assms(1-3)
proof (induction es arbitrary: ds st k)
  case Nil
  then show ?case by (auto simp: devcfg_text_def)
next
  case (Cons e es)
  have ok: "entry_ok (fst e, snd e)" using Cons.prems(1) by simp
  note facts = entry_line_facts [OF ok, simplified]
  from devcfg_line_ok [OF _ Cons.prems(2), of e "bufs k"] Cons.prems assms(4) obtain st1 where
    st1: "devcfg_line (bufs k) (entry_line e) st = Some (STD_E_OK, True, st1)" "cfg_state_ok (ds @ [e]) st1" by auto
  have front: "devcfg_text (e # es) @ rest = entry_line e @ newline # devcfg_text es @ rest" by (simp add: devcfg_text_def)
  have step: "devcfg_loop bufs k (devcfg_text (e # es) @ rest) st = devcfg_loop bufs (Suc k) (devcfg_text es @ rest) st1"
    unfolding front using facts(4) st1(1)
    by (subst devcfg_loop.simps) (simp add: file_getline_line facts(2,3) del: devcfg_loop.simps)
  from Cons.IH [OF _ st1(2), of "Suc k"] Cons.prems show ?case unfolding step by auto
qed

section \<open>Getters\<close>

text \<open>The entries with a value of a kind.\<close>

fun dec_of :: "cfg_entry \<Rightarrow> (string \<times> uint32) option" where
  "dec_of (key, Dec v) = Some (key, v)"
| "dec_of e = None"

fun hex_of :: "cfg_entry \<Rightarrow> (string \<times> uint32) option" where
  "hex_of (key, Hex v) = Some (key, v)"
| "hex_of e = None"

fun str_of :: "cfg_entry \<Rightarrow> (string \<times> string) option" where
  "str_of (key, Str s) = Some (key, s)"
| "str_of e = None"

lemma find_value:
  assumes "list_all2 R es ps" "\<And>e p. R e p \<Longrightarrow> case sel e of None \<Rightarrow> \<not> P p | Some (k, v) \<Rightarrow> (P p \<longleftrightarrow> k = key) \<and> f p = v"
  shows "map_option (\<lambda>i. f (ps ! i)) (find_first P ps) = map_of (List.map_filter sel es) key"
  using assms(1)
proof (induction rule: list_all2_induct)
  case (Cons e es p ps)
  from assms(2) [OF Cons.hyps(1)] Cons.IH show ?case
    by (auto simp: List.map_filter_def option.map_comp comp_def split: option.splits)
qed (simp add: List.map_filter_def)

definition key_ok :: "string \<Rightarrow> bool" where
  "key_ok key \<longleftrightarrow> NUL \<notin> set key \<and> length key < TOKEN_STRING_MAX_SIZE"

lemma param_of_kind:
  assumes "entry_ok e" "param_of e p" "key_ok key"
  shows "case dec_of e of None \<Rightarrow> \<not> param_is TOKEN_TYPE_VALUE_DEC key p
      | Some (k, v) \<Rightarrow> (param_is TOKEN_TYPE_VALUE_DEC key p \<longleftrightarrow> k = key) \<and> tv_value (dp_value p) = v"
    "case hex_of e of None \<Rightarrow> \<not> param_is TOKEN_TYPE_VALUE_HEX key p
      | Some (k, v) \<Rightarrow> (param_is TOKEN_TYPE_VALUE_HEX key p \<longleftrightarrow> k = key) \<and> tv_value (dp_value p) = v"
    "case str_of e of None \<Rightarrow> \<not> param_is TOKEN_TYPE_STRING key p
      | Some (k, v) \<Rightarrow> (param_is TOKEN_TYPE_STRING key p \<longleftrightarrow> k = key) \<and> c_string (ts_str (tv_body (dp_value p))) = v"
proof -
  obtain k v where e: "e = (k, v)" by (cases e)
  have k: "token_strcmp (tv_body (dp_key p)) (token_const key) \<longleftrightarrow> k = key"
    using assms plain_token_cmp [of k "dp_key p" key] by (simp add: e param_of_def key_ok_def)
  have t: "case v of Dec n \<Rightarrow> tv_type (dp_value p) = TOKEN_TYPE_VALUE_DEC \<and> tv_value (dp_value p) = n
      | Hex n \<Rightarrow> tv_type (dp_value p) = TOKEN_TYPE_VALUE_HEX \<and> tv_value (dp_value p) = n
      | Str s \<Rightarrow> tv_type (dp_value p) = TOKEN_TYPE_STRING \<and> c_string (ts_str (tv_body (dp_value p))) = s"
    using assms(1,2) by (cases v) (auto simp: e param_of_def dest: dec_token hex_token plain_token)
  show "case dec_of e of None \<Rightarrow> \<not> param_is TOKEN_TYPE_VALUE_DEC key p
      | Some (k, v) \<Rightarrow> (param_is TOKEN_TYPE_VALUE_DEC key p \<longleftrightarrow> k = key) \<and> tv_value (dp_value p) = v"
    "case hex_of e of None \<Rightarrow> \<not> param_is TOKEN_TYPE_VALUE_HEX key p
      | Some (k, v) \<Rightarrow> (param_is TOKEN_TYPE_VALUE_HEX key p \<longleftrightarrow> k = key) \<and> tv_value (dp_value p) = v"
    "case str_of e of None \<Rightarrow> \<not> param_is TOKEN_TYPE_STRING key p
      | Some (k, v) \<Rightarrow> (param_is TOKEN_TYPE_STRING key p \<longleftrightarrow> k = key) \<and> c_string (ts_str (tv_body (dp_value p))) = v"
    using k t by (cases v; simp add: e param_is_def)+
qed

text \<open>The table with the facts about its entries.\<close>

lemma params_list_all2:
  assumes "params_are es cfg" "\<forall>e\<in>set es. entry_ok e"
  shows "list_all2 (\<lambda>e p. entry_ok e \<and> param_of e p) es (take (unat (dc_param_num cfg)) (dc_param cfg))"
  using assms by (auto simp: params_are_def list_all2_conv_all_nth)

lemma find_param_values:
  "map_option (\<lambda>i. f (dc_param cfg ! i)) (find_param P cfg) =
    map_option (\<lambda>i. f (take (unat (dc_param_num cfg)) (dc_param cfg) ! i)) (find_first P (take (unat (dc_param_num cfg)) (dc_param cfg)))"
  unfolding find_param_def by (rule map_option_cong) (auto dest: find_first_Some_bound)

lemma get_numbers:
  assumes "params_are es cfg" "\<forall>e\<in>set es. entry_ok e" "key_ok key"
  shows "cpuemu_get_devcfg_value key cfg = map_of (List.map_filter dec_of es) key"
    "cpuemu_get_devcfg_value_hex key cfg = map_of (List.map_filter hex_of es) key"
proof -
  note all = params_list_all2 [OF assms(1,2)]
  show "cpuemu_get_devcfg_value key cfg = map_of (List.map_filter dec_of es) key"
    unfolding cpuemu_get_devcfg_value_def find_param_values [of "\<lambda>p. tv_value (dp_value p)"]
    by (rule find_value [OF all, where sel = dec_of], rule param_of_kind(1)) (use assms(3) in simp_all)
  show "cpuemu_get_devcfg_value_hex key cfg = map_of (List.map_filter hex_of es) key"
    unfolding cpuemu_get_devcfg_value_hex_def find_param_values [of "\<lambda>p. tv_value (dp_value p)"]
    by (rule find_value [OF all, where sel = hex_of], rule param_of_kind(2)) (use assms(3) in simp_all)
qed

text \<open>A string without a reference is returned as it is.\<close>

lemma no_reference:
  assumes "CHR ''{'' \<notin> set (c_string (ts_str s))"
  shows "cpuemu_env_parse_devcfg_string getenv s = Some s"
proof -
  have "strchr (c_string (ts_str s)) (CHR ''{'') = None" using assms by (auto simp: strchr_def find_first_None_iff)
  then show ?thesis by (simp add: cpuemu_env_parse_devcfg_string_def)
qed

lemma get_string:
  assumes "params_are es cfg" "\<forall>e\<in>set es. entry_ok e" "key_ok key"
  shows "cpuemu_get_devcfg_string getenv key cfg = Some (map_of (List.map_filter str_of es) key, cfg)"
proof -
  let ?P = "param_is TOKEN_TYPE_STRING key"
  note all = params_list_all2 [OF assms(1,2)]
  have v: "map_option (\<lambda>i. c_string (ts_str (tv_body (dp_value (dc_param cfg ! i))))) (find_param ?P cfg) =
      map_of (List.map_filter str_of es) key"
    unfolding find_param_values [of "\<lambda>p. c_string (ts_str (tv_body (dp_value p)))"]
    by (rule find_value [OF all, where sel = str_of], rule param_of_kind(3)) (use assms(3) in simp_all)
  show ?thesis
  proof (cases "find_param ?P cfg")
    case None
    then show ?thesis using v by (simp add: cpuemu_get_devcfg_string_def)
  next
    case (Some i)
    let ?p = "dc_param cfg ! i"
    have i: "i < length es" "?P ?p" using Some assms(1)
      by (auto simp: find_param_def find_first_Some_iff params_are_def)
    then have "param_of (es ! i) ?p" using assms(1) by (auto simp: params_are_def list_all2_conv_all_nth)
    moreover have "entry_ok (es ! i)" using assms(2) i(1) by simp
    moreover obtain k x where e: "es ! i = (k, x)" by (cases "es ! i")
    ultimately have "CHR ''{'' \<notin> set (c_string (ts_str (tv_body (dp_value ?p))))"
      using i(2) dec_token [of _ "dp_value ?p"] hex_token [of _ "dp_value ?p"] plain_token [of _ "dp_value ?p"]
      by (cases x) (auto simp: param_of_def param_is_def)
    then have "expand_value getenv (dp_value ?p) = Some (dp_value ?p)" by (simp add: expand_value_def no_reference)
    then show ?thesis using v Some by (simp add: cpuemu_get_devcfg_string_def)
  qed
qed

section \<open>Loading\<close>

definition path_ok :: "string \<Rightarrow> TokenStringType \<Rightarrow> bool" where
  "path_ok path buf \<longleftrightarrow> NUL \<notin> set path \<and> length path < TOKEN_STRING_MAX_SIZE \<and> length (ts_str buf) = TOKEN_STRING_MAX_SIZE"

lemma filepath_set:
  assumes "path_ok path dest"
  shows "\<exists>fp. token_string_set dest path = Some (True, fp) \<and> c_string (ts_str fp) = path"
  using assms by (auto simp: path_ok_def token_string_set_def buf_write_def c_string_def takeWhile_append takeWhile_eq_all_conv)

text \<open>
  The static variables have their declared sizes; nothing else is assumed of their contents, nor of
  the local buffers of the splitter.
\<close>

definition devcfg_ready :: "(nat \<Rightarrow> string) \<Rightarrow> string \<Rightarrow> devcfg_state \<Rightarrow> bool" where
  "devcfg_ready bufs path st \<longleftrightarrow> path_ok path (dv_filepath st) \<and> length (dc_param (dv_cfg st)) = CPUEMU_DEVCFG_PARAM_MAXNUM \<and>
    length (tc_array (dv_tokens st)) = TOKEN_CONTAINER_MAX_SIZE \<and> (\<forall>k. length (bufs k) = TOKEN_STRING_MAX_SIZE)"

lemma load_devcfg_entries:
  assumes "\<forall>e\<in>set es. entry_ok e" "length es \<le> CPUEMU_DEVCFG_PARAM_MAXNUM" "devcfg_ready bufs path st"
    "files path = Some (devcfg_text es @ rest)"
  obtains st' where "cpuemu_load_devcfg files bufs path st = devcfg_loop bufs (length es) rest st'" "cfg_state_ok es st'"
proof -
  note ready = assms(3) [unfolded devcfg_ready_def]
  from filepath_set [of path "dv_filepath st"] ready obtain fp where
    fp: "token_string_set (dv_filepath st) path = Some (True, fp)" "c_string (ts_str fp) = path" by blast
  let ?st = "st\<lparr>dv_cfg := (dv_cfg st)\<lparr>dc_param_num := 0\<rparr>, dv_filepath := fp\<rparr>"
  have "cfg_state_ok [] ?st" using ready by (simp add: cfg_state_ok_def params_are_def)
  from devcfg_loop_entries [OF assms(1) this, of bufs 0 rest] assms(2) ready obtain st' where
    "devcfg_loop bufs 0 (devcfg_text es @ rest) ?st = devcfg_loop bufs (length es) rest st'" "cfg_state_ok es st'" by auto
  moreover have "cpuemu_load_devcfg files bufs path st = devcfg_loop bufs 0 (devcfg_text es @ rest) ?st"
    using fp assms(4) by (simp add: cpuemu_load_devcfg_def Let_def del: devcfg_loop.simps)
  ultimately show thesis using that by simp
qed

text \<open>What the getters return when the table holds the entries.\<close>

definition getters_return ::
  "(string \<Rightarrow> string option) \<Rightarrow> cfg_entry list \<Rightarrow> CpuEmuDevCfgType \<Rightarrow> string \<Rightarrow> bool" where
  "getters_return getenv es cfg key \<longleftrightarrow>
    cpuemu_get_devcfg_value key cfg = map_of (List.map_filter dec_of es) key \<and>
    cpuemu_get_devcfg_value_hex key cfg = map_of (List.map_filter hex_of es) key \<and>
    cpuemu_get_devcfg_string getenv key cfg = Some (map_of (List.map_filter str_of es) key, cfg)"

lemma getters_return_params:
  "cfg_state_ok es st \<Longrightarrow> \<forall>e\<in>set es. entry_ok e \<Longrightarrow> key_ok key \<Longrightarrow> getters_return getenv es (dv_cfg st) key"
  by (simp add: getters_return_def cfg_state_ok_def get_numbers get_string)

text \<open>
  C30: the device configuration is read back as it was written. For every list of at most 128
  entries with decimal, hexadecimal and string values, the file with one line per entry is loaded
  without error, and then the three getters return, for every key, the value of the first entry with that
  key and a value of the kind asked for, or none; the strings are returned unchanged.
\<close>

theorem devcfg_roundtrip:
  assumes "\<forall>e\<in>set es. entry_ok e" "length es \<le> CPUEMU_DEVCFG_PARAM_MAXNUM" "devcfg_ready bufs path st"
    "files path = Some (devcfg_text es @ rest)" "at_end rest"
  shows "\<exists>st'. cpuemu_load_devcfg files bufs path st = Some (STD_E_OK, st') \<and>
    (\<forall>key. key_ok key \<longrightarrow> getters_return getenv es (dv_cfg st') key)"
proof -
  obtain st' where st': "cpuemu_load_devcfg files bufs path st = devcfg_loop bufs (length es) rest st'" "cfg_state_ok es st'"
    using load_devcfg_entries [OF assms(1-3), of files, OF assms(4)] .
  have "devcfg_loop bufs (length es) rest st' = Some (STD_E_OK, st')"
    using file_getline_end [OF assms(5)] by (subst devcfg_loop.simps) (simp add: case_prod_beta del: devcfg_loop.simps)
  then show ?thesis using st' getters_return_params [OF st'(2) assms(1)] by simp
qed

text \<open>A configuration with an entry of each kind, and a repeated key.\<close>

definition sample_cfg :: "cfg_entry list" where
  "sample_cfg = [(''HZ'', Dec 100), (''LOG'', Str ''out.txt''), (''BASE'', Hex 0xFF), (''HZ'', Dec 200)]"

lemma sample_cfg_ok: "\<forall>e\<in>set sample_cfg. entry_ok e"
  by (simp add: sample_cfg_def plain_word_def no_delimiter_def is_delimiter_def number_eval NUL_def)

lemma sample_keys: "key_ok ''HZ''" "key_ok ''LOG''" "key_ok ''BASE''"
  by (simp_all add: key_ok_def NUL_def TOKEN_STRING_MAX_SIZE_def)

lemma sample_values:
  "getters_return getenv sample_cfg cfg ''HZ'' \<Longrightarrow> cpuemu_get_devcfg_value ''HZ'' cfg = Some 100"
  "getters_return getenv sample_cfg cfg ''LOG'' \<Longrightarrow> cpuemu_get_devcfg_string getenv ''LOG'' cfg = Some (Some ''out.txt'', cfg)"
  "getters_return getenv sample_cfg cfg ''BASE'' \<Longrightarrow> cpuemu_get_devcfg_value_hex ''BASE'' cfg = Some 0xFF"
  by (simp_all add: getters_return_def sample_cfg_def List.map_filter_simps)

definition zero_token :: TokenValueType where
  "zero_token = \<lparr>tv_type = TOKEN_TYPE_STRING, tv_body = \<lparr>ts_len = 0, ts_str = replicate TOKEN_STRING_MAX_SIZE NUL\<rparr>\<rparr>"

definition zero_tokens :: TokenContainerType where
  "zero_tokens = \<lparr>tc_num = 0, tc_array = replicate TOKEN_CONTAINER_MAX_SIZE zero_token\<rparr>"

definition zero_devcfg :: devcfg_state where
  "zero_devcfg = \<lparr>
    dv_cfg = \<lparr>dc_param_num = 0, dc_param = replicate CPUEMU_DEVCFG_PARAM_MAXNUM
      \<lparr>dp_key = zero_token, dp_value = zero_token, dp_second_value = zero_token, dp_value_num = 0\<rparr>\<rparr>,
    dv_tokens = zero_tokens, dv_filepath = tv_body zero_token\<rparr>"

abbreviation zero_bufs :: "nat \<Rightarrow> string" where
  "zero_bufs \<equiv> \<lambda>k. replicate TOKEN_STRING_MAX_SIZE NUL"

lemma zero_devcfg_ready: "devcfg_ready zero_bufs ''d.txt'' zero_devcfg"
  by (simp add: devcfg_ready_def path_ok_def zero_devcfg_def zero_tokens_def zero_token_def NUL_def TOKEN_STRING_MAX_SIZE_def)

theorem devcfg_roundtrip_witness:
  "\<exists>st'. cpuemu_load_devcfg (\<lambda>p. Some (devcfg_text sample_cfg)) zero_bufs ''d.txt'' zero_devcfg = Some (STD_E_OK, st') \<and>
    cpuemu_get_devcfg_value ''HZ'' (dv_cfg st') = Some 100 \<and>
    cpuemu_get_devcfg_value_hex ''BASE'' (dv_cfg st') = Some 0xFF \<and>
    cpuemu_get_devcfg_string (\<lambda>v. None) ''LOG'' (dv_cfg st') = Some (Some ''out.txt'', dv_cfg st')"
proof -
  have "length sample_cfg \<le> CPUEMU_DEVCFG_PARAM_MAXNUM" "at_end []"
    by (simp_all add: sample_cfg_def CPUEMU_DEVCFG_PARAM_MAXNUM_def at_end_def)
  from devcfg_roundtrip [OF sample_cfg_ok this(1) zero_devcfg_ready _ this(2),
      of "\<lambda>p. Some (devcfg_text sample_cfg)" "\<lambda>v. None"]
  obtain st' where st': "cpuemu_load_devcfg (\<lambda>p. Some (devcfg_text sample_cfg)) zero_bufs ''d.txt'' zero_devcfg = Some (STD_E_OK, st')"
    "\<And>key. key_ok key \<Longrightarrow> getters_return (\<lambda>v. None) sample_cfg (dv_cfg st') key" by auto
  show ?thesis using st'(1) st'(2) [OF sample_keys(1), THEN sample_values(1)] st'(2) [OF sample_keys(2), THEN sample_values(2)]
      st'(2) [OF sample_keys(3), THEN sample_values(3)] by simp
qed

lemma words_from_length: "v \<in> set (words_from P w cs) \<Longrightarrow> length v \<le> length w + length cs"
proof (induction cs arbitrary: w)
  case (Cons c cs)
  then show ?case using Cons.IH [of "w @ [c]"] Cons.IH [of "[]"] by (fastforce split: if_splits)
qed (auto split: if_splits)

text \<open>A line that the loader does not accept after the entries \<open>es\<close>.\<close>

definition line_refused :: "cfg_entry list \<Rightarrow> string \<Rightarrow> bool" where
  "line_refused es line \<longleftrightarrow> line \<noteq> [] \<and> newline \<notin> set line \<and> length line < 4095 \<and> length (words line) \<le> 128 \<and>
    (length es = CPUEMU_DEVCFG_PARAM_MAXNUM \<or> length (words line) \<notin> {2, 3} \<or>
     length (words line) = 3 \<and> plain_word (hd (words line)) \<and> hd (words line) \<noteq> ''DEVICE_CONFIG_HOST_FUNCTION'')"

lemma devcfg_line_refused:
  assumes "line_refused es line" "cfg_state_ok es st" "length buf = TOKEN_STRING_MAX_SIZE"
  shows "\<exists>st'. devcfg_line buf line st = Some (STD_E_OK, False, st') \<and> dv_cfg st' = dv_cfg st"
proof -
  let ?ws = "words line"
  have len: "\<forall>w\<in>set ?ws. length w < TOKEN_STRING_MAX_SIZE" "length ?ws \<le> 128"
    using assms(1) words_from_length [of _ "\<lambda>c. is_delimiter c None" "[]" line]
    by (fastforce simp: line_refused_def TOKEN_STRING_MAX_SIZE_def words_of_def)+
  have st: "length (tc_array (dv_tokens st)) = TOKEN_CONTAINER_MAX_SIZE" "unat (dc_param_num (dv_cfg st)) = length es"
    using assms(2) by (simp_all add: cfg_state_ok_def params_are_def)
  obtain tc where tc: "token_split buf (dv_tokens st) line = Some (STD_E_OK, tc)" "tc_num tc = of_nat (length ?ws)"
    "\<And>i. i < length ?ws \<Longrightarrow> token_is (?ws ! i) (tok tc i)" "length (tc_array tc) = TOKEN_CONTAINER_MAX_SIZE"
    using split_tokens [OF assms(3) st(1) refl len] by blast
  have num: "unat (tc_num tc) = length ?ws" using len(2) by (simp add: tc(2) unat_of_nat take_bit_nat_eq_self)
  have "c_string (ts_str (tok_str tc 0)) = hd ?ws" if "length ?ws = 3" "plain_word (hd ?ws)"
    using plain_token [OF that(2), of "tok tc 0"] tc(3) [of 0] that(1) by (cases ?ws) auto
  then have "length es = CPUEMU_DEVCFG_PARAM_MAXNUM \<or>
      \<not> (tc_num tc = 2 \<or> tc_num tc = 3 \<and> c_string (ts_str (tok_str tc 0)) = ''DEVICE_CONFIG_HOST_FUNCTION'')"
    using assms(1) num by (auto simp: line_refused_def)
  then show ?thesis using tc(1) st(2) by (auto simp: devcfg_line_def Let_def)
qed

text \<open>
  C31: a malformed device configuration is not reported. When the file has a line with a wrong
  number of words after some entries, or a line after 128 entries, \<open>cpuemu_load_devcfg\<close>
  prints a message, ignores that line and everything behind it, and still returns
  \<open>STD_E_OK\<close>: the caller goes on with the entries before that line.
\<close>

theorem devcfg_truncated_silently:
  assumes "\<forall>e\<in>set es. entry_ok e" "length es \<le> CPUEMU_DEVCFG_PARAM_MAXNUM" "devcfg_ready bufs path st"
    "files path = Some (devcfg_text es @ line @ newline # rest)" "line_refused es line"
  shows "\<exists>st'. cpuemu_load_devcfg files bufs path st = Some (STD_E_OK, st') \<and>
    (\<forall>key. key_ok key \<longrightarrow> getters_return getenv es (dv_cfg st') key)"
proof -
  obtain st1 where st1: "cpuemu_load_devcfg files bufs path st = devcfg_loop bufs (length es) (line @ newline # rest) st1"
    "cfg_state_ok es st1"
    using load_devcfg_entries [OF assms(1-3), of files, OF assms(4)] .
  from devcfg_line_refused [OF assms(5) st1(2)] assms(3) obtain st' where
    st': "devcfg_line (bufs (length es)) line st1 = Some (STD_E_OK, False, st')" "dv_cfg st' = dv_cfg st1"
    by (auto simp: devcfg_ready_def)
  have "devcfg_loop bufs (length es) (line @ newline # rest) st1 = Some (STD_E_OK, st')"
    using st'(1) assms(5) file_getline_line [of line rest]
    by (subst devcfg_loop.simps) (simp add: line_refused_def del: devcfg_loop.simps)
  then show ?thesis using st1(1) st'(2) getters_return_params [OF st1(2) assms(1)] by simp
qed

theorem devcfg_truncated_silently_witness:
  "\<exists>st'. cpuemu_load_devcfg (\<lambda>p. Some (devcfg_text sample_cfg @ ''LOST'' @ newline # ''CPU 1'')) zero_bufs ''d.txt'' zero_devcfg =
      Some (STD_E_OK, st') \<and> cpuemu_get_devcfg_value ''HZ'' (dv_cfg st') = Some 100 \<and>
    cpuemu_get_devcfg_value ''CPU'' (dv_cfg st') = None"
proof -
  have w: "no_delimiter ''LOST''" by (simp add: no_delimiter_def is_delimiter_def isspace_def NUL_def)
  have "line_refused sample_cfg ''LOST''" using words_single [OF w] no_delimiter_NUL(2) [OF w] by (simp add: line_refused_def)
  moreover have "length sample_cfg \<le> CPUEMU_DEVCFG_PARAM_MAXNUM"
    by (simp add: sample_cfg_def CPUEMU_DEVCFG_PARAM_MAXNUM_def)
  ultimately obtain st' where st': "cpuemu_load_devcfg (\<lambda>p. Some (devcfg_text sample_cfg @ ''LOST'' @ newline # ''CPU 1'')) zero_bufs ''d.txt'' zero_devcfg =
      Some (STD_E_OK, st')" "\<And>key. key_ok key \<Longrightarrow> getters_return (\<lambda>v. None) sample_cfg (dv_cfg st') key"
    using devcfg_truncated_silently [OF sample_cfg_ok _ zero_devcfg_ready,
        of "\<lambda>p. Some (devcfg_text sample_cfg @ ''LOST'' @ newline # ''CPU 1'')" "''LOST''" "''CPU 1''" "\<lambda>v. None"] by auto
  have "key_ok ''CPU''" by (simp add: key_ok_def NUL_def TOKEN_STRING_MAX_SIZE_def)
  from st'(2) [OF this] have "cpuemu_get_devcfg_value ''CPU'' (dv_cfg st') = None"
    by (simp add: getters_return_def sample_cfg_def List.map_filter_simps)
  then show ?thesis using st'(1) st'(2) [OF sample_keys(1), THEN sample_values(1)] by simp
qed

section \<open>Memory configuration\<close>

text \<open>What a line of the memory configuration says of a region.\<close>

record mem_spec =
  sp_rom :: bool
  sp_start :: uint32
  sp_size :: uint32
  sp_executable :: bool
  sp_vaddr :: bool

definition spec_flags :: "mem_spec \<Rightarrow> string" where
  "spec_flags r = (if sp_executable r then ''X'' else []) @ (if sp_vaddr r then ''V'' else [])"

definition spec_words :: "mem_spec \<Rightarrow> string list" where
  "spec_words r = [if sp_rom r then ''ROM'' else ''RAM'', hex_text (sp_start r), dec_text (sp_size r)] @
    (if spec_flags r = [] then [] else [spec_flags r])"

fun comma_line :: "string list \<Rightarrow> string" where
  "comma_line [] = []"
| "comma_line [w] = w"
| "comma_line (w # ws) = w @ '', '' @ comma_line ws"

definition memmap_text :: "mem_spec list \<Rightarrow> string" where
  "memmap_text rs = concat (map (\<lambda>r. comma_line (spec_words r) @ [newline]) rs)"

lemma comma_line_words: "\<forall>w\<in>set ws. no_delimiter w \<Longrightarrow> words (comma_line ws) = ws"
proof (induction ws rule: comma_line.induct)
  case (3 w v ws)
  then show ?case using words_then [of w "CHR '',''" "'' '' @ comma_line (v # ws)"] blank_delimiter
    by (simp add: words_of_skip)
next
  case 1
  show ?case by (simp add: words_of_def)
qed (simp add: words_single)

lemma spec_words_ok: "\<forall>w\<in>set (spec_words r). no_delimiter w \<and> length w \<le> 10"
  using number_words [of "sp_start r"] number_words [of "sp_size r"]
  by (auto simp: spec_words_def spec_flags_def) (simp_all add: no_delimiter_def is_delimiter_def isspace_def NUL_def)

lemma comma_line_length: "\<forall>w\<in>set ws. length w \<le> 10 \<Longrightarrow> length (comma_line ws) \<le> 12 * length ws"
  by (induction ws rule: comma_line.induct) auto

lemma comma_line_set: "set (comma_line ws) \<subseteq> \<Union> (set ` set ws) \<union> {CHR '','', CHR '' ''}"
  by (induction ws rule: comma_line.induct) auto

lemma spec_line_facts:
  "words (comma_line (spec_words r)) = spec_words r" "newline \<notin> set (comma_line (spec_words r))"
  "length (comma_line (spec_words r)) < 4095" "comma_line (spec_words r) \<noteq> []"
proof -
  show "words (comma_line (spec_words r)) = spec_words r" using spec_words_ok by (intro comma_line_words) simp
  show "newline \<notin> set (comma_line (spec_words r))"
    using comma_line_set [of "spec_words r"] spec_words_ok [of r] no_delimiter_NUL(2) by (fastforce simp: newline_def)
  have "length (spec_words r) \<le> 4" by (simp add: spec_words_def)
  then show "length (comma_line (spec_words r)) < 4095" using comma_line_length [of "spec_words r"] spec_words_ok [of r] by fastforce
  show "comma_line (spec_words r) \<noteq> []" by (simp add: spec_words_def)
qed

text \<open>The region that the loader makes of it, apart from the field that only external devices set.\<close>

type_synonym region_fields = "MemoryAddressImplType \<times> uint32 \<times> uint32 \<times> bool \<times> bool \<times> hptr option"

definition region_view :: "MemoryAddressType \<Rightarrow> region_fields" where
  "region_view m = (ma_type m, ma_start m, ma_size m, ma_region_executable m, ma_region_elf_load_from_vaddr m, ma_mmap_addr m)"

definition spec_view :: "mem_spec \<Rightarrow> region_fields" where
  "spec_view r = (if sp_rom r then MemoryAddressImplType_ROM else MemoryAddressImplType_RAM, sp_start r, sp_size r,
    sp_executable r, sp_vaddr r, None)"

definition map_is :: "mem_spec list \<Rightarrow> MemoryAddressMapType \<Rightarrow> bool" where
  "map_is rs m \<longleftrightarrow> map region_view (mm_rom m) = map spec_view (filter sp_rom rs) \<and>
    map region_view (mm_ram m) = map spec_view (filter (\<lambda>r. \<not> sp_rom r) rs) \<and> mm_dev m = []"

lemma flag_chars:
  assumes "c_string s = w" "c \<noteq> NUL" "0 < length w" "length w \<le> 2"
  shows "c \<in> set (take 2 s) \<longleftrightarrow> c \<in> set w"
proof (cases s)
  case (Cons a t)
  then show ?thesis using assms by (cases t) (auto simp: c_string_def numeral_2_eq_2 split: if_splits)
qed (use assms in \<open>simp add: c_string_def\<close>)

lemma plain_region_view:
  assumes "tc_num tc = of_nat (length (spec_words r))" "\<And>i. i < length (spec_words r) \<Longrightarrow> token_is (spec_words r ! i) (tok tc i)"
  shows "region_view (plain_region (if sp_rom r then MemoryAddressImplType_ROM else MemoryAddressImplType_RAM) m tc) = spec_view r"
    "c_string (ts_str (tok_str tc 0)) = (if sp_rom r then ''ROM'' else ''RAM'')"
proof -
  have t: "token_is (if sp_rom r then ''ROM'' else ''RAM'') (tok tc 0)" "token_is (hex_text (sp_start r)) (tok tc 1)"
    "token_is (dec_text (sp_size r)) (tok tc 2)"
    using assms(2) [of 0] assms(2) [of 1] assms(2) [of 2] by (simp_all add: spec_words_def)
  have "dec_number ''ROM'' = None" "hex_number ''ROM'' = None" "dec_number ''RAM'' = None" "hex_number ''RAM'' = None"
    by (simp_all add: number_eval)
  then show "c_string (ts_str (tok_str tc 0)) = (if sp_rom r then ''ROM'' else ''RAM'')" using t(1) by (auto simp: token_is_def split: if_splits)
  have num: "\<not> tc_num tc \<le> 3 \<longleftrightarrow> spec_flags r \<noteq> []" by (simp add: assms(1) spec_words_def)
  have f: "c \<in> set (take 2 (ts_str (tok_str tc 3))) \<longleftrightarrow> c \<in> set (spec_flags r)" if "spec_flags r \<noteq> []" "c \<noteq> NUL" for c
  proof (rule flag_chars)
    have "token_is (spec_flags r) (tok tc 3)" using assms(2) [of 3] that(1) by (simp add: spec_words_def)
    moreover have "dec_number (spec_flags r) = None" "hex_number (spec_flags r) = None"
      using that(1) by (auto simp: spec_flags_def number_eval)
    ultimately show "c_string (ts_str (tok_str tc 3)) = spec_flags r" by (simp add: token_is_def)
  qed (use that in \<open>auto simp: spec_flags_def\<close>)
  have "CHR ''X'' \<noteq> NUL" "CHR ''V'' \<noteq> NUL" by (simp_all add: NUL_def)
  then show "region_view (plain_region (if sp_rom r then MemoryAddressImplType_ROM else MemoryAddressImplType_RAM) m tc) = spec_view r"
    using f hex_token [OF t(2)] dec_token [OF t(3)] num
    by (cases "spec_flags r = []") (auto simp: region_view_def spec_view_def plain_region_def analize_memmap_arguments_def spec_flags_def split: if_splits)
qed

definition memmap_state_ok :: "mem_spec list \<Rightarrow> memmap_state \<Rightarrow> bool" where
  "memmap_state_ok rs st \<longleftrightarrow> map_is rs (mt_map st) \<and> length (tc_array (mt_tokens st)) = TOKEN_CONTAINER_MAX_SIZE"

lemma memmap_line_ok:
  assumes "memmap_state_ok rs st" "length (mv_bufs env k) = TOKEN_STRING_MAX_SIZE"
  shows "\<exists>st'. memmap_line env k (comma_line (spec_words r)) st = Some (STD_E_OK, True, st') \<and> memmap_state_ok (rs @ [r]) st'"
proof -
  have len: "\<forall>w\<in>set (spec_words r). length w < TOKEN_STRING_MAX_SIZE" "length (spec_words r) \<le> 128"
    using spec_words_ok [of r] by (auto simp: TOKEN_STRING_MAX_SIZE_def) (simp add: spec_words_def)
  have st: "map_is rs (mt_map st)" "length (tc_array (mt_tokens st)) = TOKEN_CONTAINER_MAX_SIZE"
    using assms(1) by (simp_all add: memmap_state_ok_def)
  obtain tc where tc: "token_split (mv_bufs env k) (mt_tokens st) (comma_line (spec_words r)) = Some (STD_E_OK, tc)"
    "tc_num tc = of_nat (length (spec_words r))" "\<And>i. i < length (spec_words r) \<Longrightarrow> token_is (spec_words r ! i) (tok tc i)"
    "length (tc_array tc) = TOKEN_CONTAINER_MAX_SIZE"
    using split_tokens [OF assms(2) st(2) spec_line_facts(1) len] by blast
  have num: "tc_num tc = 3 \<or> tc_num tc = 4" by (simp add: tc(2) spec_words_def)
  note view = plain_region_view [OF tc(2,3)]
  show ?thesis
    using tc(1,4) num view(2) view(1) [of "mv_fresh env k"] st(1)
    by (cases "sp_rom r") (auto simp: memmap_line_def Let_def memmap_state_ok_def map_is_def add_rom_def add_ram_def)
qed

lemma memmap_loop_specs:
  assumes "\<forall>k. length (mv_bufs env k) = TOKEN_STRING_MAX_SIZE" "memmap_state_ok ds st"
  shows "\<exists>st'. memmap_loop env k (memmap_text rs @ rest) st = memmap_loop env (k + length rs) rest st' \<and> memmap_state_ok (ds @ rs) st'"
  using assms(2)
proof (induction rs arbitrary: ds st k)
  case Nil
  then show ?case by (auto simp: memmap_text_def)
next
  case (Cons r rs)
  from memmap_line_ok [OF Cons.prems, of env k r] assms(1) obtain st1 where
    st1: "memmap_line env k (comma_line (spec_words r)) st = Some (STD_E_OK, True, st1)" "memmap_state_ok (ds @ [r]) st1" by auto
  have front: "memmap_text (r # rs) @ rest = comma_line (spec_words r) @ newline # memmap_text rs @ rest" by (simp add: memmap_text_def)
  have step: "memmap_loop env k (memmap_text (r # rs) @ rest) st = memmap_loop env (Suc k) (memmap_text rs @ rest) st1"
    unfolding front using spec_line_facts(4) st1(1)
    by (subst memmap_loop.simps) (simp add: file_getline_line spec_line_facts(2,3) del: memmap_loop.simps)
  from Cons.IH [OF st1(2), of "Suc k"] show ?case unfolding step by auto
qed

definition memmap_ready :: "memmap_env \<Rightarrow> string \<Rightarrow> memmap_state \<Rightarrow> bool" where
  "memmap_ready env path st \<longleftrightarrow> path_ok path (mt_filepath st) \<and>
    length (tc_array (mt_tokens st)) = TOKEN_CONTAINER_MAX_SIZE \<and> (\<forall>k. length (mv_bufs env k) = TOKEN_STRING_MAX_SIZE)"

text \<open>
  C32: the memory configuration gives the regions it lists. For every list of ROM and RAM regions,
  the file with one line \<open>type, 0xstart, size[, flags]\<close> per region is loaded without
  error whatever the memory of the new entries held before; the ROM regions and the RAM regions of the map
  are those of the list, in the order of the list, with its start addresses, sizes and flags and
  no host memory yet, and there is no device region.
\<close>

theorem memmap_roundtrip:
  assumes "memmap_ready env path st" "mv_files env path = Some (memmap_text rs @ rest)" "at_end rest"
  shows "\<exists>st'. cpuemu_load_memmap env path st = Some (STD_E_OK, st') \<and> map_is rs (mt_map st')"
proof -
  note ready = assms(1) [unfolded memmap_ready_def]
  from filepath_set [of path "mt_filepath st"] ready obtain fp where
    fp: "token_string_set (mt_filepath st) path = Some (True, fp)" "c_string (ts_str fp) = path" by blast
  let ?st = "st\<lparr>mt_map := \<lparr>mm_rom = [], mm_ram = [], mm_dev = []\<rparr>, mt_filepath := fp\<rparr>"
  have "memmap_state_ok [] ?st" using ready by (simp add: memmap_state_ok_def map_is_def)
  from memmap_loop_specs [OF _ this, of env 0 rs rest] ready obtain st' where
    st': "memmap_loop env 0 (memmap_text rs @ rest) ?st = memmap_loop env (length rs) rest st'" "memmap_state_ok rs st'" by auto
  have "memmap_loop env (length rs) rest st' = Some (STD_E_OK, st')"
    using file_getline_end [OF assms(3)] by (subst memmap_loop.simps) (simp add: case_prod_beta del: memmap_loop.simps)
  moreover have "cpuemu_load_memmap env path st = memmap_loop env 0 (memmap_text rs @ rest) ?st"
    using fp assms(2) by (simp add: cpuemu_load_memmap_def Let_def del: memmap_loop.simps)
  ultimately show ?thesis using st' by (simp add: memmap_state_ok_def)
qed

definition sample_specs :: "mem_spec list" where
  "sample_specs =
    [\<lparr>sp_rom = True, sp_start = 0, sp_size = 512, sp_executable = False, sp_vaddr = False\<rparr>,
     \<lparr>sp_rom = False, sp_start = 0x05FF7000, sp_size = 10240, sp_executable = True, sp_vaddr = True\<rparr>]"

definition sample_memmap_env :: memmap_env where
  "sample_memmap_env = \<lparr>mv_files = (\<lambda>p. Some (memmap_text sample_specs)), mv_getenv = (\<lambda>v. None), mv_bufs = zero_bufs,
    mv_fresh = (\<lambda>k. \<lparr>ma_type = MemoryAddressImplType_DEV, ma_start = 1, ma_size = 1, ma_mmap_addr = None, ma_extdev_handle = None, ma_region_executable = True, ma_region_elf_load_from_vaddr = True\<rparr>),
    mv_supports_mapped_memory = True, mv_mapped_file_size = (\<lambda>p. None), mv_map_open_file = (\<lambda>p n. None),
    mv_exdev_enable = False, mv_library = (\<lambda>p. None)\<rparr>"

definition zero_memmap :: memmap_state where
  "zero_memmap = \<lparr>mt_map = \<lparr>mm_rom = [], mm_ram = [], mm_dev = []\<rparr>, mt_tokens = zero_tokens, mt_filepath = tv_body zero_token,
    mt_mmap_infos = []\<rparr>"

theorem memmap_roundtrip_witness:
  "\<exists>st'. cpuemu_load_memmap sample_memmap_env ''m.txt'' zero_memmap = Some (STD_E_OK, st') \<and>
    map region_view (mm_rom (mt_map st')) = [(MemoryAddressImplType_ROM, 0, 512, False, False, None)] \<and>
    map region_view (mm_ram (mt_map st')) = [(MemoryAddressImplType_RAM, 0x05FF7000, 10240, True, True, None)]"
proof -
  have "memmap_ready sample_memmap_env ''m.txt'' zero_memmap"
    by (simp add: memmap_ready_def path_ok_def sample_memmap_env_def zero_memmap_def zero_tokens_def zero_token_def NUL_def
        TOKEN_STRING_MAX_SIZE_def)
  from memmap_roundtrip [OF this, of sample_specs "[]"] show ?thesis
    by (auto simp: sample_memmap_env_def at_end_def map_is_def sample_specs_def spec_view_def)
qed

end
