(* ===== verification/Mpthread.thy ===== *)
theory Mpthread
  imports Prelude
begin

text \<open>
  The threads of devices, src/src/device/peripheral/athrill_mpthread.c.
  \<^item> The table of threads with the operations that change it. Locking has no effect on the table;
    \<open>'op\<close> is the type of operation tables (\<open>do_init\<close>, \<open>do_proc\<close>).
  \<^item> The loop \<open>mpthread_run\<close> of one thread as a step relation, with any number of other
    threads that call the operations for it; the procedure of the thread may call them as well. A
    mutex has an owner or is free; \<open>pthread_cond_wait\<close> releases it and blocks until a
    signal, a time-out or a spurious wake-up.
\<close>

section \<open>Table of threads\<close>

type_synonym MpthrIdType = uint32

datatype MpthrStatusType = MPTHR_STATUS_INITIALIZING | MPTHR_STATUS_RUNNING | MPTHR_STATUS_WAITING

record 'op MpthrInfoType =
  mi_id :: MpthrIdType
  mi_timeout :: uint32
  mi_status :: MpthrStatusType
  mi_op :: 'op

definition MPTHREAD_MAX_NUM :: uint32 where "MPTHREAD_MAX_NUM = 1024"

text \<open>\<open>mpthread_info\<close> up to the number of registered threads.\<close>

type_synonym 'op mpthreads = "'op MpthrInfoType list"

definition mpthread_num :: "'op mpthreads \<Rightarrow> uint32" where "mpthread_num ts = of_nat (length ts)"

definition mpthread_init :: Std_ReturnType where "mpthread_init = STD_E_OK"

definition mpthread_register :: "'op \<Rightarrow> 'op mpthreads \<Rightarrow> Std_ReturnType \<times> MpthrIdType option \<times> 'op mpthreads" where
  "mpthread_register op ts =
    (if mpthread_num ts \<ge> MPTHREAD_MAX_NUM then (STD_E_LIMIT, None, ts)
     else let new_id = mpthread_num ts
          in (STD_E_OK, Some new_id,
              ts @ [\<lparr>mi_id = new_id, mi_timeout = 0, mi_status = MPTHR_STATUS_INITIALIZING, mi_op = op\<rparr>]))"

text \<open>An unknown thread is reported with an error code in place of a status.\<close>

definition mpthread_get_status :: "MpthrIdType \<Rightarrow> 'op mpthreads \<Rightarrow> Std_ReturnType + MpthrStatusType" where
  "mpthread_get_status thr ts = (if thr \<ge> mpthread_num ts then Inl STD_E_INVALID else Inr (mi_status (ts ! unat thr)))"

definition update_thread ::
  "('op MpthrInfoType \<Rightarrow> 'op MpthrInfoType) \<Rightarrow> MpthrIdType \<Rightarrow> 'op mpthreads \<Rightarrow> Std_ReturnType \<times> 'op mpthreads" where
  "update_thread f thr ts = (if thr \<ge> mpthread_num ts then (STD_E_INVALID, ts) else (STD_E_OK, ts[unat thr := f (ts ! unat thr)]))"

definition mpthread_start_proc :: "MpthrIdType \<Rightarrow> 'op mpthreads \<Rightarrow> Std_ReturnType \<times> 'op mpthreads" where
  "mpthread_start_proc = update_thread (\<lambda>t. t\<lparr>mi_status := MPTHR_STATUS_RUNNING\<rparr>)"

definition mpthread_wait_proc :: "MpthrIdType \<Rightarrow> 'op mpthreads \<Rightarrow> Std_ReturnType \<times> 'op mpthreads" where
  "mpthread_wait_proc = update_thread (\<lambda>t. t\<lparr>mi_timeout := 0, mi_status := MPTHR_STATUS_WAITING\<rparr>)"

definition mpthread_timedwait_proc :: "MpthrIdType \<Rightarrow> uint32 \<Rightarrow> 'op mpthreads \<Rightarrow> Std_ReturnType \<times> 'op mpthreads" where
  "mpthread_timedwait_proc thr timeout =
    update_thread (\<lambda>t. t\<lparr>mi_timeout := timeout, mi_status := MPTHR_STATUS_WAITING\<rparr>) thr"

text \<open>The identifiers are the positions in the table.\<close>

definition threads_ok :: "'op mpthreads \<Rightarrow> bool" where
  "threads_ok ts \<longleftrightarrow> length ts \<le> 1024 \<and> (\<forall>i<length ts. mi_id (ts ! i) = of_nat i)"

lemma mpthread_num_unat: "threads_ok ts \<Longrightarrow> unat (mpthread_num ts) = length ts"
  by (simp add: threads_ok_def mpthread_num_def unat_of_nat take_bit_nat_eq_self)

lemma mpthread_register_ok:
  assumes "threads_ok ts" "mpthread_register op ts = (STD_E_OK, r, ts')"
  shows "\<exists>thr. r = Some thr \<and> unat thr = length ts \<and> length ts' = Suc (length ts) \<and> threads_ok ts' \<and>
    mi_op (ts' ! unat thr) = op \<and> take (length ts) ts' = ts"
  using assms mpthread_num_unat [OF assms(1)]
  by (auto simp: mpthread_register_def threads_ok_def MPTHREAD_MAX_NUM_def Let_def mpthread_num_def word_le_nat_alt nth_append
      less_Suc_eq split: if_splits)

lemma update_thread_ok:
  assumes "threads_ok ts" "\<And>t. mi_id (f t) = mi_id t"
  shows "threads_ok (snd (update_thread f thr ts))" "length (snd (update_thread f thr ts)) = length ts"
    "fst (update_thread f thr ts) = STD_E_OK \<longleftrightarrow> unat thr < length ts"
  using assms mpthread_num_unat [OF assms(1)]
  by (auto simp: update_thread_def threads_ok_def nth_list_update word_le_nat_alt)

lemma mpthread_start_proc_ok:
  "threads_ok ts \<Longrightarrow> unat thr < length ts \<Longrightarrow>
    \<exists>ts'. mpthread_start_proc thr ts = (STD_E_OK, ts') \<and> threads_ok ts' \<and> length ts' = length ts"
  using update_thread_ok [of ts "\<lambda>t. t\<lparr>mi_status := MPTHR_STATUS_RUNNING\<rparr>" thr]
  by (cases "mpthread_start_proc thr ts") (simp add: mpthread_start_proc_def)

section \<open>Loop of a thread\<close>

datatype mp_thread = Runner | Caller nat

datatype mp_call = Call_lock | Call_start_proc | Call_wait_proc | Call_timedwait_proc uint32

text \<open>Where a caller is: before taking the mutex, before the assignments, before the signal, before the release.\<close>

datatype call_at = Call_idle | Call_locking mp_call | Call_locked mp_call | Call_signal | Call_unlock

datatype run_at =
    Run_init            \<comment> \<open>before and in \<open>do_init\<close>\<close>
  | Run_lock            \<comment> \<open>before taking the mutex\<close>
  | Run_test            \<comment> \<open>before the test of the status\<close>
  | Run_blocked         \<comment> \<open>in \<open>pthread_cond_wait\<close>\<close>
  | Run_relock          \<comment> \<open>woken up, before taking the mutex again\<close>
  | Run_unlock          \<comment> \<open>before releasing the mutex\<close>
  | Run_proc call_at    \<comment> \<open>in \<open>do_proc\<close>, maybe in a call of the operations\<close>

record run_state =
  rs_mutex :: "mp_thread option"
  rs_status :: MpthrStatusType
  rs_timeout :: uint32
  rs_run :: run_at
  rs_callers :: "nat \<Rightarrow> call_at"

definition signal_runner :: "run_state \<Rightarrow> run_state" where
  "signal_runner s = s\<lparr>rs_run := (if rs_run s = Run_blocked then Run_relock else rs_run s)\<rparr>"

text \<open>The operations as steps of the thread \<open>who\<close>.\<close>

inductive call_step :: "mp_thread \<Rightarrow> call_at \<Rightarrow> run_state \<Rightarrow> call_at \<Rightarrow> run_state \<Rightarrow> bool" for who :: mp_thread where
  call_begin: "call_step who Call_idle s (Call_locking c) s"
| call_take: "rs_mutex s = None \<Longrightarrow> call_step who (Call_locking c) s (Call_locked c) (s\<lparr>rs_mutex := Some who\<rparr>)"
| call_lock_only: "call_step who (Call_locked Call_lock) s Call_unlock s"
| call_start: "call_step who (Call_locked Call_start_proc) s Call_signal (s\<lparr>rs_status := MPTHR_STATUS_RUNNING\<rparr>)"
| call_wait: "call_step who (Call_locked Call_wait_proc) s Call_unlock
    (s\<lparr>rs_timeout := 0, rs_status := MPTHR_STATUS_WAITING\<rparr>)"
| call_timedwait: "call_step who (Call_locked (Call_timedwait_proc t)) s Call_unlock
    (s\<lparr>rs_timeout := t, rs_status := MPTHR_STATUS_WAITING\<rparr>)"
| call_signal: "call_step who Call_signal s Call_unlock (signal_runner s)"
| call_release: "call_step who Call_unlock s Call_idle (s\<lparr>rs_mutex := None\<rparr>)"

inductive mpthread_run :: "run_state \<Rightarrow> run_state \<Rightarrow> bool" where
  run_init: "rs_run s = Run_init \<Longrightarrow> mpthread_run s (s\<lparr>rs_run := Run_lock\<rparr>)"
| run_lock: "rs_run s = Run_lock \<Longrightarrow> rs_mutex s = None \<Longrightarrow>
    mpthread_run s (s\<lparr>rs_run := Run_test, rs_mutex := Some Runner\<rparr>)"
| run_wait: "rs_run s = Run_test \<Longrightarrow> rs_status s \<noteq> MPTHR_STATUS_RUNNING \<Longrightarrow>
    mpthread_run s (s\<lparr>rs_run := Run_blocked, rs_mutex := None\<rparr>)"
| run_wake: "rs_run s = Run_blocked \<Longrightarrow> mpthread_run s (s\<lparr>rs_run := Run_relock\<rparr>)"
| run_relock: "rs_run s = Run_relock \<Longrightarrow> rs_mutex s = None \<Longrightarrow>
    mpthread_run s (s\<lparr>rs_run := Run_test, rs_mutex := Some Runner\<rparr>)"
| run_go: "rs_run s = Run_test \<Longrightarrow> rs_status s = MPTHR_STATUS_RUNNING \<Longrightarrow> mpthread_run s (s\<lparr>rs_run := Run_unlock\<rparr>)"
| run_unlock: "rs_run s = Run_unlock \<Longrightarrow> mpthread_run s (s\<lparr>rs_run := Run_proc Call_idle, rs_mutex := None\<rparr>)"
| run_call: "rs_run s = Run_proc a \<Longrightarrow> call_step Runner a s a' s' \<Longrightarrow> mpthread_run s (s'\<lparr>rs_run := Run_proc a'\<rparr>)"
| run_return: "rs_run s = Run_proc Call_idle \<Longrightarrow> mpthread_run s (s\<lparr>rs_run := Run_lock\<rparr>)"

inductive run_step :: "run_state \<Rightarrow> run_state \<Rightarrow> bool" where
  step_runner: "mpthread_run s s' \<Longrightarrow> run_step s s'"
| step_caller: "call_step (Caller i) (rs_callers s i) s a s' \<Longrightarrow> run_step s (s'\<lparr>rs_callers := (rs_callers s)(i := a)\<rparr>)"

definition run_start :: "run_state \<Rightarrow> bool" where
  "run_start s \<longleftrightarrow> rs_mutex s = None \<and> rs_status s = MPTHR_STATUS_INITIALIZING \<and> rs_timeout s = 0 \<and>
    rs_run s = Run_init \<and> (\<forall>i. rs_callers s i = Call_idle)"

inductive run_reach :: "run_state \<Rightarrow> bool" where
  reach_start: "run_start s \<Longrightarrow> run_reach s"
| reach_next: "run_reach s \<Longrightarrow> run_step s s' \<Longrightarrow> run_reach s'"

text \<open>Who holds the mutex at which point.\<close>

fun call_holds :: "call_at \<Rightarrow> bool" where
  "call_holds (Call_locked c) = True"
| "call_holds Call_signal = True"
| "call_holds Call_unlock = True"
| "call_holds _ = False"

fun run_holds :: "run_at \<Rightarrow> bool" where
  "run_holds Run_test = True"
| "run_holds Run_unlock = True"
| "run_holds (Run_proc a) = call_holds a"
| "run_holds _ = False"

definition run_inv :: "run_state \<Rightarrow> bool" where
  "run_inv s \<longleftrightarrow> (run_holds (rs_run s) \<longleftrightarrow> rs_mutex s = Some Runner) \<and>
    (\<forall>i. call_holds (rs_callers s i) \<longleftrightarrow> rs_mutex s = Some (Caller i)) \<and>
    (rs_run s = Run_unlock \<longrightarrow> rs_status s = MPTHR_STATUS_RUNNING) \<and>
    (rs_run s = Run_blocked \<and> rs_status s = MPTHR_STATUS_RUNNING \<longrightarrow> (\<exists>i. rs_callers s i = Call_signal))"

lemma run_inv_intro:
  assumes "run_holds (rs_run s') \<longleftrightarrow> rs_mutex s' = Some Runner" "\<And>j. call_holds (rs_callers s' j) \<longleftrightarrow> rs_mutex s' = Some (Caller j)"
    "rs_run s' = Run_unlock \<Longrightarrow> rs_status s' = MPTHR_STATUS_RUNNING"
    "rs_run s' = Run_blocked \<Longrightarrow> rs_status s' = MPTHR_STATUS_RUNNING \<Longrightarrow> \<exists>j. rs_callers s' j = Call_signal"
  shows "run_inv s'"
  using assms by (simp add: run_inv_def)

lemma other_caller: "f i \<noteq> x \<Longrightarrow> \<exists>j. f j = x \<Longrightarrow> \<exists>j. (f(i := y)) j = x"
  by (metis fun_upd_apply)

lemma run_inv_caller:
  assumes "run_inv s" "call_step (Caller i) (rs_callers s i) s a s'"
  shows "run_inv (s'\<lparr>rs_callers := (rs_callers s)(i := a)\<rparr>)"
proof (rule run_inv_intro)
  have own: "call_holds (rs_callers s j) \<longleftrightarrow> rs_mutex s = Some (Caller j)" for j using assms(1) by (simp add: run_inv_def)
  have run: "run_holds (rs_run s) \<longleftrightarrow> rs_mutex s = Some Runner" using assms(1) by (simp add: run_inv_def)
  note inv = assms(1) [unfolded run_inv_def]
  let ?s = "s'\<lparr>rs_callers := (rs_callers s)(i := a)\<rparr>"
  show "run_holds (rs_run ?s) \<longleftrightarrow> rs_mutex ?s = Some Runner"
    using assms(2) by cases (use run own [of i] in \<open>auto simp: signal_runner_def\<close>)
  show "call_holds (rs_callers ?s j) \<longleftrightarrow> rs_mutex ?s = Some (Caller j)" for j
    using assms(2) by cases (use own [of i] own [of j] in \<open>auto simp: signal_runner_def\<close>)
  show "rs_status ?s = MPTHR_STATUS_RUNNING" if "rs_run ?s = Run_unlock"
    using assms(2) by cases (use inv run own [of i] that in \<open>auto simp: signal_runner_def split: if_splits\<close>)
  show "\<exists>j. rs_callers ?s j = Call_signal" if "rs_run ?s = Run_blocked" "rs_status ?s = MPTHR_STATUS_RUNNING"
    using assms(2) by cases (use inv that other_caller [of "rs_callers s" i Call_signal a] in \<open>auto simp: signal_runner_def split: if_splits\<close>)
qed

lemma run_holder: "run_inv s \<Longrightarrow> run_holds (rs_run s) \<Longrightarrow> rs_mutex s = Some Runner"
  by (simp add: run_inv_def)

lemma run_inv_runner:
  assumes "run_inv s" "mpthread_run s s'"
  shows "run_inv s'"
  using assms(2)
proof cases
  case (run_call a a' s1)
  have "run_inv (s1\<lparr>rs_run := Run_proc a'\<rparr>)"
    using run_call(3) by cases (use assms(1) run_call(2) run_holder [OF assms(1)] in \<open>fastforce simp: run_inv_def signal_runner_def\<close>)+
  then show ?thesis using run_call(1) by simp
qed (use assms(1) run_holder [OF assms(1)] in \<open>fastforce simp: run_inv_def\<close>)+

lemma run_inv_reach: "run_reach s \<Longrightarrow> run_inv s"
proof (induction rule: run_reach.induct)
  case (reach_start s)
  then show ?case by (simp add: run_start_def run_inv_def)
next
  case (reach_next s s')
  from reach_next.hyps(2) reach_next.IH show ?case by cases (simp_all add: run_inv_runner run_inv_caller)
qed

text \<open>
  No start of a device thread is lost, whatever the interleaving with the other threads: if the
  thread sleeps although its status is running, then the thread that started it is about to signal it;
  and the procedure of the thread is entered only with the status running.
\<close>

theorem started_thread_not_asleep:
  "run_reach s \<Longrightarrow> (rs_run s = Run_blocked \<and> rs_status s = MPTHR_STATUS_RUNNING \<longrightarrow> (\<exists>i. rs_callers s i = Call_signal)) \<and>
    (rs_run s = Run_unlock \<longrightarrow> rs_status s = MPTHR_STATUS_RUNNING)"
  using run_inv_reach by (simp add: run_inv_def)

end
