(* ===== verification/SerialFifo.thy ===== *)
theory SerialFifo
  imports CommBuffer Mpthread DevConfig
begin

text \<open>
  The serial FIFO device, src/src/device/peripheral/serial/fifo/serial_fifo.c: eight channels, each with
  a ring buffer in each direction, registers in guest memory that the device polls at every clock, and two
  host threads that move bytes between the ring buffers and named pipes.
  \<^item> Sequential operations: the initialisation from the device configuration and the clock.
    \<open>device_raise_int\<close> is code of the target, a parameter on the state of its devices;
    \<open>se_old\<close> is the value of an uninitialised local variable; \<open>alloc k sz\<close> is what
    the \<open>k\<close>-th call of \<open>malloc\<close> returns for the size \<open>sz\<close>.
  \<^item> \<open>None\<close> is undefined behaviour or a failed \<open>ASSERT\<close>. A \<open>std_bool\<close> that
    is set from the configuration keeps its number.
\<close>

section \<open>Data\<close>

definition SERIAL_FIFO_MAX_CHANNEL_NUM :: nat where "SERIAL_FIFO_MAX_CHANNEL_NUM = 8"
definition SERIAL_FIFO_RD_BUFFER_LEN :: uint32 where "SERIAL_FIFO_RD_BUFFER_LEN = 16"
definition SERIAL_FIFO_WR_BUFFER_LEN :: uint32 where "SERIAL_FIFO_WR_BUFFER_LEN = 16"

definition SERIAL_FIFO_WRITE_STATUS_ADDR :: "uint32 \<Rightarrow> nat \<Rightarrow> AthrillAddrType" where
  "SERIAL_FIFO_WRITE_STATUS_ADDR base ch = base + of_nat (SERIAL_FIFO_MAX_CHANNEL_NUM * 0 + ch)"
definition SERIAL_FIFO_WRITE_CMD_ADDR :: "uint32 \<Rightarrow> nat \<Rightarrow> AthrillAddrType" where
  "SERIAL_FIFO_WRITE_CMD_ADDR base ch = base + of_nat (SERIAL_FIFO_MAX_CHANNEL_NUM * 1 + ch)"
definition SERIAL_FIFO_WRITE_PTR_ADDR :: "uint32 \<Rightarrow> nat \<Rightarrow> AthrillAddrType" where
  "SERIAL_FIFO_WRITE_PTR_ADDR base ch = base + of_nat (SERIAL_FIFO_MAX_CHANNEL_NUM * 2 + ch)"
definition SERIAL_FIFO_READ_STATUS_ADDR :: "uint32 \<Rightarrow> nat \<Rightarrow> AthrillAddrType" where
  "SERIAL_FIFO_READ_STATUS_ADDR base ch = base + of_nat (SERIAL_FIFO_MAX_CHANNEL_NUM * 3 + ch)"
definition SERIAL_FIFO_READ_CMD_ADDR :: "uint32 \<Rightarrow> nat \<Rightarrow> AthrillAddrType" where
  "SERIAL_FIFO_READ_CMD_ADDR base ch = base + of_nat (SERIAL_FIFO_MAX_CHANNEL_NUM * 4 + ch)"
definition SERIAL_FIFO_READ_PTR_ADDR :: "uint32 \<Rightarrow> nat \<Rightarrow> AthrillAddrType" where
  "SERIAL_FIFO_READ_PTR_ADDR base ch = base + of_nat (SERIAL_FIFO_MAX_CHANNEL_NUM * 5 + ch)"

definition SERIAL_FIFO_WRITE_STATUS_CAN_DATA :: uint8 where "SERIAL_FIFO_WRITE_STATUS_CAN_DATA = 0"
definition SERIAL_FIFO_WRITE_STATUS_DATA_FULL :: uint8 where "SERIAL_FIFO_WRITE_STATUS_DATA_FULL = 1"
definition SERIAL_FIFO_WRITE_CMD_NONE :: uint8 where "SERIAL_FIFO_WRITE_CMD_NONE = 0"
definition SERIAL_FIFO_WRITE_CMD_MOVE :: uint8 where "SERIAL_FIFO_WRITE_CMD_MOVE = 1"
definition SERIAL_FIFO_WRITE_CMD_TX :: uint8 where "SERIAL_FIFO_WRITE_CMD_TX = 2"
definition SERIAL_FIFO_READ_STATUS_NO_DATA :: uint8 where "SERIAL_FIFO_READ_STATUS_NO_DATA = 0"
definition SERIAL_FIFO_READ_STATUS_DATA_IN :: uint8 where "SERIAL_FIFO_READ_STATUS_DATA_IN = 1"
definition SERIAL_FIFO_READ_CMD_NONE :: uint8 where "SERIAL_FIFO_READ_CMD_NONE = 0"
definition SERIAL_FIFO_READ_CMD_MOVE :: uint8 where "SERIAL_FIFO_READ_CMD_MOVE = 1"

record AthrillSerialFifoType =
  sf_is_extdev :: uint32
  sf_disable_cpu_io :: uint32
  sf_rd :: CommFifoBufferType
  sf_rd_dev_buffer :: CommFifoBufferType
  sf_rd_intno :: uint32
  sf_rd_intoff :: uint32
  sf_rd_raise_delay_count :: uint32
  sf_rd_raise_intr :: bool
  sf_wr :: CommFifoBufferType
  sf_wr_dev_buffer :: CommFifoBufferType
  sf_wr_intno :: uint32
  sf_wr_intoff :: uint32
  sf_wr_raise_delay_count :: uint32
  sf_wr_raise_intr :: bool
  sf_rx_thread :: MpthrIdType
  sf_rx_serial_fifopath :: string
  sf_tx_thread :: MpthrIdType
  sf_tx_serial_fifopath :: string

datatype serial_thread_ops = rx_thread_ops | tx_thread_ops

text \<open>The parameters of the device: the memory of the target and its interrupts.\<close>

record 'd serial_env =
  se_mpu :: "'d mpu_env"
  se_device_raise_int :: "uint32 \<Rightarrow> 'd \<Rightarrow> 'd"
  se_old :: uint8

section \<open>Clock: reading of the CPU\<close>

text \<open>
  A channel with the state of the address map. The operations are cut at the points where they take
  and release the mutex of a thread.
\<close>

type_synonym 'd chan = "AthrillSerialFifoType \<times> 'd mpu_state"

definition put8 :: "'d serial_env \<Rightarrow> AthrillAddrType \<Rightarrow> uint8 \<Rightarrow> 'd mpu_state \<Rightarrow> 'd mpu_state option" where
  "put8 env addr data mpu = map_option snd (mpu_put_data8 (se_mpu env) 0 addr data mpu)"

definition get8 :: "'d serial_env \<Rightarrow> AthrillAddrType \<Rightarrow> 'd mpu_state \<Rightarrow> (uint8 \<times> 'd mpu_state) option" where
  "get8 env addr mpu = map_option snd (mpu_get_data8 (se_mpu env) 0 addr (se_old env) mpu)"

definition cpu_read_status :: "'d serial_env \<Rightarrow> uint32 \<Rightarrow> uint32 \<Rightarrow> nat \<Rightarrow> 'd chan \<Rightarrow> (uint8 \<times> 'd chan) option" where
  "cpu_read_status env base fd ch = (\<lambda>(c, mpu). do {
    mpu1 \<leftarrow> put8 env (SERIAL_FIFO_READ_STATUS_ADDR base ch)
      (if COMM_FIFO_IS_EMPTY (sf_rd c) then SERIAL_FIFO_READ_STATUS_NO_DATA else SERIAL_FIFO_READ_STATUS_DATA_IN) mpu;
    let c1 = (if \<not> COMM_FIFO_IS_EMPTY (sf_rd c) \<and> cf_count (sf_rd c) \<ge> sf_rd_intoff c \<and> \<not> sf_rd_raise_intr c
              then c\<lparr>sf_rd_raise_delay_count := fd, sf_rd_raise_intr := True\<rparr> else c);
    (cmd, mpu2) \<leftarrow> get8 env (SERIAL_FIFO_READ_CMD_ADDR base ch) mpu1;
    Some (cmd, c1, mpu2)
  })"

text \<open>Under the mutex of the receiving thread; the code and the bytes that were read.\<close>

definition cpu_read_move :: "AthrillSerialFifoType \<Rightarrow> (Std_ReturnType \<times> uint8 list \<times> AthrillSerialFifoType) option" where
  "cpu_read_move c = map_option (\<lambda>(err, bs, res, rd). (err, bs, c\<lparr>sf_rd := rd\<rparr>)) (comm_fifo_buffer_get (sf_rd c) 1)"

definition cpu_read_end :: "'d serial_env \<Rightarrow> uint32 \<Rightarrow> nat \<Rightarrow> Std_ReturnType \<Rightarrow> uint8 list \<Rightarrow> 'd mpu_state \<Rightarrow> 'd mpu_state option" where
  "cpu_read_end env base ch err bs mpu = do {
    mpu1 \<leftarrow> (if err = STD_E_OK then put8 env (SERIAL_FIFO_READ_PTR_ADDR base ch) (hd bs) mpu else Some mpu);
    put8 env (SERIAL_FIFO_READ_CMD_ADDR base ch) SERIAL_FIFO_READ_CMD_NONE mpu1
  }"

definition do_serial_fifo_cpu_read :: "'d serial_env \<Rightarrow> uint32 \<Rightarrow> uint32 \<Rightarrow> nat \<Rightarrow> 'd chan \<Rightarrow> 'd chan option" where
  "do_serial_fifo_cpu_read env base fd ch cm = do {
    (cmd, c, mpu) \<leftarrow> cpu_read_status env base fd ch cm;
    if cmd = SERIAL_FIFO_READ_CMD_MOVE
    then do {
      (err, bs, c1) \<leftarrow> cpu_read_move c;
      mpu1 \<leftarrow> cpu_read_end env base ch err bs mpu;
      Some (c1, mpu1)
    }
    else Some (c, mpu)
  }"

section \<open>Clock: writing of the CPU\<close>

text \<open>One round of the loop under the mutex of the sending thread: whether it goes on, and the channel.\<close>

definition cpu_tx_move :: "AthrillSerialFifoType \<Rightarrow> (bool \<times> AthrillSerialFifoType) option" where
  "cpu_tx_move c =
    (if COMM_FIFO_IS_FULL (sf_wr c) then Some (False, c)
     else do {
       (err, bs, res, dev) \<leftarrow> comm_fifo_buffer_get (sf_wr_dev_buffer c) 1;
       let c1 = c\<lparr>sf_wr_dev_buffer := dev\<rparr>;
       if err = STD_E_OK
       then do {
         (err, res, wr) \<leftarrow> comm_fifo_buffer_add (sf_wr c1) [hd bs];
         Some (True, c1\<lparr>sf_wr := wr\<rparr>)
       }
       else Some (False, c1)
     })"

fun cpu_tx_loop :: "nat \<Rightarrow> AthrillSerialFifoType \<Rightarrow> AthrillSerialFifoType option" where
  "cpu_tx_loop 0 c = Some c"
| "cpu_tx_loop (Suc n) c =
    (case cpu_tx_move c of None \<Rightarrow> None | Some (again, c1) \<Rightarrow> if again then cpu_tx_loop n c1 else Some c1)"

definition cpu_tx_end :: "'d serial_env \<Rightarrow> uint32 \<Rightarrow> uint32 \<Rightarrow> nat \<Rightarrow> 'd chan \<Rightarrow> 'd chan option" where
  "cpu_tx_end env base fd ch = (\<lambda>(c, mpu). do {
    let c1 = (if cf_count (sf_wr_dev_buffer c) \<le> sf_wr_intoff c
              then c\<lparr>sf_wr_raise_delay_count := fd, sf_wr_raise_intr := True\<rparr> else c);
    mpu1 \<leftarrow> (if cf_count (sf_wr_dev_buffer c) = 0
             then put8 env (SERIAL_FIFO_WRITE_CMD_ADDR base ch) SERIAL_FIFO_WRITE_CMD_NONE mpu else Some mpu);
    Some (c1, mpu1)
  })"

definition do_serial_fifo_cpu_write_tx :: "'d serial_env \<Rightarrow> uint32 \<Rightarrow> uint32 \<Rightarrow> nat \<Rightarrow> 'd chan \<Rightarrow> 'd chan option" where
  "do_serial_fifo_cpu_write_tx env base fd ch = (\<lambda>(c, mpu). do {
    c1 \<leftarrow> cpu_tx_loop (unat (cf_count (sf_wr_dev_buffer c))) c;
    cpu_tx_end env base fd ch (c1, mpu)
  })"

definition cpu_write_status :: "'d serial_env \<Rightarrow> uint32 \<Rightarrow> nat \<Rightarrow> 'd chan \<Rightarrow> (uint8 \<times> 'd mpu_state) option" where
  "cpu_write_status env base ch = (\<lambda>(c, mpu). do {
    mpu1 \<leftarrow> put8 env (SERIAL_FIFO_WRITE_STATUS_ADDR base ch)
      (if \<not> COMM_FIFO_IS_FULL (sf_wr_dev_buffer c) then SERIAL_FIFO_WRITE_STATUS_CAN_DATA
       else SERIAL_FIFO_WRITE_STATUS_DATA_FULL) mpu;
    get8 env (SERIAL_FIFO_WRITE_CMD_ADDR base ch) mpu1
  })"

text \<open>The code of the buffer is ignored by the caller; it is returned here with the byte.\<close>

definition cpu_write_move :: "'d serial_env \<Rightarrow> uint32 \<Rightarrow> nat \<Rightarrow> 'd chan \<Rightarrow> (Std_ReturnType \<times> uint8 \<times> 'd chan) option" where
  "cpu_write_move env base ch = (\<lambda>(c, mpu). do {
    (data, mpu1) \<leftarrow> get8 env (SERIAL_FIFO_WRITE_PTR_ADDR base ch) mpu;
    (err, res, dev) \<leftarrow> comm_fifo_buffer_add (sf_wr_dev_buffer c) [data];
    mpu2 \<leftarrow> put8 env (SERIAL_FIFO_WRITE_CMD_ADDR base ch) SERIAL_FIFO_WRITE_CMD_NONE mpu1;
    Some (err, data, c\<lparr>sf_wr_dev_buffer := dev\<rparr>, mpu2)
  })"

definition do_serial_fifo_cpu_write :: "'d serial_env \<Rightarrow> uint32 \<Rightarrow> uint32 \<Rightarrow> nat \<Rightarrow> 'd chan \<Rightarrow> 'd chan option" where
  "do_serial_fifo_cpu_write env base fd ch cm = do {
    (cmd, mpu) \<leftarrow> cpu_write_status env base ch cm;
    if cmd = SERIAL_FIFO_WRITE_CMD_MOVE then map_option (\<lambda>(err, data, cm1). cm1) (cpu_write_move env base ch (fst cm, mpu))
    else if cmd = SERIAL_FIFO_WRITE_CMD_TX then do_serial_fifo_cpu_write_tx env base fd ch (fst cm, mpu)
    else Some (fst cm, mpu)
  }"

section \<open>Clock: interrupts\<close>

definition raise_int :: "'d serial_env \<Rightarrow> uint32 \<Rightarrow> 'd mpu_state \<Rightarrow> 'd mpu_state" where
  "raise_int env intno mpu = mpu\<lparr>mpu_dev := se_device_raise_int env intno (mpu_dev mpu)\<rparr>"

definition cpu_rd_intr :: "'d serial_env \<Rightarrow> 'd chan \<Rightarrow> 'd chan" where
  "cpu_rd_intr env = (\<lambda>(c, mpu).
    if \<not> sf_rd_raise_intr c then (c, mpu)
    else if sf_rd_raise_delay_count c = 0 then (c\<lparr>sf_rd_raise_intr := False\<rparr>, raise_int env (sf_rd_intno c) mpu)
    else (c\<lparr>sf_rd_raise_delay_count := sf_rd_raise_delay_count c - 1\<rparr>, mpu))"

definition cpu_wr_intr :: "'d serial_env \<Rightarrow> 'd chan \<Rightarrow> 'd chan" where
  "cpu_wr_intr env = (\<lambda>(c, mpu).
    if \<not> sf_wr_raise_intr c then (c, mpu)
    else if sf_wr_raise_delay_count c = 0 then (c\<lparr>sf_wr_raise_intr := False\<rparr>, raise_int env (sf_wr_intno c) mpu)
    else (c\<lparr>sf_wr_raise_delay_count := sf_wr_raise_delay_count c - 1\<rparr>, mpu))"

definition do_serial_fifo_cpu_intr :: "'d serial_env \<Rightarrow> 'd chan \<Rightarrow> 'd chan" where
  "do_serial_fifo_cpu_intr env cm = cpu_wr_intr env (cpu_rd_intr env cm)"

section \<open>Device\<close>

record 'd serial_state =
  ss_fifo :: "AthrillSerialFifoType list"
  ss_base_addr :: uint32
  ss_fd :: uint32
  ss_mpu :: "'d mpu_state"
  ss_threads :: "serial_thread_ops mpthreads"
  ss_cfg :: CpuEmuDevCfgType

definition clock_channel :: "'d serial_env \<Rightarrow> nat \<Rightarrow> 'd serial_state \<Rightarrow> 'd serial_state option" where
  "clock_channel env i st = do {
    c \<leftarrow> index_at (ss_fifo st) i;
    if cf_data (sf_rd c) = None \<or> sf_disable_cpu_io c = 1 then Some st
    else do {
      cm1 \<leftarrow> do_serial_fifo_cpu_read env (ss_base_addr st) (ss_fd st) i (c, ss_mpu st);
      cm2 \<leftarrow> do_serial_fifo_cpu_write env (ss_base_addr st) (ss_fd st) i cm1;
      let (c3, mpu3) = do_serial_fifo_cpu_intr env cm2;
      Some (st\<lparr>ss_fifo := (ss_fifo st)[i := c3], ss_mpu := mpu3\<rparr>)
    }
  }"

fun clock_channels :: "'d serial_env \<Rightarrow> nat list \<Rightarrow> 'd serial_state \<Rightarrow> 'd serial_state option" where
  "clock_channels env [] st = Some st"
| "clock_channels env (i # is) st = (case clock_channel env i st of None \<Rightarrow> None | Some st1 \<Rightarrow> clock_channels env is st1)"

definition athrill_device_supply_clock_serial_fifo :: "'d serial_env \<Rightarrow> 'd serial_state \<Rightarrow> 'd serial_state option" where
  "athrill_device_supply_clock_serial_fifo env st =
    (if ss_base_addr st = 0 then Some st else clock_channels env [0..<SERIAL_FIFO_MAX_CHANNEL_NUM] st)"

definition athrill_device_get_serial_fifo_buffer :: "uint32 \<Rightarrow> 'd serial_state \<Rightarrow> AthrillSerialFifoType option" where
  "athrill_device_get_serial_fifo_buffer channel st =
    (if ss_base_addr st = 0 then None
     else if unat channel \<ge> SERIAL_FIFO_MAX_CHANNEL_NUM then None
     else let c = ss_fifo st ! unat channel in if cf_data (sf_rd c) = None then None else Some c)"

section \<open>Initialisation\<close>

definition serial_fifo_param :: "nat \<Rightarrow> string \<Rightarrow> string" where
  "serial_fifo_param i name = ''DEVICE_CONFIG_SERIAL_FILFO_'' @ digits_of 10 i @ name"

definition assert_ok :: "Std_ReturnType \<times> 'a \<Rightarrow> 'a option" where
  "assert_ok r = (if fst r = STD_E_OK then Some (snd r) else None)"

definition create_buffer ::
  "(nat \<Rightarrow> uint32 \<Rightarrow> uint8 list option) \<Rightarrow> nat \<Rightarrow> uint32 \<Rightarrow> CommFifoBufferType \<Rightarrow> CommFifoBufferType option" where
  "create_buffer alloc k sz f = Option.bind (assert_ok (comm_fifo_buffer_create sz (alloc k sz) (Some f))) (\<lambda>r. r)"

definition mpthread_register_assert :: "'op \<Rightarrow> 'op mpthreads \<Rightarrow> (MpthrIdType \<times> 'op mpthreads) option" where
  "mpthread_register_assert op ts =
    Option.bind (assert_ok (mpthread_register op ts)) (\<lambda>(thr, ts1). map_option (\<lambda>t. (t, ts1)) thr)"

definition start_threads :: "serial_thread_ops mpthreads \<Rightarrow> (MpthrIdType \<times> MpthrIdType \<times> serial_thread_ops mpthreads) option" where
  "start_threads ts = do {
    (rx_thread, ts1) \<leftarrow> mpthread_register_assert rx_thread_ops ts;
    (tx_thread, ts2) \<leftarrow> mpthread_register_assert tx_thread_ops ts1;
    ts3 \<leftarrow> assert_ok (mpthread_start_proc rx_thread ts2);
    ts4 \<leftarrow> assert_ok (mpthread_start_proc tx_thread ts3);
    Some (rx_thread, tx_thread, ts4)
  }"

definition serial_fifo_thread_start ::
  "(string \<Rightarrow> string option) \<Rightarrow> nat \<Rightarrow> AthrillSerialFifoType \<Rightarrow> CpuEmuDevCfgType \<Rightarrow> serial_thread_ops mpthreads
    \<Rightarrow> (AthrillSerialFifoType \<times> CpuEmuDevCfgType \<times> serial_thread_ops mpthreads) option" where
  "serial_fifo_thread_start getenv channel c cfg ts = do {
    (rx_path, cfg1) \<leftarrow> cpuemu_get_devcfg_string getenv (serial_fifo_param channel ''_RD_FIFO'') cfg;
    rx_serial_fifopath \<leftarrow> rx_path;
    (tx_path, cfg2) \<leftarrow> cpuemu_get_devcfg_string getenv (serial_fifo_param channel ''_WR_FIFO'') cfg1;
    tx_serial_fifopath \<leftarrow> tx_path;
    (rx_thread, tx_thread, ts1) \<leftarrow> start_threads ts;
    Some (c\<lparr>sf_rx_serial_fifopath := rx_serial_fifopath, sf_tx_serial_fifopath := tx_serial_fifopath,
            sf_rx_thread := rx_thread, sf_tx_thread := tx_thread\<rparr>, cfg2, ts1)
  }"

text \<open>The fields of a channel that is configured, before its threads are started.\<close>

definition configure_channel ::
  "(nat \<Rightarrow> uint32 \<Rightarrow> uint8 list option) \<Rightarrow> nat \<Rightarrow> uint32 \<Rightarrow> CpuEmuDevCfgType \<Rightarrow> AthrillSerialFifoType \<Rightarrow> AthrillSerialFifoType option" where
  "configure_channel alloc i buffer_size cfg c = do {
    let value = (\<lambda>name. cpuemu_get_devcfg_value (serial_fifo_param i name) cfg);
    rd \<leftarrow> create_buffer alloc (4 * i) buffer_size (sf_rd c);
    rd_dev_buffer \<leftarrow> create_buffer alloc (4 * i + 1) SERIAL_FIFO_RD_BUFFER_LEN (sf_rd_dev_buffer c);
    wr \<leftarrow> create_buffer alloc (4 * i + 2) buffer_size (sf_wr c);
    wr_dev_buffer \<leftarrow> create_buffer alloc (4 * i + 3) SERIAL_FIFO_WR_BUFFER_LEN (sf_wr_dev_buffer c);
    rd_intno \<leftarrow> value ''_RD_INTNO'';
    wr_intno \<leftarrow> value ''_WR_INTNO'';
    rd_intoff \<leftarrow> value ''_RD_INTOFF'';
    wr_intoff \<leftarrow> value ''_WR_INTOFF'';
    Some (c\<lparr>sf_rd_raise_delay_count := 0, sf_rd_raise_intr := False, sf_wr_raise_delay_count := 0, sf_wr_raise_intr := False,
            sf_rd := rd, sf_rd_dev_buffer := rd_dev_buffer, sf_wr := wr, sf_wr_dev_buffer := wr_dev_buffer,
            sf_rd_intno := rd_intno, sf_wr_intno := wr_intno, sf_rd_intoff := rd_intoff, sf_wr_intoff := wr_intoff,
            sf_disable_cpu_io := (case value ''_DISABLE_CPUIO'' of None \<Rightarrow> 0 | Some v \<Rightarrow> v),
            sf_is_extdev := (case value ''_EXDEV_ENABLE'' of None \<Rightarrow> 0 | Some v \<Rightarrow> v)\<rparr>)
  }"

definition init_channel ::
  "(string \<Rightarrow> string option) \<Rightarrow> (nat \<Rightarrow> uint32 \<Rightarrow> uint8 list option) \<Rightarrow> nat \<Rightarrow> 'd serial_state \<Rightarrow> 'd serial_state option" where
  "init_channel getenv alloc i st = do {
    c \<leftarrow> index_at (ss_fifo st) i;
    case cpuemu_get_devcfg_value (serial_fifo_param i ''_SIZE'') (ss_cfg st) of
      None \<Rightarrow> Some (st\<lparr>ss_fifo := (ss_fifo st)[i := c\<lparr>sf_rd := (sf_rd c)\<lparr>cf_data := None\<rparr>, sf_wr := (sf_wr c)\<lparr>cf_data := None\<rparr>\<rparr>]\<rparr>)
    | Some buffer_size \<Rightarrow> do {
        c1 \<leftarrow> configure_channel alloc i buffer_size (ss_cfg st) c;
        if sf_is_extdev c1 = 0
        then do {
          (c2, cfg, ts) \<leftarrow> serial_fifo_thread_start getenv i c1 (ss_cfg st) (ss_threads st);
          Some (st\<lparr>ss_fifo := (ss_fifo st)[i := c2], ss_cfg := cfg, ss_threads := ts\<rparr>)
        }
        else Some (st\<lparr>ss_fifo := (ss_fifo st)[i := c1]\<rparr>)
      }
  }"

fun init_channels ::
  "(string \<Rightarrow> string option) \<Rightarrow> (nat \<Rightarrow> uint32 \<Rightarrow> uint8 list option) \<Rightarrow> nat list \<Rightarrow> 'd serial_state \<Rightarrow> 'd serial_state option" where
  "init_channels getenv alloc [] st = Some st"
| "init_channels getenv alloc (i # is) st =
    (case init_channel getenv alloc i st of None \<Rightarrow> None | Some st1 \<Rightarrow> init_channels getenv alloc is st1)"

definition athrill_device_init_serial_fifo ::
  "(string \<Rightarrow> string option) \<Rightarrow> (nat \<Rightarrow> uint32 \<Rightarrow> uint8 list option) \<Rightarrow> 'd serial_state \<Rightarrow> 'd serial_state option" where
  "athrill_device_init_serial_fifo getenv alloc st =
    (case cpuemu_get_devcfg_value_hex ''DEVICE_CONFIG_SERIAL_FILFO_BASE_ADDR'' (ss_cfg st) of
       None \<Rightarrow> Some st
     | Some base \<Rightarrow>
         (let fd = (case cpuemu_get_devcfg_value ''DEVICE_CONFIG_SERIAL_FIFO_FD'' (ss_cfg st) of None \<Rightarrow> ss_fd st | Some v \<Rightarrow> v)
          in init_channels getenv alloc [0..<SERIAL_FIFO_MAX_CHANNEL_NUM] (st\<lparr>ss_base_addr := base, ss_fd := fd\<rparr>)))"

text \<open>The channel that a thread finds for itself; without one its \<open>ASSERT\<close> fails.\<close>

definition rx_channel :: "MpthrIdType \<Rightarrow> AthrillSerialFifoType list \<Rightarrow> nat option" where
  "rx_channel thr = find_first (\<lambda>c. cf_data (sf_rd c) \<noteq> None \<and> sf_is_extdev c \<noteq> 1 \<and> sf_rx_thread c = thr)"

definition tx_channel :: "MpthrIdType \<Rightarrow> AthrillSerialFifoType list \<Rightarrow> nat option" where
  "tx_channel thr = find_first (\<lambda>c. cf_data (sf_wr c) \<noteq> None \<and> sf_is_extdev c \<noteq> 1 \<and> sf_tx_thread c = thr)"

section \<open>The threads of a channel\<close>

text \<open>
  The three threads that use a channel, as a step relation: each step is a piece of one thread
  between two points at which another thread can be noticed. The CPU thread runs the guest, which
  may change its memory in any way, and clocks the device; the sending and the receiving thread run
  the loops of their \<open>do_proc\<close> after the pipe has been opened. The counts that are read without the
  mutex are read in one step. Four fields record what the program has done: the bytes accepted from the
  guest, the bytes given to \<open>write\<close>, the bytes that \<open>read\<close> returned, and the
  bytes put into the register of the guest.
\<close>

datatype serial_thread = Cpu_side | Rx_side | Tx_side

datatype cpu_pos =
    Cpu_guest                                \<comment> \<open>between two clocks of the device\<close>
  | Cpu_rx_lock
  | Cpu_rx_move
  | Cpu_rx_unlock Std_ReturnType "uint8 list"
  | Cpu_rx_end Std_ReturnType "uint8 list"
  | Cpu_write
  | Cpu_tx_lock
  | Cpu_tx_count
  | Cpu_tx_loop nat
  | Cpu_tx_unlock
  | Cpu_tx_end
  | Cpu_intr

datatype tx_pos = Tx_test | Tx_lock | Tx_get | Tx_unlock uint8 | Tx_write uint8 | Tx_assert_failed

datatype rx_pos = Rx_test | Rx_read | Rx_lock uint8 | Rx_add uint8 | Rx_unlock | Rx_assert_failed

record 'd serial_sys =
  sy_chan :: AthrillSerialFifoType
  sy_mpu :: "'d mpu_state"
  sy_rx_mutex :: "serial_thread option"
  sy_tx_mutex :: "serial_thread option"
  sy_cpu :: cpu_pos
  sy_tx :: tx_pos
  sy_rx :: rx_pos
  sy_accepted :: "uint8 list"
  sy_sent :: "uint8 list"
  sy_received :: "uint8 list"
  sy_delivered :: "uint8 list"

inductive serial_cpu_step :: "'d serial_env \<Rightarrow> uint32 \<Rightarrow> uint32 \<Rightarrow> nat \<Rightarrow> 'd serial_sys \<Rightarrow> 'd serial_sys \<Rightarrow> bool"
  for env :: "'d serial_env" and base fd :: uint32 and ch :: nat where
  cpu_guest: "sy_cpu s = Cpu_guest \<Longrightarrow> serial_cpu_step env base fd ch s (s\<lparr>sy_mpu := mpu\<rparr>)"
| cpu_read: "sy_cpu s = Cpu_guest \<Longrightarrow> cpu_read_status env base fd ch (sy_chan s, sy_mpu s) = Some (cmd, c, mpu) \<Longrightarrow>
    serial_cpu_step env base fd ch s
      (s\<lparr>sy_chan := c, sy_mpu := mpu, sy_cpu := (if cmd = SERIAL_FIFO_READ_CMD_MOVE then Cpu_rx_lock else Cpu_write)\<rparr>)"
| cpu_rx_lock: "sy_cpu s = Cpu_rx_lock \<Longrightarrow> sy_rx_mutex s = None \<Longrightarrow>
    serial_cpu_step env base fd ch s (s\<lparr>sy_rx_mutex := Some Cpu_side, sy_cpu := Cpu_rx_move\<rparr>)"
| cpu_rx_move: "sy_cpu s = Cpu_rx_move \<Longrightarrow> cpu_read_move (sy_chan s) = Some (err, bs, c) \<Longrightarrow>
    serial_cpu_step env base fd ch s (s\<lparr>sy_chan := c, sy_cpu := Cpu_rx_unlock err bs\<rparr>)"
| cpu_rx_unlock: "sy_cpu s = Cpu_rx_unlock err bs \<Longrightarrow>
    serial_cpu_step env base fd ch s (s\<lparr>sy_rx_mutex := None, sy_cpu := Cpu_rx_end err bs\<rparr>)"
| cpu_rx_end: "sy_cpu s = Cpu_rx_end err bs \<Longrightarrow> cpu_read_end env base ch err bs (sy_mpu s) = Some mpu \<Longrightarrow>
    serial_cpu_step env base fd ch s
      (s\<lparr>sy_mpu := mpu, sy_delivered := sy_delivered s @ (if err = STD_E_OK then [hd bs] else []), sy_cpu := Cpu_write\<rparr>)"
| cpu_write_move: "sy_cpu s = Cpu_write \<Longrightarrow> cpu_write_status env base ch (sy_chan s, sy_mpu s) = Some (cmd, mpu) \<Longrightarrow>
    cmd = SERIAL_FIFO_WRITE_CMD_MOVE \<Longrightarrow> cpu_write_move env base ch (sy_chan s, mpu) = Some (err, data, c, mpu1) \<Longrightarrow>
    serial_cpu_step env base fd ch s
      (s\<lparr>sy_chan := c, sy_mpu := mpu1, sy_accepted := sy_accepted s @ (if err = STD_E_OK then [data] else []), sy_cpu := Cpu_intr\<rparr>)"
| cpu_write_other: "sy_cpu s = Cpu_write \<Longrightarrow> cpu_write_status env base ch (sy_chan s, sy_mpu s) = Some (cmd, mpu) \<Longrightarrow>
    cmd \<noteq> SERIAL_FIFO_WRITE_CMD_MOVE \<Longrightarrow>
    serial_cpu_step env base fd ch s
      (s\<lparr>sy_mpu := mpu, sy_cpu := (if cmd = SERIAL_FIFO_WRITE_CMD_TX then Cpu_tx_lock else Cpu_intr)\<rparr>)"
| cpu_tx_lock: "sy_cpu s = Cpu_tx_lock \<Longrightarrow> sy_tx_mutex s = None \<Longrightarrow>
    serial_cpu_step env base fd ch s (s\<lparr>sy_tx_mutex := Some Cpu_side, sy_cpu := Cpu_tx_count\<rparr>)"
| cpu_tx_count: "sy_cpu s = Cpu_tx_count \<Longrightarrow>
    serial_cpu_step env base fd ch s (s\<lparr>sy_cpu := Cpu_tx_loop (unat (cf_count (sf_wr_dev_buffer (sy_chan s))))\<rparr>)"
| cpu_tx_done: "sy_cpu s = Cpu_tx_loop 0 \<Longrightarrow> serial_cpu_step env base fd ch s (s\<lparr>sy_cpu := Cpu_tx_unlock\<rparr>)"
| cpu_tx_round: "sy_cpu s = Cpu_tx_loop (Suc n) \<Longrightarrow> cpu_tx_move (sy_chan s) = Some (again, c) \<Longrightarrow>
    serial_cpu_step env base fd ch s (s\<lparr>sy_chan := c, sy_cpu := (if again then Cpu_tx_loop n else Cpu_tx_unlock)\<rparr>)"
| cpu_tx_unlock: "sy_cpu s = Cpu_tx_unlock \<Longrightarrow>
    serial_cpu_step env base fd ch s (s\<lparr>sy_tx_mutex := None, sy_cpu := Cpu_tx_end\<rparr>)"
| cpu_tx_end: "sy_cpu s = Cpu_tx_end \<Longrightarrow> SerialFifo.cpu_tx_end env base fd ch (sy_chan s, sy_mpu s) = Some (c, mpu) \<Longrightarrow>
    serial_cpu_step env base fd ch s (s\<lparr>sy_chan := c, sy_mpu := mpu, sy_cpu := Cpu_intr\<rparr>)"
| cpu_intr: "sy_cpu s = Cpu_intr \<Longrightarrow> do_serial_fifo_cpu_intr env (sy_chan s, sy_mpu s) = (c, mpu) \<Longrightarrow>
    serial_cpu_step env base fd ch s (s\<lparr>sy_chan := c, sy_mpu := mpu, sy_cpu := Cpu_guest\<rparr>)"

text \<open>The loop of the sending thread. A byte that \<open>write\<close> refuses is reported and given up.\<close>

inductive serial_fifo_tx_thread_do_proc :: "'d serial_sys \<Rightarrow> 'd serial_sys \<Rightarrow> bool" where
  tx_sleep: "sy_tx s = Tx_test \<Longrightarrow> cf_count (sf_wr (sy_chan s)) = 0 \<Longrightarrow> serial_fifo_tx_thread_do_proc s s"
| tx_test: "sy_tx s = Tx_test \<Longrightarrow> cf_count (sf_wr (sy_chan s)) \<noteq> 0 \<Longrightarrow> serial_fifo_tx_thread_do_proc s (s\<lparr>sy_tx := Tx_lock\<rparr>)"
| tx_lock: "sy_tx s = Tx_lock \<Longrightarrow> sy_tx_mutex s = None \<Longrightarrow>
    serial_fifo_tx_thread_do_proc s (s\<lparr>sy_tx_mutex := Some Tx_side, sy_tx := Tx_get\<rparr>)"
| tx_get: "sy_tx s = Tx_get \<Longrightarrow> comm_fifo_buffer_get (sf_wr (sy_chan s)) 1 = Some (err, bs, res, wr) \<Longrightarrow>
    serial_fifo_tx_thread_do_proc s
      (s\<lparr>sy_chan := (sy_chan s)\<lparr>sf_wr := wr\<rparr>, sy_tx := (if err = STD_E_OK then Tx_unlock (hd bs) else Tx_assert_failed)\<rparr>)"
| tx_unlock: "sy_tx s = Tx_unlock d \<Longrightarrow> serial_fifo_tx_thread_do_proc s (s\<lparr>sy_tx_mutex := None, sy_tx := Tx_write d\<rparr>)"
| tx_write: "sy_tx s = Tx_write d \<Longrightarrow> serial_fifo_tx_thread_do_proc s (s\<lparr>sy_sent := sy_sent s @ [d], sy_tx := Tx_test\<rparr>)"

text \<open>The loop of the receiving thread.\<close>

inductive serial_fifo_rx_thread_do_proc :: "'d serial_sys \<Rightarrow> 'd serial_sys \<Rightarrow> bool" where
  rx_sleep: "sy_rx s = Rx_test \<Longrightarrow> COMM_FIFO_IS_FULL (sf_rd (sy_chan s)) \<Longrightarrow> serial_fifo_rx_thread_do_proc s s"
| rx_test: "sy_rx s = Rx_test \<Longrightarrow> \<not> COMM_FIFO_IS_FULL (sf_rd (sy_chan s)) \<Longrightarrow> serial_fifo_rx_thread_do_proc s (s\<lparr>sy_rx := Rx_read\<rparr>)"
| rx_nothing: "sy_rx s = Rx_read \<Longrightarrow> serial_fifo_rx_thread_do_proc s (s\<lparr>sy_rx := Rx_test\<rparr>)"
| rx_read: "sy_rx s = Rx_read \<Longrightarrow>
    serial_fifo_rx_thread_do_proc s (s\<lparr>sy_received := sy_received s @ [d], sy_rx := Rx_lock d\<rparr>)"
| rx_lock: "sy_rx s = Rx_lock d \<Longrightarrow> sy_rx_mutex s = None \<Longrightarrow>
    serial_fifo_rx_thread_do_proc s (s\<lparr>sy_rx_mutex := Some Rx_side, sy_rx := Rx_add d\<rparr>)"
| rx_add: "sy_rx s = Rx_add d \<Longrightarrow> comm_fifo_buffer_add (sf_rd (sy_chan s)) [d] = Some (err, res, rd) \<Longrightarrow>
    serial_fifo_rx_thread_do_proc s
      (s\<lparr>sy_chan := (sy_chan s)\<lparr>sf_rd := rd\<rparr>, sy_rx := (if err = STD_E_OK then Rx_unlock else Rx_assert_failed)\<rparr>)"
| rx_unlock: "sy_rx s = Rx_unlock \<Longrightarrow> serial_fifo_rx_thread_do_proc s (s\<lparr>sy_rx_mutex := None, sy_rx := Rx_test\<rparr>)"

inductive serial_step :: "'d serial_env \<Rightarrow> uint32 \<Rightarrow> uint32 \<Rightarrow> nat \<Rightarrow> 'd serial_sys \<Rightarrow> 'd serial_sys \<Rightarrow> bool"
  for env :: "'d serial_env" and base fd :: uint32 and ch :: nat where
  "serial_cpu_step env base fd ch s s' \<Longrightarrow> serial_step env base fd ch s s'"
| "serial_fifo_tx_thread_do_proc s s' \<Longrightarrow> serial_step env base fd ch s s'"
| "serial_fifo_rx_thread_do_proc s s' \<Longrightarrow> serial_step env base fd ch s s'"

text \<open>A channel after its initialisation, when the pipes have been opened.\<close>

definition serial_start :: "AthrillSerialFifoType \<Rightarrow> 'd mpu_state \<Rightarrow> 'd serial_sys" where
  "serial_start c mpu = \<lparr>sy_chan = c, sy_mpu = mpu, sy_rx_mutex = None, sy_tx_mutex = None,
    sy_cpu = Cpu_guest, sy_tx = Tx_test, sy_rx = Rx_test,
    sy_accepted = [], sy_sent = [], sy_received = [], sy_delivered = []\<rparr>"

end
