(* ===== verification/SerialFifoLaws.thy ===== *)
theory SerialFifoLaws
  imports SerialFifo DevConfigLaws
begin

text \<open>
  The serial FIFO device moves every byte once and in order in both directions, in every interleaving
  of its threads with the CPU, and its assertions hold; an interrupt comes after its delay; every
  thread finds its own channel.
\<close>

section \<open>Single bytes of the ring buffer\<close>

lemma get_one_empty: "fifo_inv f \<Longrightarrow> fifo_list f = [] \<Longrightarrow> comm_fifo_buffer_get f 1 = Some (STD_E_NOENT, [], 0, f)"
  by (simp add: comm_fifo_buffer_get_def fifo_list_def unat_eq_0)

lemma get_one:
  assumes "fifo_inv f" "fifo_list f \<noteq> []"
  shows "\<exists>f'. comm_fifo_buffer_get f 1 = Some (STD_E_OK, [hd (fifo_list f)], 1, f') \<and> fifo_inv f' \<and>
    fifo_list f' = tl (fifo_list f) \<and> cf_max_size f' = cf_max_size f"
proof -
  from comm_fifo.get_some [OF assms] obtain f' where f': "fifo_buffer_get f = Some (STD_E_OK, Some (hd (fifo_list f)), f')"
    "fifo_inv f'" "fifo_list f' = tl (fifo_list f)" "unat (cf_max_size f') = unat (cf_max_size f)" by blast
  have "cf_count f \<noteq> 0" using assms(2) by (auto simp: fifo_list_def)
  then show ?thesis using f' by (simp add: comm_fifo_buffer_get_def word_unat_eq_iff)
qed

lemma add_one:
  assumes "fifo_inv f" "\<not> COMM_FIFO_IS_FULL f"
  shows "\<exists>f'. comm_fifo_buffer_add f [d] = Some (STD_E_OK, 1, f') \<and> fifo_inv f' \<and>
    fifo_list f' = fifo_list f @ [d] \<and> cf_max_size f' = cf_max_size f"
proof -
  have room: "length (fifo_list f) < unat (cf_max_size f)" "\<not> cf_count f \<ge> cf_max_size f"
    using assms(2) by (simp_all add: COMM_FIFO_IS_FULL_def word_le_nat_alt)
  from comm_fifo.add_room [OF assms(1) room(1), of d] obtain f' where f': "fifo_buffer_add f d = Some (STD_E_OK, f')"
    "fifo_inv f'" "fifo_list f' = fifo_list f @ [d]" "unat (cf_max_size f') = unat (cf_max_size f)" by blast
  then show ?thesis using room(2) by (simp add: comm_fifo_buffer_add_def word_unat_eq_iff)
qed

lemma add_one_full: "COMM_FIFO_IS_FULL f \<Longrightarrow> comm_fifo_buffer_add f ds = Some (STD_E_LIMIT, 0, f)"
  by (simp add: comm_fifo_buffer_add_def COMM_FIFO_IS_FULL_def)

lemma full_length: "COMM_FIFO_IS_FULL f \<longleftrightarrow> unat (cf_max_size f) \<le> length (fifo_list f)"
  by (simp add: COMM_FIFO_IS_FULL_def word_le_nat_alt)

lemma count_empty: "cf_count f = 0 \<longleftrightarrow> fifo_list f = []"
  by (simp add: fifo_list_def unat_eq_0)

section \<open>Operations of the CPU\<close>

definition fifos_ok :: "AthrillSerialFifoType \<Rightarrow> bool" where
  "fifos_ok c \<longleftrightarrow> fifo_inv (sf_rd c) \<and> fifo_inv (sf_wr c) \<and> fifo_inv (sf_wr_dev_buffer c)"

abbreviation rd_list :: "AthrillSerialFifoType \<Rightarrow> uint8 list" where "rd_list c \<equiv> fifo_list (sf_rd c)"
abbreviation wr_list :: "AthrillSerialFifoType \<Rightarrow> uint8 list" where "wr_list c \<equiv> fifo_list (sf_wr c)"
abbreviation dev_list :: "AthrillSerialFifoType \<Rightarrow> uint8 list" where "dev_list c \<equiv> fifo_list (sf_wr_dev_buffer c)"

lemma cpu_read_status_fifos:
  "cpu_read_status env base fd ch (c, mpu) = Some (cmd, c', mpu') \<Longrightarrow>
    sf_rd c' = sf_rd c \<and> sf_wr c' = sf_wr c \<and> sf_wr_dev_buffer c' = sf_wr_dev_buffer c"
  by (auto simp: cpu_read_status_def Let_def split: bind_splits if_splits)

lemma cpu_tx_end_fifos:
  "cpu_tx_end env base fd ch (c, mpu) = Some (c', mpu') \<Longrightarrow>
    sf_rd c' = sf_rd c \<and> sf_wr c' = sf_wr c \<and> sf_wr_dev_buffer c' = sf_wr_dev_buffer c"
  by (auto simp: cpu_tx_end_def Let_def split: bind_splits if_splits)

lemma cpu_intr_fifos:
  "do_serial_fifo_cpu_intr env (c, mpu) = (c', mpu') \<Longrightarrow>
    sf_rd c' = sf_rd c \<and> sf_wr c' = sf_wr c \<and> sf_wr_dev_buffer c' = sf_wr_dev_buffer c"
  by (auto simp: do_serial_fifo_cpu_intr_def cpu_wr_intr_def cpu_rd_intr_def split: if_splits)

lemma cpu_read_move_bytes:
  assumes "fifos_ok c" "cpu_read_move c = Some (err, bs, c')"
  shows "fifos_ok c' \<and> rd_list c = (if err = STD_E_OK then [hd bs] else []) @ rd_list c' \<and>
    sf_wr c' = sf_wr c \<and> sf_wr_dev_buffer c' = sf_wr_dev_buffer c \<and>
    (COMM_FIFO_IS_FULL (sf_rd c') \<longrightarrow> COMM_FIFO_IS_FULL (sf_rd c))"
proof (cases "rd_list c = []")
  case True
  then show ?thesis using assms get_one_empty [of "sf_rd c"] by (auto simp: cpu_read_move_def fifos_ok_def)
next
  case False
  then obtain rd where rd: "comm_fifo_buffer_get (sf_rd c) 1 = Some (STD_E_OK, [hd (rd_list c)], 1, rd)" "fifo_inv rd"
    "fifo_list rd = tl (rd_list c)" "cf_max_size rd = cf_max_size (sf_rd c)"
    using assms(1) get_one [of "sf_rd c"] by (auto simp: fifos_ok_def)
  have "length (fifo_list rd) \<le> length (rd_list c)" by (simp only: rd(3) length_tl diff_le_self)
  then have "COMM_FIFO_IS_FULL rd \<longrightarrow> COMM_FIFO_IS_FULL (sf_rd c)" unfolding full_length rd(4) by linarith
  then show ?thesis using assms rd False by (auto simp: cpu_read_move_def fifos_ok_def)
qed

lemma cpu_tx_move_bytes:
  assumes "fifos_ok c"
  shows "\<exists>again c'. cpu_tx_move c = Some (again, c') \<and> fifos_ok c' \<and> wr_list c' @ dev_list c' = wr_list c @ dev_list c \<and>
    (wr_list c \<noteq> [] \<longrightarrow> wr_list c' \<noteq> []) \<and> sf_rd c' = sf_rd c"
proof (cases "COMM_FIFO_IS_FULL (sf_wr c)")
  case True
  then show ?thesis using assms by (auto simp: cpu_tx_move_def)
next
  case room: False
  show ?thesis
  proof (cases "dev_list c = []")
    case True
    then show ?thesis using assms room get_one_empty [of "sf_wr_dev_buffer c"] by (auto simp: cpu_tx_move_def fifos_ok_def)
  next
    case False
    then obtain dev where "comm_fifo_buffer_get (sf_wr_dev_buffer c) 1 = Some (STD_E_OK, [hd (dev_list c)], 1, dev)" "fifo_inv dev"
      "fifo_list dev = tl (dev_list c)" using assms get_one [of "sf_wr_dev_buffer c"] by (auto simp: fifos_ok_def)
    moreover obtain wr where "comm_fifo_buffer_add (sf_wr c) [hd (dev_list c)] = Some (STD_E_OK, 1, wr)" "fifo_inv wr"
      "fifo_list wr = wr_list c @ [hd (dev_list c)]" using assms room add_one [of "sf_wr c"] by (auto simp: fifos_ok_def)
    ultimately show ?thesis using assms room False by (auto simp: cpu_tx_move_def fifos_ok_def)
  qed
qed

lemma cpu_write_move_bytes:
  assumes "fifos_ok c" "cpu_write_move env base ch (c, mpu) = Some (err, data, c', mpu')"
  shows "fifos_ok c' \<and> dev_list c' = dev_list c @ (if err = STD_E_OK then [data] else []) \<and> sf_rd c' = sf_rd c \<and> sf_wr c' = sf_wr c"
proof -
  obtain res dev where a: "comm_fifo_buffer_add (sf_wr_dev_buffer c) [data] = Some (err, res, dev)"
    "c' = c\<lparr>sf_wr_dev_buffer := dev\<rparr>"
    using assms(2) by (auto simp: cpu_write_move_def split: bind_splits)
  show ?thesis
  proof (cases "COMM_FIFO_IS_FULL (sf_wr_dev_buffer c)")
    case True
    then show ?thesis using a assms(1) by (auto simp: add_one_full fifos_ok_def)
  next
    case False
    then show ?thesis using a assms(1) add_one [of "sf_wr_dev_buffer c" data] by (auto simp: fifos_ok_def)
  qed
qed

section \<open>Invariant of the threads\<close>

text \<open>Who is inside the section that the mutex of a thread protects.\<close>

definition rx_inside :: "'d serial_sys \<Rightarrow> serial_thread \<Rightarrow> bool" where
  "rx_inside s t \<longleftrightarrow> (case t of
      Cpu_side \<Rightarrow> (case sy_cpu s of Cpu_rx_move \<Rightarrow> True | Cpu_rx_unlock _ _ \<Rightarrow> True | _ \<Rightarrow> False)
    | Rx_side \<Rightarrow> (case sy_rx s of Rx_add _ \<Rightarrow> True | Rx_unlock \<Rightarrow> True | _ \<Rightarrow> False)
    | Tx_side \<Rightarrow> False)"

definition tx_inside :: "'d serial_sys \<Rightarrow> serial_thread \<Rightarrow> bool" where
  "tx_inside s t \<longleftrightarrow> (case t of
      Cpu_side \<Rightarrow> (case sy_cpu s of Cpu_tx_count \<Rightarrow> True | Cpu_tx_loop _ \<Rightarrow> True | Cpu_tx_unlock \<Rightarrow> True | _ \<Rightarrow> False)
    | Tx_side \<Rightarrow> (case sy_tx s of Tx_get \<Rightarrow> True | Tx_unlock _ \<Rightarrow> True | _ \<Rightarrow> False)
    | Rx_side \<Rightarrow> False)"

text \<open>Bytes on their way between two buffers.\<close>

fun cpu_flight :: "cpu_pos \<Rightarrow> uint8 list" where
  "cpu_flight (Cpu_rx_unlock err bs) = (if err = STD_E_OK then [hd bs] else [])"
| "cpu_flight (Cpu_rx_end err bs) = (if err = STD_E_OK then [hd bs] else [])"
| "cpu_flight _ = []"

fun tx_flight :: "tx_pos \<Rightarrow> uint8 list" where
  "tx_flight (Tx_unlock d) = [d]"
| "tx_flight (Tx_write d) = [d]"
| "tx_flight _ = []"

fun rx_flight :: "rx_pos \<Rightarrow> uint8 list" where
  "rx_flight (Rx_lock d) = [d]"
| "rx_flight (Rx_add d) = [d]"
| "rx_flight _ = []"

definition mutex_inv :: "'d serial_sys \<Rightarrow> bool" where
  "mutex_inv s \<longleftrightarrow> (\<forall>t. rx_inside s t \<longleftrightarrow> sy_rx_mutex s = Some t) \<and> (\<forall>t. tx_inside s t \<longleftrightarrow> sy_tx_mutex s = Some t)"

definition tx_inv :: "'d serial_sys \<Rightarrow> bool" where
  "tx_inv s \<longleftrightarrow> sy_accepted s = sy_sent s @ tx_flight (sy_tx s) @ wr_list (sy_chan s) @ dev_list (sy_chan s) \<and>
    (sy_tx s = Tx_lock \<or> sy_tx s = Tx_get \<longrightarrow> wr_list (sy_chan s) \<noteq> []) \<and> sy_tx s \<noteq> Tx_assert_failed"

definition rx_inv :: "'d serial_sys \<Rightarrow> bool" where
  "rx_inv s \<longleftrightarrow> sy_received s = sy_delivered s @ cpu_flight (sy_cpu s) @ rd_list (sy_chan s) @ rx_flight (sy_rx s) \<and>
    (sy_rx s = Rx_read \<or> (\<exists>d. sy_rx s = Rx_lock d \<or> sy_rx s = Rx_add d) \<longrightarrow> \<not> COMM_FIFO_IS_FULL (sf_rd (sy_chan s))) \<and>
    sy_rx s \<noteq> Rx_assert_failed"

definition serial_inv :: "'d serial_sys \<Rightarrow> bool" where
  "serial_inv s \<longleftrightarrow> fifos_ok (sy_chan s) \<and> mutex_inv s \<and> tx_inv s \<and> rx_inv s"

lemma all_threads: "(\<forall>t. P t) \<longleftrightarrow> P Cpu_side \<and> P Rx_side \<and> P Tx_side"
  by (metis serial_thread.exhaust)

lemma mutex_inv_cpu: "serial_cpu_step env base fd ch s s' \<Longrightarrow> mutex_inv s \<Longrightarrow> mutex_inv s'"
  by (induction rule: serial_cpu_step.induct) (simp_all add: mutex_inv_def rx_inside_def tx_inside_def all_threads)

lemma fifos_ok_same:
  "fifos_ok c \<Longrightarrow> sf_rd c' = sf_rd c \<and> sf_wr c' = sf_wr c \<and> sf_wr_dev_buffer c' = sf_wr_dev_buffer c \<Longrightarrow> fifos_ok c'"
  by (simp add: fifos_ok_def)

lemma fifos_ok_cpu:
  assumes "serial_cpu_step env base fd ch s s'" "fifos_ok (sy_chan s)"
  shows "fifos_ok (sy_chan s')"
  using assms
proof (induction rule: serial_cpu_step.induct)
  case (cpu_tx_round s n again c)
  then show ?case using cpu_tx_move_bytes [of "sy_chan s"] by auto
qed (auto dest: cpu_read_status_fifos cpu_read_move_bytes cpu_write_move_bytes cpu_tx_end_fifos cpu_intr_fifos fifos_ok_same)

lemma tx_inv_cpu:
  assumes "serial_cpu_step env base fd ch s s'" "fifos_ok (sy_chan s)" "tx_inv s"
  shows "tx_inv s'"
  using assms
proof (induction rule: serial_cpu_step.induct)
  case (cpu_read s cmd c mpu)
  then show ?case using cpu_read_status_fifos [OF cpu_read(2)] by (simp add: tx_inv_def)
next
  case (cpu_rx_move s err bs c)
  then show ?case using cpu_read_move_bytes [OF cpu_rx_move(3,2)] by (simp add: tx_inv_def)
next
  case (cpu_write_move s cmd mpu err data c mpu1)
  then show ?case using cpu_write_move_bytes [OF cpu_write_move(5,4)] by (simp add: tx_inv_def)
next
  case (cpu_tx_round s n again c)
  then show ?case using cpu_tx_move_bytes [of "sy_chan s"] by (auto simp: tx_inv_def)
next
  case (cpu_tx_end s c mpu)
  then show ?case using cpu_tx_end_fifos [OF cpu_tx_end(2)] by (simp add: tx_inv_def)
next
  case (cpu_intr s c mpu)
  then show ?case using cpu_intr_fifos [OF cpu_intr(2)] by (simp add: tx_inv_def)
qed (simp_all add: tx_inv_def)

lemma rx_inv_cpu:
  assumes "serial_cpu_step env base fd ch s s'" "fifos_ok (sy_chan s)" "rx_inv s"
  shows "rx_inv s'"
  using assms
proof (induction rule: serial_cpu_step.induct)
  case (cpu_read s cmd c mpu)
  then show ?case using cpu_read_status_fifos [OF cpu_read(2)] by (simp add: rx_inv_def)
next
  case (cpu_rx_move s err bs c)
  then show ?case using cpu_read_move_bytes [OF cpu_rx_move(3,2)] by (auto simp: rx_inv_def)
next
  case (cpu_write_move s cmd mpu err data c mpu1)
  then show ?case using cpu_write_move_bytes [OF cpu_write_move(5,4)] by (simp add: rx_inv_def)
next
  case (cpu_tx_round s n again c)
  then show ?case using cpu_tx_move_bytes [of "sy_chan s"] by (auto simp: rx_inv_def)
next
  case (cpu_tx_end s c mpu)
  then show ?case using cpu_tx_end_fifos [OF cpu_tx_end(2)] by (simp add: rx_inv_def)
next
  case (cpu_intr s c mpu)
  then show ?case using cpu_intr_fifos [OF cpu_intr(2)] by (simp add: rx_inv_def)
qed (simp_all add: rx_inv_def)

lemma serial_inv_cpu: "serial_cpu_step env base fd ch s s' \<Longrightarrow> serial_inv s \<Longrightarrow> serial_inv s'"
  by (simp add: serial_inv_def mutex_inv_cpu fifos_ok_cpu tx_inv_cpu rx_inv_cpu)

lemma serial_inv_tx:
  assumes "serial_fifo_tx_thread_do_proc s s'" "serial_inv s"
  shows "serial_inv s'"
  using assms
proof (induction rule: serial_fifo_tx_thread_do_proc.induct)
  case (tx_test s)
  then show ?case by (simp add: serial_inv_def mutex_inv_def rx_inside_def tx_inside_def all_threads tx_inv_def rx_inv_def count_empty)
next
  case (tx_get s err bs res wr)
  then have ne: "wr_list (sy_chan s) \<noteq> []" "fifos_ok (sy_chan s)" by (auto simp: serial_inv_def tx_inv_def)
  then obtain wr' where "comm_fifo_buffer_get (sf_wr (sy_chan s)) 1 = Some (STD_E_OK, [hd (wr_list (sy_chan s))], 1, wr')"
    "fifo_inv wr'" "fifo_list wr' = tl (wr_list (sy_chan s))" using get_one [of "sf_wr (sy_chan s)"] by (auto simp: fifos_ok_def)
  then show ?case using tx_get ne
    by (simp add: serial_inv_def mutex_inv_def rx_inside_def tx_inside_def all_threads tx_inv_def rx_inv_def fifos_ok_def)
qed (simp_all add: serial_inv_def mutex_inv_def rx_inside_def tx_inside_def all_threads tx_inv_def rx_inv_def)

lemma serial_inv_rx:
  assumes "serial_fifo_rx_thread_do_proc s s'" "serial_inv s"
  shows "serial_inv s'"
  using assms
proof (induction rule: serial_fifo_rx_thread_do_proc.induct)
  case (rx_add s d err res rd)
  then have room: "\<not> COMM_FIFO_IS_FULL (sf_rd (sy_chan s))" "fifos_ok (sy_chan s)" by (auto simp: serial_inv_def rx_inv_def)
  then obtain rd' where "comm_fifo_buffer_add (sf_rd (sy_chan s)) [d] = Some (STD_E_OK, 1, rd')"
    "fifo_inv rd'" "fifo_list rd' = rd_list (sy_chan s) @ [d]" using add_one [of "sf_rd (sy_chan s)" d] by (auto simp: fifos_ok_def)
  then show ?case using rx_add room
    by (simp add: serial_inv_def mutex_inv_def rx_inside_def tx_inside_def all_threads tx_inv_def rx_inv_def fifos_ok_def)
qed (simp_all add: serial_inv_def mutex_inv_def rx_inside_def tx_inside_def all_threads tx_inv_def rx_inv_def)

lemma serial_inv_step: "serial_step env base fd ch s s' \<Longrightarrow> serial_inv s \<Longrightarrow> serial_inv s'"
  by (induction rule: serial_step.induct) (simp_all add: serial_inv_cpu serial_inv_tx serial_inv_rx)

lemma serial_inv_start:
  "fifos_ok c \<Longrightarrow> rd_list c = [] \<Longrightarrow> wr_list c = [] \<Longrightarrow> dev_list c = [] \<Longrightarrow> serial_inv (serial_start c mpu)"
  by (simp add: serial_inv_def serial_start_def mutex_inv_def rx_inside_def tx_inside_def all_threads tx_inv_def rx_inv_def)

lemma serial_inv_steps: "(serial_step env base fd ch)\<^sup>*\<^sup>* s s' \<Longrightarrow> serial_inv s \<Longrightarrow> serial_inv s'"
  by (induction rule: rtranclp_induct) (simp_all add: serial_inv_step)

text \<open>A channel as the initialisation leaves it.\<close>

definition channel_ready :: "AthrillSerialFifoType \<Rightarrow> bool" where
  "channel_ready c \<longleftrightarrow> fifos_ok c \<and> rd_list c = [] \<and> wr_list c = [] \<and> dev_list c = []"

text \<open>
  C33: the serial device loses, duplicates and reorders no byte. However the CPU thread, the sending
  thread and the receiving thread of a channel interleave, and whatever the guest does to its memory, the
  bytes accepted from the guest are those given to \<open>write\<close>, followed by the one in the hands of
  the sending thread and by the contents of the two buffers; the bytes that \<open>read\<close> returned are those put into
  the register of the guest, followed by the one on its way, the contents of the buffer and the one
  in the hands of the receiving thread. The assertions of both threads hold, and no two threads are
  inside the section of one mutex.
\<close>

theorem serial_streams_preserved:
  assumes "channel_ready c" "(serial_step env base fd ch)\<^sup>*\<^sup>* (serial_start c mpu) s"
  shows "sy_accepted s = sy_sent s @ tx_flight (sy_tx s) @ wr_list (sy_chan s) @ dev_list (sy_chan s) \<and>
    sy_received s = sy_delivered s @ cpu_flight (sy_cpu s) @ rd_list (sy_chan s) @ rx_flight (sy_rx s) \<and>
    sy_tx s \<noteq> Tx_assert_failed \<and> sy_rx s \<noteq> Rx_assert_failed \<and>
    (\<forall>t t'. rx_inside s t \<and> rx_inside s t' \<or> tx_inside s t \<and> tx_inside s t' \<longrightarrow> t = t')"
proof -
  have "serial_inv s" using serial_inv_steps [OF assms(2)] serial_inv_start [of c mpu] assms(1) by (simp add: channel_ready_def)
  then show ?thesis by (auto simp: serial_inv_def tx_inv_def rx_inv_def mutex_inv_def)
qed

definition sample_fifo :: "nat \<Rightarrow> CommFifoBufferType" where
  "sample_fifo n = \<lparr>cf_max_size = of_nat n, cf_count = 0, cf_rx_off = 0, cf_tx_off = 0, cf_data = Some (replicate n 0)\<rparr>"

definition sample_channel :: AthrillSerialFifoType where
  "sample_channel = \<lparr>sf_is_extdev = 0, sf_disable_cpu_io = 0, sf_rd = sample_fifo 4, sf_rd_dev_buffer = sample_fifo 16,
    sf_rd_intno = 10, sf_rd_intoff = 1, sf_rd_raise_delay_count = 3, sf_rd_raise_intr = True,
    sf_wr = sample_fifo 4, sf_wr_dev_buffer = sample_fifo 16, sf_wr_intno = 11, sf_wr_intoff = 1, sf_wr_raise_delay_count = 0,
    sf_wr_raise_intr = False, sf_rx_thread = 0, sf_rx_serial_fifopath = ''rx'', sf_tx_thread = 1, sf_tx_serial_fifopath = ''tx''\<rparr>"

lemma sample_channel_ready: "channel_ready sample_channel"
  by (simp add: channel_ready_def fifos_ok_def sample_channel_def sample_fifo_def fifo_inv_def fifo_list_def)

theorem serial_streams_preserved_witness:
  "\<forall>(env :: unit serial_env) mpu. \<exists>s. (serial_step env 0 0 0)\<^sup>*\<^sup>* (serial_start sample_channel mpu) s \<and>
    sy_received s = [7] \<and> sy_delivered s = [] \<and> rd_list (sy_chan s) = [7]"
proof (intro allI)
  fix env :: "unit serial_env" and mpu :: "unit mpu_state"
  let ?s0 = "serial_start sample_channel mpu"
  let ?s1 = "?s0\<lparr>sy_rx := Rx_read\<rparr>"
  let ?s2 = "?s1\<lparr>sy_received := sy_received ?s1 @ [7], sy_rx := Rx_lock 7\<rparr>"
  let ?s3 = "?s2\<lparr>sy_rx_mutex := Some Rx_side, sy_rx := Rx_add 7\<rparr>"
  obtain err res rd where a: "comm_fifo_buffer_add (sf_rd (sy_chan ?s3)) [7] = Some (err, res, rd)" "err = STD_E_OK"
    using add_one [of "sample_fifo 4" 7] sample_channel_ready
    by (auto simp: serial_start_def sample_channel_def channel_ready_def fifos_ok_def COMM_FIFO_IS_FULL_def sample_fifo_def)
  let ?s4 = "?s3\<lparr>sy_chan := (sy_chan ?s3)\<lparr>sf_rd := rd\<rparr>, sy_rx := (if err = STD_E_OK then Rx_unlock else Rx_assert_failed)\<rparr>"
  have "serial_fifo_rx_thread_do_proc ?s0 ?s1"
    by (rule rx_test) (simp_all add: serial_start_def sample_channel_def COMM_FIFO_IS_FULL_def sample_fifo_def)
  moreover have "serial_fifo_rx_thread_do_proc ?s1 ?s2" by (rule rx_read) simp
  moreover have "serial_fifo_rx_thread_do_proc ?s2 ?s3" by (rule rx_lock) (simp_all add: serial_start_def)
  moreover have "serial_fifo_rx_thread_do_proc ?s3 ?s4" by (rule rx_add [OF _ a(1)]) simp
  ultimately have r: "(serial_step env 0 0 0)\<^sup>*\<^sup>* ?s0 ?s4"
    by (meson serial_step.intros(3) converse_rtranclp_into_rtranclp rtranclp.rtrancl_refl)
  from serial_streams_preserved [OF sample_channel_ready this] have "sy_received ?s4 = rd_list (sy_chan ?s4)"
    using a(2) by (simp add: serial_start_def)
  then show "\<exists>s. (serial_step env 0 0 0)\<^sup>*\<^sup>* ?s0 s \<and> sy_received s = [7] \<and> sy_delivered s = [] \<and> rd_list (sy_chan s) = [7]"
    using r by (intro exI [of _ ?s4]) (simp add: serial_start_def)
qed

section \<open>Every accepted byte can be sent\<close>

text \<open>How far the sending thread is from an empty buffer.\<close>

fun tx_rank :: "tx_pos \<Rightarrow> nat" where
  "tx_rank (Tx_unlock d) = 6"
| "tx_rank (Tx_write d) = 5"
| "tx_rank Tx_test = 4"
| "tx_rank Tx_lock = 3"
| "tx_rank Tx_get = 2"
| "tx_rank Tx_assert_failed = 0"

definition tx_distance :: "'d serial_sys \<Rightarrow> nat" where
  "tx_distance s = 5 * length (wr_list (sy_chan s)) + tx_rank (sy_tx s)"

lemma tx_mutex_free:
  assumes "mutex_inv s" "sy_cpu s = Cpu_guest" "\<not> tx_inside s Tx_side"
  shows "sy_tx_mutex s = None"
proof (cases "sy_tx_mutex s")
  case (Some t)
  then have "tx_inside s t" using assms(1) by (simp add: mutex_inv_def)
  then show ?thesis using assms(2,3) by (cases t) (simp_all add: tx_inside_def)
qed

lemma tx_thread_progress:
  assumes "serial_inv s" "sy_cpu s = Cpu_guest" "sy_tx s \<noteq> Tx_test \<or> wr_list (sy_chan s) \<noteq> []"
  shows "\<exists>s'. serial_fifo_tx_thread_do_proc s s' \<and> tx_distance s' < tx_distance s"
proof (cases "sy_tx s")
  case Tx_test
  then show ?thesis using tx_test [of s] assms(3) by (auto simp: count_empty tx_distance_def)
next
  case Tx_lock
  then have "sy_tx_mutex s = None" using assms(1,2) by (intro tx_mutex_free) (simp_all add: serial_inv_def tx_inside_def)
  then show ?thesis using tx_lock [of s] Tx_lock by (auto simp: tx_distance_def)
next
  case Tx_get
  then have ok: "fifo_inv (sf_wr (sy_chan s))" "wr_list (sy_chan s) \<noteq> []"
    using assms(1) by (simp_all add: serial_inv_def fifos_ok_def tx_inv_def)
  from get_one [OF this] obtain wr where
    wr: "comm_fifo_buffer_get (sf_wr (sy_chan s)) 1 = Some (STD_E_OK, [hd (wr_list (sy_chan s))], 1, wr)" "fifo_list wr = tl (wr_list (sy_chan s))"
    by blast
  have "Suc (length (fifo_list wr)) = length (wr_list (sy_chan s))" unfolding wr(2) using ok(2) by (cases "wr_list (sy_chan s)") simp_all
  then show ?thesis using tx_get [OF Tx_get wr(1)] Tx_get by (intro exI conjI) (assumption, simp add: tx_distance_def)
next
  case (Tx_unlock d)
  then show ?thesis using tx_unlock [OF Tx_unlock] by (intro exI conjI) (assumption, simp add: tx_distance_def)
next
  case (Tx_write d)
  then show ?thesis using tx_write [OF Tx_write] by (intro exI conjI) (assumption, simp add: tx_distance_def)
next
  case Tx_assert_failed
  then show ?thesis using assms(1) by (simp add: serial_inv_def tx_inv_def)
qed

lemma tx_thread_frame:
  "serial_fifo_tx_thread_do_proc s s' \<Longrightarrow>
    sy_cpu s' = sy_cpu s \<and> sy_accepted s' = sy_accepted s \<and> sf_wr_dev_buffer (sy_chan s') = sf_wr_dev_buffer (sy_chan s)"
  by (induction rule: serial_fifo_tx_thread_do_proc.induct) simp_all

lemma tx_thread_sends_all:
  assumes "serial_inv s" "sy_cpu s = Cpu_guest"
  shows "\<exists>s'. serial_fifo_tx_thread_do_proc\<^sup>*\<^sup>* s s' \<and> sy_accepted s = sy_sent s' @ dev_list (sy_chan s)"
  using assms
proof (induction "tx_distance s" arbitrary: s rule: less_induct)
  case less
  show ?case
  proof (cases "sy_tx s \<noteq> Tx_test \<or> wr_list (sy_chan s) \<noteq> []")
    case True
    with tx_thread_progress [OF less.prems] obtain s1 where s1: "serial_fifo_tx_thread_do_proc s s1" "tx_distance s1 < tx_distance s" by blast
    from less.hyps [OF s1(2) serial_inv_tx [OF s1(1) less.prems(1)]] tx_thread_frame [OF s1(1)] less.prems(2) obtain s2 where
      "serial_fifo_tx_thread_do_proc\<^sup>*\<^sup>* s1 s2" "sy_accepted s = sy_sent s2 @ dev_list (sy_chan s)" by auto
    then show ?thesis using s1(1) by (meson converse_rtranclp_into_rtranclp)
  next
    case False
    then have "sy_accepted s = sy_sent s @ dev_list (sy_chan s)" using less.prems(1) by (simp add: serial_inv_def tx_inv_def)
    then show ?thesis by blast
  qed
qed



section \<open>Interrupts\<close>

text \<open>
  A receive interrupt comes after exactly its delay. When the interrupt of a channel is armed with a
  delay of \<open>n\<close>, the calls of \<open>do_serial_fifo_cpu_intr\<close> leave the interrupt controller
  alone \<open>n\<close> times, and the next call raises the receive interrupt once and disarms it.
\<close>

theorem receive_interrupt_after_delay:
  assumes "sf_rd_raise_intr c" "\<not> sf_wr_raise_intr c"
  shows "(k \<le> unat (sf_rd_raise_delay_count c) \<longrightarrow> (do_serial_fifo_cpu_intr env ^^ k) (c, mpu) =
      (c\<lparr>sf_rd_raise_delay_count := sf_rd_raise_delay_count c - of_nat k\<rparr>, mpu)) \<and>
    (do_serial_fifo_cpu_intr env ^^ Suc (unat (sf_rd_raise_delay_count c))) (c, mpu) =
      (c\<lparr>sf_rd_raise_delay_count := 0, sf_rd_raise_intr := False\<rparr>, raise_int env (sf_rd_intno c) mpu)"
proof -
  have wait: "(do_serial_fifo_cpu_intr env ^^ k) (c, mpu) = (c\<lparr>sf_rd_raise_delay_count := sf_rd_raise_delay_count c - of_nat k\<rparr>, mpu)"
    if "k \<le> unat (sf_rd_raise_delay_count c)" for k
    using that
  proof (induction k)
    case (Suc k)
    have "sf_rd_raise_delay_count c - of_nat k \<noteq> 0"
    proof
      assume "sf_rd_raise_delay_count c - of_nat k = 0"
      then have "unat (sf_rd_raise_delay_count c) = unat (of_nat k :: uint32)" by simp
      also have "\<dots> \<le> k" by (simp add: unat_of_nat take_bit_nat_less_eq_self)
      finally show False using Suc.prems by simp
    qed
    then show ?case using Suc assms
      by (simp add: do_serial_fifo_cpu_intr_def cpu_rd_intr_def cpu_wr_intr_def diff_diff_eq add.commute)
  qed simp
  then show ?thesis using wait [of "unat (sf_rd_raise_delay_count c)"] assms
    by (simp add: do_serial_fifo_cpu_intr_def cpu_rd_intr_def cpu_wr_intr_def)
qed

theorem receive_interrupt_after_delay_witness:
  "\<forall>m mpu. (do_serial_fifo_cpu_intr \<lparr>se_mpu = m, se_device_raise_int = (\<lambda>n d. n # d), se_old = 0\<rparr> ^^ 4) (sample_channel, mpu) =
    (sample_channel\<lparr>sf_rd_raise_delay_count := 0, sf_rd_raise_intr := False\<rparr>, mpu\<lparr>mpu_dev := 10 # mpu_dev mpu\<rparr>)"
proof (intro allI)
  fix m :: "uint32 list mpu_env" and mpu :: "uint32 list mpu_state"
  have "sf_rd_raise_intr sample_channel" "\<not> sf_wr_raise_intr sample_channel" "Suc (unat (sf_rd_raise_delay_count sample_channel)) = 4"
    "sf_rd_intno sample_channel = 10" by (simp_all add: sample_channel_def)
  with receive_interrupt_after_delay [of sample_channel 0 "\<lparr>se_mpu = m, se_device_raise_int = (\<lambda>n d. n # d), se_old = 0\<rparr>" mpu]
  show "(do_serial_fifo_cpu_intr \<lparr>se_mpu = m, se_device_raise_int = (\<lambda>n d. n # d), se_old = 0\<rparr> ^^ 4) (sample_channel, mpu) =
    (sample_channel\<lparr>sf_rd_raise_delay_count := 0, sf_rd_raise_intr := False\<rparr>, mpu\<lparr>mpu_dev := 10 # mpu_dev mpu\<rparr>)"
    by (simp add: raise_int_def)
qed

section \<open>Initialisation\<close>

text \<open>What \<open>malloc\<close> promises: a block of the size asked for, or none.\<close>

definition malloc_ok :: "(nat \<Rightarrow> uint32 \<Rightarrow> uint8 list option) \<Rightarrow> bool" where
  "malloc_ok alloc \<longleftrightarrow> (\<forall>k sz blk. alloc k sz = Some blk \<longrightarrow> length blk = unat sz)"

lemma create_buffer_ok: "malloc_ok alloc \<Longrightarrow> create_buffer alloc k sz f = Some f' \<Longrightarrow> fifo_inv f' \<and> fifo_list f' = []"
  using fifo_create_inv [of "the (alloc k sz)" sz f]
  by (cases "alloc k sz") (auto simp: create_buffer_def assert_ok_def malloc_ok_def comm_fifo_buffer_create_def split: if_splits)

lemma configure_channel_ready:
  assumes "malloc_ok alloc" "configure_channel alloc i sz cfg c = Some c'"
  shows "channel_ready c'"
  using assms(2) create_buffer_ok [OF assms(1)]
  by (auto simp: configure_channel_def Let_def channel_ready_def fifos_ok_def split: bind_splits)

lemma register_assert_ok:
  assumes "threads_ok ts" "mpthread_register_assert op ts = Some (thr, ts')"
  shows "unat thr = length ts \<and> length ts' = Suc (length ts) \<and> threads_ok ts'"
  using assms(2) mpthread_register_ok [OF assms(1), of op]
  by (cases "mpthread_register op ts") (auto simp: mpthread_register_assert_def assert_ok_def split: bind_splits if_splits)

lemma start_assert_ok:
  assumes "threads_ok ts" "unat thr < length ts" "assert_ok (mpthread_start_proc thr ts) = Some ts'"
  shows "length ts' = length ts \<and> threads_ok ts'"
  using mpthread_start_proc_ok [OF assms(1,2)] assms(3) by (auto simp: assert_ok_def)

lemma start_threads_ok:
  assumes "threads_ok ts" "start_threads ts = Some (rx, tx, ts')"
  shows "threads_ok ts' \<and> unat rx = length ts \<and> unat tx = Suc (length ts) \<and> length ts' = length ts + 2"
proof -
  obtain ts1 ts2 ts3 where t: "mpthread_register_assert rx_thread_ops ts = Some (rx, ts1)"
    "mpthread_register_assert tx_thread_ops ts1 = Some (tx, ts2)" "assert_ok (mpthread_start_proc rx ts2) = Some ts3"
    "assert_ok (mpthread_start_proc tx ts3) = Some ts'"
    using assms(2) by (auto simp: start_threads_def split: bind_splits)
  note r1 = register_assert_ok [OF assms(1) t(1)]
  then have r2: "unat tx = length ts1 \<and> length ts2 = Suc (length ts1) \<and> threads_ok ts2" using register_assert_ok [OF _ t(2)] by simp
  have r3: "length ts3 = length ts2 \<and> threads_ok ts3" using start_assert_ok [OF _ _ t(3)] r1 r2 by simp
  have "length ts' = length ts3 \<and> threads_ok ts'" using start_assert_ok [OF _ _ t(4)] r1 r2 r3 by simp
  then show ?thesis using r1 r2 r3 by simp
qed

lemma thread_start_ok:
  assumes "threads_ok ts" "serial_fifo_thread_start getenv i c cfg ts = Some (c', cfg', ts')"
  shows "threads_ok ts' \<and> unat (sf_rx_thread c') = length ts \<and> unat (sf_tx_thread c') = Suc (length ts) \<and>
    length ts' = length ts + 2 \<and> sf_is_extdev c' = sf_is_extdev c \<and>
    sf_rd c' = sf_rd c \<and> sf_wr c' = sf_wr c \<and> sf_wr_dev_buffer c' = sf_wr_dev_buffer c"
  using assms(2) start_threads_ok [OF assms(1)]
  by (auto simp: serial_fifo_thread_start_def split: bind_splits)

text \<open>A channel with threads of its own; what holds after the first \<open>n\<close> channels.\<close>

definition threaded :: "AthrillSerialFifoType \<Rightarrow> bool" where
  "threaded c \<longleftrightarrow> cf_data (sf_rd c) \<noteq> None \<and> sf_is_extdev c = 0"

definition chan_ok :: "nat \<Rightarrow> AthrillSerialFifoType \<Rightarrow> bool" where
  "chan_ok m c \<longleftrightarrow> (cf_data (sf_rd c) = None \<longleftrightarrow> cf_data (sf_wr c) = None) \<and> (cf_data (sf_rd c) \<noteq> None \<longrightarrow> channel_ready c) \<and>
    (threaded c \<longrightarrow> unat (sf_rx_thread c) < m \<and> unat (sf_tx_thread c) < m)"

definition other_threads :: "AthrillSerialFifoType \<Rightarrow> AthrillSerialFifoType \<Rightarrow> bool" where
  "other_threads c c' \<longleftrightarrow> (threaded c \<and> threaded c' \<longrightarrow> sf_rx_thread c \<noteq> sf_rx_thread c' \<and> sf_tx_thread c \<noteq> sf_tx_thread c')"

definition channels_ok :: "nat \<Rightarrow> 'd serial_state \<Rightarrow> bool" where
  "channels_ok n st \<longleftrightarrow> length (ss_fifo st) = SERIAL_FIFO_MAX_CHANNEL_NUM \<and> threads_ok (ss_threads st) \<and>
    (\<forall>i<n. chan_ok (length (ss_threads st)) (ss_fifo st ! i) \<and> (\<forall>j<i. other_threads (ss_fifo st ! j) (ss_fifo st ! i)))"

lemma chan_ok_mono: "chan_ok m c \<Longrightarrow> m \<le> m' \<Longrightarrow> chan_ok m' c"
  by (auto simp: chan_ok_def)

lemma new_threads:
  "chan_ok m c \<Longrightarrow> threaded c' \<longrightarrow> m \<le> unat (sf_rx_thread c') \<and> m \<le> unat (sf_tx_thread c') \<Longrightarrow> other_threads c c'"
  by (auto simp: chan_ok_def other_threads_def)

lemma channels_ok_extend:
  assumes "channels_ok n st" "n < SERIAL_FIFO_MAX_CHANNEL_NUM" "threads_ok ts" "length (ss_threads st) \<le> length ts"
    "chan_ok (length ts) c" "threaded c \<longrightarrow> length (ss_threads st) \<le> unat (sf_rx_thread c) \<and> length (ss_threads st) \<le> unat (sf_tx_thread c)"
  shows "channels_ok (Suc n) (st\<lparr>ss_fifo := (ss_fifo st)[n := c], ss_cfg := cfg, ss_threads := ts\<rparr>)"
proof -
  have st: "length (ss_fifo st) = SERIAL_FIFO_MAX_CHANNEL_NUM"
    "\<And>i. i < n \<Longrightarrow> chan_ok (length (ss_threads st)) (ss_fifo st ! i) \<and> (\<forall>j<i. other_threads (ss_fifo st ! j) (ss_fifo st ! i))"
    using assms(1) by (simp_all add: channels_ok_def)
  have "chan_ok (length ts) ((ss_fifo st)[n := c] ! i) \<and> (\<forall>j<i. other_threads ((ss_fifo st)[n := c] ! j) ((ss_fifo st)[n := c] ! i))"
    if "i < Suc n" for i
  proof (cases "i = n")
    case True
    then show ?thesis using st assms(2,5) new_threads [OF _ assms(6)] by simp
  next
    case False
    then show ?thesis using st(2) [of i] that chan_ok_mono [OF _ assms(4)] by simp
  qed
  then show ?thesis using st(1) assms(3) by (simp add: channels_ok_def)
qed

lemma init_channel_ok:
  assumes "malloc_ok alloc" "channels_ok n st" "n < SERIAL_FIFO_MAX_CHANNEL_NUM" "init_channel getenv alloc n st = Some st'"
  shows "channels_ok (Suc n) st'"
proof -
  have n: "index_at (ss_fifo st) n = Some (ss_fifo st ! n)" and th: "threads_ok (ss_threads st)" using assms(2,3) by (simp_all add: channels_ok_def)
  show ?thesis
  proof (cases "cpuemu_get_devcfg_value (serial_fifo_param n ''_SIZE'') (ss_cfg st)")
    case None
    then show ?thesis using assms(4) n channels_ok_extend [OF assms(2,3) th, of _ "ss_cfg st"]
      by (auto simp: init_channel_def threaded_def chan_ok_def)
  next
    case (Some sz)
    with assms(4) n obtain c where c: "configure_channel alloc n sz (ss_cfg st) (ss_fifo st ! n) = Some c"
      by (auto simp: init_channel_def split: bind_splits)
    note ready = configure_channel_ready [OF assms(1) c]
    have data: "cf_data (sf_rd c') \<noteq> None \<and> cf_data (sf_wr c') \<noteq> None" if "channel_ready c'" for c'
      using that by (auto simp: channel_ready_def fifos_ok_def fifo_inv_def)
    show ?thesis
    proof (cases "sf_is_extdev c = 0")
      case True
      with assms(4) n Some c obtain c' cfg ts where
        t: "serial_fifo_thread_start getenv n c (ss_cfg st) (ss_threads st) = Some (c', cfg, ts)"
        "st' = st\<lparr>ss_fifo := (ss_fifo st)[n := c'], ss_cfg := cfg, ss_threads := ts\<rparr>"
        by (auto simp: init_channel_def split: bind_splits)
      note ok = thread_start_ok [OF th t(1)]
      then have r: "channel_ready c'" using ready by (simp add: channel_ready_def fifos_ok_def)
      have "chan_ok (length ts) c'" using ok r data [OF r] by (auto simp: chan_ok_def)
      then show ?thesis using channels_ok_extend [OF assms(2,3), of ts c' cfg] ok t(2) by simp
    next
      case False
      then have "st' = st\<lparr>ss_fifo := (ss_fifo st)[n := c]\<rparr>" using assms(4) n Some c by (simp add: init_channel_def)
      then show ?thesis using channels_ok_extend [OF assms(2,3) th, of c "ss_cfg st"] ready data [OF ready] False by (auto simp: threaded_def chan_ok_def)
    qed
  qed
qed

lemma init_channels_ok:
  assumes "malloc_ok alloc" "channels_ok n st" "n + k = SERIAL_FIFO_MAX_CHANNEL_NUM"
    "init_channels getenv alloc [n..<SERIAL_FIFO_MAX_CHANNEL_NUM] st = Some st'"
  shows "channels_ok SERIAL_FIFO_MAX_CHANNEL_NUM st'"
  using assms(2-4)
proof (induction k arbitrary: n st)
  case (Suc k)
  then have n: "n < SERIAL_FIFO_MAX_CHANNEL_NUM" by simp
  then obtain st1 where st1: "init_channel getenv alloc n st = Some st1"
    "init_channels getenv alloc [Suc n..<SERIAL_FIFO_MAX_CHANNEL_NUM] st1 = Some st'"
    using Suc.prems(3) by (auto simp: upt_conv_Cons split: option.splits)
  from init_channel_ok [OF assms(1) Suc.prems(1) n st1(1)] Suc.IH [OF _ _ st1(2)] Suc.prems(2) show ?case by simp
qed simp

lemma other_channel:
  assumes "channels_ok n st" "i < n" "j < n" "i \<noteq> j"
  shows "other_threads (ss_fifo st ! i) (ss_fifo st ! j) \<or> other_threads (ss_fifo st ! j) (ss_fifo st ! i)"
  using assms by (cases "i < j") (auto simp: channels_ok_def)

text \<open>
  The threads of the serial device find their channels. When the initialisation succeeds, with the
  external transport of every channel switched off or on by 0 or 1, then every channel with the
  built-in transport has empty, well-formed buffers, and the search of its receiving and of
  its sending thread ends at this channel, so their assertions hold and no two threads serve the
  same buffer.
\<close>

theorem serial_threads_find_channels:
  assumes "athrill_device_init_serial_fifo getenv alloc st = Some st'" "malloc_ok alloc"
    "cpuemu_get_devcfg_value_hex ''DEVICE_CONFIG_SERIAL_FILFO_BASE_ADDR'' (ss_cfg st) \<noteq> None"
    "length (ss_fifo st) = SERIAL_FIFO_MAX_CHANNEL_NUM" "threads_ok (ss_threads st)"
    "\<forall>c\<in>set (ss_fifo st'). sf_is_extdev c = 0 \<or> sf_is_extdev c = 1"
    "i < SERIAL_FIFO_MAX_CHANNEL_NUM" "cf_data (sf_rd (ss_fifo st' ! i)) \<noteq> None" "sf_is_extdev (ss_fifo st' ! i) = 0"
  shows "channel_ready (ss_fifo st' ! i) \<and>
    rx_channel (sf_rx_thread (ss_fifo st' ! i)) (ss_fifo st') = Some i \<and>
    tx_channel (sf_tx_thread (ss_fifo st' ! i)) (ss_fifo st') = Some i"
proof -
  obtain base fd where init: "init_channels getenv alloc [0..<SERIAL_FIFO_MAX_CHANNEL_NUM] (st\<lparr>ss_base_addr := base, ss_fd := fd\<rparr>) = Some st'"
    using assms(1,3) by (auto simp: athrill_device_init_serial_fifo_def Let_def)
  have "channels_ok 0 (st\<lparr>ss_base_addr := base, ss_fd := fd\<rparr>)" using assms(4,5) by (simp add: channels_ok_def)
  from init_channels_ok [OF assms(2) this _ init] have ok: "channels_ok SERIAL_FIFO_MAX_CHANNEL_NUM st'" by simp
  then have len: "length (ss_fifo st') = SERIAL_FIFO_MAX_CHANNEL_NUM" and
    chan: "\<And>j. j < SERIAL_FIFO_MAX_CHANNEL_NUM \<Longrightarrow> chan_ok (length (ss_threads st')) (ss_fifo st' ! j)"
    by (simp_all add: channels_ok_def)
  have ready: "channel_ready (ss_fifo st' ! i)" using chan [OF assms(7)] assms(8) by (simp add: chan_ok_def)
  have th: "threaded (ss_fifo st' ! i)" using assms(8,9) by (simp add: threaded_def)
  have other: "threaded (ss_fifo st' ! j) \<Longrightarrow> j \<noteq> i \<Longrightarrow> j < SERIAL_FIFO_MAX_CHANNEL_NUM \<Longrightarrow>
      sf_rx_thread (ss_fifo st' ! j) \<noteq> sf_rx_thread (ss_fifo st' ! i) \<and> sf_tx_thread (ss_fifo st' ! j) \<noteq> sf_tx_thread (ss_fifo st' ! i)" for j
    using other_channel [OF ok, of j i] th assms(7) by (auto simp: other_threads_def)
  have own: "threaded (ss_fifo st' ! j)"
    if "j < SERIAL_FIFO_MAX_CHANNEL_NUM" "cf_data (sf_rd (ss_fifo st' ! j)) \<noteq> None \<or> cf_data (sf_wr (ss_fifo st' ! j)) \<noteq> None"
      "sf_is_extdev (ss_fifo st' ! j) \<noteq> 1" for j
    using chan [OF that(1)] that assms(6) len by (auto simp: chan_ok_def threaded_def)
  have "cf_data (sf_wr (ss_fifo st' ! i)) \<noteq> None" using chan [OF assms(7)] assms(8) by (simp add: chan_ok_def)
  then show ?thesis unfolding rx_channel_def tx_channel_def
    using ready assms(7-9) len other own by (intro conjI find_first_unique) auto
qed

text \<open>A configuration with one channel.\<close>

definition serial_cfg :: "cfg_entry list" where
  "serial_cfg =
    [(''DEVICE_CONFIG_SERIAL_FILFO_BASE_ADDR'', Hex 0x09000000), (''DEVICE_CONFIG_SERIAL_FILFO_0_SIZE'', Dec 4),
     (''DEVICE_CONFIG_SERIAL_FILFO_0_RD_INTNO'', Dec 10), (''DEVICE_CONFIG_SERIAL_FILFO_0_WR_INTNO'', Dec 11),
     (''DEVICE_CONFIG_SERIAL_FILFO_0_RD_INTOFF'', Dec 1), (''DEVICE_CONFIG_SERIAL_FILFO_0_WR_INTOFF'', Dec 1),
     (''DEVICE_CONFIG_SERIAL_FILFO_0_RD_FIFO'', Str ''rx''), (''DEVICE_CONFIG_SERIAL_FILFO_0_WR_FIFO'', Str ''tx'')]"

lemma serial_cfg_ok: "\<forall>e\<in>set serial_cfg. entry_ok e"
  by (simp add: serial_cfg_def plain_word_def no_delimiter_def is_delimiter_def number_eval NUL_def)

definition zero_channel :: AthrillSerialFifoType where
  "zero_channel = sample_channel\<lparr>sf_rd := (sample_fifo 0)\<lparr>cf_data := None\<rparr>, sf_wr := (sample_fifo 0)\<lparr>cf_data := None\<rparr>\<rparr>"

definition serial_state_of :: "CpuEmuDevCfgType \<Rightarrow> unit mpu_state \<Rightarrow> unit serial_state" where
  "serial_state_of cfg mpu = \<lparr>ss_fifo = replicate 8 zero_channel, ss_base_addr = 0, ss_fd = 1024, ss_mpu = mpu, ss_threads = [], ss_cfg = cfg\<rparr>"

definition sample_malloc :: "nat \<Rightarrow> uint32 \<Rightarrow> uint8 list option" where
  "sample_malloc k sz = Some (replicate (unat sz) 0)"

lemma serial_param: "i < 8 \<Longrightarrow> serial_fifo_param i name = ''DEVICE_CONFIG_SERIAL_FILFO_'' @ hex_digit i # name"
  by (simp add: serial_fifo_param_def digits_of.simps)

lemma serial_digits: "list_all (\<lambda>i. hex_digit i \<noteq> NUL \<and> (hex_digit i = CHR ''0'' \<longleftrightarrow> i = 0) \<and> hex_digit i \<noteq> CHR ''B'') [0..<8]"
  by (simp add: upt_rec hex_digit_def NUL_def)

lemma serial_digit: "i < 8 \<Longrightarrow> hex_digit i \<noteq> NUL \<and> (hex_digit i = CHR ''0'' \<longleftrightarrow> i = 0) \<and> hex_digit i \<noteq> CHR ''B''"
  using serial_digits by (simp add: list_all_iff)

lemma serial_key: "length name < 20 \<Longrightarrow> NUL \<notin> set name \<Longrightarrow> i < 8 \<Longrightarrow> key_ok (serial_fifo_param i name)"
  using serial_digit [of i] by (auto simp: serial_param key_ok_def TOKEN_STRING_MAX_SIZE_def NUL_def)

text \<open>What the getters return for it.\<close>

lemma serial_values:
  assumes "cfg_state_ok serial_cfg cs"
  shows "cpuemu_get_devcfg_value_hex ''DEVICE_CONFIG_SERIAL_FILFO_BASE_ADDR'' (dv_cfg cs) = Some 0x09000000"
    "i < 8 \<Longrightarrow> cpuemu_get_devcfg_value (serial_fifo_param i ''_SIZE'') (dv_cfg cs) = (if i = 0 then Some 4 else None)"
    "cpuemu_get_devcfg_value (serial_fifo_param 0 ''_RD_INTNO'') (dv_cfg cs) = Some 10"
    "cpuemu_get_devcfg_value (serial_fifo_param 0 ''_WR_INTNO'') (dv_cfg cs) = Some 11"
    "cpuemu_get_devcfg_value (serial_fifo_param 0 ''_RD_INTOFF'') (dv_cfg cs) = Some 1"
    "cpuemu_get_devcfg_value (serial_fifo_param 0 ''_WR_INTOFF'') (dv_cfg cs) = Some 1"
    "cpuemu_get_devcfg_value (serial_fifo_param 0 ''_EXDEV_ENABLE'') (dv_cfg cs) = None"
    "cpuemu_get_devcfg_value (serial_fifo_param 0 ''_DISABLE_CPUIO'') (dv_cfg cs) = None"
    "cpuemu_get_devcfg_string getenv (serial_fifo_param 0 ''_RD_FIFO'') (dv_cfg cs) = Some (Some ''rx'', dv_cfg cs)"
    "cpuemu_get_devcfg_string getenv (serial_fifo_param 0 ''_WR_FIFO'') (dv_cfg cs) = Some (Some ''tx'', dv_cfg cs)"
proof -
  have p: "params_are serial_cfg (dv_cfg cs)" using assms by (simp add: cfg_state_ok_def)
  note num = get_numbers(1) [OF p serial_cfg_ok serial_key] and str = get_string [OF p serial_cfg_ok serial_key]
  have base: "key_ok ''DEVICE_CONFIG_SERIAL_FILFO_BASE_ADDR''" by (simp add: key_ok_def TOKEN_STRING_MAX_SIZE_def NUL_def)
  have zero: "hex_digit 0 = CHR ''0''" by (simp add: hex_digit_def)
  show "cpuemu_get_devcfg_value_hex ''DEVICE_CONFIG_SERIAL_FILFO_BASE_ADDR'' (dv_cfg cs) = Some 0x09000000"
    using get_numbers(2) [OF p serial_cfg_ok base] by (simp add: serial_cfg_def List.map_filter_simps)
  show "i < 8 \<Longrightarrow> cpuemu_get_devcfg_value (serial_fifo_param i ''_SIZE'') (dv_cfg cs) = (if i = 0 then Some 4 else None)"
    using serial_digit [of i] zero by (simp add: num NUL_def) (simp add: serial_param serial_cfg_def List.map_filter_simps)
  show "cpuemu_get_devcfg_value (serial_fifo_param 0 ''_RD_INTNO'') (dv_cfg cs) = Some 10"
    "cpuemu_get_devcfg_value (serial_fifo_param 0 ''_WR_INTNO'') (dv_cfg cs) = Some 11"
    "cpuemu_get_devcfg_value (serial_fifo_param 0 ''_RD_INTOFF'') (dv_cfg cs) = Some 1"
    "cpuemu_get_devcfg_value (serial_fifo_param 0 ''_WR_INTOFF'') (dv_cfg cs) = Some 1"
    "cpuemu_get_devcfg_value (serial_fifo_param 0 ''_EXDEV_ENABLE'') (dv_cfg cs) = None"
    "cpuemu_get_devcfg_value (serial_fifo_param 0 ''_DISABLE_CPUIO'') (dv_cfg cs) = None"
    "cpuemu_get_devcfg_string getenv (serial_fifo_param 0 ''_RD_FIFO'') (dv_cfg cs) = Some (Some ''rx'', dv_cfg cs)"
    "cpuemu_get_devcfg_string getenv (serial_fifo_param 0 ''_WR_FIFO'') (dv_cfg cs) = Some (Some ''tx'', dv_cfg cs)"
    by (simp_all add: num str NUL_def) (simp_all add: serial_param serial_cfg_def List.map_filter_simps zero)
qed

lemma init_absent_channels:
  assumes "cfg_state_ok serial_cfg cs" "ss_cfg st = dv_cfg cs" "length (ss_fifo st) = 8" "list_all (\<lambda>i. 0 < i \<and> i < 8) js"
  shows "\<exists>st'. init_channels getenv alloc js st = Some st' \<and> ss_fifo st' ! 0 = ss_fifo st ! 0 \<and> length (ss_fifo st') = 8 \<and>
    map sf_is_extdev (ss_fifo st') = map sf_is_extdev (ss_fifo st)"
  using assms(2-4)
proof (induction js arbitrary: st)
  case (Cons i js)
  then have i: "0 < i" "i < 8" by simp_all
  let ?c = "ss_fifo st ! i"
  let ?st = "st\<lparr>ss_fifo := (ss_fifo st)[i := ?c\<lparr>sf_rd := (sf_rd ?c)\<lparr>cf_data := None\<rparr>, sf_wr := (sf_wr ?c)\<lparr>cf_data := None\<rparr>\<rparr>]\<rparr>"
  have step: "init_channel getenv alloc i st = Some ?st"
    using serial_values(2) [OF assms(1) i(2)] i Cons.prems(1,2) by (simp add: init_channel_def)
  have "map sf_is_extdev (ss_fifo ?st) = map sf_is_extdev (ss_fifo st)"
    using Cons.prems(2) i by (intro nth_equalityI) (auto simp: nth_list_update)
  moreover have "ss_fifo ?st ! 0 = ss_fifo st ! 0" using i by simp
  ultimately show ?case using Cons.IH [of ?st] Cons.prems step by simp
qed simp

lemma register_assert_room: "threads_ok ts \<Longrightarrow> length ts < 1024 \<Longrightarrow> \<exists>thr ts'. mpthread_register_assert op ts = Some (thr, ts')"
  using mpthread_num_unat [of ts]
  by (simp add: mpthread_register_assert_def mpthread_register_def assert_ok_def Let_def MPTHREAD_MAX_NUM_def word_le_nat_alt)

lemma start_threads_room:
  assumes "threads_ok ts" "length ts < 1023"
  shows "\<exists>rx tx ts'. start_threads ts = Some (rx, tx, ts')"
proof -
  obtain rx ts1 where r1: "mpthread_register_assert rx_thread_ops ts = Some (rx, ts1)" using register_assert_room [OF assms(1)] assms(2) by fastforce
  note o1 = register_assert_ok [OF assms(1) r1]
  then obtain tx ts2 where r2: "mpthread_register_assert tx_thread_ops ts1 = Some (tx, ts2)"
    using register_assert_room [of ts1 tx_thread_ops] assms(2) by auto
  have o2: "unat tx = length ts1 \<and> length ts2 = Suc (length ts1) \<and> threads_ok ts2" using register_assert_ok [OF _ r2] o1 by simp
  then obtain ts3 where r3: "assert_ok (mpthread_start_proc rx ts2) = Some ts3" "threads_ok ts3" "length ts3 = length ts2"
    using mpthread_start_proc_ok [of ts2 rx] o1 by (auto simp: assert_ok_def)
  then obtain ts4 where "assert_ok (mpthread_start_proc tx ts3) = Some ts4"
    using mpthread_start_proc_ok [of ts3 tx] o2 by (auto simp: assert_ok_def)
  then show ?thesis using r1 r2 r3(1) by (simp add: start_threads_def)
qed

lemma init_first_channel:
  assumes "cfg_state_ok serial_cfg cs"
  shows "\<exists>st1. init_channel getenv sample_malloc 0 ((serial_state_of (dv_cfg cs) mpu)\<lparr>ss_base_addr := base, ss_fd := fd\<rparr>) = Some st1 \<and> ss_cfg st1 = dv_cfg cs \<and> length (ss_fifo st1) = 8 \<and>
    map sf_is_extdev (ss_fifo st1) = replicate 8 0 \<and> cf_data (sf_rd (ss_fifo st1 ! 0)) \<noteq> None \<and>
    sf_rx_thread (ss_fifo st1 ! 0) = 0 \<and> sf_tx_thread (ss_fifo st1 ! 0) = 1"
proof -
  note vals = serial_values [OF assms(1)]
  have size: "cpuemu_get_devcfg_value (serial_fifo_param 0 ''_SIZE'') (dv_cfg cs) = Some 4" using vals(2) [of 0] by simp
  obtain c where c: "configure_channel sample_malloc 0 4 (dv_cfg cs) zero_channel = Some c" "sf_is_extdev c = 0" "cf_data (sf_rd c) \<noteq> None"
    by (simp add: configure_channel_def create_buffer_def comm_fifo_buffer_create_def sample_malloc_def assert_ok_def Let_def vals(3-8))
  have "threads_ok ([] :: serial_thread_ops mpthreads)" by (simp add: threads_ok_def)
  then obtain rx tx ts where ts': "start_threads [] = Some (rx, tx, ts)" "unat rx = 0" "unat tx = 1"
    using start_threads_room [of "[]"] start_threads_ok [of "[]"] by auto
  then have "rx = 0" "tx = 1" by (simp_all add: word_unat_eq_iff)
  with ts'(1) have ts: "start_threads [] = Some (0, 1, ts)" by simp
  have ext: "map sf_is_extdev ((replicate 8 zero_channel)[0 := c\<lparr>sf_rx_serial_fifopath := a, sf_tx_serial_fifopath := b, sf_rx_thread := 0, sf_tx_thread := 1\<rparr>]) =
      replicate 8 0" for a b
    using c(2) by (simp add: zero_channel_def sample_channel_def numeral_eq_Suc)
  show ?thesis using c ts ext vals(9,10) size
    by (simp add: init_channel_def serial_state_of_def serial_fifo_thread_start_def)
qed

theorem serial_threads_find_channels_witness:
  "\<forall>mpu. \<exists>cs st'. cpuemu_load_devcfg (\<lambda>p. Some (devcfg_text serial_cfg)) zero_bufs ''d.txt'' zero_devcfg = Some (STD_E_OK, cs) \<and>
    athrill_device_init_serial_fifo (\<lambda>v. None) sample_malloc (serial_state_of (dv_cfg cs) mpu) = Some st' \<and>
    rx_channel 0 (ss_fifo st') = Some 0 \<and> tx_channel 1 (ss_fifo st') = Some 0"
proof
  fix mpu
  have "length serial_cfg \<le> CPUEMU_DEVCFG_PARAM_MAXNUM" by (simp add: serial_cfg_def CPUEMU_DEVCFG_PARAM_MAXNUM_def)
  from load_devcfg_entries [OF serial_cfg_ok this zero_devcfg_ready, where files = "\<lambda>p. Some (devcfg_text serial_cfg)" and rest = "[]"] obtain cs where
    cs: "cpuemu_load_devcfg (\<lambda>p. Some (devcfg_text serial_cfg)) zero_bufs ''d.txt'' zero_devcfg = devcfg_loop zero_bufs (length serial_cfg) [] cs"
    "cfg_state_ok serial_cfg cs" by auto
  have load: "devcfg_loop zero_bufs (length serial_cfg) [] cs = Some (STD_E_OK, cs)"
    using file_getline_end [of "[]"] by (subst devcfg_loop.simps) (simp add: case_prod_beta at_end_def del: devcfg_loop.simps)
  define fd where "fd = (case cpuemu_get_devcfg_value ''DEVICE_CONFIG_SERIAL_FIFO_FD'' (dv_cfg cs) of None \<Rightarrow> ss_fd (serial_state_of (dv_cfg cs) mpu) | Some v \<Rightarrow> v)"
  from init_first_channel [OF cs(2), where mpu = mpu and base = "0x09000000" and fd = fd and getenv = "\<lambda>v. None"] obtain st1 where
    st1: "init_channel (\<lambda>v. None) sample_malloc 0 ((serial_state_of (dv_cfg cs) mpu)\<lparr>ss_base_addr := 0x09000000, ss_fd := fd\<rparr>) = Some st1"
    "ss_cfg st1 = dv_cfg cs" "length (ss_fifo st1) = 8" "map sf_is_extdev (ss_fifo st1) = replicate 8 0" "cf_data (sf_rd (ss_fifo st1 ! 0)) \<noteq> None"
    "sf_rx_thread (ss_fifo st1 ! 0) = 0" "sf_tx_thread (ss_fifo st1 ! 0) = 1" by blast
  from init_absent_channels [OF cs(2) st1(2,3), where js = "[1..<8]" and getenv = "\<lambda>v. None" and alloc = sample_malloc] obtain st' where
    st': "init_channels (\<lambda>v. None) sample_malloc [1..<8] st1 = Some st'" "ss_fifo st' ! 0 = ss_fifo st1 ! 0" "length (ss_fifo st') = 8"
    "map sf_is_extdev (ss_fifo st') = replicate 8 0" using st1(4) by (auto simp: list_all_iff)
  have init: "athrill_device_init_serial_fifo (\<lambda>v. None) sample_malloc (serial_state_of (dv_cfg cs) mpu) = Some st'"
  proof -
    have "ss_cfg (serial_state_of (dv_cfg cs) mpu) = dv_cfg cs" by (simp add: serial_state_of_def)
    moreover have "[0..<SERIAL_FIFO_MAX_CHANNEL_NUM] = 0 # [1..<8]" by (simp add: SERIAL_FIFO_MAX_CHANNEL_NUM_def upt_rec)
    ultimately show ?thesis using serial_values(1) [OF cs(2)] st1(1) st'(1)
      by (simp only: athrill_device_init_serial_fifo_def option.case Let_def fd_def [symmetric] init_channels.simps)
  qed
  have ext: "\<forall>c\<in>set (ss_fifo st'). sf_is_extdev c = 0" using st'(4) by (metis in_set_replicate image_eqI list.set_map)
  have "malloc_ok sample_malloc" by (simp add: malloc_ok_def sample_malloc_def)
  moreover have "threads_ok (ss_threads (serial_state_of (dv_cfg cs) mpu))" "length (ss_fifo (serial_state_of (dv_cfg cs) mpu)) = 8"
    by (simp_all add: serial_state_of_def threads_ok_def)
  moreover have "sf_is_extdev (ss_fifo st1 ! 0) = 0" using ext st'(2,3) by (metis nth_mem zero_less_numeral)
  ultimately have "rx_channel 0 (ss_fifo st') = Some 0 \<and> tx_channel 1 (ss_fifo st') = Some 0"
    using serial_threads_find_channels [OF init, of 0] serial_values(1) [OF cs(2)] ext st'(2,3) st1(5-7)
    by (simp add: SERIAL_FIFO_MAX_CHANNEL_NUM_def serial_state_of_def)
  then show "\<exists>cs st'. cpuemu_load_devcfg (\<lambda>p. Some (devcfg_text serial_cfg)) zero_bufs ''d.txt'' zero_devcfg = Some (STD_E_OK, cs) \<and>
    athrill_device_init_serial_fifo (\<lambda>v. None) sample_malloc (serial_state_of (dv_cfg cs) mpu) = Some st' \<and>
    rx_channel 0 (ss_fifo st') = Some 0 \<and> tx_channel 1 (ss_fifo st') = Some 0"
    using cs(1) load init by auto
qed

end
