(* ===== verification/DwarfLine.thy ===== *)
theory DwarfLine
  imports
    CString
    "HOL-Library.Signed_Division"
begin

text \<open>
  The line number information of DWARF: src/src/lib/dwarf/elf_dwarf_util.c (LEB128 numbers),
  elf_section.c (little-endian reads), elf_dwarf_line.c (header and statement program of
  \<open>.debug_line\<close>) and file_address_mapping.c (the state machine that turns the program into rows,
  and the look-ups between addresses and source lines).
  \<^item> A pointer into the image is the list of the bytes from there to the end of the image, and an
    offset is a natural number: images are smaller than 4 GiB, so that \<open>uint32\<close> offsets do not
    wrap. A read past the image, a division by zero, a shift beyond the width and a failed
    \<open>ASSERT\<close> are \<open>None\<close>; signed sums wrap, as compiled.
  \<^item> The growing pointer arrays are lists, and a \<open>char *\<close> into the image is the string there.
  \<^item> The tags \<open>type\<close> and \<open>subtype\<close> of an opcode and its union of arguments are one datatype.
\<close>

section \<open>Little-endian reads\<close>

definition elf_get_data8 :: "uint8 list \<Rightarrow> nat \<Rightarrow> uint8 option" where
  "elf_get_data8 elf_data off = index_at elf_data off"

definition elf_get_data16 :: "uint8 list \<Rightarrow> nat \<Rightarrow> uint16 option" where
  "elf_get_data16 elf_data off = map_option le_decode (buf_read off 2 elf_data)"

definition elf_get_data32 :: "uint8 list \<Rightarrow> nat \<Rightarrow> uint32 option" where
  "elf_get_data32 elf_data off = map_option le_decode (buf_read off 4 elf_data)"

definition elf_get_data64 :: "uint8 list \<Rightarrow> nat \<Rightarrow> uint64 option" where
  "elf_get_data64 elf_data off = map_option le_decode (buf_read off 8 elf_data)"

text \<open>The string at an offset, up to its NUL, which \<open>strlen\<close> looks for.\<close>

definition string_at :: "uint8 list \<Rightarrow> nat \<Rightarrow> string option" where
  "string_at elf_data off =
    (let r = drop off elf_data; s = takeWhile (\<lambda>b. b \<noteq> 0) r
     in if length s < length r then Some (map (\<lambda>b. char_of (unat b)) s) else None)"

section \<open>LEB128 numbers\<close>

text \<open>The loops read at most four bytes of an unsigned and five of a signed number.\<close>

fun uleb128_loop :: "nat \<Rightarrow> nat \<Rightarrow> uint8 list \<Rightarrow> uint32 \<Rightarrow> (uint32 \<times> nat) option" where
  "uleb128_loop 0 i ptr data = Some (data, i + 1)"
| "uleb128_loop (Suc n) i ptr data =
    do {
      byte \<leftarrow> index_at ptr i;
      let data1 = data OR push_bit (7 * i) (ucast (byte AND 0x7f));
      if byte AND 0x80 = 0 then Some (data1, i + 1) else uleb128_loop n (i + 1) ptr data1
    }"

definition elf_dwarf_decode_uleb128 :: "uint8 list \<Rightarrow> (uint32 \<times> nat) option" where
  "elf_dwarf_decode_uleb128 ptr = uleb128_loop 4 0 ptr 0"

definition sleb128_sign :: "uint8 \<Rightarrow> nat \<Rightarrow> uint32 \<Rightarrow> uint32 option" where
  "sleb128_sign sign shift data =
    (if sign = 0 then Some data
     else if 32 \<le> shift then None
     else Some (data OR (- push_bit shift 1)))"

fun sleb128_loop :: "nat \<Rightarrow> nat \<Rightarrow> uint8 list \<Rightarrow> uint8 \<Rightarrow> uint32 \<Rightarrow> (uint32 \<times> nat) option" where
  "sleb128_loop 0 i ptr sign data = map_option (\<lambda>d. (d, i + 1)) (sleb128_sign sign (7 * i) data)"
| "sleb128_loop (Suc n) i ptr sign data =
    do {
      byte \<leftarrow> index_at ptr i;
      let sign1 = byte AND 0x40;
      let data1 = data OR push_bit (7 * i) (ucast (byte AND 0x7f));
      if byte AND 0x80 = 0 then map_option (\<lambda>d. (d, i + 1)) (sleb128_sign sign1 (7 * (i + 1)) data1)
      else sleb128_loop n (i + 1) ptr sign1 data1
    }"

definition elf_dwarf_decode_sleb128 :: "uint8 list \<Rightarrow> (uint32 \<times> nat) option" where
  "elf_dwarf_decode_sleb128 ptr = sleb128_loop 5 0 ptr 0 0"

section \<open>The header of a unit\<close>

record ElfDwarfLineEntryHeaderFileType =
  hf_filename :: string
  hf_dir :: uint32
  hf_time :: uint32
  hf_size :: uint32

record ElfDwarfLineEntryHeaderType =
  lh_total_length :: uint32
  lh_version :: uint16
  lh_prologue_length :: uint32
  lh_minimum_instruction_length :: uint8
  lh_maximum_operations_per_instruction :: uint8
  lh_default_is_stmt :: uint8
  lh_line_base :: uint8
  lh_line_range :: uint8
  lh_opcode_base :: uint8
  lh_standard_opcode_lengths :: "uint8 list"
  lh_include_directories :: "string list"
  lh_file_names :: "ElfDwarfLineEntryHeaderFileType list"

abbreviation (input) ELF_DWARF_VERSION_4 :: uint16 where "ELF_DWARF_VERSION_4 \<equiv> 4"

lemma string_at_bound: "string_at d off = Some s \<Longrightarrow> off + length s < length d"
  by (auto simp: string_at_def Let_def split: if_splits)

function line_directories :: "uint8 list \<Rightarrow> nat \<Rightarrow> string list \<Rightarrow> (string list \<times> nat) option" where
  "line_directories d off dirs =
    (case string_at d off of
       None \<Rightarrow> None
     | Some dir \<Rightarrow>
        if dir = [] then Some (dirs, off + 1)
        else line_directories d (off + length dir + 1) (dirs @ [dir]))"
  by pat_completeness auto
termination
  by (relation "measure (\<lambda>(d, off, _). length d - off)") (auto dest: string_at_bound)

declare line_directories.simps [simp del]

definition line_file_name :: "uint8 list \<Rightarrow> nat \<Rightarrow> string \<Rightarrow> (ElfDwarfLineEntryHeaderFileType \<times> nat) option" where
  "line_file_name d off filename =
    do {
      (dir, sz1) \<leftarrow> elf_dwarf_decode_uleb128 (drop off d);
      (time, sz2) \<leftarrow> elf_dwarf_decode_uleb128 (drop (off + sz1) d);
      (fsize, sz3) \<leftarrow> elf_dwarf_decode_uleb128 (drop (off + sz1 + sz2) d);
      Some (\<lparr>hf_filename = filename, hf_dir = dir, hf_time = time, hf_size = fsize\<rparr>, off + sz1 + sz2 + sz3)
    }"

lemma line_file_name_advance: "line_file_name d off f = Some (obj, off') \<Longrightarrow> off \<le> off'"
  by (auto simp: line_file_name_def bind_eq_Some_conv)

function line_file_names ::
  "uint8 list \<Rightarrow> nat \<Rightarrow> ElfDwarfLineEntryHeaderFileType list \<Rightarrow> (ElfDwarfLineEntryHeaderFileType list \<times> nat) option" where
  "line_file_names d off files =
    (case string_at d off of
       None \<Rightarrow> None
     | Some filename \<Rightarrow>
        if filename = [] then Some (files, off + 1)
        else case line_file_name d (off + length filename + 1) filename of
               None \<Rightarrow> None
             | Some (obj, off1) \<Rightarrow> line_file_names d off1 (files @ [obj]))"
  by pat_completeness auto
termination
  by (relation "measure (\<lambda>(d, off, _). length d - off)")
    (auto dest!: string_at_bound line_file_name_advance)

declare line_file_names.simps [simp del]

definition parse_entry_header :: "uint8 list \<Rightarrow> (ElfDwarfLineEntryHeaderType \<times> nat) option" where
  "parse_entry_header d =
    do {
      total_length \<leftarrow> elf_get_data32 d 0;
      version \<leftarrow> elf_get_data16 d 4;
      prologue_length \<leftarrow> elf_get_data32 d 6;
      minimum_instruction_length \<leftarrow> elf_get_data8 d 10;
      (maximum_operations, off) \<leftarrow>
        (if version = ELF_DWARF_VERSION_4 then map_option (\<lambda>m. (m, 12)) (elf_get_data8 d 11)
         else Some (0, 11));
      default_is_stmt \<leftarrow> elf_get_data8 d off;
      line_base \<leftarrow> elf_get_data8 d (off + 1);
      line_range \<leftarrow> elf_get_data8 d (off + 2);
      opcode_base \<leftarrow> elf_get_data8 d (off + 3);
      opcode_lengths \<leftarrow> buf_read (off + 4) (unat opcode_base - 1) d;
      (dirs, off1) \<leftarrow> line_directories d (off + 4 + (unat opcode_base - 1)) [];
      (files, off2) \<leftarrow> line_file_names d off1 [];
      Some (\<lparr>lh_total_length = total_length, lh_version = version, lh_prologue_length = prologue_length,
             lh_minimum_instruction_length = minimum_instruction_length,
             lh_maximum_operations_per_instruction = maximum_operations,
             lh_default_is_stmt = default_is_stmt, lh_line_base = line_base, lh_line_range = line_range,
             lh_opcode_base = opcode_base,
             lh_standard_opcode_lengths = opcode_lengths @ replicate (256 - length opcode_lengths) 0,
             lh_include_directories = dirs, lh_file_names = files\<rparr>, off2)
    }"

section \<open>Opcodes\<close>

datatype ElfDwarfLineParsedOpCode =
    LNE_end_sequence
  | LNE_set_address uint32
  | LNE_define_file string uint32 uint32 uint32
  | LNE_set_discriminator uint32
  | LNE_unknown
  | LNS_copy
  | LNS_advance_pc uint32
  | LNS_advance_line uint32
  | LNS_set_file uint32
  | LNS_set_column uint32
  | LNS_negate_stmt
  | LNS_set_basic_block
  | LNS_const_add_pc uint32
  | LNS_fixed_advance_pc uint32
  | Special (advance_addr: uint32) (advance_line: uint32)

definition set_ExtDefineFile :: "uint8 list \<Rightarrow> ElfDwarfLineParsedOpCode option" where
  "set_ExtDefineFile opcode =
    do {
      file \<leftarrow> string_at opcode 0;
      (obj, _) \<leftarrow> line_file_name opcode (length file + 1) file;
      Some (LNE_define_file file (hf_dir obj) (hf_time obj) (hf_size obj))
    }"

definition set_ExtendedOp :: "uint8 list \<Rightarrow> ElfDwarfLineParsedOpCode option" where
  "set_ExtendedOp opcode =
    do {
      code \<leftarrow> index_at opcode 0;
      if code = 1 then Some LNE_end_sequence
      else if code = 2 then map_option LNE_set_address (elf_get_data32 (drop 1 opcode) 0)
      else if code = 3 then set_ExtDefineFile (drop 1 opcode)
      else if code = 4 then map_option (\<lambda>(d, _). LNE_set_discriminator d) (elf_dwarf_decode_uleb128 (drop 1 opcode))
      else Some LNE_unknown
    }"

definition set_StandardOp ::
  "ElfDwarfLineEntryHeaderType \<Rightarrow> uint8 \<Rightarrow> uint8 list \<Rightarrow> (ElfDwarfLineParsedOpCode \<times> nat) option" where
  "set_StandardOp hdr subtype opcode =
    (let min_len = ucast (lh_minimum_instruction_length hdr) :: uint32
     in if subtype = 1 then Some (LNS_copy, 1)
        else if subtype = 2 then
          map_option (\<lambda>(v, sz). (LNS_advance_pc (v * min_len), sz + 1)) (elf_dwarf_decode_uleb128 opcode)
        else if subtype = 3 then
          map_option (\<lambda>(v, sz). (LNS_advance_line v, sz + 1)) (elf_dwarf_decode_sleb128 opcode)
        else if subtype = 4 then
          map_option (\<lambda>(v, sz). (LNS_set_file v, sz + 1)) (elf_dwarf_decode_uleb128 opcode)
        else if subtype = 5 then
          map_option (\<lambda>(v, sz). (LNS_set_column v, sz + 1)) (elf_dwarf_decode_uleb128 opcode)
        else if subtype = 6 then Some (LNS_negate_stmt, 1)
        else if subtype = 7 then Some (LNS_set_basic_block, 1)
        else if subtype = 8 then
          (if lh_line_range hdr = 0 then None
           else Some (LNS_const_add_pc
                        ((255 - ucast (lh_opcode_base hdr)) div ucast (lh_line_range hdr) * min_len), 1))
        else map_option (\<lambda>v. (LNS_fixed_advance_pc (ucast v * min_len), 3)) (elf_get_data16 opcode 0))"

definition set_SpecialOp ::
  "ElfDwarfLineEntryHeaderType \<Rightarrow> uint8 \<Rightarrow> (ElfDwarfLineParsedOpCode \<times> nat) option" where
  "set_SpecialOp hdr opcode =
    (let adjusted_opcode = uint opcode - uint (lh_opcode_base hdr);
         line_range = uint (lh_line_range hdr)
     in if line_range = 0 then None
        else Some (Special
               (word_of_int (adjusted_opcode sdiv line_range) * ucast (lh_minimum_instruction_length hdr))
               (word_of_int (sint (lh_line_base hdr) + adjusted_opcode smod line_range)), 1))"

definition parse_opcode ::
  "ElfDwarfLineEntryHeaderType \<Rightarrow> uint8 list \<Rightarrow> (ElfDwarfLineParsedOpCode \<times> nat) option" where
  "parse_opcode hdr opcode =
    do {
      code \<leftarrow> index_at opcode 0;
      if code = 0 then do {
        len \<leftarrow> index_at opcode 1;
        op \<leftarrow> set_ExtendedOp (drop 2 opcode);
        Some (op, unat len + 2)
      }
      else if code \<le> 9 then set_StandardOp hdr code (drop 1 opcode)
      else set_SpecialOp hdr code
    }"

lemma parse_opcode_advance: "parse_opcode hdr opcode = Some (op, sz) \<Longrightarrow> 0 < sz"
  by (auto simp: parse_opcode_def set_StandardOp_def set_SpecialOp_def Let_def bind_eq_Some_conv
      split: if_splits)

section \<open>Loading the section\<close>

type_synonym ElfDwarfLineEntryType = "ElfDwarfLineEntryHeaderType \<times> ElfDwarfLineParsedOpCode list"

function line_ops ::
  "ElfDwarfLineEntryHeaderType \<Rightarrow> uint8 list \<Rightarrow> nat \<Rightarrow> ElfDwarfLineParsedOpCode list
    \<Rightarrow> (ElfDwarfLineParsedOpCode list \<times> nat) option" where
  "line_ops hdr d off ops =
    (if off < unat (lh_total_length hdr + 4)
     then case parse_opcode hdr (drop off d) of
            None \<Rightarrow> None
          | Some (op, sz) \<Rightarrow> line_ops hdr d (off + sz) (ops @ [op])
     else Some (ops, off))"
  by pat_completeness auto
termination
  by (relation "measure (\<lambda>(hdr, d, off, _). unat (lh_total_length hdr + 4) - off)")
    (auto dest: parse_opcode_advance)

declare line_ops.simps [simp del]

definition line_entry :: "uint8 list \<Rightarrow> (ElfDwarfLineEntryType \<times> nat) option" where
  "line_entry d =
    do {
      (hdr, hdr_size) \<leftarrow> parse_entry_header d;
      (ops, off) \<leftarrow> line_ops hdr d hdr_size [];
      Some ((hdr, ops), off)
    }"

lemma line_directories_advance:
  "line_directories d off dirs = Some (dirs', off') \<Longrightarrow> off < off'"
  by (induction d off dirs rule: line_directories.induct)
    (subst (asm) line_directories.simps, fastforce split: option.splits if_splits)

lemma line_file_names_advance:
  "line_file_names d off files = Some (files', off') \<Longrightarrow> off < off'"
  by (induction d off files rule: line_file_names.induct)
    (subst (asm) line_file_names.simps, fastforce split: option.splits if_splits dest: line_file_name_advance)

lemma line_ops_advance: "line_ops hdr d off ops = Some (ops', off') \<Longrightarrow> off \<le> off'"
  by (induction hdr d off ops rule: line_ops.induct)
    (subst (asm) line_ops.simps, fastforce split: option.splits if_splits)

lemma line_entry_advance: "line_entry d = Some (entry, sz) \<Longrightarrow> 0 < sz"
  by (auto simp: line_entry_def parse_entry_header_def bind_eq_Some_conv
      dest!: line_directories_advance line_file_names_advance line_ops_advance)

function line_entries ::
  "uint8 list \<Rightarrow> nat \<Rightarrow> nat \<Rightarrow> ElfDwarfLineEntryType list \<Rightarrow> ElfDwarfLineEntryType list option" where
  "line_entries d section_size current_size entries =
    (if current_size < section_size
     then case line_entry (drop current_size d) of
            None \<Rightarrow> None
          | Some (entry, sz) \<Rightarrow> line_entries d section_size (current_size + sz) (entries @ [entry])
     else Some entries)"
  by pat_completeness auto
termination
  by (relation "measure (\<lambda>(_, section_size, current_size, _). section_size - current_size)")
    (auto dest: line_entry_advance)

declare line_entries.simps [simp del]

text \<open>\<open>elf_dwarf_line_load\<close> on the section that \<open>elf_section_get\<close> found.\<close>

definition elf_dwarf_line_load :: "uint8 list \<Rightarrow> uint32 \<Rightarrow> ElfDwarfLineEntryType list option" where
  "elf_dwarf_line_load section_data section_size = line_entries section_data (unat section_size) 0 []"

section \<open>The state machine and its rows\<close>

record ElfDwarfLineStateMachineRegisterType =
  sm_address :: uint32
  sm_op_index :: uint32
  sm_file :: uint32
  sm_line :: uint32
  sm_column :: uint32
  sm_is_stmt :: bool
  sm_basic_block :: bool
  sm_end_sequence :: bool
  sm_prologue_end :: bool
  sm_epilogue_begin :: bool
  sm_isa :: uint32
  sm_discriminator :: uint32

record ValueFileType =
  vf_dir :: string
  vf_file :: string
  vf_line :: uint32

type_synonym KeyValueMappingType = "AthrillAddrType \<times> ValueFileType"

text \<open>\<open>elf_dwarf_line_machine_init\<close> leaves \<open>is_stmt\<close> as it is.\<close>

definition elf_dwarf_line_machine_init ::
  "ElfDwarfLineStateMachineRegisterType \<Rightarrow> ElfDwarfLineStateMachineRegisterType" where
  "elf_dwarf_line_machine_init m =
    m\<lparr>sm_address := 0, sm_op_index := 0, sm_file := 1, sm_line := 1, sm_column := 0,
      sm_basic_block := False, sm_end_sequence := False, sm_prologue_end := False,
      sm_epilogue_begin := False, sm_isa := 0, sm_discriminator := 0\<rparr>"

definition elf_dwarf_line_init_ElfDwarfLineStateMachineRegister ::
  "ElfDwarfLineEntryHeaderType \<Rightarrow> ElfDwarfLineStateMachineRegisterType \<Rightarrow> ElfDwarfLineStateMachineRegisterType" where
  "elf_dwarf_line_init_ElfDwarfLineStateMachineRegister hdr m =
    (elf_dwarf_line_machine_init m)\<lparr>sm_is_stmt := lh_default_is_stmt hdr \<noteq> 0\<rparr>"

definition add_map ::
  "ElfDwarfLineEntryHeaderType \<Rightarrow> ElfDwarfLineStateMachineRegisterType \<Rightarrow> KeyValueMappingType list
    \<Rightarrow> KeyValueMappingType list option" where
  "add_map hdr m rows =
    do {
      file \<leftarrow> index_at (lh_file_names hdr) (unat (sm_file m - 1));
      dir \<leftarrow> (if hf_dir file = 0 then Some ''.''
              else index_at (lh_include_directories hdr) (unat (hf_dir file - 1)));
      Some (rows @ [(sm_address m, \<lparr>vf_dir = dir, vf_file = hf_filename file, vf_line = sm_line m\<rparr>)])
    }"

type_synonym line_build = "ElfDwarfLineStateMachineRegisterType \<times> KeyValueMappingType list"

definition advance_machine ::
  "uint32 \<Rightarrow> uint32 \<Rightarrow> ElfDwarfLineStateMachineRegisterType \<Rightarrow> ElfDwarfLineStateMachineRegisterType" where
  "advance_machine a l m = m\<lparr>sm_address := sm_address m + a, sm_line := sm_line m + l\<rparr>"

text \<open>
  \<open>do_ext_build\<close>, \<open>do_std_build\<close> and \<open>do_spc_build\<close>, in this order, on the opcodes of the three types.
\<close>

definition do_build ::
  "ElfDwarfLineEntryHeaderType \<Rightarrow> ElfDwarfLineParsedOpCode \<Rightarrow> line_build \<Rightarrow> line_build option" where
  "do_build hdr op b =
    (case b of (m, rows) \<Rightarrow>
      (case op of
         LNE_end_sequence \<Rightarrow> Some (elf_dwarf_line_machine_init m, rows)
       | LNE_set_address addr \<Rightarrow> Some (m\<lparr>sm_address := addr\<rparr>, rows)
       | LNE_define_file _ _ _ _ \<Rightarrow> None
       | LNE_set_discriminator _ \<Rightarrow> Some (m, rows)
       | LNE_unknown \<Rightarrow> Some (m, rows)
       | LNS_copy \<Rightarrow> map_option (Pair m) (add_map hdr m rows)
       | LNS_advance_pc a \<Rightarrow> Some (advance_machine a 0 m, rows)
       | LNS_advance_line l \<Rightarrow> Some (advance_machine 0 l m, rows)
       | LNS_set_file f \<Rightarrow> Some (m\<lparr>sm_file := f\<rparr>, rows)
       | LNS_set_column _ \<Rightarrow> Some (m, rows)
       | LNS_negate_stmt \<Rightarrow> Some (m, rows)
       | LNS_set_basic_block \<Rightarrow> Some (m, rows)
       | LNS_const_add_pc a \<Rightarrow> Some (advance_machine a 0 m, rows)
       | LNS_fixed_advance_pc a \<Rightarrow> Some (advance_machine a 0 m, rows)
       | Special a l \<Rightarrow> (let m1 = advance_machine a l m in map_option (Pair m1) (add_map hdr m1 rows))))"

fun build_ops ::
  "ElfDwarfLineEntryHeaderType \<Rightarrow> ElfDwarfLineParsedOpCode list \<Rightarrow> line_build \<Rightarrow> line_build option" where
  "build_ops hdr [] b = Some b"
| "build_ops hdr (op # ops) b = Option.bind (do_build hdr op b) (build_ops hdr ops)"

fun build_entries :: "ElfDwarfLineEntryType list \<Rightarrow> line_build \<Rightarrow> line_build option" where
  "build_entries [] b = Some b"
| "build_entries ((hdr, ops) # entries) (m, rows) =
    Option.bind (build_ops hdr ops (elf_dwarf_line_init_ElfDwarfLineStateMachineRegister hdr m, rows))
      (build_entries entries)"

text \<open>The machine is a local variable: what it holds at first is arbitrary.\<close>

definition file_address_mapping_build ::
  "ElfDwarfLineStateMachineRegisterType \<Rightarrow> ElfDwarfLineEntryType list option \<Rightarrow> KeyValueMappingType list option" where
  "file_address_mapping_build m edl =
    (case edl of None \<Rightarrow> Some [] | Some entries \<Rightarrow> map_option snd (build_entries entries (m, [])))"

section \<open>Look-ups\<close>

fun mapping_get_loop ::
  "AthrillAddrType \<Rightarrow> KeyValueMappingType list \<Rightarrow> ValueFileType option \<Rightarrow> uint32 \<Rightarrow> ValueFileType option" where
  "mapping_get_loop addr [] found m = found"
| "mapping_get_loop addr ((key, v) # kvs) found m =
    (if addr > key then
       if addr - key < m then mapping_get_loop addr kvs (Some v) (addr - key)
       else mapping_get_loop addr kvs found m
     else if addr = key then Some v
     else mapping_get_loop addr kvs found m)"

definition file_address_mapping_get ::
  "KeyValueMappingType list \<Rightarrow> AthrillAddrType \<Rightarrow> Std_ReturnType \<times> ValueFileType option" where
  "file_address_mapping_get kvs addr =
    (case mapping_get_loop addr kvs None 0xFFFFFFFF of
       None \<Rightarrow> (STD_E_NOENT, None)
     | Some v \<Rightarrow> (STD_E_OK, Some v))"

definition same_file :: "string \<Rightarrow> ValueFileType \<Rightarrow> bool" where
  "same_file file v \<longleftrightarrow> length file = length (vf_file v) \<and> strncmp_eq file (vf_file v) (length file)"

definition file_address_mapping_get_addr ::
  "KeyValueMappingType list \<Rightarrow> string \<Rightarrow> uint32 \<Rightarrow> AthrillAddrType option" where
  "file_address_mapping_get_addr kvs file line =
    map_option (\<lambda>i. fst (kvs ! i)) (find_first (\<lambda>(_, v). same_file file v \<and> line = vf_line v) kvs)"

definition file_address_mapping_get_candidate ::
  "KeyValueMappingType list \<Rightarrow> string \<Rightarrow> uint32 \<Rightarrow> ValueFileType option" where
  "file_address_mapping_get_candidate kvs file line =
    map_option (\<lambda>i. snd (kvs ! i)) (find_first (\<lambda>(_, v). same_file file v \<and> line < vf_line v) kvs)"

definition file_address_mapping_get_last :: "KeyValueMappingType list \<Rightarrow> KeyValueMappingType option" where
  "file_address_mapping_get_last kvs = (if kvs = [] then None else Some (last kvs))"

end
