(* ===== verification/DwarfLineLaws.thy ===== *)
theory DwarfLineLaws
  imports
    DwarfLine
begin

text \<open>
  The laws of the line number information. The first sections encode LEB128 numbers, opcodes, headers
  and units as the DWARF standard has them and show that the readers decode them; the next one gives
  the rows of a unit by the registers of the standard and shows that the mapping has these
  rows. The look-up of an address finds the nearest row at or below it.
\<close>

section \<open>LEB128 numbers\<close>

text \<open>The encodings of the DWARF standard.\<close>

fun uleb128 :: "nat \<Rightarrow> uint8 list" where
  "uleb128 v = (if v < 128 then [of_nat v] else of_nat (v mod 128 + 128) # uleb128 (v div 128))"

declare uleb128.simps [simp del]

function sleb128 :: "int \<Rightarrow> uint8 list" where
  "sleb128 k =
    (if - 64 \<le> k \<and> k < 64 then [of_int (k mod 128)]
     else of_int (k mod 128 + 128) # sleb128 (k div 128))"
  by pat_completeness auto
termination
  by (relation "measure (\<lambda>k. nat \<bar>k\<bar>)") auto

declare sleb128.simps [simp del]

lemma nat_disjoint_or:
  assumes "d < 2 ^ k"
  shows "(d :: nat) OR push_bit k m = d + 2 ^ k * m"
proof -
  have "\<not> bit d n \<or> \<not> bit (push_bit k m) n" for n
    using assms bit_take_bit_iff [of k d n] by (auto simp: bit_push_bit_iff take_bit_nat_eq_self)
  then have "d + push_bit k m = d OR push_bit k m" by (rule disjunctive_add)
  then show ?thesis by (simp add: push_bit_eq_mult mult.commute)
qed

lemma int_disjoint_or:
  assumes "0 \<le> d" "d < 2 ^ k"
  shows "(d :: int) OR push_bit k m = d + 2 ^ k * m"
proof -
  have "\<not> bit d n \<or> \<not> bit (push_bit k m) n" for n
    using assms bit_take_bit_iff [of k d n] by (auto simp: bit_push_bit_iff take_bit_int_eq_self)
  then have "d + push_bit k m = d OR push_bit k m" by (rule disjunctive_add)
  then show ?thesis by (simp add: push_bit_eq_mult mult.commute)
qed

lemma uint32_disjoint_or:
  assumes "0 \<le> d" "d < 2 ^ k"
  shows "(word_of_int d :: uint32) OR push_bit k (word_of_int m) = word_of_int (d + 2 ^ k * m)"
proof -
  have "(word_of_int d :: uint32) OR push_bit k (word_of_int m) = word_of_int (d OR push_bit k m)"
    by (simp add: of_int_or_eq flip: push_bit_of_int)
  then show ?thesis by (simp add: int_disjoint_or [OF assms])
qed

lemma and_power_zero_iff: "(b :: 'a::len word) AND 2 ^ n = 0 \<longleftrightarrow> \<not> bit b n"
  by (simp add: and_exp_eq_0_iff_not_bit)

lemma leb_low_bits: "(of_int j :: uint8) AND 0x7f = of_int (j mod 128)"
proof -
  have "(of_int j :: uint8) AND 0x7f = take_bit 7 (of_int j)"
    by (simp add: take_bit_eq_mask mask_eq_exp_minus_1)
  also have "\<dots> = of_int (take_bit 7 j)" by (simp add: take_bit_of_int)
  finally show ?thesis by (simp add: take_bit_eq_mod)
qed

lemma leb_continues: "(of_int j :: uint8) AND 0x80 = 0 \<longleftrightarrow> even (j div 128)"
  using and_power_zero_iff [of "of_int j :: uint8" 7] by (simp add: bit_word_of_int_iff) (simp add: bit_iff_odd)

lemma leb_sign: "(of_int j :: uint8) AND 0x40 = 0 \<longleftrightarrow> even (j div 64)"
  using and_power_zero_iff [of "of_int j :: uint8" 6] by (simp add: bit_word_of_int_iff) (simp add: bit_iff_odd)

lemma leb_ucast: "0 \<le> j \<Longrightarrow> j < 256 \<Longrightarrow> (ucast (of_int j :: uint8) :: uint32) = of_int j"
  by (simp add: unsigned_of_int take_bit_int_eq_self)

lemmas leb_bytes = leb_low_bits leb_continues leb_sign leb_ucast

lemma uleb128_loop_step:
  assumes "i = length pre" "0 \<le> d" "d < 2 ^ (7 * i)"
  shows "uleb128_loop (Suc n) i (pre @ of_int j # rest) (of_int d) =
    (if even (j div 128) then Some (of_int (d + 2 ^ (7 * i) * (j mod 128)), i + 1)
     else uleb128_loop n (i + 1) (pre @ of_int j # rest) (of_int (d + 2 ^ (7 * i) * (j mod 128))))"
  using assms by (simp add: leb_bytes uint32_disjoint_or)

lemma leb_more: "0 \<le> j \<Longrightarrow> j < 128 \<Longrightarrow> (j + 128) div 128 = (1 :: int)"
  by simp

lemma leb_next_bound:
  assumes "0 \<le> d" "d < 2 ^ (7 * i)" "0 \<le> j" "j < 128"
  shows "d + 2 ^ (7 * i) * j < (2 :: int) ^ (7 * (i + 1))"
proof -
  have "d + 2 ^ (7 * i) * j < 2 ^ (7 * i) + 2 ^ (7 * i) * j" using assms by simp
  also have "\<dots> = 2 ^ (7 * i) * (j + 1)" by (simp add: algebra_simps)
  also have "\<dots> \<le> 2 ^ (7 * i) * 128" using assms by (intro mult_left_mono) simp_all
  also have "\<dots> = 2 ^ (7 * (i + 1))" by (simp add: power_add)
  finally show ?thesis .
qed

lemma uleb128_loop_encode:
  assumes "i = length pre" "0 \<le> d" "d < 2 ^ (7 * i)" "v < 2 ^ (7 * (n + 1))"
  shows "uleb128_loop n i (pre @ uleb128 v @ rest) (of_int d) =
    Some (of_int (d + 2 ^ (7 * i) * (int v mod 2 ^ (7 * n))), i + length (uleb128 v))"
  using assms
proof (induction n arbitrary: i pre d v)
  case 0
  then show ?case by (simp add: uleb128.simps)
next
  case (Suc n)
  show ?case
  proof (cases "v < 128")
    case True
    then have "uleb128 v = [of_int (int v)]" by (simp add: uleb128.simps)
    moreover have "int v < 2 ^ (7 * Suc n)"
      using True power_increasing [of 7 "7 * Suc n" "2 :: nat"] by simp
    then have "int v mod 2 ^ (7 * Suc n) = int v" by simp
    ultimately show ?thesis using Suc.prems True by (simp only: append.simps uleb128_loop_step) simp
  next
    case False
    define j where "j = int (v mod 128)"
    have enc: "uleb128 v = of_int (j + 128) # uleb128 (v div 128)"
      using False by (subst uleb128.simps) (simp add: j_def)
    have j: "0 \<le> j" "j < 128" "(j + 128) mod 128 = j" by (simp_all add: j_def)
    have "v div 128 < 2 ^ (7 * (n + 1))"
      using Suc.prems(4) by (simp add: power_add less_mult_imp_div_less)
    then have rec: "uleb128_loop n (i + 1) ((pre @ [of_int (j + 128)]) @ uleb128 (v div 128) @ rest)
        (of_int (d + 2 ^ (7 * i) * j)) =
      Some (of_int (d + 2 ^ (7 * i) * j + 2 ^ (7 * (i + 1)) * (int (v div 128) mod 2 ^ (7 * n))),
            i + 1 + length (uleb128 (v div 128)))"
      using Suc.prems leb_next_bound [OF Suc.prems(2,3) j(1,2)] j(1) by (intro Suc.IH) simp_all
    have val: "j + 2 ^ 7 * (int (v div 128) mod 2 ^ (7 * n)) = int v mod 2 ^ (7 * Suc n)"
      using mod_mult2_eq' [of "int v" 128 "2 ^ (7 * n)"]
      by (simp add: j_def power_add zmod_int zdiv_int)
    then have "d + 2 ^ (7 * i) * j + 2 ^ (7 * (i + 1)) * (int (v div 128) mod 2 ^ (7 * n)) =
        d + 2 ^ (7 * i) * (int v mod 2 ^ (7 * Suc n))"
      by (simp only: val [symmetric]) (simp add: power_add algebra_simps)
    with rec show ?thesis
      using Suc.prems by (simp only: enc append.simps uleb128_loop_step leb_more [OF j(1,2)] j(3)) simp
  qed
qed

lemma uleb128_decode:
  assumes "v < 2 ^ 35"
  shows "elf_dwarf_decode_uleb128 (uleb128 v @ rest) = Some (of_nat (v mod 2 ^ 28), length (uleb128 v))"
proof -
  have "(of_int (int v mod 2 ^ 28) :: uint32) = of_nat (v mod 2 ^ 28)"
    by (metis of_int_of_nat_eq of_nat_mod of_nat_numeral of_nat_power)
  with assms show ?thesis
    using uleb128_loop_encode [of 0 "[]" 0 v 4 rest] by (simp add: elf_dwarf_decode_uleb128_def)
qed

lemma sleb128_loop_step:
  assumes "i = length pre" "0 \<le> d" "d < 2 ^ (7 * i)"
  shows "sleb128_loop (Suc n) i (pre @ of_int j # rest) s (of_int d) =
    (if even (j div 128)
     then map_option (\<lambda>d. (d, i + 1))
            (sleb128_sign (of_int j AND 0x40) (7 * (i + 1)) (of_int (d + 2 ^ (7 * i) * (j mod 128))))
     else sleb128_loop n (i + 1) (pre @ of_int j # rest) (of_int j AND 0x40)
            (of_int (d + 2 ^ (7 * i) * (j mod 128))))"
  using assms by (simp add: leb_low_bits leb_continues leb_ucast uint32_disjoint_or)

lemma sleb128_sign_extend:
  assumes "0 \<le> d" "d < 2 ^ (7 * i)" "- 64 \<le> k" "k < 64" "k < 0 \<longrightarrow> i < 4"
  shows "sleb128_sign (of_int (k mod 128) AND 0x40) (7 * (i + 1)) (of_int (d + 2 ^ (7 * i) * (k mod 128))) =
    Some (of_int (d + 2 ^ (7 * i) * k))"
proof (cases "k < 0")
  case True
  then have k: "0 \<le> k + 128" "k + 128 < 128" "(k + 128) div 64 = 1" using assms(3) by linarith+
  have m: "k mod 128 = k + 128"
    unfolding mod_add_self2 [of k 128, symmetric] by (rule mod_pos_pos_trivial [OF k(1,2)])
  have sgn: "(of_int (k mod 128) :: uint8) AND 0x40 \<noteq> 0"
    unfolding m leb_sign k(3) by simp
  let ?D = "d + 2 ^ (7 * i) * (k + 128)"
  have "0 \<le> ?D" "?D < 2 ^ (7 * (i + 1))"
    using leb_next_bound [OF assms(1,2), of "k + 128"] assms(1,3) True by simp_all
  then have "(of_int ?D :: uint32) OR push_bit (7 * (i + 1)) (word_of_int (- 1)) =
      of_int (?D + 2 ^ (7 * (i + 1)) * (- 1))"
    by (rule uint32_disjoint_or)
  moreover have "?D + 2 ^ (7 * (i + 1)) * (- 1) = d + 2 ^ (7 * i) * k"
    by (simp add: power_add algebra_simps)
  moreover have "push_bit (7 * (i + 1)) (word_of_int (- 1) :: uint32) = - push_bit (7 * (i + 1)) 1"
    by (simp add: push_bit_eq_mult)
  ultimately show ?thesis
    using True assms(5) sgn by (simp only: sleb128_sign_def m) simp
next
  case False
  then have "k mod 128 = k" "(of_int k :: uint8) AND 0x40 = 0" using assms(4) by (simp_all add: leb_sign)
  then show ?thesis by (simp add: sleb128_sign_def)
qed

definition sleb_range :: "nat \<Rightarrow> int \<Rightarrow> bool" where
  "sleb_range i k \<longleftrightarrow> (if i \<le> 3 then - (2 ^ (27 - 7 * i)) else 0) \<le> k \<and> k < 2 ^ (31 - 7 * i)"

lemma sleb_range_next:
  assumes "sleb_range i k" "i < 5" "\<not> (- 64 \<le> k \<and> k < 64)"
  shows "i < 4" "sleb_range (i + 1) (k div 128)"
proof -
  consider "i = 0" | "i = 1" | "i = 2" | "i = 3" | "i = 4" using assms(2) by linarith
  then have "i < 4 \<and> sleb_range (i + 1) (k div 128)"
    using assms(1,3) by cases (auto simp: sleb_range_def)
  then show "i < 4" "sleb_range (i + 1) (k div 128)" by simp_all
qed

lemma sleb_range_last: "sleb_range i k \<Longrightarrow> k < 0 \<longrightarrow> i < 4"
  by (auto simp: sleb_range_def split: if_splits)

lemma sleb128_loop_encode:
  assumes "i = length pre" "0 \<le> d" "d < 2 ^ (7 * i)" "i + n = 5" "0 < n" "sleb_range i k"
  shows "sleb128_loop n i (pre @ sleb128 k @ rest) s (of_int d) =
    Some (of_int (d + 2 ^ (7 * i) * k), i + length (sleb128 k))"
  using assms
proof (induction n arbitrary: i pre d k s)
  case 0
  then show ?case by simp
next
  case (Suc n)
  show ?case
  proof (cases "- 64 \<le> k \<and> k < 64")
    case True
    then have enc: "sleb128 k = [of_int (k mod 128)]" by (simp add: sleb128.simps)
    have "k mod 128 div 128 = 0" "k mod 128 mod 128 = k mod 128" by simp_all
    with True Suc.prems show ?thesis
      using sleb128_sign_extend [OF Suc.prems(2,3), of k] sleb_range_last [OF Suc.prems(6)]
      by (simp only: enc append.simps sleb128_loop_step) simp
  next
    case False
    define j where "j = k mod 128"
    have enc: "sleb128 k = of_int (j + 128) # sleb128 (k div 128)"
      using False by (subst sleb128.simps) (simp add: j_def)
    have j: "0 \<le> j" "j < 128" "(j + 128) mod 128 = j" by (simp_all add: j_def)
    note nx = sleb_range_next [OF Suc.prems(6) _ False]
    have "sleb128_loop n (i + 1) ((pre @ [of_int (j + 128)]) @ sleb128 (k div 128) @ rest)
        (of_int (j + 128) AND 0x40) (of_int (d + 2 ^ (7 * i) * j)) =
      Some (of_int (d + 2 ^ (7 * i) * j + 2 ^ (7 * (i + 1)) * (k div 128)), i + 1 + length (sleb128 (k div 128)))"
      using Suc.prems leb_next_bound [OF Suc.prems(2,3) j(1,2)] j(1) nx by (intro Suc.IH) simp_all
    moreover have "j + 128 * (k div 128) = k" by (simp add: j_def)
    then have "2 ^ (7 * i) * (j + 128 * (k div 128)) = 2 ^ (7 * i) * k" by simp
    then have "d + 2 ^ (7 * i) * j + 2 ^ (7 * (i + 1)) * (k div 128) = d + 2 ^ (7 * i) * k"
      by (simp add: power_add algebra_simps)
    ultimately show ?thesis
      using Suc.prems by (simp only: enc append.simps sleb128_loop_step leb_more [OF j(1,2)] j(3)) simp
  qed
qed

lemma sleb128_decode:
  assumes "- (2 ^ 27) \<le> k" "k < 2 ^ 31"
  shows "elf_dwarf_decode_sleb128 (sleb128 k @ rest) = Some (of_int k, length (sleb128 k))"
  using sleb128_loop_encode [of 0 "[]" 0 5 k rest 0] assms
  by (simp add: elf_dwarf_decode_sleb128_def sleb_range_def)

section \<open>Statement programs of the standard\<close>

text \<open>
  The opcodes of a statement program, their bytes and their meaning, as the DWARF standard has
  them for a machine whose instructions are not bundled. A special opcode is given by its adjusted
  number.
\<close>

datatype line_op =
    Op_special nat
  | Op_copy
  | Op_advance_pc nat
  | Op_advance_line int
  | Op_set_file nat
  | Op_set_column nat
  | Op_negate_stmt
  | Op_set_basic_block
  | Op_const_add_pc
  | Op_fixed_advance_pc uint16
  | Op_end_sequence
  | Op_set_address uint32
  | Op_set_discriminator nat

fun op_bytes :: "ElfDwarfLineEntryHeaderType \<Rightarrow> line_op \<Rightarrow> uint8 list" where
  "op_bytes hdr (Op_special a) = [lh_opcode_base hdr + of_nat a]"
| "op_bytes hdr Op_copy = [1]"
| "op_bytes hdr (Op_advance_pc n) = 2 # uleb128 n"
| "op_bytes hdr (Op_advance_line k) = 3 # sleb128 k"
| "op_bytes hdr (Op_set_file n) = 4 # uleb128 n"
| "op_bytes hdr (Op_set_column n) = 5 # uleb128 n"
| "op_bytes hdr Op_negate_stmt = [6]"
| "op_bytes hdr Op_set_basic_block = [7]"
| "op_bytes hdr Op_const_add_pc = [8]"
| "op_bytes hdr (Op_fixed_advance_pc w) = 9 # le_encode 2 w"
| "op_bytes hdr Op_end_sequence = [0, 1, 1]"
| "op_bytes hdr (Op_set_address w) = 0 # 5 # 2 # le_encode 4 w"
| "op_bytes hdr (Op_set_discriminator n) = 0 # of_nat (1 + length (uleb128 n)) # 4 # uleb128 n"

fun op_valid :: "ElfDwarfLineEntryHeaderType \<Rightarrow> line_op \<Rightarrow> bool" where
  "op_valid hdr (Op_special a) = (unat (lh_opcode_base hdr) + a < 256)"
| "op_valid hdr (Op_advance_pc n) = (n < 2 ^ 28)"
| "op_valid hdr (Op_advance_line k) = (- (2 ^ 27) \<le> k \<and> k < 2 ^ 31)"
| "op_valid hdr (Op_set_file n) = (n < 2 ^ 28)"
| "op_valid hdr (Op_set_column n) = (n < 2 ^ 28)"
| "op_valid hdr (Op_set_discriminator n) = (n < 2 ^ 28)"
| "op_valid hdr _ = True"

text \<open>The registers address, file and line, and what an opcode does to them.\<close>

type_synonym line_regs = "uint32 \<times> uint32 \<times> uint32"

definition special_address :: "ElfDwarfLineEntryHeaderType \<Rightarrow> nat \<Rightarrow> nat" where
  "special_address hdr a = a div unat (lh_line_range hdr) * unat (lh_minimum_instruction_length hdr)"

definition special_line :: "ElfDwarfLineEntryHeaderType \<Rightarrow> nat \<Rightarrow> int" where
  "special_line hdr a = sint (lh_line_base hdr) + int (a mod unat (lh_line_range hdr))"

fun op_step :: "ElfDwarfLineEntryHeaderType \<Rightarrow> line_op \<Rightarrow> line_regs \<Rightarrow> line_regs" where
  "op_step hdr (Op_special a) (addr, file, line) =
    (addr + of_nat (special_address hdr a), file, line + of_int (special_line hdr a))"
| "op_step hdr (Op_advance_pc n) (addr, file, line) =
    (addr + of_nat (n * unat (lh_minimum_instruction_length hdr)), file, line)"
| "op_step hdr (Op_advance_line k) (addr, file, line) = (addr, file, line + of_int k)"
| "op_step hdr (Op_set_file n) (addr, file, line) = (addr, of_nat n, line)"
| "op_step hdr Op_const_add_pc (addr, file, line) =
    (addr + of_nat (special_address hdr (255 - unat (lh_opcode_base hdr))), file, line)"
| "op_step hdr (Op_fixed_advance_pc w) (addr, file, line) =
    (addr + of_nat (unat w * unat (lh_minimum_instruction_length hdr)), file, line)"
| "op_step hdr Op_end_sequence _ = (0, 1, 1)"
| "op_step hdr (Op_set_address w) (_, file, line) = (w, file, line)"
| "op_step hdr _ regs = regs"

fun op_emits :: "line_op \<Rightarrow> bool" where
  "op_emits (Op_special _) = True"
| "op_emits Op_copy = True"
| "op_emits _ = False"

fun line_rows :: "ElfDwarfLineEntryHeaderType \<Rightarrow> line_op list \<Rightarrow> line_regs \<Rightarrow> line_regs list" where
  "line_rows hdr [] regs = []"
| "line_rows hdr (op # ops) regs =
    (let regs1 = op_step hdr op regs in (if op_emits op then [regs1] else []) @ line_rows hdr ops regs1)"

text \<open>The opcode that the reader makes of it.\<close>

fun op_parsed :: "ElfDwarfLineEntryHeaderType \<Rightarrow> line_op \<Rightarrow> ElfDwarfLineParsedOpCode" where
  "op_parsed hdr (Op_special a) = Special (of_nat (special_address hdr a)) (of_int (special_line hdr a))"
| "op_parsed hdr Op_copy = LNS_copy"
| "op_parsed hdr (Op_advance_pc n) = LNS_advance_pc (of_nat (n * unat (lh_minimum_instruction_length hdr)))"
| "op_parsed hdr (Op_advance_line k) = LNS_advance_line (of_int k)"
| "op_parsed hdr (Op_set_file n) = LNS_set_file (of_nat n)"
| "op_parsed hdr (Op_set_column n) = LNS_set_column (of_nat n)"
| "op_parsed hdr Op_negate_stmt = LNS_negate_stmt"
| "op_parsed hdr Op_set_basic_block = LNS_set_basic_block"
| "op_parsed hdr Op_const_add_pc =
    LNS_const_add_pc (of_nat (special_address hdr (255 - unat (lh_opcode_base hdr))))"
| "op_parsed hdr (Op_fixed_advance_pc w) =
    LNS_fixed_advance_pc (of_nat (unat w * unat (lh_minimum_instruction_length hdr)))"
| "op_parsed hdr Op_end_sequence = LNE_end_sequence"
| "op_parsed hdr (Op_set_address w) = LNE_set_address w"
| "op_parsed hdr (Op_set_discriminator n) = LNE_set_discriminator (of_nat n)"

lemma uleb128_decode_28:
  "v < 2 ^ 28 \<Longrightarrow> elf_dwarf_decode_uleb128 (uleb128 v @ rest) = Some (of_nat v, length (uleb128 v))"
  using uleb128_decode [of v rest] by simp

lemma uleb128_length_28: "v < 2 ^ 28 \<Longrightarrow> length (uleb128 v) \<le> 4"
proof -
  have gen: "v < 2 ^ (7 * Suc n) \<Longrightarrow> length (uleb128 v) \<le> Suc n" for n v
  proof (induction n arbitrary: v)
    case 0
    then show ?case by (simp add: uleb128.simps)
  next
    case (Suc n)
    then have "v div 128 < 2 ^ (7 * Suc n)" by (simp add: power_add less_mult_imp_div_less)
    with Suc.IH [of "v div 128"] show ?case by (subst uleb128.simps) simp
  qed
  then show "v < 2 ^ 28 \<Longrightarrow> length (uleb128 v) \<le> 4" using gen [of v 3] by simp
qed

lemma le_decode_2: "le_decode (le_encode 2 w) = (w :: uint16)"
  by (rule le_decode_encode_full) simp

lemma le_decode_4: "le_decode (le_encode 4 w) = (w :: uint32)"
  by (rule le_decode_encode_full) simp

lemma elf_get_data16_encode: "elf_get_data16 (le_encode 2 w @ rest) 0 = Some w"
  by (simp add: elf_get_data16_def buf_read_def le_decode_2)

lemma elf_get_data32_encode: "elf_get_data32 (le_encode 4 w @ rest) 0 = Some w"
  by (simp add: elf_get_data32_def buf_read_def le_decode_4)

lemma special_parse:
  assumes "10 \<le> unat (lh_opcode_base hdr)" "lh_line_range hdr \<noteq> 0" "unat (lh_opcode_base hdr) + a < 256"
  shows "parse_opcode hdr ((lh_opcode_base hdr + of_nat a) # rest) =
    Some (Special (of_nat (special_address hdr a)) (of_int (special_line hdr a)), 1)"
proof -
  let ?b = "lh_opcode_base hdr + of_nat a"
  have b: "unat ?b = unat (lh_opcode_base hdr) + a"
    using assms(3) by (simp add: unat_word_ariths unat_of_nat)
  have r: "0 < unat (lh_line_range hdr)" using assms(2) by (simp add: unat_gt_0)
  have adj: "uint ?b - uint (lh_opcode_base hdr) = int a"
    by (simp only: uint_nat b of_nat_add add_diff_cancel_left')
  have nz: "\<not> ?b = 0" "\<not> ?b \<le> 9"
    using assms(1) b by (auto simp: word_le_nat_alt simp flip: unat_eq_zero)
  define u where "u = unat (lh_line_range hdr)"
  have u: "uint (lh_line_range hdr) = int u" by (simp add: u_def)
  have dv: "int a sdiv uint (lh_line_range hdr) = int (a div unat (lh_line_range hdr))"
    "int a smod uint (lh_line_range hdr) = int (a mod unat (lh_line_range hdr))"
    using r unfolding u u_def [symmetric]
    by (simp_all add: signed_divide_int_def signed_modulo_int_def zdiv_int zmod_int sgn_if)
  have "(ucast (lh_minimum_instruction_length hdr) :: uint32) = of_nat (unat (lh_minimum_instruction_length hdr))"
    by simp
  with nz assms(2) show ?thesis
    by (simp add: parse_opcode_def set_SpecialOp_def Let_def unsigned_eq_0_iff adj dv special_address_def special_line_def)
qed

lemma const_add_parse:
  assumes "lh_line_range hdr \<noteq> 0"
  shows "set_StandardOp hdr 8 rest =
    Some (LNS_const_add_pc (of_nat (special_address hdr (255 - unat (lh_opcode_base hdr)))), 1)"
proof -
  let ?b = "lh_opcode_base hdr"
  have b: "unat (ucast ?b :: uint32) = unat ?b" "unat (ucast (lh_line_range hdr) :: uint32) = unat (lh_line_range hdr)"
    by (simp_all add: unat_ucast_up)
  have "unat ?b \<le> 255" using unsigned_less [of ?b, where ?'a = nat] by simp
  then have "unat (255 - ucast ?b :: uint32) = 255 - unat ?b"
    by (subst unat_sub) (simp_all add: word_le_nat_alt b)
  then have "(255 - ucast ?b) div ucast (lh_line_range hdr) =
      (of_nat ((255 - unat ?b) div unat (lh_line_range hdr)) :: uint32)"
    by (simp add: word_arith_nat_div b)
  with assms show ?thesis
    by (simp add: set_StandardOp_def special_address_def Let_def)
qed

lemma parse_op_bytes:
  assumes "10 \<le> unat (lh_opcode_base hdr)" "lh_line_range hdr \<noteq> 0" "op_valid hdr op"
  shows "parse_opcode hdr (op_bytes hdr op @ rest) = Some (op_parsed hdr op, length (op_bytes hdr op))"
proof (cases op)
  case (Op_special a)
  then show ?thesis using special_parse [OF assms(1,2)] assms(3) by simp
next
  case (Op_advance_line k)
  then show ?thesis using sleb128_decode [of k rest] assms(3) by (simp add: parse_opcode_def set_StandardOp_def)
next
  case Op_const_add_pc
  then show ?thesis using const_add_parse [OF assms(2)] by (simp add: parse_opcode_def)
next
  case (Op_fixed_advance_pc w)
  then show ?thesis using elf_get_data16_encode [of w rest]
    by (simp add: parse_opcode_def set_StandardOp_def)
next
  case (Op_set_address w)
  then show ?thesis using elf_get_data32_encode [of w rest]
    by (simp add: parse_opcode_def set_ExtendedOp_def)
next
  case (Op_set_discriminator n)
  have "unat (of_nat (1 + length (uleb128 n)) :: uint8) = 1 + length (uleb128 n)"
    using uleb128_length_28 [of n] assms(3) Op_set_discriminator by (simp add: unat_of_nat take_bit_nat_eq_self del: of_nat_Suc of_nat_add)
  then show ?thesis using uleb128_decode_28 [of n rest] assms(3) Op_set_discriminator
    by (simp add: parse_opcode_def set_ExtendedOp_def del: of_nat_Suc)
qed (use assms(3) uleb128_decode_28 [of _ rest] in
    \<open>simp_all add: parse_opcode_def set_StandardOp_def set_ExtendedOp_def\<close>)

definition ops_bytes :: "ElfDwarfLineEntryHeaderType \<Rightarrow> line_op list \<Rightarrow> uint8 list" where
  "ops_bytes hdr ops = concat (map (op_bytes hdr) ops)"

lemma op_bytes_nonempty: "op_bytes hdr op \<noteq> []"
  by (cases op) simp_all

lemma line_ops_done: "unat (lh_total_length hdr + 4) \<le> off \<Longrightarrow> line_ops hdr d off acc = Some (acc, off)"
  by (subst line_ops.simps) simp

lemma line_ops_bytes:
  assumes "10 \<le> unat (lh_opcode_base hdr)" "lh_line_range hdr \<noteq> 0" "\<forall>op\<in>set ops. op_valid hdr op"
    "unat (lh_total_length hdr + 4) = length pre + length (ops_bytes hdr ops)"
  shows "line_ops hdr (pre @ ops_bytes hdr ops @ rest) (length pre) acc =
    Some (acc @ map (op_parsed hdr) ops, length pre + length (ops_bytes hdr ops))"
  using assms(3,4)
proof (induction ops arbitrary: pre acc)
  case Nil
  then show ?case by (simp add: ops_bytes_def line_ops_done)
next
  case (Cons op ops)
  let ?b = "op_bytes hdr op"
  have ob: "ops_bytes hdr (op # ops) = ?b @ ops_bytes hdr ops" by (simp add: ops_bytes_def)
  have "line_ops hdr ((pre @ ?b) @ ops_bytes hdr ops @ rest) (length (pre @ ?b)) (acc @ [op_parsed hdr op]) =
      Some ((acc @ [op_parsed hdr op]) @ map (op_parsed hdr) ops, length (pre @ ?b) + length (ops_bytes hdr ops))"
    using Cons.prems by (intro Cons.IH) (simp_all add: ob)
  moreover have "length pre < unat (lh_total_length hdr + 4)"
    using Cons.prems(2) op_bytes_nonempty [of hdr op] by (simp add: ob)
  ultimately show ?case
    using parse_op_bytes [OF assms(1,2), of op "ops_bytes hdr ops @ rest"] Cons.prems(1)
    by (subst line_ops.simps) (simp add: ob)
qed

section \<open>The bytes of a header\<close>

definition str_bytes :: "string \<Rightarrow> uint8 list" where
  "str_bytes s = map of_char s @ [0]"

definition name_valid :: "string \<Rightarrow> bool" where
  "name_valid s \<longleftrightarrow> s \<noteq> [] \<and> NUL \<notin> set s"

lemma char_byte [simp]: "unat (of_char c :: uint8) = of_char c"
proof -
  have "unat (of_nat (of_char c) :: uint8) = of_char c" by (subst unat_of_nat) simp
  then show ?thesis by (simp add: of_nat_of_char)
qed

lemma char_byte_zero: "(of_char c :: uint8) = 0 \<longleftrightarrow> c = NUL"
proof -
  have "(of_char c :: uint8) = 0 \<longleftrightarrow> of_char c = (0 :: nat)"
    by (simp add: flip: char_byte) (simp add: unsigned_eq_0_iff del: char_byte)
  also have "\<dots> \<longleftrightarrow> of_char c = (of_char NUL :: nat)" by (simp add: NUL_def)
  finally show ?thesis by (simp only: of_char_eq_iff)
qed

lemma string_at_bytes:
  assumes "NUL \<notin> set s"
  shows "string_at (pre @ str_bytes s @ rest) (length pre) = Some s"
proof -
  have "(of_char c :: uint8) \<noteq> 0" if "c \<in> set s" for c
    using assms that by (auto simp: char_byte_zero)
  then have "takeWhile (\<lambda>b. b \<noteq> 0) (map of_char s @ 0 # rest) =
      (map of_char s :: uint8 list)"
    by (simp add: takeWhile_append)
  then show ?thesis by (simp add: string_at_def str_bytes_def char_byte comp_def)
qed

definition file_bytes :: "ElfDwarfLineEntryHeaderFileType \<Rightarrow> uint8 list" where
  "file_bytes f =
    str_bytes (hf_filename f) @ uleb128 (unat (hf_dir f)) @ uleb128 (unat (hf_time f)) @ uleb128 (unat (hf_size f))"

definition file_valid :: "ElfDwarfLineEntryHeaderFileType \<Rightarrow> bool" where
  "file_valid f \<longleftrightarrow> name_valid (hf_filename f)
    \<and> unat (hf_dir f) < 2 ^ 28 \<and> unat (hf_time f) < 2 ^ 28 \<and> unat (hf_size f) < 2 ^ 28"

lemma str_bytes_length [simp]: "length (str_bytes s) = length s + 1"
  by (simp add: str_bytes_def)

lemma line_directories_bytes:
  assumes "\<forall>s\<in>set dirs. name_valid s"
  shows "line_directories (pre @ concat (map str_bytes dirs) @ 0 # rest) (length pre) acc =
    Some (acc @ dirs, length pre + length (concat (map str_bytes dirs)) + 1)"
  using assms
proof (induction dirs arbitrary: pre acc)
  case Nil
  show ?case using string_at_bytes [of "[]" pre rest]
    by (subst line_directories.simps) (simp add: str_bytes_def)
next
  case (Cons s dirs)
  have "line_directories ((pre @ str_bytes s) @ concat (map str_bytes dirs) @ 0 # rest) (length (pre @ str_bytes s)) (acc @ [s]) =
      Some ((acc @ [s]) @ dirs, length (pre @ str_bytes s) + length (concat (map str_bytes dirs)) + 1)"
    using Cons.prems by (intro Cons.IH) simp
  then show ?case
    using Cons.prems string_at_bytes [of s pre "concat (map str_bytes dirs) @ 0 # rest"]
    by (subst line_directories.simps) (simp add: name_valid_def)
qed

lemma line_file_name_bytes:
  assumes "file_valid f" "off = length pre + length (hf_filename f) + 1"
  shows "line_file_name (pre @ file_bytes f @ rest) off (hf_filename f) = Some (f, length pre + length (file_bytes f))"
proof -
  have d: "drop off (pre @ file_bytes f @ rest) =
      uleb128 (unat (hf_dir f)) @ uleb128 (unat (hf_time f)) @ uleb128 (unat (hf_size f)) @ rest"
    by (simp add: assms(2) file_bytes_def str_bytes_def)
  have d2: "drop (off + n) xs = drop n (drop off xs)" for n and xs :: "uint8 list"
    by (simp add: add.commute)
  have d3: "drop (off + n + m) xs = drop m (drop n (drop off xs))" for n m and xs :: "uint8 list"
    by (simp add: ac_simps)
  show ?thesis
    using assms by (simp only: line_file_name_def d2 d3 d)
      (simp add: uleb128_decode_28 file_valid_def file_bytes_def)
qed

lemma line_file_names_bytes:
  assumes "\<forall>f\<in>set files. file_valid f"
  shows "line_file_names (pre @ concat (map file_bytes files) @ 0 # rest) (length pre) acc =
    Some (acc @ files, length pre + length (concat (map file_bytes files)) + 1)"
  using assms
proof (induction files arbitrary: pre acc)
  case Nil
  show ?case using string_at_bytes [of "[]" pre rest]
    by (subst line_file_names.simps) (simp add: str_bytes_def)
next
  case (Cons f files)
  let ?rest = "concat (map file_bytes files) @ 0 # rest"
  have "line_file_names ((pre @ file_bytes f) @ ?rest) (length (pre @ file_bytes f)) (acc @ [f]) =
      Some ((acc @ [f]) @ files, length (pre @ file_bytes f) + length (concat (map file_bytes files)) + 1)"
    using Cons.prems by (intro Cons.IH) simp
  moreover have "string_at (pre @ file_bytes f @ ?rest) (length pre) = Some (hf_filename f)"
    using Cons.prems string_at_bytes [of "hf_filename f" pre] by (simp add: file_bytes_def file_valid_def name_valid_def)
  ultimately show ?case
    using Cons.prems line_file_name_bytes [of f _ pre ?rest]
    by (subst line_file_names.simps) (simp add: file_valid_def name_valid_def)
qed

definition header_fixed :: "ElfDwarfLineEntryHeaderType \<Rightarrow> uint8 list" where
  "header_fixed hdr =
    le_encode 4 (lh_total_length hdr) @ le_encode 2 (lh_version hdr) @ le_encode 4 (lh_prologue_length hdr)
    @ [lh_minimum_instruction_length hdr]
    @ (if lh_version hdr = ELF_DWARF_VERSION_4 then [lh_maximum_operations_per_instruction hdr] else [])
    @ [lh_default_is_stmt hdr, lh_line_base hdr, lh_line_range hdr, lh_opcode_base hdr]"

definition header_bytes :: "ElfDwarfLineEntryHeaderType \<Rightarrow> uint8 list" where
  "header_bytes hdr =
    header_fixed hdr @ take (unat (lh_opcode_base hdr) - 1) (lh_standard_opcode_lengths hdr)
    @ concat (map str_bytes (lh_include_directories hdr)) @ [0]
    @ concat (map file_bytes (lh_file_names hdr)) @ [0]"

definition header_valid :: "ElfDwarfLineEntryHeaderType \<Rightarrow> bool" where
  "header_valid hdr \<longleftrightarrow>
    10 \<le> unat (lh_opcode_base hdr) \<and> lh_line_range hdr \<noteq> 0
    \<and> (lh_version hdr = ELF_DWARF_VERSION_4 \<or> lh_maximum_operations_per_instruction hdr = 0)
    \<and> length (lh_standard_opcode_lengths hdr) = 256
    \<and> drop (unat (lh_opcode_base hdr) - 1) (lh_standard_opcode_lengths hdr) = replicate (257 - unat (lh_opcode_base hdr)) 0
    \<and> (\<forall>s\<in>set (lh_include_directories hdr). name_valid s) \<and> (\<forall>f\<in>set (lh_file_names hdr). file_valid f)"

lemma elf_get_data16_at: "n = length pre \<Longrightarrow> elf_get_data16 (pre @ le_encode 2 w @ rest) n = Some w"
  by (simp add: elf_get_data16_def buf_read_def le_decode_2)

lemma elf_get_data32_at: "n = length pre \<Longrightarrow> elf_get_data32 (pre @ le_encode 4 w @ rest) n = Some w"
  by (simp add: elf_get_data32_def buf_read_def le_decode_4)

lemma elf_get_data8_at: "n = length pre \<Longrightarrow> elf_get_data8 (pre @ b # rest) n = Some b"
  by (simp add: elf_get_data8_def)

lemma header_fixed_length:
  "length (header_fixed hdr) = (if lh_version hdr = ELF_DWARF_VERSION_4 then 12 else 11) + 4"
  by (simp add: header_fixed_def)

lemma header_fixed_read:
  fixes hdr rest
  defines "d \<equiv> header_fixed hdr @ rest"
    and "off \<equiv> (if lh_version hdr = ELF_DWARF_VERSION_4 then 12 else 11)"
  shows "elf_get_data32 d 0 = Some (lh_total_length hdr)"
    and "elf_get_data16 d 4 = Some (lh_version hdr)"
    and "elf_get_data32 d 6 = Some (lh_prologue_length hdr)"
    and "elf_get_data8 d 10 = Some (lh_minimum_instruction_length hdr)"
    and "lh_version hdr = ELF_DWARF_VERSION_4 \<Longrightarrow> elf_get_data8 d 11 = Some (lh_maximum_operations_per_instruction hdr)"
    and "elf_get_data8 d off = Some (lh_default_is_stmt hdr)"
    and "elf_get_data8 d (off + 1) = Some (lh_line_base hdr)"
    and "elf_get_data8 d (off + 2) = Some (lh_line_range hdr)"
    and "elf_get_data8 d (off + 3) = Some (lh_opcode_base hdr)"
proof -
  show "elf_get_data32 d 0 = Some (lh_total_length hdr)"
    using elf_get_data32_at [of 0 "[]"] by (simp add: d_def header_fixed_def)
  show "elf_get_data16 d 4 = Some (lh_version hdr)"
    using elf_get_data16_at [of 4 "le_encode 4 (lh_total_length hdr)"] by (simp add: d_def header_fixed_def)
  show "elf_get_data32 d 6 = Some (lh_prologue_length hdr)"
    using elf_get_data32_at [of 6 "le_encode 4 (lh_total_length hdr) @ le_encode 2 (lh_version hdr)"]
    by (simp add: d_def header_fixed_def)
qed (simp_all add: d_def off_def header_fixed_def elf_get_data8_def nth_append)

lemma parse_entry_header_bytes:
  assumes "header_valid hdr"
  shows "parse_entry_header (header_bytes hdr @ rest) = Some (hdr, length (header_bytes hdr))"
proof -
  let ?n = "unat (lh_opcode_base hdr) - 1" and ?fix = "header_fixed hdr"
  let ?ls = "take ?n (lh_standard_opcode_lengths hdr)"
  let ?dirs = "concat (map str_bytes (lh_include_directories hdr))"
  let ?files = "concat (map file_bytes (lh_file_names hdr))"
  define d where "d = ?fix @ ?ls @ ?dirs @ 0 # ?files @ 0 # rest"
  have d: "header_bytes hdr @ rest = d" by (simp add: header_bytes_def d_def)
  have n: "?n < 256" using unsigned_less [of "lh_opcode_base hdr", where ?'a = nat] by simp
  then have ls: "length ?ls = ?n" using assms by (simp add: header_valid_def)
  then have len: "buf_read (length ?fix) ?n d = Some ?ls" by (simp add: d_def buf_read_def)
  have dirs: "line_directories d (length ?fix + ?n) [] =
      Some (lh_include_directories hdr, length ?fix + ?n + length ?dirs + 1)"
    using line_directories_bytes [of "lh_include_directories hdr" "?fix @ ?ls"] assms ls
    by (simp add: d_def header_valid_def)
  have files: "line_file_names d (length ?fix + ?n + length ?dirs + 1) [] =
      Some (lh_file_names hdr, length (header_bytes hdr))"
    using line_file_names_bytes [of "lh_file_names hdr" "?fix @ ?ls @ ?dirs @ [0]" rest "[]"] assms ls
    by (simp add: d_def header_valid_def header_bytes_def add.assoc)
  have lens: "?ls @ replicate (256 - length ?ls) 0 = lh_standard_opcode_lengths hdr"
    using assms n append_take_drop_id [of ?n "lh_standard_opcode_lengths hdr"]
    by (simp add: header_valid_def ls)
  note rd = header_fixed_read [of hdr "?ls @ ?dirs @ 0 # ?files @ 0 # rest", folded d_def]
  show ?thesis
  proof (cases "lh_version hdr = ELF_DWARF_VERSION_4")
    case True
    then show ?thesis
      using rd len dirs files lens by (simp add: d parse_entry_header_def header_fixed_length)
  next
    case False
    then have "lh_maximum_operations_per_instruction hdr = 0" using assms by (simp add: header_valid_def)
    with False show ?thesis
      using rd len dirs files lens by (simp add: d parse_entry_header_def header_fixed_length)
  qed
qed

section \<open>Rows of the line table\<close>

definition row_file :: "ElfDwarfLineEntryHeaderType \<Rightarrow> uint32 \<Rightarrow> ElfDwarfLineEntryHeaderFileType" where
  "row_file hdr file = lh_file_names hdr ! (unat file - 1)"

definition row_valid :: "ElfDwarfLineEntryHeaderType \<Rightarrow> line_regs \<Rightarrow> bool" where
  "row_valid hdr regs = (case regs of (_, file, _) \<Rightarrow>
    0 < unat file \<and> unat file \<le> length (lh_file_names hdr)
    \<and> unat (hf_dir (row_file hdr file)) \<le> length (lh_include_directories hdr))"

definition source_row :: "ElfDwarfLineEntryHeaderType \<Rightarrow> line_regs \<Rightarrow> KeyValueMappingType" where
  "source_row hdr regs = (case regs of (addr, file, line) \<Rightarrow>
    let f = row_file hdr file
    in (addr, \<lparr>vf_dir = (if hf_dir f = 0 then ''.'' else lh_include_directories hdr ! (unat (hf_dir f) - 1)),
               vf_file = hf_filename f, vf_line = line\<rparr>))"

type_synonym line_unit = "ElfDwarfLineEntryHeaderType \<times> line_op list"

fun unit_bytes :: "line_unit \<Rightarrow> uint8 list" where
  "unit_bytes (hdr, ops) = header_bytes hdr @ ops_bytes hdr ops"

fun unit_rows :: "line_unit \<Rightarrow> KeyValueMappingType list" where
  "unit_rows (hdr, ops) = map (source_row hdr) (line_rows hdr ops (0, 1, 1))"

fun unit_valid :: "line_unit \<Rightarrow> bool" where
  "unit_valid (hdr, ops) \<longleftrightarrow>
    header_valid hdr \<and> (\<forall>op\<in>set ops. op_valid hdr op)
    \<and> unat (lh_total_length hdr + 4) = length (unit_bytes (hdr, ops))
    \<and> (\<forall>regs\<in>set (line_rows hdr ops (0, 1, 1)). row_valid hdr regs)"

definition regs_of :: "ElfDwarfLineStateMachineRegisterType \<Rightarrow> line_regs" where
  "regs_of m = (sm_address m, sm_file m, sm_line m)"

lemma index_from_one:
  fixes w :: "'a::len word"
  assumes "0 < unat w" "unat w \<le> length xs"
  shows "index_at xs (unat (w - 1)) = Some (xs ! (unat w - 1))"
proof -
  have "unat (w - 1) = unat w - 1" using assms(1) by (simp add: unat_minus_one unat_gt_0)
  moreover have "unat w - 1 < length xs" using assms by linarith
  ultimately show ?thesis by simp
qed

lemma add_map_row:
  assumes "row_valid hdr (regs_of m)"
  shows "add_map hdr m rows = Some (rows @ [source_row hdr (regs_of m)])"
proof -
  let ?f = "row_file hdr (sm_file m)"
  have fl: "0 < unat (sm_file m)" "unat (sm_file m) \<le> length (lh_file_names hdr)"
    and dir: "unat (hf_dir ?f) \<le> length (lh_include_directories hdr)"
    using assms by (simp_all add: row_valid_def regs_of_def)
  have f: "index_at (lh_file_names hdr) (unat (sm_file m - 1)) = Some ?f"
    using index_from_one [OF fl] by (simp add: row_file_def)
  show ?thesis
  proof (cases "hf_dir ?f = 0")
    case True
    then show ?thesis by (simp add: add_map_def f source_row_def regs_of_def Let_def)
  next
    case False
    then have "0 < unat (hf_dir ?f)" by (simp add: unat_gt_0)
    then show ?thesis using False index_from_one [OF _ dir]
      by (simp add: add_map_def f source_row_def regs_of_def Let_def)
  qed
qed

lemma do_build_op:
  assumes "op_emits op \<Longrightarrow> row_valid hdr (op_step hdr op (regs_of m))"
  shows "\<exists>m'. regs_of m' = op_step hdr op (regs_of m)
    \<and> do_build hdr (op_parsed hdr op) (m, rows) =
        Some (m', rows @ (if op_emits op then [source_row hdr (regs_of m')] else []))"
proof (cases "op_emits op")
  case True
  then consider a where "op = Op_special a" | "op = Op_copy" by (cases op) simp_all
  then show ?thesis
  proof cases
    case (1 a)
    define m1 where "m1 = advance_machine (of_nat (special_address hdr a)) (of_int (special_line hdr a)) m"
    have r: "regs_of m1 = op_step hdr op (regs_of m)"
      by (simp add: 1 m1_def advance_machine_def regs_of_def)
    then have "add_map hdr m1 rows = Some (rows @ [source_row hdr (regs_of m1)])"
      using assms True by (intro add_map_row) simp
    with r show ?thesis by (intro exI [of _ m1]) (simp add: 1 do_build_def m1_def)
  next
    case 2
    with assms show ?thesis by (intro exI [of _ m]) (simp add: do_build_def add_map_row)
  qed
next
  case False
  then show ?thesis
    by (cases op) (auto simp: do_build_def regs_of_def advance_machine_def elf_dwarf_line_machine_init_def)
qed

lemma build_ops_rows:
  assumes "\<forall>regs\<in>set (line_rows hdr ops (regs_of m)). row_valid hdr regs"
  shows "\<exists>m'. build_ops hdr (map (op_parsed hdr) ops) (m, rows) =
    Some (m', rows @ map (source_row hdr) (line_rows hdr ops (regs_of m)))"
  using assms
proof (induction ops arbitrary: m rows)
  case Nil
  then show ?case by simp
next
  case (Cons op ops)
  have "op_emits op \<Longrightarrow> row_valid hdr (op_step hdr op (regs_of m))"
    using Cons.prems by (simp add: Let_def)
  from do_build_op [OF this, of rows] obtain m1 where m1: "regs_of m1 = op_step hdr op (regs_of m)"
    "do_build hdr (op_parsed hdr op) (m, rows) =
        Some (m1, rows @ (if op_emits op then [source_row hdr (regs_of m1)] else []))"
    by blast
  from Cons.IH [of m1 "rows @ (if op_emits op then [source_row hdr (regs_of m1)] else [])"] Cons.prems m1(1)
  obtain m2 where "build_ops hdr (map (op_parsed hdr) ops)
      (m1, rows @ (if op_emits op then [source_row hdr (regs_of m1)] else [])) =
    Some (m2, (rows @ (if op_emits op then [source_row hdr (regs_of m1)] else []))
              @ map (source_row hdr) (line_rows hdr ops (regs_of m1)))"
    by (auto simp: Let_def)
  then show ?case using m1 by (intro exI [of _ m2]) (simp add: Let_def)
qed

fun unit_parsed :: "line_unit \<Rightarrow> ElfDwarfLineEntryType" where
  "unit_parsed (hdr, ops) = (hdr, map (op_parsed hdr) ops)"

lemma build_entries_rows:
  assumes "\<forall>u\<in>set units. unit_valid u"
  shows "\<exists>m'. build_entries (map unit_parsed units) (m, rows) = Some (m', rows @ concat (map unit_rows units))"
  using assms
proof (induction units arbitrary: m rows)
  case Nil
  then show ?case by simp
next
  case (Cons u units)
  obtain hdr ops where u: "u = (hdr, ops)" by fastforce
  let ?m = "elf_dwarf_line_init_ElfDwarfLineStateMachineRegister hdr m"
  have "regs_of ?m = (0, 1, 1)"
    by (simp add: regs_of_def elf_dwarf_line_init_ElfDwarfLineStateMachineRegister_def elf_dwarf_line_machine_init_def)
  then obtain m1 where "build_ops hdr (map (op_parsed hdr) ops) (?m, rows) = Some (m1, rows @ unit_rows u)"
    using build_ops_rows [of hdr ops ?m rows] Cons.prems u by auto
  moreover obtain m2 where
    "build_entries (map unit_parsed units) (m1, rows @ unit_rows u) =
      Some (m2, (rows @ unit_rows u) @ concat (map unit_rows units))"
    using Cons.IH [of m1 "rows @ unit_rows u"] Cons.prems by auto
  ultimately show ?case by (intro exI [of _ m2]) (simp add: u)
qed

lemma line_entry_bytes:
  assumes "unit_valid u"
  shows "line_entry (unit_bytes u @ rest) = Some (unit_parsed u, length (unit_bytes u))"
proof -
  obtain hdr ops where u: "u = (hdr, ops)" by fastforce
  have hv: "header_valid hdr" "\<forall>op\<in>set ops. op_valid hdr op" using assms u by simp_all
  then have "line_ops hdr (header_bytes hdr @ ops_bytes hdr ops @ rest) (length (header_bytes hdr)) [] =
      Some (map (op_parsed hdr) ops, length (header_bytes hdr) + length (ops_bytes hdr ops))"
    using line_ops_bytes [of hdr ops "header_bytes hdr" rest "[]"] assms u by (simp add: header_valid_def)
  with hv show ?thesis by (simp add: u line_entry_def parse_entry_header_bytes)
qed

lemma unit_bytes_nonempty: "0 < length (unit_bytes u)"
  by (cases u) (simp add: header_bytes_def)

lemma line_entries_bytes:
  assumes "\<forall>u\<in>set units. unit_valid u"
    "section_size = length pre + length (concat (map unit_bytes units))"
  shows "line_entries (pre @ concat (map unit_bytes units) @ rest) section_size (length pre) acc =
    Some (acc @ map unit_parsed units)"
  using assms
proof (induction units arbitrary: pre acc)
  case Nil
  then show ?case by (subst line_entries.simps) simp
next
  case (Cons u units)
  let ?rest = "concat (map unit_bytes units) @ rest"
  have "line_entries ((pre @ unit_bytes u) @ ?rest) section_size (length (pre @ unit_bytes u)) (acc @ [unit_parsed u]) =
      Some ((acc @ [unit_parsed u]) @ map unit_parsed units)"
    using Cons.prems by (intro Cons.IH) simp_all
  moreover have "length pre < section_size" using Cons.prems(2) unit_bytes_nonempty [of u] by simp
  ultimately show ?case
    using line_entry_bytes [of u ?rest] Cons.prems(1) by (subst line_entries.simps) simp
qed

definition units_bytes :: "line_unit list \<Rightarrow> uint8 list" where
  "units_bytes units = concat (map unit_bytes units)"

lemma line_load_units:
  assumes "\<forall>u\<in>set units. unit_valid u" "length (units_bytes units) < 2 ^ 32"
  shows "elf_dwarf_line_load (units_bytes units @ rest) (of_nat (length (units_bytes units))) =
    Some (map unit_parsed units)"
  using line_entries_bytes [of units "length (units_bytes units)" "[]" rest "[]"] assms
  by (simp add: elf_dwarf_line_load_def units_bytes_def unat_of_nat take_bit_nat_eq_self)

lemma line_table_built:
  assumes "\<forall>u\<in>set units. unit_valid u" "length (units_bytes units) < 2 ^ 32"
  shows "file_address_mapping_build m
      (elf_dwarf_line_load (units_bytes units @ rest) (of_nat (length (units_bytes units)))) =
    Some (concat (map unit_rows units))"
proof -
  obtain m' where "build_entries (map unit_parsed units) (m, []) = Some (m', concat (map unit_rows units))"
    using build_entries_rows [OF assms(1), of m "[]"] by auto
  then show ?thesis by (simp add: line_load_units [OF assms] file_address_mapping_build_def)
qed


definition sample_header :: ElfDwarfLineEntryHeaderType where
  "sample_header =
    \<lparr>lh_total_length = 57, lh_version = 2, lh_prologue_length = 33, lh_minimum_instruction_length = 2,
     lh_maximum_operations_per_instruction = 0, lh_default_is_stmt = 1, lh_line_base = 251, lh_line_range = 14,
     lh_opcode_base = 13, lh_standard_opcode_lengths = [0, 1, 1, 1, 1, 0, 0, 0, 1, 0, 0, 1] @ replicate 244 0,
     lh_include_directories = [''src''],
     lh_file_names = [\<lparr>hf_filename = ''main.c'', hf_dir = 1, hf_time = 0, hf_size = 200\<rparr>]\<rparr>"

definition sample_unit :: line_unit where
  "sample_unit = (sample_header,
    [Op_set_address 0x1000, Op_special 19, Op_advance_line 300, Op_advance_pc 4, Op_copy, Op_end_sequence])"

lemma le_encode_2: "le_encode 2 w = [ucast w, ucast (drop_bit 8 w)]"
  by (simp add: numeral_2_eq_2)

lemma le_encode_4: "le_encode 4 w = le_encode 2 w @ le_encode 2 (drop_bit 16 w)"
  by (simp add: eval_nat_numeral(1-3) numeral_2_eq_2 flip: numeral_eq_Suc)

lemma sample_unit_bytes:
  "units_bytes [sample_unit] =
    [57, 0, 0, 0, 2, 0, 33, 0, 0, 0, 2, 1, 251, 14, 13, 0, 1, 1, 1, 1, 0, 0, 0, 1, 0, 0, 1,
     115, 114, 99, 0, 0, 109, 97, 105, 110, 46, 99, 0, 1, 0, 200, 1, 0,
     0, 5, 2, 0, 16, 0, 0, 32, 3, 172, 2, 2, 4, 1, 0, 1, 1]"
  by (simp add: units_bytes_def sample_unit_def sample_header_def header_bytes_def header_fixed_def ops_bytes_def
      str_bytes_def file_bytes_def uleb128.simps sleb128.simps le_encode_4 le_encode_2)

lemma sample_unit_valid: "unit_valid sample_unit"
  using sample_unit_bytes
  by (simp add: units_bytes_def sample_unit_def) (simp add: sample_header_def header_valid_def name_valid_def file_valid_def
      row_valid_def row_file_def special_address_def special_line_def NUL_def)

lemma sample_unit_rows:
  "unit_rows sample_unit =
     [(0x1002, \<lparr>vf_dir = ''src'', vf_file = ''main.c'', vf_line = 1\<rparr>),
      (0x100a, \<lparr>vf_dir = ''src'', vf_file = ''main.c'', vf_line = 301\<rparr>)]"
  by (simp add: sample_unit_def sample_header_def source_row_def row_file_def special_address_def special_line_def)


section \<open>Look-ups\<close>

text \<open>What the search for an address has found in the rows it has passed.\<close>

definition nearest_found ::
  "AthrillAddrType \<Rightarrow> KeyValueMappingType set \<Rightarrow> ValueFileType option \<Rightarrow> uint32 \<Rightarrow> bool" where
  "nearest_found addr seen found m \<longleftrightarrow>
    (case found of
       None \<Rightarrow> m = 0xFFFFFFFF \<and> (\<forall>(k, _)\<in>seen. addr < k \<or> k = 0 \<and> addr = 0xFFFFFFFF)
     | Some v \<Rightarrow> \<exists>k. (k, v) \<in> seen \<and> k \<le> addr \<and> m = addr - k \<and> (\<forall>(k', _)\<in>seen. k' \<le> addr \<longrightarrow> k' \<le> k))"

lemma distance_less:
  fixes a j k :: uint32
  assumes "j \<le> a" "k \<le> a"
  shows "a - j < a - k \<longleftrightarrow> k < j"
proof -
  have "unat (a - j) = unat a - unat j" "unat (a - k) = unat a - unat k"
    using assms by (simp_all add: unat_sub)
  with assms show ?thesis by (simp add: word_less_nat_alt word_le_nat_alt) linarith
qed

lemma distance_max:
  fixes a k :: uint32
  assumes "k \<le> a" "\<not> a - k < 0xFFFFFFFF"
  shows "k = 0 \<and> a = 0xFFFFFFFF"
proof -
  have "unat (a - k) = unat a - unat k" using assms by (simp add: unat_sub)
  moreover have "unat a < 2 ^ 32" using unsigned_less [of a, where ?'a = nat] by simp
  ultimately have "unat a = 0xFFFFFFFF" "unat k = 0"
    using assms by (simp_all add: word_less_nat_alt word_le_nat_alt)
  then show ?thesis by (simp add: word_unat_eq_iff)
qed

lemma nearest_found_closer:
  assumes "nearest_found addr seen found m" "key < addr" "addr - key < m"
  shows "nearest_found addr (Set.insert (key, v) seen) (Some v) (addr - key)"
proof -
  have "k' \<le> key" if "(k', w) \<in> seen" "k' \<le> addr" for k' w
  proof (cases found)
    case None
    with assms(1) that show ?thesis by (fastforce simp: nearest_found_def)
  next
    case (Some v0)
    with assms(1) obtain k where k: "k \<le> addr" "m = addr - k" "\<forall>(k', _)\<in>seen. k' \<le> addr \<longrightarrow> k' \<le> k"
      by (auto simp: nearest_found_def)
    then have "k < key" using assms(2,3) distance_less [of key addr k] by simp
    moreover have "k' \<le> k" using k(3) that by blast
    ultimately show ?thesis by simp
  qed
  then show ?thesis using assms(2) by (auto simp: nearest_found_def)
qed

lemma nearest_found_farther:
  assumes "nearest_found addr seen found m" "key < addr" "\<not> addr - key < m"
  shows "nearest_found addr (Set.insert (key, v) seen) found m"
proof (cases found)
  case None
  then have "key = 0 \<and> addr = 0xFFFFFFFF"
    using assms distance_max [of key addr] by (simp add: nearest_found_def)
  with None assms(1) show ?thesis by (simp add: nearest_found_def)
next
  case (Some v0)
  with assms(1) obtain k where k: "(k, v0) \<in> seen" "k \<le> addr" "m = addr - k" "\<forall>(k', _)\<in>seen. k' \<le> addr \<longrightarrow> k' \<le> k"
    by (auto simp: nearest_found_def)
  then have "key \<le> k" using assms(2,3) distance_less [of key addr k] by simp
  with Some k show ?thesis by (auto simp: nearest_found_def)
qed

lemma nearest_found_above:
  "nearest_found addr seen found m \<Longrightarrow> addr < key \<Longrightarrow> nearest_found addr (Set.insert (key, v) seen) found m"
  by (fastforce simp: nearest_found_def split: option.splits)

lemma mapping_get_loop_nearest:
  assumes "nearest_found addr seen found m"
  shows "\<exists>m'. nearest_found addr (seen \<union> set kvs) (mapping_get_loop addr kvs found m) m'"
  using assms
proof (induction kvs arbitrary: seen found m)
  case Nil
  then show ?case by auto
next
  case (Cons kv kvs)
  obtain key v where kv: "kv = (key, v)" by fastforce
  have step: "\<exists>m'. nearest_found addr (seen \<union> set (kv # kvs)) (mapping_get_loop addr kvs f n) m'"
    if "nearest_found addr (Set.insert (key, v) seen) f n" for f n
    using Cons.IH [OF that] by (simp add: kv Un_insert_left)
  consider "key < addr" "addr - key < m" | "key < addr" "\<not> addr - key < m" | "key = addr" | "addr < key"
    by fastforce
  then show ?case
  proof cases
    case 1
    with step [OF nearest_found_closer [OF Cons.prems 1]] show ?thesis by (simp add: kv)
  next
    case 2
    with step [OF nearest_found_farther [OF Cons.prems 2]] show ?thesis by (simp add: kv)
  next
    case 3
    then have "nearest_found addr (seen \<union> set (kv # kvs)) (Some v) 0" by (auto simp: nearest_found_def kv)
    with 3 show ?thesis by (auto simp: kv)
  next
    case 4
    then have "\<not> key < addr" "addr \<noteq> key" by auto
    with step [OF nearest_found_above [OF Cons.prems 4]] show ?thesis by (simp add: kv)
  qed
qed

text \<open>
  C36: source lines of addresses. Looking an address up finds a row of the mapping whose address is at or
  below it and such that no other row lies between the two. Nothing is found only when every
  row lies above the address, or when the address is the last one and the rows below it are at address 0.
\<close>

theorem file_address_mapping_get_nearest:
  "case file_address_mapping_get kvs addr of
     (err, None) \<Rightarrow> err = STD_E_NOENT \<and> (\<forall>(k, _)\<in>set kvs. addr < k \<or> k = 0 \<and> addr = 0xFFFFFFFF)
   | (err, Some v) \<Rightarrow> err = STD_E_OK \<and>
       (\<exists>k. (k, v) \<in> set kvs \<and> k \<le> addr \<and> (\<forall>(k', _)\<in>set kvs. k' \<le> addr \<longrightarrow> k' \<le> k))"
proof -
  have "nearest_found addr {} None 0xFFFFFFFF" by (simp add: nearest_found_def)
  from mapping_get_loop_nearest [OF this, of kvs] show ?thesis
    by (auto simp: file_address_mapping_get_def nearest_found_def split: option.split)
qed

theorem file_address_mapping_get_nearest_witness:
  "\<exists>kvs k v. file_address_mapping_get kvs 0x1009 = (STD_E_OK, Some v) \<and> (k, v) \<in> set kvs \<and> k = 0x1002 \<and>
     (\<exists>k'. (k', v) \<in> set kvs \<and> k' \<le> 0x1009 \<and> (\<forall>(j, _)\<in>set kvs. j \<le> 0x1009 \<longrightarrow> j \<le> k'))"
proof -
  let ?v = "\<lambda>l. \<lparr>vf_dir = ''src'', vf_file = ''main.c'', vf_line = l\<rparr>"
  let ?kvs = "[(0x100a, ?v 7), (0x1002, ?v 5), (0x1000, ?v 4)]"
  have get: "file_address_mapping_get ?kvs 0x1009 = (STD_E_OK, Some (?v 5))"
    by (simp add: file_address_mapping_get_def)
  with file_address_mapping_get_nearest [of ?kvs "0x1009"] show ?thesis
    by (intro exI [of _ ?kvs] exI [of _ "0x1002"] exI [of _ "?v 5"]) simp
qed

text \<open>The look-up of a source line finds the first row of that line.\<close>

lemma same_file_iff: "same_file f v \<longleftrightarrow> f = vf_file v"
  by (auto simp: same_file_def strncmp_eq_def)

lemma file_address_mapping_get_addr_row:
  assumes "file_address_mapping_get_addr kvs f l = Some a"
  shows "\<exists>v. (a, v) \<in> set kvs \<and> vf_file v = f \<and> vf_line v = l"
proof -
  obtain i where i: "find_first (\<lambda>(_, v). same_file f v \<and> l = vf_line v) kvs = Some i" "a = fst (kvs ! i)"
    using assms by (auto simp: file_address_mapping_get_addr_def)
  then have "kvs ! i \<in> set kvs" "same_file f (snd (kvs ! i))" "l = vf_line (snd (kvs ! i))"
    by (auto simp: search_simps split: prod.splits)
  with i(2) show ?thesis by (intro exI [of _ "snd (kvs ! i)"]) (simp add: same_file_iff)
qed

lemma file_address_mapping_get_addr_finds:
  assumes "(a, v) \<in> set kvs"
  shows "\<exists>a'. file_address_mapping_get_addr kvs (vf_file v) (vf_line v) = Some a'"
proof -
  from find_first_ex [OF assms, of "\<lambda>(_, w). same_file (vf_file v) w \<and> vf_line v = vf_line w"] show ?thesis
    by (auto simp: file_address_mapping_get_addr_def same_file_iff)
qed
end
