(* ===== verification/Syscall.thy ===== *)
theory Syscall
  imports
    MpuMalloc
    DevConfig
begin

text \<open>
  The system calls that a guest makes through a word in its memory:
  src/src/device/peripheral/athrill_syscall_device.c with the structures of
  src/apl/include/athrill_syscall.h, and src/src/device/peripheral/athrill_device.c, which looks at
  the word at every clock.
  \<^item> The argument of a call lies in guest memory. A handler has a host pointer to it and reads
    and writes its fields there; the offsets are those of the C structure. What lies outside the host
    block is \<open>None\<close>, as is a failed \<open>ASSERT\<close>, a string that overflows its buffer,
    and the use of a pointer that was never set.
  \<^item> The host operating system is the parameter \<open>se_os\<close>: every host call is a value of
    \<open>os_call\<close>, and its answer has the return value, \<open>errno\<close> and what the call writes.
  \<^item> The build is that for Linux without \<open>ENABLE_EXTERNAL_BT_SERIAL\<close>. Messages are not modelled.
\<close>

section \<open>The host operating system\<close>

datatype os_call =
    Os_socket
  | Os_select_write int
  | Os_getsockopt_error int
  | Os_setsockopt_reuse int
  | Os_bind int uint32 uint16
  | Os_listen int int
  | Os_accept int
  | Os_connect int uint32 uint16
  | Os_select "uint8 list" "uint8 list" "uint8 list"
  | Os_send int "uint8 list"
  | Os_recv int nat
  | Os_close int
  | Os_system string
  | Os_mkdir string
  | Os_open string uint32 int
  | Os_read int nat
  | Os_write int "uint8 list"
  | Os_lseek int uint32 int
  | Os_opendir string
  | Os_readdir nat
  | Os_closedir nat
  | Os_stat string
  | Os_mkfifo string
  | Os_clock_gettime
  | Os_flock int bool

text \<open>
  The answer of a call: what it returned, \<open>errno\<close>, the bytes it stored (read and received data, the option
  of a socket, sets of descriptors), a name (of a directory entry; \<open>None\<close> at the end), and for \<open>stat\<close>
  the day, the seconds of the day and the size of a file and whether it is a directory.
\<close>

record os_result =
  or_ret :: int
  or_errno :: int
  or_bytes :: "uint8 list"
  or_sets :: "uint8 list \<times> uint8 list \<times> uint8 list"
  or_peer :: "uint32 \<times> uint16 \<times> uint32"
  or_name :: "string option"
  or_stat :: "uint32 \<times> uint32 \<times> uint32 \<times> bool"

section \<open>State\<close>

record dir_element =
  de_is_used :: bool
  de_path :: string
  de_dir :: nat

record ('d, 'o) sys_state =
  sy_heap :: "'d malloc_state"
  sy_os :: 'o
  sy_cfg :: CpuEmuDevCfgType
  sy_fds :: "int list"
  sy_dirs :: "dir_element list"
  sy_virtfs_top :: "string option"
  sy_start_time :: "uint8 list"
  sy_exit :: "int option"

record ('d, 'o) sys_env =
  se_mpu :: "'d mpu_env"
  se_os :: "os_call \<Rightarrow> 'o \<Rightarrow> os_result \<times> 'o"
  se_getenv :: "string \<Rightarrow> string option"
  se_alloc :: "'d malloc_state \<Rightarrow> uint8 list option"

abbreviation sy_mpu :: "('d, 'o) sys_state \<Rightarrow> 'd mpu_state" where
  "sy_mpu st \<equiv> ml_mpu (sy_heap st)"

definition set_mpu :: "'d mpu_state \<Rightarrow> ('d, 'o) sys_state \<Rightarrow> ('d, 'o) sys_state" where
  "set_mpu s st = st\<lparr>sy_heap := (sy_heap st)\<lparr>ml_mpu := s\<rparr>\<rparr>"

definition mem_read :: "hptr \<Rightarrow> nat \<Rightarrow> nat \<Rightarrow> ('d, 'o) sys_state \<Rightarrow> uint8 list option" where
  "mem_read p off n st = host_read (mpu_host (sy_mpu st)) (ptr_add p off) n"

definition mem_write :: "hptr \<Rightarrow> nat \<Rightarrow> uint8 list \<Rightarrow> ('d, 'o) sys_state \<Rightarrow> ('d, 'o) sys_state option" where
  "mem_write p off bs st =
    map_option (\<lambda>h. set_mpu ((sy_mpu st)\<lparr>mpu_host := h\<rparr>) st) (host_write (mpu_host (sy_mpu st)) (ptr_add p off) bs)"

definition get16 :: "hptr \<Rightarrow> nat \<Rightarrow> ('d, 'o) sys_state \<Rightarrow> uint16 option" where
  "get16 p off st = map_option le_decode (mem_read p off 2 st)"

definition get32 :: "hptr \<Rightarrow> nat \<Rightarrow> ('d, 'o) sys_state \<Rightarrow> uint32 option" where
  "get32 p off st = map_option le_decode (mem_read p off 4 st)"

definition put32 :: "hptr \<Rightarrow> nat \<Rightarrow> uint32 \<Rightarrow> ('d, 'o) sys_state \<Rightarrow> ('d, 'o) sys_state option" where
  "put32 p off v st = mem_write p off (le_encode 4 v) st"

definition os :: "('d, 'o) sys_env \<Rightarrow> os_call \<Rightarrow> ('d, 'o) sys_state \<Rightarrow> os_result \<times> ('d, 'o) sys_state" where
  "os env c st = (case se_os env c (sy_os st) of (r, o') \<Rightarrow> (r, st\<lparr>sy_os := o'\<rparr>))"

text \<open>The pointer to a guest address; \<open>None\<close> inside is an error of \<open>mpu_get_pointer\<close>.\<close>

definition guest_pointer ::
  "('d, 'o) sys_env \<Rightarrow> uint32 \<Rightarrow> ('d, 'o) sys_state \<Rightarrow> ((Std_ReturnType \<times> hptr option) \<times> ('d, 'o) sys_state) option" where
  "guest_pointer env addr st =
    map_option (\<lambda>(err, p, s). ((err, p), set_mpu s st)) (mpu_get_pointer (se_mpu env) 0 addr (sy_mpu st))"

text \<open>
  \<open>with_pointer\<close> is the common begin of the handlers: they return when the address is no memory, and use the
  pointer otherwise. \<open>assert_pointer\<close> is the same with an assertion.
\<close>

definition with_pointer ::
  "('d, 'o) sys_env \<Rightarrow> uint32 \<Rightarrow> ('d, 'o) sys_state \<Rightarrow> (hptr \<Rightarrow> ('d, 'o) sys_state \<Rightarrow> ('d, 'o) sys_state option)
    \<Rightarrow> ('d, 'o) sys_state option" where
  "with_pointer env addr st body =
    do {
      ((err, p), st1) \<leftarrow> guest_pointer env addr st;
      if err \<noteq> STD_E_OK then Some st1
      else do { q \<leftarrow> p; body q st1 }
    }"

definition assert_pointer ::
  "('d, 'o) sys_env \<Rightarrow> uint32 \<Rightarrow> ('d, 'o) sys_state \<Rightarrow> (hptr \<times> ('d, 'o) sys_state) option" where
  "assert_pointer env addr st =
    do {
      ((err, p), st1) \<leftarrow> guest_pointer env addr st;
      q \<leftarrow> p;
      if err \<noteq> STD_E_OK then None else Some (q, st1)
    }"

definition RET_VALUE :: nat where "RET_VALUE = 4"
definition RET_ERRNO :: nat where "RET_ERRNO = 8"
definition BODY :: nat where "BODY = 12"

definition set_ret :: "hptr \<Rightarrow> int \<Rightarrow> ('d, 'o) sys_state \<Rightarrow> ('d, 'o) sys_state option" where
  "set_ret arg v st = put32 arg RET_VALUE (word_of_int v) st"

definition arg32 :: "hptr \<Rightarrow> nat \<Rightarrow> ('d, 'o) sys_state \<Rightarrow> uint32 option" where
  "arg32 arg off st = get32 arg (BODY + off) st"

text \<open>The result of most host calls: the return value, or the negated \<open>errno\<close>.\<close>

definition ret_or_errno :: "hptr \<Rightarrow> int \<Rightarrow> os_result \<Rightarrow> ('d, 'o) sys_state \<Rightarrow> ('d, 'o) sys_state option" where
  "ret_or_errno arg v r st = set_ret arg (if or_ret r < 0 then - or_errno r else v) st"

section \<open>Sockets\<close>

definition athrill_syscall_none :: "hptr \<Rightarrow> ('d, 'o) sys_state \<Rightarrow> ('d, 'o) sys_state option" where
  "athrill_syscall_none arg st = Some st"

definition athrill_syscall_socket :: "('d, 'o) sys_env \<Rightarrow> hptr \<Rightarrow> ('d, 'o) sys_state \<Rightarrow> ('d, 'o) sys_state option" where
  "athrill_syscall_socket env arg st =
    (let (r, st1) = os env Os_socket st
     in if or_ret r < 0 then Some st1 else set_ret arg (or_ret r) st1)"

definition SYS_API_ID_CONNECT :: uint32 where "SYS_API_ID_CONNECT = 6"
definition EAGAIN :: int where "EAGAIN = 11"

definition athrill_syscall_sense :: "('d, 'o) sys_env \<Rightarrow> hptr \<Rightarrow> ('d, 'o) sys_state \<Rightarrow> ('d, 'o) sys_state option" where
  "athrill_syscall_sense env arg st =
    do {
      sockfd \<leftarrow> arg32 arg 0 st;
      api_id \<leftarrow> arg32 arg 4 st;
      let fd = sint sockfd;
      if fd < 0 \<or> 1024 \<le> fd then None
      else if api_id \<noteq> SYS_API_ID_CONNECT then Some st
      else let (r, st1) = os env (Os_select_write fd) st
           in if or_ret r < 0 then set_ret arg (- or_errno r) st1
              else if or_ret r = 0 then set_ret arg (- EAGAIN) st1
              else let (r2, st2) = os env (Os_getsockopt_error fd) st1
                   in ret_or_errno arg (- sint (le_decode (or_bytes r2) :: uint32)) r2 st2
    }"

text \<open>The fields \<open>sin_port\<close> and \<open>sin_addr\<close> of a guest socket address.\<close>

definition sockaddr_of :: "hptr \<Rightarrow> ('d, 'o) sys_state \<Rightarrow> (uint32 \<times> uint16) option" where
  "sockaddr_of p st = do { port \<leftarrow> get16 p 2 st; addr \<leftarrow> get32 p 4 st; Some (addr, port) }"

definition athrill_syscall_bind :: "('d, 'o) sys_env \<Rightarrow> hptr \<Rightarrow> ('d, 'o) sys_state \<Rightarrow> ('d, 'o) sys_state option" where
  "athrill_syscall_bind env arg st =
    do {
      sockfd \<leftarrow> arg32 arg 0 st;
      sockaddr \<leftarrow> arg32 arg 4 st;
      with_pointer env sockaddr st (\<lambda>sockaddrp st1.
        let (r, st2) = os env (Os_setsockopt_reuse (sint sockfd)) st1
        in if or_ret r \<noteq> 0 then Some st2
           else do {
             (sin_addr, sin_port) \<leftarrow> sockaddr_of sockaddrp st2;
             let (r2, st3) = os env (Os_bind (sint sockfd) sin_addr sin_port) st2;
             ret_or_errno arg 0 r2 st3
           })
    }"

definition athrill_syscall_listen :: "('d, 'o) sys_env \<Rightarrow> hptr \<Rightarrow> ('d, 'o) sys_state \<Rightarrow> ('d, 'o) sys_state option" where
  "athrill_syscall_listen env arg st =
    do {
      sockfd \<leftarrow> arg32 arg 0 st;
      backlog \<leftarrow> arg32 arg 4 st;
      let (r, st1) = os env (Os_listen (sint sockfd) (sint backlog)) st;
      ret_or_errno arg 0 r st1
    }"

definition bswap :: "nat \<Rightarrow> 'a::len word \<Rightarrow> 'a word" where
  "bswap n w = le_decode (rev (le_encode n w))"

definition athrill_syscall_accept :: "('d, 'o) sys_env \<Rightarrow> hptr \<Rightarrow> ('d, 'o) sys_state \<Rightarrow> ('d, 'o) sys_state option" where
  "athrill_syscall_accept env arg st =
    do {
      sockfd \<leftarrow> arg32 arg 0 st;
      sockaddr \<leftarrow> arg32 arg 4 st;
      addrlen \<leftarrow> arg32 arg 8 st;
      with_pointer env sockaddr st (\<lambda>sockaddrp st1.
        with_pointer env addrlen st1 (\<lambda>addrlenp st2.
          let (r, st3) = os env (Os_accept (sint sockfd)) st2
          in if or_ret r < 0 then set_ret arg (- or_errno r) st3
             else case or_peer r of (addr, port, len) \<Rightarrow>
               do {
                 st4 \<leftarrow> mem_write sockaddrp 0 [2] st3;
                 st5 \<leftarrow> mem_write sockaddrp 2 (le_encode 2 (bswap 2 port)) st4;
                 st6 \<leftarrow> put32 sockaddrp 4 (bswap 4 addr) st5;
                 st7 \<leftarrow> put32 addrlenp 0 len st6;
                 set_ret arg (or_ret r) st7
               }))
    }"

definition athrill_syscall_connect :: "('d, 'o) sys_env \<Rightarrow> hptr \<Rightarrow> ('d, 'o) sys_state \<Rightarrow> ('d, 'o) sys_state option" where
  "athrill_syscall_connect env arg st =
    do {
      sockfd \<leftarrow> arg32 arg 0 st;
      sockaddr \<leftarrow> arg32 arg 4 st;
      with_pointer env sockaddr st (\<lambda>sockaddrp st1. do {
        (sin_addr, sin_port) \<leftarrow> sockaddr_of sockaddrp st1;
        let (r, st2) = os env (Os_connect (sint sockfd) sin_addr sin_port) st1;
        ret_or_errno arg 0 r st2
      })
    }"

text \<open>
  A guest set has 64 descriptors. The optional pointer is \<open>NULL\<close> for the address 0;
  \<open>opt_pointer\<close> gives \<open>Inl\<close> when the handler returns.
\<close>

definition SYS_FD_SET_SIZE :: nat where "SYS_FD_SET_SIZE = 8"

definition bit_count :: "uint8 list \<Rightarrow> nat" where
  "bit_count bs = sum_list (map (\<lambda>b. length (filter (bit b) [0..<8])) bs)"

definition opt_pointer ::
  "('d, 'o) sys_env \<Rightarrow> uint32 \<Rightarrow> ('d, 'o) sys_state
    \<Rightarrow> (hptr option \<Rightarrow> ('d, 'o) sys_state \<Rightarrow> ('d, 'o) sys_state option) \<Rightarrow> ('d, 'o) sys_state option" where
  "opt_pointer env addr st body =
    (if addr = 0 then body None st else with_pointer env addr st (\<lambda>p. body (Some p)))"

definition fd_set_in :: "hptr option \<Rightarrow> ('d, 'o) sys_state \<Rightarrow> uint8 list option" where
  "fd_set_in p st = (case p of None \<Rightarrow> Some (replicate SYS_FD_SET_SIZE 0) | Some q \<Rightarrow> mem_read q 0 SYS_FD_SET_SIZE st)"

definition fd_set_out ::
  "hptr option \<Rightarrow> uint8 list \<Rightarrow> ('d, 'o) sys_state \<Rightarrow> (nat \<times> ('d, 'o) sys_state) option" where
  "fd_set_out p bs st =
    (case p of None \<Rightarrow> Some (0, st)
     | Some q \<Rightarrow> map_option (Pair (bit_count (take SYS_FD_SET_SIZE bs))) (mem_write q 0 (take SYS_FD_SET_SIZE bs) st))"

definition clear_set :: "hptr option \<Rightarrow> ('d, 'o) sys_state \<Rightarrow> ('d, 'o) sys_state option" where
  "clear_set p st = (case p of None \<Rightarrow> Some st | Some q \<Rightarrow> mem_write q 0 (replicate SYS_FD_SET_SIZE 0) st)"

definition athrill_syscall_select :: "('d, 'o) sys_env \<Rightarrow> hptr \<Rightarrow> ('d, 'o) sys_state \<Rightarrow> ('d, 'o) sys_state option" where
  "athrill_syscall_select env arg st =
    do {
      readfds \<leftarrow> arg32 arg 4 st;
      writefds \<leftarrow> arg32 arg 8 st;
      exceptfds \<leftarrow> arg32 arg 12 st;
      opt_pointer env readfds st (\<lambda>rp st1.
      opt_pointer env writefds st1 (\<lambda>wp st2.
      opt_pointer env exceptfds st2 (\<lambda>ep st3. do {
        rs \<leftarrow> fd_set_in rp st3;
        ws \<leftarrow> fd_set_in wp st3;
        es \<leftarrow> fd_set_in ep st3;
        let (r, st4) = os env (Os_select rs ws es) st3;
        if or_ret r < 0 then set_ret arg (- or_errno r) st4
        else case or_sets r of (rs1, ws1, es1) \<Rightarrow> do {
          st5 \<leftarrow> clear_set rp st4;
          st6 \<leftarrow> clear_set wp st5;
          st7 \<leftarrow> clear_set ep st6;
          (n1, st8) \<leftarrow> fd_set_out rp rs1 st7;
          (n2, st9) \<leftarrow> fd_set_out wp ws1 st8;
          (n3, st10) \<leftarrow> fd_set_out ep es1 st9;
          set_ret arg (int (n1 + n2 + n3)) st10
        }
      })))
    }"

text \<open>A failed send or receive first stores the negated \<open>errno\<close>, and then the return value over it.\<close>

definition athrill_syscall_send :: "('d, 'o) sys_env \<Rightarrow> hptr \<Rightarrow> ('d, 'o) sys_state \<Rightarrow> ('d, 'o) sys_state option" where
  "athrill_syscall_send env arg st =
    do {
      sockfd \<leftarrow> arg32 arg 0 st;
      buf \<leftarrow> arg32 arg 4 st;
      len \<leftarrow> arg32 arg 8 st;
      with_pointer env buf st (\<lambda>bufp st1. do {
        bs \<leftarrow> mem_read bufp 0 (unat len) st1;
        let (r, st2) = os env (Os_send (sint sockfd) bs) st1;
        st3 \<leftarrow> (if or_ret r < 0 then set_ret arg (- or_errno r) st2 else Some st2);
        set_ret arg (or_ret r) st3
      })
    }"

definition athrill_syscall_recv :: "('d, 'o) sys_env \<Rightarrow> hptr \<Rightarrow> ('d, 'o) sys_state \<Rightarrow> ('d, 'o) sys_state option" where
  "athrill_syscall_recv env arg st =
    do {
      sockfd \<leftarrow> arg32 arg 0 st;
      buf \<leftarrow> arg32 arg 4 st;
      len \<leftarrow> arg32 arg 8 st;
      with_pointer env buf st (\<lambda>bufp st1. do {
        let (r, st2) = os env (Os_recv (sint sockfd) (unat len)) st1;
        st3 \<leftarrow> mem_write bufp 0 (or_bytes r) st2;
        st4 \<leftarrow> (if or_ret r < 0 then set_ret arg (- or_errno r) st3 else Some st3);
        set_ret arg (or_ret r) st4
      })
    }"

definition athrill_syscall_shutdown :: "('d, 'o) sys_env \<Rightarrow> hptr \<Rightarrow> ('d, 'o) sys_state \<Rightarrow> ('d, 'o) sys_state option" where
  "athrill_syscall_shutdown env arg st =
    do {
      st1 \<leftarrow> set_ret arg 0 st;
      sockfd \<leftarrow> arg32 arg 0 st1;
      Some (snd (os env (Os_close (sint sockfd)) st1))
    }"

text \<open>The conversion \<open>%u\<close> of \<open>snprintf\<close>; the command fits its buffer.\<close>

definition athrill_syscall_system ::
  "('d, 'o) sys_env \<Rightarrow> hptr \<Rightarrow> ('d, 'o) sys_state \<Rightarrow> ('d, 'o) sys_state option" where
  "athrill_syscall_system env arg st =
    do {
      i \<leftarrow> arg32 arg 0 st;
      let (r, st1) = os env (Os_system (''athrill_extfunc.sh '' @ digits_of 10 (unat i))) st;
      if or_ret r < 0 then Some st1 else set_ret arg 0 st1
    }"

section \<open>The heap of the guest\<close>

definition sys_malloc :: "('d, 'o) sys_env \<Rightarrow> uint32 \<Rightarrow> ('d, 'o) sys_state \<Rightarrow> (uint32 \<times> ('d, 'o) sys_state) option" where
  "sys_malloc env sz st =
    map_option (\<lambda>(a, h). (a, st\<lparr>sy_heap := h\<rparr>)) (mpu_malloc_get_memory sz (se_alloc env (sy_heap st)) (sy_heap st))"

definition athrill_syscall_malloc :: "('d, 'o) sys_env \<Rightarrow> hptr \<Rightarrow> ('d, 'o) sys_state \<Rightarrow> ('d, 'o) sys_state option" where
  "athrill_syscall_malloc env arg st =
    do {
      sz \<leftarrow> arg32 arg 0 st;
      if sz = 0 then put32 arg (BODY + 4) 0 st
      else do {
        (rptr, st1) \<leftarrow> sys_malloc env sz st;
        put32 arg (BODY + 4) rptr st1
      }
    }"

definition athrill_syscall_calloc :: "('d, 'o) sys_env \<Rightarrow> hptr \<Rightarrow> ('d, 'o) sys_state \<Rightarrow> ('d, 'o) sys_state option" where
  "athrill_syscall_calloc env arg st =
    do {
      nmemb \<leftarrow> arg32 arg 0 st;
      msize \<leftarrow> arg32 arg 4 st;
      if msize = 0 \<or> nmemb = 0 then put32 arg (BODY + 8) 0 st
      else do {
        let sz = msize * nmemb;
        (rptr, st1) \<leftarrow> sys_malloc env sz st;
        st2 \<leftarrow> put32 arg (BODY + 8) rptr st1;
        if rptr = 0 then Some st2
        else do {
          (addrp, st3) \<leftarrow> assert_pointer env rptr st2;
          mem_write addrp 0 (replicate (unat sz) 0) st3
        }
      }
    }"

text \<open>\<open>memcpy\<close> is undefined for overlapping ranges.\<close>

definition mem_copy :: "hptr \<Rightarrow> hptr \<Rightarrow> nat \<Rightarrow> ('d, 'o) sys_state \<Rightarrow> ('d, 'o) sys_state option" where
  "mem_copy dest src n st =
    (if fst dest = fst src \<and> snd dest < snd src + n \<and> snd src < snd dest + n then None
     else do { bs \<leftarrow> mem_read src 0 n st; mem_write dest 0 bs st })"

definition athrill_syscall_realloc :: "('d, 'o) sys_env \<Rightarrow> hptr \<Rightarrow> ('d, 'o) sys_state \<Rightarrow> ('d, 'o) sys_state option" where
  "athrill_syscall_realloc env arg st =
    do {
      sz \<leftarrow> arg32 arg 4 st;
      (rptr, st1) \<leftarrow> sys_malloc env sz st;
      st2 \<leftarrow> put32 arg (BODY + 8) rptr st1;
      if rptr = 0 then Some st2
      else do {
        ptr \<leftarrow> arg32 arg 0 st2;
        (src_addrp, st3) \<leftarrow> assert_pointer env ptr st2;
        (dest_addrp, st4) \<leftarrow> assert_pointer env rptr st3;
        n \<leftarrow> mpu_malloc_ref_size ptr (sy_heap st4);
        st5 \<leftarrow> mem_copy dest_addrp src_addrp n st4;
        ptr' \<leftarrow> arg32 arg 0 st5;
        h \<leftarrow> mpu_malloc_rel_memory ptr' (sy_heap st5);
        Some (st5\<lparr>sy_heap := h\<rparr>)
      }
    }"

definition athrill_syscall_free :: "hptr \<Rightarrow> ('d, 'o) sys_state \<Rightarrow> ('d, 'o) sys_state option" where
  "athrill_syscall_free arg st =
    do {
      ptr \<leftarrow> arg32 arg 0 st;
      h \<leftarrow> mpu_malloc_rel_memory ptr (sy_heap st);
      Some (st\<lparr>sy_heap := h\<rparr>)
    }"

section \<open>Files\<close>

text \<open>
  The string at a host pointer, up to its NUL, and \<open>strcpy\<close> of a string to one.
\<close>

definition host_string :: "hptr \<Rightarrow> ('d, 'o) sys_state \<Rightarrow> string option" where
  "host_string p st =
    (case p of (b, off) \<Rightarrow>
      if b < length (mpu_host (sy_mpu st))
      then let r = drop off (mpu_host (sy_mpu st) ! b); s = takeWhile (\<lambda>c. c \<noteq> 0) r
           in if length s < length r then Some (map (\<lambda>c. char_of (unat c)) s) else None
      else None)"

definition string_bytes :: "string \<Rightarrow> uint8 list" where
  "string_bytes s = map of_char s @ [0]"

text \<open>A string that is built in a local array of \<open>n\<close> characters.\<close>

definition in_buffer :: "nat \<Rightarrow> string \<Rightarrow> string option" where
  "in_buffer n s = (if length s < n then Some s else None)"

definition devcfg_string ::
  "('d, 'o) sys_env \<Rightarrow> string \<Rightarrow> string \<Rightarrow> ('d, 'o) sys_state \<Rightarrow> (string \<times> ('d, 'o) sys_state) option" where
  "devcfg_string env key dflt st =
    do {
      (v, cfg) \<leftarrow> cpuemu_get_devcfg_string (se_getenv env) key (sy_cfg st);
      Some (case v of None \<Rightarrow> dflt | Some s \<Rightarrow> s, st\<lparr>sy_cfg := cfg\<rparr>)
    }"

definition create_directory :: "('d, 'o) sys_env \<Rightarrow> string \<Rightarrow> ('d, 'o) sys_state \<Rightarrow> int \<times> ('d, 'o) sys_state" where
  "create_directory env dir st =
    (let (r, st1) = os env (Os_mkdir dir) st
     in (if or_ret r = - 1 \<and> or_errno r \<noteq> 17 then - 1 else 0, st1))"

definition getVirtualFileName ::
  "nat \<Rightarrow> ('d, 'o) sys_env \<Rightarrow> string \<Rightarrow> ('d, 'o) sys_state \<Rightarrow> (string \<times> ('d, 'o) sys_state) option" where
  "getVirtualFileName buf_size env file_name st =
    do {
      (vtop, st1) \<leftarrow>
        (case sy_virtfs_top st of
           Some vtop \<Rightarrow> Some (vtop, st)
         | None \<Rightarrow> do {
             (vtop, st1) \<leftarrow> devcfg_string env ''DEVICE_CONFIG_VIRTFS_TOP'' ''_ev3rtfs'' st;
             Some (vtop, snd (create_directory env vtop (st1\<lparr>sy_virtfs_top := Some vtop\<rparr>)))
           });
      name \<leftarrow> in_buffer buf_size (vtop @ ''/'' @ file_name);
      Some (name, st1)
    }"

text \<open>
  The flags of \<open>open\<close> between the guest, the interface and the host. A flag of the one side is set when any of
  the bits of the flag of the other is. The flags of the host are those of Linux.
\<close>

definition ATHRILL_OPEN_FLAGS :: "uint32 list" where
  "ATHRILL_OPEN_FLAGS = [0x0001, 0x0002, 0x0004, 0x0008, 0x0010, 0x0020, 0x0040, 0x0080, 0x0100, 0x0200]"

definition host_open_flags :: "uint32 list" where
  "host_open_flags = [0x400, 0x40, 0x80, 0x100, 0x800, 0x101000, 0x200, 0, 1, 2]"

definition translate_flags :: "(uint32 \<times> uint32) list \<Rightarrow> uint32 \<Rightarrow> uint32" where
  "translate_flags fs flags = foldl (\<lambda>acc (from_flag, to_flag). if flags AND from_flag \<noteq> 0 then acc OR to_flag else acc) 0 fs"

definition athrill_newlib_open_r_flag :: "uint32 list \<Rightarrow> uint32 \<Rightarrow> uint32" where
  "athrill_newlib_open_r_flag guest_flags = translate_flags (zip guest_flags ATHRILL_OPEN_FLAGS)"

definition athrill_syscall_open_r_flag :: "uint32 \<Rightarrow> uint32" where
  "athrill_syscall_open_r_flag = translate_flags (zip ATHRILL_OPEN_FLAGS host_open_flags)"

definition athrill_syscall_open_r :: "('d, 'o) sys_env \<Rightarrow> hptr \<Rightarrow> ('d, 'o) sys_state \<Rightarrow> ('d, 'o) sys_state option" where
  "athrill_syscall_open_r env arg st =
    do {
      file_name \<leftarrow> arg32 arg 0 st;
      flags \<leftarrow> arg32 arg 4 st;
      mode \<leftarrow> arg32 arg 8 st;
      (namep, st1) \<leftarrow> assert_pointer env file_name st;
      name \<leftarrow> host_string namep st1;
      (path, st2) \<leftarrow> getVirtualFileName 255 env name st1;
      let (r, st3) = os env (Os_open path (athrill_syscall_open_r_flag flags) (sint mode)) st2;
      set_ret arg (or_ret r) st3
    }"

text \<open>The table of the descriptors that have a second one for writing.\<close>

definition SPECIAL_FD_NUM :: nat where "SPECIAL_FD_NUM = 1024"

definition get_correspond_fd :: "int \<Rightarrow> int list \<Rightarrow> int option" where
  "get_correspond_fd fd fds =
    (if 0 \<le> fd \<and> fd < int SPECIAL_FD_NUM
     then do { c \<leftarrow> index_at fds (nat fd); Some (if c \<noteq> 0 then c else fd) } else None)"

definition set_correspond_fd :: "int \<Rightarrow> int \<Rightarrow> int list \<Rightarrow> int list option" where
  "set_correspond_fd fd c fds = (if 0 \<le> fd \<and> fd < int SPECIAL_FD_NUM then update_at fds (nat fd) c else None)"

fun std_code :: "Std_ReturnType \<Rightarrow> int" where
  "std_code STD_E_OK = 0"
| "std_code STD_E_DECODE = 1"
| "std_code STD_E_EXEC = 2"
| "std_code STD_E_SEGV = 3"
| "std_code STD_E_INVALID = 4"
| "std_code STD_E_NOENT = 5"
| "std_code STD_E_LIMIT = 6"
| "std_code STD_E_PERM = 7"

definition athrill_syscall_read_r :: "('d, 'o) sys_env \<Rightarrow> hptr \<Rightarrow> ('d, 'o) sys_state \<Rightarrow> ('d, 'o) sys_state option" where
  "athrill_syscall_read_r env arg st =
    do {
      fd \<leftarrow> arg32 arg 0 st;
      sz \<leftarrow> arg32 arg 8 st;
      bufa \<leftarrow> arg32 arg 4 st;
      ((err, p), st1) \<leftarrow> guest_pointer env bufa st;
      if err \<noteq> STD_E_OK then set_ret arg (std_code err) st1
      else do {
        buf \<leftarrow> p;
        c \<leftarrow> get_correspond_fd (sint fd) (sy_fds st1);
        let (r, st2) = os env (Os_read (sint fd) (unat sz)) st1;
        st3 \<leftarrow> mem_write buf 0 (or_bytes r) st2;
        let (ret, errno) = (if or_ret r = 0 \<and> c \<noteq> sint fd then (- 1, 0) else (or_ret r, or_errno r));
        st4 \<leftarrow> set_ret arg ret st3;
        st5 \<leftarrow> put32 arg RET_ERRNO 0 st4;
        if ret = - 1 \<and> (errno = EAGAIN \<or> errno = 29) then put32 arg RET_ERRNO (- 11) st5 else Some st5
      }
    }"

definition athrill_syscall_write_r :: "('d, 'o) sys_env \<Rightarrow> hptr \<Rightarrow> ('d, 'o) sys_state \<Rightarrow> ('d, 'o) sys_state option" where
  "athrill_syscall_write_r env arg st =
    do {
      fd \<leftarrow> arg32 arg 0 st;
      sz \<leftarrow> arg32 arg 8 st;
      bufa \<leftarrow> arg32 arg 4 st;
      ((err, p), st1) \<leftarrow> guest_pointer env bufa st;
      if err \<noteq> STD_E_OK then set_ret arg (std_code err) st1
      else do {
        buf \<leftarrow> p;
        actual_fd \<leftarrow> get_correspond_fd (sint fd) (sy_fds st1);
        bs \<leftarrow> mem_read buf 0 (unat sz) st1;
        let (r, st2) = os env (Os_write actual_fd bs) st1;
        set_ret arg (or_ret r) st2
      }
    }"

definition athrill_syscall_close_r :: "('d, 'o) sys_env \<Rightarrow> hptr \<Rightarrow> ('d, 'o) sys_state \<Rightarrow> ('d, 'o) sys_state option" where
  "athrill_syscall_close_r env arg st =
    do {
      fdw \<leftarrow> arg32 arg 0 st;
      let fd = sint fdw;
      c \<leftarrow> get_correspond_fd fd (sy_fds st);
      st1 \<leftarrow> (if c \<noteq> fd
              then do {
                fds \<leftarrow> set_correspond_fd fd 0 (sy_fds st);
                Some ((snd (os env (Os_close c) st))\<lparr>sy_fds := fds\<rparr>)
              }
              else Some st);
      let (r, st2) = os env (Os_close fd) st1;
      set_ret arg (or_ret r) st2
    }"

definition athrill_syscall_lseek_r :: "('d, 'o) sys_env \<Rightarrow> hptr \<Rightarrow> ('d, 'o) sys_state \<Rightarrow> ('d, 'o) sys_state option" where
  "athrill_syscall_lseek_r env arg st =
    do {
      fd \<leftarrow> arg32 arg 0 st;
      offset \<leftarrow> arg32 arg 4 st;
      whence \<leftarrow> arg32 arg 8 st;
      let (r, st1) = os env (Os_lseek (sint fd) offset (sint whence)) st;
      set_ret arg (or_ret r) st1
    }"

definition athrill_syscall_set_virtfs_top :: "('d, 'o) sys_env \<Rightarrow> hptr \<Rightarrow> ('d, 'o) sys_state \<Rightarrow> ('d, 'o) sys_state option" where
  "athrill_syscall_set_virtfs_top env arg st =
    do {
      st1 \<leftarrow> set_ret arg (- 1) st;
      if sy_virtfs_top st1 \<noteq> None then Some st1
      else do {
        top_dir \<leftarrow> arg32 arg 0 st1;
        (p, st2) \<leftarrow> assert_pointer env top_dir st1;
        dir \<leftarrow> host_string p st2;
        let (r, st3) = os env (Os_mkdir dir) st2;
        if or_ret r = - 1 \<and> or_errno r \<noteq> 17 then Some st3
        else set_ret arg 0 (st3\<lparr>sy_virtfs_top := Some dir\<rparr>)
      }
    }"

section \<open>Directories\<close>

definition get_free_dir :: "dir_element list \<Rightarrow> (nat \<times> dir_element list) option" where
  "get_free_dir dirs =
    map_option (\<lambda>i. (i, dirs[i := (dirs ! i)\<lparr>de_is_used := True\<rparr>])) (find_first (\<lambda>d. \<not> de_is_used d) dirs)"

text \<open>\<open>GETDIR\<close> and \<open>GETDIRID\<close> count the entries from 1.\<close>

definition GETDIR :: "int \<Rightarrow> dir_element list \<Rightarrow> nat option" where
  "GETDIR dirid dirs = (if 0 \<le> dirid - 1 \<and> dirid - 1 < int (length dirs) then Some (nat (dirid - 1)) else None)"

definition release_dir :: "nat \<Rightarrow> dir_element list \<Rightarrow> dir_element list" where
  "release_dir i dirs = dirs[i := (dirs ! i)\<lparr>de_is_used := False\<rparr>]"

definition athrill_syscall_ev3_opendir :: "('d, 'o) sys_env \<Rightarrow> hptr \<Rightarrow> ('d, 'o) sys_state \<Rightarrow> ('d, 'o) sys_state option" where
  "athrill_syscall_ev3_opendir env arg st =
    (case get_free_dir (sy_dirs st) of
       None \<Rightarrow> set_ret arg (- 34) st
     | Some (i, dirs) \<Rightarrow>
        do {
          let st1 = st\<lparr>sy_dirs := dirs\<rparr>;
          path \<leftarrow> arg32 arg 0 st1;
          (p, st2) \<leftarrow> assert_pointer env path st1;
          name \<leftarrow> host_string p st2;
          (buf, st3) \<leftarrow> getVirtualFileName 256 env name st2;
          let (r, st4) = os env (Os_opendir buf) st3;
          let st5 = st4\<lparr>sy_dirs := (sy_dirs st4)[i := (sy_dirs st4 ! i)\<lparr>de_dir := nat (or_ret r)\<rparr>]\<rparr>;
          if or_ret r = 0
          then put32 arg (BODY + 4) (- 17) (st5\<lparr>sy_dirs := release_dir i (sy_dirs st5)\<rparr>)
          else do {
            st6 \<leftarrow> set_ret arg 0 st5;
            st7 \<leftarrow> put32 arg (BODY + 4) (of_nat (i + 1)) st6;
            Some (st7\<lparr>sy_dirs := (sy_dirs st7)[i := (sy_dirs st7 ! i)\<lparr>de_path := buf\<rparr>]\<rparr>)
          }
        })"

text \<open>
  The loop over the entries \<open>.\<close> and \<open>..\<close>. A directory entry without an open
  directory holds no pointer or one that was closed.
\<close>

partial_function (option) readdir_loop ::
  "('d, 'o) sys_env \<Rightarrow> nat \<Rightarrow> ('d, 'o) sys_state \<Rightarrow> (os_result \<times> ('d, 'o) sys_state) option" where
  "readdir_loop env dirp st =
    (let (r, st1) = os env (Os_readdir dirp) st
     in if or_name r = Some ''.'' \<or> or_name r = Some ''..'' then readdir_loop env dirp st1 else Some (r, st1))"

definition athrill_syscall_ev3_readdir :: "('d, 'o) sys_env \<Rightarrow> hptr \<Rightarrow> ('d, 'o) sys_state \<Rightarrow> ('d, 'o) sys_state option" where
  "athrill_syscall_ev3_readdir env arg st =
    do {
      dirid \<leftarrow> arg32 arg 0 st;
      case GETDIR (sint dirid) (sy_dirs st) of
        None \<Rightarrow> set_ret arg (- 18) st
      | Some i \<Rightarrow>
         (let de = sy_dirs st ! i
          in if \<not> de_is_used de then None
             else do {
               (r, st1) \<leftarrow> readdir_loop env (de_dir de) st;
               case or_name r of
                 None \<Rightarrow> set_ret arg (if or_errno r = 0 then - 41 else - 18) st1
               | Some d_name \<Rightarrow> do {
                   name \<leftarrow> arg32 arg 16 st1;
                   (namep, st2) \<leftarrow> assert_pointer env name st1;
                   st3 \<leftarrow> mem_write namep 0 (string_bytes d_name) st2;
                   path \<leftarrow> in_buffer 255 (de_path de @ ''/'' @ d_name);
                   let (r2, st4) = os env (Os_stat path) st3;
                   if or_ret r2 \<noteq> 0 then set_ret arg (- 5) st4
                   else case or_stat r2 of (yday, seconds, fsize, is_dir) \<Rightarrow> do {
                     st5 \<leftarrow> mem_write arg (BODY + 8) (le_encode 2 (ucast yday :: uint16)) st4;
                     st6 \<leftarrow> mem_write arg (BODY + 10) (le_encode 2 (ucast seconds :: uint16)) st5;
                     st7 \<leftarrow> put32 arg (BODY + 4) fsize st6;
                     st8 \<leftarrow> mem_write arg (BODY + 12) [if is_dir then 1 else 0] st7;
                     set_ret arg 0 st8
                   }
                 }
             })
    }"

definition athrill_syscall_ev3_closedir :: "('d, 'o) sys_env \<Rightarrow> hptr \<Rightarrow> ('d, 'o) sys_state \<Rightarrow> ('d, 'o) sys_state option" where
  "athrill_syscall_ev3_closedir env arg st =
    do {
      dirid \<leftarrow> arg32 arg 0 st;
      case GETDIR (sint dirid) (sy_dirs st) of
        None \<Rightarrow> set_ret arg (- 18) st
      | Some i \<Rightarrow>
         (let de = sy_dirs st ! i
          in if \<not> de_is_used de then None
             else let (r, st1) = os env (Os_closedir (de_dir de)) st
                  in if or_ret r = 0
                     then set_ret arg 0 (st1\<lparr>sy_dirs := release_dir i (sy_dirs st1)\<rparr>)
                     else set_ret arg (- 18) st1)
    }"

section \<open>Serial lines\<close>

text \<open>Reading a pipe until it is empty.\<close>

partial_function (option) drain_pipe :: "('d, 'o) sys_env \<Rightarrow> int \<Rightarrow> ('d, 'o) sys_state \<Rightarrow> ('d, 'o) sys_state option" where
  "drain_pipe env fd st =
    (let (r, st1) = os env (Os_read fd 255) st in if or_ret r > 0 then drain_pipe env fd st1 else Some st1)"

definition create_pipe ::
  "('d, 'o) sys_env \<Rightarrow> string \<Rightarrow> bool \<Rightarrow> ('d, 'o) sys_state \<Rightarrow> (int \<times> ('d, 'o) sys_state) option" where
  "create_pipe env path is_read st =
    do {
      let (r, st1) = os env (Os_stat path) st;
      st4 \<leftarrow>
        (if or_ret r = 0
         then do {
           let (t, st2) = os env (Os_open path 0x800 0) st1;
           st3 \<leftarrow> drain_pipe env (or_ret t) st2;
           Some (snd (os env (Os_close (or_ret t)) st3))
         }
         else Some (snd (os env (Os_mkfifo path) st1)));
      let (q, st5) = os env (Os_open path (if is_read then 0x800 else 0x802) 0) st4;
      Some (or_ret q, st5)
    }"

definition create_pipe_pair ::
  "('d, 'o) sys_env \<Rightarrow> string \<Rightarrow> ('d, 'o) sys_state \<Rightarrow> (int \<times> ('d, 'o) sys_state) option" where
  "create_pipe_pair env path st =
    do {
      path_out \<leftarrow> in_buffer 255 (path @ ''_out'');
      path_in \<leftarrow> in_buffer 255 (path @ ''_in'');
      (fd_out, st1) \<leftarrow> create_pipe env path_out False st;
      (fd_in, st2) \<leftarrow> create_pipe env path_in True st1;
      fds \<leftarrow> set_correspond_fd fd_in fd_out (sy_fds st2);
      Some (fd_in, st2\<lparr>sy_fds := fds\<rparr>)
    }"

definition athrill_syscall_ev3_serial_open :: "('d, 'o) sys_env \<Rightarrow> hptr \<Rightarrow> ('d, 'o) sys_state \<Rightarrow> ('d, 'o) sys_state option" where
  "athrill_syscall_ev3_serial_open env arg st =
    do {
      port \<leftarrow> arg32 arg 0 st;
      (fd, st1) \<leftarrow>
        (if port = 0 then Some (0, st)
         else if port = 1 then do {
           (path_base, st1) \<leftarrow> devcfg_string env ''DEVICE_CONFIG_UART_BASENAME'' ''__ev3rt_uart'' st;
           create_pipe_pair env path_base st1
         }
         else if port = 2 then do {
           (path_base, st1) \<leftarrow> devcfg_string env ''DEVICE_CONFIG_BT_BASENAME'' ''__ev3rt_bt'' st;
           create_pipe_pair env path_base st1
         }
         else Some (- 1, st));
      set_ret arg fd st1
    }"

section \<open>Other calls\<close>

definition athrill_syscall_exit :: "hptr \<Rightarrow> ('d, 'o) sys_state \<Rightarrow> ('d, 'o) sys_state option" where
  "athrill_syscall_exit arg st = do { status \<leftarrow> arg32 arg 0 st; Some (st\<lparr>sy_exit := Some (sint status)\<rparr>) }"

fun put_masks ::
  "('d, 'o) sys_env \<Rightarrow> hptr \<Rightarrow> hptr \<Rightarrow> nat list \<Rightarrow> ('d, 'o) sys_state \<Rightarrow> ('d, 'o) sys_state option" where
  "put_masks env imr disint [] st = Some st"
| "put_masks env imr disint (i # ns) st =
    do {
      a \<leftarrow> get16 imr (2 * i) st;
      b \<leftarrow> get16 disint (2 * i) st;
      (_, s) \<leftarrow> (if i < 7 then mpu_put_data16 (se_mpu env) 0 (0xFFFFF100 + of_nat (2 * i)) (a OR b) (sy_mpu st)
                 else mpu_put_data8 (se_mpu env) 0 0xFFFFF10E (ucast (a OR b)) (sy_mpu st));
      put_masks env imr disint ns (set_mpu s st)
    }"

definition athrill_syscall_v850_set_intpri :: "('d, 'o) sys_env \<Rightarrow> hptr \<Rightarrow> ('d, 'o) sys_state \<Rightarrow> ('d, 'o) sys_state option" where
  "athrill_syscall_v850_set_intpri env arg st =
    do {
      imr_table \<leftarrow> arg32 arg 0 st;
      disint_table \<leftarrow> arg32 arg 4 st;
      (imr, st1) \<leftarrow> assert_pointer env imr_table st;
      (disint, st2) \<leftarrow> assert_pointer env disint_table st1;
      put_masks env imr disint [0..<8] st2
    }"

definition athrill_syscall_reset_time :: "('d, 'o) sys_env \<Rightarrow> ('d, 'o) sys_state \<Rightarrow> ('d, 'o) sys_state" where
  "athrill_syscall_reset_time env st = (let (r, st1) = os env Os_clock_gettime st in st1\<lparr>sy_start_time := or_bytes r\<rparr>)"

definition athrill_syscall_show_time :: "('d, 'o) sys_env \<Rightarrow> ('d, 'o) sys_state \<Rightarrow> ('d, 'o) sys_state" where
  "athrill_syscall_show_time env st = snd (os env Os_clock_gettime st)"

definition SYS_API_ID_NUM :: nat where "SYS_API_ID_NUM = 30"

definition syscall_table ::
  "('d, 'o) sys_env \<Rightarrow> hptr \<Rightarrow> (('d, 'o) sys_state \<Rightarrow> ('d, 'o) sys_state option) list" where
  "syscall_table env arg =
    [athrill_syscall_none arg, athrill_syscall_socket env arg, athrill_syscall_sense env arg,
     athrill_syscall_bind env arg, athrill_syscall_listen env arg, athrill_syscall_accept env arg,
     athrill_syscall_connect env arg, athrill_syscall_select env arg, athrill_syscall_send env arg,
     athrill_syscall_recv env arg, athrill_syscall_shutdown env arg, athrill_syscall_system env arg,
     athrill_syscall_malloc env arg, athrill_syscall_calloc env arg, athrill_syscall_realloc env arg,
     athrill_syscall_free arg,
     athrill_syscall_open_r env arg, athrill_syscall_read_r env arg, athrill_syscall_write_r env arg,
     athrill_syscall_close_r env arg, athrill_syscall_lseek_r env arg, athrill_syscall_set_virtfs_top env arg,
     athrill_syscall_ev3_opendir env arg, athrill_syscall_ev3_readdir env arg, athrill_syscall_ev3_closedir env arg,
     athrill_syscall_ev3_serial_open env arg, athrill_syscall_exit arg, athrill_syscall_v850_set_intpri env arg,
     (\<lambda>st. Some (athrill_syscall_reset_time env st)), (\<lambda>st. Some (athrill_syscall_show_time env st))]"

definition athrill_syscall_device ::
  "('d, 'o) sys_env \<Rightarrow> uint32 \<Rightarrow> ('d, 'o) sys_state \<Rightarrow> ('d, 'o) sys_state option" where
  "athrill_syscall_device env addr st =
    with_pointer env addr st (\<lambda>argp st1. do {
      api_id \<leftarrow> get32 argp 0 st1;
      if unat api_id \<ge> SYS_API_ID_NUM then Some st1 else (syscall_table env argp ! unat api_id) st1
    })"

section \<open>The word that asks for a call\<close>

text \<open>
  The device of athrill_device.c: the addresses of its two words, the pointer to the first one once it is known, and the table of the
  mapped files that a guest locks by storing their host address. After the call \<open>exit\<close> the process is over: nothing is done with
  a state that has \<open>sy_exit\<close>.
\<close>

record mmap_entry =
  me_locked :: bool
  me_addr :: uint32
  me_fd :: int

record ('d, 'o) adev_state =
  ad_sys :: "('d, 'o) sys_state"
  ad_func_call_addr :: uint32
  ad_raise_addr :: uint32
  ad_syscall_p :: "hptr option"
  ad_mmap :: "mmap_entry list"
  ad_intr :: "uint32 list"

definition athrill_device_set_mmap_info :: "uint32 \<Rightarrow> int \<Rightarrow> ('d, 'o) adev_state \<Rightarrow> ('d, 'o) adev_state" where
  "athrill_device_set_mmap_info addr fd st =
    st\<lparr>ad_mmap := ad_mmap st @ [\<lparr>me_locked = False, me_addr = addr, me_fd = fd\<rparr>]\<rparr>"

definition getMmapInfo :: "uint32 \<Rightarrow> mmap_entry list \<Rightarrow> nat option" where
  "getMmapInfo addr es = find_first (\<lambda>e. addr = me_addr e) es"

definition toggle_lock ::
  "('d, 'o) sys_env \<Rightarrow> nat \<Rightarrow> ('d, 'o) adev_state \<Rightarrow> ('d, 'o) adev_state option" where
  "toggle_lock env i st =
    (let e = ad_mmap st ! i; (r, sys) = os env (Os_flock (me_fd e) (\<not> me_locked e)) (ad_sys st)
     in if or_ret r \<noteq> 0 then None
        else Some (st\<lparr>ad_sys := sys, ad_mmap := (ad_mmap st)[i := e\<lparr>me_locked := \<not> me_locked e\<rparr>]\<rparr>))"

definition adev_put ::
  "('d, 'o) sys_env \<Rightarrow> uint32 \<Rightarrow> ('d, 'o) adev_state \<Rightarrow> ('d, 'o) adev_state option" where
  "adev_put env addr st =
    map_option (\<lambda>(_, s). st\<lparr>ad_sys := set_mpu s (ad_sys st)\<rparr>) (mpu_put_data32 (se_mpu env) 0 addr 0 (sy_mpu (ad_sys st)))"

text \<open>The pointer to the word: known, found now, or not there.\<close>

definition func_call_pointer ::
  "('d, 'o) sys_env \<Rightarrow> ('d, 'o) adev_state \<Rightarrow> (hptr option \<times> ('d, 'o) adev_state) option" where
  "func_call_pointer env st =
    (case ad_syscall_p st of
       Some p \<Rightarrow> Some (Some p, st)
     | None \<Rightarrow>
        if ad_func_call_addr st = 0 then Some (None, st)
        else do {
          ((err, p), sys) \<leftarrow> guest_pointer env (ad_func_call_addr st) (ad_sys st);
          let st1 = st\<lparr>ad_sys := sys\<rparr>;
          if err \<noteq> STD_E_OK then Some (None, st1)
          else do { q \<leftarrow> p; Some (Some q, st1\<lparr>ad_syscall_p := Some q\<rparr>) }
        })"

definition do_athrill_device_func_call ::
  "('d, 'o) sys_env \<Rightarrow> ('d, 'o) adev_state \<Rightarrow> ('d, 'o) adev_state option" where
  "do_athrill_device_func_call env st =
    do {
      (p, st1) \<leftarrow> func_call_pointer env st;
      case p of
        None \<Rightarrow> Some st1
      | Some q \<Rightarrow> do {
          data \<leftarrow> get32 q 0 (ad_sys st1);
          if data = 0 then Some st1
          else do {
            st2 \<leftarrow> (case getMmapInfo data (ad_mmap st1) of
                      Some i \<Rightarrow> toggle_lock env i st1
                    | None \<Rightarrow> map_option (\<lambda>sys. st1\<lparr>ad_sys := sys\<rparr>) (athrill_syscall_device env data (ad_sys st1)));
            if sy_exit (ad_sys st2) \<noteq> None then Some st2 else adev_put env (ad_func_call_addr st2) st2
          }
        }
    }"

definition do_athrill_device_external_raise_interrupt ::
  "('d, 'o) sys_env \<Rightarrow> ('d, 'o) adev_state \<Rightarrow> ('d, 'o) adev_state option" where
  "do_athrill_device_external_raise_interrupt env st =
    (if ad_raise_addr st = 0 then Some st
     else do {
       (err, data, s) \<leftarrow> mpu_get_data32 (se_mpu env) 0 (ad_raise_addr st) 0 (sy_mpu (ad_sys st));
       let st1 = st\<lparr>ad_sys := set_mpu s (ad_sys st)\<rparr>;
       if err \<noteq> STD_E_OK \<or> data = 0 then Some st1
       else map_option (\<lambda>st2. st2\<lparr>ad_intr := ad_intr st2 @ [data]\<rparr>) (adev_put env (ad_raise_addr st1) st1)
     })"

definition device_supply_clock_athrill_device ::
  "('d, 'o) sys_env \<Rightarrow> ('d, 'o) adev_state \<Rightarrow> ('d, 'o) adev_state option" where
  "device_supply_clock_athrill_device env st =
    do {
      st1 \<leftarrow> do_athrill_device_func_call env st;
      if sy_exit (ad_sys st1) \<noteq> None then Some st1 else do_athrill_device_external_raise_interrupt env st1
    }"

end
