(* ===== verification/SyscallLaws.thy ===== *)
theory SyscallLaws
  imports
    Syscall
    MpuMallocLaws
    MpuFlat
begin

text \<open>
  The laws of the system calls. The first section shows that every call keeps the types of the state: the
  sizes of the tables, the shape of the groups of the heap, and the memory behind the regions.
\<close>

section \<open>Types of the state\<close>

definition unit_typed :: "'d mpu_state \<Rightarrow> nat \<Rightarrow> MallocRegionUnitType \<Rightarrow> bool" where
  "unit_typed s i u \<longleftrightarrow>
    (\<exists>k bm. mu_region u = Some k \<and> k < length (mpu_dynamic_map s) \<and> rg_size (mpu_dynamic_map s ! k) = 0x100000 \<and>
      mu_bitmap u = Some bm \<and> length bm = bitmapsize i)"

definition heap_typed :: "'d malloc_state \<Rightarrow> bool" where
  "heap_typed h \<longleftrightarrow>
    (\<forall>j<length (ml_groups h). length (mg_unit (ml_groups h ! j)) = MallocSize_Num \<and>
      (\<forall>i<MallocSize_Num. unit_typed (ml_mpu h) i (unit_of (ml_groups h) i j)))"

definition sys_typed :: "('d, 'o) sys_state \<Rightarrow> bool" where
  "sys_typed st \<longleftrightarrow> heap_typed (sy_heap st) \<and> mpu_wf (sy_mpu st) \<and> length (sy_fds st) = SPECIAL_FD_NUM \<and>
    length (sy_dirs st) = 10"

text \<open>What the calls rely on: the host allocator gives a block of the size asked for, and a device does not resize the
  memory of the host.\<close>

definition alloc_typed :: "('d, 'o) sys_env \<Rightarrow> bool" where
  "alloc_typed env \<longleftrightarrow> (\<forall>h blk. se_alloc env h = Some blk \<longrightarrow> length blk = 2 ^ 20)"

definition devices_typed :: "'d mpu_env \<Rightarrow> bool" where
  "devices_typed env \<longleftrightarrow>
    (\<forall>n g r c a v ds h. op_put_data8 (env_dev env n) = Some g \<longrightarrow> map length (snd (snd (g r c a v (ds, h)))) = map length h) \<and>
    (\<forall>n g r c a v ds h. op_put_data16 (env_dev env n) = Some g \<longrightarrow> map length (snd (snd (g r c a v (ds, h)))) = map length h) \<and>
    (\<forall>n g r c a v ds h. op_put_data32 (env_dev env n) = Some g \<longrightarrow> map length (snd (snd (g r c a v (ds, h)))) = map length h) \<and>
    (\<forall>n g r c a v ds h. op_get_data32 (env_dev env n) = Some g \<longrightarrow>
      map length (snd (snd (snd (g r c a v (ds, h))))) = map length h)"

lemma mpu_wf_frame:
  assumes "map length (mpu_host s') = map length (mpu_host s)" "mpu_dynamic_map s' = mpu_dynamic_map s" "mpu_map s' = mpu_map s"
  shows "mpu_wf s' = mpu_wf s"
  by (simp add: mpu_wf_def assms(2,3) region_backed_lengths [OF assms(1)])

lemma heap_typed_frame: "mpu_dynamic_map s = mpu_dynamic_map (ml_mpu h) \<Longrightarrow> heap_typed (h\<lparr>ml_mpu := s\<rparr>) = heap_typed h"
  by (simp add: heap_typed_def unit_typed_def)

lemma set_mpu_typed:
  assumes "sys_typed st" "map length (mpu_host s) = map length (mpu_host (sy_mpu st))"
    "mpu_dynamic_map s = mpu_dynamic_map (sy_mpu st)" "mpu_map s = mpu_map (sy_mpu st)"
  shows "sys_typed (set_mpu s st)"
  using assms mpu_wf_frame [OF assms(2-4)] heap_typed_frame [OF assms(3)] by (simp add: sys_typed_def set_mpu_def)

lemma mem_write_typed: "mem_write p off bs st = Some st' \<Longrightarrow> sys_typed st \<Longrightarrow> sys_typed st'"
  using host_write_lengths [of "mpu_host (sy_mpu st)" "ptr_add p off" bs] by (auto simp: mem_write_def intro: set_mpu_typed)

lemma put32_typed: "put32 p off v st = Some st' \<Longrightarrow> sys_typed st \<Longrightarrow> sys_typed st'"
  by (simp add: put32_def mem_write_typed)

lemma set_ret_typed: "set_ret arg v st = Some st' \<Longrightarrow> sys_typed st \<Longrightarrow> sys_typed st'"
  by (simp add: set_ret_def put32_typed)

lemma ret_or_errno_typed: "ret_or_errno arg v r st = Some st' \<Longrightarrow> sys_typed st \<Longrightarrow> sys_typed st'"
  by (simp add: ret_or_errno_def set_ret_typed)

lemma os_typed: "os env c st = (r, st') \<Longrightarrow> sys_typed st \<Longrightarrow> sys_typed st'"
  by (auto simp: os_def sys_typed_def split: prod.splits)

lemma os_typed_snd: "sys_typed st \<Longrightarrow> sys_typed (snd (os env c st))"
  by (auto simp: os_def sys_typed_def split: prod.splits)

lemma mpu_get_pointer_frame:
  "mpu_get_pointer env c a s = Some (err, p, s') \<Longrightarrow> \<exists>w. s' = s\<lparr>mpu_prev_w := w\<rparr>"
  by (auto simp: mpu_get_pointer_def search_region_def Let_def split: prod.splits option.splits MpuOps.splits)

lemma guest_pointer_typed: "guest_pointer env a st = Some (x, st') \<Longrightarrow> sys_typed st \<Longrightarrow> sys_typed st'"
  by (auto simp: guest_pointer_def dest!: mpu_get_pointer_frame intro: set_mpu_typed)

lemma assert_pointer_typed: "assert_pointer env a st = Some (p, st') \<Longrightarrow> sys_typed st \<Longrightarrow> sys_typed st'"
  by (auto simp: assert_pointer_def bind_eq_Some_conv split: if_splits dest: guest_pointer_typed)

lemma with_pointer_typed:
  assumes "with_pointer env a st body = Some st'" "sys_typed st" "\<And>p s. sys_typed s \<Longrightarrow> body p s = Some st' \<Longrightarrow> sys_typed st'"
  shows "sys_typed st'"
  using assms by (auto simp: with_pointer_def bind_eq_Some_conv split: if_splits dest: guest_pointer_typed)

lemma opt_pointer_typed:
  assumes "opt_pointer env a st body = Some st'" "sys_typed st" "\<And>p s. sys_typed s \<Longrightarrow> body p s = Some st' \<Longrightarrow> sys_typed st'"
  shows "sys_typed st'"
  using assms by (auto simp: opt_pointer_def split: if_splits elim: with_pointer_typed)

lemma tables_typed:
  "sys_typed st \<Longrightarrow> sys_typed (st\<lparr>sy_cfg := cfg\<rparr>)"
  "sys_typed st \<Longrightarrow> sys_typed (st\<lparr>sy_virtfs_top := t\<rparr>)"
  "sys_typed st \<Longrightarrow> sys_typed (st\<lparr>sy_start_time := x\<rparr>)"
  "sys_typed st \<Longrightarrow> sys_typed (st\<lparr>sy_exit := e\<rparr>)"
  "sys_typed st \<Longrightarrow> length fds = SPECIAL_FD_NUM \<Longrightarrow> sys_typed (st\<lparr>sy_fds := fds\<rparr>)"
  "sys_typed st \<Longrightarrow> length dirs = 10 \<Longrightarrow> sys_typed (st\<lparr>sy_dirs := dirs\<rparr>)"
  by (simp_all add: sys_typed_def)

lemma sys_typed_fds: "sys_typed st \<Longrightarrow> set_correspond_fd fd c (sy_fds st) = Some fds \<Longrightarrow> length fds = SPECIAL_FD_NUM"
  by (auto simp: sys_typed_def set_correspond_fd_def update_at_def split: if_splits)

section \<open>The heap\<close>

lemma back_region_typed:
  assumes "back_region k alloc s = Some s'" "mpu_wf s" "k < length (mpu_dynamic_map s)"
    "rg_size (mpu_dynamic_map s ! k) = 0x100000" "\<forall>blk. alloc = Some blk \<longrightarrow> length blk = 2 ^ 20"
  shows "mpu_wf s' \<and> same_regions s s'"
proof (cases "rg_data (mpu_dynamic_map s ! k)")
  case None
  with assms(1) obtain blk where blk: "alloc = Some blk" "s' = set_region_data k (length (mpu_host s), 0) (s\<lparr>mpu_host := mpu_host s @ [blk]\<rparr>)"
    by (auto simp: back_region_def add_block_def split: option.splits)
  let ?r = "(mpu_dynamic_map s ! k)\<lparr>rg_data := Some (length (mpu_host s), 0)\<rparr>"
  have "region_backed (mpu_host s @ [blk]) ?r" using assms(4,5) blk(1) by (simp add: region_backed_def)
  moreover have "set ((mpu_dynamic_map s)[k := ?r]) \<subseteq> Set.insert ?r (set (mpu_dynamic_map s))" by (rule set_update_subset_insert)
  ultimately have "mpu_wf s'"
    using assms(2) region_backed_append [of "mpu_host s" _ blk] unfolding mpu_wf_def blk(2)
    by (auto simp: set_region_data_def)
  moreover have "same_regions s s'"
    using assms(3) by (simp add: blk(2) set_region_data_def same_regions_def nth_list_update)
  ultimately show ?thesis by simp
next
  case (Some p)
  with assms(1,2) show ?thesis by (simp add: back_region_def)
qed

lemma unit_typed_frame: "same_regions s s' \<Longrightarrow> unit_typed s' i u = unit_typed s i u"
  by (auto simp: unit_typed_def same_regions_def)

lemma set_unit_typed:
  assumes "heap_typed h" "i < MallocSize_Num" "j < length (ml_groups h)" "same_regions (ml_mpu h) s'" "unit_typed (ml_mpu h) i u"
  shows "heap_typed \<lparr>ml_groups = set_unit (ml_groups h) i j u, ml_mpu = s'\<rparr>"
proof -
  have len: "i < length (mg_unit (ml_groups h ! j))" using assms(1-3) by (simp add: heap_typed_def)
  show ?thesis using assms by (simp add: heap_typed_def unit_of_set_unit [OF assms(3) len] unit_typed_frame [OF assms(4)])
qed

lemma unit_typedE:
  assumes "heap_typed h" "i < MallocSize_Num" "j < length (ml_groups h)"
  obtains k bm where "mu_region (unit_of (ml_groups h) i j) = Some k" "k < length (mpu_dynamic_map (ml_mpu h))"
    "rg_size (mpu_dynamic_map (ml_mpu h) ! k) = 0x100000" "mu_bitmap (unit_of (ml_groups h) i j) = Some bm" "length bm = bitmapsize i"
proof -
  have "unit_typed (ml_mpu h) i (unit_of (ml_groups h) i j)" using assms by (simp add: heap_typed_def)
  then show thesis using that by (auto simp: unit_typed_def)
qed

lemma set_bit_map_length: "set_bit_map bm n m = Some (x, bm') \<Longrightarrow> length bm' = length bm"
  by (auto simp: set_bit_map_def Let_def bind_eq_Some_conv split: if_splits option.splits prod.splits)

lemma get_memory_typed:
  assumes "mpu_malloc_get_memory sz alloc h = Some (a, h')" "heap_typed h" "mpu_wf (ml_mpu h)"
    "\<forall>blk. alloc = Some blk \<longrightarrow> length blk = 2 ^ 20"
  shows "heap_typed h' \<and> mpu_wf (ml_mpu h')"
proof (cases "h' = h")
  case True
  with assms show ?thesis by simp
next
  case False
  with assms(1) obtain c n i j bm x bm' k s1 where
    c: "c < MallocSize_Num" and n: "n < length (unit_order c (length (ml_groups h)))" "unit_order c (length (ml_groups h)) ! n = (i, j)"
    and bm: "mu_bitmap (unit_of (ml_groups h) i j) = Some bm" "set_bit_map bm (bitmaxnum i) (bitmapsize i) = Some (x, bm')"
    and k: "mu_region (unit_of (ml_groups h) i j) = Some k" "back_region k alloc (ml_mpu h) = Some s1"
    and h': "h' = \<lparr>ml_groups = set_unit (ml_groups h) i j ((unit_of (ml_groups h) i j)\<lparr>mu_bitmap := Some bm',
         mu_bitfreenum := mu_bitfreenum (unit_of (ml_groups h) i j) - 1\<rparr>), ml_mpu = s1\<rparr>"
    by (auto simp: mpu_malloc_get_memory_def Let_def bind_eq_Some_conv dest!: find_first_Some_bound
        split: option.splits prod.splits if_splits)
  have "(i, j) \<in> set (unit_order c (length (ml_groups h)))" using n nth_mem by fastforce
  then have ij: "i < MallocSize_Num" "j < length (ml_groups h)" by (simp_all add: set_unit_order)
  obtain k' bm0 where u: "mu_region (unit_of (ml_groups h) i j) = Some k'" "k' < length (mpu_dynamic_map (ml_mpu h))"
    "rg_size (mpu_dynamic_map (ml_mpu h) ! k') = 0x100000" "mu_bitmap (unit_of (ml_groups h) i j) = Some bm0" "length bm0 = bitmapsize i"
    using assms(2) ij by (rule unit_typedE)
  have s1: "mpu_wf s1" "same_regions (ml_mpu h) s1"
    using back_region_typed [OF k(2) assms(3) _ _ assms(4)] u(1-3) k(1) by simp_all
  have "unit_typed (ml_mpu h) i ((unit_of (ml_groups h) i j)\<lparr>mu_bitmap := Some bm',
         mu_bitfreenum := mu_bitfreenum (unit_of (ml_groups h) i j) - 1\<rparr>)"
    using u bm set_bit_map_length [OF bm(2)] by (simp add: unit_typed_def)
  then show ?thesis using set_unit_typed [OF assms(2) ij s1(2)] s1(1) h' by simp
qed

lemma search_unit_bound:
  assumes "search_unit h a = Some (Some (i, j))"
  shows "i < MallocSize_Num \<and> j < length (ml_groups h)"
proof -
  have "search_unit_loop h a ps = Some (Some (i, j)) \<Longrightarrow> (i, j) \<in> set ps" for ps
    by (induction ps) (auto simp: Let_def split: option.splits if_splits)
  from this [OF assms [unfolded search_unit_def]] show ?thesis by (simp add: set_unit_order)
qed

lemma rel_memory_typed:
  assumes "mpu_malloc_rel_memory a h = Some h'" "heap_typed h"
  shows "heap_typed h' \<and> ml_mpu h' = ml_mpu h"
proof (cases "h' = h")
  case True
  with assms show ?thesis by simp
next
  case False
  with assms(1) obtain i j where hit: "search_unit h a = Some (Some (i, j))"
    by (auto simp: mpu_malloc_rel_memory_def split: option.splits)
  note ij = search_unit_bound [OF hit, THEN conjunct1] search_unit_bound [OF hit, THEN conjunct2]
  obtain k bm where u: "mu_region (unit_of (ml_groups h) i j) = Some k" "k < length (mpu_dynamic_map (ml_mpu h))"
    "rg_size (mpu_dynamic_map (ml_mpu h) ! k) = 0x100000" "mu_bitmap (unit_of (ml_groups h) i j) = Some bm" "length bm = bitmapsize i"
    using assms(2) ij by (rule unit_typedE)
  obtain pos b n where h': "h' = h\<lparr>ml_groups := set_unit (ml_groups h) i j
      ((unit_of (ml_groups h) i j)\<lparr>mu_bitmap := Some (bm[pos := b]), mu_bitfreenum := n\<rparr>)\<rparr>"
    using assms(1) hit u(1,4) by (auto simp: mpu_malloc_rel_memory_def Let_def split: if_splits)
  have "unit_typed (ml_mpu h) i ((unit_of (ml_groups h) i j)\<lparr>mu_bitmap := Some (bm[pos := b]), mu_bitfreenum := n\<rparr>)"
    using u by (simp add: unit_typed_def)
  from set_unit_typed [OF assms(2) ij same_regions_refl this] show ?thesis unfolding h' by (cases h) simp
qed

lemma sys_malloc_typed:
  "sys_malloc env sz st = Some (a, st') \<Longrightarrow> alloc_typed env \<Longrightarrow> sys_typed st \<Longrightarrow> sys_typed st'"
  using get_memory_typed [of sz "se_alloc env (sy_heap st)" "sy_heap st"]
  by (auto simp: sys_malloc_def sys_typed_def alloc_typed_def)

lemma rel_typed:
  "mpu_malloc_rel_memory a (sy_heap st) = Some h \<Longrightarrow> sys_typed st \<Longrightarrow> sys_typed (st\<lparr>sy_heap := h\<rparr>)"
  using rel_memory_typed [of a "sy_heap st" h] by (simp add: sys_typed_def)

lemma mem_copy_typed: "mem_copy d s n st = Some st' \<Longrightarrow> sys_typed st \<Longrightarrow> sys_typed st'"
  by (auto simp: mem_copy_def bind_eq_Some_conv split: if_splits dest: mem_write_typed)

section \<open>Every call keeps the types\<close>

lemmas step_typed = mem_write_typed put32_typed set_ret_typed ret_or_errno_typed os_typed guest_pointer_typed assert_pointer_typed
  mem_copy_typed

lemma devcfg_string_typed: "devcfg_string env k d st = Some (v, st') \<Longrightarrow> sys_typed st \<Longrightarrow> sys_typed st'"
  by (auto simp: devcfg_string_def bind_eq_Some_conv tables_typed)

lemma create_directory_typed: "sys_typed st \<Longrightarrow> sys_typed (snd (create_directory env d st))"
  by (auto simp: create_directory_def Let_def split: prod.splits dest: os_typed)

lemma getVirtualFileName_typed:
  "getVirtualFileName n env f st = Some (v, st') \<Longrightarrow> sys_typed st \<Longrightarrow> sys_typed st'"
  by (auto simp: getVirtualFileName_def bind_eq_Some_conv tables_typed create_directory_typed split: option.splits
      dest!: devcfg_string_typed)

lemma sockets_typed:
  assumes "sys_typed st"
  shows "athrill_syscall_socket env arg st = Some st' \<Longrightarrow> sys_typed st'"
    "athrill_syscall_sense env arg st = Some st' \<Longrightarrow> sys_typed st'"
    "athrill_syscall_listen env arg st = Some st' \<Longrightarrow> sys_typed st'"
    "athrill_syscall_shutdown env arg st = Some st' \<Longrightarrow> sys_typed st'"
    "athrill_syscall_system env arg st = Some st' \<Longrightarrow> sys_typed st'"
  using assms
  by (auto simp: athrill_syscall_socket_def athrill_syscall_sense_def athrill_syscall_listen_def athrill_syscall_shutdown_def
      athrill_syscall_system_def Let_def bind_eq_Some_conv case_prod_beta
      split: if_splits elim!: step_typed intro!: os_typed_snd)

lemma peers_typed:
  assumes "sys_typed st"
  shows "athrill_syscall_bind env arg st = Some st' \<Longrightarrow> sys_typed st'"
    "athrill_syscall_connect env arg st = Some st' \<Longrightarrow> sys_typed st'"
    "athrill_syscall_send env arg st = Some st' \<Longrightarrow> sys_typed st'"
    "athrill_syscall_recv env arg st = Some st' \<Longrightarrow> sys_typed st'"
    "athrill_syscall_accept env arg st = Some st' \<Longrightarrow> sys_typed st'"
  using assms
  by (auto simp: athrill_syscall_bind_def athrill_syscall_connect_def athrill_syscall_send_def athrill_syscall_recv_def
      athrill_syscall_accept_def Let_def bind_eq_Some_conv case_prod_beta
      split: if_splits elim!: with_pointer_typed step_typed intro!: os_typed_snd)

lemma fd_set_out_typed: "fd_set_out p bs st = Some (n, st') \<Longrightarrow> sys_typed st \<Longrightarrow> sys_typed st'"
  by (auto simp: fd_set_out_def split: option.splits elim: step_typed)

lemma clear_set_typed: "clear_set p st = Some st' \<Longrightarrow> sys_typed st \<Longrightarrow> sys_typed st'"
  by (auto simp: clear_set_def split: option.splits elim: step_typed)

lemma select_typed:
  assumes "sys_typed st" "athrill_syscall_select env arg st = Some st'"
  shows "sys_typed st'"
  using assms
  by (auto simp: athrill_syscall_select_def Let_def bind_eq_Some_conv case_prod_beta split: if_splits
      elim!: opt_pointer_typed step_typed fd_set_out_typed clear_set_typed intro!: os_typed_snd)

lemma heap_calls_typed:
  assumes "alloc_typed env" "sys_typed st"
  shows "athrill_syscall_malloc env arg st = Some st' \<Longrightarrow> sys_typed st'"
    "athrill_syscall_calloc env arg st = Some st' \<Longrightarrow> sys_typed st'"
    "athrill_syscall_realloc env arg st = Some st' \<Longrightarrow> sys_typed st'"
    "athrill_syscall_free arg st = Some st' \<Longrightarrow> sys_typed st'"
  using assms
  by (auto simp: athrill_syscall_malloc_def athrill_syscall_calloc_def athrill_syscall_realloc_def athrill_syscall_free_def Let_def
      bind_eq_Some_conv split: if_splits elim!: step_typed sys_malloc_typed rel_typed)

lemma set_correspond_fd_length: "set_correspond_fd fd c fds = Some fds' \<Longrightarrow> length fds' = length fds"
  by (auto simp: set_correspond_fd_def update_at_def split: if_splits)

lemma sys_typed_lengths: "sys_typed st \<Longrightarrow> length (sy_fds st) = SPECIAL_FD_NUM" "sys_typed st \<Longrightarrow> length (sy_dirs st) = 10"
  by (simp_all add: sys_typed_def)

lemma os_keeps [simp]: "sy_dirs (snd (os env c st)) = sy_dirs st" "sy_fds (snd (os env c st)) = sy_fds st"
  by (simp_all add: os_def split: prod.split)

lemma files_typed:
  assumes "sys_typed st"
  shows "athrill_syscall_open_r env arg st = Some st' \<Longrightarrow> sys_typed st'"
    "athrill_syscall_read_r env arg st = Some st' \<Longrightarrow> sys_typed st'"
    "athrill_syscall_write_r env arg st = Some st' \<Longrightarrow> sys_typed st'"
    "athrill_syscall_lseek_r env arg st = Some st' \<Longrightarrow> sys_typed st'"
    "athrill_syscall_set_virtfs_top env arg st = Some st' \<Longrightarrow> sys_typed st'"
  using assms
  by (auto simp: athrill_syscall_open_r_def athrill_syscall_read_r_def athrill_syscall_write_r_def
      athrill_syscall_lseek_r_def athrill_syscall_set_virtfs_top_def Let_def bind_eq_Some_conv case_prod_beta
      split: if_splits elim!: step_typed getVirtualFileName_typed intro!: os_typed_snd tables_typed)

lemma close_typed:
  assumes "sys_typed st" "athrill_syscall_close_r env arg st = Some st'"
  shows "sys_typed st'"
  using assms sys_typed_lengths(1) [OF assms(1)]
  by (auto simp: athrill_syscall_close_r_def Let_def bind_eq_Some_conv case_prod_beta set_correspond_fd_length
      split: if_splits elim!: step_typed intro!: os_typed_snd tables_typed)

lemma get_free_dir_length: "get_free_dir dirs = Some (i, dirs') \<Longrightarrow> length dirs' = length dirs"
  by (auto simp: get_free_dir_def)

lemma dirs_update_typed:
  "sys_typed st \<Longrightarrow> sys_typed s \<Longrightarrow> sys_typed (st\<lparr>sy_dirs := (sy_dirs s)[i := d]\<rparr>)"
  by (simp add: sys_typed_def)

lemma opendir_typed:
  assumes "sys_typed st" "athrill_syscall_ev3_opendir env arg st = Some st'"
  shows "sys_typed st'"
proof (cases "get_free_dir (sy_dirs st)")
  case None
  with assms show ?thesis by (auto simp: athrill_syscall_ev3_opendir_def elim: step_typed)
next
  case (Some x)
  obtain i dirs where x: "x = (i, dirs)" by fastforce
  have "sys_typed (st\<lparr>sy_dirs := dirs\<rparr>)"
    using assms(1) get_free_dir_length Some x sys_typed_lengths(2) by (auto intro!: tables_typed)
  then show ?thesis
    using assms(2) Some x
    by (auto simp: athrill_syscall_ev3_opendir_def Let_def bind_eq_Some_conv case_prod_beta release_dir_def
        split: if_splits elim!: step_typed getVirtualFileName_typed intro!: os_typed_snd dirs_update_typed)
qed

lemma readdir_loop_typed:
  assumes "readdir_loop env p st = Some x" "sys_typed st"
  shows "sys_typed (snd x)"
proof -
  have "sys_typed st \<longrightarrow> sys_typed (snd x)"
  proof (rule readdir_loop.raw_induct [where P = "\<lambda>env p st x. sys_typed st \<longrightarrow> sys_typed (snd x)", OF _ assms(1)], goal_cases)
    case (1 f env p st x)
    show ?case
    proof (cases "or_name (fst (os env (Os_readdir p) st)) = Some ''.'' \<or> or_name (fst (os env (Os_readdir p) st)) = Some ''..''")
      case True
      with 1(2) have "f env p (snd (os env (Os_readdir p) st)) = Some x" by (simp add: Let_def case_prod_beta)
      from 1(1) [OF this] show ?thesis using os_typed_snd by blast
    next
      case False
      with 1(2) have "x = os env (Os_readdir p) st" by (simp add: Let_def case_prod_beta)
      then show ?thesis using os_typed_snd by blast
    qed
  qed
  with assms(2) show ?thesis by simp
qed

lemma drain_pipe_typed:
  assumes "drain_pipe env fd st = Some st'" "sys_typed st"
  shows "sys_typed st'"
proof -
  have "sys_typed st \<longrightarrow> sys_typed st'"
  proof (rule drain_pipe.raw_induct [where P = "\<lambda>env fd st st'. sys_typed st \<longrightarrow> sys_typed st'", OF _ assms(1)], goal_cases)
    case (1 f env fd st st')
    show ?case
    proof (cases "or_ret (fst (os env (Os_read fd 255) st)) > 0")
      case True
      with 1(2) have "f env fd (snd (os env (Os_read fd 255) st)) = Some st'" by (simp add: Let_def case_prod_beta)
      from 1(1) [OF this] show ?thesis using os_typed_snd by blast
    next
      case False
      with 1(2) have "st' = snd (os env (Os_read fd 255) st)" by (simp add: Let_def case_prod_beta)
      then show ?thesis using os_typed_snd by blast
    qed
  qed
  with assms(2) show ?thesis by simp
qed

lemma readdir_typed:
  assumes "sys_typed st" "athrill_syscall_ev3_readdir env arg st = Some st'"
  shows "sys_typed st'"
proof -
  obtain dirid where d: "arg32 arg 0 st = Some dirid" using assms(2) by (auto simp: athrill_syscall_ev3_readdir_def bind_eq_Some_conv)
  show ?thesis
  proof (cases "GETDIR (sint dirid) (sy_dirs st)")
    case None
    with assms d show ?thesis by (auto simp: athrill_syscall_ev3_readdir_def elim: step_typed)
  next
    case (Some i)
    then obtain r st1 where loop: "readdir_loop env (de_dir (sy_dirs st ! i)) st = Some (r, st1)"
      using assms(2) d by (auto simp: athrill_syscall_ev3_readdir_def Let_def bind_eq_Some_conv split: if_splits)
    have st1: "sys_typed st1" using readdir_loop_typed [OF loop assms(1)] by simp
    show ?thesis
    proof (cases "or_name r")
      case None
      with assms(2) d Some loop st1 show ?thesis
        by (auto simp: athrill_syscall_ev3_readdir_def Let_def split: if_splits elim: step_typed)
    next
      case (Some n)
      with assms(2) d \<open>GETDIR _ _ = _\<close> loop st1 show ?thesis
        by (auto simp: athrill_syscall_ev3_readdir_def Let_def bind_eq_Some_conv case_prod_beta split: if_splits
            elim!: step_typed intro!: os_typed_snd)
    qed
  qed
qed

lemma closedir_typed:
  assumes "sys_typed st" "athrill_syscall_ev3_closedir env arg st = Some st'"
  shows "sys_typed st'"
  using assms
  by (auto simp: athrill_syscall_ev3_closedir_def Let_def bind_eq_Some_conv case_prod_beta release_dir_def
      split: if_splits option.splits elim!: step_typed intro!: os_typed_snd dirs_update_typed)

lemma create_pipe_typed: "create_pipe env path b st = Some (fd, st') \<Longrightarrow> sys_typed st \<Longrightarrow> sys_typed st'"
  by (auto simp: create_pipe_def Let_def bind_eq_Some_conv case_prod_beta split: if_splits
      elim!: drain_pipe_typed intro!: os_typed_snd)

lemma create_pipe_pair_typed:
  assumes "create_pipe_pair env path st = Some (fd, st')" "sys_typed st"
  shows "sys_typed st'"
proof -
  from assms(1) obtain y z fd1 st1 st2 fds where p: "create_pipe env y False st = Some (fd1, st1)"
    "create_pipe env z True st1 = Some (fd, st2)" "set_correspond_fd fd fd1 (sy_fds st2) = Some fds" "st' = st2\<lparr>sy_fds := fds\<rparr>"
    by (auto simp: create_pipe_pair_def bind_eq_Some_conv)
  have "sys_typed st2" by (rule create_pipe_typed [OF p(2) create_pipe_typed [OF p(1) assms(2)]])
  from tables_typed(5) [OF this sys_typed_fds [OF this p(3)]] show ?thesis by (simp add: p(4))
qed

lemma serial_open_typed:
  assumes "sys_typed st" "athrill_syscall_ev3_serial_open env arg st = Some st'"
  shows "sys_typed st'"
  using assms
  by (auto simp: athrill_syscall_ev3_serial_open_def bind_eq_Some_conv split: if_splits
      elim!: step_typed create_pipe_pair_typed devcfg_string_typed)

definition same_shape :: "'d mpu_state \<Rightarrow> 'd mpu_state \<Rightarrow> bool" where
  "same_shape s s' \<longleftrightarrow> map length (mpu_host s') = map length (mpu_host s) \<and> mpu_dynamic_map s' = mpu_dynamic_map s \<and>
    mpu_map s' = mpu_map s"

lemma mpu_put_with_shape:
  assumes "mpu_put_with op (memory_put w) wa env c a v s = Some (err, s')"
    "\<And>n g r c a v ds h. op (env_dev env n) = Some g \<Longrightarrow> map length (snd (snd (g r c a v (ds, h)))) = map length h"
  shows "same_shape s s'"
  using assms(1)
  by (auto simp: mpu_put_with_def search_region_def same_shape_def Let_def case_prod_beta assms(2)
      memory_put_def bind_eq_Some_conv dest: host_write_lengths split: option.splits prod.splits MpuOps.splits if_splits)

lemma mpu_put_shape:
  assumes "devices_typed env"
  shows "mpu_put_data8 env c a v8 s = Some (err, s') \<Longrightarrow> same_shape s s'"
    "mpu_put_data16 env c a v16 s = Some (err, s') \<Longrightarrow> same_shape s s'"
    "mpu_put_data32 env c a v32 s = Some (err, s') \<Longrightarrow> same_shape s s'"
  unfolding mpu_put_defs using assms by (auto simp: devices_typed_def elim!: mpu_put_with_shape)

lemma mpu_get_shape:
  assumes "devices_typed env" "mpu_get_data32 env c a v s = Some (err, x, s')"
  shows "same_shape s s'"
  using assms
  by (auto simp: mpu_get_defs mpu_get_with_def search_region_r_def same_shape_def devices_typed_def Let_def case_prod_beta
      split: option.splits prod.splits MpuOps.splits if_splits)

lemma same_shape_typed: "same_shape (sy_mpu st) s \<Longrightarrow> sys_typed st \<Longrightarrow> sys_typed (set_mpu s st)"
  by (simp add: same_shape_def set_mpu_typed)

lemma put_masks_typed:
  "put_masks env imr disint ns st = Some st' \<Longrightarrow> devices_typed (se_mpu env) \<Longrightarrow> sys_typed st \<Longrightarrow> sys_typed st'"
proof (induction ns arbitrary: st)
  case (Cons i ns)
  from Cons.prems(1) obtain a b err s where s:
    "(if i < 7 then mpu_put_data16 (se_mpu env) 0 (0xFFFFF100 + of_nat (2 * i)) (a OR b) (sy_mpu st)
      else mpu_put_data8 (se_mpu env) 0 0xFFFFF10E (ucast (a OR b)) (sy_mpu st)) = Some (err, s)"
    "put_masks env imr disint ns (set_mpu s st) = Some st'"
    by (auto simp: bind_eq_Some_conv)
  from s(1) have "same_shape (sy_mpu st) s" using mpu_put_shape [OF Cons.prems(2)] by (auto split: if_splits)
  with Cons s(2) show ?case by (auto intro: same_shape_typed)
qed simp

lemma others_typed:
  assumes "devices_typed (se_mpu env)" "sys_typed st"
  shows "athrill_syscall_none arg st = Some st' \<Longrightarrow> sys_typed st'"
    "athrill_syscall_exit arg st = Some st' \<Longrightarrow> sys_typed st'"
    "athrill_syscall_v850_set_intpri env arg st = Some st' \<Longrightarrow> sys_typed st'"
    "sys_typed (athrill_syscall_reset_time env st)"
    "sys_typed (athrill_syscall_show_time env st)"
  using assms
  by (auto simp: athrill_syscall_none_def athrill_syscall_exit_def athrill_syscall_v850_set_intpri_def athrill_syscall_reset_time_def
      athrill_syscall_show_time_def bind_eq_Some_conv case_prod_beta
      elim!: step_typed put_masks_typed intro!: tables_typed os_typed_snd)

lemmas calls_typed = sockets_typed peers_typed select_typed heap_calls_typed files_typed close_typed opendir_typed readdir_typed
  closedir_typed serial_open_typed others_typed

lemma syscall_table_typed:
  assumes "alloc_typed env" "devices_typed (se_mpu env)"
  shows "list_all (\<lambda>f. \<forall>st st'. f st = Some st' \<longrightarrow> sys_typed st \<longrightarrow> sys_typed st') (syscall_table env arg)"
  unfolding syscall_table_def list.pred_inject using assms by (intro conjI allI impI TrueI) (auto intro: calls_typed)

lemma athrill_syscall_device_typed:
  assumes "athrill_syscall_device env addr st = Some st'" "alloc_typed env" "devices_typed (se_mpu env)" "sys_typed st"
  shows "sys_typed st'"
proof (rule with_pointer_typed [OF assms(1) [unfolded athrill_syscall_device_def] assms(4)], goal_cases)
  case (1 p s)
  then obtain w :: uint32 where w: "(if unat w \<ge> SYS_API_ID_NUM then Some s else (syscall_table env p ! unat w) s) = Some st'"
    by (auto simp only: bind_eq_Some_conv)
  show ?case
  proof (cases "unat w < SYS_API_ID_NUM")
    case True
    then have "unat w < length (syscall_table env p)" by (simp add: syscall_table_def SYS_API_ID_NUM_def)
    with syscall_table_typed [OF assms(2,3), of p] True w 1(1) show ?thesis by (auto simp: list_all_length)
  qed (use w 1(1) in simp)
qed

lemma toggle_lock_typed: "toggle_lock env i st = Some st' \<Longrightarrow> sys_typed (ad_sys st) \<Longrightarrow> sys_typed (ad_sys st')"
  by (auto simp: toggle_lock_def Let_def case_prod_beta os_typed_snd split: if_splits)

lemma adev_put_typed:
  "adev_put env a st = Some st' \<Longrightarrow> devices_typed (se_mpu env) \<Longrightarrow> sys_typed (ad_sys st) \<Longrightarrow> sys_typed (ad_sys st')"
  by (auto simp: adev_put_def intro!: same_shape_typed elim: mpu_put_shape(3) [rotated])

lemma func_call_pointer_typed:
  "func_call_pointer env st = Some (p, st') \<Longrightarrow> sys_typed (ad_sys st) \<Longrightarrow> sys_typed (ad_sys st')"
  by (auto simp: func_call_pointer_def Let_def bind_eq_Some_conv split: option.splits if_splits dest: guest_pointer_typed)

lemma func_call_typed:
  assumes "do_athrill_device_func_call env st = Some st'" "alloc_typed env" "devices_typed (se_mpu env)" "sys_typed (ad_sys st)"
  shows "sys_typed (ad_sys st')"
proof -
  from assms(1) obtain p st1 where p: "func_call_pointer env st = Some (p, st1)"
    by (auto simp: do_athrill_device_func_call_def bind_eq_Some_conv)
  have st1: "sys_typed (ad_sys st1)" by (rule func_call_pointer_typed [OF p assms(4)])
  show ?thesis
    using assms(1) p st1 assms(2,3)
    by (auto simp: do_athrill_device_func_call_def bind_eq_Some_conv split: option.splits if_splits
        elim!: adev_put_typed toggle_lock_typed athrill_syscall_device_typed)
qed

lemma raise_interrupt_typed:
  assumes "do_athrill_device_external_raise_interrupt env st = Some st'" "devices_typed (se_mpu env)" "sys_typed (ad_sys st)"
  shows "sys_typed (ad_sys st')"
proof (cases "ad_raise_addr st = 0")
  case False
  with assms(1) obtain err w s where g: "mpu_get_data32 (se_mpu env) 0 (ad_raise_addr st) 0 (sy_mpu (ad_sys st)) = Some (err, w, s)"
    by (auto simp: do_athrill_device_external_raise_interrupt_def bind_eq_Some_conv)
  have "sys_typed (set_mpu s (ad_sys st))" by (rule same_shape_typed [OF mpu_get_shape [OF assms(2) g] assms(3)])
  with assms(1,2) False g show ?thesis
    by (auto simp: do_athrill_device_external_raise_interrupt_def Let_def split: if_splits dest: adev_put_typed)
qed (use assms in \<open>simp add: do_athrill_device_external_raise_interrupt_def\<close>)

lemma clock_typed:
  "device_supply_clock_athrill_device env st = Some st' \<Longrightarrow> alloc_typed env \<Longrightarrow> devices_typed (se_mpu env) \<Longrightarrow>
    sys_typed (ad_sys st) \<Longrightarrow> sys_typed (ad_sys st')"
  by (auto simp: device_supply_clock_athrill_device_def bind_eq_Some_conv split: if_splits intro: raise_interrupt_typed func_call_typed)

section \<open>The flags of open\<close>

lemma bit_translate_flags:
  "bit (translate_flags fs flags) n \<longleftrightarrow> (\<exists>p\<in>set fs. flags AND fst p \<noteq> 0 \<and> bit (snd p) n)"
proof -
  have "bit (foldl (\<lambda>acc (a, b). if flags AND a \<noteq> 0 then acc OR b else acc) acc fs) n \<longleftrightarrow>
      bit acc n \<or> (\<exists>p\<in>set fs. flags AND fst p \<noteq> 0 \<and> bit (snd p) n)" for acc :: uint32
    by (induction fs arbitrary: acc) (auto simp: bit_or_iff split: if_splits)
  then show ?thesis by (simp add: translate_flags_def)
qed

lemma ex_zip: "length xs = length ys \<Longrightarrow> (\<exists>p\<in>set (zip xs ys). P (fst p) (snd p)) \<longleftrightarrow> (\<exists>i<length xs. P (xs ! i) (ys ! i))"
  by (auto simp: set_zip)

lemma ATHRILL_OPEN_FLAGS_bit: "i < 10 \<Longrightarrow> ATHRILL_OPEN_FLAGS ! i = 2 ^ i"
  by (auto simp: ATHRILL_OPEN_FLAGS_def less_Suc_eq numeral_eq_Suc)

lemma and_power_bit: "w AND 2 ^ i \<noteq> 0 \<longleftrightarrow> bit w i" for w :: "'a::len word"
  by (simp add: and_exp_eq_0_iff_not_bit)

lemma open_flags_selected:
  assumes "length gs = 10" "i < 10"
  shows "athrill_newlib_open_r_flag gs flags AND ATHRILL_OPEN_FLAGS ! i \<noteq> 0 \<longleftrightarrow> flags AND gs ! i \<noteq> 0"
proof -
  have "bit (athrill_newlib_open_r_flag gs flags) i \<longleftrightarrow> (\<exists>j<10. flags AND gs ! j \<noteq> 0 \<and> bit (ATHRILL_OPEN_FLAGS ! j) i)"
    unfolding athrill_newlib_open_r_flag_def bit_translate_flags
    using assms(1) by (subst ex_zip) (simp_all add: ATHRILL_OPEN_FLAGS_def)
  also have "\<dots> \<longleftrightarrow> flags AND gs ! i \<noteq> 0"
    using assms(2) by (auto simp: ATHRILL_OPEN_FLAGS_bit bit_exp_iff)
  finally show ?thesis using assms(2) by (simp only: ATHRILL_OPEN_FLAGS_bit and_power_bit)
qed

text \<open>
  C39: the flags of \<open>open\<close> reach the host. Whatever values the guest's C library gives its ten flags, a bit is set in
  the flags that the host's \<open>open\<close> gets exactly when it belongs to the host's value of a flag that the guest has set, in both
  translations composed.
\<close>

theorem open_flags_correct:
  assumes "length guest_flags = 10"
  shows "bit (athrill_syscall_open_r_flag (athrill_newlib_open_r_flag guest_flags flags)) n \<longleftrightarrow>
    (\<exists>i<10. flags AND guest_flags ! i \<noteq> 0 \<and> bit (host_open_flags ! i) n)"
proof -
  have "bit (athrill_syscall_open_r_flag (athrill_newlib_open_r_flag guest_flags flags)) n \<longleftrightarrow>
      (\<exists>i<length ATHRILL_OPEN_FLAGS. athrill_newlib_open_r_flag guest_flags flags AND ATHRILL_OPEN_FLAGS ! i \<noteq> 0 \<and>
        bit (host_open_flags ! i) n)"
    unfolding athrill_syscall_open_r_flag_def bit_translate_flags
    by (rule ex_zip [of ATHRILL_OPEN_FLAGS host_open_flags]) (simp add: ATHRILL_OPEN_FLAGS_def host_open_flags_def)
  moreover have "length ATHRILL_OPEN_FLAGS = 10" by (simp add: ATHRILL_OPEN_FLAGS_def)
  ultimately show ?thesis using open_flags_selected [OF assms] by auto
qed

text \<open>The flags of newlib: creating a file for writing there is creating a file for writing on the host.\<close>

definition newlib_open_flags :: "uint32 list" where
  "newlib_open_flags = [0x0008, 0x0200, 0x0800, 0x8000, 0x4000, 0x2000, 0x0400, 0, 1, 2]"

theorem open_flags_correct_witness:
  "bit (athrill_syscall_open_r_flag (athrill_newlib_open_r_flag newlib_open_flags 0x601)) 6 \<and>
   \<not> bit (athrill_syscall_open_r_flag (athrill_newlib_open_r_flag newlib_open_flags 0x601)) 10"
proof -
  have len: "length newlib_open_flags = 10" by (simp add: newlib_open_flags_def)
  have eval: "(\<exists>i<10. P i) \<longleftrightarrow> P 0 \<or> P 1 \<or> P 2 \<or> P 3 \<or> P 4 \<or> P 5 \<or> P 6 \<or> P 7 \<or> P 8 \<or> P (9 :: nat)" for P
    by (auto simp: less_Suc_eq numeral_eq_Suc)
  show ?thesis unfolding open_flags_correct [OF len] eval by (simp add: newlib_open_flags_def host_open_flags_def)
qed

section \<open>A clock of the device\<close>

lemma unit_ok_typed: "unit_ok s i u \<Longrightarrow> unit_typed s i u"
  unfolding unit_ok_def unit_typed_def by blast

lemma malloc_inv_typed: "malloc_inv h \<Longrightarrow> heap_typed h"
  by (simp add: malloc_inv_def heap_typed_def unit_ok_typed)

text \<open>A guest that asks for the call \<open>exit (7)\<close>: the word at 0x200 has the address 0x204 of the argument.\<close>

definition sample_sys_map :: "unit mpu_state" where
  "sample_sys_map = example_heap_map\<lparr>
    mpu_map := [new_region 0x200 32 GLOBAL_MEMORY False (Some (0, 0)) default_memory_operation],
    mpu_host := [[4, 2, 0, 0, 26, 0, 0, 0, 0, 0, 0, 0, 0, 0, 0, 0, 7, 0, 0, 0, 0, 0, 0, 0, 0, 0, 0, 0, 0, 0, 0, 0]]\<rparr>"

definition sample_sys_env :: "(unit, unit) sys_env" where
  "sample_sys_env = \<lparr>se_mpu = example_env,
    se_os = (\<lambda>c o'. (\<lparr>or_ret = 0, or_errno = 0, or_bytes = [], or_sets = ([], [], []), or_peer = (0, 0, 0), or_name = None,
      or_stat = (0, 0, 0, False)\<rparr>, ())),
    se_getenv = (\<lambda>_. None), se_alloc = (\<lambda>_. Some (replicate (2 ^ 20) 0))\<rparr>"

definition sample_adev :: "(unit, unit) adev_state" where
  "sample_adev = \<lparr>ad_sys = \<lparr>sy_heap = example_heap\<lparr>ml_mpu := sample_sys_map\<rparr>, sy_os = (), sy_cfg = \<lparr>dc_param_num = 0, dc_param = []\<rparr>,
      sy_fds = replicate SPECIAL_FD_NUM 0, sy_dirs = replicate 10 \<lparr>de_is_used = False, de_path = [], de_dir = 0\<rparr>,
      sy_virtfs_top = None, sy_start_time = [], sy_exit = None\<rparr>,
    ad_func_call_addr = 0x200, ad_raise_addr = 0, ad_syscall_p = None, ad_mmap = [], ad_intr = []\<rparr>"

lemma sample_env_typed: "alloc_typed sample_sys_env" "devices_typed (se_mpu sample_sys_env)"
  by (simp_all add: alloc_typed_def devices_typed_def sample_sys_env_def example_env_def)

lemma sample_adev_typed: "sys_typed (ad_sys sample_adev)"
proof -
  have "mpu_dynamic_map sample_sys_map = mpu_dynamic_map (ml_mpu example_heap)" by (simp add: sample_sys_map_def example_heap_def)
  from heap_typed_frame [OF this] have "heap_typed (example_heap\<lparr>ml_mpu := sample_sys_map\<rparr>)"
    using malloc_inv_typed [OF example_heap_inv] by simp
  moreover have "mpu_wf sample_sys_map"
    by (auto simp: mpu_wf_def sample_sys_map_def example_heap_map_def region_backed_def new_region_def)
  ultimately show ?thesis by (simp add: sys_typed_def sample_adev_def)
qed

lemma sample_search:
  assumes "mpu_map s = mpu_map sample_sys_map" "mpu_dynamic_map s = mpu_dynamic_map sample_sys_map" "mpu_prev_w s = - 1"
  shows "search_region s 0x200 1 = (Some (Static 0), s)" "search_region s 0x204 1 = (Some (Static 0), s)"
    "search_region s 0x200 4 = (Some (Static 0), s)"
proof -
  have "[0..<10] = [0, 1, 2, 3, 4, 5, 6, 7, 8, 9]" by code_simp
  note eval = this assms search_region_def search_region_from_def previous_region_covers_def search_region_loops_def
    sample_sys_map_def example_heap_map_def new_region_def region_covers_def
  show "search_region s 0x200 1 = (Some (Static 0), s)" "search_region s 0x204 1 = (Some (Static 0), s)"
    "search_region s 0x200 4 = (Some (Static 0), s)"
    by (simp_all add: eval)
qed

lemma sample_pointer:
  assumes "mpu_map s = mpu_map sample_sys_map" "mpu_dynamic_map s = mpu_dynamic_map sample_sys_map" "mpu_prev_w s = - 1"
  shows "mpu_get_pointer example_env 0 0x200 s = Some (STD_E_OK, Some (0, 0), s)"
    "mpu_get_pointer example_env 0 0x204 s = Some (STD_E_OK, Some (0, 4), s)"
  using sample_search [OF assms] assms
  by (simp_all add: mpu_get_pointer_def memory_get_pointer_def sample_sys_map_def new_region_def ptr_add_def)

lemma sample_parts:
  "se_mpu sample_sys_env = example_env" "sy_mpu (ad_sys sample_adev) = sample_sys_map" "mpu_prev_w sample_sys_map = - 1"
  by (simp_all add: sample_sys_env_def sample_adev_def sample_sys_map_def example_heap_map_def example_map_def)

lemma set_mpu_same: "s = sy_mpu st \<Longrightarrow> set_mpu s st = st"
  by (simp add: set_mpu_def)

lemma sample_guest_pointer:
  "guest_pointer sample_sys_env 0x200 (ad_sys sample_adev) = Some ((STD_E_OK, Some (0, 0)), ad_sys sample_adev)"
  "guest_pointer sample_sys_env 0x204 (ad_sys sample_adev) = Some ((STD_E_OK, Some (0, 4)), ad_sys sample_adev)"
  by (simp_all add: guest_pointer_def sample_parts sample_pointer set_mpu_same)

lemma sample_words:
  "get32 (0, 0) 0 (ad_sys sample_adev) = Some 0x204" "get32 (0, 4) 0 (ad_sys sample_adev) = Some 26"
  "get32 (0, 4) 12 (ad_sys sample_adev) = Some 7"
  unfolding get32_def mem_read_def sample_parts by (simp_all add: host_read_def buf_read_def ptr_add_def sample_sys_map_def)

lemma sample_call: "athrill_syscall_device sample_sys_env 0x204 (ad_sys sample_adev) = Some ((ad_sys sample_adev)\<lparr>sy_exit := Some 7\<rparr>)"
  by (simp add: athrill_syscall_device_def with_pointer_def sample_guest_pointer sample_words SYS_API_ID_NUM_def syscall_table_def
      athrill_syscall_exit_def arg32_def BODY_def)

lemma sample_clock:
  "\<exists>st'. device_supply_clock_athrill_device sample_sys_env sample_adev = Some st' \<and> sy_exit (ad_sys st') = Some 7"
proof -
  have "ad_func_call_addr sample_adev = 0x200" "ad_syscall_p sample_adev = None" "ad_mmap sample_adev = []" by (simp_all add: sample_adev_def)
  then show ?thesis
    by (simp add: device_supply_clock_athrill_device_def do_athrill_device_func_call_def func_call_pointer_def sample_guest_pointer
        sample_words getMmapInfo_def sample_call)
qed



end
