(* ===== verification/Spec2Isabelle.thy ===== *)
theory Spec2Isabelle
  imports Prelude CommBuffer MpuFlat MpuMallocLaws LoaderLaws SymbolLaws CpuRecordLaws CpuCallback ThreadControl
    GdbRspLaws DbgSession DevConfigLaws SerialFifoLaws DwarfLineLaws SyscallLaws
begin

text \<open>
  A verification development for Athrill, a CPU emulator core written in C and C++ (src/). The
  instruction set is code of a target that is not part of the repository; the development models the
  parts around it: the memory of the guest and the accesses to it, the loading of programs, the
  debugger with its break points, command line and remote server, the threads that hand control to
  each other, the configuration files, and the devices that are built in.

  \<^bold>\<open>How the parts interact.\<close> The configuration files (DevConfig) describe the regions of the
  address map and the parameters of the devices. The loader (Loader) creates the regions, checks the ELF
  image (ElfImageCheck) before it reads it, copies its segments into the regions and fills the symbol table
  (SymbolOps). The CPU and the debugger access memory through the bus (Bus), which logs the accesses and
  passes them to the address map (Mpu); a guest allocates from a region with the heap allocator
  (MpuMalloc). Around every clock the callbacks (CpuCallback) test the break and watch points
  (CpuControl), record function entries, frames and profile counts, and stop the CPU thread, which waits for the debugger
  thread (ThreadControl). The debugger reads command lines (Token, DbgParser), runs them
  (DbgExecutor), or serves the requests of a remote debugger (GdbRsp). The serial device
  (SerialFifo) is clocked by the CPU thread and moves bytes between ring buffers (CommBuffer) with two
  threads of its own (Mpthread). A break point on a source line is found in the line table of the image (DwarfLine). A guest
  asks for a system call by storing the address of an argument in a word of its memory, which is looked at in every clock
  (Syscall).

  \<^bold>\<open>Conventions.\<close>
  \<^item> A C struct is a \<open>record\<close>, an enum a \<open>datatype\<close>, an unsigned integer a word of its
    width, so that arithmetic wraps around as in C. Addresses have 32 bits, the host is a 64-bit little-endian
    machine, and the UNIX build is modelled.
  \<^item> Operations that change a state take and return it. \<open>None\<close> is undefined behaviour (an access
    outside an object, an uninitialised pointer) or a failed \<open>ASSERT\<close>; an error that the code reports is
    a value of \<open>Std_ReturnType\<close>. Messages on the standard output are not modelled.
  \<^item> Host memory is a list of allocated blocks with pointers as pairs of block and offset (Mpu), so
    that regions may share memory.
  \<^item> Code outside the repository is a parameter: the instruction set and the permissions of the target, the
    operations of external devices, \<open>malloc\<close>, files, the environment, sockets.
  \<^item> Loops are recursive functions with a proof of termination (over the rest of a list, a text or a
    counter); no fuel is used. Loops that end only when the host does its part (an interrupted wait, a directory, a pipe) are
    partial functions into \<open>option\<close>. Threads are inductive step relations whose steps are the pieces of code
    between two points at which another thread can be noticed; the theorems hold for all interleavings.

  \<^bold>\<open>Theories and what their lemmas show.\<close>
  \<^item> Prelude: the types of integers, return codes, buffers, searches and list lemmas that the other theories share.
  \<^item> CommBuffer (src/src/lib/comm_buffer.c): the ring buffer. It refines a bounded queue; the locale
    \<open>bounded_fifo\<close> is this interface, interpreted on the ring buffer.
  \<^item> Mpu, MpuLaws, MpuFlat (src/src/device/mpu/mpu.c), Bus (src/src/bus): the tables of regions, the cached
    searches, the accesses of each width, pointers into host memory, the access log. On a well-formed map no access
    leaves its block; the caches are transparent; successful accesses refine a flat memory of bytes; writes
    respect permissions and read-only regions. The locale \<open>byte_store\<close> is what the clients of the
    bus use to move byte strings.
  \<^item> MpuMalloc, MpuMallocLaws (src/src/device/mpu/mpu_malloc.c): the heap of the guest, its units, bitmaps and size
    classes. Allocation and release act on a set of disjoint aligned blocks.
  \<^item> ElfImage, ElfImageCheck, ElfImageLaws (src/src/lib/loader/elf_image_check.c), Loader, LoaderLaws
    (src/src/device/mpu/loader/loader.c): the structures of ELF32 and ELF64, the bounds check (exact), the creation of regions,
    the copying of segments and the reset.
  \<^item> SymbolOps, SymbolLaws (src/src/lib/symbol_ops.c): the symbol table with its sorted index; the indexed lookup
    agrees with a search of the whole table.
  \<^item> CpuControl, CpuControlLaws, CpuRecordLaws, CpuCallback (src/src/debugger/executor/cpu_control): break points,
    watch points, debug modes, the function trace, stack frames, profiles, access counts, and what happens
    before and after a clock.
  \<^item> ThreadControl (dbg_cpu_thread_control.c): the hand-over between the CPU thread and the debugger thread; no
    wake-up is lost and a stop is really a stop.
  \<^item> CString, GdbRsp, GdbRspLaws (src/src/debugger/rsp/gdb_rsp.c): C strings and number formats; the packets,
    requests and the session of the remote server. Packets survive framing, a damaged packet is refused, every request
    is answered, an interrupt stops the target.
  \<^item> Token, TokenLaws (src/src/lib/token.c), DbgParser, DbgLaws (dbg_std_parser.c), DbgExecutor,
    DbgSession (dbg_std_executor.c, main.cpp): from a line to its words, its command and the effect of it. The
    splitter returns the words of the line; no line means two commands; no session leaves every core without debugging.
  \<^item> DevConfig, DevConfigLaws (src/src/main/cpuemu.cpp): the configuration files; they are read back as they were written.
  \<^item> Mpthread, SerialFifo, SerialFifoLaws (src/src/device/peripheral): the threads of devices and the serial device;
    no byte is lost, duplicated or reordered in any interleaving, and every transmitted byte can be sent.
  \<^item> DwarfLine, DwarfLineLaws (src/src/lib/dwarf/elf_dwarf_line.c, file_address_mapping.c, elf_dwarf_util.c): the numbers, headers and opcodes of
    the section .debug_line, the state machine that gives the rows, and the look-ups between addresses and lines. The line
    table has the rows of its programs; the row found for an address is the nearest one.
  \<^item> Syscall, SyscallLaws (src/src/device/peripheral/athrill_syscall_device.c, athrill_device.c, src/apl/include/athrill_syscall.h): the thirty
    system calls, their dispatcher, the tables of descriptors and directories, and the clock of the device, with the host
    calls as a parameter. No request changes the shape of the state, and the flags of \<open>open\<close> reach the host.
  \<^item> This theory: the composition of the command line, the parser, the line table and the break points with the CPU.

  \<^bold>\<open>Not modelled.\<close> The run loops and the pacing of the CPU thread, which call the instruction set; output
  and help texts; the reader of DWARF types and the printing of variables, which only feed output; the variant of the system
  call device with an external serial line (ENABLE_EXTERNAL_BT_SERIAL) and the wrappers on the side of the guest; the calls into
  shared libraries; sockets and the operating system layers; the Hakoniwa asset and the mROS client, which are front ends to other programs.
\<close>

section \<open>From a command line to a stop\<close>

text \<open>The line that sets a break point at an address, as the debugger reads it.\<close>

definition break_line :: "uint32 \<Rightarrow> string" where
  "break_line addr = ''b 0x'' @ digits_of 16 (unat addr)"

lemma break_line_words: "words (break_line addr) = [''b'', ''0x'' @ digits_of 16 (unat addr)]"
proof -
  have "no_delimiter ''b''" by (simp add: no_delimiter_def is_delimiter_def isspace_def NUL_def)
  from words_then [OF this blank_delimiter(1), of "hex_text addr"] words_single [OF number_words(2), of addr] show ?thesis
    by (simp add: break_line_def hex_text_def)
qed

text \<open>The line is the command that sets a permanent break point at the address.\<close>

lemma break_line_command:
  assumes "env_ok env"
  obtains tc where "token_split (pe_buffer env) (pe_tokens env) (break_line addr) = Some (STD_E_OK, tc)"
    "\<And>arg. parse_first (dbg_cmd_parser_std_table env) arg tc = Some (accept DBG_CMD_STD_ID_BREAK Run_break
       (Break_args \<lparr>br_type = DBG_CMD_BBREAK_SET, br_break_addr = addr, br_symbol = zero_string, br_line = 0\<rparr>) arg)"
proof -
  let ?hex = "''0x'' @ digits_of 16 (unat addr)"
  have "unat addr < 2 ^ LENGTH(32)" by (rule unsigned_less)
  then have v: "unat addr < 2 ^ 32" "unat addr < 16 ^ Suc 7" by simp_all
  have all: "\<forall>w\<in>set [''b'', ?hex]. length w < TOKEN_STRING_MAX_SIZE" "length [''b'', ?hex] \<le> 128"
    using digits_of_length [OF _ v(2)] by (simp_all add: TOKEN_STRING_MAX_SIZE_def)
  obtain tc where tc: "token_split (pe_buffer env) (pe_tokens env) (break_line addr) = Some (STD_E_OK, tc)"
    "tc_num tc = of_nat (length [''b'', ?hex])" "\<And>i. i < length [''b'', ?hex] \<Longrightarrow> token_is ([''b'', ?hex] ! i) (tok tc i)"
    using line_tokens [OF assms break_line_words all] by blast
  have num: "tc_num tc = 2" using tc(2) by simp
  have t: "token_is ''b'' (tok tc 0)" "token_is ?hex (tok tc (Suc 0))" using tc(3) [of 0] tc(3) [of 1] by simp_all
  have b: "dec_number ''b'' = None" "hex_number ''b'' = None" "is_name ''b''" by (simp_all add: number_eval is_name_def NUL_def)
  note t0 = string_token [OF t(1) b]
  have t1: "tok_type tc (Suc 0) = TOKEN_TYPE_VALUE_HEX" "tok_value tc (Suc 0) = addr"
    using t(2) number_texts(3) [of "unat addr"] number_texts(4) [OF v(1)] by (simp_all add: token_is_def)
  have "parse_first (dbg_cmd_parser_std_table env) arg tc = Some (accept DBG_CMD_STD_ID_BREAK Run_break
       (Break_args \<lparr>br_type = DBG_CMD_BBREAK_SET, br_break_addr = addr, br_symbol = zero_string, br_line = 0\<rparr>) arg)" for arg
    by (simp add: dbg_cmd_parser_std_table_def dbg_parse_break_def command_names num t0 t1 is_name_def NUL_def accept_def)
  then show thesis using that tc(1) by blast
qed

lemma sample_dbg_ready:
  "break_inv (dx_ctl sample_dbg)" "breaks_distinct (dx_ctl sample_dbg)" "cpuctrl_is_debug_mode (dx_ctl sample_dbg)"
  "search_free_break_point_space (cc_break_points (dx_ctl sample_dbg)) \<noteq> None"
proof -
  have c: "cc_break_points (dx_ctl sample_dbg) = cc_break_points (cpuctrl_static 2 example_symbols)"
    "cc_break_points_num (dx_ctl sample_dbg) = cc_break_points_num (cpuctrl_static 2 example_symbols)"
    by (simp_all add: sample_dbg_def)
  show "break_inv (dx_ctl sample_dbg)" using static_break_inv [of 2 example_symbols] by (simp add: break_inv_def c)
  show "breaks_distinct (dx_ctl sample_dbg)"
    by (auto simp: breaks_distinct_def c static_break_points nth_Cons DBG_CPU_CONTROL_BREAK_SETSIZE_def split: nat.splits)
  show "cpuctrl_is_debug_mode (dx_ctl sample_dbg)" by (simp add: sample_dbg_def cpuctrl_is_debug_mode_def cpuctrl_static_def)
  show "search_free_break_point_space (cc_break_points (dx_ctl sample_dbg)) \<noteq> None"
    by (simp add: c static_break_points replicate_127 search_free_break_point_space_def)
qed

text \<open>
  C37: a break point typed at the command line stops the CPU. In debug mode, for every address, the
  line \<open>b\<close> with the address in hexadecimal is always read and run to its end. If it is
  answered with \<open>OK\<close>, then the addresses at which the CPU stops are the ones before and the
  new one; if it is answered with \<open>NG\<close>, then the table of break points is full and the
  control state is as before.
\<close>

theorem break_line_sets_break_point:
  assumes "env_ok penv" "break_inv (dx_ctl st)" "breaks_distinct (dx_ctl st)" "cpuctrl_is_debug_mode (dx_ctl st)"
  shows "\<exists>ps' st' ok. cui_line penv env (break_line addr) (ps, st) = Some (ps', st') \<and>
    dx_replies st' = dx_replies st @ [if ok then ''OK'' else ''NG''] \<and>
    (if ok then \<forall>x. cpuctrl_is_break_point x (dx_ctl st') \<longleftrightarrow> cpuctrl_is_break_point x (dx_ctl st) \<or> x = addr
     else dx_ctl st' = dx_ctl st \<and> search_free_break_point_space (cc_break_points (dx_ctl st)) = None)"
proof -
  obtain tc where tc: "token_split (pe_buffer penv) (pe_tokens penv) (break_line addr) = Some (STD_E_OK, tc)"
    "\<And>arg. parse_first (dbg_cmd_parser_std_table penv) arg tc = Some (accept DBG_CMD_STD_ID_BREAK Run_break
       (Break_args \<lparr>br_type = DBG_CMD_BBREAK_SET, br_break_addr = addr, br_symbol = zero_string, br_line = 0\<rparr>) arg)"
    using break_line_command [OF assms(1)] by blast
  obtain ok ctl' where set: "cpuctrl_set_break addr BREAK_POINT_TYPE_FOREVER (dx_ctl st) = (ok, ctl')" by fastforce
  have "unat addr < 2 ^ LENGTH(32)" by (rule unsigned_less)
  then have "unat addr < 16 ^ Suc 7" by simp
  from digits_of_length [OF _ this] have len: "break_line addr \<noteq> []" "\<not> DBG_CMD_BUFFER_SIZE \<le> length (break_line addr)"
    by (simp_all add: break_line_def DBG_CMD_BUFFER_SIZE_def)
  have "\<exists>ps'. cui_line penv env (break_line addr) (ps, st) = Some (ps', reply (if ok then ''OK'' else ''NG'') (st\<lparr>dx_ctl := ctl'\<rparr>))"
    using tc len set assms(4)
    by (simp add: cui_line_def dbg_parse_def Let_def accept_def can_execute_def run_command_def dbg_std_executor_break_def
        set_break_reply_def)
  then show ?thesis using break_set_hits [OF assms(2,3) set] by (fastforce simp: reply_def split: if_splits)
qed

theorem break_line_sets_break_point_witness:
  "\<exists>ps' st'. cui_line sample_env sample_dbg_env ''b 0x1f00'' (sample_parser, sample_dbg) = Some (ps', st') \<and>
     cpuctrl_is_break_point 0x1f00 (dx_ctl st')"
proof -
  have line: "break_line 0x1f00 = ''b 0x1f00''" by (simp add: break_line_def digits_of.simps hex_digit_def)
  show ?thesis
    using break_line_sets_break_point [OF sample_env_ok sample_dbg_ready(1-3), of sample_dbg_env "0x1f00" sample_parser]
      sample_dbg_ready(4)
    unfolding line by (auto split: if_splits)
qed

section \<open>From a source line to a stop\<close>

text \<open>The line that sets a break point at a line of a source file.\<close>

definition source_break_line :: "string \<Rightarrow> uint32 \<Rightarrow> string" where
  "source_break_line name l = ''b '' @ name @ '' '' @ dec_text l"

lemma source_break_line_words:
  assumes "plain_word name"
  shows "words (source_break_line name l) = [''b'', name, dec_text l]"
proof -
  have b: "no_delimiter ''b''" by (simp add: no_delimiter_def is_delimiter_def isspace_def NUL_def)
  have n: "no_delimiter name" using assms by (simp add: plain_word_def)
  show ?thesis
    using words_then [OF b blank_delimiter(1), of "name @ '' '' @ dec_text l"]
      words_then [OF n blank_delimiter(1), of "dec_text l"] words_single [OF number_words(1), of l]
    by (simp add: source_break_line_def)
qed

lemma source_break_line_command:
  assumes "env_ok env" "plain_word name"
  obtains tc where "token_split (pe_buffer env) (pe_tokens env) (source_break_line name l) = Some (STD_E_OK, tc)"
    "c_string (ts_str (tok_str tc 1)) = name"
    "\<And>arg. parse_first (dbg_cmd_parser_std_table env) arg tc = Some (accept DBG_CMD_STD_ID_BREAK Run_break
       (Break_args \<lparr>br_type = DBG_CMD_BREAK_SET_FILE_LINE, br_break_addr = 0, br_symbol = tok_str tc 1, br_line = l\<rparr>) arg)"
proof -
  have ws: "\<forall>w\<in>set [''b'', name, dec_text l]. length w < TOKEN_STRING_MAX_SIZE" "length [''b'', name, dec_text l] \<le> 128"
    using assms(2) number_words(3) [of l] by (simp_all add: plain_word_def TOKEN_STRING_MAX_SIZE_def)
  obtain tc where tc: "token_split (pe_buffer env) (pe_tokens env) (source_break_line name l) = Some (STD_E_OK, tc)"
    "tc_num tc = of_nat (length [''b'', name, dec_text l])"
    "\<And>i. i < length [''b'', name, dec_text l] \<Longrightarrow> token_is ([''b'', name, dec_text l] ! i) (tok tc i)"
    using line_tokens [OF assms(1) source_break_line_words [OF assms(2)] ws] by blast
  have num: "tc_num tc = 3" using tc(2) by simp
  have t: "token_is ''b'' (tok tc 0)" "token_is name (tok tc 1)" "token_is (dec_text l) (tok tc 2)"
    using tc(3) [of 0] tc(3) [of 1] tc(3) [of 2] by simp_all
  have b: "dec_number ''b'' = None" "hex_number ''b'' = None" "is_name ''b''" by (simp_all add: number_eval is_name_def NUL_def)
  note t0 = string_token [OF t(1) b]
  have t1: "tok_type tc 1 = TOKEN_TYPE_STRING" "c_string (ts_str (tok_str tc 1)) = name"
    using t(2) assms(2) by (simp_all add: token_is_def plain_word_def)
  have t2: "tok_type tc 2 = TOKEN_TYPE_VALUE_DEC" "tok_value tc 2 = l"
    using t(3) number_texts(1) [OF uint32_bounds(1), of l] by (simp_all add: token_is_def dec_text_def)
  have "parse_first (dbg_cmd_parser_std_table env) arg tc = Some (accept DBG_CMD_STD_ID_BREAK Run_break
       (Break_args \<lparr>br_type = DBG_CMD_BREAK_SET_FILE_LINE, br_break_addr = 0, br_symbol = tok_str tc 1, br_line = l\<rparr>) arg)" for arg
    using t1(1) t2 by (simp add: dbg_cmd_parser_std_table_def dbg_parse_break_def command_names num t0 is_name_def NUL_def accept_def)
  then show thesis using that tc(1) t1(2) by blast
qed

text \<open>
  C38: break points on source lines. The program has line number information, encoded as
  DWARF 2 to 4 has it, from which the mapping was built. In debug mode, for every row of its line
  table, the line \<open>b\<close> with the name and the line of the row is read and run to its end. If it is
  answered with \<open>OK\<close>, then the addresses at which the CPU stops are the ones before and an address
  that the line table has for that source line; otherwise the table of break points is full.
\<close>

theorem source_line_break_point:
  assumes "\<forall>u\<in>set units. unit_valid u" "length (units_bytes units) < 2 ^ 32"
    and "file_address_mapping_build m (elf_dwarf_line_load (units_bytes units @ rest)
      (of_nat (length (units_bytes units)))) = Some kvs"
    and "dn_file_addr env = file_address_mapping_get_addr kvs"
    and "(a, v) \<in> set (concat (map unit_rows units))" "plain_word (vf_file v)"
    and "env_ok penv" "break_inv (dx_ctl st)" "breaks_distinct (dx_ctl st)" "cpuctrl_is_debug_mode (dx_ctl st)"
  shows "\<exists>ps' st' ok addr w. cui_line penv env (source_break_line (vf_file v) (vf_line v)) (ps, st) = Some (ps', st') \<and>
    dx_replies st' = dx_replies st @ [if ok then ''OK'' else ''NG''] \<and>
    (addr, w) \<in> set (concat (map unit_rows units)) \<and> vf_file w = vf_file v \<and> vf_line w = vf_line v \<and>
    (if ok then \<forall>x. cpuctrl_is_break_point x (dx_ctl st') \<longleftrightarrow> cpuctrl_is_break_point x (dx_ctl st) \<or> x = addr
     else dx_ctl st' = dx_ctl st \<and> search_free_break_point_space (cc_break_points (dx_ctl st)) = None)"
proof -
  have kvs: "kvs = concat (map unit_rows units)"
    using line_table_built [OF assms(1,2), of m rest] assms(3) by simp
  obtain addr where addr: "file_address_mapping_get_addr kvs (vf_file v) (vf_line v) = Some addr"
    using file_address_mapping_get_addr_finds assms(5) kvs by blast
  obtain w where w: "(addr, w) \<in> set kvs" "vf_file w = vf_file v" "vf_line w = vf_line v"
    using file_address_mapping_get_addr_row [OF addr] by blast
  obtain tc where tc: "token_split (pe_buffer penv) (pe_tokens penv) (source_break_line (vf_file v) (vf_line v)) = Some (STD_E_OK, tc)"
    "c_string (ts_str (tok_str tc 1)) = vf_file v"
    "\<And>arg. parse_first (dbg_cmd_parser_std_table penv) arg tc = Some (accept DBG_CMD_STD_ID_BREAK Run_break
       (Break_args \<lparr>br_type = DBG_CMD_BREAK_SET_FILE_LINE, br_break_addr = 0, br_symbol = tok_str tc 1, br_line = vf_line v\<rparr>) arg)"
    using source_break_line_command [OF assms(7,6)] by blast
  obtain ok ctl' where set: "cpuctrl_set_break addr BREAK_POINT_TYPE_FOREVER (dx_ctl st) = (ok, ctl')" by fastforce
  have len: "source_break_line (vf_file v) (vf_line v) \<noteq> []"
    "\<not> DBG_CMD_BUFFER_SIZE \<le> length (source_break_line (vf_file v) (vf_line v))"
    using assms(6) number_words(3) [of "vf_line v"] by (simp_all add: source_break_line_def plain_word_def DBG_CMD_BUFFER_SIZE_def)
  have "\<exists>ps'. cui_line penv env (source_break_line (vf_file v) (vf_line v)) (ps, st) =
      Some (ps', reply (if ok then ''OK'' else ''NG'') (st\<lparr>dx_ctl := ctl'\<rparr>))"
    using tc len set assms(4,10) addr
    by (simp add: cui_line_def dbg_parse_def Let_def accept_def can_execute_def run_command_def dbg_std_executor_break_def
        set_break_reply_def)
  then obtain ps' where run: "cui_line penv env (source_break_line (vf_file v) (vf_line v)) (ps, st) =
      Some (ps', reply (if ok then ''OK'' else ''NG'') (st\<lparr>dx_ctl := ctl'\<rparr>))" by blast
  have hits: "if ok then \<forall>x. cpuctrl_is_break_point x ctl' \<longleftrightarrow> cpuctrl_is_break_point x (dx_ctl st) \<or> x = addr
     else ctl' = dx_ctl st \<and> search_free_break_point_space (cc_break_points (dx_ctl st)) = None"
    using break_set_hits [OF assms(8,9) set] by (simp split: if_splits)
  show ?thesis
    by (rule exI [of _ ps'], rule exI [of _ "reply (if ok then ''OK'' else ''NG'') (st\<lparr>dx_ctl := ctl'\<rparr>)"], rule exI [of _ ok],
        rule exI [of _ addr], rule exI [of _ w])
      (use run hits w in \<open>simp add: kvs reply_def\<close>)
qed

theorem source_line_break_point_witness:
  "\<exists>m kvs ps' st'. file_address_mapping_build m (elf_dwarf_line_load (units_bytes [sample_unit]) 61) = Some kvs \<and>
     cui_line sample_env (sample_dbg_env\<lparr>dn_file_addr := file_address_mapping_get_addr kvs\<rparr>)
        ''b main.c 301'' (sample_parser, sample_dbg) = Some (ps', st') \<and> cpuctrl_is_break_point 0x100a (dx_ctl st')"
proof -
  let ?v = "\<lparr>vf_dir = ''src'', vf_file = ''main.c'', vf_line = 301\<rparr>"
  define kvs where "kvs = concat (map unit_rows [sample_unit])"
  define env where "env = sample_dbg_env\<lparr>dn_file_addr := file_address_mapping_get_addr kvs\<rparr>"
  have line: "source_break_line ''main.c'' 301 = ''b main.c 301''"
    by (simp add: source_break_line_def dec_text_def digits_of.simps hex_digit_def)
  have row: "(0x100a, ?v) \<in> set (concat (map unit_rows [sample_unit]))" by (simp add: sample_unit_rows)
  have name: "plain_word (vf_file ?v)" by (simp add: plain_word_def no_delimiter_def is_delimiter_def isspace_def NUL_def number_eval)
  have valid: "\<forall>u\<in>set [sample_unit]. unit_valid u" "length (units_bytes [sample_unit]) < 2 ^ 32"
    using sample_unit_valid by (simp_all add: sample_unit_bytes)
  have built: "file_address_mapping_build m
      (elf_dwarf_line_load (units_bytes [sample_unit] @ []) (of_nat (length (units_bytes [sample_unit])))) = Some kvs" for m
    unfolding kvs_def by (rule line_table_built [OF valid])
  have look: "dn_file_addr env = file_address_mapping_get_addr kvs" by (simp add: env_def)
  obtain ps' st' ok addr w where
    run: "cui_line sample_env env (source_break_line (vf_file ?v) (vf_line ?v)) (sample_parser, sample_dbg) = Some (ps', st')"
    and w: "(addr, w) \<in> set (concat (map unit_rows [sample_unit]))" "vf_line w = vf_line ?v"
    and hits: "if ok then \<forall>x. cpuctrl_is_break_point x (dx_ctl st') \<longleftrightarrow> cpuctrl_is_break_point x (dx_ctl sample_dbg) \<or> x = addr
     else dx_ctl st' = dx_ctl sample_dbg \<and> search_free_break_point_space (cc_break_points (dx_ctl sample_dbg)) = None"
    using source_line_break_point [OF valid built look row name sample_env_ok sample_dbg_ready(1-3), of sample_parser]
    by blast
  have "addr = 0x100a" using w by (auto simp: sample_unit_rows)
  with hits sample_dbg_ready(4) have "cpuctrl_is_break_point 0x100a (dx_ctl st')" by (simp split: if_splits)
  then show ?thesis
    using run built by (intro exI [of _ undefined] exI [of _ kvs] exI [of _ ps'] exI [of _ st'])
      (simp add: line env_def sample_unit_bytes)
qed

end
